(* ===== verification/Prelude.thy ===== *)
theory Prelude
  imports Main
begin

text \<open>
  The shared vocabulary of the development: what a call of a Soroban contract can do
  (return, return an error, or trap), the fixed-width integers of Rust as the contracts
  use them, the part of the host environment the contracts read, and the generic lemmas
  about them.

  A contract function is a HOL function from the contract's state to an \<open>outcome\<close>.
  \<open>Ok\<close> carries the result and, for a function that writes storage, the new state;
  \<open>Err\<close> is the \<open>Err\<close> of Rust's \<open>Result\<close>; \<open>Panic\<close> is a trap: a Rust
  panic, a failed \<open>unwrap\<close>, a failed \<open>require_auth\<close> or an arithmetic overflow
  (the workspace builds with \<open>overflow-checks = true\<close>, see \<open>src/contracts/Cargo.toml\<close>).
  The host rolls back every storage write of an invocation that returns an error or traps,
  so neither \<open>Err\<close> nor \<open>Panic\<close> carries a state.
\<close>

section \<open>Outcomes of a contract call\<close>

datatype ('a, 'e) outcome = Ok 'a | Err 'e | Panic

text \<open>Rust's \<open>?\<close> operator: go on with the value, or leave with the error.\<close>

primrec and_then :: "('a, 'e) outcome \<Rightarrow> ('a \<Rightarrow> ('b, 'e) outcome) \<Rightarrow> ('b, 'e) outcome" where
  "and_then (Ok x) f = f x"
| "and_then (Err e) f = Err e"
| "and_then Panic f = Panic"

text \<open>An early \<open>return Err(e)\<close> unless the condition holds, and a trap unless it holds.\<close>

definition ensure :: "bool \<Rightarrow> 'e \<Rightarrow> (unit, 'e) outcome" where
  "ensure b e = (if b then Ok () else Err e)"

definition panic_unless :: "bool \<Rightarrow> (unit, 'e) outcome" where
  "panic_unless b = (if b then Ok () else Panic)"

text \<open>\<open>Option::ok_or\<close>, \<open>Option::unwrap\<close> and \<open>Option::unwrap_or\<close>.\<close>

definition ok_or :: "'a option \<Rightarrow> 'e \<Rightarrow> ('a, 'e) outcome" where
  "ok_or x e = (case x of None \<Rightarrow> Err e | Some v \<Rightarrow> Ok v)"

definition unwrap :: "'a option \<Rightarrow> ('a, 'e) outcome" where
  "unwrap x = (case x of None \<Rightarrow> Panic | Some v \<Rightarrow> Ok v)"

definition unwrap_or :: "'a \<Rightarrow> 'a option \<Rightarrow> 'a" where
  "unwrap_or d x = (case x of None \<Rightarrow> d | Some v \<Rightarrow> v)"

text \<open>A \<open>for\<close> loop whose body may leave the function with an error.\<close>

primrec fold_outcome :: "('x \<Rightarrow> 's \<Rightarrow> ('s, 'e) outcome) \<Rightarrow> 'x list \<Rightarrow> 's \<Rightarrow> ('s, 'e) outcome" where
  "fold_outcome f [] s = Ok s"
| "fold_outcome f (x # xs) s = and_then (f x s) (fold_outcome f xs)"

definition is_Ok :: "('a, 'e) outcome \<Rightarrow> bool" where
  "is_Ok r = (case r of Ok _ \<Rightarrow> True | Err _ \<Rightarrow> False | Panic \<Rightarrow> False)"

lemma and_then_eq_Ok [simp]: "and_then m f = Ok y \<longleftrightarrow> (\<exists>x. m = Ok x \<and> f x = Ok y)"
  by (cases m) auto

lemma and_then_eq_Err: "and_then m f = Err e \<longleftrightarrow> m = Err e \<or> (\<exists>x. m = Ok x \<and> f x = Err e)"
  by (cases m) auto

lemma and_then_eq_Panic: "and_then m f = Panic \<longleftrightarrow> m = Panic \<or> (\<exists>x. m = Ok x \<and> f x = Panic)"
  by (cases m) auto

lemma ensure_eq_Ok [simp]: "ensure b e = Ok u \<longleftrightarrow> b"
  by (simp add: ensure_def)

lemma ensure_True [simp]: "b \<Longrightarrow> ensure b e = Ok ()"
  by (simp add: ensure_def)

lemma ensure_False [simp]: "\<not> b \<Longrightarrow> ensure b e = Err e"
  by (simp add: ensure_def)

lemma ensure_not_Panic [simp]: "ensure b e \<noteq> Panic"
  by (simp add: ensure_def)

lemma panic_unless_eq_Ok [simp]: "panic_unless b = Ok u \<longleftrightarrow> b"
  by (simp add: panic_unless_def)

lemma panic_unless_True [simp]: "b \<Longrightarrow> panic_unless b = Ok ()"
  by (simp add: panic_unless_def)

lemma panic_unless_False [simp]: "\<not> b \<Longrightarrow> panic_unless b = Panic"
  by (simp add: panic_unless_def)

lemma ok_or_eq_Ok [simp]: "ok_or x e = Ok v \<longleftrightarrow> x = Some v"
  by (simp add: ok_or_def split: option.splits)

lemma ok_or_simps [simp]: "ok_or (Some v) e = Ok v" "ok_or None e = Err e"
  by (simp_all add: ok_or_def)

lemma unwrap_eq_Ok [simp]: "unwrap x = Ok v \<longleftrightarrow> x = Some v"
  by (simp add: unwrap_def split: option.splits)

lemma unwrap_simps [simp]: "unwrap (Some v) = Ok v" "unwrap None = Panic"
  by (simp_all add: unwrap_def)

lemma unwrap_or_simps [simp]: "unwrap_or d (Some v) = v" "unwrap_or d None = d"
  by (simp_all add: unwrap_or_def)

lemma is_Ok_iff: "is_Ok r \<longleftrightarrow> (\<exists>x. r = Ok x)"
  by (cases r) (auto simp: is_Ok_def)

text \<open>What every successful pass of a loop body keeps, the loop keeps.\<close>

lemma fold_outcome_invariant:
  assumes "fold_outcome f xs s = Ok t" and "P s"
    and "\<And>x u v. x \<in> set xs \<Longrightarrow> P u \<Longrightarrow> f x u = Ok v \<Longrightarrow> P v"
  shows "P t"
  using assms by (induction xs arbitrary: s) auto

lemma fold_outcome_append:
  "fold_outcome f (xs @ ys) s = and_then (fold_outcome f xs s) (fold_outcome f ys)"
proof (induction xs arbitrary: s)
  case (Cons x xs)
  then show ?case by (cases "f x s") simp_all
qed simp

text \<open>A call that returns a value and a state, run for its effect on the state.\<close>

definition effect :: "('r \<times> 's, 'e) outcome \<Rightarrow> ('s, 'e) outcome" where
  "effect m = and_then m (\<lambda>(r, s). Ok s)"

lemma effect_eq_Ok [simp]: "effect m = Ok t \<longleftrightarrow> (\<exists>r. m = Ok (r, t))"
  by (auto simp: effect_def)

section \<open>Fixed-width integers\<close>

text \<open>
  An unsigned integer of Rust is a \<open>nat\<close> and a signed one an \<open>int\<close>; the width is
  written out in every operation that can leave it. The plain operators trap on overflow,
  \<open>checked_*\<close> return an \<open>Option\<close>, \<open>saturating_*\<close> clamp, and a narrowing
  \<open>as\<close> cast keeps the low bits.
\<close>

definition u32_max :: nat where "u32_max = 2 ^ 32 - 1"
definition u64_max :: nat where "u64_max = 2 ^ 64 - 1"
definition u128_max :: nat where "u128_max = 2 ^ 128 - 1"
definition i128_max :: int where "i128_max = 2 ^ 127 - 1"
definition i128_min :: int where "i128_min = - (2 ^ 127)"

definition u64_add :: "nat \<Rightarrow> nat \<Rightarrow> (nat, 'e) outcome" where
  "u64_add a b = (if a + b \<le> u64_max then Ok (a + b) else Panic)"

definition u32_add :: "nat \<Rightarrow> nat \<Rightarrow> (nat, 'e) outcome" where
  "u32_add a b = (if a + b \<le> u32_max then Ok (a + b) else Panic)"

definition u64_sub :: "nat \<Rightarrow> nat \<Rightarrow> (nat, 'e) outcome" where
  "u64_sub a b = (if b \<le> a then Ok (a - b) else Panic)"

definition u32_sub :: "nat \<Rightarrow> nat \<Rightarrow> (nat, 'e) outcome" where
  "u32_sub a b = (if b \<le> a then Ok (a - b) else Panic)"

definition i128_add :: "int \<Rightarrow> int \<Rightarrow> (int, 'e) outcome" where
  "i128_add a b = (if i128_min \<le> a + b \<and> a + b \<le> i128_max then Ok (a + b) else Panic)"

definition i128_sub :: "int \<Rightarrow> int \<Rightarrow> (int, 'e) outcome" where
  "i128_sub a b = (if i128_min \<le> a - b \<and> a - b \<le> i128_max then Ok (a - b) else Panic)"

definition checked_add_u64 :: "nat \<Rightarrow> nat \<Rightarrow> nat option" where
  "checked_add_u64 a b = (if a + b \<le> u64_max then Some (a + b) else None)"

definition checked_add_u32 :: "nat \<Rightarrow> nat \<Rightarrow> nat option" where
  "checked_add_u32 a b = (if a + b \<le> u32_max then Some (a + b) else None)"

definition checked_sub :: "nat \<Rightarrow> nat \<Rightarrow> nat option" where
  "checked_sub a b = (if b \<le> a then Some (a - b) else None)"

definition checked_mul_u64 :: "nat \<Rightarrow> nat \<Rightarrow> nat option" where
  "checked_mul_u64 a b = (if a * b \<le> u64_max then Some (a * b) else None)"

definition checked_add_u128 :: "nat \<Rightarrow> nat \<Rightarrow> nat option" where
  "checked_add_u128 a b = (if a + b \<le> u128_max then Some (a + b) else None)"

definition checked_mul_u128 :: "nat \<Rightarrow> nat \<Rightarrow> nat option" where
  "checked_mul_u128 a b = (if a * b \<le> u128_max then Some (a * b) else None)"

definition checked_div :: "nat \<Rightarrow> nat \<Rightarrow> nat option" where
  "checked_div a b = (if b = 0 then None else Some (a div b))"

definition checked_add_i128 :: "int \<Rightarrow> int \<Rightarrow> int option" where
  "checked_add_i128 a b = (if i128_min \<le> a + b \<and> a + b \<le> i128_max then Some (a + b) else None)"

definition saturating_add_u64 :: "nat \<Rightarrow> nat \<Rightarrow> nat" where
  "saturating_add_u64 a b = min (a + b) u64_max"

definition saturating_add_u32 :: "nat \<Rightarrow> nat \<Rightarrow> nat" where
  "saturating_add_u32 a b = min (a + b) u32_max"

definition saturating_mul_u32 :: "nat \<Rightarrow> nat \<Rightarrow> nat" where
  "saturating_mul_u32 a b = min (a * b) u32_max"

definition saturating_mul_u64 :: "nat \<Rightarrow> nat \<Rightarrow> nat" where
  "saturating_mul_u64 a b = min (a * b) u64_max"

definition saturating_add_u128 :: "nat \<Rightarrow> nat \<Rightarrow> nat" where
  "saturating_add_u128 a b = min (a + b) u128_max"

definition saturating_mul_u128 :: "nat \<Rightarrow> nat \<Rightarrow> nat" where
  "saturating_mul_u128 a b = min (a * b) u128_max"

text \<open>\<open>saturating_sub\<close> on an unsigned type is the subtraction of \<open>nat\<close>.\<close>

definition saturating_sub :: "nat \<Rightarrow> nat \<Rightarrow> nat" where
  "saturating_sub a b = a - b"

definition as_u64 :: "nat \<Rightarrow> nat" where
  "as_u64 x = x mod 2 ^ 64"

definition as_u32 :: "nat \<Rightarrow> nat" where
  "as_u32 x = x mod 2 ^ 32"

text \<open>
  The idiom \<open>(a as u128).checked_mul(b as u128).and_then(|v| v.checked_div(d))\<close>, which the
  contracts use for every proportional share, before its \<open>unwrap_or\<close> or \<open>ok_or\<close>.
\<close>

definition mul_then_div :: "nat \<Rightarrow> nat \<Rightarrow> nat \<Rightarrow> nat option" where
  "mul_then_div a b d = Option.bind (checked_mul_u128 a b) (\<lambda>v. checked_div v d)"

lemma u64_add_eq_Ok [simp]: "u64_add a b = Ok c \<longleftrightarrow> c = a + b \<and> a + b \<le> u64_max"
  by (auto simp: u64_add_def)

lemma u32_add_eq_Ok [simp]: "u32_add a b = Ok c \<longleftrightarrow> c = a + b \<and> a + b \<le> u32_max"
  by (auto simp: u32_add_def)

lemma u64_sub_eq_Ok [simp]: "u64_sub a b = Ok c \<longleftrightarrow> c = a - b \<and> b \<le> a"
  by (auto simp: u64_sub_def)

lemma u32_sub_eq_Ok [simp]: "u32_sub a b = Ok c \<longleftrightarrow> c = a - b \<and> b \<le> a"
  by (auto simp: u32_sub_def)

lemma i128_add_eq_Ok [simp]:
  "i128_add a b = Ok c \<longleftrightarrow> c = a + b \<and> i128_min \<le> a + b \<and> a + b \<le> i128_max"
  by (auto simp: i128_add_def)

lemma i128_sub_eq_Ok [simp]:
  "i128_sub a b = Ok c \<longleftrightarrow> c = a - b \<and> i128_min \<le> a - b \<and> a - b \<le> i128_max"
  by (auto simp: i128_sub_def)

lemma saturating_sub_eq [simp]: "saturating_sub a b = a - b"
  by (simp add: saturating_sub_def)

lemma as_u64_bound: "as_u64 x \<le> u64_max"
  unfolding as_u64_def u64_max_def by (simp add: less_Suc_eq_le [symmetric])

lemma as_u32_bound: "as_u32 x \<le> u32_max"
  unfolding as_u32_def u32_max_def by (simp add: less_Suc_eq_le [symmetric])

lemma as_u64_id [simp]: "x \<le> u64_max \<Longrightarrow> as_u64 x = x"
  unfolding as_u64_def u64_max_def by simp

lemma as_u32_id [simp]: "x \<le> u32_max \<Longrightarrow> as_u32 x = x"
  unfolding as_u32_def u32_max_def by simp

lemma as_u64_le: "as_u64 x \<le> x"
  by (simp add: as_u64_def)

lemma u32_le_u64: "u32_max \<le> u64_max"
  by (simp add: u32_max_def u64_max_def)

lemma saturating_add_u64_bound: "saturating_add_u64 a b \<le> u64_max"
  by (simp add: saturating_add_u64_def)

lemma saturating_add_u32_bound: "saturating_add_u32 a b \<le> u32_max"
  by (simp add: saturating_add_u32_def)

text \<open>A product of two 64-bit values fits in 128 bits, so the idiom never loses it.\<close>

lemma u64_mult_bound:
  assumes "a \<le> u64_max" and "b \<le> u64_max"
  shows "a * b \<le> u128_max"
proof -
  have "a * b \<le> u64_max * u64_max" using assms by (rule mult_le_mono)
  also have "\<dots> \<le> u128_max" by (simp add: u64_max_def u128_max_def)
  finally show ?thesis .
qed

lemma mul_then_div_u64:
  "a \<le> u64_max \<Longrightarrow> b \<le> u64_max \<Longrightarrow> 0 < d \<Longrightarrow> mul_then_div a b d = Some (a * b div d)"
  by (simp add: mul_then_div_def checked_mul_u128_def checked_div_def u64_mult_bound)

lemma mul_then_div_Some_D:
  "mul_then_div a b d = Some v \<Longrightarrow> v = a * b div d \<and> 0 < d"
  by (auto simp: mul_then_div_def checked_mul_u128_def checked_div_def
      split: if_splits option.splits bind_splits)

text \<open>A share computed with a factor that does not exceed its denominator never exceeds the whole.\<close>

lemma mult_div_le:
  fixes a b d :: nat
  assumes "b \<le> d"
  shows "a * b div d \<le> a"
proof (cases "d = 0")
  case False
  have "a * b div d \<le> a * d div d" using assms by (intro div_le_mono mult_le_mono2)
  with False show ?thesis by simp
qed simp

lemma mul_then_div_le:
  assumes "b \<le> d"
  shows "unwrap_or 0 (mul_then_div a b d) \<le> a"
proof (cases "mul_then_div a b d")
  case (Some v)
  then have "v = a * b div d" by (blast dest: mul_then_div_Some_D)
  then show ?thesis using assms Some mult_div_le by simp
qed simp

section \<open>The host environment\<close>

text \<open>
  An address is an opaque identifier. A context is what a contract reads of the host during
  one invocation: the ledger's close time and sequence number, the contract's own address, and
  for which addresses \<open>require_auth\<close> succeeds in this invocation.
\<close>

datatype address = Addr nat

type_synonym bytes32 = "nat list"

record ctx =
  timestamp :: nat
  sequence :: nat
  current_contract_address :: address
  authorized :: "address \<Rightarrow> bool"

definition require_auth :: "ctx \<Rightarrow> address \<Rightarrow> (unit, 'e) outcome" where
  "require_auth cx a = panic_unless (authorized cx a)"

lemma require_auth_eq_Ok [simp]: "require_auth cx a = Ok u \<longleftrightarrow> authorized cx a"
  by (simp add: require_auth_def)

lemma require_auth_simps [simp]:
  "authorized cx a \<Longrightarrow> require_auth cx a = Ok ()"
  "\<not> authorized cx a \<Longrightarrow> require_auth cx a = Panic"
  by (simp_all add: require_auth_def)

end
