(* ===== verification/Mock_Token.thy ===== *)
theory Mock_Token
  imports Prelude
begin

text \<open>
  The issued asset \<open>src/contracts/mock-token/src/lib.rs\<close>, the SEP-41 token the other
  contracts run against: balances and total supply in instance storage, \<open>transfer\<close>,
  \<open>mint\<close> and \<open>burn\<close>. Amounts are \<open>i128\<close>, hence \<open>int\<close> with the range
  written out.
\<close>

section \<open>State and operations\<close>

datatype token_error = NegativeAmount | InsufficientBalance | Overflow | ExceedsMaxSupply

record token_state =
  tk_balance :: "address \<Rightarrow> int option"
  tk_total_supply :: "int option"

definition MAX_SUPPLY :: int where "MAX_SUPPLY = 1000000000000000000"

definition token_balance :: "token_state \<Rightarrow> address \<Rightarrow> int" where
  "token_balance t a = unwrap_or 0 (tk_balance t a)"

definition token_decimals :: nat where "token_decimals = 18"

definition token_total_supply :: "token_state \<Rightarrow> int" where
  "token_total_supply t = unwrap_or 0 (tk_total_supply t)"

definition token_transfer ::
  "ctx \<Rightarrow> address \<Rightarrow> address \<Rightarrow> int \<Rightarrow> token_state \<Rightarrow> (token_state, token_error) outcome" where
  "token_transfer cx frm dst amount t =
     and_then (require_auth cx frm) (\<lambda>_.
     if amount < 0 then Err NegativeAmount
     else let balance_from = token_balance t frm; balance_to = token_balance t dst
     in if balance_from < amount then Err InsufficientBalance
     else if checked_add_i128 balance_to amount = None then Err Overflow
     else and_then (i128_sub balance_from amount) (\<lambda>new_from.
          and_then (i128_add balance_to amount) (\<lambda>new_to.
          let t = t\<lparr>tk_balance := (tk_balance t)(frm \<mapsto> new_from)\<rparr>
          in Ok (t\<lparr>tk_balance := (tk_balance t)(dst \<mapsto> new_to)\<rparr>))))"

definition token_mint :: "address \<Rightarrow> int \<Rightarrow> token_state \<Rightarrow> (token_state, token_error) outcome" where
  "token_mint dst amount t =
     (if amount < 0 then Err NegativeAmount
      else let balance = token_balance t dst; total_supply = token_total_supply t
      in if checked_add_i128 total_supply amount = None then Err Overflow
      else and_then (i128_add total_supply amount) (\<lambda>new_total.
        if new_total > MAX_SUPPLY then Err ExceedsMaxSupply
        else if checked_add_i128 balance amount = None then Err Overflow
        else and_then (i128_add balance amount) (\<lambda>new_balance.
          Ok (t\<lparr>tk_balance := (tk_balance t)(dst \<mapsto> new_balance),
                tk_total_supply := Some new_total\<rparr>))))"

definition token_burn ::
  "ctx \<Rightarrow> address \<Rightarrow> int \<Rightarrow> token_state \<Rightarrow> (token_state, token_error) outcome" where
  "token_burn cx frm amount t =
     and_then (require_auth cx frm) (\<lambda>_.
     if amount < 0 then Err NegativeAmount
     else let balance = token_balance t frm; total_supply = token_total_supply t
     in if balance < amount then Err InsufficientBalance
     else if total_supply < amount then Err InsufficientBalance
     else and_then (i128_sub balance amount) (\<lambda>new_balance.
          and_then (i128_sub total_supply amount) (\<lambda>new_total.
          Ok (t\<lparr>tk_balance := (tk_balance t)(frm \<mapsto> new_balance),
                tk_total_supply := Some new_total\<rparr>))))"

section \<open>What the operations do\<close>

lemma token_balance_upd [simp]:
  "token_balance (t\<lparr>tk_balance := (tk_balance t)(a \<mapsto> n)\<rparr>) b = (if b = a then n else token_balance t b)"
  by (simp add: token_balance_def)

lemma token_transfer_Ok:
  "token_transfer cx frm dst amount t = Ok t' \<longleftrightarrow>
     authorized cx frm \<and> 0 \<le> amount \<and> amount \<le> token_balance t frm \<and>
     i128_min \<le> token_balance t frm - amount \<and> token_balance t frm - amount \<le> i128_max \<and>
     i128_min \<le> token_balance t dst + amount \<and> token_balance t dst + amount \<le> i128_max \<and>
     t' = t\<lparr>tk_balance := (tk_balance t)
       (frm \<mapsto> token_balance t frm - amount, dst \<mapsto> token_balance t dst + amount)\<rparr>"
  by (auto simp: token_transfer_def checked_add_i128_def Let_def split: if_splits)

lemma token_mint_Ok:
  "token_mint dst amount t = Ok t' \<longleftrightarrow>
     0 \<le> amount \<and>
     i128_min \<le> token_total_supply t + amount \<and> token_total_supply t + amount \<le> MAX_SUPPLY \<and>
     i128_min \<le> token_balance t dst + amount \<and> token_balance t dst + amount \<le> i128_max \<and>
     t' = t\<lparr>tk_balance := (tk_balance t)(dst \<mapsto> token_balance t dst + amount),
            tk_total_supply := Some (token_total_supply t + amount)\<rparr>"
  by (auto simp: token_mint_def checked_add_i128_def Let_def MAX_SUPPLY_def i128_max_def
      split: if_splits)

lemma token_burn_Ok:
  "token_burn cx frm amount t = Ok t' \<longleftrightarrow>
     authorized cx frm \<and> 0 \<le> amount \<and> amount \<le> token_balance t frm \<and>
     amount \<le> token_total_supply t \<and>
     token_balance t frm - amount \<le> i128_max \<and> token_total_supply t - amount \<le> i128_max \<and>
     t' = t\<lparr>tk_balance := (tk_balance t)(frm \<mapsto> token_balance t frm - amount),
            tk_total_supply := Some (token_total_supply t - amount)\<rparr>"
  by (auto simp: token_burn_def i128_min_def Let_def split: if_splits)

section \<open>The supply invariant\<close>

text \<open>
  \<open>holders_total\<close> sums the stored balances. A token is well formed when finitely many
  balances are stored, none is negative, and they add up to the total supply, which stays
  below the cap.
\<close>

definition holders_total :: "token_state \<Rightarrow> int" where
  "holders_total t = (\<Sum>a\<in>dom (tk_balance t). token_balance t a)"

definition token_inv :: "token_state \<Rightarrow> bool" where
  "token_inv t \<longleftrightarrow> finite (dom (tk_balance t)) \<and> (\<forall>a. 0 \<le> token_balance t a) \<and>
     holders_total t = token_total_supply t \<and> token_total_supply t \<le> MAX_SUPPLY"

definition token_empty :: token_state where
  "token_empty = \<lparr>tk_balance = \<lambda>_. None, tk_total_supply = None\<rparr>"

lemma token_inv_empty: "token_inv token_empty"
  by (simp add: token_inv_def token_empty_def holders_total_def token_balance_def
      token_total_supply_def MAX_SUPPLY_def)

lemma holders_total_superset:
  assumes "finite A" and "dom (tk_balance t) \<subseteq> A"
  shows "holders_total t = sum (token_balance t) A"
  unfolding holders_total_def
proof (rule sum.mono_neutral_left)
  show "\<forall>a\<in>A - dom (tk_balance t). token_balance t a = 0"
    by (auto simp: token_balance_def domIff)
qed (use assms in auto)

text \<open>Writing one balance moves the total by the difference.\<close>

lemma holders_total_upd:
  assumes "finite (dom (tk_balance t))"
  shows "holders_total (t\<lparr>tk_balance := (tk_balance t)(a \<mapsto> n)\<rparr>) =
    holders_total t + n - token_balance t a"
proof -
  let ?A = "insert a (dom (tk_balance t))" and ?t = "t\<lparr>tk_balance := (tk_balance t)(a \<mapsto> n)\<rparr>"
  have fin: "finite ?A" using assms by simp
  have "holders_total ?t = sum (token_balance ?t) ?A"
    by (rule holders_total_superset [OF fin]) auto
  also have "\<dots> = n + sum (token_balance ?t) (?A - {a})"
    using fin by (simp add: sum.remove [where x = a])
  also have "sum (token_balance ?t) (?A - {a}) = sum (token_balance t) (?A - {a})"
    by (rule sum.cong) auto
  also have "sum (token_balance t) (?A - {a}) = sum (token_balance t) ?A - token_balance t a"
    using fin by (simp add: sum.remove [where x = a])
  also have "sum (token_balance t) ?A = holders_total t"
    by (rule holders_total_superset [OF fin, symmetric]) auto
  finally show ?thesis by linarith
qed

lemma token_fields_supply [simp]:
  "holders_total (t\<lparr>tk_total_supply := n\<rparr>) = holders_total t"
  "token_balance (t\<lparr>tk_total_supply := n\<rparr>) a = token_balance t a"
  by (simp_all add: holders_total_def token_balance_def)

lemma holders_total_transfer:
  assumes "finite (dom (tk_balance t))" and "token_transfer cx frm dst amount t = Ok t'" and "frm \<noteq> dst"
  shows "holders_total t' = holders_total t"
proof -
  let ?t1 = "t\<lparr>tk_balance := (tk_balance t)(frm \<mapsto> token_balance t frm - amount)\<rparr>"
  have t': "t' = ?t1\<lparr>tk_balance := (tk_balance ?t1)(dst \<mapsto> token_balance t dst + amount)\<rparr>"
    using assms(2) by (simp add: token_transfer_Ok)
  have "holders_total ?t1 = holders_total t - amount"
    using holders_total_upd [OF assms(1)] by simp
  moreover have "finite (dom (tk_balance ?t1))" using assms(1) by simp
  ultimately show ?thesis
    unfolding t' using assms(3) by (simp only: holders_total_upd token_balance_upd) simp
qed

lemma token_inv_transfer:
  assumes "token_inv t" and "token_transfer cx frm dst amount t = Ok t'" and "frm \<noteq> dst"
  shows "token_inv t'"
proof -
  have "holders_total t' = holders_total t"
    using assms(1) by (intro holders_total_transfer [OF _ assms(2,3)]) (simp add: token_inv_def)
  then show ?thesis using assms(1,2)
    by (auto simp: token_inv_def token_transfer_Ok token_balance_def token_total_supply_def)
qed

lemma token_inv_mint:
  assumes "token_inv t" and "token_mint dst amount t = Ok t'"
  shows "token_inv t'"
proof -
  have "holders_total t' = holders_total t + amount"
    using assms holders_total_upd [of t dst] by (simp add: token_inv_def token_mint_Ok)
  then show ?thesis using assms
    by (auto simp: token_inv_def token_mint_Ok token_balance_def token_total_supply_def)
qed

lemma token_inv_burn:
  assumes "token_inv t" and "token_burn cx frm amount t = Ok t'"
  shows "token_inv t'"
proof -
  have "holders_total t' = holders_total t - amount"
    using assms holders_total_upd [of t frm] by (simp add: token_inv_def token_burn_Ok)
  then show ?thesis using assms
    by (auto simp: token_inv_def token_burn_Ok token_balance_def token_total_supply_def)
qed

text \<open>
  A token's life: the contract starts empty and every step is one successful call. A transfer
  to oneself is left out, see \<open>self_transfer_mints\<close>.
\<close>

inductive token_reachable :: "token_state \<Rightarrow> bool" where
  tok_start: "token_reachable token_empty"
| tok_transfer: "token_reachable t \<Longrightarrow> frm \<noteq> dst \<Longrightarrow>
    token_transfer cx frm dst amount t = Ok t' \<Longrightarrow> token_reachable t'"
| tok_mint: "token_reachable t \<Longrightarrow> token_mint dst amount t = Ok t' \<Longrightarrow> token_reachable t'"
| tok_burn: "token_reachable t \<Longrightarrow> token_burn cx frm amount t = Ok t' \<Longrightarrow> token_reachable t'"

lemma token_reachable_inv: "token_reachable t \<Longrightarrow> token_inv t"
  by (induction rule: token_reachable.induct)
     (auto intro: token_inv_empty token_inv_transfer token_inv_mint token_inv_burn)

end
