(* ===== verification/Token_Interface.thy ===== *)
theory Token_Interface
  imports Mock_Token
begin

text \<open>
  The token contracts the vault and the lending pool call. Which token a call goes to is an
  address of the caller's choosing, so the calls are parameters of the model: a record of
  functions over an abstract world \<open>'w\<close>, the state of every other contract. The host forbids
  a call chain to re-enter a contract that is already running, so a call changes the world and
  leaves the caller's storage alone; a call that fails returns \<open>None\<close>.

  The locale \<open>token_ledger\<close> states what a SEP-41 token promises. It is interpreted on the
  repository's own token, the model of \<open>Mock_Token\<close>, one instance per token address.
\<close>

section \<open>The calls\<close>

record 'w token_ops =
  tok_transfer :: "address \<Rightarrow> address \<Rightarrow> address \<Rightarrow> int \<Rightarrow> 'w \<Rightarrow> 'w option"
  tok_balance :: "address \<Rightarrow> address \<Rightarrow> 'w \<Rightarrow> int option"

text \<open>What an account holds of a token, as the token reports it.\<close>

definition token_held :: "('w, 'z) token_ops_scheme \<Rightarrow> address \<Rightarrow> address \<Rightarrow> 'w \<Rightarrow> int" where
  "token_held X tk a w = unwrap_or 0 (tok_balance X tk a w)"

section \<open>The interface\<close>

locale token_ledger =
  fixes X :: "('w, 'z) token_ops_scheme"
  assumes transfer_debits:
      "tok_transfer X tk a b n w = Some w' \<Longrightarrow> a \<noteq> b \<Longrightarrow> token_held X tk a w' = token_held X tk a w - n"
    and transfer_credits:
      "tok_transfer X tk a b n w = Some w' \<Longrightarrow> a \<noteq> b \<Longrightarrow> token_held X tk b w' = token_held X tk b w + n"
    and transfer_frame:
      "tok_transfer X tk a b n w = Some w' \<Longrightarrow> tk' \<noteq> tk \<or> (c \<noteq> a \<and> c \<noteq> b) \<Longrightarrow>
       token_held X tk' c w' = token_held X tk' c w"
begin

text \<open>A transfer into an account that is not its source, and out of one, as one equation.\<close>

lemma held_after_incoming:
  "tok_transfer X tk a b n w = Some w' \<Longrightarrow> a \<noteq> b \<Longrightarrow>
   token_held X tk' b w' = token_held X tk' b w + (if tk' = tk then n else 0)"
  using transfer_credits transfer_frame by auto

lemma held_after_outgoing:
  "tok_transfer X tk a b n w = Some w' \<Longrightarrow> a \<noteq> b \<Longrightarrow>
   token_held X tk' a w' = token_held X tk' a w - (if tk' = tk then n else 0)"
  using transfer_debits transfer_frame by auto

text \<open>There and back again: a transfer undone leaves both accounts as they were.\<close>

lemma transfer_round_trip:
  assumes "tok_transfer X tk a b n w = Some w1" and "tok_transfer X tk b a n w1 = Some w2" and "a \<noteq> b"
  shows "token_held X tk' c w2 = token_held X tk' c w"
  using assms transfer_debits transfer_credits transfer_frame
  by (cases "tk' = tk"; cases "c = a"; cases "c = b") fastforce+

end

section \<open>The repository's token as a provider\<close>

text \<open>
  A contract that calls a token authorizes the call for its own account; every other account
  needs its own authorization.
\<close>

definition invoker_ctx :: "ctx \<Rightarrow> ctx" where
  "invoker_ctx cx = cx\<lparr>authorized := \<lambda>a. a = current_contract_address cx \<or> authorized cx a\<rparr>"

definition mock_token_ops :: "ctx \<Rightarrow> (address \<Rightarrow> token_state) token_ops" where
  "mock_token_ops cx = \<lparr>
     tok_transfer = \<lambda>tk a b n w.
       (case token_transfer (invoker_ctx cx) a b n (w tk) of
          Ok t \<Rightarrow> Some (w(tk := t)) | Err _ \<Rightarrow> None | Panic \<Rightarrow> None),
     tok_balance = \<lambda>tk a w. Some (token_balance (w tk) a)\<rparr>"

lemma mock_transfer_Some:
  "tok_transfer (mock_token_ops cx) tk a b n w = Some w' \<longleftrightarrow>
     (\<exists>t. token_transfer (invoker_ctx cx) a b n (w tk) = Ok t \<and> w' = w(tk := t))"
  by (auto simp: mock_token_ops_def split: outcome.splits)

lemma mock_held [simp]: "token_held (mock_token_ops cx) tk a w = token_balance (w tk) a"
  by (simp add: token_held_def mock_token_ops_def)

interpretation mock_ledger: token_ledger "mock_token_ops cx"
  by unfold_locales (auto simp: mock_transfer_Some token_transfer_Ok token_balance_def)

end
