(* ===== verification/Plan_Vault.thy ===== *)
theory Plan_Vault
  imports Token_Interface
begin

text \<open>
  The per-plan custody contract \<open>src/contracts/plan-vault/src/lib.rs\<close>: it is initialized
  once with its controller (the inheritance contract), holds the plan's tokens, and releases
  them only when the controller authorizes it. The token it moves is a parameter, see
  \<open>Token_Interface\<close>.
\<close>

section \<open>State and operations\<close>

datatype plan_vault_error = Unauth | BadAmt | TxFail

record 'w vault_state =
  pv_init :: "bool option"
  pv_ctl :: "address option"
  pv_owner :: "address option"
  pv_pid :: "nat option"
  pv_world :: 'w

type_synonym 'a pv_result = "('a, plan_vault_error) outcome"

definition vault_initialize ::
  "address \<Rightarrow> address \<Rightarrow> nat \<Rightarrow> 'w vault_state \<Rightarrow> 'w vault_state pv_result" where
  "vault_initialize controller own plan_id s =
     (if unwrap_or False (pv_init s) then Err Unauth
      else Ok (s\<lparr>pv_ctl := Some controller, pv_owner := Some own, pv_pid := Some plan_id,
                 pv_init := Some True\<rparr>))"

definition vault_release ::
  "('w, 'z) token_ops_scheme \<Rightarrow> ctx \<Rightarrow> address \<Rightarrow> address \<Rightarrow> nat \<Rightarrow> 'w vault_state \<Rightarrow> 'w vault_state pv_result" where
  "vault_release X cx token recipient amount s =
     (if amount = 0 then Err BadAmt
      else and_then (ok_or (pv_ctl s) Unauth) (\<lambda>controller.
        and_then (require_auth cx controller) (\<lambda>_.
        case tok_transfer X token (current_contract_address cx) recipient (int amount) (pv_world s) of
          None \<Rightarrow> Err TxFail
        | Some w \<Rightarrow> Ok (s\<lparr>pv_world := w\<rparr>))))"

definition vault_balance :: "('w, 'z) token_ops_scheme \<Rightarrow> ctx \<Rightarrow> address \<Rightarrow> 'w vault_state \<Rightarrow> int pv_result" where
  "vault_balance X cx token s =
     unwrap (tok_balance X token (current_contract_address cx) (pv_world s))"

section \<open>Custody\<close>

lemma vault_release_Ok:
  "vault_release X cx token recipient amount s = Ok t \<longleftrightarrow>
     0 < amount \<and> (\<exists>c. pv_ctl s = Some c \<and> authorized cx c) \<and>
     (\<exists>w. tok_transfer X token (current_contract_address cx) recipient (int amount) (pv_world s) = Some w \<and>
          t = s\<lparr>pv_world := w\<rparr>)"
  by (auto simp: vault_release_def split: option.splits)

lemma vault_initialize_once:
  assumes "vault_initialize c o1 p s = Ok t"
  shows "vault_initialize c' o2 p' t = Err Unauth"
  using assms by (auto simp: vault_initialize_def split: if_splits)

lemma vault_release_keeps_config:
  "vault_release X cx token recipient amount s = Ok t \<Longrightarrow>
   pv_ctl t = pv_ctl s \<and> pv_owner t = pv_owner s \<and> pv_pid t = pv_pid s \<and> pv_init t = pv_init s"
  by (auto simp: vault_release_Ok)

context token_ledger
begin

lemma release_effect:
  assumes "vault_release X cx token recipient amount s = Ok t"
    and "recipient \<noteq> current_contract_address cx"
  shows "token_held X token (current_contract_address cx) (pv_world t) =
      token_held X token (current_contract_address cx) (pv_world s) - int amount"
    and "token_held X token recipient (pv_world t) = token_held X token recipient (pv_world s) + int amount"
  using assms transfer_debits transfer_credits by (fastforce simp: vault_release_Ok)+

end

end
