(* ===== verification/Access_Control.thy ===== *)
theory Access_Control
  imports Prelude
begin

text \<open>
  The shared library \<open>src/contracts/access-control/src/lib.rs\<close>: roles, the sanctions
  blacklist, the reentrancy lock, the pause switch and the version handshake.

  The library writes into the storage of whichever contract links it, so its state is a
  record that the state of every contract extends, and its functions are polymorphic in
  the extension. The fields are the library's storage keys: \<open>Roles(Address)\<close> and
  \<open>Blacklisted(Address)\<close> (persistent), \<open>ReentrancyLock\<close> (temporary),
  \<open>Paused\<close>, \<open>PauseLock\<close>, \<open>ActiveOps\<close> and \<open>ContractVersion\<close>
  (instance); an absent key is \<open>None\<close>.
\<close>

section \<open>State\<close>

datatype role = RoleAdmin | RoleGuardian | RoleBeneficiary | RoleOwner

record ac_state =
  roles_key :: "address \<Rightarrow> role list option"
  blacklisted_key :: "address \<Rightarrow> bool option"
  reentrancy_lock :: "bool option"
  paused_key :: "bool option"
  pause_lock :: "bool option"
  active_ops :: "int option"
  contract_version :: "nat option"

definition ac_empty :: ac_state where
  "ac_empty = \<lparr>roles_key = \<lambda>_. None, blacklisted_key = \<lambda>_. None, reentrancy_lock = None,
     paused_key = None, pause_lock = None, active_ops = None, contract_version = None\<rparr>"

section \<open>Roles and blacklist\<close>

definition roles_of :: "'z ac_state_scheme \<Rightarrow> address \<Rightarrow> role list" where
  "roles_of s a = unwrap_or [] (roles_key s a)"

definition assign_role :: "address \<Rightarrow> role \<Rightarrow> 'z ac_state_scheme \<Rightarrow> 'z ac_state_scheme" where
  "assign_role a r s =
     (if r \<in> set (roles_of s a) then s
      else s\<lparr>roles_key := (roles_key s)(a \<mapsto> roles_of s a @ [r])\<rparr>)"

definition has_role :: "'z ac_state_scheme \<Rightarrow> address \<Rightarrow> role \<Rightarrow> bool" where
  "has_role s a r = (r \<in> set (roles_of s a))"

definition require_role :: "'z ac_state_scheme \<Rightarrow> address \<Rightarrow> role \<Rightarrow> 'e \<Rightarrow> (unit, 'e) outcome" where
  "require_role s a r e = (if has_role s a r then Ok () else Err e)"

definition blacklist_address :: "address \<Rightarrow> 'z ac_state_scheme \<Rightarrow> 'z ac_state_scheme" where
  "blacklist_address a s = s\<lparr>blacklisted_key := (blacklisted_key s)(a \<mapsto> True)\<rparr>"

definition unblacklist_address :: "address \<Rightarrow> 'z ac_state_scheme \<Rightarrow> 'z ac_state_scheme" where
  "unblacklist_address a s = s\<lparr>blacklisted_key := (blacklisted_key s)(a := None)\<rparr>"

definition is_blacklisted :: "'z ac_state_scheme \<Rightarrow> address \<Rightarrow> bool" where
  "is_blacklisted s a = unwrap_or False (blacklisted_key s a)"

definition require_not_blacklisted :: "'z ac_state_scheme \<Rightarrow> address \<Rightarrow> 'e \<Rightarrow> (unit, 'e) outcome" where
  "require_not_blacklisted s a e = (if is_blacklisted s a then Err e else Ok ())"

section \<open>Reentrancy lock\<close>

definition reentrancy_enter :: "'e \<Rightarrow> 'z ac_state_scheme \<Rightarrow> ('z ac_state_scheme, 'e) outcome" where
  "reentrancy_enter e s =
     (if reentrancy_lock s \<noteq> None then Err e else Ok (s\<lparr>reentrancy_lock := Some True\<rparr>))"

definition reentrancy_enter_or_panic :: "'z ac_state_scheme \<Rightarrow> ('z ac_state_scheme, 'e) outcome" where
  "reentrancy_enter_or_panic s =
     (if reentrancy_lock s \<noteq> None then Panic else Ok (s\<lparr>reentrancy_lock := Some True\<rparr>))"

definition reentrancy_exit :: "'z ac_state_scheme \<Rightarrow> 'z ac_state_scheme" where
  "reentrancy_exit s = s\<lparr>reentrancy_lock := None\<rparr>"

text \<open>
  \<open>ReentrancyGuard::lock\<close> takes the same lock and its \<open>Drop\<close> releases it: a function
  that holds the guard runs \<open>guard_drop\<close> on the state it returns.
\<close>

definition guard_lock :: "'e \<Rightarrow> 'z ac_state_scheme \<Rightarrow> ('z ac_state_scheme, 'e) outcome" where
  "guard_lock e s =
     (if reentrancy_lock s \<noteq> None then Err e else Ok (s\<lparr>reentrancy_lock := Some True\<rparr>))"

definition guard_lock_or_panic :: "'z ac_state_scheme \<Rightarrow> ('z ac_state_scheme, 'e) outcome" where
  "guard_lock_or_panic s =
     (if reentrancy_lock s \<noteq> None then Panic else Ok (s\<lparr>reentrancy_lock := Some True\<rparr>))"

definition guard_drop :: "'z ac_state_scheme \<Rightarrow> 'z ac_state_scheme" where
  "guard_drop s = s\<lparr>reentrancy_lock := None\<rparr>"

definition revoke_role :: "address \<Rightarrow> role \<Rightarrow> 'z ac_state_scheme \<Rightarrow> ('z ac_state_scheme, 'e) outcome" where
  "revoke_role a r s =
     and_then (reentrancy_enter_or_panic s) (\<lambda>s.
     Ok (reentrancy_exit
       (s\<lparr>roles_key := (roles_key s)(a \<mapsto> filter (\<lambda>x. x \<noteq> r) (roles_of s a))\<rparr>)))"

section \<open>Pause switch\<close>

definition pause_contract :: "'z ac_state_scheme \<Rightarrow> ('z ac_state_scheme, 'e) outcome" where
  "pause_contract s =
     (let s = s\<lparr>pause_lock := Some True\<rparr>; active = unwrap_or 0 (active_ops s)
      in if active \<noteq> 0 then Panic
         else Ok (s\<lparr>paused_key := Some True, pause_lock := None\<rparr>))"

definition unpause_contract :: "'z ac_state_scheme \<Rightarrow> 'z ac_state_scheme" where
  "unpause_contract s =
     (let s = s\<lparr>pause_lock := Some True\<rparr>; s = s\<lparr>paused_key := Some False\<rparr>
      in s\<lparr>pause_lock := None\<rparr>)"

definition is_contract_paused :: "'z ac_state_scheme \<Rightarrow> bool" where
  "is_contract_paused s = unwrap_or False (paused_key s)"

definition require_not_paused :: "'e \<Rightarrow> 'z ac_state_scheme \<Rightarrow> (unit, 'e) outcome" where
  "require_not_paused e s =
     (if is_contract_paused s \<or> unwrap_or False (pause_lock s) then Err e else Ok ())"

definition require_not_paused_or_panic :: "'z ac_state_scheme \<Rightarrow> (unit, 'e) outcome" where
  "require_not_paused_or_panic s =
     (if is_contract_paused s \<or> unwrap_or False (pause_lock s) then Panic else Ok ())"

definition operation_enter_or_panic :: "'z ac_state_scheme \<Rightarrow> ('z ac_state_scheme, 'e) outcome" where
  "operation_enter_or_panic s =
     (if unwrap_or False (pause_lock s) then Panic
      else if is_contract_paused s then Panic
      else and_then (i128_add (unwrap_or 0 (active_ops s)) 1) (\<lambda>n.
        Ok (s\<lparr>active_ops := Some n\<rparr>)))"

definition operation_exit :: "'z ac_state_scheme \<Rightarrow> ('z ac_state_scheme, 'e) outcome" where
  "operation_exit s =
     (let cnt = unwrap_or 0 (active_ops s)
      in if cnt \<le> 1 then Ok (s\<lparr>active_ops := None\<rparr>)
         else and_then (i128_sub cnt 1) (\<lambda>n. Ok (s\<lparr>active_ops := Some n\<rparr>)))"

section \<open>Version handshake\<close>

text \<open>
  \<open>get_version\<close> stands for the call to another contract's \<open>get_version\<close> entry point,
  \<open>None\<close> when the target cannot answer with a \<open>u32\<close>.
\<close>

definition set_contract_version :: "nat \<Rightarrow> 'z ac_state_scheme \<Rightarrow> 'z ac_state_scheme" where
  "set_contract_version v s = s\<lparr>contract_version := Some v\<rparr>"

definition get_contract_version :: "'z ac_state_scheme \<Rightarrow> nat" where
  "get_contract_version s = unwrap_or 1 (contract_version s)"

definition query_contract_version :: "(address \<Rightarrow> nat option) \<Rightarrow> address \<Rightarrow> nat option" where
  "query_contract_version get_version target = get_version target"

definition check_contract_version ::
  "(address \<Rightarrow> nat option) \<Rightarrow> address \<Rightarrow> nat \<Rightarrow> nat \<Rightarrow> 'e \<Rightarrow> (unit, 'e) outcome" where
  "check_contract_version get_version target min_version max_version e =
     (case query_contract_version get_version target of
        Some v \<Rightarrow> if v \<ge> min_version \<and> v \<le> max_version then Ok () else Err e
      | None \<Rightarrow> Err e)"

definition assert_compatible_version ::
  "(address \<Rightarrow> nat option) \<Rightarrow> address \<Rightarrow> nat \<Rightarrow> 'e \<Rightarrow> (unit, 'e) outcome" where
  "assert_compatible_version get_version target expected e =
     check_contract_version get_version target expected expected e"

definition assert_compatible_version_or_panic ::
  "(address \<Rightarrow> nat option) \<Rightarrow> address \<Rightarrow> nat \<Rightarrow> (unit, 'e) outcome" where
  "assert_compatible_version_or_panic get_version target expected =
     (case query_contract_version get_version target of
        Some v \<Rightarrow> if v = expected then Ok () else Panic
      | None \<Rightarrow> Panic)"

section \<open>Roles and blacklist: lemmas\<close>

named_theorems ac_defs "definitions of the access-control library"

lemmas role_defs [ac_defs] =
  roles_of_def assign_role_def has_role_def require_role_def

lemmas lock_defs [ac_defs] =
  reentrancy_enter_def reentrancy_enter_or_panic_def reentrancy_exit_def
  guard_lock_def guard_lock_or_panic_def guard_drop_def

lemmas pause_defs [ac_defs] =
  pause_contract_def unpause_contract_def is_contract_paused_def require_not_paused_def
  require_not_paused_or_panic_def operation_enter_or_panic_def operation_exit_def

lemma require_role_eq_Ok [simp]: "require_role s a r e = Ok u \<longleftrightarrow> has_role s a r"
  by (simp add: require_role_def)

lemma require_not_paused_eq_Ok [simp]:
  "require_not_paused e s = Ok u \<longleftrightarrow>
     \<not> is_contract_paused s \<and> \<not> unwrap_or False (pause_lock s)"
  by (auto simp: require_not_paused_def)

lemma has_role_assign [simp]:
  "has_role (assign_role a r s) b q \<longleftrightarrow> (b = a \<and> q = r) \<or> has_role s b q"
  by (auto simp: role_defs)

lemma assign_role_idem: "assign_role a r (assign_role a r s) = assign_role a r s"
  by (simp add: role_defs)

lemma revoke_role_eq_Ok:
  "revoke_role a r s = Ok t \<longleftrightarrow>
     reentrancy_lock s = None \<and>
     t = s\<lparr>reentrancy_lock := None,
           roles_key := (roles_key s)(a \<mapsto> filter (\<lambda>x. x \<noteq> r) (roles_of s a))\<rparr>"
  by (auto simp: revoke_role_def lock_defs roles_of_def)

lemma has_role_revoke:
  "revoke_role a r s = Ok t \<Longrightarrow>
     has_role t b q \<longleftrightarrow> has_role s b q \<and> \<not> (b = a \<and> q = r)"
  by (auto simp: revoke_role_eq_Ok has_role_def roles_of_def)

lemma is_blacklisted_blacklist [simp]:
  "is_blacklisted (blacklist_address a s) b \<longleftrightarrow> b = a \<or> is_blacklisted s b"
  by (simp add: blacklist_address_def is_blacklisted_def)

lemma is_blacklisted_unblacklist [simp]:
  "is_blacklisted (unblacklist_address a s) b \<longleftrightarrow> b \<noteq> a \<and> is_blacklisted s b"
  by (simp add: unblacklist_address_def is_blacklisted_def)

text \<open>A role list never holds a role twice, whatever sequence of calls built it.\<close>

definition roles_distinct :: "'z ac_state_scheme \<Rightarrow> bool" where
  "roles_distinct s = (\<forall>a. distinct (roles_of s a))"

lemma roles_distinct_empty: "roles_distinct ac_empty"
  by (simp add: roles_distinct_def roles_of_def ac_empty_def)

lemma roles_distinct_assign: "roles_distinct s \<Longrightarrow> roles_distinct (assign_role a r s)"
  by (auto simp: roles_distinct_def role_defs)

lemma roles_distinct_revoke:
  "roles_distinct s \<Longrightarrow> revoke_role a r s = Ok t \<Longrightarrow> roles_distinct t"
  by (auto simp: roles_distinct_def revoke_role_eq_Ok roles_of_def)

section \<open>The guard contract\<close>

text \<open>
  What a contract relies on when it brackets an entry point with a lock: taking a free lock
  succeeds and changes nothing else, taking a held one fails, releasing it frees it and
  changes nothing else. \<open>rest\<close> is the state without the lock.
\<close>

locale lock_guard =
  fixes locked :: "'s \<Rightarrow> bool"
    and enter :: "'s \<Rightarrow> ('s, 'e) outcome"
    and leave :: "'s \<Rightarrow> 's"
    and rest :: "'s \<Rightarrow> 'r"
  assumes enter_free: "\<not> locked s \<Longrightarrow> \<exists>t. enter s = Ok t \<and> locked t \<and> rest t = rest s"
    and enter_held: "locked s \<Longrightarrow> enter s \<noteq> Ok t"
    and leave_free: "\<not> locked (leave s)"
    and leave_rest: "rest (leave s) = rest s"
begin

lemma enter_Ok_D: "enter s = Ok t \<Longrightarrow> \<not> locked s \<and> locked t \<and> rest t = rest s"
  using enter_free [of s] enter_held [of s] by (cases "locked s") auto

text \<open>While the lock is held no bracketed call gets in, whatever the rest of the state is.\<close>

lemma no_reentry:
  assumes "enter s = Ok t" and "locked u = locked t"
  shows "and_then (enter u) body \<noteq> Ok r"
proof -
  have "locked u" using enter_Ok_D [OF assms(1)] assms(2) by simp
  then show ?thesis using enter_held by simp
qed

text \<open>A bracketed body that succeeds gives the lock back and passes on its own effect only.\<close>

lemma bracket:
  assumes "and_then (enter s) (\<lambda>s1. and_then (body s1) (\<lambda>(r, s2). Ok (r, leave s2))) = Ok (r, t)"
  shows "\<not> locked s \<and> \<not> locked t \<and>
    (\<exists>s1 s2. enter s = Ok s1 \<and> body s1 = Ok (r, s2) \<and> rest s1 = rest s \<and> rest t = rest s2)"
proof -
  from assms obtain s1 s2 where e: "enter s = Ok s1" and b: "body s1 = Ok (r, s2)" and "t = leave s2"
    by (auto split: prod.splits)
  with enter_Ok_D [OF e] leave_free leave_rest show ?thesis by blast
qed

lemma bracket_again:
  assumes "and_then (enter s) (\<lambda>s1. and_then (body s1) (\<lambda>(r, s2). Ok (r, leave s2))) = Ok (r, t)"
  shows "\<exists>u. enter t = Ok u"
  using bracket [OF assms] enter_free by blast

end

interpretation ac_lock: lock_guard
  "\<lambda>s :: 'z ac_state_scheme. reentrancy_lock s \<noteq> None" "reentrancy_enter e" reentrancy_exit
  "\<lambda>s. s\<lparr>reentrancy_lock := None\<rparr>"
  by unfold_locales (auto simp: lock_defs)

interpretation ac_guard: lock_guard
  "\<lambda>s :: 'z ac_state_scheme. reentrancy_lock s \<noteq> None" "guard_lock e" guard_drop
  "\<lambda>s. s\<lparr>reentrancy_lock := None\<rparr>"
  by unfold_locales (auto simp: lock_defs)

interpretation ac_lock_panic: lock_guard
  "\<lambda>s :: 'z ac_state_scheme. reentrancy_lock s \<noteq> None" reentrancy_enter_or_panic reentrancy_exit
  "\<lambda>s. s\<lparr>reentrancy_lock := None\<rparr>"
  by unfold_locales (auto simp: lock_defs)

section \<open>The pause protocol\<close>

text \<open>
  The pause switch and the operation counter as a state machine: each step is one successful
  call of the library.
\<close>

inductive pause_step :: "'z ac_state_scheme \<Rightarrow> 'z ac_state_scheme \<Rightarrow> bool" where
  step_pause: "pause_contract s = (Ok t :: ('z ac_state_scheme, unit) outcome) \<Longrightarrow> pause_step s t"
| step_unpause: "pause_step s (unpause_contract s)"
| step_enter: "operation_enter_or_panic s = (Ok t :: ('z ac_state_scheme, unit) outcome) \<Longrightarrow> pause_step s t"
| step_exit: "operation_exit s = (Ok t :: ('z ac_state_scheme, unit) outcome) \<Longrightarrow> pause_step s t"

inductive pause_reachable :: "'z ac_state_scheme \<Rightarrow> bool" where
  reach_start: "paused_key s = None \<Longrightarrow> pause_lock s = None \<Longrightarrow> active_ops s = None \<Longrightarrow> pause_reachable s"
| reach_step: "pause_reachable s \<Longrightarrow> pause_step s t \<Longrightarrow> pause_reachable t"

inductive_cases pause_stepE: "pause_step s t"

definition running_ops :: "'z ac_state_scheme \<Rightarrow> int" where
  "running_ops s = unwrap_or 0 (active_ops s)"

definition pause_inv :: "'z ac_state_scheme \<Rightarrow> bool" where
  "pause_inv s \<longleftrightarrow> 0 \<le> running_ops s \<and> pause_lock s = None \<and>
     (is_contract_paused s \<longrightarrow> running_ops s = 0)"

lemma pause_step_inv: "pause_step s t \<Longrightarrow> pause_inv s \<Longrightarrow> pause_inv t"
  by (erule pause_stepE)
     (auto simp: pause_inv_def pause_defs running_ops_def Let_def split: if_splits)

lemma pause_reachable_inv: "pause_reachable s \<Longrightarrow> pause_inv s"
proof (induction rule: pause_reachable.induct)
  case (reach_start s)
  then show ?case by (simp add: pause_inv_def running_ops_def is_contract_paused_def)
next
  case (reach_step s t)
  then show ?case by (blast intro: pause_step_inv)
qed

end
