(* ===== verification/Loan_NFT.thy ===== *)
theory Loan_NFT
  imports Access_Control
begin

text \<open>
  The loan-position NFT \<open>src/contracts/loan-nft/src/lib.rs\<close>. The fields of \<open>nft_state\<close>
  are the contract's storage keys. Every failure of this contract is a panic, so no operation
  returns an \<open>Err\<close>. \<open>nft_events\<close> is the log of published events, oldest first.
\<close>

section \<open>State\<close>

type_synonym 'a nft_result = "('a, unit) outcome"

record loan_metadata =
  md_loan_id :: nat
  md_borrower :: address
  md_principal :: nat
  md_collateral_amount :: nat
  md_collateral_token :: address
  md_due_date :: nat
  md_ltv_ratio_bps :: nat
  md_plan_id :: nat
  md_uri :: string

record approval_record =
  ap_operator :: address
  ap_expires_at :: nat

datatype nft_event =
    EvTransfer "address option" "address option" nat
  | EvApproval address address nat
  | EvApprovalForAll address address bool

record nft_state =
  nft_admin :: "address option"
  nft_metadata :: "nat \<Rightarrow> loan_metadata option"
  nft_owner :: "nat \<Rightarrow> address option"
  nft_approved :: "nat \<Rightarrow> approval_record option"
  nft_operator :: "address \<times> address \<Rightarrow> bool option"
  nft_balance :: "address \<Rightarrow> nat option"
  nft_total_supply :: "nat option"
  nft_token_uri :: "nat \<Rightarrow> string option"
  nft_reentrancy_guard :: "bool option"
  nft_transferable :: "nat \<Rightarrow> bool option"
  nft_metadata_locked :: "nat \<Rightarrow> bool option"
  nft_events :: "nft_event list"

definition DEFAULT_APPROVAL_EXPIRATION_SECONDS :: nat where
  "DEFAULT_APPROVAL_EXPIRATION_SECONDS = 60 * 60 * 24 * 7"

section \<open>Helpers\<close>

definition nft_publish :: "nft_event \<Rightarrow> nft_state \<Rightarrow> nft_state" where
  "nft_publish ev s = s\<lparr>nft_events := nft_events s @ [ev]\<rparr>"

definition nft_check_admin :: "ctx \<Rightarrow> nft_state \<Rightarrow> unit nft_result" where
  "nft_check_admin cx s = and_then (unwrap (nft_admin s)) (\<lambda>a. require_auth cx a)"

definition nft_enter_reentrancy_guard :: "nft_state \<Rightarrow> nft_state nft_result" where
  "nft_enter_reentrancy_guard s =
     (if nft_reentrancy_guard s \<noteq> None then Panic else Ok (s\<lparr>nft_reentrancy_guard := Some True\<rparr>))"

definition nft_exit_reentrancy_guard :: "nft_state \<Rightarrow> nft_state" where
  "nft_exit_reentrancy_guard s = s\<lparr>nft_reentrancy_guard := None\<rparr>"

definition nft_owner_of :: "nft_state \<Rightarrow> nat \<Rightarrow> address option" where
  "nft_owner_of s i = nft_owner s i"

definition nft_balance_of :: "nft_state \<Rightarrow> address \<Rightarrow> nat" where
  "nft_balance_of s a = unwrap_or 0 (nft_balance s a)"

definition nft_supply :: "nft_state \<Rightarrow> nat" where
  "nft_supply s = unwrap_or 0 (nft_total_supply s)"

definition nft_is_approved_for_all :: "nft_state \<Rightarrow> address \<Rightarrow> address \<Rightarrow> bool" where
  "nft_is_approved_for_all s own opr = unwrap_or False (nft_operator s (own, opr))"

definition nft_check_transfer_restriction :: "nft_state \<Rightarrow> nat \<Rightarrow> unit nft_result" where
  "nft_check_transfer_restriction s i = panic_unless (unwrap_or True (nft_transferable s i))"

definition nft_do_transfer :: "address \<Rightarrow> address \<Rightarrow> nat \<Rightarrow> nft_state \<Rightarrow> nft_state nft_result" where
  "nft_do_transfer frm dst i s =
     (let s = s\<lparr>nft_owner := (nft_owner s)(i \<mapsto> dst)\<rparr>;
          s = s\<lparr>nft_approved := (nft_approved s)(i := None)\<rparr>;
          s = s\<lparr>nft_balance := (nft_balance s)(frm \<mapsto> saturating_sub (nft_balance_of s frm) 1)\<rparr>
      in and_then (u64_add (nft_balance_of s dst) 1) (\<lambda>balance_to.
         Ok (nft_publish (EvTransfer (Some frm) (Some dst) i)
           (s\<lparr>nft_balance := (nft_balance s)(dst \<mapsto> balance_to)\<rparr>))))"

section \<open>Entry points\<close>

definition nft_initialize :: "address \<Rightarrow> nft_state \<Rightarrow> nft_state nft_result" where
  "nft_initialize admin s =
     (if nft_admin s \<noteq> None then Panic
      else Ok (s\<lparr>nft_admin := Some admin, nft_total_supply := Some 0\<rparr>))"

definition nft_mint :: "ctx \<Rightarrow> address \<Rightarrow> loan_metadata \<Rightarrow> nft_state \<Rightarrow> nft_state nft_result" where
  "nft_mint cx dst metadata s =
     and_then (nft_check_admin cx s) (\<lambda>_.
     and_then (nft_enter_reentrancy_guard s) (\<lambda>s.
     let i = md_loan_id metadata
     in if nft_metadata s i \<noteq> None then Panic
     else let s = s\<lparr>nft_metadata := (nft_metadata s)(i \<mapsto> metadata)\<rparr>;
              s = s\<lparr>nft_owner := (nft_owner s)(i \<mapsto> dst)\<rparr>;
              s = s\<lparr>nft_transferable := (nft_transferable s)(i \<mapsto> False)\<rparr>;
              s = s\<lparr>nft_metadata_locked := (nft_metadata_locked s)(i \<mapsto> True)\<rparr>
     in and_then (u64_add (nft_supply s) 1) (\<lambda>supply.
        let s = s\<lparr>nft_total_supply := Some supply\<rparr>
        in and_then (u64_add (nft_balance_of s dst) 1) (\<lambda>balance.
           let s = s\<lparr>nft_balance := (nft_balance s)(dst \<mapsto> balance)\<rparr>
           in Ok (nft_exit_reentrancy_guard (nft_publish (EvTransfer None (Some dst) i) s))))))"

definition nft_burn :: "ctx \<Rightarrow> nat \<Rightarrow> nft_state \<Rightarrow> nft_state nft_result" where
  "nft_burn cx i s =
     and_then (nft_check_admin cx s) (\<lambda>_.
     and_then (nft_enter_reentrancy_guard s) (\<lambda>s.
     and_then (unwrap (nft_owner_of s i)) (\<lambda>own.
     let s = s\<lparr>nft_metadata := (nft_metadata s)(i := None)\<rparr>;
         s = s\<lparr>nft_owner := (nft_owner s)(i := None)\<rparr>;
         s = s\<lparr>nft_approved := (nft_approved s)(i := None)\<rparr>;
         s = s\<lparr>nft_token_uri := (nft_token_uri s)(i := None)\<rparr>;
         s = s\<lparr>nft_transferable := (nft_transferable s)(i := None)\<rparr>;
         s = s\<lparr>nft_metadata_locked := (nft_metadata_locked s)(i := None)\<rparr>;
         s = (if nft_supply s > 0 then s\<lparr>nft_total_supply := Some (nft_supply s - 1)\<rparr> else s);
         s = s\<lparr>nft_balance := (nft_balance s)(own \<mapsto> saturating_sub (nft_balance_of s own) 1)\<rparr>
     in Ok (nft_exit_reentrancy_guard (nft_publish (EvTransfer (Some own) None i) s)))))"

definition nft_transfer :: "ctx \<Rightarrow> address \<Rightarrow> address \<Rightarrow> nat \<Rightarrow> nft_state \<Rightarrow> nft_state nft_result" where
  "nft_transfer cx frm dst i s =
     and_then (require_auth cx frm) (\<lambda>_.
     and_then (nft_enter_reentrancy_guard s) (\<lambda>s.
     and_then (nft_check_transfer_restriction s i) (\<lambda>_.
     and_then (unwrap (nft_owner_of s i)) (\<lambda>own.
     and_then (panic_unless (own = frm)) (\<lambda>_.
     and_then (nft_do_transfer frm dst i s) (\<lambda>s.
     Ok (nft_exit_reentrancy_guard s)))))))"

definition nft_transfer_from ::
  "ctx \<Rightarrow> address \<Rightarrow> address \<Rightarrow> address \<Rightarrow> nat \<Rightarrow> nft_state \<Rightarrow> nft_state nft_result" where
  "nft_transfer_from cx spender frm dst i s =
     and_then (require_auth cx spender) (\<lambda>_.
     and_then (nft_enter_reentrancy_guard s) (\<lambda>s.
     and_then (nft_check_transfer_restriction s i) (\<lambda>_.
     and_then (unwrap (nft_owner_of s i)) (\<lambda>own.
     and_then (panic_unless (own = frm)) (\<lambda>_.
     and_then
       (if spender \<noteq> frm \<and> \<not> nft_is_approved_for_all s frm spender
        then case nft_approved s i of
               Some r \<Rightarrow> panic_unless (\<not> (ap_operator r \<noteq> spender \<or> timestamp cx \<ge> ap_expires_at r))
             | None \<Rightarrow> Panic
        else Ok ()) (\<lambda>_.
     and_then (nft_do_transfer frm dst i s) (\<lambda>s.
     Ok (nft_exit_reentrancy_guard s))))))))"

definition nft_approve :: "ctx \<Rightarrow> address \<Rightarrow> address \<Rightarrow> nat \<Rightarrow> nft_state \<Rightarrow> nft_state nft_result" where
  "nft_approve cx caller opr i s =
     and_then (require_auth cx caller) (\<lambda>_.
     and_then (unwrap (nft_owner_of s i)) (\<lambda>own.
     and_then (panic_unless (opr \<noteq> own)) (\<lambda>_.
     and_then (panic_unless (caller = own \<or> nft_is_approved_for_all s own caller)) (\<lambda>_.
     let expires = saturating_add_u64 (timestamp cx) DEFAULT_APPROVAL_EXPIRATION_SECONDS;
         record = \<lparr>ap_operator = opr, ap_expires_at = expires\<rparr>
     in Ok (nft_publish (EvApproval own opr i)
          (s\<lparr>nft_approved := (nft_approved s)(i \<mapsto> record)\<rparr>))))))"

definition nft_set_approval_for_all ::
  "ctx \<Rightarrow> address \<Rightarrow> address \<Rightarrow> bool \<Rightarrow> nft_state \<Rightarrow> nft_state nft_result" where
  "nft_set_approval_for_all cx caller opr approved s =
     and_then (require_auth cx caller) (\<lambda>_.
     and_then (panic_unless (caller \<noteq> opr)) (\<lambda>_.
     Ok (nft_publish (EvApprovalForAll caller opr approved)
       (s\<lparr>nft_operator := (nft_operator s)((caller, opr) \<mapsto> approved)\<rparr>))))"

definition nft_get_approved :: "ctx \<Rightarrow> nft_state \<Rightarrow> nat \<Rightarrow> address option" where
  "nft_get_approved cx s i =
     (case nft_approved s i of
        Some r \<Rightarrow> if timestamp cx < ap_expires_at r then Some (ap_operator r) else None
      | None \<Rightarrow> None)"

definition nft_uri_of :: "nft_state \<Rightarrow> nat \<Rightarrow> string" where
  "nft_uri_of s i = unwrap_or '''' (nft_token_uri s i)"

definition nft_get_token_uri :: "nft_state \<Rightarrow> nat \<Rightarrow> string" where
  "nft_get_token_uri s token_id =
     unwrap_or '''' (map_option md_uri (nft_metadata s token_id))"

definition nft_set_token_uri :: "ctx \<Rightarrow> nat \<Rightarrow> string \<Rightarrow> nft_state \<Rightarrow> nft_state nft_result" where
  "nft_set_token_uri cx i uri s =
     and_then (nft_check_admin cx s) (\<lambda>_.
     and_then (panic_unless (nft_metadata s i \<noteq> None)) (\<lambda>_.
     Ok (s\<lparr>nft_token_uri := (nft_token_uri s)(i \<mapsto> uri)\<rparr>)))"

definition nft_get_metadata :: "nft_state \<Rightarrow> nat \<Rightarrow> loan_metadata option" where
  "nft_get_metadata s i = nft_metadata s i"

definition nft_is_metadata_locked :: "nft_state \<Rightarrow> nat \<Rightarrow> bool" where
  "nft_is_metadata_locked s i = unwrap_or False (nft_metadata_locked s i)"

definition nft_set_transferable :: "ctx \<Rightarrow> nat \<Rightarrow> bool \<Rightarrow> nft_state \<Rightarrow> nft_state nft_result" where
  "nft_set_transferable cx i is_transferable s =
     and_then (nft_check_admin cx s) (\<lambda>_.
     and_then (panic_unless (nft_metadata s i \<noteq> None)) (\<lambda>_.
     Ok (s\<lparr>nft_transferable := (nft_transferable s)(i \<mapsto> is_transferable)\<rparr>)))"

section \<open>Characterisation of the successful calls\<close>

named_theorems nft_defs "definitions of the loan NFT contract"

lemmas nft_helper_defs [nft_defs] =
  nft_publish_def nft_enter_reentrancy_guard_def nft_exit_reentrancy_guard_def
  nft_owner_of_def nft_check_transfer_restriction_def nft_do_transfer_def

lemmas nft_entry_defs [nft_defs] =
  nft_initialize_def nft_mint_def nft_burn_def nft_transfer_def nft_transfer_from_def
  nft_approve_def nft_set_approval_for_all_def nft_set_token_uri_def nft_set_transferable_def

interpretation nft_lock: lock_guard
  "\<lambda>s. nft_reentrancy_guard s \<noteq> None" nft_enter_reentrancy_guard nft_exit_reentrancy_guard
  "\<lambda>s. s\<lparr>nft_reentrancy_guard := None\<rparr>"
  by unfold_locales (auto simp: nft_helper_defs)

definition is_nft_admin :: "ctx \<Rightarrow> nft_state \<Rightarrow> bool" where
  "is_nft_admin cx s = (case nft_admin s of Some a \<Rightarrow> authorized cx a | None \<Rightarrow> False)"

lemma nft_check_admin_eq_Ok [simp]: "nft_check_admin cx s = Ok u \<longleftrightarrow> is_nft_admin cx s"
  by (auto simp: nft_check_admin_def is_nft_admin_def split: option.splits)

definition owned :: "nft_state \<Rightarrow> address \<Rightarrow> nat set" where
  "owned s a = {i. nft_owner s i = Some a}"

lemma nft_mint_Ok:
  "nft_mint cx dst md s = Ok t \<longleftrightarrow>
     is_nft_admin cx s \<and> nft_reentrancy_guard s = None \<and> nft_metadata s (md_loan_id md) = None \<and>
     nft_supply s + 1 \<le> u64_max \<and> nft_balance_of s dst + 1 \<le> u64_max \<and>
     t = s\<lparr>nft_reentrancy_guard := None,
       nft_metadata := (nft_metadata s)(md_loan_id md \<mapsto> md),
       nft_owner := (nft_owner s)(md_loan_id md \<mapsto> dst),
       nft_transferable := (nft_transferable s)(md_loan_id md \<mapsto> False),
       nft_metadata_locked := (nft_metadata_locked s)(md_loan_id md \<mapsto> True),
       nft_total_supply := Some (nft_supply s + 1),
       nft_balance := (nft_balance s)(dst \<mapsto> nft_balance_of s dst + 1),
       nft_events := nft_events s @ [EvTransfer None (Some dst) (md_loan_id md)]\<rparr>"
  by (auto simp: nft_mint_def nft_helper_defs nft_supply_def nft_balance_of_def Let_def
      split: if_splits)

lemma nft_burn_Ok:
  "nft_burn cx i s = Ok t \<longleftrightarrow>
     is_nft_admin cx s \<and> nft_reentrancy_guard s = None \<and>
     (\<exists>own. nft_owner s i = Some own \<and>
     t = s\<lparr>nft_reentrancy_guard := None,
       nft_metadata := (nft_metadata s)(i := None),
       nft_owner := (nft_owner s)(i := None),
       nft_approved := (nft_approved s)(i := None),
       nft_token_uri := (nft_token_uri s)(i := None),
       nft_transferable := (nft_transferable s)(i := None),
       nft_metadata_locked := (nft_metadata_locked s)(i := None),
       nft_total_supply := (if nft_supply s > 0 then Some (nft_supply s - 1) else nft_total_supply s),
       nft_balance := (nft_balance s)(own \<mapsto> nft_balance_of s own - 1),
       nft_events := nft_events s @ [EvTransfer (Some own) None i]\<rparr>)"
  by (auto simp: nft_burn_def nft_helper_defs nft_supply_def nft_balance_of_def Let_def
      split: if_splits)

lemma nft_do_transfer_Ok:
  "nft_do_transfer frm dst i s = Ok t \<longleftrightarrow>
     (let bal = (nft_balance s)(frm \<mapsto> nft_balance_of s frm - 1) in
     unwrap_or 0 (bal dst) + 1 \<le> u64_max \<and>
     t = s\<lparr>nft_owner := (nft_owner s)(i \<mapsto> dst), nft_approved := (nft_approved s)(i := None),
           nft_balance := bal(dst \<mapsto> unwrap_or 0 (bal dst) + 1),
           nft_events := nft_events s @ [EvTransfer (Some frm) (Some dst) i]\<rparr>)"
  by (auto simp: nft_do_transfer_def nft_publish_def nft_balance_of_def Let_def)

lemma nft_transfer_Ok:
  "nft_transfer cx frm dst i s = Ok t \<longleftrightarrow>
     authorized cx frm \<and> nft_reentrancy_guard s = None \<and>
     unwrap_or True (nft_transferable s i) \<and> nft_owner s i = Some frm \<and>
     (\<exists>u. nft_do_transfer frm dst i (s\<lparr>nft_reentrancy_guard := Some True\<rparr>) = Ok u \<and>
          t = u\<lparr>nft_reentrancy_guard := None\<rparr>)"
  by (auto simp: nft_transfer_def nft_enter_reentrancy_guard_def nft_exit_reentrancy_guard_def
      nft_owner_of_def nft_check_transfer_restriction_def split: if_splits)

definition nft_may_spend :: "ctx \<Rightarrow> nft_state \<Rightarrow> address \<Rightarrow> address \<Rightarrow> nat \<Rightarrow> bool" where
  "nft_may_spend cx s spender frm i \<longleftrightarrow>
     spender = frm \<or> nft_is_approved_for_all s frm spender \<or> nft_get_approved cx s i = Some spender"

lemma nft_transfer_from_Ok:
  "nft_transfer_from cx spender frm dst i s = Ok t \<longleftrightarrow>
     authorized cx spender \<and> nft_reentrancy_guard s = None \<and>
     unwrap_or True (nft_transferable s i) \<and> nft_owner s i = Some frm \<and>
     nft_may_spend cx s spender frm i \<and>
     (\<exists>u. nft_do_transfer frm dst i (s\<lparr>nft_reentrancy_guard := Some True\<rparr>) = Ok u \<and>
          t = u\<lparr>nft_reentrancy_guard := None\<rparr>)"
  by (auto simp: nft_transfer_from_def nft_enter_reentrancy_guard_def nft_exit_reentrancy_guard_def
      nft_owner_of_def nft_check_transfer_restriction_def nft_may_spend_def
      nft_is_approved_for_all_def nft_get_approved_def not_le split: if_splits option.splits)

section \<open>The registry invariant\<close>

text \<open>
  Supply counts the tokens, balances count what each address owns, and every per-token key
  lives exactly as long as the token does.
\<close>

definition nft_inv :: "nft_state \<Rightarrow> bool" where
  "nft_inv s \<longleftrightarrow>
     finite (dom (nft_owner s)) \<and>
     nft_supply s = card (dom (nft_owner s)) \<and>
     (\<forall>a. nft_balance_of s a = card (owned s a)) \<and>
     (\<forall>i. nft_metadata s i = None \<longleftrightarrow> nft_owner s i = None) \<and>
     (\<forall>i. nft_transferable s i = None \<longleftrightarrow> nft_owner s i = None) \<and>
     (\<forall>i. nft_owner s i = None \<longrightarrow> nft_approved s i = None \<and> nft_token_uri s i = None) \<and>
     (\<forall>i. nft_is_metadata_locked s i \<longleftrightarrow> nft_owner s i \<noteq> None) \<and>
     (\<forall>i md. nft_metadata s i = Some md \<longrightarrow> md_loan_id md = i) \<and>
     (nft_admin s = None \<longrightarrow> nft_owner s = Map.empty) \<and>
     nft_reentrancy_guard s = None"

definition nft_empty :: nft_state where
  "nft_empty = \<lparr>nft_admin = None, nft_metadata = \<lambda>_. None, nft_owner = \<lambda>_. None,
     nft_approved = \<lambda>_. None, nft_operator = \<lambda>_. None, nft_balance = \<lambda>_. None,
     nft_total_supply = None, nft_token_uri = \<lambda>_. None, nft_reentrancy_guard = None,
     nft_transferable = \<lambda>_. None, nft_metadata_locked = \<lambda>_. None, nft_events = []\<rparr>"

lemma nft_inv_empty: "nft_inv nft_empty"
  by (auto simp: nft_inv_def nft_empty_def nft_supply_def nft_balance_of_def owned_def
      nft_is_metadata_locked_def)

lemma owned_finite: "finite (dom (nft_owner s)) \<Longrightarrow> finite (owned s a)"
  by (rule finite_subset [of _ "dom (nft_owner s)"]) (auto simp: owned_def)

lemma owned_set_owner:
  "owned (s\<lparr>nft_owner := (nft_owner s)(i \<mapsto> dst)\<rparr>) a =
     (if a = dst then insert i (owned s a) else owned s a - {i})"
  by (auto simp: owned_def)

lemma owned_clear_owner:
  "owned (s\<lparr>nft_owner := (nft_owner s)(i := None)\<rparr>) a = owned s a - {i}"
  by (auto simp: owned_def)

lemma owned_cong: "nft_owner s = nft_owner t \<Longrightarrow> owned s a = owned t a"
  by (simp add: owned_def)

text \<open>The two counts, after an owner is written and after it is cleared.\<close>

lemma card_owned_mint:
  assumes "finite (dom (nft_owner s))" and "i \<notin> dom (nft_owner s)" and "nft_owner t = (nft_owner s)(i \<mapsto> dst)"
  shows "card (owned t a) = (if a = dst then card (owned s a) + 1 else card (owned s a))"
    and "card (dom (nft_owner t)) = card (dom (nft_owner s)) + 1"
proof -
  have "i \<notin> owned s a" using assms(2) by (auto simp: owned_def domIff)
  moreover have "owned t a = (if a = dst then insert i (owned s a) else owned s a - {i})"
    using owned_set_owner [of s i dst a] owned_cong [of t "s\<lparr>nft_owner := (nft_owner s)(i \<mapsto> dst)\<rparr>" a] assms(3)
    by simp
  ultimately show "card (owned t a) = (if a = dst then card (owned s a) + 1 else card (owned s a))"
    using owned_finite [OF assms(1), of a] by (auto simp: card_insert_if)
  show "card (dom (nft_owner t)) = card (dom (nft_owner s)) + 1"
    using assms by simp
qed

lemma card_owned_burn:
  assumes "finite (dom (nft_owner s))" and "nft_owner s i = Some own" and "nft_owner t = (nft_owner s)(i := None)"
  shows "card (owned t a) = (if a = own then card (owned s a) - 1 else card (owned s a))"
    and "card (dom (nft_owner t)) = card (dom (nft_owner s)) - 1"
proof -
  have "owned t a = owned s a - {i}"
    using owned_clear_owner [of s i a] owned_cong [of t "s\<lparr>nft_owner := (nft_owner s)(i := None)\<rparr>" a] assms(3)
    by simp
  moreover have "i \<in> owned s a \<longleftrightarrow> a = own" using assms(2) by (auto simp: owned_def)
  ultimately show "card (owned t a) = (if a = own then card (owned s a) - 1 else card (owned s a))"
    by (simp add: card_Diff_singleton_if)
  show "card (dom (nft_owner t)) = card (dom (nft_owner s)) - 1"
    using assms by (auto simp: card_Diff_singleton_if)
qed

lemma nft_inv_initialize: "nft_inv s \<Longrightarrow> nft_initialize admin s = Ok t \<Longrightarrow> nft_inv t"
  by (auto simp: nft_initialize_def nft_inv_def nft_supply_def nft_balance_of_def owned_def
      nft_is_metadata_locked_def split: if_splits)

lemma nft_inv_mint:
  assumes inv: "nft_inv s" and mint: "nft_mint cx dst md s = Ok t"
  shows "nft_inv t"
proof -
  let ?i = "md_loan_id md"
  have own: "nft_owner t = (nft_owner s)(?i \<mapsto> dst)" and new: "?i \<notin> dom (nft_owner s)"
    and fin: "finite (dom (nft_owner s))"
    using inv mint by (auto simp: nft_mint_Ok nft_inv_def)
  note cards = card_owned_mint [OF fin new own]
  have "nft_supply t = card (dom (nft_owner t))"
    using inv mint cards(2) by (simp add: nft_mint_Ok nft_inv_def nft_supply_def)
  moreover have "nft_balance_of t a = card (owned t a)" for a
    using inv mint cards(1) [of a] by (auto simp: nft_mint_Ok nft_inv_def nft_balance_of_def)
  moreover have "nft_admin s \<noteq> None"
    using mint by (auto simp: nft_mint_Ok is_nft_admin_def split: option.splits)
  ultimately show ?thesis
    using inv mint by (simp add: nft_mint_Ok nft_inv_def nft_is_metadata_locked_def)
qed

lemma nft_inv_burn:
  assumes inv: "nft_inv s" and burn: "nft_burn cx i s = Ok t"
  shows "nft_inv t"
proof -
  obtain own where own: "nft_owner s i = Some own" and t_own: "nft_owner t = (nft_owner s)(i := None)"
    and fin: "finite (dom (nft_owner s))"
    using inv burn by (auto simp: nft_burn_Ok nft_inv_def)
  note cards = card_owned_burn [OF fin own t_own]
  have "nft_supply t = card (dom (nft_owner t))"
    using inv burn own cards(2) by (auto simp: nft_burn_Ok nft_inv_def nft_supply_def)
  moreover have "nft_balance_of t a = card (owned t a)" for a
    using inv burn own cards(1) [of a] by (auto simp: nft_burn_Ok nft_inv_def nft_balance_of_def)
  ultimately show ?thesis
    using inv burn own by (auto simp: nft_burn_Ok nft_inv_def nft_is_metadata_locked_def split: if_splits)
qed

text \<open>Moving a token is a burn from one address and a mint to the other, also onto itself.\<close>

lemma nft_inv_do_transfer:
  assumes inv: "nft_inv s" and own: "nft_owner s i = Some frm"
    and tr: "nft_do_transfer frm dst i (s\<lparr>nft_reentrancy_guard := Some True\<rparr>) = Ok u"
  shows "nft_inv (u\<lparr>nft_reentrancy_guard := None\<rparr>)"
proof -
  let ?m = "s\<lparr>nft_owner := (nft_owner s)(i := None)\<rparr>" and ?t = "u\<lparr>nft_reentrancy_guard := None\<rparr>"
  have fin: "finite (dom (nft_owner s))" using inv by (simp add: nft_inv_def)
  then have fin': "finite (dom (nft_owner ?m))" and new: "i \<notin> dom (nft_owner ?m)" by auto
  have t_own: "nft_owner ?t = (nft_owner ?m)(i \<mapsto> dst)"
    using tr by (simp add: nft_do_transfer_Ok Let_def)
  note down = card_owned_burn [OF fin own, of ?m] and up = card_owned_mint [OF fin' new t_own]
  have pos: "card (owned s frm) > 0"
    using own owned_finite [OF fin, of frm] by (auto simp: owned_def card_gt_0_iff)
  have "nft_balance_of ?t a = card (owned ?t a)" for a
    using inv tr pos down(1) [of a] up(1) [of a]
    by (auto simp: nft_do_transfer_Ok Let_def nft_inv_def nft_balance_of_def split: if_splits)
  moreover have "nft_supply ?t = card (dom (nft_owner ?t))"
    using inv tr own by (simp add: nft_do_transfer_Ok Let_def nft_inv_def nft_supply_def
        insert_absorb domIff)
  moreover have dom: "dom (nft_owner ?t) = dom (nft_owner s)"
    using own t_own by auto
  ultimately show ?thesis
    using inv tr own unfolding nft_inv_def dom
    by (auto simp: nft_do_transfer_Ok Let_def nft_is_metadata_locked_def)
qed

lemma nft_inv_transfer: "nft_inv s \<Longrightarrow> nft_transfer cx frm dst i s = Ok t \<Longrightarrow> nft_inv t"
  by (auto simp: nft_transfer_Ok intro: nft_inv_do_transfer)

lemma nft_inv_transfer_from:
  "nft_inv s \<Longrightarrow> nft_transfer_from cx spender frm dst i s = Ok t \<Longrightarrow> nft_inv t"
  by (auto simp: nft_transfer_from_Ok intro: nft_inv_do_transfer)

text \<open>The calls that touch neither owners nor counts.\<close>

lemma nft_inv_approve: "nft_inv s \<Longrightarrow> nft_approve cx caller opr i s = Ok t \<Longrightarrow> nft_inv t"
  by (auto simp: nft_approve_def nft_owner_of_def nft_publish_def nft_inv_def nft_supply_def
      nft_balance_of_def owned_def nft_is_metadata_locked_def Let_def)

lemma nft_inv_set_approval_for_all:
  "nft_inv s \<Longrightarrow> nft_set_approval_for_all cx caller opr b s = Ok t \<Longrightarrow> nft_inv t"
  by (auto simp: nft_set_approval_for_all_def nft_publish_def nft_inv_def nft_supply_def
      nft_balance_of_def owned_def nft_is_metadata_locked_def)

lemma nft_inv_set_token_uri: "nft_inv s \<Longrightarrow> nft_set_token_uri cx i uri s = Ok t \<Longrightarrow> nft_inv t"
  by (auto simp: nft_set_token_uri_def nft_inv_def nft_supply_def nft_balance_of_def owned_def
      nft_is_metadata_locked_def)

lemma nft_inv_set_transferable: "nft_inv s \<Longrightarrow> nft_set_transferable cx i b s = Ok t \<Longrightarrow> nft_inv t"
  by (auto simp: nft_set_transferable_def nft_inv_def nft_supply_def nft_balance_of_def owned_def
      nft_is_metadata_locked_def split: if_splits)

section \<open>Runs of the contract\<close>

inductive nft_step :: "nft_state \<Rightarrow> nft_state \<Rightarrow> bool" where
  ns_initialize: "nft_initialize admin s = Ok t \<Longrightarrow> nft_step s t"
| ns_mint: "nft_mint cx dst md s = Ok t \<Longrightarrow> nft_step s t"
| ns_burn: "nft_burn cx i s = Ok t \<Longrightarrow> nft_step s t"
| ns_transfer: "nft_transfer cx frm dst i s = Ok t \<Longrightarrow> nft_step s t"
| ns_transfer_from: "nft_transfer_from cx spender frm dst i s = Ok t \<Longrightarrow> nft_step s t"
| ns_approve: "nft_approve cx caller opr i s = Ok t \<Longrightarrow> nft_step s t"
| ns_set_approval_for_all: "nft_set_approval_for_all cx caller opr b s = Ok t \<Longrightarrow> nft_step s t"
| ns_set_token_uri: "nft_set_token_uri cx i uri s = Ok t \<Longrightarrow> nft_step s t"
| ns_set_transferable: "nft_set_transferable cx i b s = Ok t \<Longrightarrow> nft_step s t"

inductive nft_reachable :: "nft_state \<Rightarrow> bool" where
  nr_start: "nft_reachable nft_empty"
| nr_step: "nft_reachable s \<Longrightarrow> nft_step s t \<Longrightarrow> nft_reachable t"

inductive_cases nft_stepE: "nft_step s t"

lemmas nft_inv_ops =
  nft_inv_initialize nft_inv_mint nft_inv_burn nft_inv_transfer nft_inv_transfer_from
  nft_inv_approve nft_inv_set_approval_for_all nft_inv_set_token_uri nft_inv_set_transferable

lemma nft_step_inv: "nft_step s t \<Longrightarrow> nft_inv s \<Longrightarrow> nft_inv t"
  by (erule nft_stepE) (auto intro: nft_inv_ops)

lemma nft_reachable_inv: "nft_reachable s \<Longrightarrow> nft_inv s"
  by (induction rule: nft_reachable.induct) (auto intro: nft_inv_empty nft_step_inv)

end
