(* ===== verification/Contract_Properties.thy ===== *)
theory Contract_Properties
  imports Plan_Vault Loan_NFT
begin

text \<open>
  The properties of the small contracts: the access-control library, the mock token, the loan NFT
  and the plan vault, with an example of each.
\<close>

section \<open>Access control\<close>

text \<open>
  Along every sequence of pauses, unpauses and operations, the number of running operations is
  never negative, no operation is running while the contract is paused, and the pause lock is free
  between calls.
\<close>

theorem no_operation_while_paused:
  assumes "pause_reachable s"
  shows "0 \<le> running_ops s \<and> (is_contract_paused s \<longrightarrow> running_ops s = 0) \<and> pause_lock s = None"
  using pause_reachable_inv [OF assms] by (simp add: pause_inv_def)

definition demo_ac_running :: ac_state where
  "demo_ac_running = ac_empty\<lparr>active_ops := Some 1\<rparr>"

theorem no_operation_while_paused_witness:
  "0 \<le> running_ops demo_ac_running \<and> running_ops demo_ac_running = 1 \<and> pause_lock demo_ac_running = None"
proof -
  have "pause_reachable ac_empty" by (rule reach_start) (simp_all add: ac_empty_def)
  moreover have "pause_step ac_empty demo_ac_running"
    by (rule step_enter) (simp add: pause_defs demo_ac_running_def ac_empty_def i128_add_def i128_min_def i128_max_def)
  ultimately have "pause_reachable demo_ac_running" by (rule reach_step)
  from no_operation_while_paused [OF this] show ?thesis by (simp add: running_ops_def demo_ac_running_def)
qed

text \<open>
  Revoking a role takes exactly that role from exactly that account, releases the lock it took,
  and assigning it again restores every account's roles.
\<close>

theorem revoke_then_assign:
  assumes "revoke_role a r s = Ok t"
  shows "(has_role t b q \<longleftrightarrow> has_role s b q \<and> \<not> (b = a \<and> q = r)) \<and>
    (has_role s a r \<longrightarrow> (has_role (assign_role a r t) b q \<longleftrightarrow> has_role s b q)) \<and> reentrancy_lock t = None"
  using has_role_revoke [OF assms] assms by (auto simp: revoke_role_eq_Ok)

theorem revoke_then_assign_witness:
  "\<exists>t. revoke_role (Addr 3) RoleGuardian (assign_role (Addr 3) RoleGuardian ac_empty) = (Ok t :: (ac_state, unit) outcome) \<and>
    \<not> has_role t (Addr 3) RoleGuardian"
proof -
  have "\<exists>t. revoke_role (Addr 3) RoleGuardian (assign_role (Addr 3) RoleGuardian ac_empty) = (Ok t :: (ac_state, unit) outcome)"
    by (simp add: revoke_role_eq_Ok assign_role_def roles_of_def ac_empty_def)
  then show ?thesis using revoke_then_assign by blast
qed

section \<open>The mock token\<close>

text \<open>
  C39. In every state reached by mints, burns and transfers between different accounts, the
  balances add up to the total supply, none is negative, and the supply stays below its cap.
\<close>

theorem token_supply_is_sum_of_balances:
  assumes "token_reachable t"
  shows "holders_total t = token_total_supply t \<and> 0 \<le> token_balance t a \<and> token_balance t a \<le> token_total_supply t \<and>
    token_total_supply t \<le> MAX_SUPPLY"
proof -
  note inv = token_reachable_inv [OF assms, unfolded token_inv_def]
  have "token_balance t a \<le> holders_total t"
  proof (cases "a \<in> dom (tk_balance t)")
    case True
    then show ?thesis unfolding holders_total_def using inv by (intro member_le_sum) auto
  next
    case False
    have "0 \<le> holders_total t" unfolding holders_total_def using inv by (intro sum_nonneg) auto
    then show ?thesis using False by (auto simp: token_balance_def domIff)
  qed
  then show ?thesis using inv by simp
qed

definition demo_minted :: token_state where
  "demo_minted = \<lparr>tk_balance = [Addr 2 \<mapsto> 500], tk_total_supply = Some 500\<rparr>"

lemma demo_mint: "token_mint (Addr 2) 500 token_empty = Ok demo_minted"
  by (simp add: token_mint_Ok token_empty_def demo_minted_def token_total_supply_def token_balance_def
      i128_min_def i128_max_def MAX_SUPPLY_def)

theorem token_supply_is_sum_of_balances_witness:
  "holders_total demo_minted = 500 \<and> token_balance demo_minted (Addr 2) \<le> token_total_supply demo_minted"
  using token_supply_is_sum_of_balances [OF tok_mint [OF tok_start demo_mint], of "Addr 2"]
  by (simp add: demo_minted_def token_total_supply_def)

text \<open>The transfers left out of C28: a transfer to oneself creates tokens out of nothing.\<close>

lemma self_transfer_mints:
  assumes "authorized cx a" and "0 \<le> n" and "n \<le> token_balance t a"
    and "token_balance t a + n \<le> i128_max"
  shows "\<exists>t'. token_transfer cx a a n t = Ok t' \<and> token_balance t' a = token_balance t a + n \<and>
    token_total_supply t' = token_total_supply t"
proof -
  have "i128_min \<le> token_balance t a - n" "token_balance t a - n \<le> i128_max" "i128_min \<le> token_balance t a + n"
    using assms by (simp_all add: i128_min_def i128_max_def)
  then show ?thesis using assms by (simp add: token_transfer_Ok token_balance_def token_total_supply_def)
qed

section \<open>The loan NFT\<close>

text \<open>
  C40. In every reachable state of the NFT contract the supply counts the tokens, each balance
  counts the tokens its account owns, every token has locked metadata that carries its own id, and
  the keys of a burned token are gone.
\<close>

theorem nft_registry_consistent:
  assumes "nft_reachable s"
  shows "nft_supply s = card (dom (nft_owner s)) \<and> nft_balance_of s a = card (owned s a) \<and>
    (nft_owner s i = None \<longrightarrow> nft_metadata s i = None \<and> nft_approved s i = None \<and> nft_token_uri s i = None) \<and>
    (\<forall>md. nft_metadata s i = Some md \<longrightarrow> md_loan_id md = i \<and> nft_is_metadata_locked s i \<and> nft_owner s i \<noteq> None)"
proof -
  have inv: "nft_inv s" using nft_reachable_inv [OF assms] .
  then have "nft_metadata s i = None \<longleftrightarrow> nft_owner s i = None" by (simp add: nft_inv_def)
  then show ?thesis using inv by (cases "nft_owner s i") (auto simp: nft_inv_def)
qed

definition demo_nft_cx :: ctx where
  "demo_nft_cx = \<lparr>timestamp = 5, sequence = 5, current_contract_address = Addr 50, authorized = \<lambda>a. a = Addr 9\<rparr>"

definition demo_metadata :: loan_metadata where
  "demo_metadata = \<lparr>md_loan_id = 4, md_borrower = Addr 3, md_principal = 1000, md_collateral_amount = 2000,
     md_collateral_token = Addr 11, md_due_date = 1005, md_ltv_ratio_bps = 5000, md_plan_id = 0, md_uri = ''x''\<rparr>"

definition demo_nft_start :: nft_state where
  "demo_nft_start = nft_empty\<lparr>nft_admin := Some (Addr 9), nft_total_supply := Some 0\<rparr>"

definition demo_nft :: nft_state where
  "demo_nft = demo_nft_start\<lparr>nft_metadata := [4 \<mapsto> demo_metadata], nft_owner := [4 \<mapsto> Addr 3],
     nft_transferable := [4 \<mapsto> False], nft_metadata_locked := [4 \<mapsto> True], nft_total_supply := Some 1,
     nft_balance := [Addr 3 \<mapsto> 1], nft_events := [EvTransfer None (Some (Addr 3)) 4]\<rparr>"

lemma demo_nft_reachable: "nft_reachable demo_nft"
proof -
  have "nft_step nft_empty demo_nft_start"
    by (rule ns_initialize [of "Addr 9"]) (simp add: nft_initialize_def demo_nft_start_def nft_empty_def)
  moreover have "nft_mint demo_nft_cx (Addr 3) demo_metadata demo_nft_start = Ok demo_nft"
    by (simp add: nft_mint_Ok demo_nft_def demo_nft_start_def nft_empty_def demo_metadata_def demo_nft_cx_def
        is_nft_admin_def nft_supply_def nft_balance_of_def u64_max_def)
  ultimately show ?thesis by (blast intro: nft_reachable.intros nft_step.intros)
qed

theorem nft_registry_consistent_witness: "nft_supply demo_nft = card (dom (nft_owner demo_nft)) \<and> nft_supply demo_nft = 1"
  using nft_registry_consistent [OF demo_nft_reachable] by (simp add: demo_nft_def nft_supply_def)

text \<open>
  A loan NFT is bound to its owner: in every reachable state a step that moves a token from one
  account to another finds it explicitly marked transferable, which only the administrator can do;
  a freshly minted token cannot move.
\<close>

theorem nft_moves_only_when_transferable:
  assumes "nft_reachable s" and "nft_step s t" and "nft_owner s i = Some a" and "nft_owner t i = Some b" and "a \<noteq> b"
  shows "nft_transferable s i = Some True"
proof -
  have some: "nft_transferable s i \<noteq> None"
    using nft_reachable_inv [OF assms(1)] assms(3) by (auto simp: nft_inv_def)
  have "unwrap_or True (nft_transferable s i)"
    using assms(2)
  proof cases
    case (ns_mint cx dst md)
    then show ?thesis using assms(3-5) nft_reachable_inv [OF assms(1)]
      by (auto simp: nft_mint_Ok nft_inv_def split: if_splits)
  next
    case (ns_transfer cx frm dst j)
    then show ?thesis using assms(3-5) by (auto simp: nft_transfer_Ok nft_do_transfer_Ok Let_def split: if_splits)
  next
    case (ns_transfer_from cx spender frm dst j)
    then show ?thesis using assms(3-5) by (auto simp: nft_transfer_from_Ok nft_do_transfer_Ok Let_def split: if_splits)
  qed (use assms(3-5) in \<open>auto simp: nft_initialize_def nft_burn_Ok nft_approve_def nft_set_approval_for_all_def
        nft_set_token_uri_def nft_set_transferable_def nft_publish_def Let_def split: if_splits\<close>)
  then show ?thesis using some by auto
qed

definition demo_nft_free :: nft_state where
  "demo_nft_free = demo_nft\<lparr>nft_transferable := [4 \<mapsto> True]\<rparr>"

definition demo_nft_moved :: nft_state where
  "demo_nft_moved = demo_nft_free\<lparr>nft_owner := [4 \<mapsto> Addr 2], nft_balance := [Addr 3 \<mapsto> 0, Addr 2 \<mapsto> 1],
     nft_events := nft_events demo_nft @ [EvTransfer (Some (Addr 3)) (Some (Addr 2)) 4]\<rparr>"

theorem nft_moves_only_when_transferable_witness: "nft_transferable demo_nft_free 4 = Some True"
proof (rule nft_moves_only_when_transferable [where a = "Addr 3" and b = "Addr 2" and t = demo_nft_moved])
  have "nft_step demo_nft demo_nft_free"
    by (rule ns_set_transferable [of demo_nft_cx 4 True])
      (simp add: nft_set_transferable_def demo_nft_free_def demo_nft_def demo_nft_start_def nft_empty_def
        demo_nft_cx_def nft_check_admin_def require_auth_def)
  then show "nft_reachable demo_nft_free" using demo_nft_reachable nr_step by blast
  show "nft_step demo_nft_free demo_nft_moved"
    by (rule ns_transfer [of "demo_nft_cx\<lparr>authorized := \<lambda>a. a = Addr 3\<rparr>" "Addr 3" "Addr 2" 4])
      (simp add: nft_transfer_Ok nft_do_transfer_Ok Let_def demo_nft_moved_def demo_nft_free_def demo_nft_def
        demo_nft_start_def nft_empty_def demo_nft_cx_def nft_balance_of_def u64_max_def)
qed (simp_all add: demo_nft_free_def demo_nft_moved_def demo_nft_def)

section \<open>The plan vault\<close>

text \<open>
  A release moves exactly the amount from the vault to the recipient on the repository's token
  and touches no other account; it succeeds only with the controller's authorization, and neither
  it nor a second initialization can change who the controller is.
\<close>

theorem vault_release_is_controlled:
  assumes "vault_release (mock_token_ops cx) cx tk rc n s = Ok t" and "rc \<noteq> current_contract_address cx"
  shows "(\<exists>c. pv_ctl s = Some c \<and> authorized cx c \<and> pv_ctl t = Some c) \<and> 0 < n \<and>
    token_balance (pv_world t tk) (current_contract_address cx) =
      token_balance (pv_world s tk) (current_contract_address cx) - int n \<and>
    token_balance (pv_world t tk) rc = token_balance (pv_world s tk) rc + int n \<and>
    (\<forall>a. a \<noteq> rc \<and> a \<noteq> current_contract_address cx \<longrightarrow> token_balance (pv_world t tk) a = token_balance (pv_world s tk) a) \<and>
    (pv_init s = Some True \<longrightarrow> vault_initialize c' o' p' t = Err Unauth)"
proof -
  from assms(1) obtain w c where w: "tok_transfer (mock_token_ops cx) tk (current_contract_address cx) rc (int n) (pv_world s) = Some w"
    and *: "0 < n" "pv_ctl s = Some c" "authorized cx c" "t = s\<lparr>pv_world := w\<rparr>" by (auto simp: vault_release_Ok)
  have "token_balance (w tk) a = token_balance (pv_world s tk) a" if "a \<noteq> rc" "a \<noteq> current_contract_address cx" for a
    using mock_ledger.transfer_frame [OF w, of tk a] that by simp
  moreover have "pv_init s = Some True \<longrightarrow> vault_initialize c' o' p' t = Err Unauth"
    using *(4) by (simp add: vault_initialize_def)
  ultimately show ?thesis using mock_ledger.release_effect [OF assms] * by auto
qed

definition demo_vault_cx :: ctx where
  "demo_vault_cx = \<lparr>timestamp = 5, sequence = 5, current_contract_address = Addr 60, authorized = \<lambda>a. a = Addr 9\<rparr>"

definition demo_vault :: "(address \<Rightarrow> token_state) vault_state" where
  "demo_vault = \<lparr>pv_init = Some True, pv_ctl = Some (Addr 9), pv_owner = Some (Addr 2), pv_pid = Some 4,
     pv_world = \<lambda>_. \<lparr>tk_balance = [Addr 60 \<mapsto> 500], tk_total_supply = Some 500\<rparr>\<rparr>"

theorem vault_release_is_controlled_witness:
  "\<exists>t. vault_release (mock_token_ops demo_vault_cx) demo_vault_cx (Addr 10) (Addr 3) 200 demo_vault = Ok t \<and>
    token_balance (pv_world t (Addr 10)) (Addr 60) = 300 \<and> token_balance (pv_world t (Addr 10)) (Addr 3) = 200"
proof -
  have "\<exists>t. vault_release (mock_token_ops demo_vault_cx) demo_vault_cx (Addr 10) (Addr 3) 200 demo_vault = Ok t"
    by (simp add: vault_release_Ok mock_transfer_Some token_transfer_Ok demo_vault_def demo_vault_cx_def invoker_ctx_def
        token_balance_def i128_min_def i128_max_def)
  then obtain t where t: "vault_release (mock_token_ops demo_vault_cx) demo_vault_cx (Addr 10) (Addr 3) 200 demo_vault = Ok t"
    by blast
  have "Addr 3 \<noteq> current_contract_address demo_vault_cx" by (simp add: demo_vault_cx_def)
  from vault_release_is_controlled [OF t this] t show ?thesis
    by (auto simp: demo_vault_def demo_vault_cx_def token_balance_def [of "\<lparr>tk_balance = _, tk_total_supply = _\<rparr>"])
qed

end
