(* ===== verification/Lending_Types.thy ===== *)
theory Lending_Types
  imports Access_Control Loan_NFT Token_Interface
begin

text \<open>
  The data of the lending contract, \<open>src/contracts/lending-contract/src/lib.rs\<close> and
  \<open>reserves.rs\<close>: its structs as records, its events and errors as datatypes, and its
  storage as one record \<open>lending_state\<close>.

  A struct's fields carry a short prefix (\<open>p_\<close> for \<open>PoolState\<close>, \<open>l_\<close> for
  \<open>LoanRecord\<close>, and so on), since HOL has one name space for fields and variables. A field
  \<open>st_x\<close> of the state is the storage key \<open>DataKey::X\<close>, \<open>None\<close> while the key is
  absent. The state extends the record of the access-control library, which lives in the same
  storage, and ends with the world of the other contracts and the log of published events.
  The time-to-live of storage entries is not modelled.
\<close>

section \<open>Constants\<close>

definition MINIMUM_LIQUIDITY :: nat where "MINIMUM_LIQUIDITY = 1000"
definition PROTOCOL_INTEREST_BPS :: nat where "PROTOCOL_INTEREST_BPS = 1000"
definition BAD_DEBT_RESERVE_BPS :: nat where "BAD_DEBT_RESERVE_BPS = 5000"
definition DEFAULT_GRACE_PERIOD_SECONDS :: nat where "DEFAULT_GRACE_PERIOD_SECONDS = 259200"
definition DEFAULT_LATE_FEE_RATE_BPS :: nat where "DEFAULT_LATE_FEE_RATE_BPS = 500"
definition REFINANCING_FEE_BPS :: nat where "REFINANCING_FEE_BPS = 50"
definition DEFAULT_REWARD_RATE :: nat where "DEFAULT_REWARD_RATE = 1000000000"
definition REWARD_PRECISION :: nat where "REWARD_PRECISION = 1000000000"
definition LIQUIDATION_THRESHOLD_BPS :: nat where "LIQUIDATION_THRESHOLD_BPS = 15000"
definition DEFAULT_INSURANCE_PREMIUM_RATE_BPS :: nat where "DEFAULT_INSURANCE_PREMIUM_RATE_BPS = 200"
definition CONTRACT_VERSION :: nat where "CONTRACT_VERSION = 1"
definition MAX_YIELD_BOOST_BPS :: nat where "MAX_YIELD_BOOST_BPS = 2000"
definition MAX_PLAN_YIELD_POSITIONS :: nat where "MAX_PLAN_YIELD_POSITIONS = 200"
definition MAX_YIELD_CLAIM_BATCH :: nat where "MAX_YIELD_CLAIM_BATCH = 25"
definition SECONDS_IN_YEAR :: nat where "SECONDS_IN_YEAR = 31536000"

named_theorems lending_consts "the constants of the lending contract"

lemmas lending_const_defs [lending_consts] =
  MINIMUM_LIQUIDITY_def PROTOCOL_INTEREST_BPS_def BAD_DEBT_RESERVE_BPS_def
  DEFAULT_GRACE_PERIOD_SECONDS_def DEFAULT_LATE_FEE_RATE_BPS_def REFINANCING_FEE_BPS_def
  DEFAULT_REWARD_RATE_def REWARD_PRECISION_def LIQUIDATION_THRESHOLD_BPS_def
  DEFAULT_INSURANCE_PREMIUM_RATE_BPS_def CONTRACT_VERSION_def MAX_YIELD_BOOST_BPS_def
  MAX_PLAN_YIELD_POSITIONS_def MAX_YIELD_CLAIM_BATCH_def SECONDS_IN_YEAR_def

section \<open>Structs\<close>

record pool_state =
  p_total_deposits :: nat
  p_total_shares :: nat
  p_total_borrowed :: nat
  p_base_rate_bps :: nat
  p_multiplier_bps :: nat
  p_utilization_cap_bps :: nat
  p_retained_yield :: nat
  p_bad_debt_reserve :: nat
  p_grace_period_seconds :: nat
  p_late_fee_rate_bps :: nat
  p_reserve_factor_bps :: nat
  p_total_protocol_revenue :: nat
  p_is_paused :: bool

record plan_yield_position =
  y_plan_id :: nat
  y_asset :: address
  y_principal :: nat
  y_last_harvest_at :: nat
  y_total_harvested :: nat
  y_last_harvest_amount :: nat
  y_harvest_count :: nat
  y_registered_at :: nat
  y_boost_bps :: nat
  y_active :: bool

record plan_yield_stats =
  ys_asset :: address
  ys_position_count :: nat
  ys_active_count :: nat
  ys_total_principal :: nat
  ys_total_harvested :: nat
  ys_available_yield :: nat

record loan_record =
  l_loan_id :: nat
  l_borrower :: address
  l_asset :: address
  l_principal :: nat
  l_collateral_amount :: nat
  l_collateral_token :: address
  l_borrow_time :: nat
  l_due_date :: nat
  l_interest_rate_bps :: nat

record refinance_terms =
  rt_outstanding_balance :: nat
  rt_new_principal :: nat
  rt_refinancing_fee :: nat
  rt_total_required :: nat
  rt_new_interest_rate_bps :: nat
  rt_new_duration_seconds :: nat
  rt_new_due_date :: nat

record loan_insurance =
  i_loan_id :: nat
  i_borrower :: address
  i_coverage_amount :: nat
  i_premium_paid :: nat
  i_premium_rate_bps :: nat
  i_purchase_time :: nat
  i_expires_at :: nat
  i_claimed :: bool

record insurance_fund =
  f_total_premiums_collected :: nat
  f_total_claims_paid :: nat
  f_available_balance :: nat

record reward_pool =
  w_total_staked :: nat
  w_reward_rate :: nat
  w_last_update_time :: nat
  w_reward_per_token_stored :: nat
  w_total_rewards_distributed :: nat

record user_stake =
  u_amount :: nat
  u_reward_per_token_paid :: nat
  u_rewards :: nat
  u_stake_time :: nat

record rate_model =
  m_base_rate_bps :: nat
  m_optimal_utilization_bps :: nat
  m_slope1_bps :: nat
  m_slope2_bps :: nat
  m_reserve_factor_bps :: nat

record reserve_config =
  r_token :: address
  r_ltv_bps :: nat
  r_liquidation_threshold_bps :: nat
  r_total_borrowed :: nat
  r_total_collateral :: nat
  r_enabled :: bool

text \<open>
  \<open>NftLoanMetadata\<close> has the fields of the NFT contract's \<open>LoanMetadata\<close>, field by
  field; the model uses the one record \<open>loan_metadata\<close> for both.
\<close>

section \<open>Events\<close>

text \<open>One constructor per event struct, its arguments the fields in the source's order.\<close>

datatype (plugins only: code) lending_event =
    ContractLinkedEvent string address
  | DepositEvent address address nat nat
  | WithdrawEvent address address nat nat
  | PriorityWithdrawEvent address address nat
  | BorrowEvent nat address address nat nat nat
  | RepayEvent nat address address nat nat nat nat
  | CollateralDepositEvent nat address address nat
  | LiquidationEvent nat address address address nat nat nat
  | InterestAccrualEvent nat address address nat nat nat nat nat
  | LateFeeChargedEvent nat address address nat nat nat nat
  | BadDebtLiquidationEvent nat address address nat nat nat
  | BadDebtReserveReplenishedEvent address nat nat
  | FlashLoanEvent address address nat nat
  | LoanRefinancedEvent nat nat address address nat nat nat nat nat nat nat nat
  | LoansConsolidatedEvent "nat list" nat address address nat nat nat nat nat
  | LoanSplitEvent nat "nat list" address address nat "nat list" nat nat
  | StakedEvent address address nat nat
  | UnstakedEvent address address nat nat nat
  | RewardsClaimedEvent address address nat nat
  | PlanYieldRegisteredEvent nat address nat nat
  | PlanYieldUnregisteredEvent nat address nat nat
  | PlanYieldBoostSetEvent nat nat nat
  | RetainedYieldFundedEvent address address nat nat
  | PlanYieldClaimedEvent nat address nat nat nat
  | RewardRateUpdatedEvent address nat nat nat
  | InsurancePurchasedEvent nat address nat nat nat nat nat
  | InsuranceClaimedEvent nat address nat nat nat
  | InsuranceCancelledEvent nat address nat nat
  | RateModelUpdatedEvent nat nat nat nat nat address nat
  | ContractUpgradedEvent nat nat bytes32 address nat
  | ReserveAddedEvent address nat nat
  | WrappedTokenAdded address
  | WrappedTokenRemoved address

section \<open>Errors\<close>

datatype (plugins only: code size) lending_error =
    NotInitialized
  | AlreadyInitialized
  | NotAdmin
  | InsufficientLiquidity
  | InsufficientShares
  | NoOpenLoan
  | LoanAlreadyExists
  | InvalidAmount
  | TransferFailed
  | Unauthorized
  | InsufficientCollateral
  | CollateralNotWhitelisted
  | UtilizationCapExceeded
  | ReentrantCall
  | FlashLoanNotRepaid
  | CannotRefinance
  | InvalidRefinanceTerms
  | LoanNotFound
  | TooManyLoans
  | InvalidSplitAmounts
  | InsufficientStake
  | NoRewardsToClaim
  | InvalidRewardRate
  | PoolPaused
  | AssetNotSupported
  | InsuranceAlreadyPurchased
  | InsuranceNotFound
  | InsuranceExpired
  | InsuranceAlreadyClaimed
  | InsufficientInsuranceFund
  | InvalidInsuranceAmount
  | InvalidRateModel
  | ContractPaused
  | PlanYieldNotRegistered
  | NoYieldAccrued
  | PlanYieldInactive
  | InvalidYieldBoost
  | TooManyYieldPositions
  | FlashLoanDefense
  | ReserveAlreadyExists
  | ReserveNotFound

text \<open>The contract error code of an error, and the conversion back from a code.\<close>

primrec error_code :: "lending_error \<Rightarrow> nat" where
  "error_code NotInitialized = 1"
| "error_code AlreadyInitialized = 2"
| "error_code NotAdmin = 3"
| "error_code InsufficientLiquidity = 4"
| "error_code InsufficientShares = 5"
| "error_code NoOpenLoan = 6"
| "error_code LoanAlreadyExists = 7"
| "error_code InvalidAmount = 8"
| "error_code TransferFailed = 9"
| "error_code Unauthorized = 10"
| "error_code InsufficientCollateral = 11"
| "error_code CollateralNotWhitelisted = 12"
| "error_code UtilizationCapExceeded = 13"
| "error_code ReentrantCall = 14"
| "error_code FlashLoanNotRepaid = 15"
| "error_code CannotRefinance = 16"
| "error_code InvalidRefinanceTerms = 17"
| "error_code LoanNotFound = 18"
| "error_code TooManyLoans = 19"
| "error_code InvalidSplitAmounts = 20"
| "error_code InsufficientStake = 21"
| "error_code NoRewardsToClaim = 22"
| "error_code InvalidRewardRate = 23"
| "error_code PoolPaused = 24"
| "error_code AssetNotSupported = 25"
| "error_code InsuranceAlreadyPurchased = 26"
| "error_code InsuranceNotFound = 27"
| "error_code InsuranceExpired = 28"
| "error_code InsuranceAlreadyClaimed = 29"
| "error_code InsufficientInsuranceFund = 30"
| "error_code InvalidInsuranceAmount = 31"
| "error_code InvalidRateModel = 32"
| "error_code ContractPaused = 33"
| "error_code PlanYieldNotRegistered = 34"
| "error_code NoYieldAccrued = 35"
| "error_code PlanYieldInactive = 36"
| "error_code InvalidYieldBoost = 37"
| "error_code TooManyYieldPositions = 38"
| "error_code FlashLoanDefense = 39"
| "error_code ReserveAlreadyExists = 40"
| "error_code ReserveNotFound = 41"

definition try_from_code :: "nat \<Rightarrow> lending_error option" where
  "try_from_code c =
     (if c = 1 then Some NotInitialized
      else if c = 2 then Some AlreadyInitialized
      else if c = 3 then Some NotAdmin
      else if c = 4 then Some InsufficientLiquidity
      else if c = 5 then Some InsufficientShares
      else if c = 6 then Some NoOpenLoan
      else if c = 7 then Some LoanAlreadyExists
      else if c = 8 then Some InvalidAmount
      else if c = 9 then Some TransferFailed
      else if c = 10 then Some Unauthorized
      else if c = 11 then Some InsufficientCollateral
      else if c = 12 then Some CollateralNotWhitelisted
      else if c = 13 then Some UtilizationCapExceeded
      else if c = 14 then Some ReentrantCall
      else if c = 15 then Some FlashLoanNotRepaid
      else if c = 16 then Some CannotRefinance
      else if c = 17 then Some InvalidRefinanceTerms
      else if c = 18 then Some LoanNotFound
      else if c = 19 then Some TooManyLoans
      else if c = 20 then Some InvalidSplitAmounts
      else if c = 21 then Some InsufficientStake
      else if c = 22 then Some NoRewardsToClaim
      else if c = 23 then Some InvalidRewardRate
      else if c = 24 then Some PoolPaused
      else if c = 25 then Some AssetNotSupported
      else if c = 26 then Some InsuranceAlreadyPurchased
      else if c = 27 then Some InsuranceNotFound
      else if c = 28 then Some InsuranceExpired
      else if c = 29 then Some InsuranceAlreadyClaimed
      else if c = 30 then Some InsufficientInsuranceFund
      else if c = 31 then Some InvalidInsuranceAmount
      else if c = 32 then Some InvalidRateModel
      else if c = 33 then Some ContractPaused
      else if c = 34 then Some PlanYieldNotRegistered
      else if c = 35 then Some NoYieldAccrued
      else if c = 36 then Some PlanYieldInactive
      else if c = 37 then Some InvalidYieldBoost
      else if c = 38 then Some TooManyYieldPositions
      else if c = 39 then Some FlashLoanDefense
      else None)"

section \<open>Storage\<close>

record 'w lending_state = ac_state +
  st_admin :: "address option"
  st_supported_assets :: "address list option"
  st_pool_state :: "address \<Rightarrow> pool_state option"
  st_shares :: "address \<times> address \<Rightarrow> nat option"
  st_loan :: "address \<Rightarrow> loan_record option"
  st_next_loan_id :: "nat option"
  st_loan_by_id :: "nat \<Rightarrow> loan_record option"
  st_collateral_ratio :: "nat option"
  st_whitelisted_collateral :: "address \<Rightarrow> bool option"
  st_reserve :: "address \<Rightarrow> reserve_config option"
  st_nft_token :: "address option"
  st_late_fees_accrued :: "nat \<Rightarrow> nat option"
  st_flash_loan_fee_bps :: "nat option"
  st_user_loans :: "address \<Rightarrow> nat list option"
  st_reward_pool :: "address \<Rightarrow> reward_pool option"
  st_user_stake :: "address \<times> address \<Rightarrow> user_stake option"
  st_insurance :: "nat \<Rightarrow> loan_insurance option"
  st_insurance_fund :: "insurance_fund option"
  st_insurance_premium_rate :: "nat option"
  st_inheritance_contract :: "address option"
  st_governance_contract :: "address option"
  st_rate_model :: "rate_model option"
  st_token :: "address option"
  st_whitelisted_flash_receiver :: "address \<Rightarrow> bool option"
  st_version :: "nat option"
  st_plan_yield :: "nat \<Rightarrow> plan_yield_position option"
  st_plan_yield_index :: "nat list option"
  st_deposit_ledger :: "address \<times> address \<Rightarrow> nat option"
  st_supp_wrp :: "address list option"
  contract_wasm :: "bytes32 option"
  world :: 'w
  lending_events :: "lending_event list"

type_synonym 'a lending_result = "('a, lending_error) outcome"

text \<open>
  The calls the contract makes to others: token transfers and balances, the NFT contract's
  \<open>mint\<close> and \<open>burn\<close>, a flash-loan receiver's \<open>execute_operation\<close> and the inheritance
  contract's \<open>verify_plan_ownership\<close>, each at the address given first.
\<close>

record 'w externals = "'w token_ops" +
  call_nft_mint :: "address \<Rightarrow> address \<Rightarrow> loan_metadata \<Rightarrow> 'w \<Rightarrow> 'w option"
  call_nft_burn :: "address \<Rightarrow> nat \<Rightarrow> 'w \<Rightarrow> 'w option"
  call_execute_operation :: "address \<Rightarrow> nat \<Rightarrow> nat \<Rightarrow> address \<Rightarrow> 'w \<Rightarrow> 'w option"
  call_verify_plan_ownership :: "address \<Rightarrow> nat \<Rightarrow> address \<Rightarrow> 'w \<Rightarrow> bool option"

definition lending_empty :: "'w \<Rightarrow> 'w lending_state" where
  "lending_empty w = \<lparr>
     roles_key = \<lambda>_. None, blacklisted_key = \<lambda>_. None, reentrancy_lock = None, paused_key = None,
     pause_lock = None, active_ops = None, contract_version = None,
     st_admin = None, st_supported_assets = None, st_pool_state = \<lambda>_. None, st_shares = \<lambda>_. None,
     st_loan = \<lambda>_. None, st_next_loan_id = None, st_loan_by_id = \<lambda>_. None,
     st_collateral_ratio = None, st_whitelisted_collateral = \<lambda>_. None, st_reserve = \<lambda>_. None,
     st_nft_token = None, st_late_fees_accrued = \<lambda>_. None, st_flash_loan_fee_bps = None,
     st_user_loans = \<lambda>_. None, st_reward_pool = \<lambda>_. None, st_user_stake = \<lambda>_. None,
     st_insurance = \<lambda>_. None, st_insurance_fund = None, st_insurance_premium_rate = None,
     st_inheritance_contract = None, st_governance_contract = None, st_rate_model = None,
     st_token = None, st_whitelisted_flash_receiver = \<lambda>_. None, st_version = None,
     st_plan_yield = \<lambda>_. None, st_plan_yield_index = None, st_deposit_ledger = \<lambda>_. None,
     st_supp_wrp = None, contract_wasm = None, world = w, lending_events = []\<rparr>"

definition publish :: "lending_event \<Rightarrow> 'w lending_state \<Rightarrow> 'w lending_state" where
  "publish ev s = s\<lparr>lending_events := lending_events s @ [ev]\<rparr>"

definition publish_all :: "lending_event list \<Rightarrow> 'w lending_state \<Rightarrow> 'w lending_state" where
  "publish_all evs s = s\<lparr>lending_events := lending_events s @ evs\<rparr>"

section \<open>Error codes\<close>

lemma try_from_code_error_code:
  "try_from_code (error_code e) =
     (if e \<in> {ReserveAlreadyExists, ReserveNotFound} then None else Some e)"
  by (cases e; simp add: try_from_code_def)

end
