(* ===== verification/Lending_Math.thy ===== *)
theory Lending_Math
  imports Lending_Types
begin

text \<open>
  The pure arithmetic of the lending contract: shares, interest, utilization, the two interest
  rate curves, the interest split, loan-to-value and the decimal printer behind the NFT
  metadata. Every cast and every checked, saturating or trapping operation of the source is
  written out.
\<close>

section \<open>Shares and interest\<close>

definition shares_for_deposit :: "pool_state \<Rightarrow> nat \<Rightarrow> nat" where
  "shares_for_deposit pool amount =
     (if p_total_shares pool = 0 \<or> p_total_deposits pool = 0 then amount
      else as_u64 (unwrap_or 0 (mul_then_div amount (p_total_shares pool) (p_total_deposits pool))))"

definition assets_for_shares :: "pool_state \<Rightarrow> nat \<Rightarrow> nat" where
  "assets_for_shares pool shares =
     (if p_total_shares pool = 0 then 0
      else as_u64 (unwrap_or 0 (mul_then_div shares (p_total_deposits pool) (p_total_shares pool))))"

definition calculate_interest :: "nat \<Rightarrow> nat \<Rightarrow> nat \<Rightarrow> nat" where
  "calculate_interest prin rate_bps elapsed_seconds =
     (if elapsed_seconds = 0 \<or> rate_bps = 0 then 0
      else let numerator = unwrap_or 0 (Option.bind (checked_mul_u128 prin rate_bps)
                 (\<lambda>v. checked_mul_u128 v elapsed_seconds));
               denominator = 10000 * SECONDS_IN_YEAR
           in as_u64 (unwrap_or 0 (Option.bind (checked_add_u128 numerator (denominator div 2))
                (\<lambda>v. checked_div v denominator))))"

definition get_utilization_bps :: "nat \<Rightarrow> nat \<Rightarrow> nat" where
  "get_utilization_bps total_borrowed total_deposits =
     (let cash = saturating_sub total_deposits total_borrowed;
          denominator = saturating_add_u128 cash total_borrowed
      in if denominator = 0 then 0
         else as_u32 (min (unwrap_or 0 (checked_div (saturating_mul_u128 total_borrowed 10000) denominator)) 10000))"

definition calculate_interest_split :: "nat \<Rightarrow> nat \<Rightarrow> nat \<times> nat" where
  "calculate_interest_split total_interest reserve_factor_bps =
     (let protocol_share = as_u64 (unwrap_or 0 (mul_then_div total_interest reserve_factor_bps 10000));
          depositor_share = saturating_sub total_interest protocol_share
      in (depositor_share, protocol_share))"

definition calc_ltv_ratio_bps :: "nat \<Rightarrow> nat \<Rightarrow> nat" where
  "calc_ltv_ratio_bps prin collateral_amount =
     (if collateral_amount = 0 then 0
      else let ltv = (prin * 10000) div collateral_amount in as_u32 (min ltv u32_max))"

definition simulate_plan_yield :: "nat \<Rightarrow> nat \<Rightarrow> nat \<Rightarrow> nat" where
  "simulate_plan_yield prin rate_bps elapsed_secs =
     (let accrued = unwrap_or 0 (Option.bind (checked_mul_u128 prin rate_bps) (\<lambda>v.
            Option.bind (checked_mul_u128 v elapsed_secs) (\<lambda>v.
            checked_div v (10000 * SECONDS_IN_YEAR))))
      in if accrued \<le> u64_max then accrued else u64_max)"

section \<open>Interest rate curves\<close>

definition calculate_dynamic_rate :: "nat \<Rightarrow> nat \<Rightarrow> nat \<Rightarrow> nat" where
  "calculate_dynamic_rate base_rate_bps multiplier_bps utilization_bps =
     (let variable_rate = saturating_mul_u64 utilization_bps multiplier_bps div 10000
      in saturating_add_u32 base_rate_bps (as_u32 variable_rate))"

definition two_slope_rate :: "rate_model \<Rightarrow> nat \<Rightarrow> nat" where
  "two_slope_rate model utilization_bps =
     (let optimal = min (m_optimal_utilization_bps model) 10000;
          utilization_bps = min utilization_bps 10000
      in if optimal = 0 then saturating_add_u32 (m_base_rate_bps model) (m_slope2_bps model)
         else if utilization_bps \<le> optimal
         then let variable = unwrap_or 0 (checked_mul_u64 utilization_bps (m_slope1_bps model)) div optimal
              in saturating_add_u32 (m_base_rate_bps model) (as_u32 variable)
         else let excess = saturating_sub utilization_bps optimal;
                  max_excess = saturating_sub 10000 optimal;
                  steep = (if max_excess = 0 then m_slope2_bps model
                           else unwrap_or 0 (checked_mul_u64 excess (m_slope2_bps model)) div max_excess)
              in saturating_add_u32
                   (saturating_add_u32 (m_base_rate_bps model) (m_slope1_bps model)) (as_u32 steep))"

text \<open>The common tail of \<open>get_supply_rate\<close> and \<open>supply_rate_bps_for\<close>.\<close>

definition supply_rate :: "nat \<Rightarrow> nat \<Rightarrow> nat \<Rightarrow> nat" where
  "supply_rate borrow_rate utilization_bps reserve_factor =
     as_u32 (unwrap_or 0 (Option.bind (checked_mul_u128 borrow_rate utilization_bps) (\<lambda>v.
       Option.bind (checked_mul_u128 v (saturating_sub 10000 reserve_factor)) (\<lambda>v.
       checked_div v (10000 * 10000)))))"

section \<open>Decimal printing\<close>

definition digit_char :: "nat \<Rightarrow> char" where
  "digit_char d = char_of (48 + d)"

text \<open>
  The loop of \<open>append_u64_to_bytes\<close> over its 20-byte buffer: the index moves down one byte
  per digit and would trap below zero or outside the buffer.
\<close>

function fill_digits :: "nat \<Rightarrow> string \<Rightarrow> nat \<Rightarrow> (nat \<times> string) lending_result" where
  "fill_digits idx buf remaining =
     (if remaining > 0
      then if idx = 0 then Panic
           else if idx - 1 < length buf
           then fill_digits (idx - 1) (buf[idx - 1 := digit_char (remaining mod 10)]) (remaining div 10)
           else Panic
      else Ok (idx, buf))"
  by pat_completeness auto
termination
  by (relation "measure (\<lambda>(idx, buf, remaining). remaining)") auto

declare fill_digits.simps [simp del]

definition append_u64_to_bytes :: "string \<Rightarrow> nat \<Rightarrow> string lending_result" where
  "append_u64_to_bytes data n =
     (if n = 0 then Ok (data @ ''0'')
      else and_then (fill_digits 20 (replicate 20 (char_of (0::nat))) n) (\<lambda>(idx, buf).
        Ok (data @ drop idx buf)))"

definition quote :: string where "quote = [CHR 0x22]"

definition build_loan_nft_uri ::
  "nat \<Rightarrow> nat \<Rightarrow> nat \<Rightarrow> nat \<Rightarrow> nat \<Rightarrow> string lending_result" where
  "build_loan_nft_uri loan_id prin collateral_amount ltv_ratio_bps due_date =
     and_then (append_u64_to_bytes
       (''{'' @ quote @ ''name'' @ quote @ '':'' @ quote @ ''XourceX Loan NFT #'') loan_id) (\<lambda>data.
     and_then (append_u64_to_bytes (data @ quote @ '','' @ quote @ ''loan_id'' @ quote @ '':'') loan_id) (\<lambda>data.
     and_then (append_u64_to_bytes (data @ '','' @ quote @ ''principal'' @ quote @ '':'') prin) (\<lambda>data.
     and_then (append_u64_to_bytes (data @ '','' @ quote @ ''collateral_amount'' @ quote @ '':'') collateral_amount) (\<lambda>data.
     and_then (append_u64_to_bytes (data @ '','' @ quote @ ''ltv_ratio_bps'' @ quote @ '':'') ltv_ratio_bps) (\<lambda>data.
     and_then (append_u64_to_bytes
       (data @ '','' @ quote @ ''plan_id'' @ quote @ '':0'' @ '','' @ quote @ ''due_date'' @ quote @ '':'') due_date) (\<lambda>data.
     Ok (data @ ''}'')))))))"

section \<open>Shares: lemmas\<close>

lemma shares_for_deposit_first:
  "p_total_shares pool = 0 \<or> p_total_deposits pool = 0 \<Longrightarrow> shares_for_deposit pool amount = amount"
  by (simp add: shares_for_deposit_def)

lemma shares_for_deposit_le:
  assumes "p_total_shares pool \<noteq> 0" and "p_total_deposits pool \<noteq> 0"
  shows "shares_for_deposit pool amount * p_total_deposits pool \<le> amount * p_total_shares pool"
proof -
  let ?d = "p_total_deposits pool"
  have "shares_for_deposit pool amount \<le> amount * p_total_shares pool div ?d"
  proof (cases "mul_then_div amount (p_total_shares pool) ?d")
    case (Some v)
    then show ?thesis using assms mul_then_div_Some_D [OF Some] as_u64_le [of v]
      by (simp add: shares_for_deposit_def)
  qed (use assms in \<open>simp add: shares_for_deposit_def as_u64_def\<close>)
  then have "shares_for_deposit pool amount * ?d \<le> amount * p_total_shares pool div ?d * ?d"
    by (rule mult_le_mono1)
  also have "\<dots> \<le> amount * p_total_shares pool" by (rule div_times_less_eq_dividend)
  finally show ?thesis .
qed

lemma assets_for_shares_le:
  "assets_for_shares pool shares * p_total_shares pool \<le> shares * p_total_deposits pool"
proof (cases "p_total_shares pool = 0")
  case False
  let ?t = "p_total_shares pool"
  have "assets_for_shares pool shares \<le> shares * p_total_deposits pool div ?t"
  proof (cases "mul_then_div shares (p_total_deposits pool) ?t")
    case (Some v)
    then show ?thesis using False mul_then_div_Some_D [OF Some] as_u64_le [of v]
      by (simp add: assets_for_shares_def)
  qed (use False in \<open>simp add: assets_for_shares_def as_u64_def\<close>)
  then have "assets_for_shares pool shares * ?t \<le> shares * p_total_deposits pool div ?t * ?t"
    by (rule mult_le_mono1)
  also have "\<dots> \<le> shares * p_total_deposits pool" by (rule div_times_less_eq_dividend)
  finally show ?thesis .
qed (simp add: assets_for_shares_def)

text \<open>No holder of at most all the shares is ever owed more than all the deposits.\<close>

lemma assets_for_shares_bound:
  assumes "shares \<le> p_total_shares pool"
  shows "assets_for_shares pool shares \<le> p_total_deposits pool"
proof (cases "p_total_shares pool = 0")
  case False
  have "assets_for_shares pool shares * p_total_shares pool \<le> shares * p_total_deposits pool"
    by (rule assets_for_shares_le)
  also have "\<dots> \<le> p_total_deposits pool * p_total_shares pool"
    using assms by (simp add: mult.commute)
  finally show ?thesis using False by simp
qed (simp add: assets_for_shares_def)

section \<open>Interest: lemmas\<close>

lemma calculate_interest_exact:
  assumes "prin \<le> u64_max" and "rate \<le> u32_max" and "el \<le> u64_max"
    and "prin * rate * el + 5000 * SECONDS_IN_YEAR \<le> u128_max"
    and "(prin * rate * el + 5000 * SECONDS_IN_YEAR) div (10000 * SECONDS_IN_YEAR) \<le> u64_max"
  shows "calculate_interest prin rate el =
    (prin * rate * el + 5000 * SECONDS_IN_YEAR) div (10000 * SECONDS_IN_YEAR)"
proof -
  have pr: "prin * rate \<le> u128_max"
    using assms(1,2) u32_le_u64 by (intro u64_mult_bound) auto
  have den: "10000 * SECONDS_IN_YEAR div 2 = 5000 * SECONDS_IN_YEAR" by (simp add: SECONDS_IN_YEAR_def)
  have "(5000 * SECONDS_IN_YEAR) div (10000 * SECONDS_IN_YEAR) = 0" by (simp add: SECONDS_IN_YEAR_def)
  then show ?thesis
    using assms pr den
    by (simp add: calculate_interest_def Let_def checked_mul_u128_def checked_add_u128_def
        checked_div_def SECONDS_IN_YEAR_def)
qed

text \<open>The result is the real-valued interest rounded to the nearest unit.\<close>

lemma round_half_up:
  fixes x d :: nat
  assumes "0 < d"
  shows "2 * x < (2 * ((x + d div 2) div d) + 1) * d" and "2 * ((x + d div 2) div d) * d \<le> 2 * x + d"
proof -
  let ?q = "(x + d div 2) div d"
  have "?q * d \<le> x + d div 2" by (rule div_times_less_eq_dividend)
  then show "2 * ?q * d \<le> 2 * x + d" by linarith
  have "x + d div 2 < (?q + 1) * d" using assms by (metis Suc_eq_plus1 dividend_less_div_times mult_Suc add.commute)
  then show "2 * x < (2 * ?q + 1) * d" by (simp add: algebra_simps)
qed

section \<open>Utilization and the interest split: lemmas\<close>

lemma get_utilization_bps_le: "get_utilization_bps b d \<le> 10000"
proof -
  have "as_u32 (min x 10000) = min x 10000" for x
    by (rule as_u32_id) (simp add: u32_max_def min.coboundedI2)
  then show ?thesis by (simp add: get_utilization_bps_def Let_def)
qed

lemma get_utilization_bps_exact:
  assumes "b \<le> d" and "0 < d" and "d \<le> u64_max"
  shows "get_utilization_bps b d = b * 10000 div d"
proof -
  have "b * 10000 \<le> u64_max * 10000" using assms by (intro mult_le_mono1) simp
  also have "\<dots> \<le> u128_max" by (simp add: u64_max_def u128_max_def)
  finally have *: "b * 10000 \<le> u128_max" .
  have le: "b * 10000 div d \<le> 10000"
    using assms mult_div_le [of b d 10000] by (simp add: mult.commute)
  then have "b * 10000 div d \<le> u32_max" by (simp add: u32_max_def)
  moreover have "d \<le> u128_max" using assms by (simp add: u64_max_def u128_max_def)
  ultimately show ?thesis
    using * le assms
    by (simp add: get_utilization_bps_def Let_def saturating_add_u128_def saturating_mul_u128_def
        checked_div_def)
qed

lemma calculate_interest_split_sum:
  assumes "calculate_interest_split i rf = (dep, prot)" and "rf \<le> 10000" and "i \<le> u64_max"
  shows "dep + prot = i" and "prot \<le> i"
proof -
  have "as_u64 (unwrap_or 0 (mul_then_div i rf 10000)) \<le> i"
    using mul_then_div_le [of rf 10000 i] as_u64_le le_trans assms(2) by blast
  then show "dep + prot = i" and "prot \<le> i"
    using assms(1) by (auto simp: calculate_interest_split_def Let_def)
qed

section \<open>Rate curves: the interface\<close>

text \<open>
  What the pool relies on when it prices a loan: the borrow rate never falls as the
  utilization rises, and it fits the 32 bits it is stored in.
\<close>

locale rate_curve =
  fixes curve :: "'m \<Rightarrow> nat \<Rightarrow> nat"
    and well_formed :: "'m \<Rightarrow> bool"
  assumes curve_mono: "well_formed m \<Longrightarrow> u \<le> v \<Longrightarrow> v \<le> 10000 \<Longrightarrow> curve m u \<le> curve m v"
    and curve_bound: "well_formed m \<Longrightarrow> u \<le> 10000 \<Longrightarrow> curve m u \<le> u32_max"
begin

lemma supply_rate_exact:
  assumes "well_formed m" and "u \<le> 10000"
  shows "supply_rate (curve m u) u rf = curve m u * u * (10000 - rf) div (10000 * 10000)"
    and "supply_rate (curve m u) u rf \<le> curve m u"
proof -
  let ?r = "curve m u"
  have r: "?r \<le> u32_max" using assms by (rule curve_bound)
  have le1: "?r * u \<le> u32_max * 10000" using r assms(2) by (rule mult_le_mono)
  have le2: "?r * u * (10000 - rf) \<le> u32_max * 10000 * 10000" by (rule mult_le_mono [OF le1]) simp
  have "u * (10000 - rf) \<le> 10000 * 10000" using assms(2) by (rule mult_le_mono) simp
  then have "?r * u * (10000 - rf) \<le> ?r * (10000 * 10000)" unfolding mult.assoc by (rule mult_le_mono2)
  then have q: "?r * u * (10000 - rf) div (10000 * 10000) \<le> ?r"
    by (metis div_le_mono div_mult_self_is_m mult_pos_pos zero_less_numeral)
  have b: "?r * u \<le> u128_max" "?r * u * (10000 - rf) \<le> u128_max"
    using le1 le2 by (simp_all add: u32_max_def u128_max_def)
  have id: "as_u32 (?r * u * (10000 - rf) div (10000 * 10000)) = ?r * u * (10000 - rf) div (10000 * 10000)"
    using q r by (intro as_u32_id) linarith
  show eq: "supply_rate ?r u rf = ?r * u * (10000 - rf) div (10000 * 10000)"
    using b id by (simp add: supply_rate_def checked_mul_u128_def checked_div_def)
  show "supply_rate ?r u rf \<le> ?r" unfolding eq by (rule q)
qed

text \<open>Depositors never earn more than borrowers pay, and earn more as the pool fills up.\<close>

lemma supply_rate_mono:
  assumes "well_formed m" and "u \<le> v" and "v \<le> 10000"
  shows "supply_rate (curve m u) u rf \<le> supply_rate (curve m v) v rf"
proof -
  have "curve m u * u \<le> curve m v * v" using assms by (intro mult_le_mono curve_mono) auto
  then have "curve m u * u * (10000 - rf) \<le> curve m v * v * (10000 - rf)" by (rule mult_le_mono1)
  then show ?thesis using assms by (simp add: supply_rate_exact(1) div_le_mono)
qed

end

section \<open>Rate curves: the two implementations\<close>

definition linear_curve :: "nat \<times> nat \<Rightarrow> nat \<Rightarrow> nat" where
  "linear_curve = (\<lambda>(base, mult). calculate_dynamic_rate base mult)"

definition linear_wf :: "nat \<times> nat \<Rightarrow> bool" where
  "linear_wf = (\<lambda>(base, mult). base \<le> u32_max \<and> mult \<le> u32_max)"

definition rate_model_wf :: "rate_model \<Rightarrow> bool" where
  "rate_model_wf m \<longleftrightarrow> m_base_rate_bps m \<le> u32_max \<and> m_optimal_utilization_bps m \<le> u32_max \<and>
     m_slope1_bps m \<le> u32_max \<and> m_slope2_bps m \<le> u32_max \<and> m_reserve_factor_bps m \<le> u32_max"

lemma u32_times_bps: "m \<le> u32_max \<Longrightarrow> u \<le> 10000 \<Longrightarrow> u * m \<le> u64_max"
  using mult_le_mono [of u 10000 m u32_max] by (simp add: u32_max_def u64_max_def)

lemma calculate_dynamic_rate_exact:
  assumes "m \<le> u32_max" and "u \<le> 10000"
  shows "calculate_dynamic_rate b m u = min (b + u * m div 10000) u32_max"
proof -
  have "u * m div 10000 \<le> m" using mult_div_le [of u 10000 m] assms(2) by (simp add: mult.commute)
  then have "u * m div 10000 \<le> u32_max" using assms(1) by linarith
  then show ?thesis using u32_times_bps [OF assms]
    by (simp add: calculate_dynamic_rate_def Let_def saturating_mul_u64_def saturating_add_u32_def)
qed

text \<open>The two-slope curve without its casts and saturation, clamped once at the end.\<close>

definition two_slope_reference :: "rate_model \<Rightarrow> nat \<Rightarrow> nat" where
  "two_slope_reference m u =
     (let opt = min (m_optimal_utilization_bps m) 10000
      in if opt = 0 then m_base_rate_bps m + m_slope2_bps m
         else if u \<le> opt then m_base_rate_bps m + u * m_slope1_bps m div opt
         else m_base_rate_bps m + m_slope1_bps m + (u - opt) * m_slope2_bps m div (10000 - opt))"

lemma two_slope_rate_eq_reference:
  assumes "rate_model_wf m"
  shows "two_slope_rate m u = min (two_slope_reference m (min u 10000)) u32_max"
proof -
  let ?opt = "min (m_optimal_utilization_bps m) 10000" and ?u = "min u 10000"
  note wf = assms [unfolded rate_model_wf_def]
  have lin: "?u * m_slope1_bps m div ?opt \<le> u32_max" if "?u \<le> ?opt"
    using mult_div_le [OF that, of "m_slope1_bps m"] wf by (simp add: mult.commute)
  have steep: "(?u - ?opt) * m_slope2_bps m div (10000 - ?opt) \<le> u32_max"
    using mult_div_le [of "?u - ?opt" "10000 - ?opt" "m_slope2_bps m"] wf
    by (simp add: mult.commute diff_le_mono)
  have m1: "?u * m_slope1_bps m \<le> u64_max" using wf by (intro u32_times_bps) auto
  have m2: "(?u - ?opt) * m_slope2_bps m \<le> u64_max" using wf by (intro u32_times_bps) auto
  consider "?opt = 0" | "?opt \<noteq> 0" "?u \<le> ?opt" | "?opt \<noteq> 0" "\<not> ?u \<le> ?opt" by blast
  then show ?thesis
  proof cases
    case 1
    then show ?thesis
      by (simp only: two_slope_rate_def two_slope_reference_def Let_def saturating_add_u32_def if_True refl)
  next
    case 2
    then show ?thesis using lin m1 as_u32_id [OF lin]
      by (simp only: two_slope_rate_def two_slope_reference_def Let_def saturating_add_u32_def
          checked_mul_u64_def if_True if_False unwrap_or_simps)
  next
    case 3
    then have pos: "10000 - ?opt \<noteq> 0" by linarith
    have sat: "min (min (a + b) u32_max + c) u32_max = min (a + b + c) u32_max" for a b c :: nat by simp
    show ?thesis using 3 pos steep m2 as_u32_id [OF steep]
      by (simp only: two_slope_rate_def two_slope_reference_def Let_def saturating_add_u32_def sat
          saturating_sub_eq checked_mul_u64_def if_True if_False unwrap_or_simps)
  qed
qed

lemma two_slope_reference_mono:
  assumes "u \<le> v" and "v \<le> 10000"
  shows "two_slope_reference m u \<le> two_slope_reference m v"
proof -
  define opt where "opt = min (m_optimal_utilization_bps m) 10000"
  have ref: "two_slope_reference m x =
     (if opt = 0 then m_base_rate_bps m + m_slope2_bps m
      else if x \<le> opt then m_base_rate_bps m + x * m_slope1_bps m div opt
      else m_base_rate_bps m + m_slope1_bps m + (x - opt) * m_slope2_bps m div (10000 - opt))" for x
    by (simp only: two_slope_reference_def Let_def opt_def)
  have lin: "u * m_slope1_bps m div opt \<le> v * m_slope1_bps m div opt"
    using assms by (intro div_le_mono mult_le_mono1)
  have cap: "u * m_slope1_bps m div opt \<le> m_slope1_bps m" if "u \<le> opt"
    using mult_div_le [OF that, of "m_slope1_bps m"] by (simp add: mult.commute)
  have steep: "(u - opt) * m_slope2_bps m div (10000 - opt) \<le> (v - opt) * m_slope2_bps m div (10000 - opt)"
    using assms by (intro div_le_mono mult_le_mono1) simp
  show ?thesis
    using lin cap steep assms(1) by (cases "u \<le> opt"; cases "v \<le> opt") (auto simp: ref)
qed

interpretation linear_rate: rate_curve linear_curve linear_wf
proof
  fix m :: "nat \<times> nat" and u v :: nat
  assume wf: "linear_wf m" and "u \<le> v" "v \<le> 10000"
  then have "u * snd m div 10000 \<le> v * snd m div 10000" by (intro div_le_mono mult_le_mono1)
  then show "linear_curve m u \<le> linear_curve m v"
    using wf \<open>u \<le> v\<close> \<open>v \<le> 10000\<close>
    by (auto simp: linear_curve_def linear_wf_def calculate_dynamic_rate_exact split: prod.splits)
next
  fix m :: "nat \<times> nat" and u :: nat
  assume "linear_wf m" "u \<le> 10000"
  then show "linear_curve m u \<le> u32_max"
    by (auto simp: linear_curve_def linear_wf_def calculate_dynamic_rate_exact split: prod.splits)
qed

interpretation two_slope: rate_curve two_slope_rate rate_model_wf
proof
  fix m :: rate_model and u v :: nat
  assume "rate_model_wf m" "u \<le> v" "v \<le> 10000"
  then show "two_slope_rate m u \<le> two_slope_rate m v"
    using two_slope_reference_mono [of u v m]
    by (simp add: two_slope_rate_eq_reference min_absorb1 min.coboundedI1)
next
  fix m :: rate_model and u :: nat
  assume "rate_model_wf m"
  then show "two_slope_rate m u \<le> u32_max" by (simp add: two_slope_rate_eq_reference)
qed

section \<open>Decimal printing: lemmas\<close>

text \<open>The reference: digits by recursion, and the number they denote.\<close>

fun decimal :: "nat \<Rightarrow> string" where
  "decimal n = (if n < 10 then [digit_char n] else decimal (n div 10) @ [digit_char (n mod 10)])"

declare decimal.simps [simp del]

definition parse_decimal :: "string \<Rightarrow> nat" where
  "parse_decimal = foldl (\<lambda>acc c. 10 * acc + (of_char c - 48)) 0"

lemma parse_decimal_decimal: "parse_decimal (decimal n) = n"
proof (induction n rule: decimal.induct)
  case (1 n)
  have "parse_decimal (xs @ [digit_char d]) = 10 * parse_decimal xs + d" if "d < 10" for xs d
    using that by (simp add: parse_decimal_def digit_char_def)
  with 1 show ?case
    by (subst decimal.simps) (auto simp: parse_decimal_def digit_char_def)
qed

lemma length_decimal_le: "n < 10 ^ Suc k \<Longrightarrow> length (decimal n) \<le> Suc k"
proof (induction k arbitrary: n)
  case 0
  then show ?case by (subst decimal.simps) simp
next
  case (Suc k)
  then have "n div 10 < 10 ^ Suc k" by (simp add: div_less_iff_less_mult mult.commute)
  from Suc.IH [OF this] show ?case by (subst decimal.simps) simp
qed

text \<open>The buffer loop writes exactly the reference's digits into the last bytes.\<close>

lemma fill_digits_spec:
  assumes "0 < n" and "length (decimal n) \<le> idx" and "idx \<le> length buf"
  shows "fill_digits idx buf n =
    Ok (idx - length (decimal n), take (idx - length (decimal n)) buf @ decimal n @ drop idx buf)"
  using assms
proof (induction n arbitrary: idx buf rule: decimal.induct)
  case (1 n)
  then have pos: "0 < idx" by (subst (asm) decimal.simps) (auto split: if_splits)
  let ?buf = "buf[idx - 1 := digit_char (n mod 10)]"
  have step: "fill_digits idx buf n = fill_digits (idx - 1) ?buf (n div 10)"
    using "1.prems" pos by (subst fill_digits.simps) auto
  have upd: "?buf = take (idx - 1) buf @ digit_char (n mod 10) # drop idx buf"
    using "1.prems" pos by (simp add: upd_conv_take_nth_drop)
  show ?case
  proof (cases "n < 10")
    case True
    then have "fill_digits (idx - 1) ?buf (n div 10) = Ok (idx - 1, ?buf)"
      by (subst fill_digits.simps) simp
    moreover have "decimal n = [digit_char n]" using True by (subst decimal.simps) simp
    ultimately show ?thesis using True upd unfolding step by simp
  next
    case False
    have dec: "decimal n = decimal (n div 10) @ [digit_char (n mod 10)]"
      using False by (subst decimal.simps) simp
    have "fill_digits (idx - 1) ?buf (n div 10) =
        Ok (idx - 1 - length (decimal (n div 10)),
          take (idx - 1 - length (decimal (n div 10))) ?buf @ decimal (n div 10) @ drop (idx - 1) ?buf)"
      using "1.prems" False dec by (intro "1.IH") (auto simp: div_greater_zero_iff)
    moreover have "\<not> length buf \<le> idx - 1" using pos "1.prems" by linarith
    ultimately show ?thesis using step dec upd "1.prems" by (simp add: min_def)
  qed
qed

lemma append_u64_to_bytes_decimal:
  assumes "n \<le> u64_max"
  shows "append_u64_to_bytes data n = Ok (data @ decimal n)"
proof (cases "n = 0")
  case True
  moreover have "decimal 0 = ''0''" by code_simp
  ultimately show ?thesis by (simp add: append_u64_to_bytes_def)
next
  case False
  have "n < 10 ^ Suc 19" using assms by (simp add: u64_max_def)
  then have len: "length (decimal n) \<le> 20" using length_decimal_le [of n 19] by simp
  then have "fill_digits 20 (replicate 20 (char_of (0::nat))) n =
      Ok (20 - length (decimal n), take (20 - length (decimal n)) (replicate 20 (char_of (0::nat))) @ decimal n @ [])"
    using False fill_digits_spec [of n 20 "replicate 20 (char_of (0::nat))"] by simp
  then show ?thesis using False len by (simp add: append_u64_to_bytes_def)
qed

lemma build_loan_nft_uri_total:
  assumes "i \<le> u64_max" "pr \<le> u64_max" "c \<le> u64_max" "l \<le> u64_max" "d \<le> u64_max"
  shows "\<exists>uri. build_loan_nft_uri i pr c l d = Ok uri"
  using assms by (simp add: build_loan_nft_uri_def append_u64_to_bytes_decimal)

end
