(* ===== verification/Lending_Storage.thy ===== *)
theory Lending_Storage
  imports Lending_Math
begin

text \<open>
  The storage accessors, the guards and the administration of the lending contract
  (\<open>src/contracts/lending-contract/src/lib.rs\<close>): initialization, asset pools, roles, the pause
  switch, the collateral and flash-loan whitelists, the multi-asset reserves and the setters of
  grace period and fees. Each operation takes the context of its invocation, its arguments in the
  source's order and the state, and keeps the source's order of checks.
\<close>

section \<open>Guards\<close>

definition require_admin :: "ctx \<Rightarrow> address \<Rightarrow> 'w lending_state \<Rightarrow> unit lending_result" where
  "require_admin cx caller s =
     and_then (require_auth cx caller) (\<lambda>_. require_role s caller RoleAdmin NotAdmin)"

definition enter_reentrancy_guard :: "'w lending_state \<Rightarrow> 'w lending_state lending_result" where
  "enter_reentrancy_guard s = reentrancy_enter ReentrantCall s"

definition exit_reentrancy_guard :: "'w lending_state \<Rightarrow> 'w lending_state" where
  "exit_reentrancy_guard s = reentrancy_exit s"

definition require_unpaused :: "'w lending_state \<Rightarrow> unit lending_result" where
  "require_unpaused s = require_not_paused ContractPaused s"

definition require_initialized :: "'w lending_state \<Rightarrow> unit lending_result" where
  "require_initialized s = ensure (st_admin s \<noteq> None) NotInitialized"

section \<open>Storage accessors\<close>

definition get_nft_token :: "'w lending_state \<Rightarrow> address option" where
  "get_nft_token s = st_nft_token s"

definition get_pool :: "'w lending_state \<Rightarrow> address \<Rightarrow> pool_state lending_result" where
  "get_pool s asset = ok_or (st_pool_state s asset) AssetNotSupported"

definition set_pool :: "address \<Rightarrow> pool_state \<Rightarrow> 'w lending_state \<Rightarrow> 'w lending_state" where
  "set_pool asset pool s = s\<lparr>st_pool_state := (st_pool_state s)(asset \<mapsto> pool)\<rparr>"

definition grace_period_end :: "'w lending_state \<Rightarrow> loan_record \<Rightarrow> nat lending_result" where
  "grace_period_end s loan =
     and_then (get_pool s (l_asset loan)) (\<lambda>pool.
     ok_or (checked_add_u64 (l_due_date loan) (p_grace_period_seconds pool)) InvalidAmount)"

definition is_after_grace_period :: "ctx \<Rightarrow> 'w lending_state \<Rightarrow> loan_record \<Rightarrow> bool lending_result" where
  "is_after_grace_period cx s loan =
     and_then (grace_period_end s loan) (\<lambda>e. Ok (timestamp cx > e))"

definition get_shares :: "'w lending_state \<Rightarrow> address \<Rightarrow> address \<Rightarrow> nat" where
  "get_shares s asset holder = unwrap_or 0 (st_shares s (holder, asset))"

definition set_shares :: "address \<Rightarrow> address \<Rightarrow> nat \<Rightarrow> 'w lending_state \<Rightarrow> 'w lending_state" where
  "set_shares asset holder shares s = s\<lparr>st_shares := (st_shares s)((holder, asset) \<mapsto> shares)\<rparr>"

definition get_user_deposit_ledger :: "'w lending_state \<Rightarrow> address \<Rightarrow> address \<Rightarrow> nat option" where
  "get_user_deposit_ledger s asset user = st_deposit_ledger s (user, asset)"

definition set_user_deposit_ledger :: "address \<Rightarrow> address \<Rightarrow> nat \<Rightarrow> 'w lending_state \<Rightarrow> 'w lending_state" where
  "set_user_deposit_ledger asset user ledger s =
     s\<lparr>st_deposit_ledger := (st_deposit_ledger s)((user, asset) \<mapsto> ledger)\<rparr>"

definition get_next_loan_id :: "'w lending_state \<Rightarrow> nat" where
  "get_next_loan_id s = unwrap_or 1 (st_next_loan_id s)"

definition increment_loan_id :: "'w lending_state \<Rightarrow> (nat \<times> 'w lending_state) lending_result" where
  "increment_loan_id s =
     (let current = get_next_loan_id s
      in and_then (u64_add current 1) (\<lambda>nxt. Ok (current, s\<lparr>st_next_loan_id := Some nxt\<rparr>)))"

definition get_collateral_ratio :: "'w lending_state \<Rightarrow> nat" where
  "get_collateral_ratio s = unwrap_or 15000 (st_collateral_ratio s)"

definition is_collateral_whitelisted :: "'w lending_state \<Rightarrow> address \<Rightarrow> bool" where
  "is_collateral_whitelisted s token = unwrap_or False (st_whitelisted_collateral s token)"

definition get_reserve :: "'w lending_state \<Rightarrow> address \<Rightarrow> reserve_config lending_result" where
  "get_reserve s token = ok_or (st_reserve s token) ReserveNotFound"

definition set_reserve :: "address \<Rightarrow> reserve_config \<Rightarrow> 'w lending_state \<Rightarrow> 'w lending_state" where
  "set_reserve token reserve s = s\<lparr>st_reserve := (st_reserve s)(token \<mapsto> reserve)\<rparr>"

definition get_admin :: "'w lending_state \<Rightarrow> address option" where
  "get_admin s = st_admin s"

definition get_user_loans :: "'w lending_state \<Rightarrow> address \<Rightarrow> nat list" where
  "get_user_loans s user = unwrap_or [] (st_user_loans s user)"

definition add_user_loan :: "address \<Rightarrow> nat \<Rightarrow> 'w lending_state \<Rightarrow> 'w lending_state" where
  "add_user_loan user loan_id s =
     s\<lparr>st_user_loans := (st_user_loans s)(user \<mapsto> get_user_loans s user @ [loan_id])\<rparr>"

definition remove_user_loan :: "address \<Rightarrow> nat \<Rightarrow> 'w lending_state \<Rightarrow> 'w lending_state" where
  "remove_user_loan user loan_id s =
     (let new_loans = filter (\<lambda>i. i \<noteq> loan_id) (get_user_loans s user)
      in if new_loans = [] then s\<lparr>st_user_loans := (st_user_loans s)(user := None)\<rparr>
         else s\<lparr>st_user_loans := (st_user_loans s)(user \<mapsto> new_loans)\<rparr>)"

text \<open>
  A token transfer through \<open>try_invoke_contract\<close>: a call that fails is an error of this
  contract.
\<close>

definition transfer ::
  "'w externals \<Rightarrow> address \<Rightarrow> address \<Rightarrow> address \<Rightarrow> nat \<Rightarrow> 'w lending_state \<Rightarrow> 'w lending_state lending_result" where
  "transfer X token sender dest amount s =
     (case tok_transfer X token sender dest (int amount) (world s) of
        None \<Rightarrow> Err TransferFailed
      | Some w \<Rightarrow> Ok (s\<lparr>world := w\<rparr>))"

section \<open>Initialization and asset pools\<close>

definition new_pool :: "nat \<Rightarrow> nat \<Rightarrow> nat \<Rightarrow> pool_state" where
  "new_pool base_rate_bps multiplier_bps utilization_cap_bps = \<lparr>
     p_total_deposits = 0, p_total_shares = 0, p_total_borrowed = 0,
     p_base_rate_bps = base_rate_bps, p_multiplier_bps = multiplier_bps,
     p_utilization_cap_bps = utilization_cap_bps, p_retained_yield = 0, p_bad_debt_reserve = 0,
     p_grace_period_seconds = DEFAULT_GRACE_PERIOD_SECONDS,
     p_late_fee_rate_bps = DEFAULT_LATE_FEE_RATE_BPS, p_reserve_factor_bps = 1000,
     p_total_protocol_revenue = 0, p_is_paused = False\<rparr>"

definition new_reward_pool :: "nat \<Rightarrow> reward_pool" where
  "new_reward_pool now = \<lparr>w_total_staked = 0, w_reward_rate = DEFAULT_REWARD_RATE,
     w_last_update_time = now, w_reward_per_token_stored = 0, w_total_rewards_distributed = 0\<rparr>"

definition initialize ::
  "ctx \<Rightarrow> address \<Rightarrow> address \<Rightarrow> nat \<Rightarrow> nat \<Rightarrow> nat \<Rightarrow> nat \<Rightarrow> 'w lending_state \<Rightarrow> 'w lending_state lending_result" where
  "initialize cx admin token base_rate_bps multiplier_bps collateral_ratio_bps utilization_cap_bps s =
     and_then (require_auth cx admin) (\<lambda>_.
     and_then (ensure (st_admin s = None) AlreadyInitialized) (\<lambda>_.
     Ok (assign_role admin RoleAdmin
       (s\<lparr>st_admin := Some admin, st_token := Some token, st_supported_assets := Some [token],
          st_collateral_ratio := Some collateral_ratio_bps,
          st_pool_state := (st_pool_state s)
            (token \<mapsto> new_pool base_rate_bps multiplier_bps utilization_cap_bps),
          st_reward_pool := (st_reward_pool s)(token \<mapsto> new_reward_pool (timestamp cx)),
          st_insurance_fund := Some \<lparr>f_total_premiums_collected = 0, f_total_claims_paid = 0,
            f_available_balance = 0\<rparr>,
          st_insurance_premium_rate := Some DEFAULT_INSURANCE_PREMIUM_RATE_BPS\<rparr>))))"

definition add_asset_pool ::
  "ctx \<Rightarrow> address \<Rightarrow> address \<Rightarrow> nat \<Rightarrow> nat \<Rightarrow> nat \<Rightarrow> 'w lending_state \<Rightarrow> 'w lending_state lending_result" where
  "add_asset_pool cx admin asset base_rate_bps multiplier_bps utilization_cap_bps s =
     and_then (require_admin cx admin s) (\<lambda>_.
     let assets = unwrap_or [] (st_supported_assets s)
     in and_then (ensure (asset \<notin> set assets) AlreadyInitialized) (\<lambda>_.
     Ok (s\<lparr>st_supported_assets := Some (assets @ [asset]),
           st_pool_state := (st_pool_state s)
             (asset \<mapsto> new_pool base_rate_bps multiplier_bps utilization_cap_bps),
           st_reward_pool := (st_reward_pool s)(asset \<mapsto> new_reward_pool (timestamp cx))\<rparr>)))"

definition get_supported_assets :: "'w lending_state \<Rightarrow> address list" where
  "get_supported_assets s = unwrap_or [] (st_supported_assets s)"

definition get_pool_for_asset :: "'w lending_state \<Rightarrow> address \<Rightarrow> pool_state lending_result" where
  "get_pool_for_asset s asset = get_pool s asset"

definition pause_asset_pool ::
  "ctx \<Rightarrow> address \<Rightarrow> address \<Rightarrow> bool \<Rightarrow> 'w lending_state \<Rightarrow> 'w lending_state lending_result" where
  "pause_asset_pool cx admin asset paused s =
     and_then (require_admin cx admin s) (\<lambda>_.
     and_then (get_pool s asset) (\<lambda>pool.
     Ok (set_pool asset (pool\<lparr>p_is_paused := paused\<rparr>) s)))"

section \<open>Roles and the pause switch\<close>

definition lending_assign_role ::
  "ctx \<Rightarrow> address \<Rightarrow> address \<Rightarrow> role \<Rightarrow> 'w lending_state \<Rightarrow> 'w lending_state lending_result" where
  "lending_assign_role cx admin addr r s =
     and_then (require_admin cx admin s) (\<lambda>_. Ok (assign_role addr r s))"

definition lending_revoke_role ::
  "ctx \<Rightarrow> address \<Rightarrow> address \<Rightarrow> role \<Rightarrow> 'w lending_state \<Rightarrow> 'w lending_state lending_result" where
  "lending_revoke_role cx admin addr r s =
     and_then (require_admin cx admin s) (\<lambda>_. revoke_role addr r s)"

definition get_roles :: "'w lending_state \<Rightarrow> address \<Rightarrow> role list" where
  "get_roles s addr = unwrap_or [] (roles_key s addr)"

definition set_nft_token :: "ctx \<Rightarrow> address \<Rightarrow> address \<Rightarrow> 'w lending_state \<Rightarrow> 'w lending_state lending_result" where
  "set_nft_token cx admin nft_token s =
     and_then (require_admin cx admin s) (\<lambda>_. Ok (s\<lparr>st_nft_token := Some nft_token\<rparr>))"

definition pause :: "ctx \<Rightarrow> address \<Rightarrow> 'w lending_state \<Rightarrow> 'w lending_state lending_result" where
  "pause cx admin s = and_then (require_admin cx admin s) (\<lambda>_. pause_contract s)"

definition unpause :: "ctx \<Rightarrow> address \<Rightarrow> 'w lending_state \<Rightarrow> 'w lending_state lending_result" where
  "unpause cx admin s = and_then (require_admin cx admin s) (\<lambda>_. Ok (unpause_contract s))"

definition is_paused :: "'w lending_state \<Rightarrow> bool" where
  "is_paused s = is_contract_paused s"

section \<open>Whitelists and multi-asset reserves\<close>

definition whitelist_collateral :: "ctx \<Rightarrow> address \<Rightarrow> address \<Rightarrow> 'w lending_state \<Rightarrow> 'w lending_state lending_result" where
  "whitelist_collateral cx admin token s =
     and_then (require_admin cx admin s) (\<lambda>_.
     Ok (s\<lparr>st_whitelisted_collateral := (st_whitelisted_collateral s)(token \<mapsto> True)\<rparr>))"

definition remove_collateral :: "ctx \<Rightarrow> address \<Rightarrow> address \<Rightarrow> 'w lending_state \<Rightarrow> 'w lending_state lending_result" where
  "remove_collateral cx admin token s =
     and_then (require_admin cx admin s) (\<lambda>_.
     Ok (s\<lparr>st_whitelisted_collateral := (st_whitelisted_collateral s)(token := None)\<rparr>))"

definition add_reserve ::
  "ctx \<Rightarrow> address \<Rightarrow> address \<Rightarrow> nat \<Rightarrow> nat \<Rightarrow> 'w lending_state \<Rightarrow> 'w lending_state lending_result" where
  "add_reserve cx admin token ltv_bps liquidation_threshold_bps s =
     and_then (require_admin cx admin s) (\<lambda>_.
     and_then (ensure (\<not> (ltv_bps = 0 \<or> liquidation_threshold_bps = 0)) InvalidAmount) (\<lambda>_.
     and_then (ensure (st_reserve s token = None) ReserveAlreadyExists) (\<lambda>_.
     let reserve = \<lparr>r_token = token, r_ltv_bps = ltv_bps,
           r_liquidation_threshold_bps = liquidation_threshold_bps, r_total_borrowed = 0,
           r_total_collateral = 0, r_enabled = True\<rparr>;
         s = set_reserve token reserve s;
         s = s\<lparr>st_whitelisted_collateral := (st_whitelisted_collateral s)(token \<mapsto> True)\<rparr>
     in Ok (publish (ReserveAddedEvent token ltv_bps liquidation_threshold_bps) s))))"

definition get_reserve_config :: "'w lending_state \<Rightarrow> address \<Rightarrow> reserve_config lending_result" where
  "get_reserve_config s token = get_reserve s token"

definition add_reserve_collateral :: "address \<Rightarrow> nat \<Rightarrow> 'w lending_state \<Rightarrow> 'w lending_state lending_result" where
  "add_reserve_collateral token amount s =
     and_then (get_reserve s token) (\<lambda>reserve.
     Ok (set_reserve token
       (reserve\<lparr>r_total_collateral := saturating_add_u64 (r_total_collateral reserve) amount\<rparr>) s))"

definition sub_reserve_collateral :: "address \<Rightarrow> nat \<Rightarrow> 'w lending_state \<Rightarrow> 'w lending_state lending_result" where
  "sub_reserve_collateral token amount s =
     and_then (get_reserve s token) (\<lambda>reserve.
     Ok (set_reserve token
       (reserve\<lparr>r_total_collateral := saturating_sub (r_total_collateral reserve) amount\<rparr>) s))"

definition add_reserve_borrowed :: "address \<Rightarrow> nat \<Rightarrow> 'w lending_state \<Rightarrow> 'w lending_state lending_result" where
  "add_reserve_borrowed token amount s =
     and_then (get_reserve s token) (\<lambda>reserve.
     Ok (set_reserve token
       (reserve\<lparr>r_total_borrowed := saturating_add_u64 (r_total_borrowed reserve) amount\<rparr>) s))"

definition sub_reserve_borrowed :: "address \<Rightarrow> nat \<Rightarrow> 'w lending_state \<Rightarrow> 'w lending_state lending_result" where
  "sub_reserve_borrowed token amount s =
     and_then (get_reserve s token) (\<lambda>reserve.
     Ok (set_reserve token
       (reserve\<lparr>r_total_borrowed := saturating_sub (r_total_borrowed reserve) amount\<rparr>) s))"

section \<open>Fee parameters\<close>

definition set_grace_period ::
  "ctx \<Rightarrow> address \<Rightarrow> address \<Rightarrow> nat \<Rightarrow> 'w lending_state \<Rightarrow> 'w lending_state lending_result" where
  "set_grace_period cx admin asset grace_period_seconds s =
     and_then (require_admin cx admin s) (\<lambda>_.
     and_then (get_pool s asset) (\<lambda>pool.
     Ok (set_pool asset (pool\<lparr>p_grace_period_seconds := grace_period_seconds\<rparr>) s)))"

definition set_late_fee_rate ::
  "ctx \<Rightarrow> address \<Rightarrow> address \<Rightarrow> nat \<Rightarrow> 'w lending_state \<Rightarrow> 'w lending_state lending_result" where
  "set_late_fee_rate cx admin asset late_fee_rate_bps s =
     and_then (require_admin cx admin s) (\<lambda>_.
     and_then (get_pool s asset) (\<lambda>pool.
     Ok (set_pool asset (pool\<lparr>p_late_fee_rate_bps := late_fee_rate_bps\<rparr>) s)))"

definition get_grace_period :: "'w lending_state \<Rightarrow> address \<Rightarrow> nat lending_result" where
  "get_grace_period s asset = and_then (get_pool s asset) (\<lambda>pool. Ok (p_grace_period_seconds pool))"

definition get_late_fee_rate :: "'w lending_state \<Rightarrow> address \<Rightarrow> nat lending_result" where
  "get_late_fee_rate s asset = and_then (get_pool s asset) (\<lambda>pool. Ok (p_late_fee_rate_bps pool))"

definition get_flash_loan_fee :: "'w lending_state \<Rightarrow> nat" where
  "get_flash_loan_fee s = unwrap_or 9 (st_flash_loan_fee_bps s)"

definition set_flash_loan_fee :: "ctx \<Rightarrow> address \<Rightarrow> nat \<Rightarrow> 'w lending_state \<Rightarrow> 'w lending_state lending_result" where
  "set_flash_loan_fee cx admin fee_bps s =
     and_then (require_admin cx admin s) (\<lambda>_. Ok (s\<lparr>st_flash_loan_fee_bps := Some fee_bps\<rparr>))"

definition whitelist_flash_loan_receiver ::
  "ctx \<Rightarrow> address \<Rightarrow> address \<Rightarrow> 'w lending_state \<Rightarrow> 'w lending_state lending_result" where
  "whitelist_flash_loan_receiver cx admin receiver s =
     and_then (require_admin cx admin s) (\<lambda>_.
     Ok (s\<lparr>st_whitelisted_flash_receiver := (st_whitelisted_flash_receiver s)(receiver \<mapsto> True)\<rparr>))"

definition remove_flash_loan_receiver ::
  "ctx \<Rightarrow> address \<Rightarrow> address \<Rightarrow> 'w lending_state \<Rightarrow> 'w lending_state lending_result" where
  "remove_flash_loan_receiver cx admin receiver s =
     and_then (require_admin cx admin s) (\<lambda>_.
     Ok (s\<lparr>st_whitelisted_flash_receiver := (st_whitelisted_flash_receiver s)(receiver := None)\<rparr>))"

definition is_flash_receiver_whitelisted :: "'w lending_state \<Rightarrow> address \<Rightarrow> bool" where
  "is_flash_receiver_whitelisted s receiver = unwrap_or False (st_whitelisted_flash_receiver s receiver)"

section \<open>Lemmas\<close>

named_theorems accessors "the storage accessors, which only read or write one key"

lemmas accessor_defs [accessors] =
  get_nft_token_def set_pool_def get_shares_def set_shares_def get_user_deposit_ledger_def
  set_user_deposit_ledger_def get_next_loan_id_def get_collateral_ratio_def
  is_collateral_whitelisted_def set_reserve_def get_user_loans_def add_user_loan_def
  exit_reentrancy_guard_def reentrancy_exit_def guard_drop_def publish_def publish_all_def

lemma require_admin_eq_Ok [simp]:
  "require_admin cx a s = Ok u \<longleftrightarrow> authorized cx a \<and> has_role s a RoleAdmin"
  by (auto simp: require_admin_def)

lemma require_admin_cases:
  "require_admin cx a s =
     (if \<not> authorized cx a then Panic else if has_role s a RoleAdmin then Ok () else Err NotAdmin)"
  by (simp add: require_admin_def require_role_def)

lemma require_initialized_eq_Ok [simp]: "require_initialized s = Ok u \<longleftrightarrow> st_admin s \<noteq> None"
  by (simp add: require_initialized_def)

lemma require_unpaused_eq_Ok [simp]:
  "require_unpaused s = Ok u \<longleftrightarrow> \<not> is_contract_paused s \<and> \<not> unwrap_or False (pause_lock s)"
  by (simp add: require_unpaused_def)

lemma enter_guard_eq_Ok [simp]:
  "enter_reentrancy_guard s = Ok t \<longleftrightarrow> reentrancy_lock s = None \<and> t = s\<lparr>reentrancy_lock := Some True\<rparr>"
  by (auto simp: enter_reentrancy_guard_def reentrancy_enter_def)

lemma guard_lock_eq_Ok [simp]:
  "guard_lock e s = Ok t \<longleftrightarrow> reentrancy_lock s = None \<and> t = s\<lparr>reentrancy_lock := Some True\<rparr>"
  by (auto simp: guard_lock_def)

lemma get_pool_eq_Ok [simp]: "get_pool s a = Ok pool \<longleftrightarrow> st_pool_state s a = Some pool"
  by (simp add: get_pool_def)

lemma get_reserve_eq_Ok [simp]: "get_reserve s a = Ok rc \<longleftrightarrow> st_reserve s a = Some rc"
  by (simp add: get_reserve_def)

lemma transfer_eq_Ok [simp]:
  "transfer X tk a b n s = Ok t \<longleftrightarrow>
     (\<exists>w. tok_transfer X tk a b (int n) (world s) = Some w \<and> t = s\<lparr>world := w\<rparr>)"
  by (auto simp: transfer_def split: option.splits)

lemma increment_loan_id_eq_Ok [simp]:
  "increment_loan_id s = Ok (i, t) \<longleftrightarrow>
     i = get_next_loan_id s \<and> i + 1 \<le> u64_max \<and> t = s\<lparr>st_next_loan_id := Some (i + 1)\<rparr>"
  by (auto simp: increment_loan_id_def Let_def)

text \<open>The contract's own guard is a lock in the sense of the access-control library.\<close>

interpretation lending_lock: lock_guard
  "\<lambda>s :: 'w lending_state. reentrancy_lock s \<noteq> None" enter_reentrancy_guard exit_reentrancy_guard
  "\<lambda>s. s\<lparr>reentrancy_lock := None\<rparr>"
  by unfold_locales (auto simp: enter_reentrancy_guard_def exit_reentrancy_guard_def lock_defs)

end
