(* ===== verification/Lending_Pool.thy ===== *)
theory Lending_Pool
  imports Lending_Storage
begin

text \<open>
  The pool operations of the lending contract
  (\<open>src/contracts/lending-contract/src/lib.rs\<close>): deposit and withdrawal against shares,
  collateralized borrowing and repayment with interest and late fees, the priority withdrawal
  of retained yield, flash loans and the read entry points.
\<close>

section \<open>Deposit and withdrawal\<close>

text \<open>The first deposit of a pool locks a minimum of shares for nobody.\<close>

definition lock_minimum_liquidity :: "pool_state \<Rightarrow> nat \<Rightarrow> (nat \<times> pool_state) lending_result" where
  "lock_minimum_liquidity pool shares =
     (if p_total_shares pool = 0
      then and_then (ensure (\<not> shares \<le> MINIMUM_LIQUIDITY) InvalidAmount) (\<lambda>_.
           and_then (u64_sub shares MINIMUM_LIQUIDITY) (\<lambda>shares.
           and_then (u64_add (p_total_shares pool) MINIMUM_LIQUIDITY) (\<lambda>ts.
           Ok (shares, pool\<lparr>p_total_shares := ts\<rparr>))))
      else Ok (shares, pool))"

text \<open>No withdrawal and no borrowing in the ledger of the user's own deposit of the token.\<close>

definition flash_loan_defense ::
  "ctx \<Rightarrow> 'w lending_state \<Rightarrow> address \<Rightarrow> address \<Rightarrow> unit lending_result" where
  "flash_loan_defense cx s token user =
     (case get_user_deposit_ledger s token user of
        None \<Rightarrow> Ok ()
      | Some deposit_ledger \<Rightarrow> ensure (\<not> sequence cx \<le> deposit_ledger) FlashLoanDefense)"

definition deposit ::
  "'w externals \<Rightarrow> ctx \<Rightarrow> address \<Rightarrow> address \<Rightarrow> nat \<Rightarrow> 'w lending_state \<Rightarrow> (nat \<times> 'w lending_state) lending_result" where
  "deposit X cx depositor asset amount s =
     and_then (require_unpaused s) (\<lambda>_.
     and_then (require_initialized s) (\<lambda>_.
     and_then (enter_reentrancy_guard s) (\<lambda>s.
     and_then (require_auth cx depositor) (\<lambda>_.
     and_then (ensure (amount \<noteq> 0) InvalidAmount) (\<lambda>_.
     and_then (get_pool s asset) (\<lambda>pool.
     and_then (ensure (\<not> p_is_paused pool) PoolPaused) (\<lambda>_.
     and_then (transfer X asset depositor (current_contract_address cx) amount s) (\<lambda>s.
     let shares = shares_for_deposit pool amount in
     and_then (lock_minimum_liquidity pool shares) (\<lambda>(shares, pool).
     and_then (ensure (shares \<noteq> 0) InvalidAmount) (\<lambda>_.
     and_then (u64_add (p_total_deposits pool) amount) (\<lambda>td.
     and_then (u64_add (p_total_shares pool) shares) (\<lambda>ts.
     let s = set_pool asset (pool\<lparr>p_total_deposits := td, p_total_shares := ts\<rparr>) s;
         existing = get_shares s asset depositor in
     and_then (u64_add existing shares) (\<lambda>sh.
     let s = set_shares asset depositor sh s;
         s = set_user_deposit_ledger asset depositor (sequence cx) s;
         s = publish (DepositEvent depositor asset amount shares) s
     in Ok (shares, exit_reentrancy_guard s))))))))))))))"

definition withdraw ::
  "'w externals \<Rightarrow> ctx \<Rightarrow> address \<Rightarrow> address \<Rightarrow> nat \<Rightarrow> 'w lending_state \<Rightarrow> (nat \<times> 'w lending_state) lending_result" where
  "withdraw X cx depositor asset shares s =
     and_then (require_unpaused s) (\<lambda>_.
     and_then (require_initialized s) (\<lambda>_.
     and_then (guard_lock ReentrantCall s) (\<lambda>s.
     and_then (require_auth cx depositor) (\<lambda>_.
     and_then (ensure (shares \<noteq> 0) InvalidAmount) (\<lambda>_.
     and_then (flash_loan_defense cx s asset depositor) (\<lambda>_.
     let depositor_shares = get_shares s asset depositor in
     and_then (ensure (\<not> shares > depositor_shares) InsufficientShares) (\<lambda>_.
     and_then (get_pool s asset) (\<lambda>pool.
     and_then (ensure (\<not> p_is_paused pool) PoolPaused) (\<lambda>_.
     let amount = assets_for_shares pool shares in
     and_then (ensure (amount \<noteq> 0) InvalidAmount) (\<lambda>_.
     let available = saturating_sub (p_total_deposits pool) (p_total_borrowed pool) in
     and_then (ensure (\<not> amount > available) InsufficientLiquidity) (\<lambda>_.
     and_then (u64_sub (p_total_deposits pool) amount) (\<lambda>td.
     and_then (u64_sub (p_total_shares pool) shares) (\<lambda>ts.
     let s = set_pool asset (pool\<lparr>p_total_deposits := td, p_total_shares := ts\<rparr>) s in
     and_then (u64_sub depositor_shares shares) (\<lambda>sh.
     let s = set_shares asset depositor sh s in
     and_then (transfer X asset (current_contract_address cx) depositor amount s) (\<lambda>s.
     let s = publish (WithdrawEvent depositor asset shares amount) s
     in Ok (amount, guard_drop s))))))))))))))))"

section \<open>Borrowing\<close>

text \<open>The rate of a new loan: the rate model when one is set, else the pool's linear curve.\<close>

definition loan_rate :: "rate_model option \<Rightarrow> nat \<Rightarrow> nat \<Rightarrow> nat \<Rightarrow> nat" where
  "loan_rate rm base_rate_bps multiplier_bps utilization_bps =
     (case rm of
        Some model \<Rightarrow> two_slope_rate model utilization_bps
      | None \<Rightarrow> calculate_dynamic_rate base_rate_bps multiplier_bps utilization_bps)"

text \<open>The isolated reserve of the collateral token is updated only when it is registered.\<close>

definition reserve_on_borrow :: "address \<Rightarrow> nat \<Rightarrow> nat \<Rightarrow> 'w lending_state \<Rightarrow> 'w lending_state lending_result" where
  "reserve_on_borrow collateral_token collateral_amount amount s =
     (if st_reserve s collateral_token \<noteq> None
      then and_then (add_reserve_collateral collateral_token collateral_amount s) (\<lambda>s.
           add_reserve_borrowed collateral_token amount s)
      else Ok s)"

definition reserve_on_repay :: "loan_record \<Rightarrow> 'w lending_state \<Rightarrow> 'w lending_state lending_result" where
  "reserve_on_repay loan s =
     (if st_reserve s (l_collateral_token loan) \<noteq> None
      then and_then (sub_reserve_collateral (l_collateral_token loan) (l_collateral_amount loan) s) (\<lambda>s.
           sub_reserve_borrowed (l_collateral_token loan) (l_principal loan) s)
      else Ok s)"

text \<open>Writing a loan under its borrower, under its id and into the borrower's list.\<close>

definition store_loan :: "loan_record \<Rightarrow> 'w lending_state \<Rightarrow> 'w lending_state" where
  "store_loan loan s =
     add_user_loan (l_borrower loan) (l_loan_id loan)
       (s\<lparr>st_loan := (st_loan s)(l_borrower loan \<mapsto> loan),
          st_loan_by_id := (st_loan_by_id s)(l_loan_id loan \<mapsto> loan)\<rparr>)"

definition close_loan :: "loan_record \<Rightarrow> address \<Rightarrow> 'w lending_state \<Rightarrow> 'w lending_state" where
  "close_loan loan borrower s =
     remove_user_loan borrower (l_loan_id loan)
       (s\<lparr>st_loan := (st_loan s)(borrower := None),
          st_loan_by_id := (st_loan_by_id s)(l_loan_id loan := None)\<rparr>)"

text \<open>Repayment and write-off also forget the loan's accrued late fees.\<close>

definition drop_loan :: "loan_record \<Rightarrow> address \<Rightarrow> 'w lending_state \<Rightarrow> 'w lending_state" where
  "drop_loan loan borrower s =
     (let s = close_loan loan borrower s
      in s\<lparr>st_late_fees_accrued := (st_late_fees_accrued s)(l_loan_id loan := None)\<rparr>)"

text \<open>The NFT of a loan is minted and burned only when an NFT contract is set; a failing call traps.\<close>

definition loan_nft_metadata :: "loan_record \<Rightarrow> string \<Rightarrow> loan_metadata" where
  "loan_nft_metadata loan uri =
     \<lparr>md_loan_id = l_loan_id loan, md_borrower = l_borrower loan, md_principal = l_principal loan,
      md_collateral_amount = l_collateral_amount loan,
      md_collateral_token = l_collateral_token loan, md_due_date = l_due_date loan,
      md_ltv_ratio_bps = calc_ltv_ratio_bps (l_principal loan) (l_collateral_amount loan),
      md_plan_id = 0, md_uri = uri\<rparr>"

definition mint_loan_nft ::
  "'w externals \<Rightarrow> loan_record \<Rightarrow> 'w lending_state \<Rightarrow> 'w lending_state lending_result" where
  "mint_loan_nft X loan s =
     (case get_nft_token s of
        None \<Rightarrow> Ok s
      | Some nft_token \<Rightarrow>
          let ltv_ratio_bps = calc_ltv_ratio_bps (l_principal loan) (l_collateral_amount loan) in
          and_then (build_loan_nft_uri (l_loan_id loan) (l_principal loan) (l_collateral_amount loan)
            ltv_ratio_bps (l_due_date loan)) (\<lambda>uri.
          and_then (unwrap (call_nft_mint X nft_token (l_borrower loan) (loan_nft_metadata loan uri)
            (world s))) (\<lambda>w.
          Ok (s\<lparr>world := w\<rparr>))))"

definition burn_loan_nft :: "'w externals \<Rightarrow> nat \<Rightarrow> 'w lending_state \<Rightarrow> 'w lending_state lending_result" where
  "burn_loan_nft X loan_id s =
     (case get_nft_token s of
        None \<Rightarrow> Ok s
      | Some nft_token \<Rightarrow>
          and_then (unwrap (call_nft_burn X nft_token loan_id (world s))) (\<lambda>w. Ok (s\<lparr>world := w\<rparr>)))"

definition borrow ::
  "'w externals \<Rightarrow> ctx \<Rightarrow> address \<Rightarrow> address \<Rightarrow> nat \<Rightarrow> address \<Rightarrow> nat \<Rightarrow> nat \<Rightarrow> 'w lending_state \<Rightarrow>
   (nat \<times> 'w lending_state) lending_result" where
  "borrow X cx borrower asset amount collateral_token collateral_amount duration_seconds s =
     and_then (require_unpaused s) (\<lambda>_.
     and_then (require_initialized s) (\<lambda>_.
     and_then (enter_reentrancy_guard s) (\<lambda>s.
     and_then (require_auth cx borrower) (\<lambda>_.
     and_then (ensure (\<not> (amount = 0 \<or> collateral_amount = 0)) InvalidAmount) (\<lambda>_.
     and_then (flash_loan_defense cx s collateral_token borrower) (\<lambda>_.
     and_then (get_pool s asset) (\<lambda>pool.
     and_then (ensure (\<not> p_is_paused pool) PoolPaused) (\<lambda>_.
     and_then (ensure (is_collateral_whitelisted s collateral_token) CollateralNotWhitelisted) (\<lambda>_.
     and_then (ensure (get_user_loans s borrower = []) LoanAlreadyExists) (\<lambda>_.
     let required_collateral =
           as_u64 (unwrap_or 0 (mul_then_div amount (get_collateral_ratio s) 10000)) in
     and_then (ensure (\<not> collateral_amount < required_collateral) InsufficientCollateral) (\<lambda>_.
     let available = saturating_sub (p_total_deposits pool) (p_total_borrowed pool) in
     and_then (ensure (\<not> amount > available) InsufficientLiquidity) (\<lambda>_.
     and_then (u64_add (p_total_borrowed pool) amount) (\<lambda>new_borrowed.
     let new_utilization_bps = get_utilization_bps new_borrowed (p_total_deposits pool) in
     and_then (ensure (\<not> new_utilization_bps > p_utilization_cap_bps pool) UtilizationCapExceeded) (\<lambda>_.
     and_then (transfer X collateral_token borrower (current_contract_address cx) collateral_amount s) (\<lambda>s.
     and_then (reserve_on_borrow collateral_token collateral_amount amount s) (\<lambda>s.
     let pool = pool\<lparr>p_total_borrowed := new_borrowed\<rparr>;
         utilization_bps = get_utilization_bps (p_total_borrowed pool) (p_total_deposits pool);
         dynamic_rate_bps = loan_rate (st_rate_model s) (p_base_rate_bps pool) (p_multiplier_bps pool) utilization_bps;
         s = set_pool asset pool s in
     and_then (increment_loan_id s) (\<lambda>(loan_id, s).
     let borrow_time = timestamp cx in
     and_then (u64_add borrow_time duration_seconds) (\<lambda>due_date.
     let loan = \<lparr>l_loan_id = loan_id, l_borrower = borrower, l_asset = asset, l_principal = amount,
                 l_collateral_amount = collateral_amount, l_collateral_token = collateral_token,
                 l_borrow_time = borrow_time, l_due_date = due_date,
                 l_interest_rate_bps = dynamic_rate_bps\<rparr>;
         s = store_loan loan s in
     and_then (mint_loan_nft X loan s) (\<lambda>s.
     and_then (transfer X asset (current_contract_address cx) borrower amount s) (\<lambda>s.
     let s = publish (BorrowEvent loan_id borrower asset amount collateral_amount due_date) s;
         s = publish (CollateralDepositEvent loan_id borrower collateral_token collateral_amount) s
     in Ok (loan_id, exit_reentrancy_guard s)))))))))))))))))))))"

section \<open>Late fees and repayment\<close>

definition calculate_late_fee :: "ctx \<Rightarrow> address \<Rightarrow> 'w lending_state \<Rightarrow> nat lending_result" where
  "calculate_late_fee cx borrower s =
     and_then (require_initialized s) (\<lambda>_.
     and_then (ok_or (st_loan s borrower) NoOpenLoan) (\<lambda>loan.
     and_then (get_pool s (l_asset loan)) (\<lambda>pool.
     and_then (grace_period_end s loan) (\<lambda>grace_period_end.
     if timestamp cx \<le> grace_period_end then Ok 0
     else let days_overdue = (timestamp cx - grace_period_end) div (24 * 60 * 60) in
       if days_overdue = 0 then Ok 0
       else let accrued_fees = unwrap_or 0 (st_late_fees_accrued s (l_loan_id loan)) in
         if accrued_fees > 0 then Ok accrued_fees
         else let daily_fee = as_u64 (unwrap_or 0
                    (mul_then_div (l_principal loan) (p_late_fee_rate_bps pool) 10000))
              in Ok (as_u64 (unwrap_or 0 (checked_mul_u128 daily_fee days_overdue)))))))"

text \<open>The interest of a loan since it was opened.\<close>

definition loan_interest :: "ctx \<Rightarrow> loan_record \<Rightarrow> nat" where
  "loan_interest cx loan =
     (let elapsed = saturating_sub (timestamp cx) (l_borrow_time loan)
      in calculate_interest (l_principal loan) (l_interest_rate_bps loan) elapsed)"

text \<open>
  The pool after a repayment: a tenth of the interest goes to the protocol, half of that tenth to
  the bad-debt reserve, and all late fees to the retained yield.
\<close>

definition settle_repayment :: "loan_record \<Rightarrow> nat \<Rightarrow> nat \<Rightarrow> pool_state \<Rightarrow> pool_state lending_result" where
  "settle_repayment loan interest late_fee pool =
     and_then (u64_sub (p_total_borrowed pool) (l_principal loan)) (\<lambda>tb.
     let protocol_share = as_u64 (unwrap_or 0 (mul_then_div interest PROTOCOL_INTEREST_BPS 10000));
         reserve_share = as_u64 (unwrap_or 0 (mul_then_div protocol_share BAD_DEBT_RESERVE_BPS 10000));
         retained_share = saturating_sub protocol_share reserve_share in
     and_then (u64_sub interest protocol_share) (\<lambda>pool_share.
     and_then (u64_add (p_total_deposits pool) pool_share) (\<lambda>td.
     and_then (u64_add retained_share late_fee) (\<lambda>kept.
     and_then (u64_add (p_retained_yield pool) kept) (\<lambda>ry.
     and_then (u64_add (p_bad_debt_reserve pool) reserve_share) (\<lambda>bd.
     Ok (pool\<lparr>p_total_borrowed := tb, p_total_deposits := td, p_retained_yield := ry,
              p_bad_debt_reserve := bd\<rparr>)))))))"

text \<open>The event of a charged late fee, published only when there is one.\<close>

definition late_fee_events ::
  "ctx \<Rightarrow> loan_record \<Rightarrow> address \<Rightarrow> nat \<Rightarrow> nat \<Rightarrow> nat \<Rightarrow> lending_event list" where
  "late_fee_events cx loan borrower late_fee grace_end total_repayment =
     (if late_fee > 0
      then let current_time = timestamp cx;
               days_overdue = saturating_sub current_time grace_end div (24 * 60 * 60)
           in [LateFeeChargedEvent (l_loan_id loan) borrower (l_asset loan) late_fee days_overdue
                 total_repayment current_time]
      else [])"

definition repay ::
  "'w externals \<Rightarrow> ctx \<Rightarrow> address \<Rightarrow> 'w lending_state \<Rightarrow> (nat \<times> 'w lending_state) lending_result" where
  "repay X cx borrower s =
     and_then (require_unpaused s) (\<lambda>_.
     and_then (require_initialized s) (\<lambda>_.
     and_then (enter_reentrancy_guard s) (\<lambda>s.
     and_then (require_auth cx borrower) (\<lambda>_.
     and_then (ok_or (st_loan s borrower) NoOpenLoan) (\<lambda>loan.
     let interest = loan_interest cx loan in
     and_then (calculate_late_fee cx borrower s) (\<lambda>late_fee.
     and_then (u64_add (l_principal loan) interest) (\<lambda>subtotal.
     and_then (u64_add subtotal late_fee) (\<lambda>total_repayment.
     and_then (grace_period_end s loan) (\<lambda>grace_period_end.
     and_then (transfer X (l_asset loan) borrower (current_contract_address cx) total_repayment s) (\<lambda>s.
     and_then (transfer X (l_collateral_token loan) (current_contract_address cx) borrower
       (l_collateral_amount loan) s) (\<lambda>s.
     and_then (reserve_on_repay loan s) (\<lambda>s.
     and_then (get_pool s (l_asset loan)) (\<lambda>pool.
     and_then (settle_repayment loan interest late_fee pool) (\<lambda>pool.
     let s = set_pool (l_asset loan) pool s;
         s = drop_loan loan borrower s in
     and_then (burn_loan_nft X (l_loan_id loan) s) (\<lambda>s.
     let s = publish_all (late_fee_events cx loan borrower late_fee grace_period_end total_repayment) s;
         s = publish (RepayEvent (l_loan_id loan) borrower (l_asset loan) (l_principal loan) interest
               total_repayment (l_collateral_amount loan)) s
     in Ok (total_repayment, exit_reentrancy_guard s))))))))))))))))"

definition get_repayment_amount :: "ctx \<Rightarrow> address \<Rightarrow> 'w lending_state \<Rightarrow> nat lending_result" where
  "get_repayment_amount cx borrower s =
     (case st_loan s borrower of
        Some loan \<Rightarrow>
          let interest = loan_interest cx loan in
          and_then (calculate_late_fee cx borrower s) (\<lambda>late_fee.
          and_then (u64_add (l_principal loan) interest) (\<lambda>subtotal.
          u64_add subtotal late_fee))
      | None \<Rightarrow> Err NoOpenLoan)"

definition emit_interest_accrual ::
  "ctx \<Rightarrow> address \<Rightarrow> 'w lending_state \<Rightarrow> (nat \<times> 'w lending_state) lending_result" where
  "emit_interest_accrual cx borrower s =
     and_then (require_initialized s) (\<lambda>_.
     case st_loan s borrower of
       Some loan \<Rightarrow>
         let elapsed = saturating_sub (timestamp cx) (l_borrow_time loan);
             interest = loan_interest cx loan
         in Ok (interest, publish (InterestAccrualEvent (l_loan_id loan) borrower (l_asset loan)
              (l_principal loan) interest (l_interest_rate_bps loan) elapsed (timestamp cx)) s)
     | None \<Rightarrow> Err NoOpenLoan)"

definition withdraw_priority ::
  "'w externals \<Rightarrow> ctx \<Rightarrow> address \<Rightarrow> address \<Rightarrow> nat \<Rightarrow> 'w lending_state \<Rightarrow> (nat \<times> 'w lending_state) lending_result" where
  "withdraw_priority X cx caller asset amount s =
     and_then (require_unpaused s) (\<lambda>_.
     and_then (require_initialized s) (\<lambda>_.
     and_then (enter_reentrancy_guard s) (\<lambda>s.
     and_then (require_auth cx caller) (\<lambda>_.
     and_then (ensure (amount \<noteq> 0) InvalidAmount) (\<lambda>_.
     and_then (get_pool s asset) (\<lambda>pool.
     and_then (ensure (\<not> amount > p_retained_yield pool) InsufficientLiquidity) (\<lambda>_.
     and_then (u64_sub (p_retained_yield pool) amount) (\<lambda>ry.
     let s = set_pool asset (pool\<lparr>p_retained_yield := ry\<rparr>) s in
     and_then (transfer X asset (current_contract_address cx) caller amount s) (\<lambda>s.
     Ok (amount, exit_reentrancy_guard (publish (PriorityWithdrawEvent caller asset amount) s)))))))))))"

section \<open>Flash loans\<close>

definition flash_loan_inner ::
  "'w externals \<Rightarrow> ctx \<Rightarrow> address \<Rightarrow> address \<Rightarrow> address \<Rightarrow> nat \<Rightarrow> 'w lending_state \<Rightarrow> 'w lending_state lending_result" where
  "flash_loan_inner X cx initiator receiver_id asset amount s =
     and_then (ensure (amount \<noteq> 0) InvalidAmount) (\<lambda>_.
     and_then (get_pool s asset) (\<lambda>pool.
     and_then (ensure (\<not> p_is_paused pool) PoolPaused) (\<lambda>_.
     let available = saturating_sub (p_total_deposits pool) (p_total_borrowed pool) in
     and_then (ensure (\<not> amount > available) InsufficientLiquidity) (\<lambda>_.
     and_then (u64_add (p_total_borrowed pool) amount) (\<lambda>new_borrowed.
     let new_utilization_bps = get_utilization_bps new_borrowed (p_total_deposits pool) in
     and_then (ensure (\<not> new_utilization_bps > p_utilization_cap_bps pool) UtilizationCapExceeded) (\<lambda>_.
     let fee_bps = unwrap_or 9 (st_flash_loan_fee_bps s);
         fee = as_u64 (unwrap_or 0 (mul_then_div amount fee_bps 10000));
         contract_id = current_contract_address cx in
     and_then (unwrap (tok_balance X asset contract_id (world s))) (\<lambda>balance_before.
     and_then (unwrap (tok_transfer X asset contract_id receiver_id (int amount) (world s))) (\<lambda>w.
     and_then (unwrap (call_execute_operation X receiver_id amount fee initiator w)) (\<lambda>w.
     and_then (unwrap (tok_balance X asset contract_id w)) (\<lambda>balance_after.
     and_then (i128_add balance_before (int fee)) (\<lambda>required_balance.
     and_then (ensure (\<not> balance_after < required_balance) FlashLoanNotRepaid) (\<lambda>_.
     and_then (u64_add (p_total_deposits pool) fee) (\<lambda>td.
     let s = set_pool asset (pool\<lparr>p_total_deposits := td\<rparr>) (s\<lparr>world := w\<rparr>)
     in Ok (publish (FlashLoanEvent receiver_id asset amount fee) s))))))))))))))"

definition flash_loan ::
  "'w externals \<Rightarrow> ctx \<Rightarrow> address \<Rightarrow> address \<Rightarrow> address \<Rightarrow> nat \<Rightarrow> 'w lending_state \<Rightarrow> 'w lending_state lending_result" where
  "flash_loan X cx initiator receiver_id asset amount s =
     and_then (require_unpaused s) (\<lambda>_.
     and_then (require_initialized s) (\<lambda>_.
     and_then (require_auth cx initiator) (\<lambda>_.
     and_then (ensure (unwrap_or False (st_whitelisted_flash_receiver s receiver_id)) Unauthorized) (\<lambda>_.
     and_then (enter_reentrancy_guard s) (\<lambda>s.
     and_then (flash_loan_inner X cx initiator receiver_id asset amount s) (\<lambda>s.
     Ok (exit_reentrancy_guard s)))))))"

section \<open>Reads\<close>

definition get_pool_state :: "'w lending_state \<Rightarrow> address \<Rightarrow> pool_state lending_result" where
  "get_pool_state s asset = get_pool s asset"

definition get_shares_of :: "'w lending_state \<Rightarrow> address \<Rightarrow> address \<Rightarrow> nat" where
  "get_shares_of s asset holder = get_shares s asset holder"

definition get_deposit_ledger :: "'w lending_state \<Rightarrow> address \<Rightarrow> address \<Rightarrow> nat option" where
  "get_deposit_ledger s asset user = get_user_deposit_ledger s asset user"

definition get_loan :: "'w lending_state \<Rightarrow> address \<Rightarrow> loan_record option" where
  "get_loan s borrower = st_loan s borrower"

definition get_loan_by_id :: "'w lending_state \<Rightarrow> nat \<Rightarrow> loan_record option" where
  "get_loan_by_id s loan_id = st_loan_by_id s loan_id"

definition get_user_loan_ids :: "'w lending_state \<Rightarrow> address \<Rightarrow> nat list" where
  "get_user_loan_ids s user = get_user_loans s user"

definition available_liquidity :: "'w lending_state \<Rightarrow> address \<Rightarrow> nat lending_result" where
  "available_liquidity s asset =
     and_then (require_initialized s) (\<lambda>_.
     and_then (get_pool s asset) (\<lambda>pool.
     Ok (saturating_sub (p_total_deposits pool) (p_total_borrowed pool))))"

definition get_current_interest_rate :: "'w lending_state \<Rightarrow> address \<Rightarrow> nat lending_result" where
  "get_current_interest_rate s asset =
     and_then (require_initialized s) (\<lambda>_.
     and_then (get_pool s asset) (\<lambda>pool.
     let utilization_bps = get_utilization_bps (p_total_borrowed pool) (p_total_deposits pool) in
     case st_rate_model s of
       Some model \<Rightarrow> Ok (two_slope_rate model utilization_bps)
     | None \<Rightarrow> Ok (calculate_dynamic_rate (p_base_rate_bps pool) (p_multiplier_bps pool) utilization_bps)))"

definition is_in_grace_period :: "ctx \<Rightarrow> address \<Rightarrow> 'w lending_state \<Rightarrow> bool lending_result" where
  "is_in_grace_period cx borrower s =
     and_then (require_initialized s) (\<lambda>_.
     and_then (ok_or (st_loan s borrower) NoOpenLoan) (\<lambda>loan.
     and_then (grace_period_end s loan) (\<lambda>grace_period_end.
     Ok (timestamp cx \<le> grace_period_end))))"

definition get_total_due_with_late_fees :: "ctx \<Rightarrow> address \<Rightarrow> 'w lending_state \<Rightarrow> nat lending_result" where
  "get_total_due_with_late_fees cx borrower s =
     and_then (require_initialized s) (\<lambda>_.
     and_then (ok_or (st_loan s borrower) NoOpenLoan) (\<lambda>loan.
     let interest = loan_interest cx loan in
     and_then (calculate_late_fee cx borrower s) (\<lambda>late_fee.
     and_then (u64_add (l_principal loan) interest) (\<lambda>subtotal.
     u64_add subtotal late_fee))))"

section \<open>Successful calls: the building blocks\<close>

definition locked_liquidity :: "pool_state \<Rightarrow> nat" where
  "locked_liquidity pool = (if p_total_shares pool = 0 then MINIMUM_LIQUIDITY else 0)"

lemma lock_minimum_liquidity_eq_Ok [simp]:
  "lock_minimum_liquidity pool shares = Ok (sh, pool') \<longleftrightarrow>
     shares = sh + locked_liquidity pool \<and> (p_total_shares pool = 0 \<longrightarrow> 0 < sh) \<and>
     pool' = pool\<lparr>p_total_shares := p_total_shares pool + locked_liquidity pool\<rparr>"
proof -
  have "MINIMUM_LIQUIDITY \<le> u64_max" by (simp add: MINIMUM_LIQUIDITY_def u64_max_def)
  then show ?thesis by (auto simp: lock_minimum_liquidity_def locked_liquidity_def)
qed

lemma flash_loan_defense_eq_Ok [simp]:
  "flash_loan_defense cx s a u = Ok x \<longleftrightarrow>
     (\<forall>l. st_deposit_ledger s (u, a) = Some l \<longrightarrow> l < sequence cx)"
  by (auto simp: flash_loan_defense_def accessors split: option.splits)

definition reserve_after_borrow ::
  "address \<Rightarrow> nat \<Rightarrow> nat \<Rightarrow> (address \<Rightarrow> reserve_config option) \<Rightarrow> address \<Rightarrow> reserve_config option" where
  "reserve_after_borrow c ca n rs =
     (case rs c of None \<Rightarrow> rs
      | Some r \<Rightarrow> rs(c \<mapsto> r\<lparr>r_total_collateral := saturating_add_u64 (r_total_collateral r) ca,
                          r_total_borrowed := saturating_add_u64 (r_total_borrowed r) n\<rparr>))"

definition reserve_after_repay ::
  "loan_record \<Rightarrow> (address \<Rightarrow> reserve_config option) \<Rightarrow> address \<Rightarrow> reserve_config option" where
  "reserve_after_repay loan rs =
     (case rs (l_collateral_token loan) of None \<Rightarrow> rs
      | Some r \<Rightarrow> rs(l_collateral_token loan \<mapsto> r\<lparr>r_total_collateral := r_total_collateral r - l_collateral_amount loan,
                          r_total_borrowed := r_total_borrowed r - l_principal loan\<rparr>))"

lemma reserve_on_borrow_eq_Ok [simp]:
  "reserve_on_borrow c ca n s = Ok t \<longleftrightarrow> t = s\<lparr>st_reserve := reserve_after_borrow c ca n (st_reserve s)\<rparr>"
  by (cases "st_reserve s c")
     (auto simp: reserve_on_borrow_def add_reserve_collateral_def add_reserve_borrowed_def get_reserve_def
       set_reserve_def reserve_after_borrow_def)

lemma reserve_on_repay_eq_Ok [simp]:
  "reserve_on_repay loan s = Ok t \<longleftrightarrow> t = s\<lparr>st_reserve := reserve_after_repay loan (st_reserve s)\<rparr>"
  by (cases "st_reserve s (l_collateral_token loan)")
     (auto simp: reserve_on_repay_def sub_reserve_collateral_def sub_reserve_borrowed_def get_reserve_def
       set_reserve_def reserve_after_repay_def)

text \<open>How minting and burning the NFT of a loan move the world, for the NFT contract set, if any.\<close>

definition minted ::
  "'w externals \<Rightarrow> loan_record \<Rightarrow> address option \<Rightarrow> 'w \<Rightarrow> 'w \<Rightarrow> bool" where
  "minted X loan nft w w' \<longleftrightarrow>
     (case nft of None \<Rightarrow> w' = w
      | Some a \<Rightarrow> \<exists>uri. build_loan_nft_uri (l_loan_id loan) (l_principal loan) (l_collateral_amount loan)
            (calc_ltv_ratio_bps (l_principal loan) (l_collateral_amount loan)) (l_due_date loan) = Ok uri \<and>
          call_nft_mint X a (l_borrower loan) (loan_nft_metadata loan uri) w = Some w')"

definition burned :: "'w externals \<Rightarrow> nat \<Rightarrow> address option \<Rightarrow> 'w \<Rightarrow> 'w \<Rightarrow> bool" where
  "burned X i nft w w' \<longleftrightarrow> (case nft of None \<Rightarrow> w' = w | Some a \<Rightarrow> call_nft_burn X a i w = Some w')"

lemma mint_loan_nft_eq_Ok [simp]:
  "mint_loan_nft X loan s = Ok t \<longleftrightarrow>
     (\<exists>w. minted X loan (st_nft_token s) (world s) w \<and> t = s\<lparr>world := w\<rparr>)"
  by (cases "st_nft_token s") (auto simp: mint_loan_nft_def minted_def get_nft_token_def Let_def)

lemma burn_loan_nft_eq_Ok [simp]:
  "burn_loan_nft X i s = Ok t \<longleftrightarrow>
     (\<exists>w. burned X i (st_nft_token s) (world s) w \<and> t = s\<lparr>world := w\<rparr>)"
  by (cases "st_nft_token s") (auto simp: burn_loan_nft_def burned_def get_nft_token_def)

lemma calculate_late_fee_needs:
  "calculate_late_fee cx u s = Ok f \<Longrightarrow> \<exists>loan pool. st_loan s u = Some loan \<and> st_pool_state s (l_asset loan) = Some pool"
  by (auto simp: calculate_late_fee_def)

definition user_loans_without ::
  "(address \<Rightarrow> nat list option) \<Rightarrow> address \<Rightarrow> nat \<Rightarrow> address \<Rightarrow> nat list option" where
  "user_loans_without ul u i =
     (let rest = filter (\<lambda>j. j \<noteq> i) (unwrap_or [] (ul u))
      in if rest = [] then ul(u := None) else ul(u \<mapsto> rest))"

lemma remove_user_loan_eq [accessors]:
  "remove_user_loan u i s = s\<lparr>st_user_loans := user_loans_without (st_user_loans s) u i\<rparr>"
  by (simp add: remove_user_loan_def user_loans_without_def get_user_loans_def Let_def)

text \<open>The protocol's cut of an interest payment, and the pool after a repayment as one update.\<close>

definition protocol_cut :: "nat \<Rightarrow> nat" where
  "protocol_cut i = as_u64 (unwrap_or 0 (mul_then_div i PROTOCOL_INTEREST_BPS 10000))"

definition reserve_cut :: "nat \<Rightarrow> nat" where
  "reserve_cut i = as_u64 (unwrap_or 0 (mul_then_div (protocol_cut i) BAD_DEBT_RESERVE_BPS 10000))"

lemma as_u64_share_le: "b \<le> d \<Longrightarrow> as_u64 (unwrap_or 0 (mul_then_div a b d)) \<le> a"
  by (rule le_trans [OF as_u64_le mul_then_div_le])

lemma protocol_cut_le: "protocol_cut i \<le> i"
  unfolding protocol_cut_def by (rule as_u64_share_le) (simp add: PROTOCOL_INTEREST_BPS_def)

lemma reserve_cut_le: "reserve_cut i \<le> protocol_cut i"
  unfolding reserve_cut_def by (rule as_u64_share_le) (simp add: BAD_DEBT_RESERVE_BPS_def)

definition settled_pool :: "loan_record \<Rightarrow> nat \<Rightarrow> nat \<Rightarrow> pool_state \<Rightarrow> pool_state" where
  "settled_pool loan i late pool = pool\<lparr>
     p_total_borrowed := p_total_borrowed pool - l_principal loan,
     p_total_deposits := p_total_deposits pool + (i - protocol_cut i),
     p_retained_yield := p_retained_yield pool + (protocol_cut i - reserve_cut i + late),
     p_bad_debt_reserve := p_bad_debt_reserve pool + reserve_cut i\<rparr>"

lemma settle_repayment_eq:
  "settle_repayment loan i late pool =
     and_then (u64_sub (p_total_borrowed pool) (l_principal loan)) (\<lambda>tb.
     and_then (u64_sub i (protocol_cut i)) (\<lambda>pool_share.
     and_then (u64_add (p_total_deposits pool) pool_share) (\<lambda>td.
     and_then (u64_add (protocol_cut i - reserve_cut i) late) (\<lambda>kept.
     and_then (u64_add (p_retained_yield pool) kept) (\<lambda>ry.
     and_then (u64_add (p_bad_debt_reserve pool) (reserve_cut i)) (\<lambda>bd.
     Ok (pool\<lparr>p_total_borrowed := tb, p_total_deposits := td, p_retained_yield := ry,
              p_bad_debt_reserve := bd\<rparr>)))))))"
  by (simp only: settle_repayment_def protocol_cut_def reserve_cut_def Let_def saturating_sub_eq)

lemma settle_repayment_eq_Ok:
  "settle_repayment loan i late pool = Ok pool' \<longleftrightarrow>
   l_principal loan \<le> p_total_borrowed pool \<and> protocol_cut i \<le> i \<and>
   p_total_deposits pool + (i - protocol_cut i) \<le> u64_max \<and>
   protocol_cut i - reserve_cut i + late \<le> u64_max \<and>
   p_retained_yield pool + (protocol_cut i - reserve_cut i + late) \<le> u64_max \<and>
   p_bad_debt_reserve pool + reserve_cut i \<le> u64_max \<and>
   pool' = settled_pool loan i late pool"
  unfolding settle_repayment_eq settled_pool_def and_then_eq_Ok u64_sub_eq_Ok u64_add_eq_Ok outcome.inject
  by blast

lemmas settle_repayment_OkD = settle_repayment_eq_Ok [THEN iffD1]

end
