(* ===== verification/Lending_Pool_Facts.thy ===== *)
theory Lending_Pool_Facts
  imports Lending_Pool
begin

text \<open>
  What a successful call of each pool operation did: the conditions it passed, the token
  movements it made and the state it left, as one equation. Every later proof about the pool
  starts from these lemmas and not from the definitions.
\<close>

lemma deposit_OkD:
  assumes "deposit X cx u a n s = Ok (sh, t)"
  shows "\<exists>pool w.
    reentrancy_lock s = None \<and> authorized cx u \<and> 0 < n \<and> 0 < sh \<and>
    st_pool_state s a = Some pool \<and> \<not> p_is_paused pool \<and>
    tok_transfer X a u (current_contract_address cx) (int n) (world s) = Some w \<and>
    shares_for_deposit pool n = sh + locked_liquidity pool \<and>
    p_total_deposits pool + n \<le> u64_max \<and>
    p_total_shares pool + locked_liquidity pool + sh \<le> u64_max \<and>
    get_shares s a u + sh \<le> u64_max \<and>
    t = s\<lparr>world := w, st_pool_state := (st_pool_state s)(a \<mapsto> pool\<lparr>p_total_deposits := p_total_deposits pool + n,
           p_total_shares := p_total_shares pool + locked_liquidity pool + sh\<rparr>),
           st_shares := (st_shares s)((u, a) \<mapsto> get_shares s a u + sh),
           st_deposit_ledger := (st_deposit_ledger s)((u, a) \<mapsto> sequence cx),
           lending_events := lending_events s @ [DepositEvent u a n sh], reentrancy_lock := None\<rparr>"
  using assms unfolding deposit_def Let_def and_then_eq_Ok accessors by (elim exE conjE) clarsimp

lemma withdraw_OkD:
  assumes "withdraw X cx u a sh s = Ok (n, t)"
  shows "\<exists>pool w.
    reentrancy_lock s = None \<and> authorized cx u \<and> 0 < n \<and> 0 < sh \<and>
    (\<forall>l. st_deposit_ledger s (u, a) = Some l \<longrightarrow> l < sequence cx) \<and>
    st_pool_state s a = Some pool \<and> \<not> p_is_paused pool \<and>
    sh \<le> get_shares s a u \<and> sh \<le> p_total_shares pool \<and>
    n = assets_for_shares pool sh \<and> n \<le> p_total_deposits pool - p_total_borrowed pool \<and>
    tok_transfer X a (current_contract_address cx) u (int n) (world s) = Some w \<and>
    t = s\<lparr>world := w, st_pool_state := (st_pool_state s)(a \<mapsto> pool\<lparr>p_total_deposits := p_total_deposits pool - n,
           p_total_shares := p_total_shares pool - sh\<rparr>),
           st_shares := (st_shares s)((u, a) \<mapsto> get_shares s a u - sh),
           lending_events := lending_events s @ [WithdrawEvent u a sh n], reentrancy_lock := None\<rparr>"
  using assms unfolding withdraw_def Let_def and_then_eq_Ok accessors by (elim exE conjE) clarsimp

lemma withdraw_priority_OkD:
  assumes "withdraw_priority X cx u a n s = Ok (r, t)"
  shows "\<exists>pool w.
    reentrancy_lock s = None \<and> authorized cx u \<and> 0 < n \<and> r = n \<and>
    st_pool_state s a = Some pool \<and> n \<le> p_retained_yield pool \<and>
    tok_transfer X a (current_contract_address cx) u (int n) (world s) = Some w \<and>
    t = s\<lparr>world := w, st_pool_state := (st_pool_state s)(a \<mapsto> pool\<lparr>p_retained_yield := p_retained_yield pool - n\<rparr>),
           lending_events := lending_events s @ [PriorityWithdrawEvent u a n], reentrancy_lock := None\<rparr>"
  using assms unfolding withdraw_priority_def Let_def and_then_eq_Ok accessors by (elim exE conjE) clarsimp

text \<open>The loan a successful \<open>borrow\<close> opens.\<close>

definition opened_loan ::
  "ctx \<Rightarrow> 'w lending_state \<Rightarrow> pool_state \<Rightarrow> address \<Rightarrow> address \<Rightarrow> nat \<Rightarrow> address \<Rightarrow> nat \<Rightarrow> nat \<Rightarrow> loan_record" where
  "opened_loan cx s pool u a n c ca d =
     \<lparr>l_loan_id = get_next_loan_id s, l_borrower = u, l_asset = a, l_principal = n,
      l_collateral_amount = ca, l_collateral_token = c, l_borrow_time = timestamp cx,
      l_due_date = timestamp cx + d,
      l_interest_rate_bps = loan_rate (st_rate_model s) (p_base_rate_bps pool) (p_multiplier_bps pool)
        (get_utilization_bps (p_total_borrowed pool + n) (p_total_deposits pool))\<rparr>"

lemma borrow_OkD:
  assumes "borrow X cx u a n c ca d s = Ok (i, t)"
  shows "\<exists>pool w1 w2 w3.
    reentrancy_lock s = None \<and> authorized cx u \<and> 0 < n \<and> 0 < ca \<and>
    (\<forall>l. st_deposit_ledger s (u, c) = Some l \<longrightarrow> l < sequence cx) \<and>
    st_pool_state s a = Some pool \<and> \<not> p_is_paused pool \<and>
    is_collateral_whitelisted s c \<and> get_user_loans s u = [] \<and>
    as_u64 (unwrap_or 0 (mul_then_div n (get_collateral_ratio s) 10000)) \<le> ca \<and>
    n \<le> p_total_deposits pool - p_total_borrowed pool \<and>
    get_utilization_bps (p_total_borrowed pool + n) (p_total_deposits pool) \<le> p_utilization_cap_bps pool \<and>
    p_total_borrowed pool + n \<le> u64_max \<and> i = get_next_loan_id s \<and> i + 1 \<le> u64_max \<and>
    timestamp cx + d \<le> u64_max \<and>
    tok_transfer X c u (current_contract_address cx) (int ca) (world s) = Some w1 \<and>
    minted X (opened_loan cx s pool u a n c ca d) (st_nft_token s) w1 w2 \<and>
    tok_transfer X a (current_contract_address cx) u (int n) w2 = Some w3 \<and>
    t = s\<lparr>st_reserve := reserve_after_borrow c ca n (st_reserve s),
          st_pool_state := (st_pool_state s)(a \<mapsto> pool\<lparr>p_total_borrowed := p_total_borrowed pool + n\<rparr>),
          st_next_loan_id := Some (i + 1),
          st_loan := (st_loan s)(u \<mapsto> opened_loan cx s pool u a n c ca d),
          st_loan_by_id := (st_loan_by_id s)(i \<mapsto> opened_loan cx s pool u a n c ca d),
          st_user_loans := (st_user_loans s)(u \<mapsto> [i]), world := w3,
          lending_events := lending_events s @ [BorrowEvent i u a n ca (timestamp cx + d),
            CollateralDepositEvent i u c ca], reentrancy_lock := None\<rparr>"
  using assms unfolding borrow_def Let_def and_then_eq_Ok
  by (elim exE conjE) (clarsimp simp: accessors store_loan_def opened_loan_def, rule exI, erule conjI, simp)

lemma calculate_late_fee_lock [simp]:
  "calculate_late_fee cx u (s\<lparr>reentrancy_lock := l\<rparr>) = calculate_late_fee cx u s"
  by (simp add: calculate_late_fee_def grace_period_end_def get_pool_def require_initialized_def Let_def
      cong: if_cong)

lemma repay_OkD:
  assumes "repay X cx u s = Ok (r, t)"
  shows "\<exists>loan pool pool' late w1 w2 w3 ge.
    reentrancy_lock s = None \<and> authorized cx u \<and>
    st_loan s u = Some loan \<and> st_pool_state s (l_asset loan) = Some pool \<and>
    calculate_late_fee cx u s = Ok late \<and>
    settle_repayment loan (loan_interest cx loan) late pool = Ok pool' \<and>
    r = l_principal loan + loan_interest cx loan + late \<and> r \<le> u64_max \<and>
    tok_transfer X (l_asset loan) u (current_contract_address cx) (int r) (world s) = Some w1 \<and>
    tok_transfer X (l_collateral_token loan) (current_contract_address cx) u
      (int (l_collateral_amount loan)) w1 = Some w2 \<and>
    burned X (l_loan_id loan) (st_nft_token s) w2 w3 \<and>
    t = s\<lparr>st_reserve := reserve_after_repay loan (st_reserve s),
          st_pool_state := (st_pool_state s)(l_asset loan \<mapsto> pool'),
          st_loan := (st_loan s)(u := None),
          st_loan_by_id := (st_loan_by_id s)(l_loan_id loan := None),
          st_user_loans := user_loans_without (st_user_loans s) u (l_loan_id loan),
          st_late_fees_accrued := (st_late_fees_accrued s)(l_loan_id loan := None),
          world := w3,
          lending_events := lending_events s @ late_fee_events cx loan u late ge r @
            [RepayEvent (l_loan_id loan) u (l_asset loan) (l_principal loan) (loan_interest cx loan) r
              (l_collateral_amount loan)],
          reentrancy_lock := None\<rparr>"
  using assms unfolding repay_def Let_def and_then_eq_Ok
  by (elim exE conjE)
     (clarsimp simp: accessors drop_loan_def close_loan_def, rule exI, erule conjI, rule exI, rule refl)

definition flash_fee :: "'w lending_state \<Rightarrow> nat \<Rightarrow> nat" where
  "flash_fee s n = as_u64 (unwrap_or 0 (mul_then_div n (get_flash_loan_fee s) 10000))"

lemma flash_loan_OkD:
  assumes "flash_loan X cx u rc a n s = Ok t"
  shows "\<exists>pool w1 w2 b0 b1.
    reentrancy_lock s = None \<and> authorized cx u \<and> 0 < n \<and> is_flash_receiver_whitelisted s rc \<and>
    st_pool_state s a = Some pool \<and> \<not> p_is_paused pool \<and>
    n \<le> p_total_deposits pool - p_total_borrowed pool \<and>
    get_utilization_bps (p_total_borrowed pool + n) (p_total_deposits pool) \<le> p_utilization_cap_bps pool \<and>
    tok_balance X a (current_contract_address cx) (world s) = Some b0 \<and>
    tok_transfer X a (current_contract_address cx) rc (int n) (world s) = Some w1 \<and>
    call_execute_operation X rc n (flash_fee s n) u w1 = Some w2 \<and>
    tok_balance X a (current_contract_address cx) w2 = Some b1 \<and> b0 + int (flash_fee s n) \<le> b1 \<and>
    p_total_deposits pool + flash_fee s n \<le> u64_max \<and>
    t = s\<lparr>world := w2, st_pool_state := (st_pool_state s)(a \<mapsto> pool\<lparr>p_total_deposits := p_total_deposits pool + flash_fee s n\<rparr>),
          lending_events := lending_events s @ [FlashLoanEvent rc a n (flash_fee s n)], reentrancy_lock := None\<rparr>"
  using assms unfolding flash_loan_def flash_loan_inner_def Let_def and_then_eq_Ok
  by (elim exE conjE)
     (clarsimp simp: accessors flash_fee_def get_flash_loan_fee_def is_flash_receiver_whitelisted_def)

end
