(* ===== verification/Lending_Loans.thy ===== *)
theory Lending_Loans
  imports Lending_Pool
begin

text \<open>
  The life of a loan after it is opened (\<open>src/contracts/lending-contract/src/lib.rs\<close>):
  liquidation, refinancing, consolidation and splitting.
\<close>

section \<open>Liquidation\<close>

text \<open>The health factor is narrowed to 32 bits, as the source does.\<close>

definition health_factor_of :: "loan_record \<Rightarrow> nat" where
  "health_factor_of loan =
     as_u32 (unwrap_or 0 (mul_then_div (l_collateral_amount loan) 10000 (l_principal loan)))"

definition liquidate ::
  "'w externals \<Rightarrow> ctx \<Rightarrow> address \<Rightarrow> address \<Rightarrow> nat \<Rightarrow> 'w lending_state \<Rightarrow> (nat \<times> 'w lending_state) lending_result" where
  "liquidate X cx liquidator borrower amount s =
     and_then (require_initialized s) (\<lambda>_.
     and_then (guard_lock ReentrantCall s) (\<lambda>s.
     and_then (require_auth cx liquidator) (\<lambda>_.
     and_then (ok_or (st_loan s borrower) NoOpenLoan) (\<lambda>loan.
     and_then (ensure (\<not> (amount = 0 \<or> amount > l_principal loan)) InvalidAmount) (\<lambda>_.
     and_then (is_after_grace_period cx s loan) (\<lambda>after_grace.
     and_then (ensure after_grace InvalidAmount) (\<lambda>_.
     let health_factor = health_factor_of loan in
     and_then (ensure (\<not> health_factor \<ge> LIQUIDATION_THRESHOLD_BPS) InvalidAmount) (\<lambda>_.
     let collateral_to_seize = as_u64 (unwrap_or amount (mul_then_div amount 15000 10000)) in
     and_then (ensure (\<not> collateral_to_seize > l_collateral_amount loan) InvalidAmount) (\<lambda>_.
     and_then (transfer X (l_asset loan) liquidator (current_contract_address cx) amount s) (\<lambda>s.
     and_then (transfer X (l_collateral_token loan) (current_contract_address cx) liquidator
       collateral_to_seize s) (\<lambda>s.
     and_then (get_pool s (l_asset loan)) (\<lambda>pool.
     and_then (u64_add (p_total_deposits pool) amount) (\<lambda>td.
     let s = set_pool (l_asset loan) (pool\<lparr>p_total_borrowed := saturating_sub (p_total_borrowed pool) amount,
               p_total_deposits := td\<rparr>) s;
         s = publish (LiquidationEvent (l_loan_id loan) borrower liquidator (l_asset loan) amount
               collateral_to_seize health_factor) s;
         s = exit_reentrancy_guard s
     in Ok (collateral_to_seize, guard_drop s))))))))))))))"

section \<open>Refinancing\<close>

definition calculate_outstanding_balance :: "ctx \<Rightarrow> loan_record \<Rightarrow> nat lending_result" where
  "calculate_outstanding_balance cx loan =
     (let interest = loan_interest cx loan
      in u64_add (l_principal loan) interest)"

definition get_refinance_terms :: "ctx \<Rightarrow> address \<Rightarrow> nat \<Rightarrow> 'w lending_state \<Rightarrow> refinance_terms lending_result" where
  "get_refinance_terms cx borrower new_duration_seconds s =
     and_then (require_initialized s) (\<lambda>_.
     and_then (ok_or (st_loan s borrower) NoOpenLoan) (\<lambda>loan.
     and_then (calculate_outstanding_balance cx loan) (\<lambda>outstanding_balance.
     and_then (ok_or (mul_then_div outstanding_balance REFINANCING_FEE_BPS 10000) InvalidRefinanceTerms) (\<lambda>refinancing_fee.
     and_then (ensure (\<not> refinancing_fee > u64_max) InvalidRefinanceTerms) (\<lambda>_.
     and_then (ok_or (checked_add_u128 outstanding_balance refinancing_fee) InvalidRefinanceTerms) (\<lambda>new_principal.
     and_then (ensure (\<not> new_principal > u64_max) InvalidRefinanceTerms) (\<lambda>_.
     let total_required = new_principal in
     and_then (u64_add (timestamp cx) new_duration_seconds) (\<lambda>new_due_date.
     and_then (get_pool s (l_asset loan)) (\<lambda>pool.
     let utilization_bps = get_utilization_bps (p_total_borrowed pool) (p_total_deposits pool);
         new_interest_rate_bps = loan_rate (st_rate_model s) (p_base_rate_bps pool)
           (p_multiplier_bps pool) utilization_bps
     in Ok \<lparr>rt_outstanding_balance = outstanding_balance, rt_new_principal = new_principal,
            rt_refinancing_fee = refinancing_fee, rt_total_required = total_required,
            rt_new_interest_rate_bps = new_interest_rate_bps,
            rt_new_duration_seconds = new_duration_seconds, rt_new_due_date = new_due_date\<rparr>)))))))))"

text \<open>How the pool's borrowed amount follows the principal of the refinanced loan.\<close>

definition rebook_principal :: "nat \<Rightarrow> nat \<Rightarrow> pool_state \<Rightarrow> pool_state lending_result" where
  "rebook_principal old_principal new_principal pool =
     (if new_principal > old_principal
      then and_then (ok_or (checked_sub new_principal old_principal) InvalidRefinanceTerms) (\<lambda>additional_principal.
           and_then (ok_or (checked_add_u64 (p_total_borrowed pool) additional_principal) InvalidRefinanceTerms) (\<lambda>new_borrowed.
           let new_utilization_bps = get_utilization_bps new_borrowed (p_total_deposits pool) in
           and_then (ensure (\<not> new_utilization_bps > p_utilization_cap_bps pool) UtilizationCapExceeded) (\<lambda>_.
           Ok (pool\<lparr>p_total_borrowed := new_borrowed\<rparr>))))
      else if new_principal < old_principal
      then and_then (ok_or (checked_sub old_principal new_principal) InvalidRefinanceTerms) (\<lambda>decrease.
           and_then (ok_or (checked_sub (p_total_borrowed pool) decrease) InvalidRefinanceTerms) (\<lambda>tb.
           Ok (pool\<lparr>p_total_borrowed := tb\<rparr>)))
      else Ok pool)"

definition refinance_loan ::
  "'w externals \<Rightarrow> ctx \<Rightarrow> address \<Rightarrow> nat \<Rightarrow> 'w lending_state \<Rightarrow> (nat \<times> 'w lending_state) lending_result" where
  "refinance_loan X cx borrower new_duration_seconds s =
     and_then (require_initialized s) (\<lambda>_.
     and_then (enter_reentrancy_guard s) (\<lambda>s.
     and_then (require_auth cx borrower) (\<lambda>_.
     and_then (ok_or (st_loan s borrower) NoOpenLoan) (\<lambda>old_loan.
     and_then (is_in_grace_period cx borrower s) (\<lambda>is_in_grace.
     and_then (ensure is_in_grace CannotRefinance) (\<lambda>_.
     and_then (get_refinance_terms cx borrower new_duration_seconds s) (\<lambda>terms.
     and_then (transfer X (l_asset old_loan) borrower (current_contract_address cx)
       (rt_refinancing_fee terms) s) (\<lambda>s.
     let s = close_loan old_loan borrower s in
     and_then (burn_loan_nft X (l_loan_id old_loan) s) (\<lambda>s.
     and_then (increment_loan_id s) (\<lambda>(new_loan_id, s).
     let new_loan = \<lparr>l_loan_id = new_loan_id, l_borrower = borrower, l_asset = l_asset old_loan,
           l_principal = rt_new_principal terms, l_collateral_amount = l_collateral_amount old_loan,
           l_collateral_token = l_collateral_token old_loan, l_borrow_time = timestamp cx,
           l_due_date = rt_new_due_date terms, l_interest_rate_bps = rt_new_interest_rate_bps terms\<rparr>;
         s = store_loan new_loan s in
     and_then (mint_loan_nft X new_loan s) (\<lambda>s.
     and_then (get_pool s (l_asset old_loan)) (\<lambda>pool.
     and_then (ok_or (checked_add_u64 (p_retained_yield pool) (rt_refinancing_fee terms)) InvalidRefinanceTerms) (\<lambda>ry.
     and_then (rebook_principal (l_principal old_loan) (rt_new_principal terms)
       (pool\<lparr>p_retained_yield := ry\<rparr>)) (\<lambda>pool.
     let s = set_pool (l_asset old_loan) pool s;
         s = publish (LoanRefinancedEvent (l_loan_id old_loan) new_loan_id borrower (l_asset old_loan)
               (l_principal old_loan) (rt_new_principal terms) (rt_refinancing_fee terms)
               (l_interest_rate_bps old_loan) (rt_new_interest_rate_bps terms) (l_due_date old_loan)
               (rt_new_due_date terms) (timestamp cx)) s
     in Ok (new_loan_id, exit_reentrancy_guard s)))))))))))))))"

section \<open>Consolidation\<close>

text \<open>The running totals of the validation loop.\<close>

record consolidation =
  c_total_outstanding :: nat
  c_total_collateral :: nat
  c_collateral_token :: "address option"
  c_asset :: "address option"
  c_old_loans :: "loan_record list"

definition consolidation_start :: consolidation where
  "consolidation_start = \<lparr>c_total_outstanding = 0, c_total_collateral = 0,
     c_collateral_token = None, c_asset = None, c_old_loans = []\<rparr>"

definition consolidate_one ::
  "ctx \<Rightarrow> address \<Rightarrow> 'w lending_state \<Rightarrow> nat \<Rightarrow> consolidation \<Rightarrow> consolidation lending_result" where
  "consolidate_one cx borrower s loan_id acc =
     and_then (ok_or (st_loan_by_id s loan_id) LoanNotFound) (\<lambda>loan.
     and_then (ensure (l_borrower loan = borrower) Unauthorized) (\<lambda>_.
     and_then (grace_period_end s loan) (\<lambda>loan_grace_end.
     and_then (ensure (\<not> timestamp cx > loan_grace_end) CannotRefinance) (\<lambda>_.
     and_then (calculate_outstanding_balance cx loan) (\<lambda>outstanding.
     and_then (u64_add (c_total_outstanding acc) outstanding) (\<lambda>total_outstanding.
     and_then (u64_add (c_total_collateral acc) (l_collateral_amount loan)) (\<lambda>total_collateral.
     and_then (case c_collateral_token acc of
         None \<Rightarrow> Ok (l_collateral_token loan)
       | Some tk \<Rightarrow> and_then (ensure (tk = l_collateral_token loan) InvalidRefinanceTerms) (\<lambda>_. Ok tk)) (\<lambda>collateral_token.
     and_then (case c_asset acc of
         None \<Rightarrow> Ok (l_asset loan)
       | Some a \<Rightarrow> and_then (ensure (a = l_asset loan) InvalidRefinanceTerms) (\<lambda>_. Ok a)) (\<lambda>asset.
     Ok \<lparr>c_total_outstanding = total_outstanding, c_total_collateral = total_collateral,
         c_collateral_token = Some collateral_token, c_asset = Some asset,
         c_old_loans = c_old_loans acc @ [loan]\<rparr>)))))))))"

definition retire_loan ::
  "'w externals \<Rightarrow> address \<Rightarrow> loan_record \<Rightarrow> 'w lending_state \<Rightarrow> 'w lending_state lending_result" where
  "retire_loan X borrower loan s =
     (let s = s\<lparr>st_loan := (st_loan s)(l_borrower loan := None),
                st_loan_by_id := (st_loan_by_id s)(l_loan_id loan := None)\<rparr>;
          s = remove_user_loan borrower (l_loan_id loan) s
      in burn_loan_nft X (l_loan_id loan) s)"

definition consolidate_loans ::
  "'w externals \<Rightarrow> ctx \<Rightarrow> address \<Rightarrow> nat list \<Rightarrow> nat \<Rightarrow> 'w lending_state \<Rightarrow> (nat \<times> 'w lending_state) lending_result" where
  "consolidate_loans X cx borrower loan_ids new_duration_seconds s =
     and_then (require_initialized s) (\<lambda>_.
     and_then (enter_reentrancy_guard s) (\<lambda>s.
     and_then (require_auth cx borrower) (\<lambda>_.
     and_then (ensure (\<not> (loan_ids = [] \<or> length loan_ids > 10)) InvalidAmount) (\<lambda>_.
     and_then (fold_outcome (consolidate_one cx borrower s) loan_ids consolidation_start) (\<lambda>acc.
     and_then (unwrap (c_asset acc)) (\<lambda>consolidation_asset.
     let total_outstanding = c_total_outstanding acc;
         consolidation_fee = as_u64 (unwrap_or 0 (mul_then_div total_outstanding REFINANCING_FEE_BPS 10000)) in
     and_then (u64_add total_outstanding consolidation_fee) (\<lambda>new_principal.
     and_then (transfer X consolidation_asset borrower (current_contract_address cx) consolidation_fee s) (\<lambda>s.
     and_then (fold_outcome (retire_loan X borrower) (c_old_loans acc) s) (\<lambda>s.
     and_then (increment_loan_id s) (\<lambda>(new_loan_id, s).
     and_then (u64_add (timestamp cx) new_duration_seconds) (\<lambda>new_due_date.
     and_then (get_pool s consolidation_asset) (\<lambda>pool.
     let utilization_bps = get_utilization_bps (p_total_borrowed pool) (p_total_deposits pool);
         new_interest_rate_bps = loan_rate (st_rate_model s) (p_base_rate_bps pool)
           (p_multiplier_bps pool) utilization_bps in
     and_then (unwrap (c_collateral_token acc)) (\<lambda>collateral_token.
     let new_loan = \<lparr>l_loan_id = new_loan_id, l_borrower = borrower, l_asset = consolidation_asset,
           l_principal = new_principal, l_collateral_amount = c_total_collateral acc,
           l_collateral_token = collateral_token, l_borrow_time = timestamp cx,
           l_due_date = new_due_date, l_interest_rate_bps = new_interest_rate_bps\<rparr>;
         s = store_loan new_loan s in
     and_then (mint_loan_nft X new_loan s) (\<lambda>s.
     and_then (get_pool s consolidation_asset) (\<lambda>pool.
     and_then (u64_add (p_retained_yield pool) consolidation_fee) (\<lambda>ry.
     let s = set_pool consolidation_asset (pool\<lparr>p_retained_yield := ry\<rparr>) s;
         s = publish (LoansConsolidatedEvent loan_ids new_loan_id borrower consolidation_asset
               total_outstanding new_principal consolidation_fee new_due_date (timestamp cx)) s
     in Ok (new_loan_id, exit_reentrancy_guard s)))))))))))))))))"

section \<open>Splitting\<close>

text \<open>The sum of a vector of \<open>u64\<close> traps on overflow.\<close>

definition sum_u64 :: "nat list \<Rightarrow> nat lending_result" where
  "sum_u64 xs = fold_outcome (\<lambda>x total. u64_add total x) xs 0"

definition split_collateral :: "loan_record \<Rightarrow> nat \<Rightarrow> nat \<Rightarrow> nat" where
  "split_collateral old_loan outstanding amount =
     (let collateral_ratio = unwrap_or 0 (mul_then_div amount 10000 outstanding)
      in as_u64 (unwrap_or 0 (mul_then_div (l_collateral_amount old_loan) collateral_ratio 10000)))"

definition split_one ::
  "'w externals \<Rightarrow> ctx \<Rightarrow> address \<Rightarrow> loan_record \<Rightarrow> nat \<Rightarrow> nat \<Rightarrow> nat \<Rightarrow> nat \<Rightarrow> nat list \<times> 'w lending_state \<Rightarrow>
   (nat list \<times> 'w lending_state) lending_result" where
  "split_one X cx borrower old_loan outstanding new_due_date new_interest_rate_bps amount =
     (\<lambda>(new_loan_ids, s).
     and_then (increment_loan_id s) (\<lambda>(new_loan_id, s).
     let new_loan = \<lparr>l_loan_id = new_loan_id, l_borrower = borrower, l_asset = l_asset old_loan,
           l_principal = amount, l_collateral_amount = split_collateral old_loan outstanding amount,
           l_collateral_token = l_collateral_token old_loan, l_borrow_time = timestamp cx,
           l_due_date = new_due_date, l_interest_rate_bps = new_interest_rate_bps\<rparr>;
         s = store_loan new_loan s in
     and_then (mint_loan_nft X new_loan s) (\<lambda>s.
     Ok (new_loan_ids @ [new_loan_id], s))))"

definition split_loan ::
  "'w externals \<Rightarrow> ctx \<Rightarrow> address \<Rightarrow> nat list \<Rightarrow> nat \<Rightarrow> 'w lending_state \<Rightarrow> (nat list \<times> 'w lending_state) lending_result" where
  "split_loan X cx borrower split_amounts new_duration_seconds s =
     and_then (require_initialized s) (\<lambda>_.
     and_then (enter_reentrancy_guard s) (\<lambda>s.
     and_then (require_auth cx borrower) (\<lambda>_.
     and_then (ensure (\<not> (split_amounts = [] \<or> length split_amounts > 5)) InvalidAmount) (\<lambda>_.
     and_then (ok_or (st_loan s borrower) NoOpenLoan) (\<lambda>old_loan.
     and_then (is_in_grace_period cx borrower s) (\<lambda>is_in_grace.
     and_then (ensure is_in_grace CannotRefinance) (\<lambda>_.
     and_then (calculate_outstanding_balance cx old_loan) (\<lambda>outstanding.
     and_then (sum_u64 split_amounts) (\<lambda>total_split_amount.
     and_then (ensure (total_split_amount = outstanding) InvalidSplitAmounts) (\<lambda>_.
     let split_fee = as_u64 (unwrap_or 0 (mul_then_div outstanding REFINANCING_FEE_BPS 10000)) in
     and_then (transfer X (l_asset old_loan) borrower (current_contract_address cx) split_fee s) (\<lambda>s.
     let s = close_loan old_loan borrower s in
     and_then (burn_loan_nft X (l_loan_id old_loan) s) (\<lambda>s.
     and_then (u64_add (timestamp cx) new_duration_seconds) (\<lambda>new_due_date.
     and_then (get_pool s (l_asset old_loan)) (\<lambda>pool.
     let utilization_bps = get_utilization_bps (p_total_borrowed pool) (p_total_deposits pool);
         new_interest_rate_bps = loan_rate (st_rate_model s) (p_base_rate_bps pool)
           (p_multiplier_bps pool) utilization_bps in
     and_then (fold_outcome (split_one X cx borrower old_loan outstanding new_due_date new_interest_rate_bps)
       split_amounts ([], s)) (\<lambda>(new_loan_ids, s).
     and_then (get_pool s (l_asset old_loan)) (\<lambda>pool.
     and_then (u64_add (p_retained_yield pool) split_fee) (\<lambda>ry.
     let s = set_pool (l_asset old_loan) (pool\<lparr>p_retained_yield := ry\<rparr>) s;
         s = publish (LoanSplitEvent (l_loan_id old_loan) new_loan_ids borrower (l_asset old_loan)
               (l_principal old_loan) split_amounts split_fee (timestamp cx)) s
     in Ok (new_loan_ids, exit_reentrancy_guard s))))))))))))))))))"

end
