(* ===== verification/Lending_Farming.thy ===== *)
theory Lending_Farming
  imports Lending_Pool
begin

text \<open>
  Yield farming of the lending contract (\<open>src/contracts/lending-contract/src/lib.rs\<close>): the
  reward pool per asset, staking and unstaking of shares and the claim of rewards. Rewards are
  bookkeeping only; no operation here moves a token.
\<close>

section \<open>Reward bookkeeping\<close>

definition empty_stake :: user_stake where
  "empty_stake = \<lparr>u_amount = 0, u_reward_per_token_paid = 0, u_rewards = 0, u_stake_time = 0\<rparr>"

definition reward_pool_of :: "ctx \<Rightarrow> 'w lending_state \<Rightarrow> address \<Rightarrow> reward_pool" where
  "reward_pool_of cx s asset = unwrap_or (new_reward_pool (timestamp cx)) (st_reward_pool s asset)"

definition user_stake_of :: "'w lending_state \<Rightarrow> address \<Rightarrow> address \<Rightarrow> user_stake" where
  "user_stake_of s user asset = unwrap_or empty_stake (st_user_stake s (user, asset))"

definition advance_rewards :: "nat \<Rightarrow> reward_pool \<Rightarrow> reward_pool" where
  "advance_rewards current_time rp =
     (let time_elapsed = saturating_sub current_time (w_last_update_time rp)
      in if w_total_staked rp > 0 \<and> time_elapsed > 0
         then let rewards_per_token = unwrap_or 0 (checked_mul_u64 time_elapsed (w_reward_rate rp));
                  stored = unwrap_or 0 (checked_add_u64 (w_reward_per_token_stored rp) rewards_per_token);
                  new_rewards = unwrap_or 0 (Option.bind (checked_mul_u64 rewards_per_token (w_total_staked rp))
                    (\<lambda>v. checked_div v REWARD_PRECISION));
                  distributed = unwrap_or 0 (checked_add_u64 (w_total_rewards_distributed rp) new_rewards)
              in rp\<lparr>w_reward_per_token_stored := stored, w_total_rewards_distributed := distributed\<rparr>
         else rp)"

definition update_reward_pool :: "ctx \<Rightarrow> address \<Rightarrow> 'w lending_state \<Rightarrow> 'w lending_state" where
  "update_reward_pool cx asset s =
     (let rp = advance_rewards (timestamp cx) (reward_pool_of cx s asset)
      in s\<lparr>st_reward_pool := (st_reward_pool s)(asset \<mapsto> rp\<lparr>w_last_update_time := timestamp cx\<rparr>)\<rparr>)"

definition calculate_pending_rewards ::
  "ctx \<Rightarrow> address \<Rightarrow> address \<Rightarrow> 'w lending_state \<Rightarrow> nat \<times> 'w lending_state" where
  "calculate_pending_rewards cx user asset s =
     (let s = update_reward_pool cx asset s;
          rp = reward_pool_of cx s asset;
          us = user_stake_of s user asset
      in if u_amount us = 0 then (u_rewards us, s)
         else let diff = saturating_sub (w_reward_per_token_stored rp) (u_reward_per_token_paid us);
                  pending = unwrap_or 0 (Option.bind (checked_mul_u64 diff (u_amount us))
                    (\<lambda>v. checked_div v REWARD_PRECISION))
              in (unwrap_or 0 (checked_add_u64 (u_rewards us) pending), s))"

text \<open>The reward pool and the stake are both read before the pending rewards bring the pool up to date.\<close>

definition update_user_reward_debt ::
  "ctx \<Rightarrow> address \<Rightarrow> address \<Rightarrow> 'w lending_state \<Rightarrow> 'w lending_state" where
  "update_user_reward_debt cx user asset s =
     (let rp = reward_pool_of cx s asset;
          us = user_stake_of s user asset;
          (pending, s) = calculate_pending_rewards cx user asset s;
          us = us\<lparr>u_reward_per_token_paid := w_reward_per_token_stored rp, u_rewards := pending\<rparr>
      in s\<lparr>st_user_stake := (st_user_stake s)((user, asset) \<mapsto> us)\<rparr>)"

section \<open>Operations\<close>

definition stake_lp_tokens ::
  "ctx \<Rightarrow> address \<Rightarrow> address \<Rightarrow> nat \<Rightarrow> 'w lending_state \<Rightarrow> 'w lending_state lending_result" where
  "stake_lp_tokens cx user asset amount s =
     and_then (require_initialized s) (\<lambda>_.
     and_then (require_auth cx user) (\<lambda>_.
     and_then (ensure (amount \<noteq> 0) InvalidAmount) (\<lambda>_.
     let user_shares = get_shares_of s asset user in
     and_then (ensure (\<not> user_shares < amount) InsufficientShares) (\<lambda>_.
     let s = update_reward_pool cx asset s in
     and_then (unwrap (st_reward_pool s asset)) (\<lambda>rp.
     let us = unwrap_or \<lparr>u_amount = 0, u_reward_per_token_paid = w_reward_per_token_stored rp,
                u_rewards = 0, u_stake_time = 0\<rparr> (st_user_stake s (user, asset));
         us = us\<lparr>u_reward_per_token_paid := w_reward_per_token_stored rp, u_rewards := 0\<rparr>;
         us = us\<lparr>u_amount := unwrap_or 0 (checked_add_u64 (u_amount us) amount)\<rparr>;
         us = (if u_stake_time us = 0 then us\<lparr>u_stake_time := timestamp cx\<rparr> else us);
         rp = rp\<lparr>w_total_staked := unwrap_or 0 (checked_add_u64 (w_total_staked rp) amount)\<rparr>;
         s = s\<lparr>st_reward_pool := (st_reward_pool s)(asset \<mapsto> rp),
               st_user_stake := (st_user_stake s)((user, asset) \<mapsto> us)\<rparr>
     in Ok (publish (StakedEvent user asset amount (timestamp cx)) s))))))"

definition unstake_lp_tokens ::
  "ctx \<Rightarrow> address \<Rightarrow> address \<Rightarrow> nat \<Rightarrow> 'w lending_state \<Rightarrow> 'w lending_state lending_result" where
  "unstake_lp_tokens cx user asset amount s =
     and_then (require_initialized s) (\<lambda>_.
     and_then (require_auth cx user) (\<lambda>_.
     and_then (ensure (amount \<noteq> 0) InvalidAmount) (\<lambda>_.
     and_then (ok_or (st_user_stake s (user, asset)) InsufficientStake) (\<lambda>us.
     and_then (ensure (\<not> u_amount us < amount) InsufficientStake) (\<lambda>_.
     let s = update_user_reward_debt cx user asset s in
     and_then (unwrap (st_user_stake s (user, asset))) (\<lambda>us.
     let rewards_to_claim = u_rewards us;
         us = us\<lparr>u_amount := saturating_sub (u_amount us) amount\<rparr>;
         us = (if u_amount us = 0 then us\<lparr>u_reward_per_token_paid := 0, u_stake_time := 0\<rparr> else us) in
     and_then (unwrap (st_reward_pool s asset)) (\<lambda>rp.
     let rp = rp\<lparr>w_total_staked := saturating_sub (w_total_staked rp) amount\<rparr>;
         s = s\<lparr>st_reward_pool := (st_reward_pool s)(asset \<mapsto> rp),
               st_user_stake := (st_user_stake s)((user, asset) \<mapsto> us)\<rparr>
     in Ok (publish (UnstakedEvent user asset amount rewards_to_claim (timestamp cx)) s))))))))"

definition claim_rewards ::
  "ctx \<Rightarrow> address \<Rightarrow> address \<Rightarrow> 'w lending_state \<Rightarrow> (nat \<times> 'w lending_state) lending_result" where
  "claim_rewards cx user asset s =
     and_then (require_initialized s) (\<lambda>_.
     and_then (require_auth cx user) (\<lambda>_.
     let s = update_user_reward_debt cx user asset s in
     and_then (ok_or (st_user_stake s (user, asset)) NoRewardsToClaim) (\<lambda>us.
     let rewards_to_claim = u_rewards us in
     and_then (ensure (rewards_to_claim \<noteq> 0) NoRewardsToClaim) (\<lambda>_.
     let s = s\<lparr>st_user_stake := (st_user_stake s)((user, asset) \<mapsto> us\<lparr>u_rewards := 0\<rparr>)\<rparr>
     in Ok (rewards_to_claim,
            publish (RewardsClaimedEvent user asset rewards_to_claim (timestamp cx)) s)))))"

definition get_total_staked :: "ctx \<Rightarrow> address \<Rightarrow> 'w lending_state \<Rightarrow> nat" where
  "get_total_staked cx asset s = w_total_staked (reward_pool_of cx s asset)"

definition get_reward_rate :: "ctx \<Rightarrow> address \<Rightarrow> 'w lending_state \<Rightarrow> nat" where
  "get_reward_rate cx asset s = w_reward_rate (reward_pool_of cx s asset)"

definition get_staked_balance :: "address \<Rightarrow> address \<Rightarrow> 'w lending_state \<Rightarrow> nat" where
  "get_staked_balance user asset s = u_amount (user_stake_of s user asset)"

definition get_pending_rewards ::
  "ctx \<Rightarrow> address \<Rightarrow> address \<Rightarrow> 'w lending_state \<Rightarrow> nat \<times> 'w lending_state" where
  "get_pending_rewards cx user asset s = calculate_pending_rewards cx user asset s"

definition set_reward_rate ::
  "ctx \<Rightarrow> address \<Rightarrow> address \<Rightarrow> nat \<Rightarrow> 'w lending_state \<Rightarrow> 'w lending_state lending_result" where
  "set_reward_rate cx admin asset new_rate s =
     and_then (require_admin cx admin s) (\<lambda>_.
     and_then (ensure (new_rate \<noteq> 0) InvalidRewardRate) (\<lambda>_.
     let s = update_reward_pool cx asset s in
     and_then (unwrap (st_reward_pool s asset)) (\<lambda>rp.
     let old_rate = w_reward_rate rp;
         s = s\<lparr>st_reward_pool := (st_reward_pool s)(asset \<mapsto> rp\<lparr>w_reward_rate := new_rate\<rparr>)\<rparr>
     in Ok (publish (RewardRateUpdatedEvent asset old_rate new_rate (timestamp cx)) s))))"

end
