(* ===== verification/Lending_Reserves.thy ===== *)
theory Lending_Reserves
  imports Lending_Pool_Facts
begin

text \<open>
  The protocol's reserve fund (\<open>src/contracts/lending-contract/src/lib.rs\<close>): the reserve
  factor, the bad-debt reserve and its withdrawal, replenishment and allocation, the write-off
  of a defaulted loan and the accrual of interest into the reserve buckets.
\<close>

section \<open>Operations\<close>

text \<open>
  Three operations compare the caller with the stored administrator instead of asking for the
  admin role.
\<close>

definition require_stored_admin :: "ctx \<Rightarrow> address \<Rightarrow> 'w lending_state \<Rightarrow> unit lending_result" where
  "require_stored_admin cx admin s =
     and_then (require_auth cx admin) (\<lambda>_. ensure (st_admin s = Some admin) Unauthorized)"

definition set_reserve_factor ::
  "ctx \<Rightarrow> address \<Rightarrow> address \<Rightarrow> nat \<Rightarrow> 'w lending_state \<Rightarrow> 'w lending_state lending_result" where
  "set_reserve_factor cx admin asset reserve_factor_bps s =
     and_then (require_stored_admin cx admin s) (\<lambda>_.
     and_then (ensure (\<not> reserve_factor_bps > 10000) InvalidAmount) (\<lambda>_.
     and_then (get_pool s asset) (\<lambda>pool.
     Ok (set_pool asset (pool\<lparr>p_reserve_factor_bps := reserve_factor_bps\<rparr>) s))))"

definition get_reserve_factor :: "'w lending_state \<Rightarrow> address \<Rightarrow> nat lending_result" where
  "get_reserve_factor s asset = and_then (get_pool s asset) (\<lambda>pool. Ok (p_reserve_factor_bps pool))"

definition get_reserve_balance :: "'w lending_state \<Rightarrow> address \<Rightarrow> nat lending_result" where
  "get_reserve_balance s asset = and_then (get_pool s asset) (\<lambda>pool. Ok (p_bad_debt_reserve pool))"

definition get_protocol_revenue :: "'w lending_state \<Rightarrow> address \<Rightarrow> nat lending_result" where
  "get_protocol_revenue s asset = and_then (get_pool s asset) (\<lambda>pool. Ok (p_total_protocol_revenue pool))"

definition withdraw_reserves ::
  "'w externals \<Rightarrow> ctx \<Rightarrow> address \<Rightarrow> address \<Rightarrow> nat \<Rightarrow> 'w lending_state \<Rightarrow> 'w lending_state lending_result" where
  "withdraw_reserves X cx admin asset amount s =
     and_then (require_stored_admin cx admin s) (\<lambda>_.
     and_then (get_pool s asset) (\<lambda>pool.
     and_then (ensure (\<not> p_bad_debt_reserve pool < amount) InsufficientLiquidity) (\<lambda>_.
     let s = set_pool asset (pool\<lparr>p_bad_debt_reserve := saturating_sub (p_bad_debt_reserve pool) amount\<rparr>) s
     in transfer X asset (current_contract_address cx) admin amount s)))"

definition replenish_bad_debt_reserve ::
  "'w externals \<Rightarrow> ctx \<Rightarrow> address \<Rightarrow> address \<Rightarrow> nat \<Rightarrow> 'w lending_state \<Rightarrow> (nat \<times> 'w lending_state) lending_result" where
  "replenish_bad_debt_reserve X cx admin asset amount s =
     and_then (require_unpaused s) (\<lambda>_.
     and_then (require_initialized s) (\<lambda>_.
     and_then (require_admin cx admin s) (\<lambda>_.
     and_then (ensure (amount \<noteq> 0) InvalidAmount) (\<lambda>_.
     and_then (get_pool s asset) (\<lambda>pool.
     and_then (transfer X asset admin (current_contract_address cx) amount s) (\<lambda>s.
     let pool = pool\<lparr>p_bad_debt_reserve := saturating_add_u64 (p_bad_debt_reserve pool) amount\<rparr>;
         s = set_pool asset pool s;
         s = publish (BadDebtReserveReplenishedEvent asset amount (p_bad_debt_reserve pool)) s
     in Ok (p_bad_debt_reserve pool, s)))))))"

definition liquidate_bad_debt ::
  "ctx \<Rightarrow> address \<Rightarrow> address \<Rightarrow> 'w lending_state \<Rightarrow> (nat \<times> 'w lending_state) lending_result" where
  "liquidate_bad_debt cx admin borrower s =
     and_then (require_unpaused s) (\<lambda>_.
     and_then (require_initialized s) (\<lambda>_.
     and_then (require_admin cx admin s) (\<lambda>_.
     and_then (ok_or (st_loan s borrower) NoOpenLoan) (\<lambda>loan.
     and_then (is_in_grace_period cx borrower s) (\<lambda>is_in_grace.
     and_then (ensure (\<not> is_in_grace) InvalidAmount) (\<lambda>_.
     and_then (get_repayment_amount cx borrower s) (\<lambda>outstanding_balance.
     let collateral_seized = l_collateral_amount loan;
         shortfall = saturating_sub outstanding_balance collateral_seized in
     and_then (get_pool s (l_asset loan)) (\<lambda>pool.
     and_then
       (if shortfall > 0
        then and_then (ensure (\<not> p_bad_debt_reserve pool < shortfall) InsufficientLiquidity) (\<lambda>_.
             Ok (pool\<lparr>p_bad_debt_reserve := saturating_sub (p_bad_debt_reserve pool) shortfall\<rparr>))
        else Ok pool) (\<lambda>pool.
     let pool = pool\<lparr>p_total_borrowed := saturating_sub (p_total_borrowed pool) (l_principal loan)\<rparr>;
         s = set_pool (l_asset loan) pool s;
         s = drop_loan loan borrower s;
         s = publish (BadDebtLiquidationEvent (l_loan_id loan) borrower (l_asset loan)
               outstanding_balance collateral_seized shortfall) s
     in Ok (shortfall, s))))))))))"

definition allocate_reserves ::
  "'w externals \<Rightarrow> ctx \<Rightarrow> address \<Rightarrow> address \<Rightarrow> nat \<Rightarrow> address \<Rightarrow> 'w lending_state \<Rightarrow> 'w lending_state lending_result" where
  "allocate_reserves X cx admin asset amount fund_address s =
     and_then (require_stored_admin cx admin s) (\<lambda>_.
     and_then (get_pool s asset) (\<lambda>pool.
     and_then (ensure (\<not> p_bad_debt_reserve pool < amount) InsufficientLiquidity) (\<lambda>_.
     let s = set_pool asset (pool\<lparr>p_bad_debt_reserve := saturating_sub (p_bad_debt_reserve pool) amount\<rparr>) s
     in transfer X asset (current_contract_address cx) fund_address amount s)))"

definition accrue_interest_with_reserve ::
  "ctx \<Rightarrow> nat \<Rightarrow> 'w lending_state \<Rightarrow> 'w lending_state lending_result" where
  "accrue_interest_with_reserve cx loan_id s =
     and_then (ok_or (st_loan_by_id s loan_id) LoanNotFound) (\<lambda>loan.
     let total_interest = loan_interest cx loan in
     and_then (get_pool s (l_asset loan)) (\<lambda>pool.
     let (depositor_interest, protocol_interest) =
           calculate_interest_split total_interest (p_reserve_factor_bps pool);
         pool = pool\<lparr>p_retained_yield := saturating_add_u64 (p_retained_yield pool) depositor_interest,
                  p_bad_debt_reserve := saturating_add_u64 (p_bad_debt_reserve pool) protocol_interest,
                  p_total_protocol_revenue :=
                    saturating_add_u64 (p_total_protocol_revenue pool) protocol_interest\<rparr>
     in Ok (set_pool (l_asset loan) pool s)))"

section \<open>The write-off\<close>

lemma liquidate_bad_debt_OkD:
  assumes "liquidate_bad_debt cx ad u s = Ok (r, t)"
  shows "\<exists>l p owe ev. st_loan s u = Some l \<and> st_pool_state s (l_asset l) = Some p \<and>
    authorized cx ad \<and> has_role s ad RoleAdmin \<and> is_in_grace_period cx u s = Ok False \<and>
    get_repayment_amount cx u s = Ok owe \<and> l_principal l \<le> owe \<and>
    r = owe - l_collateral_amount l \<and> r \<le> p_bad_debt_reserve p \<and>
    t = s\<lparr>st_pool_state := (st_pool_state s)(l_asset l \<mapsto> p\<lparr>
            p_bad_debt_reserve := p_bad_debt_reserve p - (owe - l_collateral_amount l),
            p_total_borrowed := p_total_borrowed p - l_principal l\<rparr>),
          st_loan := (st_loan s)(u := None), st_loan_by_id := (st_loan_by_id s)(l_loan_id l := None),
          st_user_loans := user_loans_without (st_user_loans s) u (l_loan_id l),
          st_late_fees_accrued := (st_late_fees_accrued s)(l_loan_id l := None),
          lending_events := lending_events s @ [ev]\<rparr>"
proof -
  have owe: "l_principal l \<le> n" if "get_repayment_amount cx u s = Ok n" "st_loan s u = Some l" for l n
    using that by (auto simp: get_repayment_amount_def Let_def)
  have pool: "(if sf > 0 then and_then (ensure (\<not> p_bad_debt_reserve p < sf) InsufficientLiquidity) (\<lambda>_.
        Ok (p\<lparr>p_bad_debt_reserve := saturating_sub (p_bad_debt_reserve p) sf\<rparr>)) else Ok p) = Ok p' \<longleftrightarrow>
      sf \<le> p_bad_debt_reserve p \<and> p' = p\<lparr>p_bad_debt_reserve := p_bad_debt_reserve p - sf\<rparr>" for sf p p'
    by auto
  show ?thesis
    using assms unfolding liquidate_bad_debt_def Let_def and_then_eq_Ok pool
    by (elim exE conjE) (clarsimp simp: accessors drop_loan_def close_loan_def owe, rule exI, rule refl)
qed

end
