(* ===== verification/Lending_Insurance.thy ===== *)
theory Lending_Insurance
  imports Lending_Pool
begin

text \<open>
  Loan insurance of the lending contract (\<open>src/contracts/lending-contract/src/lib.rs\<close>): the
  premium, the policy of a loan, its claim and its cancellation with a pro-rata refund, and the
  insurance fund. Every amount of this part is in the primary token of the contract.
\<close>

section \<open>The fund\<close>

definition empty_fund :: insurance_fund where
  "empty_fund = \<lparr>f_total_premiums_collected = 0, f_total_claims_paid = 0, f_available_balance = 0\<rparr>"

definition init_insurance_fund_if_needed :: "'w lending_state \<Rightarrow> 'w lending_state" where
  "init_insurance_fund_if_needed s =
     (let s = (if st_insurance_fund s = None then s\<lparr>st_insurance_fund := Some empty_fund\<rparr> else s)
      in if st_insurance_premium_rate s = None
         then s\<lparr>st_insurance_premium_rate := Some DEFAULT_INSURANCE_PREMIUM_RATE_BPS\<rparr> else s)"

definition premium_for :: "'w lending_state \<Rightarrow> nat \<Rightarrow> nat lending_result" where
  "premium_for s loan_amount =
     (let premium_rate_bps = unwrap_or DEFAULT_INSURANCE_PREMIUM_RATE_BPS (st_insurance_premium_rate s)
      in and_then (ok_or (mul_then_div loan_amount premium_rate_bps 10000) InvalidAmount) (\<lambda>v.
         Ok (as_u64 v)))"

definition get_insurance_premium ::
  "nat \<Rightarrow> 'w lending_state \<Rightarrow> (nat \<times> 'w lending_state) lending_result" where
  "get_insurance_premium loan_amount s =
     (let s = init_insurance_fund_if_needed s
      in and_then (premium_for s loan_amount) (\<lambda>premium. Ok (premium, s)))"

definition set_insurance_premium_rate ::
  "ctx \<Rightarrow> address \<Rightarrow> nat \<Rightarrow> 'w lending_state \<Rightarrow> 'w lending_state lending_result" where
  "set_insurance_premium_rate cx admin premium_rate_bps s =
     and_then (require_admin cx admin s) (\<lambda>_.
     and_then (ensure (\<not> premium_rate_bps > 10000) InvalidAmount) (\<lambda>_.
     let s = init_insurance_fund_if_needed s
     in Ok (s\<lparr>st_insurance_premium_rate := Some premium_rate_bps\<rparr>)))"

section \<open>Policies\<close>

definition purchase_loan_insurance ::
  "'w externals \<Rightarrow> ctx \<Rightarrow> address \<Rightarrow> nat \<Rightarrow> 'w lending_state \<Rightarrow> (nat \<times> 'w lending_state) lending_result" where
  "purchase_loan_insurance X cx borrower loan_id s =
     and_then (require_auth cx borrower) (\<lambda>_.
     let s = init_insurance_fund_if_needed s in
     and_then (ok_or (st_loan_by_id s loan_id) LoanNotFound) (\<lambda>loan.
     and_then (ensure (l_borrower loan = borrower) Unauthorized) (\<lambda>_.
     and_then (ensure (st_insurance s loan_id = None) InsuranceAlreadyPurchased) (\<lambda>_.
     let premium_rate_bps = unwrap_or DEFAULT_INSURANCE_PREMIUM_RATE_BPS (st_insurance_premium_rate s) in
     and_then (premium_for s (l_principal loan)) (\<lambda>premium.
     and_then (ensure (premium \<noteq> 0) InvalidInsuranceAmount) (\<lambda>_.
     and_then (unwrap (st_token s)) (\<lambda>token.
     and_then (transfer X token borrower (current_contract_address cx) premium s) (\<lambda>s.
     let coverage_amount = l_principal loan in
     and_then (grace_period_end s loan) (\<lambda>insurance_expires_at.
     let insurance = \<lparr>i_loan_id = loan_id, i_borrower = borrower, i_coverage_amount = coverage_amount,
           i_premium_paid = premium, i_premium_rate_bps = premium_rate_bps,
           i_purchase_time = timestamp cx, i_expires_at = insurance_expires_at, i_claimed = False\<rparr>;
         s = s\<lparr>st_insurance := (st_insurance s)(loan_id \<mapsto> insurance)\<rparr>;
         fund = unwrap_or empty_fund (st_insurance_fund s);
         fund = fund\<lparr>f_total_premiums_collected := saturating_add_u64 (f_total_premiums_collected fund) premium,
                     f_available_balance := saturating_add_u64 (f_available_balance fund) premium\<rparr>;
         s = s\<lparr>st_insurance_fund := Some fund\<rparr>;
         s = publish (InsurancePurchasedEvent loan_id borrower coverage_amount premium premium_rate_bps
               insurance_expires_at (timestamp cx)) s
     in Ok (premium, s))))))))))"

definition is_loan_insured :: "ctx \<Rightarrow> nat \<Rightarrow> 'w lending_state \<Rightarrow> bool" where
  "is_loan_insured cx loan_id s =
     (case st_insurance s loan_id of
        Some ins \<Rightarrow> \<not> i_claimed ins \<and> timestamp cx < i_expires_at ins
      | None \<Rightarrow> False)"

definition get_insurance_coverage :: "ctx \<Rightarrow> nat \<Rightarrow> 'w lending_state \<Rightarrow> nat" where
  "get_insurance_coverage cx loan_id s =
     (case st_insurance s loan_id of
        Some ins \<Rightarrow> if \<not> i_claimed ins \<and> timestamp cx < i_expires_at ins then i_coverage_amount ins else 0
      | None \<Rightarrow> 0)"

definition get_insurance_details :: "nat \<Rightarrow> 'w lending_state \<Rightarrow> loan_insurance option" where
  "get_insurance_details loan_id s = st_insurance s loan_id"

definition claim_insurance :: "ctx \<Rightarrow> nat \<Rightarrow> 'w lending_state \<Rightarrow> (nat \<times> 'w lending_state) lending_result" where
  "claim_insurance cx loan_id s =
     and_then (ok_or (st_insurance s loan_id) InsuranceNotFound) (\<lambda>insurance.
     and_then (ensure (\<not> i_claimed insurance) InsuranceAlreadyClaimed) (\<lambda>_.
     and_then (ok_or (st_loan_by_id s loan_id) LoanNotFound) (\<lambda>loan.
     and_then (grace_period_end s loan) (\<lambda>grace_period_end.
     and_then (ensure (\<not> timestamp cx \<le> grace_period_end) InvalidAmount) (\<lambda>_.
     and_then (ok_or (st_insurance_fund s) InsuranceNotFound) (\<lambda>fund.
     let claim_amount = i_coverage_amount insurance in
     and_then (ensure (\<not> f_available_balance fund < claim_amount) InsufficientInsuranceFund) (\<lambda>_.
     let s = s\<lparr>st_insurance := (st_insurance s)(loan_id \<mapsto> insurance\<lparr>i_claimed := True\<rparr>)\<rparr>;
         fund = fund\<lparr>f_total_claims_paid := saturating_add_u64 (f_total_claims_paid fund) claim_amount,
                     f_available_balance := saturating_sub (f_available_balance fund) claim_amount\<rparr>;
         s = s\<lparr>st_insurance_fund := Some fund\<rparr>;
         s = publish (InsuranceClaimedEvent loan_id (i_borrower insurance) claim_amount
               (i_coverage_amount insurance) (timestamp cx)) s
     in Ok (claim_amount, s))))))))"

definition insurance_refund :: "nat \<Rightarrow> loan_insurance \<Rightarrow> nat" where
  "insurance_refund current_time ins =
     (if current_time < i_expires_at ins
      then let total_duration = saturating_sub (i_expires_at ins) (i_purchase_time ins);
               elapsed = saturating_sub current_time (i_purchase_time ins);
               remaining = saturating_sub total_duration elapsed
           in if total_duration > 0
              then as_u64 (unwrap_or 0 (mul_then_div (i_premium_paid ins) remaining total_duration))
              else 0
      else 0)"

text \<open>The token client's call traps when the transfer fails.\<close>

definition pay_or_panic ::
  "'w externals \<Rightarrow> address \<Rightarrow> address \<Rightarrow> address \<Rightarrow> nat \<Rightarrow> 'w lending_state \<Rightarrow> 'w lending_state lending_result" where
  "pay_or_panic X token sender dest amount s =
     and_then (unwrap (tok_transfer X token sender dest (int amount) (world s))) (\<lambda>w.
     Ok (s\<lparr>world := w\<rparr>))"

definition pay_refund ::
  "'w externals \<Rightarrow> ctx \<Rightarrow> address \<Rightarrow> nat \<Rightarrow> 'w lending_state \<Rightarrow> 'w lending_state lending_result" where
  "pay_refund X cx borrower refund_amount s =
     (if refund_amount > 0
      then let fund = unwrap_or empty_fund (st_insurance_fund s);
               fund = fund\<lparr>f_available_balance := saturating_sub (f_available_balance fund) refund_amount\<rparr>;
               s = s\<lparr>st_insurance_fund := Some fund\<rparr> in
           and_then (unwrap (st_token s)) (\<lambda>token.
           pay_or_panic X token (current_contract_address cx) borrower refund_amount s)
      else Ok s)"

definition cancel_insurance ::
  "'w externals \<Rightarrow> ctx \<Rightarrow> address \<Rightarrow> nat \<Rightarrow> 'w lending_state \<Rightarrow> (nat \<times> 'w lending_state) lending_result" where
  "cancel_insurance X cx borrower loan_id s =
     and_then (require_auth cx borrower) (\<lambda>_.
     and_then (ok_or (st_insurance s loan_id) InsuranceNotFound) (\<lambda>insurance.
     and_then (ensure (i_borrower insurance = borrower) Unauthorized) (\<lambda>_.
     and_then (ensure (\<not> i_claimed insurance) InsuranceAlreadyClaimed) (\<lambda>_.
     let refund_amount = insurance_refund (timestamp cx) insurance;
         s = s\<lparr>st_insurance := (st_insurance s)(loan_id := None)\<rparr> in
     and_then (pay_refund X cx borrower refund_amount s) (\<lambda>s.
     Ok (refund_amount, publish (InsuranceCancelledEvent loan_id borrower refund_amount (timestamp cx)) s))))))"

section \<open>Administration of the fund\<close>

definition get_insurance_fund_state :: "'w lending_state \<Rightarrow> insurance_fund \<times> 'w lending_state" where
  "get_insurance_fund_state s =
     (let s = init_insurance_fund_if_needed s in (unwrap_or empty_fund (st_insurance_fund s), s))"

definition deposit_to_insurance_fund ::
  "'w externals \<Rightarrow> ctx \<Rightarrow> address \<Rightarrow> nat \<Rightarrow> 'w lending_state \<Rightarrow> 'w lending_state lending_result" where
  "deposit_to_insurance_fund X cx admin amount s =
     and_then (require_admin cx admin s) (\<lambda>_.
     and_then (ensure (amount \<noteq> 0) InvalidAmount) (\<lambda>_.
     let s = init_insurance_fund_if_needed s in
     and_then (unwrap (st_token s)) (\<lambda>token.
     and_then (transfer X token admin (current_contract_address cx) amount s) (\<lambda>s.
     let fund = unwrap_or empty_fund (st_insurance_fund s);
         fund = fund\<lparr>f_available_balance := saturating_add_u64 (f_available_balance fund) amount\<rparr>
     in Ok (s\<lparr>st_insurance_fund := Some fund\<rparr>)))))"

definition withdraw_from_insurance_fund ::
  "'w externals \<Rightarrow> ctx \<Rightarrow> address \<Rightarrow> nat \<Rightarrow> 'w lending_state \<Rightarrow> 'w lending_state lending_result" where
  "withdraw_from_insurance_fund X cx admin amount s =
     and_then (require_admin cx admin s) (\<lambda>_.
     and_then (ensure (amount \<noteq> 0) InvalidAmount) (\<lambda>_.
     let s = init_insurance_fund_if_needed s in
     and_then (ok_or (st_insurance_fund s) InsuranceNotFound) (\<lambda>fund.
     and_then (ensure (\<not> f_available_balance fund < amount) InsufficientLiquidity) (\<lambda>_.
     let fund = fund\<lparr>f_available_balance := saturating_sub (f_available_balance fund) amount\<rparr>;
         s = s\<lparr>st_insurance_fund := Some fund\<rparr> in
     and_then (unwrap (st_token s)) (\<lambda>token.
     pay_or_panic X token (current_contract_address cx) admin amount s)))))"

section \<open>The purchase\<close>

lemma purchase_loan_insurance_OkD:
  assumes "purchase_loan_insurance X cx u i s = Ok (r, t)"
  shows "\<exists>tk w s1 f l. authorized cx u \<and> s1 = init_insurance_fund_if_needed s \<and> st_token s1 = Some tk \<and>
    st_loan_by_id s1 i = Some l \<and> l_borrower l = u \<and> 0 < r \<and> premium_for s1 (l_principal l) = Ok r \<and>
    tok_transfer X tk u (current_contract_address cx) (int r) (world s1) = Some w \<and>
    st_insurance_fund t = Some f \<and>
    f_available_balance f = saturating_add_u64 (f_available_balance (unwrap_or empty_fund (st_insurance_fund s1))) r \<and>
    world t = w \<and> st_loan t = st_loan s1 \<and> st_loan_by_id t = st_loan_by_id s1 \<and>
    st_next_loan_id t = st_next_loan_id s1 \<and> st_pool_state t = st_pool_state s1 \<and>
    st_supported_assets t = st_supported_assets s1 \<and> st_token t = st_token s1 \<and> st_admin t = st_admin s1"
  using assms by (auto simp: purchase_loan_insurance_def publish_def Let_def)

section \<open>The refund\<close>

lemma pay_refund_eq_Ok:
  "pay_refund X cx u r s = Ok t \<longleftrightarrow>
     (if r = 0 then t = s
      else \<exists>tk w. st_token s = Some tk \<and>
        tok_transfer X tk (current_contract_address cx) u (int r) (world s) = Some w \<and>
        t = s\<lparr>st_insurance_fund := Some ((unwrap_or empty_fund (st_insurance_fund s))
             \<lparr>f_available_balance := f_available_balance (unwrap_or empty_fund (st_insurance_fund s)) - r\<rparr>),
             world := w\<rparr>)"
  by (auto simp: pay_refund_def pay_or_panic_def Let_def)

lemma cancel_insurance_OkD:
  assumes "cancel_insurance X cx u i s = Ok (r, t)"
  shows "\<exists>ins s1. authorized cx u \<and> st_insurance s i = Some ins \<and> i_borrower ins = u \<and> \<not> i_claimed ins \<and>
    r = insurance_refund (timestamp cx) ins \<and>
    pay_refund X cx u r (s\<lparr>st_insurance := (st_insurance s)(i := None)\<rparr>) = Ok s1 \<and>
    t = publish (InsuranceCancelledEvent i u r (timestamp cx)) s1"
  using assms unfolding cancel_insurance_def Let_def and_then_eq_Ok by auto

text \<open>The refund is a share of the premium that was paid.\<close>

lemma insurance_refund_le: "insurance_refund now ins \<le> i_premium_paid ins"
  by (simp add: insurance_refund_def Let_def as_u64_share_le)

end
