(* ===== verification/Lending_Plan_Yield.thy ===== *)
theory Lending_Plan_Yield
  imports Lending_Pool
begin

text \<open>
  Yield of inheritance plans held in the pool (\<open>src/contracts/lending-contract/src/lib.rs\<close>):
  registration of a plan's principal, accrual at the pool's supply rate plus a boost, claims
  single and in batches, funding of the retained yield, projections and statistics.
\<close>

section \<open>Authorization and accrual\<close>

definition get_inheritance_contract :: "'w lending_state \<Rightarrow> address option" where
  "get_inheritance_contract s = st_inheritance_contract s"

definition check_plan_yield_caller :: "address \<Rightarrow> 'w lending_state \<Rightarrow> unit lending_result" where
  "check_plan_yield_caller caller s =
     (if get_inheritance_contract s = Some caller then Ok ()
      else require_role s caller RoleAdmin Unauthorized)"

definition require_plan_yield_caller :: "ctx \<Rightarrow> address \<Rightarrow> 'w lending_state \<Rightarrow> unit lending_result" where
  "require_plan_yield_caller cx caller s =
     and_then (require_auth cx caller) (\<lambda>_. check_plan_yield_caller caller s)"

definition supply_rate_bps_for :: "'w lending_state \<Rightarrow> address \<Rightarrow> nat lending_result" where
  "supply_rate_bps_for s asset =
     and_then (get_pool s asset) (\<lambda>pool.
     let utilization_bps = get_utilization_bps (p_total_borrowed pool) (p_total_deposits pool);
         (borrow_rate, reserve_factor) =
           (case st_rate_model s of
              Some m \<Rightarrow> (two_slope_rate m utilization_bps, m_reserve_factor_bps m)
            | None \<Rightarrow> (calculate_dynamic_rate (p_base_rate_bps pool) (p_multiplier_bps pool) utilization_bps,
                       p_reserve_factor_bps pool))
     in Ok (supply_rate borrow_rate utilization_bps reserve_factor))"

definition accrued_for_position ::
  "ctx \<Rightarrow> plan_yield_position \<Rightarrow> 'w lending_state \<Rightarrow> nat lending_result" where
  "accrued_for_position cx position s =
     (let elapsed = saturating_sub (timestamp cx) (y_last_harvest_at position)
      in if elapsed = 0 \<or> y_principal position = 0 \<or> \<not> y_active position then Ok 0
         else and_then (supply_rate_bps_for s (y_asset position)) (\<lambda>supply.
           let rate_bps = saturating_add_u32 supply (y_boost_bps position)
           in if rate_bps = 0 then Ok 0
              else Ok (let accrued = unwrap_or 0 (Option.bind (checked_mul_u128 (y_principal position) rate_bps) (\<lambda>v.
                         Option.bind (checked_mul_u128 v elapsed) (\<lambda>v.
                         checked_div v (10000 * SECONDS_IN_YEAR))))
                       in if accrued \<le> u64_max then accrued else u64_max)))"

section \<open>Registration\<close>

definition get_registered_plan_ids :: "'w lending_state \<Rightarrow> nat list" where
  "get_registered_plan_ids s = unwrap_or [] (st_plan_yield_index s)"

definition get_plan_yield_count :: "'w lending_state \<Rightarrow> nat" where
  "get_plan_yield_count s = length (get_registered_plan_ids s)"

definition index_plan_yield :: "nat \<Rightarrow> 'w lending_state \<Rightarrow> 'w lending_state lending_result" where
  "index_plan_yield plan_id s =
     (let index = unwrap_or [] (st_plan_yield_index s)
      in if plan_id \<in> set index then Ok s
         else and_then (ensure (\<not> length index \<ge> MAX_PLAN_YIELD_POSITIONS) TooManyYieldPositions) (\<lambda>_.
           Ok (s\<lparr>st_plan_yield_index := Some (index @ [plan_id])\<rparr>)))"

definition set_position :: "nat \<Rightarrow> plan_yield_position \<Rightarrow> 'w lending_state \<Rightarrow> 'w lending_state" where
  "set_position plan_id position s = s\<lparr>st_plan_yield := (st_plan_yield s)(plan_id \<mapsto> position)\<rparr>"

definition register_plan_yield ::
  "ctx \<Rightarrow> address \<Rightarrow> nat \<Rightarrow> address \<Rightarrow> nat \<Rightarrow> 'w lending_state \<Rightarrow> 'w lending_state lending_result" where
  "register_plan_yield cx caller plan_id asset prin s =
     and_then (require_initialized s) (\<lambda>_.
     and_then (require_unpaused s) (\<lambda>_.
     and_then (require_plan_yield_caller cx caller s) (\<lambda>_.
     and_then (get_pool s asset) (\<lambda>_.
     let now = timestamp cx in
     and_then (case st_plan_yield s plan_id of
         Some prior \<Rightarrow> Ok (prior\<lparr>y_asset := asset, y_principal := prin, y_last_harvest_at := now,
                                  y_active := True\<rparr>, s)
       | None \<Rightarrow> and_then (index_plan_yield plan_id s) (\<lambda>s.
           Ok (\<lparr>y_plan_id = plan_id, y_asset = asset, y_principal = prin, y_last_harvest_at = now,
                y_total_harvested = 0, y_last_harvest_amount = 0, y_harvest_count = 0,
                y_registered_at = now, y_boost_bps = 0, y_active = True\<rparr>, s))) (\<lambda>(position, s).
     let s = set_position plan_id position s
     in Ok (publish (PlanYieldRegisteredEvent plan_id asset prin now) s))))))"

definition unregister_plan_yield ::
  "ctx \<Rightarrow> address \<Rightarrow> nat \<Rightarrow> 'w lending_state \<Rightarrow> 'w lending_state lending_result" where
  "unregister_plan_yield cx caller plan_id s =
     and_then (require_initialized s) (\<lambda>_.
     and_then (require_plan_yield_caller cx caller s) (\<lambda>_.
     and_then (ok_or (st_plan_yield s plan_id) PlanYieldNotRegistered) (\<lambda>position.
     let position = position\<lparr>y_active := False, y_principal := 0\<rparr>;
         s = set_position plan_id position s
     in Ok (publish (PlanYieldUnregisteredEvent plan_id (y_asset position) (y_total_harvested position)
          (timestamp cx)) s))))"

definition set_plan_yield_boost ::
  "ctx \<Rightarrow> address \<Rightarrow> nat \<Rightarrow> nat \<Rightarrow> 'w lending_state \<Rightarrow> 'w lending_state lending_result" where
  "set_plan_yield_boost cx admin plan_id boost_bps s =
     and_then (require_initialized s) (\<lambda>_.
     and_then (require_admin cx admin s) (\<lambda>_.
     and_then (ensure (\<not> boost_bps > MAX_YIELD_BOOST_BPS) InvalidYieldBoost) (\<lambda>_.
     and_then (ok_or (st_plan_yield s plan_id) PlanYieldNotRegistered) (\<lambda>position.
     let old_boost_bps = y_boost_bps position;
         s = set_position plan_id (position\<lparr>y_boost_bps := boost_bps\<rparr>) s
     in Ok (publish (PlanYieldBoostSetEvent plan_id old_boost_bps boost_bps) s)))))"

section \<open>Claims\<close>

definition get_plan_yield_position :: "'w lending_state \<Rightarrow> nat \<Rightarrow> plan_yield_position option" where
  "get_plan_yield_position s plan_id = st_plan_yield s plan_id"

definition get_accrued_plan_yield :: "ctx \<Rightarrow> nat \<Rightarrow> 'w lending_state \<Rightarrow> nat lending_result" where
  "get_accrued_plan_yield cx plan_id s =
     and_then (require_initialized s) (\<lambda>_.
     and_then (ok_or (st_plan_yield s plan_id) PlanYieldNotRegistered) (\<lambda>position.
     and_then (accrued_for_position cx position s) (\<lambda>accrued.
     and_then (get_pool s (y_asset position)) (\<lambda>pool.
     Ok (min accrued (p_retained_yield pool))))))"

definition claim_plan_yield_inner ::
  "ctx \<Rightarrow> address \<Rightarrow> nat \<Rightarrow> 'w lending_state \<Rightarrow> (nat \<times> 'w lending_state) lending_result" where
  "claim_plan_yield_inner cx caller plan_id s =
     and_then (require_initialized s) (\<lambda>_.
     and_then (require_unpaused s) (\<lambda>_.
     and_then (check_plan_yield_caller caller s) (\<lambda>_.
     and_then (ok_or (st_plan_yield s plan_id) PlanYieldNotRegistered) (\<lambda>position.
     and_then (ensure (y_active position) PlanYieldInactive) (\<lambda>_.
     and_then (get_pool s (y_asset position)) (\<lambda>pool.
     and_then (ensure (\<not> p_is_paused pool) PoolPaused) (\<lambda>_.
     and_then (accrued_for_position cx position s) (\<lambda>accrued.
     let payout = min accrued (p_retained_yield pool) in
     and_then (ensure (payout \<noteq> 0) NoYieldAccrued) (\<lambda>_.
     let s = set_pool (y_asset position)
               (pool\<lparr>p_retained_yield := saturating_sub (p_retained_yield pool) payout\<rparr>) s;
         now = timestamp cx;
         position = position\<lparr>y_last_harvest_at := now, y_last_harvest_amount := payout,
           y_harvest_count := saturating_add_u32 (y_harvest_count position) 1,
           y_total_harvested := saturating_add_u64 (y_total_harvested position) payout\<rparr>;
         s = set_position plan_id position s
     in Ok (payout, publish (PlanYieldClaimedEvent plan_id (y_asset position) payout
              (y_total_harvested position) now) s))))))))))"

definition claim_plan_yield ::
  "ctx \<Rightarrow> address \<Rightarrow> nat \<Rightarrow> 'w lending_state \<Rightarrow> (nat \<times> 'w lending_state) lending_result" where
  "claim_plan_yield cx caller plan_id s =
     and_then (require_auth cx caller) (\<lambda>_. claim_plan_yield_inner cx caller plan_id s)"

text \<open>
  One pass of the batch: a plan whose claim returns an error counts 0 and leaves the state as
  it was, since the inner claim writes nothing before its last check.
\<close>

definition claim_or_zero ::
  "ctx \<Rightarrow> address \<Rightarrow> nat \<Rightarrow> nat list \<times> 'w lending_state \<Rightarrow> (nat list \<times> 'w lending_state) lending_result" where
  "claim_or_zero cx caller plan_id = (\<lambda>(results, s).
     (case claim_plan_yield_inner cx caller plan_id s of
        Ok (claimed, s) \<Rightarrow> Ok (results @ [claimed], s)
      | Err _ \<Rightarrow> Ok (results @ [0], s)
      | Panic \<Rightarrow> Panic))"

definition claim_plan_yield_batch ::
  "ctx \<Rightarrow> address \<Rightarrow> nat list \<Rightarrow> 'w lending_state \<Rightarrow> (nat list \<times> 'w lending_state) lending_result" where
  "claim_plan_yield_batch cx caller plan_ids s =
     and_then (require_initialized s) (\<lambda>_.
     and_then (require_unpaused s) (\<lambda>_.
     and_then (ensure (\<not> length plan_ids > MAX_YIELD_CLAIM_BATCH) TooManyYieldPositions) (\<lambda>_.
     and_then (require_auth cx caller) (\<lambda>_.
     fold_outcome (claim_or_zero cx caller) plan_ids ([], s)))))"

definition fund_retained_yield ::
  "'w externals \<Rightarrow> ctx \<Rightarrow> address \<Rightarrow> address \<Rightarrow> nat \<Rightarrow> 'w lending_state \<Rightarrow> (nat \<times> 'w lending_state) lending_result" where
  "fund_retained_yield X cx funder asset amount s =
     and_then (require_initialized s) (\<lambda>_.
     and_then (require_unpaused s) (\<lambda>_.
     and_then (require_plan_yield_caller cx funder s) (\<lambda>_.
     and_then (ensure (amount \<noteq> 0) InvalidAmount) (\<lambda>_.
     and_then (get_pool s asset) (\<lambda>pool.
     and_then (transfer X asset funder (current_contract_address cx) amount s) (\<lambda>s.
     and_then (ok_or (checked_add_u64 (p_retained_yield pool) amount) InvalidAmount) (\<lambda>ry.
     let s = set_pool asset (pool\<lparr>p_retained_yield := ry\<rparr>) s
     in Ok (ry, publish (RetainedYieldFundedEvent asset funder amount ry) s))))))))"

section \<open>Rates and statistics\<close>

definition get_plan_yield_rate :: "'w lending_state \<Rightarrow> nat \<Rightarrow> nat lending_result" where
  "get_plan_yield_rate s plan_id =
     and_then (require_initialized s) (\<lambda>_.
     and_then (ok_or (st_plan_yield s plan_id) PlanYieldNotRegistered) (\<lambda>position.
     and_then (supply_rate_bps_for s (y_asset position)) (\<lambda>supply.
     Ok (saturating_add_u32 supply (y_boost_bps position)))))"

definition project_plan_yield :: "'w lending_state \<Rightarrow> nat \<Rightarrow> nat \<Rightarrow> nat lending_result" where
  "project_plan_yield s plan_id horizon_secs =
     and_then (require_initialized s) (\<lambda>_.
     and_then (ok_or (st_plan_yield s plan_id) PlanYieldNotRegistered) (\<lambda>position.
     and_then (get_plan_yield_rate s plan_id) (\<lambda>rate.
     Ok (simulate_plan_yield (y_principal position) rate horizon_secs))))"

definition stats_one ::
  "'w lending_state \<Rightarrow> address \<Rightarrow> nat \<Rightarrow> plan_yield_stats \<Rightarrow> plan_yield_stats lending_result" where
  "stats_one s asset plan_id st =
     (case st_plan_yield s plan_id of
        None \<Rightarrow> Ok st
      | Some position \<Rightarrow>
          if y_asset position \<noteq> asset then Ok st
          else and_then (u32_add (ys_position_count st) 1) (\<lambda>position_count.
            and_then
              (if y_active position
               then and_then (u32_add (ys_active_count st) 1) (\<lambda>active_count.
                 Ok (st\<lparr>ys_active_count := active_count,
                        ys_total_principal := saturating_add_u64 (ys_total_principal st) (y_principal position)\<rparr>))
               else Ok st) (\<lambda>st.
            Ok (st\<lparr>ys_position_count := position_count,
                   ys_total_harvested :=
                     saturating_add_u64 (ys_total_harvested st) (y_total_harvested position)\<rparr>))))"

definition get_plan_yield_stats :: "'w lending_state \<Rightarrow> address \<Rightarrow> plan_yield_stats lending_result" where
  "get_plan_yield_stats s asset =
     and_then (require_initialized s) (\<lambda>_.
     and_then (get_pool s asset) (\<lambda>pool.
     fold_outcome (stats_one s asset) (get_registered_plan_ids s)
       \<lparr>ys_asset = asset, ys_position_count = 0, ys_active_count = 0, ys_total_principal = 0,
        ys_total_harvested = 0, ys_available_yield = p_retained_yield pool\<rparr>))"

text \<open>The keeper's ping fails for an unknown plan; the entry's time-to-live is outside the model.\<close>

definition extend_ttl :: "'w lending_state \<Rightarrow> nat \<Rightarrow> unit lending_result" where
  "extend_ttl s plan_id = ensure (st_plan_yield s plan_id \<noteq> None) PlanYieldNotRegistered"

end
