(* ===== verification/Lending_Governance.thy ===== *)
theory Lending_Governance
  imports Lending_Pool
begin

text \<open>
  The rate model and its reads, the links to the inheritance and governance contracts, the
  registry of wrapped tokens and the upgrade of the contract
  (\<open>src/contracts/lending-contract/src/lib.rs\<close>).
\<close>

section \<open>Rate model\<close>

definition set_rate_model ::
  "ctx \<Rightarrow> address \<Rightarrow> nat \<Rightarrow> nat \<Rightarrow> nat \<Rightarrow> nat \<Rightarrow> nat \<Rightarrow> 'w lending_state \<Rightarrow> 'w lending_state lending_result" where
  "set_rate_model cx admin base_rate_bps optimal_utilization_bps slope1_bps slope2_bps reserve_factor_bps s =
     and_then (require_admin cx admin s) (\<lambda>_.
     and_then (ensure (\<not> (optimal_utilization_bps = 0 \<or> optimal_utilization_bps \<ge> 10000)) InvalidRateModel) (\<lambda>_.
     and_then (ensure (\<not> reserve_factor_bps \<ge> 10000) InvalidRateModel) (\<lambda>_.
     let model = \<lparr>m_base_rate_bps = base_rate_bps, m_optimal_utilization_bps = optimal_utilization_bps,
           m_slope1_bps = slope1_bps, m_slope2_bps = slope2_bps, m_reserve_factor_bps = reserve_factor_bps\<rparr>;
         s = s\<lparr>st_rate_model := Some model\<rparr>
     in Ok (publish (RateModelUpdatedEvent base_rate_bps optimal_utilization_bps slope1_bps slope2_bps
          reserve_factor_bps admin (timestamp cx)) s))))"

definition get_base_rate :: "'w lending_state \<Rightarrow> nat lending_result" where
  "get_base_rate s =
     and_then (require_initialized s) (\<lambda>_.
     case st_rate_model s of
       Some model \<Rightarrow> Ok (m_base_rate_bps model)
     | None \<Rightarrow> and_then (unwrap (st_token s)) (\<lambda>token.
         and_then (get_pool s token) (\<lambda>pool. Ok (p_base_rate_bps pool))))"

definition get_optimal_utilization :: "'w lending_state \<Rightarrow> nat lending_result" where
  "get_optimal_utilization s =
     and_then (require_initialized s) (\<lambda>_.
     case st_rate_model s of
       Some model \<Rightarrow> Ok (m_optimal_utilization_bps model)
     | None \<Rightarrow> and_then (unwrap (st_token s)) (\<lambda>token.
         and_then (get_pool s token) (\<lambda>pool. Ok (p_utilization_cap_bps pool))))"

definition get_slope1 :: "'w lending_state \<Rightarrow> nat lending_result" where
  "get_slope1 s =
     and_then (require_initialized s) (\<lambda>_.
     case st_rate_model s of
       Some model \<Rightarrow> Ok (m_slope1_bps model)
     | None \<Rightarrow> and_then (unwrap (st_token s)) (\<lambda>token.
         and_then (get_pool s token) (\<lambda>pool. Ok (p_multiplier_bps pool))))"

definition get_slope2 :: "'w lending_state \<Rightarrow> nat lending_result" where
  "get_slope2 s =
     and_then (require_initialized s) (\<lambda>_.
     case st_rate_model s of
       Some model \<Rightarrow> Ok (m_slope2_bps model)
     | None \<Rightarrow> and_then (unwrap (st_token s)) (\<lambda>token.
         and_then (get_pool s token) (\<lambda>pool. Ok (saturating_mul_u32 (p_multiplier_bps pool) 10))))"

definition get_borrow_rate :: "'w lending_state \<Rightarrow> nat lending_result" where
  "get_borrow_rate s =
     and_then (require_initialized s) (\<lambda>_.
     and_then (unwrap (st_token s)) (\<lambda>token.
     and_then (get_pool s token) (\<lambda>pool.
     let utilization_bps = get_utilization_bps (p_total_borrowed pool) (p_total_deposits pool) in
     case st_rate_model s of
       Some model \<Rightarrow> Ok (two_slope_rate model utilization_bps)
     | None \<Rightarrow> Ok (calculate_dynamic_rate (p_base_rate_bps pool) (p_multiplier_bps pool) utilization_bps))))"

definition get_supply_rate :: "'w lending_state \<Rightarrow> nat lending_result" where
  "get_supply_rate s =
     and_then (require_initialized s) (\<lambda>_.
     and_then (unwrap (st_token s)) (\<lambda>token.
     and_then (get_pool s token) (\<lambda>pool.
     let utilization_bps = get_utilization_bps (p_total_borrowed pool) (p_total_deposits pool) in
     and_then (get_borrow_rate s) (\<lambda>borrow_rate.
     let reserve_factor = (case st_rate_model s of Some model \<Rightarrow> m_reserve_factor_bps model
                                                | None \<Rightarrow> p_reserve_factor_bps pool);
         gross = unwrap_or 0 (checked_mul_u128 borrow_rate utilization_bps)
     in Ok (as_u32 (unwrap_or 0 (checked_mul_u128 gross (saturating_sub 10000 reserve_factor))
          div (10000 * 10000)))))))"

definition simulate_rate :: "'w lending_state \<Rightarrow> nat \<Rightarrow> nat lending_result" where
  "simulate_rate s utilization_bps =
     and_then (require_initialized s) (\<lambda>_.
     case st_rate_model s of
       Some model \<Rightarrow> Ok (two_slope_rate model utilization_bps)
     | None \<Rightarrow> and_then (unwrap (st_token s)) (\<lambda>token.
         and_then (get_pool s token) (\<lambda>pool.
         Ok (calculate_dynamic_rate (p_base_rate_bps pool) (p_multiplier_bps pool) utilization_bps))))"

section \<open>Links to other contracts\<close>

definition set_inheritance_contract ::
  "ctx \<Rightarrow> address \<Rightarrow> address \<Rightarrow> 'w lending_state \<Rightarrow> 'w lending_state lending_result" where
  "set_inheritance_contract cx admin contract s =
     and_then (require_admin cx admin s) (\<lambda>_.
     Ok (publish (ContractLinkedEvent ''INHERIT'' contract) (s\<lparr>st_inheritance_contract := Some contract\<rparr>)))"

definition set_governance_contract ::
  "ctx \<Rightarrow> address \<Rightarrow> address \<Rightarrow> 'w lending_state \<Rightarrow> 'w lending_state lending_result" where
  "set_governance_contract cx admin contract s =
     and_then (require_admin cx admin s) (\<lambda>_.
     Ok (publish (ContractLinkedEvent ''GOV'' contract) (s\<lparr>st_governance_contract := Some contract\<rparr>)))"

definition get_governance_contract :: "'w lending_state \<Rightarrow> address option" where
  "get_governance_contract s = st_governance_contract s"

definition verify_plan_ownership ::
  "'w externals \<Rightarrow> nat \<Rightarrow> address \<Rightarrow> 'w lending_state \<Rightarrow> bool lending_result" where
  "verify_plan_ownership X plan_id caller s =
     (case st_inheritance_contract s of
        Some inheritance_contract \<Rightarrow>
          unwrap (call_verify_plan_ownership X inheritance_contract plan_id caller (world s))
      | None \<Rightarrow> Ok False)"

section \<open>Wrapped tokens\<close>

definition get_wrapped_tokens :: "'w lending_state \<Rightarrow> address list" where
  "get_wrapped_tokens s = unwrap_or [] (st_supp_wrp s)"

definition add_supported_wrapped_token ::
  "ctx \<Rightarrow> address \<Rightarrow> address \<Rightarrow> 'w lending_state \<Rightarrow> 'w lending_state lending_result" where
  "add_supported_wrapped_token cx admin token s =
     and_then (require_admin cx admin s) (\<lambda>_.
     let tokens = unwrap_or [] (st_supp_wrp s)
     in and_then (ensure (token \<notin> set tokens) AssetNotSupported) (\<lambda>_.
     Ok (publish (WrappedTokenAdded token) (s\<lparr>st_supp_wrp := Some (tokens @ [token])\<rparr>))))"

definition remove_wrapped_token ::
  "ctx \<Rightarrow> address \<Rightarrow> address \<Rightarrow> 'w lending_state \<Rightarrow> 'w lending_state lending_result" where
  "remove_wrapped_token cx admin token s =
     and_then (require_admin cx admin s) (\<lambda>_.
     let tokens = unwrap_or [] (st_supp_wrp s);
         updated = filter (\<lambda>x. x \<noteq> token) tokens;
         found = (token \<in> set tokens)
     in and_then (ensure found AssetNotSupported) (\<lambda>_.
     Ok (publish (WrappedTokenRemoved token) (s\<lparr>st_supp_wrp := Some updated\<rparr>))))"

definition is_wrapped_token_supported :: "'w lending_state \<Rightarrow> address \<Rightarrow> bool" where
  "is_wrapped_token_supported s token = (token \<in> set (unwrap_or [] (st_supp_wrp s)))"

section \<open>Version and upgrade\<close>

definition version :: "'w lending_state \<Rightarrow> nat" where
  "version s = unwrap_or CONTRACT_VERSION (st_version s)"

definition upgrade ::
  "ctx \<Rightarrow> address \<Rightarrow> bytes32 \<Rightarrow> 'w lending_state \<Rightarrow> 'w lending_state lending_result" where
  "upgrade cx admin new_wasm_hash s =
     and_then (require_initialized s) (\<lambda>_.
     and_then (require_admin cx admin s) (\<lambda>_.
     let old_version = version s in
     and_then (u32_add old_version 1) (\<lambda>new_version.
     let s = s\<lparr>st_version := Some new_version\<rparr>;
         s = publish (ContractUpgradedEvent old_version new_version new_wasm_hash admin (timestamp cx)) s
     in Ok (s\<lparr>contract_wasm := Some new_wasm_hash\<rparr>))))"

end
