(* ===== verification/Lending_Contract.thy ===== *)
theory Lending_Contract
  imports Lending_Pool_Facts Lending_Loans Lending_Farming Lending_Reserves Lending_Insurance
    Lending_Plan_Yield Lending_Governance
begin

text \<open>
  The lending contract as one machine: a call of the contract is a value, \<open>exec\<close> runs it, and a
  run of the contract is a sequence of successful calls interleaved with steps of the rest of the
  chain. A call that returns an error or traps is rolled back by the host and is no step.
\<close>

section \<open>Calls\<close>

datatype (plugins only: code) lending_call =
    CInitialize address address nat nat nat nat
  | CAddAssetPool address address nat nat nat
  | CAssignRole address address role
  | CRevokeRole address address role
  | CPauseAssetPool address address bool
  | CSetNftToken address address
  | CPause address
  | CUnpause address
  | CDeposit address address nat
  | CWithdraw address address nat
  | CBorrow address address nat address nat nat
  | CRepay address
  | CEmitInterestAccrual address
  | CWithdrawPriority address address nat
  | CWhitelistCollateral address address
  | CRemoveCollateral address address
  | CAddReserve address address nat nat
  | CSetGracePeriod address address nat
  | CSetLateFeeRate address address nat
  | CSetFlashLoanFee address nat
  | CWhitelistFlashLoanReceiver address address
  | CRemoveFlashLoanReceiver address address
  | CFlashLoan address address address nat
  | CStake address address nat
  | CUnstake address address nat
  | CClaimRewards address address
  | CGetPendingRewards address address
  | CSetRewardRate address address nat
  | CLiquidate address address nat
  | CRefinance address nat
  | CConsolidate address "nat list" nat
  | CSplit address "nat list" nat
  | CSetReserveFactor address address nat
  | CWithdrawReserves address address nat
  | CReplenish address address nat
  | CLiquidateBadDebt address address
  | CAllocateReserves address address nat address
  | CAccrueInterest nat
  | CGetInsurancePremium nat
  | CSetInsurancePremiumRate address nat
  | CPurchaseInsurance address nat
  | CClaimInsurance nat
  | CCancelInsurance address nat
  | CGetInsuranceFundState
  | CDepositInsuranceFund address nat
  | CWithdrawInsuranceFund address nat
  | CSetInheritanceContract address address
  | CSetGovernanceContract address address
  | CRegisterPlanYield address nat address nat
  | CUnregisterPlanYield address nat
  | CSetPlanYieldBoost address nat nat
  | CClaimPlanYield address nat
  | CClaimPlanYieldBatch address "nat list"
  | CFundRetainedYield address address nat
  | CSetRateModel address nat nat nat nat nat
  | CAddWrappedToken address address
  | CRemoveWrappedToken address address
  | CUpgrade address bytes32

primrec exec :: "'w externals \<Rightarrow> ctx \<Rightarrow> lending_call \<Rightarrow> 'w lending_state \<Rightarrow> 'w lending_state lending_result" where
  "exec X cx (CInitialize ad tk br mu cr uc) s = initialize cx ad tk br mu cr uc s"
| "exec X cx (CAddAssetPool ad a br mu uc) s = add_asset_pool cx ad a br mu uc s"
| "exec X cx (CAssignRole ad u r) s = lending_assign_role cx ad u r s"
| "exec X cx (CRevokeRole ad u r) s = lending_revoke_role cx ad u r s"
| "exec X cx (CPauseAssetPool ad a b) s = pause_asset_pool cx ad a b s"
| "exec X cx (CSetNftToken ad n) s = set_nft_token cx ad n s"
| "exec X cx (CPause ad) s = pause cx ad s"
| "exec X cx (CUnpause ad) s = unpause cx ad s"
| "exec X cx (CDeposit u a n) s = effect (deposit X cx u a n s)"
| "exec X cx (CWithdraw u a n) s = effect (withdraw X cx u a n s)"
| "exec X cx (CBorrow u a n c ca d) s = effect (borrow X cx u a n c ca d s)"
| "exec X cx (CRepay u) s = effect (repay X cx u s)"
| "exec X cx (CEmitInterestAccrual u) s = effect (emit_interest_accrual cx u s)"
| "exec X cx (CWithdrawPriority u a n) s = effect (withdraw_priority X cx u a n s)"
| "exec X cx (CWhitelistCollateral ad tk) s = whitelist_collateral cx ad tk s"
| "exec X cx (CRemoveCollateral ad tk) s = remove_collateral cx ad tk s"
| "exec X cx (CAddReserve ad tk l th) s = add_reserve cx ad tk l th s"
| "exec X cx (CSetGracePeriod ad a g) s = set_grace_period cx ad a g s"
| "exec X cx (CSetLateFeeRate ad a r) s = set_late_fee_rate cx ad a r s"
| "exec X cx (CSetFlashLoanFee ad f) s = set_flash_loan_fee cx ad f s"
| "exec X cx (CWhitelistFlashLoanReceiver ad r) s = whitelist_flash_loan_receiver cx ad r s"
| "exec X cx (CRemoveFlashLoanReceiver ad r) s = remove_flash_loan_receiver cx ad r s"
| "exec X cx (CFlashLoan u rc a n) s = flash_loan X cx u rc a n s"
| "exec X cx (CStake u a n) s = stake_lp_tokens cx u a n s"
| "exec X cx (CUnstake u a n) s = unstake_lp_tokens cx u a n s"
| "exec X cx (CClaimRewards u a) s = effect (claim_rewards cx u a s)"
| "exec X cx (CGetPendingRewards u a) s = Ok (snd (get_pending_rewards cx u a s))"
| "exec X cx (CSetRewardRate ad a r) s = set_reward_rate cx ad a r s"
| "exec X cx (CLiquidate u b n) s = effect (liquidate X cx u b n s)"
| "exec X cx (CRefinance u d) s = effect (refinance_loan X cx u d s)"
| "exec X cx (CConsolidate u ids d) s = effect (consolidate_loans X cx u ids d s)"
| "exec X cx (CSplit u ns d) s = effect (split_loan X cx u ns d s)"
| "exec X cx (CSetReserveFactor ad a f) s = set_reserve_factor cx ad a f s"
| "exec X cx (CWithdrawReserves ad a n) s = withdraw_reserves X cx ad a n s"
| "exec X cx (CReplenish ad a n) s = effect (replenish_bad_debt_reserve X cx ad a n s)"
| "exec X cx (CLiquidateBadDebt ad u) s = effect (liquidate_bad_debt cx ad u s)"
| "exec X cx (CAllocateReserves ad a n f) s = allocate_reserves X cx ad a n f s"
| "exec X cx (CAccrueInterest i) s = accrue_interest_with_reserve cx i s"
| "exec X cx (CGetInsurancePremium n) s = effect (get_insurance_premium n s)"
| "exec X cx (CSetInsurancePremiumRate ad r) s = set_insurance_premium_rate cx ad r s"
| "exec X cx (CPurchaseInsurance u i) s = effect (purchase_loan_insurance X cx u i s)"
| "exec X cx (CClaimInsurance i) s = effect (claim_insurance cx i s)"
| "exec X cx (CCancelInsurance u i) s = effect (cancel_insurance X cx u i s)"
| "exec X cx CGetInsuranceFundState s = Ok (snd (get_insurance_fund_state s))"
| "exec X cx (CDepositInsuranceFund ad n) s = deposit_to_insurance_fund X cx ad n s"
| "exec X cx (CWithdrawInsuranceFund ad n) s = withdraw_from_insurance_fund X cx ad n s"
| "exec X cx (CSetInheritanceContract ad c) s = set_inheritance_contract cx ad c s"
| "exec X cx (CSetGovernanceContract ad c) s = set_governance_contract cx ad c s"
| "exec X cx (CRegisterPlanYield u i a n) s = register_plan_yield cx u i a n s"
| "exec X cx (CUnregisterPlanYield u i) s = unregister_plan_yield cx u i s"
| "exec X cx (CSetPlanYieldBoost ad i b) s = set_plan_yield_boost cx ad i b s"
| "exec X cx (CClaimPlanYield u i) s = effect (claim_plan_yield cx u i s)"
| "exec X cx (CClaimPlanYieldBatch u ids) s = effect (claim_plan_yield_batch cx u ids s)"
| "exec X cx (CFundRetainedYield u a n) s = effect (fund_retained_yield X cx u a n s)"
| "exec X cx (CSetRateModel ad b o1 s1 s2 r) s = set_rate_model cx ad b o1 s1 s2 r s"
| "exec X cx (CAddWrappedToken ad tk) s = add_supported_wrapped_token cx ad tk s"
| "exec X cx (CRemoveWrappedToken ad tk) s = remove_wrapped_token cx ad tk s"
| "exec X cx (CUpgrade ad h) s = upgrade cx ad h s"

end
