(* ===== verification/Lending_Loans_Facts.thy ===== *)
theory Lending_Loans_Facts
  imports Lending_Pool_Facts Lending_Loans
begin

text \<open>
  What a successful refinancing, consolidation or split did, and the arithmetic behind them.
\<close>

section \<open>Refinancing\<close>

lemma is_in_grace_period_lock [simp]:
  "is_in_grace_period cx u (s\<lparr>reentrancy_lock := l\<rparr>) = is_in_grace_period cx u s"
  by (simp add: is_in_grace_period_def grace_period_end_def get_pool_def require_initialized_def)

lemma get_refinance_terms_lock [simp]:
  "get_refinance_terms cx u d (s\<lparr>reentrancy_lock := l\<rparr>) = get_refinance_terms cx u d s"
  by (simp add: get_refinance_terms_def get_pool_def require_initialized_def)

lemma get_refinance_terms_OkD:
  assumes "get_refinance_terms cx u d s = Ok tm" and "st_loan s u = Some l"
  shows "rt_outstanding_balance tm = l_principal l + loan_interest cx l"
    and "rt_new_principal tm = rt_outstanding_balance tm + rt_refinancing_fee tm"
    and "rt_refinancing_fee tm = rt_outstanding_balance tm * REFINANCING_FEE_BPS div 10000"
    and "rt_new_due_date tm = timestamp cx + d"
  using assms
  by (auto simp: get_refinance_terms_def calculate_outstanding_balance_def checked_add_u128_def Let_def
      dest!: mul_then_div_Some_D split: if_splits)

lemma rebook_principal_OkD:
  assumes "rebook_principal op np p = Ok p'" and "op \<le> np"
  shows "p' = p\<lparr>p_total_borrowed := p_total_borrowed p + (np - op)\<rparr>"
  using assms
  by (auto simp: rebook_principal_def checked_sub_def checked_add_u64_def Let_def split: if_splits)

definition refinanced_loan ::
  "ctx \<Rightarrow> nat \<Rightarrow> address \<Rightarrow> loan_record \<Rightarrow> refinance_terms \<Rightarrow> loan_record" where
  "refinanced_loan cx i u l tm =
     \<lparr>l_loan_id = i, l_borrower = u, l_asset = l_asset l, l_principal = rt_new_principal tm,
      l_collateral_amount = l_collateral_amount l, l_collateral_token = l_collateral_token l,
      l_borrow_time = timestamp cx, l_due_date = rt_new_due_date tm,
      l_interest_rate_bps = rt_new_interest_rate_bps tm\<rparr>"

lemma refinance_loan_OkD:
  assumes "refinance_loan X cx u d s = Ok (i, t)"
  shows "\<exists>l p p' tm w1 w2 w3 evs.
    reentrancy_lock s = None \<and> authorized cx u \<and> st_loan s u = Some l \<and>
    is_in_grace_period cx u s = Ok True \<and>
    get_refinance_terms cx u d s = Ok tm \<and> st_pool_state s (l_asset l) = Some p \<and>
    i = get_next_loan_id s \<and>
    tok_transfer X (l_asset l) u (current_contract_address cx) (int (rt_refinancing_fee tm)) (world s) = Some w1 \<and>
    burned X (l_loan_id l) (st_nft_token s) w1 w2 \<and>
    minted X (refinanced_loan cx i u l tm) (st_nft_token s) w2 w3 \<and>
    rebook_principal (l_principal l) (rt_new_principal tm)
      (p\<lparr>p_retained_yield := p_retained_yield p + rt_refinancing_fee tm\<rparr>) = Ok p' \<and>
    t = s\<lparr>st_next_loan_id := Some (i + 1),
          st_loan := (st_loan s)(u \<mapsto> refinanced_loan cx i u l tm),
          st_loan_by_id := (st_loan_by_id s)(l_loan_id l := None, i \<mapsto> refinanced_loan cx i u l tm),
          st_user_loans := (user_loans_without (st_user_loans s) u (l_loan_id l))(u \<mapsto>
            unwrap_or [] (user_loans_without (st_user_loans s) u (l_loan_id l) u) @ [i]), world := w3,
          st_pool_state := (st_pool_state s)(l_asset l \<mapsto> p'),
          lending_events := evs, reentrancy_lock := None\<rparr> \<and> evs = lending_events t"
  using assms unfolding refinance_loan_def Let_def and_then_eq_Ok
  by (elim exE conjE)
     (clarsimp simp: accessors store_loan_def close_loan_def refinanced_loan_def checked_add_u64_def
        split: if_splits, intro exI conjI, assumption+, rule refl, rule refl)

section \<open>Consolidation\<close>

text \<open>The validation loop: the loans in the order of their ids, and the totals over them.\<close>

definition consolidation_of :: "'w lending_state \<Rightarrow> address \<Rightarrow> nat list \<Rightarrow> loan_record list \<Rightarrow> bool" where
  "consolidation_of s u ids ls \<longleftrightarrow>
     map Some ls = map (st_loan_by_id s) ids \<and> (\<forall>l \<in> set ls. l_borrower l = u)"

lemma consolidate_one_OkD:
  assumes "consolidate_one cx u s i acc = Ok acc'"
  shows "\<exists>l. st_loan_by_id s i = Some l \<and> l_borrower l = u \<and>
    c_old_loans acc' = c_old_loans acc @ [l] \<and>
    c_total_collateral acc' = c_total_collateral acc + l_collateral_amount l \<and>
    c_total_outstanding acc' = c_total_outstanding acc + l_principal l + loan_interest cx l \<and>
    c_collateral_token acc' = Some (l_collateral_token l) \<and>
    (c_collateral_token acc = None \<or> c_collateral_token acc = Some (l_collateral_token l)) \<and>
    c_asset acc' = Some (l_asset l) \<and> (c_asset acc = None \<or> c_asset acc = Some (l_asset l))"
  using assms
  by (cases "c_collateral_token acc"; cases "c_asset acc")
     (auto simp: consolidate_one_def calculate_outstanding_balance_def Let_def)

lemma consolidate_loop_OkD:
  assumes "fold_outcome (consolidate_one cx u s) ids acc = Ok acc'"
  shows "\<exists>ls. consolidation_of s u ids ls \<and> c_old_loans acc' = c_old_loans acc @ ls \<and>
    c_total_collateral acc' = c_total_collateral acc + sum_list (map l_collateral_amount ls) \<and>
    c_total_outstanding acc' = c_total_outstanding acc + sum_list (map (\<lambda>l. l_principal l + loan_interest cx l) ls) \<and>
    (\<forall>l \<in> set ls. c_collateral_token acc' = Some (l_collateral_token l) \<and> c_asset acc' = Some (l_asset l)) \<and>
    (c_collateral_token acc \<noteq> None \<longrightarrow> c_collateral_token acc' = c_collateral_token acc) \<and>
    (c_asset acc \<noteq> None \<longrightarrow> c_asset acc' = c_asset acc)"
  using assms
proof (induction ids arbitrary: acc)
  case Nil
  then show ?case by (simp add: consolidation_of_def)
next
  case (Cons i ids)
  then obtain acc1 where 1: "consolidate_one cx u s i acc = Ok acc1"
    and 2: "fold_outcome (consolidate_one cx u s) ids acc1 = Ok acc'" by auto
  obtain l where l: "st_loan_by_id s i = Some l" "l_borrower l = u"
    "c_old_loans acc1 = c_old_loans acc @ [l]"
    "c_total_collateral acc1 = c_total_collateral acc + l_collateral_amount l"
    "c_total_outstanding acc1 = c_total_outstanding acc + l_principal l + loan_interest cx l"
    "c_collateral_token acc1 = Some (l_collateral_token l)"
    "c_collateral_token acc = None \<or> c_collateral_token acc = Some (l_collateral_token l)"
    "c_asset acc1 = Some (l_asset l)" "c_asset acc = None \<or> c_asset acc = Some (l_asset l)"
    using consolidate_one_OkD [OF 1] by blast
  from Cons.IH [OF 2] obtain ls where ls: "consolidation_of s u ids ls"
    "c_old_loans acc' = c_old_loans acc1 @ ls"
    "c_total_collateral acc' = c_total_collateral acc1 + sum_list (map l_collateral_amount ls)"
    "c_total_outstanding acc' = c_total_outstanding acc1 + sum_list (map (\<lambda>l. l_principal l + loan_interest cx l) ls)"
    "\<forall>l \<in> set ls. c_collateral_token acc' = Some (l_collateral_token l) \<and> c_asset acc' = Some (l_asset l)"
    "c_collateral_token acc1 \<noteq> None \<longrightarrow> c_collateral_token acc' = c_collateral_token acc1"
    "c_asset acc1 \<noteq> None \<longrightarrow> c_asset acc' = c_asset acc1" by blast
  have "consolidation_of s u (i # ids) (l # ls)" using l(1,2) ls(1) by (simp add: consolidation_of_def)
  then show ?case using l(3-) ls(2-) by (intro exI [of _ "l # ls"]) auto
qed

text \<open>The removal loop: every loan of the list is closed and its NFT burned, and nothing else moves.\<close>

lemma retire_loan_OkD:
  assumes "retire_loan X u l s = Ok t"
  shows "\<exists>w. burned X (l_loan_id l) (st_nft_token s) (world s) w \<and>
    t = s\<lparr>st_loan := (st_loan s)(l_borrower l := None),
          st_loan_by_id := (st_loan_by_id s)(l_loan_id l := None),
          st_user_loans := user_loans_without (st_user_loans s) u (l_loan_id l), world := w\<rparr>"
  using assms by (auto simp: retire_loan_def accessors Let_def)

definition consolidated_loan ::
  "ctx \<Rightarrow> nat \<Rightarrow> address \<Rightarrow> address \<Rightarrow> nat \<Rightarrow> nat \<Rightarrow> address \<Rightarrow> nat \<Rightarrow> nat \<Rightarrow> loan_record" where
  "consolidated_loan cx i u a np tc ct due rate =
     \<lparr>l_loan_id = i, l_borrower = u, l_asset = a, l_principal = np, l_collateral_amount = tc,
      l_collateral_token = ct, l_borrow_time = timestamp cx, l_due_date = due, l_interest_rate_bps = rate\<rparr>"

lemma consolidate_one_lock [simp]:
  "consolidate_one cx u (s\<lparr>reentrancy_lock := l\<rparr>) = consolidate_one cx u s"
  by (rule ext)+ (simp add: consolidate_one_def grace_period_end_def get_pool_def)

lemma consolidate_loans_OkD:
  assumes "consolidate_loans X cx u ids d s = Ok (i, t)"
  shows "\<exists>acc a ct fee w1 s2 p w3 rate evs.
    reentrancy_lock s = None \<and> authorized cx u \<and> ids \<noteq> [] \<and> length ids \<le> 10 \<and>
    fold_outcome (consolidate_one cx u s) ids consolidation_start = Ok acc \<and>
    c_asset acc = Some a \<and> c_collateral_token acc = Some ct \<and>
    fee = as_u64 (unwrap_or 0 (mul_then_div (c_total_outstanding acc) REFINANCING_FEE_BPS 10000)) \<and>
    tok_transfer X a u (current_contract_address cx) (int fee) (world s) = Some w1 \<and>
    fold_outcome (retire_loan X u) (c_old_loans acc) (s\<lparr>reentrancy_lock := Some True, world := w1\<rparr>) = Ok s2 \<and>
    i = get_next_loan_id s2 \<and> st_pool_state s2 a = Some p \<and>
    minted X (consolidated_loan cx i u a (c_total_outstanding acc + fee) (c_total_collateral acc) ct
      (timestamp cx + d) rate) (st_nft_token s2) (world s2) w3 \<and>
    t = s2\<lparr>st_next_loan_id := Some (i + 1),
          st_loan := (st_loan s2)(u \<mapsto> consolidated_loan cx i u a (c_total_outstanding acc + fee)
            (c_total_collateral acc) ct (timestamp cx + d) rate),
          st_loan_by_id := (st_loan_by_id s2)(i \<mapsto> consolidated_loan cx i u a (c_total_outstanding acc + fee)
            (c_total_collateral acc) ct (timestamp cx + d) rate),
          st_user_loans := (st_user_loans s2)(u \<mapsto> get_user_loans s2 u @ [i]), world := w3,
          st_pool_state := (st_pool_state s2)(a \<mapsto> p\<lparr>p_retained_yield := p_retained_yield p + fee\<rparr>),
          lending_events := evs, reentrancy_lock := None\<rparr> \<and> evs = lending_events t"
  using assms unfolding consolidate_loans_def Let_def and_then_eq_Ok
  by (elim exE conjE)
     (clarsimp simp: accessors store_loan_def consolidated_loan_def, intro exI conjI, assumption, rule refl)

section \<open>Splitting\<close>

definition split_part ::
  "ctx \<Rightarrow> nat \<Rightarrow> address \<Rightarrow> loan_record \<Rightarrow> nat \<Rightarrow> nat \<Rightarrow> nat \<Rightarrow> nat \<Rightarrow> loan_record" where
  "split_part cx i u l tot due rate n =
     \<lparr>l_loan_id = i, l_borrower = u, l_asset = l_asset l, l_principal = n,
      l_collateral_amount = split_collateral l tot n, l_collateral_token = l_collateral_token l,
      l_borrow_time = timestamp cx, l_due_date = due, l_interest_rate_bps = rate\<rparr>"

lemma split_one_OkD:
  assumes "split_one X cx u l tot due rate n (ids, s) = Ok (ids', t)"
  shows "\<exists>i w. i = get_next_loan_id s \<and> ids' = ids @ [i] \<and>
    minted X (split_part cx i u l tot due rate n) (st_nft_token s) (world s) w \<and>
    t = s\<lparr>st_next_loan_id := Some (Suc i),
          st_loan := (st_loan s)(u \<mapsto> split_part cx i u l tot due rate n),
          st_loan_by_id := (st_loan_by_id s)(i \<mapsto> split_part cx i u l tot due rate n),
          st_user_loans := (st_user_loans s)(u \<mapsto> get_user_loans s u @ [i]), world := w\<rparr>"
  using assms by (auto simp: split_one_def split_part_def accessors store_loan_def Let_def)

lemma sum_u64_eq_Ok: "sum_u64 xs = Ok n \<Longrightarrow> n = sum_list xs"
proof -
  have "fold_outcome (\<lambda>x total. u64_add total x) xs k = Ok n \<Longrightarrow> n = k + sum_list xs" for k
  proof (induction xs arbitrary: k)
    case (Cons x xs)
    then have "n = (k + x) + sum_list xs" by auto
    then show ?case by simp
  qed simp
  then show "sum_u64 xs = Ok n \<Longrightarrow> n = sum_list xs" unfolding sum_u64_def by force
qed

text \<open>The parts of a split never hold more collateral than the loan they come from.\<close>

definition split_ratio :: "nat \<Rightarrow> nat \<Rightarrow> nat" where
  "split_ratio tot n = unwrap_or 0 (mul_then_div n 10000 tot)"

lemma split_collateral_le: "10000 * split_collateral l tot n \<le> l_collateral_amount l * split_ratio tot n"
proof -
  let ?c = "l_collateral_amount l" and ?r = "split_ratio tot n"
  have "split_collateral l tot n \<le> ?c * ?r div 10000"
  proof (cases "mul_then_div ?c ?r 10000")
    case (Some v)
    then show ?thesis using mul_then_div_Some_D [OF Some] as_u64_le [of v]
      by (simp add: split_collateral_def split_ratio_def)
  qed (simp add: split_collateral_def split_ratio_def as_u64_def)
  then have "10000 * split_collateral l tot n \<le> 10000 * (?c * ?r div 10000)" by (rule mult_le_mono2)
  also have "\<dots> \<le> ?c * ?r" by simp
  finally show ?thesis .
qed

lemma split_ratio_le: "tot * split_ratio tot n \<le> n * 10000"
proof (cases "mul_then_div n 10000 tot")
  case (Some v)
  then have "v = n * 10000 div tot" by (blast dest: mul_then_div_Some_D)
  then show ?thesis using Some by (simp add: split_ratio_def)
qed (simp add: split_ratio_def)

lemma split_ratio_zero [simp]: "split_ratio 0 n = 0"
  by (simp add: split_ratio_def mul_then_div_def checked_div_def split: bind_splits)

lemma split_collateral_sum:
  assumes "sum_list ns = tot"
  shows "(\<Sum>n\<leftarrow>ns. split_collateral l tot n) \<le> l_collateral_amount l"
proof -
  have 1: "10000 * (\<Sum>n\<leftarrow>ns. split_collateral l tot n) \<le> l_collateral_amount l * (\<Sum>n\<leftarrow>ns. split_ratio tot n)"
    by (induction ns) (simp_all add: algebra_simps add_mono split_collateral_le [unfolded mult.commute [of 10000]])
  have "(\<Sum>n\<leftarrow>ns. split_ratio tot n) \<le> 10000"
  proof (cases "tot = 0")
    case True
    then show ?thesis by (induction ns) simp_all
  next
    case False
    have "tot * (\<Sum>n\<leftarrow>ms. split_ratio tot n) \<le> sum_list ms * 10000" for ms
    proof (induction ms)
      case (Cons m ms)
      then show ?case using split_ratio_le [of tot m] by (simp add: distrib_left)
    qed simp
    from this [of ns] show ?thesis using assms False by (simp add: mult.commute)
  qed
  then have "l_collateral_amount l * (\<Sum>n\<leftarrow>ns. split_ratio tot n) \<le> l_collateral_amount l * 10000"
    by (rule mult_le_mono2)
  with 1 show ?thesis by linarith
qed

lemma split_loan_OkD:
  assumes "split_loan X cx u ns d s = Ok (ids, t)"
  shows "\<exists>l tot fee w1 w2 rate s2 p evs.
    reentrancy_lock s = None \<and> authorized cx u \<and> ns \<noteq> [] \<and> length ns \<le> 5 \<and>
    st_loan s u = Some l \<and> is_in_grace_period cx u s = Ok True \<and>
    tot = l_principal l + loan_interest cx l \<and> sum_u64 ns = Ok tot \<and>
    fee = as_u64 (unwrap_or 0 (mul_then_div tot REFINANCING_FEE_BPS 10000)) \<and>
    tok_transfer X (l_asset l) u (current_contract_address cx) (int fee) (world s) = Some w1 \<and>
    burned X (l_loan_id l) (st_nft_token s) w1 w2 \<and>
    fold_outcome (split_one X cx u l tot (timestamp cx + d) rate) ns ([], s\<lparr>reentrancy_lock := Some True,
      st_loan := (st_loan s)(u := None), st_loan_by_id := (st_loan_by_id s)(l_loan_id l := None),
      st_user_loans := user_loans_without (st_user_loans s) u (l_loan_id l), world := w2\<rparr>) = Ok (ids, s2) \<and>
    st_pool_state s2 (l_asset l) = Some p \<and>
    t = s2\<lparr>st_pool_state := (st_pool_state s2)(l_asset l \<mapsto> p\<lparr>p_retained_yield := p_retained_yield p + fee\<rparr>),
          lending_events := evs, reentrancy_lock := None\<rparr> \<and> evs = lending_events t"
  using assms unfolding split_loan_def Let_def and_then_eq_Ok
  by (elim exE conjE)
     (clarsimp simp: accessors close_loan_def calculate_outstanding_balance_def,
      intro exI conjI, assumption+, rule refl)

end
