(* ===== verification/Lending_Books.thy ===== *)
theory Lending_Books
  imports Lending_Contract Lending_Loans_Facts
begin

text \<open>
  The books of the lending contract: what it owes in each token and the index of its loans. The
  contract owes a pool's unborrowed deposits, its retained yield and its bad-debt reserve, the
  collateral of every open loan and the balance of the insurance fund.
\<close>

section \<open>What the contract owes\<close>

definition pool_claim :: "pool_state \<Rightarrow> int" where
  "pool_claim p = int (p_total_deposits p) - int (p_total_borrowed p) +
     int (p_retained_yield p) + int (p_bad_debt_reserve p)"

definition pools_owed :: "(address \<Rightarrow> pool_state option) \<Rightarrow> address \<Rightarrow> int" where
  "pools_owed ps a = (case ps a of None \<Rightarrow> 0 | Some p \<Rightarrow> pool_claim p)"

definition fund_owed :: "address option \<Rightarrow> insurance_fund option \<Rightarrow> address \<Rightarrow> int" where
  "fund_owed tk f a =
     (if tk = Some a then (case f of None \<Rightarrow> 0 | Some f \<Rightarrow> int (f_available_balance f)) else 0)"

definition collateral_in :: "address \<Rightarrow> loan_record option \<Rightarrow> int" where
  "collateral_in a lo =
     (case lo of None \<Rightarrow> 0
      | Some l \<Rightarrow> if l_collateral_token l = a then int (l_collateral_amount l) else 0)"

definition collateral_sum :: "(nat \<Rightarrow> loan_record option) \<Rightarrow> nat \<Rightarrow> address \<Rightarrow> int" where
  "collateral_sum m n a = (\<Sum>i<n. collateral_in a (m i))"

definition owed :: "'w lending_state \<Rightarrow> address \<Rightarrow> int" where
  "owed s a = pools_owed (st_pool_state s) a +
     collateral_sum (st_loan_by_id s) (get_next_loan_id s) a +
     fund_owed (st_token s) (st_insurance_fund s) a"

definition covered :: "'w externals \<Rightarrow> address \<Rightarrow> 'w lending_state \<Rightarrow> bool" where
  "covered X self s \<longleftrightarrow> (\<forall>a. owed s a \<le> token_held X a self (world s))"

text \<open>
  The index of the loans: the loan of a borrower is the loan stored under its id, ids lie below
  the counter; every pool is in the list of supported assets, and the contract is initialized.
\<close>

definition loans_indexed :: "'w lending_state \<Rightarrow> bool" where
  "loans_indexed s \<longleftrightarrow>
     (\<forall>u l. st_loan s u = Some l \<longrightarrow> st_loan_by_id s (l_loan_id l) = Some l \<and> l_borrower l = u) \<and>
     (\<forall>i l. st_loan_by_id s i = Some l \<longrightarrow> l_loan_id l = i \<and> i < get_next_loan_id s)"

definition pools_listed :: "'w lending_state \<Rightarrow> bool" where
  "pools_listed s \<longleftrightarrow> (\<forall>a p. st_pool_state s a = Some p \<longrightarrow> a \<in> set (get_supported_assets s)) \<and>
     st_admin s \<noteq> None"

definition books_inv :: "'w externals \<Rightarrow> address \<Rightarrow> 'w lending_state \<Rightarrow> bool" where
  "books_inv X self s \<longleftrightarrow> loans_indexed s \<and> pools_listed s \<and> covered X self s"

section \<open>Updates of the books\<close>

lemma pool_claim_update [simp]:
  "pool_claim (p\<lparr>p_total_deposits := x\<rparr>) = pool_claim p + int x - int (p_total_deposits p)"
  "pool_claim (p\<lparr>p_total_borrowed := x\<rparr>) = pool_claim p - int x + int (p_total_borrowed p)"
  "pool_claim (p\<lparr>p_retained_yield := x\<rparr>) = pool_claim p + int x - int (p_retained_yield p)"
  "pool_claim (p\<lparr>p_bad_debt_reserve := x\<rparr>) = pool_claim p + int x - int (p_bad_debt_reserve p)"
  "pool_claim (p\<lparr>p_total_shares := x\<rparr>) = pool_claim p"
  "pool_claim (p\<lparr>p_is_paused := b\<rparr>) = pool_claim p"
  "pool_claim (p\<lparr>p_grace_period_seconds := x\<rparr>) = pool_claim p"
  "pool_claim (p\<lparr>p_late_fee_rate_bps := x\<rparr>) = pool_claim p"
  "pool_claim (p\<lparr>p_reserve_factor_bps := x\<rparr>) = pool_claim p"
  by (simp_all add: pool_claim_def)

lemma pool_claim_new [simp]: "pool_claim (new_pool b m c) = 0"
  by (simp add: pool_claim_def new_pool_def)

text \<open>A repayment adds the principal, the interest and the late fee to what the pool owes.\<close>

lemma pool_claim_settled:
  assumes "settle_repayment loan i late p = Ok p'"
  shows "pool_claim p' = pool_claim p + int (l_principal loan + i + late)"
proof -
  note * = settle_repayment_OkD [OF assms]
  have "int (i - protocol_cut i) + int (protocol_cut i - reserve_cut i + late) + int (reserve_cut i) = int (i + late)"
    using protocol_cut_le [of i] reserve_cut_le [of i] by simp
  with * show ?thesis by (simp add: settled_pool_def of_nat_diff)
qed

lemma pools_owed_upd [simp]:
  "pools_owed (ps(a \<mapsto> p)) b = (if b = a then pool_claim p else pools_owed ps b)"
  by (simp add: pools_owed_def)

lemma pools_owed_Some: "ps a = Some p \<Longrightarrow> pools_owed ps a = pool_claim p"
  by (simp add: pools_owed_def)

lemma collateral_sum_open [simp]:
  "collateral_sum (m(i \<mapsto> l)) (Suc i) a = collateral_sum m i a + collateral_in a (Some l)"
  by (simp add: collateral_sum_def)

lemma collateral_sum_close:
  assumes "m i = Some l" and "i < n"
  shows "collateral_sum (m(i := None)) n a = collateral_sum m n a - collateral_in a (Some l)"
proof -
  have "(\<Sum>j<n. collateral_in a ((m(i := None)) j)) =
      (\<Sum>j<n. collateral_in a (m j) - (if j = i then collateral_in a (Some l) else 0))"
    using assms(1) by (intro sum.cong) (auto simp: collateral_in_def)
  also have "\<dots> = (\<Sum>j<n. collateral_in a (m j)) - collateral_in a (Some l)"
    using assms(2) by (simp add: sum_subtractf)
  finally show ?thesis by (simp add: collateral_sum_def)
qed

lemma collateral_in_nonneg: "0 \<le> collateral_in a lo"
  by (simp add: collateral_in_def split: option.splits)

text \<open>The invariant depends on these parts of the state only.\<close>

lemma books_inv_cong:
  assumes "books_inv X self s"
    and "st_loan t = st_loan s" "st_loan_by_id t = st_loan_by_id s" "st_next_loan_id t = st_next_loan_id s"
    and "st_pool_state t = st_pool_state s" "st_supported_assets t = st_supported_assets s"
    and "st_insurance_fund t = st_insurance_fund s" "st_token t = st_token s" "world t = world s"
    and "st_admin t = st_admin s"
  shows "books_inv X self t"
  using assms
  by (simp add: books_inv_def loans_indexed_def pools_listed_def covered_def owed_def get_next_loan_id_def
      get_supported_assets_def)

text \<open>A step that keeps the index and moves at least as many tokens in as it adds to the debt.\<close>

lemma books_invI:
  assumes "books_inv X self s" and "loans_indexed t" and "pools_listed t"
    and "\<And>a. owed t a - owed s a \<le> token_held X a self (world t) - token_held X a self (world s)"
  shows "books_inv X self t"
proof -
  have "owed t a \<le> token_held X a self (world t)" for a
    using assms(4) [of a] assms(1) by (auto simp: books_inv_def covered_def dest: spec [of _ a])
  then show ?thesis using assms(2,3) by (simp add: books_inv_def covered_def)
qed

text \<open>The same for a step on one existing pool that leaves the loans and the insurance fund alone.\<close>

lemma books_inv_pool_step:
  assumes inv: "books_inv X self s" and p: "st_pool_state s a = Some p"
    and t: "st_loan t = st_loan s" "st_loan_by_id t = st_loan_by_id s" "st_next_loan_id t = st_next_loan_id s"
      "st_pool_state t = (st_pool_state s)(a \<mapsto> p')" "st_supported_assets t = st_supported_assets s"
      "st_insurance_fund t = st_insurance_fund s" "st_token t = st_token s" "st_admin t = st_admin s"
    and here: "pool_claim p' - pool_claim p \<le> token_held X a self (world t) - token_held X a self (world s)"
    and elsewhere: "\<And>b. b \<noteq> a \<Longrightarrow> token_held X b self (world s) \<le> token_held X b self (world t)"
  shows "books_inv X self t"
proof (rule books_invI [OF inv])
  show "loans_indexed t" using inv t by (simp add: books_inv_def loans_indexed_def get_next_loan_id_def)
  show "pools_listed t" using inv p t
    by (auto simp: books_inv_def pools_listed_def get_supported_assets_def)
  show "owed t b - owed s b \<le> token_held X b self (world t) - token_held X b self (world s)" for b
    using here elsewhere [of b] p t by (cases "b = a") (simp_all add: owed_def get_next_loan_id_def pools_owed_Some)
qed

section \<open>Opening and closing a loan\<close>

text \<open>The loan of a borrower, under the index.\<close>

lemma loans_indexedD:
  assumes "loans_indexed s" and "st_loan s u = Some l"
  shows "st_loan_by_id s (l_loan_id l) = Some l" and "l_borrower l = u" and "l_loan_id l < get_next_loan_id s"
  using assms by (auto simp: loans_indexed_def)

lemma loans_indexed_idD:
  "loans_indexed s \<Longrightarrow> st_loan_by_id s i = Some l \<Longrightarrow> l_loan_id l = i \<and> i < get_next_loan_id s"
  by (auto simp: loans_indexed_def)

lemma loans_indexedI:
  assumes "\<And>u l. st_loan s u = Some l \<Longrightarrow> st_loan_by_id s (l_loan_id l) = Some l \<and> l_borrower l = u"
    and "\<And>i l. st_loan_by_id s i = Some l \<Longrightarrow> l_loan_id l = i \<and> i < get_next_loan_id s"
  shows "loans_indexed s"
  using assms by (simp add: loans_indexed_def)

lemma loans_indexed_open:
  assumes "loans_indexed s" and "st_loan t = (st_loan s)(l_borrower l \<mapsto> l)"
    and "st_loan_by_id t = (st_loan_by_id s)(l_loan_id l \<mapsto> l)"
    and "l_loan_id l = get_next_loan_id s" and "st_next_loan_id t = Some (Suc (l_loan_id l))"
  shows "loans_indexed t"
proof (rule loans_indexedI)
  fix u k assume k: "st_loan t u = Some k"
  show "st_loan_by_id t (l_loan_id k) = Some k \<and> l_borrower k = u"
  proof (cases "u = l_borrower l")
    case False
    then have "st_loan s u = Some k" using k assms(2) by simp
    note * = loans_indexedD [OF assms(1) this]
    have "l_loan_id k \<noteq> l_loan_id l" using *(3) assms(4) by linarith
    then show ?thesis using *(1,2) unfolding assms(3) by simp
  qed (use k assms(2,3) in simp)
next
  fix i k assume "st_loan_by_id t i = Some k"
  then show "l_loan_id k = i \<and> i < get_next_loan_id t"
    using assms(3-5) loans_indexed_idD [OF assms(1), of i k]
    by (auto simp: get_next_loan_id_def [of t] split: if_splits)
qed

lemma loans_indexed_close:
  assumes "loans_indexed s" and "st_loan t = (st_loan s)(l_borrower l := None)"
    and "st_loan_by_id t = (st_loan_by_id s)(l_loan_id l := None)"
    and "st_loan_by_id s (l_loan_id l) = Some l" and "st_next_loan_id t = st_next_loan_id s"
  shows "loans_indexed t"
proof (rule loans_indexedI)
  fix u k assume k: "st_loan t u = Some k"
  then have u: "u \<noteq> l_borrower l" "st_loan s u = Some k" using assms(2) by (auto split: if_splits)
  note * = loans_indexedD [OF assms(1) u(2)]
  have "k \<noteq> l" using *(2) u(1) by blast
  then have "l_loan_id k \<noteq> l_loan_id l" using *(1) assms(4) by (metis option.inject)
  then show "st_loan_by_id t (l_loan_id k) = Some k \<and> l_borrower k = u" using *(1,2) unfolding assms(3) by simp
next
  fix i k assume "st_loan_by_id t i = Some k"
  then show "l_loan_id k = i \<and> i < get_next_loan_id t"
    using assms(3,5) loans_indexed_idD [OF assms(1), of i k]
    by (auto simp: get_next_loan_id_def split: if_splits)
qed

lemma pools_listed_upd:
  assumes "pools_listed s" and "st_pool_state s a = Some p"
    and "st_pool_state t = (st_pool_state s)(a \<mapsto> p')" and "st_supported_assets t = st_supported_assets s"
    and "st_admin t = st_admin s"
  shows "pools_listed t"
  using assms by (auto simp: pools_listed_def get_supported_assets_def)

text \<open>The parts of the state besides the loans that the books depend on, and the depositors' shares.\<close>

definition same_funds :: "'w lending_state \<Rightarrow> 'w lending_state \<Rightarrow> bool" where
  "same_funds s t \<longleftrightarrow> st_pool_state t = st_pool_state s \<and> st_supported_assets t = st_supported_assets s \<and>
     st_insurance_fund t = st_insurance_fund s \<and> st_token t = st_token s \<and> st_admin t = st_admin s \<and>
     st_shares t = st_shares s"

lemma same_funds_refl [simp]: "same_funds s s"
  by (simp add: same_funds_def)

lemma same_funds_trans [trans]: "same_funds s t \<Longrightarrow> same_funds t v \<Longrightarrow> same_funds s v"
  by (simp add: same_funds_def)

lemma pools_listed_same_funds: "same_funds s t \<Longrightarrow> pools_listed s \<Longrightarrow> pools_listed t"
  by (simp add: same_funds_def pools_listed_def get_supported_assets_def)

definition loan_collateral :: "'w lending_state \<Rightarrow> address \<Rightarrow> int" where
  "loan_collateral s a = collateral_sum (st_loan_by_id s) (get_next_loan_id s) a"

lemma owed_same_funds:
  "same_funds s t \<Longrightarrow> owed t a - owed s a = loan_collateral t a - loan_collateral s a"
  by (simp add: same_funds_def owed_def loan_collateral_def)

text \<open>The loans of a consolidation are stored under their ids, and their collateral adds up.\<close>

lemma consolidation_indexed:
  assumes "loans_indexed s" and "consolidation_of s u ids ls"
  shows "\<forall>l \<in> set ls. st_loan_by_id s (l_loan_id l) = Some l" and "map l_loan_id ls = ids"
proof -
  have eq: "map Some ls = map (st_loan_by_id s) ids" using assms(2) by (simp add: consolidation_of_def)
  have id: "map l_loan_id ls = ids \<and> (\<forall>l \<in> set ls. st_loan_by_id s (l_loan_id l) = Some l)"
    using eq
  proof (induction ls arbitrary: ids)
    case (Cons l ls)
    then obtain i js where ids: "ids = i # js" by (cases ids) auto
    then have "st_loan_by_id s i = Some l" using Cons.prems by auto
    moreover then have "l_loan_id l = i" using loans_indexed_idD [OF assms(1)] by blast
    ultimately show ?case using Cons ids by auto
  qed simp
  then show "\<forall>l \<in> set ls. st_loan_by_id s (l_loan_id l) = Some l" and "map l_loan_id ls = ids" by auto
qed

lemma consolidated_collateral:
  "\<forall>l \<in> set ls. l_collateral_token l = ct \<Longrightarrow>
   (\<Sum>l\<leftarrow>ls. collateral_in b (Some l)) = (if ct = b then int (sum_list (map l_collateral_amount ls)) else 0)"
  by (induction ls) (auto simp: collateral_in_def)

section \<open>The insurance fund\<close>

definition fund_balance :: "'w lending_state \<Rightarrow> int" where
  "fund_balance s = (case st_insurance_fund s of None \<Rightarrow> 0 | Some f \<Rightarrow> int (f_available_balance f))"

lemma fund_owed_balance:
  "fund_owed (st_token s) (st_insurance_fund s) a = (if st_token s = Some a then fund_balance s else 0)"
  by (simp add: fund_owed_def fund_balance_def)

text \<open>A step that touches only the insurance fund, and moves tokens of the primary token to match.\<close>

lemma books_inv_fund_step:
  assumes inv: "books_inv X self s"
    and t: "st_loan t = st_loan s" "st_loan_by_id t = st_loan_by_id s" "st_next_loan_id t = st_next_loan_id s"
      "st_pool_state t = st_pool_state s" "st_supported_assets t = st_supported_assets s"
      "st_token t = st_token s" "st_admin t = st_admin s"
    and here: "\<And>a. st_token s = Some a \<Longrightarrow>
      fund_balance t - fund_balance s \<le> token_held X a self (world t) - token_held X a self (world s)"
    and elsewhere: "\<And>b. st_token s \<noteq> Some b \<Longrightarrow> token_held X b self (world s) \<le> token_held X b self (world t)"
  shows "books_inv X self t"
proof (rule books_invI [OF inv])
  show "loans_indexed t" using inv t by (simp add: books_inv_def loans_indexed_def get_next_loan_id_def)
  show "pools_listed t" using inv t by (simp add: books_inv_def pools_listed_def get_supported_assets_def)
  show "owed t b - owed s b \<le> token_held X b self (world t) - token_held X b self (world s)" for b
    using here [of b] elsewhere [of b] t
    by (cases "st_token s = Some b") (simp_all add: owed_def get_next_loan_id_def fund_owed_balance [symmetric]
        fund_owed_def fund_balance_def)
qed

lemma init_fund_eqs [simp]:
  "fund_balance (init_insurance_fund_if_needed s) = fund_balance s"
  "st_token (init_insurance_fund_if_needed s) = st_token s"
  "world (init_insurance_fund_if_needed s) = world s"
  "st_loan (init_insurance_fund_if_needed s) = st_loan s"
  "st_loan_by_id (init_insurance_fund_if_needed s) = st_loan_by_id s"
  "st_next_loan_id (init_insurance_fund_if_needed s) = st_next_loan_id s"
  "st_pool_state (init_insurance_fund_if_needed s) = st_pool_state s"
  "st_supported_assets (init_insurance_fund_if_needed s) = st_supported_assets s"
  "st_admin (init_insurance_fund_if_needed s) = st_admin s"
  by (simp_all add: init_insurance_fund_if_needed_def fund_balance_def empty_fund_def Let_def)

lemma init_fund_Some: "\<exists>f. st_insurance_fund (init_insurance_fund_if_needed s) = Some f"
  by (cases "st_insurance_fund s") (simp_all add: init_insurance_fund_if_needed_def Let_def)

end
