(* ===== verification/Lending_Solvency.thy ===== *)
theory Lending_Solvency
  imports Lending_Books
begin

text \<open>
  Solvency: every call of the contract that moves tokens or changes its debts keeps the contract
  able to pay what it owes, except the few calls the last section names. The proofs use only the
  interface \<open>lending_env\<close>: tokens keep a ledger, and no other contract can spend the
  contract's tokens.
\<close>

section \<open>The interface to the other contracts\<close>

text \<open>A context of the contract: it runs at its own address, which authorizes no call of its own entry points.\<close>

definition at_self :: "address \<Rightarrow> ctx \<Rightarrow> bool" where
  "at_self self cx \<longleftrightarrow> current_contract_address cx = self \<and> \<not> authorized cx self"

locale lending_env = token_ledger X for X :: "'w externals" +
  fixes self :: address
  assumes nft_mint_held: "call_nft_mint X nft u md w = Some w' \<Longrightarrow> token_held X tk self w' = token_held X tk self w"
    and nft_burn_held: "call_nft_burn X nft i w = Some w' \<Longrightarrow> token_held X tk self w' = token_held X tk self w"
    and receiver_held: "call_execute_operation X rc n fee u w = Some w' \<Longrightarrow> token_held X tk self w \<le> token_held X tk self w'"
begin

lemma minted_held: "minted X l nft w w' \<Longrightarrow> token_held X tk self w' = token_held X tk self w"
  by (auto simp: minted_def dest: nft_mint_held split: option.splits)

lemma burned_held: "burned X i nft w w' \<Longrightarrow> token_held X tk self w' = token_held X tk self w"
  by (auto simp: burned_def dest: nft_burn_held split: option.splits)

lemma at_selfD: "at_self self cx \<Longrightarrow> authorized cx u \<Longrightarrow> u \<noteq> self \<and> self \<noteq> u"
  by (auto simp: at_self_def)

section \<open>Deposits, withdrawals, flash loans\<close>

lemma books_deposit:
  assumes "books_inv X self s" and "at_self self cx" and "deposit X cx u a n s = Ok (r, t)"
  shows "books_inv X self t"
proof -
  from deposit_OkD [OF assms(3)] obtain p w where
    *: "authorized cx u" "st_pool_state s a = Some p"
      "tok_transfer X a u (current_contract_address cx) (int n) (world s) = Some w"
    and t: "t = s\<lparr>world := w, st_pool_state := (st_pool_state s)(a \<mapsto> p\<lparr>p_total_deposits := p_total_deposits p + n,
           p_total_shares := p_total_shares p + locked_liquidity p + r\<rparr>),
           st_shares := (st_shares s)((u, a) \<mapsto> get_shares s a u + r),
           st_deposit_ledger := (st_deposit_ledger s)((u, a) \<mapsto> sequence cx),
           lending_events := lending_events s @ [DepositEvent u a n r], reentrancy_lock := None\<rparr>"
    by blast
  have "u \<noteq> self" using at_selfD assms(2) *(1) by blast
  with *(3) assms(2) have h: "token_held X b self w = token_held X b self (world s) + (if b = a then int n else 0)" for b
    by (intro held_after_incoming) (auto simp: at_self_def)
  show ?thesis by (rule books_inv_pool_step [OF assms(1) *(2)]) (simp add: t h)+
qed

lemma books_withdraw:
  assumes "books_inv X self s" and "at_self self cx" and "withdraw X cx u a n s = Ok (r, t)"
  shows "books_inv X self t"
proof -
  from withdraw_OkD [OF assms(3)] obtain p w where
    *: "authorized cx u" "st_pool_state s a = Some p" "r \<le> p_total_deposits p - p_total_borrowed p"
      "tok_transfer X a (current_contract_address cx) u (int r) (world s) = Some w"
    and t: "t = s\<lparr>world := w, st_pool_state := (st_pool_state s)(a \<mapsto> p\<lparr>p_total_deposits := p_total_deposits p - r,
           p_total_shares := p_total_shares p - n\<rparr>),
           st_shares := (st_shares s)((u, a) \<mapsto> get_shares s a u - n),
           lending_events := lending_events s @ [WithdrawEvent u a n r], reentrancy_lock := None\<rparr>"
    by blast
  have "self \<noteq> u" using at_selfD assms(2) *(1) by blast
  with *(4) assms(2) have h: "token_held X b self w = token_held X b self (world s) - (if b = a then int r else 0)" for b
    by (intro held_after_outgoing) (auto simp: at_self_def)
  have "int (p_total_deposits p - r) = int (p_total_deposits p) - int r" using *(3) by simp
  then show ?thesis by (intro books_inv_pool_step [OF assms(1) *(2)]) (simp add: t h)+
qed

lemma books_withdraw_priority:
  assumes "books_inv X self s" and "at_self self cx" and "withdraw_priority X cx u a n s = Ok (r, t)"
  shows "books_inv X self t"
proof -
  from withdraw_priority_OkD [OF assms(3)] obtain p w where
    *: "authorized cx u" "st_pool_state s a = Some p" "n \<le> p_retained_yield p"
      "tok_transfer X a (current_contract_address cx) u (int n) (world s) = Some w"
    and t: "t = s\<lparr>world := w, st_pool_state := (st_pool_state s)(a \<mapsto> p\<lparr>p_retained_yield := p_retained_yield p - n\<rparr>),
           lending_events := lending_events s @ [PriorityWithdrawEvent u a n], reentrancy_lock := None\<rparr>"
    by blast
  have "self \<noteq> u" using at_selfD assms(2) *(1) by blast
  with *(4) assms(2) have h: "token_held X b self w = token_held X b self (world s) - (if b = a then int n else 0)" for b
    by (intro held_after_outgoing) (auto simp: at_self_def)
  show ?thesis using *(3) by (intro books_inv_pool_step [OF assms(1) *(2)]) (simp add: t h)+
qed

lemma books_flash_loan:
  assumes "books_inv X self s" and "at_self self cx" and "flash_loan X cx u rc a n s = Ok t"
  shows "books_inv X self t"
proof -
  from flash_loan_OkD [OF assms(3)] obtain p w1 w2 b0 b1 where
    *: "st_pool_state s a = Some p"
      "tok_balance X a (current_contract_address cx) (world s) = Some b0"
      "tok_transfer X a (current_contract_address cx) rc (int n) (world s) = Some w1"
      "call_execute_operation X rc n (flash_fee s n) u w1 = Some w2"
      "tok_balance X a (current_contract_address cx) w2 = Some b1" "b0 + int (flash_fee s n) \<le> b1"
    and t: "t = s\<lparr>world := w2, st_pool_state := (st_pool_state s)(a \<mapsto> p\<lparr>p_total_deposits := p_total_deposits p + flash_fee s n\<rparr>),
          lending_events := lending_events s @ [FlashLoanEvent rc a n (flash_fee s n)], reentrancy_lock := None\<rparr>"
    by blast
  have a: "token_held X a self (world s) + int (flash_fee s n) \<le> token_held X a self w2"
    using * assms(2) by (simp add: token_held_def at_self_def)
  have other: "token_held X b self (world s) \<le> token_held X b self w2" if "b \<noteq> a" for b
    using transfer_frame [OF *(3), of b self] receiver_held [OF *(4), of b] that by simp
  show ?thesis
    using a other by (intro books_inv_pool_step [OF assms(1) *(1)]) (simp add: t)+
qed

section \<open>Borrowing and repaying\<close>

lemma books_borrow:
  assumes "books_inv X self s" and "at_self self cx" and "borrow X cx u a n c ca d s = Ok (i, t)"
  shows "books_inv X self t"
proof -
  from borrow_OkD [OF assms(3)] obtain p w1 w2 w3 where
    *: "authorized cx u" "st_pool_state s a = Some p" "i = get_next_loan_id s"
      "tok_transfer X c u (current_contract_address cx) (int ca) (world s) = Some w1"
      "minted X (opened_loan cx s p u a n c ca d) (st_nft_token s) w1 w2"
      "tok_transfer X a (current_contract_address cx) u (int n) w2 = Some w3"
    and t: "t = s\<lparr>st_reserve := reserve_after_borrow c ca n (st_reserve s),
          st_pool_state := (st_pool_state s)(a \<mapsto> p\<lparr>p_total_borrowed := p_total_borrowed p + n\<rparr>),
          st_next_loan_id := Some (i + 1),
          st_loan := (st_loan s)(u \<mapsto> opened_loan cx s p u a n c ca d),
          st_loan_by_id := (st_loan_by_id s)(i \<mapsto> opened_loan cx s p u a n c ca d),
          st_user_loans := (st_user_loans s)(u \<mapsto> [i]), world := w3,
          lending_events := lending_events s @ [BorrowEvent i u a n ca (timestamp cx + d),
            CollateralDepositEvent i u c ca], reentrancy_lock := None\<rparr>"
    by blast
  have self: "u \<noteq> self" "current_contract_address cx = self"
    using at_selfD [OF assms(2) *(1)] assms(2) by (auto simp: at_self_def)
  have h: "token_held X b self w3 =
      token_held X b self (world s) + (if b = c then int ca else 0) - (if b = a then int n else 0)" for b
    using held_after_incoming [OF *(4), of b] minted_held [OF *(5), of b] held_after_outgoing [OF *(6), of b] self
    by simp
  have inv: "loans_indexed s" "pools_listed s" using assms(1) by (auto simp: books_inv_def)
  show ?thesis
  proof (rule books_invI [OF assms(1)])
    show "loans_indexed t"
      by (rule loans_indexed_open [OF inv(1), of _ "opened_loan cx s p u a n c ca d"])
         (simp_all add: t *(3) opened_loan_def)
    show "pools_listed t" by (rule pools_listed_upd [OF inv(2) *(2)]) (simp add: t)+
    show "owed t b - owed s b \<le> token_held X b self (world t) - token_held X b self (world s)" for b
      using *(2) by (simp add: t h owed_def get_next_loan_id_def *(3) pools_owed_Some)
        (simp add: collateral_in_def opened_loan_def pools_owed_Some)
  qed
qed

lemma books_repay:
  assumes "books_inv X self s" and "at_self self cx" and "repay X cx u s = Ok (r, t)"
  shows "books_inv X self t"
proof -
  from repay_OkD [OF assms(3)] obtain l p p' late w1 w2 w3 ge where
    *: "authorized cx u" "st_loan s u = Some l" "st_pool_state s (l_asset l) = Some p"
      "settle_repayment l (loan_interest cx l) late p = Ok p'"
      "r = l_principal l + loan_interest cx l + late"
      "tok_transfer X (l_asset l) u (current_contract_address cx) (int r) (world s) = Some w1"
      "tok_transfer X (l_collateral_token l) (current_contract_address cx) u (int (l_collateral_amount l)) w1 = Some w2"
      "burned X (l_loan_id l) (st_nft_token s) w2 w3"
    and t: "t = s\<lparr>st_reserve := reserve_after_repay l (st_reserve s),
          st_pool_state := (st_pool_state s)(l_asset l \<mapsto> p'),
          st_loan := (st_loan s)(u := None),
          st_loan_by_id := (st_loan_by_id s)(l_loan_id l := None),
          st_user_loans := user_loans_without (st_user_loans s) u (l_loan_id l),
          st_late_fees_accrued := (st_late_fees_accrued s)(l_loan_id l := None),
          world := w3,
          lending_events := lending_events s @ late_fee_events cx l u late ge r @
            [RepayEvent (l_loan_id l) u (l_asset l) (l_principal l) (loan_interest cx l) r
              (l_collateral_amount l)],
          reentrancy_lock := None\<rparr>"
    by blast
  have self: "u \<noteq> self" "current_contract_address cx = self"
    using at_selfD [OF assms(2) *(1)] assms(2) by (auto simp: at_self_def)
  have h: "token_held X b self w3 = token_held X b self (world s) + (if b = l_asset l then int r else 0)
      - (if b = l_collateral_token l then int (l_collateral_amount l) else 0)" for b
    using held_after_incoming [OF *(6), of b] held_after_outgoing [OF *(7), of b] burned_held [OF *(8), of b] self
    by simp
  have inv: "loans_indexed s" "pools_listed s" using assms(1) by (auto simp: books_inv_def)
  note l = loans_indexedD [OF inv(1) *(2)]
  have claim: "pool_claim p' = pool_claim p + int r" using pool_claim_settled [OF *(4)] *(5) by simp
  show ?thesis
  proof (rule books_invI [OF assms(1)])
    show "loans_indexed t"
      by (rule loans_indexed_close [OF inv(1), of _ l]) (simp_all add: t l)
    show "pools_listed t" by (rule pools_listed_upd [OF inv(2) *(3)]) (simp add: t)+
    show "owed t b - owed s b \<le> token_held X b self (world t) - token_held X b self (world s)" for b
      using *(3) collateral_sum_close [of "st_loan_by_id s", OF l(1,3), of b] claim
      by (cases "b = l_asset l")
        (simp_all add: t h owed_def get_next_loan_id_def pools_owed_Some collateral_in_def)
  qed
qed

section \<open>Refinancing, consolidating, splitting\<close>

lemma books_refinance:
  assumes "books_inv X self s" and "at_self self cx" and "refinance_loan X cx u d s = Ok (i, t)"
  shows "books_inv X self t"
proof -
  from refinance_loan_OkD [OF assms(3)] obtain l p p' tm w1 w2 w3 evs where
    *: "authorized cx u" "st_loan s u = Some l" "get_refinance_terms cx u d s = Ok tm"
      "st_pool_state s (l_asset l) = Some p" "i = get_next_loan_id s"
      "tok_transfer X (l_asset l) u (current_contract_address cx) (int (rt_refinancing_fee tm)) (world s) = Some w1"
      "burned X (l_loan_id l) (st_nft_token s) w1 w2"
      "minted X (refinanced_loan cx i u l tm) (st_nft_token s) w2 w3"
      "rebook_principal (l_principal l) (rt_new_principal tm)
        (p\<lparr>p_retained_yield := p_retained_yield p + rt_refinancing_fee tm\<rparr>) = Ok p'"
    and t: "t = s\<lparr>st_next_loan_id := Some (i + 1),
          st_loan := (st_loan s)(u \<mapsto> refinanced_loan cx i u l tm),
          st_loan_by_id := (st_loan_by_id s)(l_loan_id l := None, i \<mapsto> refinanced_loan cx i u l tm),
          st_user_loans := (user_loans_without (st_user_loans s) u (l_loan_id l))(u \<mapsto>
            unwrap_or [] (user_loans_without (st_user_loans s) u (l_loan_id l) u) @ [i]), world := w3,
          st_pool_state := (st_pool_state s)(l_asset l \<mapsto> p'),
          lending_events := evs, reentrancy_lock := None\<rparr>"
    by blast
  have self: "u \<noteq> self" "current_contract_address cx = self"
    using at_selfD [OF assms(2) *(1)] assms(2) by (auto simp: at_self_def)
  have h: "token_held X b self w3 =
      token_held X b self (world s) + (if b = l_asset l then int (rt_refinancing_fee tm) else 0)" for b
    using held_after_incoming [OF *(6), of b] burned_held [OF *(7), of b] minted_held [OF *(8), of b] self by simp
  have inv: "loans_indexed s" "pools_listed s" using assms(1) by (auto simp: books_inv_def)
  note l = loans_indexedD [OF inv(1) *(2)]
  have "l_principal l \<le> rt_new_principal tm" using get_refinance_terms_OkD [OF *(3,2)] by simp
  from rebook_principal_OkD [OF *(9) this]
  have claim: "pool_claim p' \<le> pool_claim p + int (rt_refinancing_fee tm)" by simp
  let ?s1 = "s\<lparr>st_loan := (st_loan s)(u := None), st_loan_by_id := (st_loan_by_id s)(l_loan_id l := None)\<rparr>"
  have idx1: "loans_indexed ?s1"
    by (rule loans_indexed_close [OF inv(1), of _ l]) (simp_all add: l)
  show ?thesis
  proof (rule books_invI [OF assms(1)])
    show "loans_indexed t"
      by (rule loans_indexed_open [OF idx1, of _ "refinanced_loan cx i u l tm"])
         (simp_all add: t *(5) refinanced_loan_def get_next_loan_id_def)
    show "pools_listed t" by (rule pools_listed_upd [OF inv(2) *(4)]) (simp add: t)+
    show "owed t b - owed s b \<le> token_held X b self (world t) - token_held X b self (world s)" for b
      using *(4) collateral_sum_close [of "st_loan_by_id s", OF l(1,3), of b] claim
      by (cases "b = l_asset l")
        (simp_all add: t h owed_def get_next_loan_id_def pools_owed_Some *(5) collateral_in_def refinanced_loan_def)
  qed
qed

lemma retire_loop_books:
  assumes "fold_outcome (retire_loan X u) ls s = Ok t" and "loans_indexed s"
    and "\<forall>l \<in> set ls. st_loan_by_id s (l_loan_id l) = Some l" and "distinct (map l_loan_id ls)"
  shows "loans_indexed t \<and> same_funds s t \<and> st_next_loan_id t = st_next_loan_id s \<and>
    (\<forall>b. token_held X b self (world t) = token_held X b self (world s)) \<and>
    (\<forall>b. loan_collateral t b = loan_collateral s b - (\<Sum>l\<leftarrow>ls. collateral_in b (Some l)))"
  using assms
proof (induction ls arbitrary: s)
  case Nil
  then show ?case by simp
next
  case (Cons l ls)
  from Cons.prems(1) obtain s1 where 1: "retire_loan X u l s = Ok s1"
    and 2: "fold_outcome (retire_loan X u) ls s1 = Ok t" by auto
  from retire_loan_OkD [OF 1] obtain w where w: "burned X (l_loan_id l) (st_nft_token s) (world s) w"
    and s1: "s1 = s\<lparr>st_loan := (st_loan s)(l_borrower l := None),
          st_loan_by_id := (st_loan_by_id s)(l_loan_id l := None),
          st_user_loans := user_loans_without (st_user_loans s) u (l_loan_id l), world := w\<rparr>" by blast
  have l: "st_loan_by_id s (l_loan_id l) = Some l" using Cons.prems(3) by simp
  have lt: "l_loan_id l < get_next_loan_id s" using loans_indexed_idD [OF Cons.prems(2) l] by simp
  have idx: "loans_indexed s1" by (rule loans_indexed_close [OF Cons.prems(2), of _ l]) (simp_all add: s1 l)
  have rest: "\<forall>k \<in> set ls. st_loan_by_id s1 (l_loan_id k) = Some k"
  proof
    fix k assume k: "k \<in> set ls"
    then have "l_loan_id k \<noteq> l_loan_id l" using Cons.prems(4) by (metis distinct.simps(2) image_eqI list.map(2) list.set_map)
    then show "st_loan_by_id s1 (l_loan_id k) = Some k" using Cons.prems(3) k by (simp add: s1)
  qed
  have dist: "distinct (map l_loan_id ls)" using Cons.prems(4) by simp
  have step: "same_funds s s1" "st_next_loan_id s1 = st_next_loan_id s"
    "token_held X b self (world s1) = token_held X b self (world s)"
    "loan_collateral s1 b = loan_collateral s b - collateral_in b (Some l)" for b
    using burned_held [OF w, of b] collateral_sum_close [of "st_loan_by_id s", OF l lt, of b]
    by (simp_all add: s1 same_funds_def loan_collateral_def get_next_loan_id_def)
  show ?case
    using Cons.IH [OF 2 idx rest dist] step same_funds_trans [OF step(1)] by auto
qed

lemma books_consolidate:
  assumes "books_inv X self s" and "at_self self cx" and "consolidate_loans X cx u ids d s = Ok (i, t)"
    and "distinct ids"
  shows "books_inv X self t"
proof -
  from consolidate_loans_OkD [OF assms(3)] obtain acc a ct fee w1 s2 p w3 rate evs where
    *: "authorized cx u" "fold_outcome (consolidate_one cx u s) ids consolidation_start = Ok acc"
      "c_asset acc = Some a" "c_collateral_token acc = Some ct"
      "tok_transfer X a u (current_contract_address cx) (int fee) (world s) = Some w1"
      "fold_outcome (retire_loan X u) (c_old_loans acc) (s\<lparr>reentrancy_lock := Some True, world := w1\<rparr>) = Ok s2"
      "i = get_next_loan_id s2" "st_pool_state s2 a = Some p"
      "minted X (consolidated_loan cx i u a (c_total_outstanding acc + fee) (c_total_collateral acc) ct
        (timestamp cx + d) rate) (st_nft_token s2) (world s2) w3"
    and t: "t = s2\<lparr>st_next_loan_id := Some (i + 1),
          st_loan := (st_loan s2)(u \<mapsto> consolidated_loan cx i u a (c_total_outstanding acc + fee)
            (c_total_collateral acc) ct (timestamp cx + d) rate),
          st_loan_by_id := (st_loan_by_id s2)(i \<mapsto> consolidated_loan cx i u a (c_total_outstanding acc + fee)
            (c_total_collateral acc) ct (timestamp cx + d) rate),
          st_user_loans := (st_user_loans s2)(u \<mapsto> get_user_loans s2 u @ [i]), world := w3,
          st_pool_state := (st_pool_state s2)(a \<mapsto> p\<lparr>p_retained_yield := p_retained_yield p + fee\<rparr>),
          lending_events := evs, reentrancy_lock := None\<rparr>"
    by blast
  let ?s1 = "s\<lparr>reentrancy_lock := Some True, world := w1\<rparr>"
  let ?nl = "consolidated_loan cx i u a (c_total_outstanding acc + fee) (c_total_collateral acc) ct
        (timestamp cx + d) rate"
  have self: "u \<noteq> self" "current_contract_address cx = self"
    using at_selfD [OF assms(2) *(1)] assms(2) by (auto simp: at_self_def)
  have inv: "loans_indexed s" "pools_listed s" using assms(1) by (auto simp: books_inv_def)
  from consolidate_loop_OkD [OF *(2)] obtain ls where
    ls: "consolidation_of s u ids ls" "c_old_loans acc = ls"
      "c_total_collateral acc = sum_list (map l_collateral_amount ls)"
      "\<forall>l \<in> set ls. c_collateral_token acc = Some (l_collateral_token l)"
    by (auto simp: consolidation_start_def)
  have stored: "\<forall>l \<in> set ls. st_loan_by_id s (l_loan_id l) = Some l" and ids: "map l_loan_id ls = ids"
    using consolidation_indexed [OF inv(1) ls(1)] by auto
  have sum: "(\<Sum>l\<leftarrow>ls. collateral_in b (Some l)) = collateral_in b (Some ?nl)" for b
    using ls(3,4) *(4) consolidated_collateral [of ls ct b] by (simp add: collateral_in_def consolidated_loan_def)
  have idx1: "loans_indexed ?s1" using inv(1) by (simp add: loans_indexed_def get_next_loan_id_def)
  have loop: "loans_indexed s2" "same_funds ?s1 s2" "st_next_loan_id s2 = st_next_loan_id s"
    "token_held X b self (world s2) = token_held X b self w1"
    "loan_collateral s2 b = loan_collateral ?s1 b - (\<Sum>l\<leftarrow>ls. collateral_in b (Some l))" for b
    using retire_loop_books [OF *(6) idx1] stored ids assms(4) ls(2) by auto
  have funds: "same_funds s s2" using loop(2) by (simp add: same_funds_def)
  have h: "token_held X b self w3 = token_held X b self (world s) + (if b = a then int fee else 0)" for b
    using held_after_incoming [OF *(5), of b] loop(4) [of b] minted_held [OF *(9), of b] self by simp
  show ?thesis
  proof (rule books_invI [OF assms(1)])
    show "loans_indexed t"
      by (rule loans_indexed_open [OF loop(1), of _ ?nl]) (simp_all add: t *(7) consolidated_loan_def)
    show "pools_listed t"
      by (rule pools_listed_upd [OF pools_listed_same_funds [OF funds inv(2)] *(8)]) (simp add: t)+
    have coll: "loan_collateral t b = loan_collateral s b" for b
      using loop(5) [of b] sum [of b] by (simp add: t loan_collateral_def get_next_loan_id_def *(7))
    show "owed t b - owed s b \<le> token_held X b self (world t) - token_held X b self (world s)" for b
      using funds coll [of b] *(8)
      by (cases "b = a") (simp_all add: t h owed_def same_funds_def loan_collateral_def pools_owed_Some)
  qed
qed

lemma split_loop_books:
  assumes "fold_outcome (split_one X cx u l tot due rate) ns (ids, s) = Ok (ids', t)" and "loans_indexed s"
  shows "loans_indexed t \<and> same_funds s t \<and>
    (\<forall>b. token_held X b self (world t) = token_held X b self (world s)) \<and>
    (\<forall>b. loan_collateral t b = loan_collateral s b +
      (if l_collateral_token l = b then int (\<Sum>n\<leftarrow>ns. split_collateral l tot n) else 0))"
  using assms
proof (induction ns arbitrary: ids s)
  case Nil
  then show ?case by simp
next
  case (Cons n ns)
  from Cons.prems(1) obtain ids1 s1 where 1: "split_one X cx u l tot due rate n (ids, s) = Ok (ids1, s1)"
    and 2: "fold_outcome (split_one X cx u l tot due rate) ns (ids1, s1) = Ok (ids', t)" by auto
  from split_one_OkD [OF 1] obtain i w where i: "i = get_next_loan_id s"
    and w: "minted X (split_part cx i u l tot due rate n) (st_nft_token s) (world s) w"
    and s1: "s1 = s\<lparr>st_next_loan_id := Some (Suc i),
          st_loan := (st_loan s)(u \<mapsto> split_part cx i u l tot due rate n),
          st_loan_by_id := (st_loan_by_id s)(i \<mapsto> split_part cx i u l tot due rate n),
          st_user_loans := (st_user_loans s)(u \<mapsto> get_user_loans s u @ [i]), world := w\<rparr>" by blast
  have idx: "loans_indexed s1"
    by (rule loans_indexed_open [OF Cons.prems(2), of _ "split_part cx i u l tot due rate n"])
       (simp_all add: s1 i split_part_def)
  have step: "same_funds s s1"
    "token_held X b self (world s1) = token_held X b self (world s)"
    "loan_collateral s1 b = loan_collateral s b +
      (if l_collateral_token l = b then int (split_collateral l tot n) else 0)" for b
    using minted_held [OF w, of b]
    by (simp_all add: s1 i same_funds_def loan_collateral_def get_next_loan_id_def collateral_in_def split_part_def)
  show ?case using Cons.IH [OF 2 idx] step same_funds_trans [OF step(1)] by auto
qed

lemma books_split:
  assumes "books_inv X self s" and "at_self self cx" and "split_loan X cx u ns d s = Ok (ids, t)"
  shows "books_inv X self t"
proof -
  from split_loan_OkD [OF assms(3)] obtain l tot fee w1 w2 rate s2 p evs where
    *: "authorized cx u" "st_loan s u = Some l" "sum_u64 ns = Ok tot"
      "tok_transfer X (l_asset l) u (current_contract_address cx) (int fee) (world s) = Some w1"
      "burned X (l_loan_id l) (st_nft_token s) w1 w2"
      "fold_outcome (split_one X cx u l tot (timestamp cx + d) rate) ns ([], s\<lparr>reentrancy_lock := Some True,
        st_loan := (st_loan s)(u := None), st_loan_by_id := (st_loan_by_id s)(l_loan_id l := None),
        st_user_loans := user_loans_without (st_user_loans s) u (l_loan_id l), world := w2\<rparr>) = Ok (ids, s2)"
      "st_pool_state s2 (l_asset l) = Some p"
    and t: "t = s2\<lparr>st_pool_state := (st_pool_state s2)(l_asset l \<mapsto> p\<lparr>p_retained_yield := p_retained_yield p + fee\<rparr>),
          lending_events := evs, reentrancy_lock := None\<rparr>"
    by blast
  let ?s1 = "s\<lparr>reentrancy_lock := Some True,
        st_loan := (st_loan s)(u := None), st_loan_by_id := (st_loan_by_id s)(l_loan_id l := None),
        st_user_loans := user_loans_without (st_user_loans s) u (l_loan_id l), world := w2\<rparr>"
  have self: "u \<noteq> self" "current_contract_address cx = self"
    using at_selfD [OF assms(2) *(1)] assms(2) by (auto simp: at_self_def)
  have inv: "loans_indexed s" "pools_listed s" using assms(1) by (auto simp: books_inv_def)
  note l = loans_indexedD [OF inv(1) *(2)]
  have idx1: "loans_indexed ?s1" by (rule loans_indexed_close [OF inv(1), of _ l]) (simp_all add: l)
  have loop: "loans_indexed s2" "same_funds ?s1 s2"
    "token_held X b self (world s2) = token_held X b self w2"
    "loan_collateral s2 b = loan_collateral ?s1 b +
      (if l_collateral_token l = b then int (\<Sum>n\<leftarrow>ns. split_collateral l tot n) else 0)" for b
    using split_loop_books [OF *(6) idx1] by auto
  have funds: "same_funds s s2" using loop(2) by (simp add: same_funds_def)
  have h: "token_held X b self (world s2) = token_held X b self (world s) + (if b = l_asset l then int fee else 0)" for b
    using held_after_incoming [OF *(4), of b] burned_held [OF *(5), of b] loop(3) [of b] self by simp
  have parts: "(\<Sum>n\<leftarrow>ns. split_collateral l tot n) \<le> l_collateral_amount l"
    using sum_u64_eq_Ok [OF *(3)] by (intro split_collateral_sum) simp
  have coll: "loan_collateral s2 b \<le> loan_collateral s b" for b
    using loop(4) [of b] collateral_sum_close [of "st_loan_by_id s", OF l(1,3), of b] parts
    by (simp add: loan_collateral_def get_next_loan_id_def collateral_in_def)
  show ?thesis
  proof (rule books_invI [OF assms(1)])
    show "loans_indexed t" using loop(1) by (simp add: t loans_indexed_def get_next_loan_id_def)
    show "pools_listed t"
      by (rule pools_listed_upd [OF pools_listed_same_funds [OF funds inv(2)] *(7)]) (simp add: t)+
    have t_coll: "loan_collateral t b = loan_collateral s2 b" for b
      by (simp add: t loan_collateral_def get_next_loan_id_def)
    show "owed t b - owed s b \<le> token_held X b self (world t) - token_held X b self (world s)" for b
      using funds coll [of b] t_coll [of b] *(7)
      by (cases "b = l_asset l")
        (simp_all add: t h owed_def same_funds_def loan_collateral_def pools_owed_Some get_next_loan_id_def)
  qed
qed

section \<open>Reserves\<close>

lemma books_withdraw_reserves:
  assumes "books_inv X self s" and "at_self self cx" and "withdraw_reserves X cx u a n s = Ok t"
  shows "books_inv X self t"
proof -
  from assms(3) obtain p w where
    *: "authorized cx u" "st_pool_state s a = Some p" "n \<le> p_bad_debt_reserve p"
      "tok_transfer X a (current_contract_address cx) u (int n) (world s) = Some w"
    and t: "t = s\<lparr>st_pool_state := (st_pool_state s)(a \<mapsto> p\<lparr>p_bad_debt_reserve := p_bad_debt_reserve p - n\<rparr>), world := w\<rparr>"
    by (auto simp: withdraw_reserves_def require_stored_admin_def set_pool_def Let_def)
  have "self \<noteq> u" using at_selfD assms(2) *(1) by blast
  with *(4) assms(2) have h: "token_held X b self w = token_held X b self (world s) - (if b = a then int n else 0)" for b
    by (intro held_after_outgoing) (auto simp: at_self_def)
  show ?thesis using *(3) by (intro books_inv_pool_step [OF assms(1) *(2)]) (simp add: t h)+
qed

lemma books_allocate_reserves:
  assumes "books_inv X self s" and "at_self self cx" and "allocate_reserves X cx u a n f s = Ok t" and "f \<noteq> self"
  shows "books_inv X self t"
proof -
  from assms(3) obtain p w where
    *: "st_pool_state s a = Some p" "n \<le> p_bad_debt_reserve p"
      "tok_transfer X a (current_contract_address cx) f (int n) (world s) = Some w"
    and t: "t = s\<lparr>st_pool_state := (st_pool_state s)(a \<mapsto> p\<lparr>p_bad_debt_reserve := p_bad_debt_reserve p - n\<rparr>), world := w\<rparr>"
    by (auto simp: allocate_reserves_def set_pool_def Let_def)
  from *(3) assms(2,4) have h: "token_held X b self w = token_held X b self (world s) - (if b = a then int n else 0)" for b
    by (intro held_after_outgoing) (auto simp: at_self_def)
  show ?thesis using *(2) by (intro books_inv_pool_step [OF assms(1) *(1)]) (simp add: t h)+
qed

lemma books_replenish:
  assumes "books_inv X self s" and "at_self self cx" and "replenish_bad_debt_reserve X cx u a n s = Ok (r, t)"
  shows "books_inv X self t"
proof -
  from assms(3) obtain p w where
    *: "authorized cx u" "st_pool_state s a = Some p"
      "tok_transfer X a u (current_contract_address cx) (int n) (world s) = Some w"
    and t: "t = s\<lparr>world := w, st_pool_state := (st_pool_state s)(a \<mapsto> p\<lparr>p_bad_debt_reserve := saturating_add_u64 (p_bad_debt_reserve p) n\<rparr>),
        lending_events := lending_events s @ [BadDebtReserveReplenishedEvent a n (saturating_add_u64 (p_bad_debt_reserve p) n)]\<rparr>"
    by (auto simp: replenish_bad_debt_reserve_def accessors Let_def)
  have "u \<noteq> self" using at_selfD assms(2) *(1) by blast
  with *(3) assms(2) have h: "token_held X b self w = token_held X b self (world s) + (if b = a then int n else 0)" for b
    by (intro held_after_incoming) (auto simp: at_self_def)
  have "saturating_add_u64 (p_bad_debt_reserve p) n \<le> p_bad_debt_reserve p + n"
    by (simp add: saturating_add_u64_def)
  then have "int (saturating_add_u64 (p_bad_debt_reserve p) n) \<le> int (p_bad_debt_reserve p) + int n" by linarith
  then show ?thesis by (intro books_inv_pool_step [OF assms(1) *(2)]) (simp add: t h)+
qed

text \<open>
  Writing off a loan is covered when the collateral is in the loan's own asset: the collateral,
  and the reserve for what it does not cover, replace the outstanding balance.
\<close>

lemma books_liquidate_bad_debt:
  assumes "books_inv X self s" and "liquidate_bad_debt cx ad u s = Ok (r, t)"
    and "\<And>l. st_loan s u = Some l \<Longrightarrow> l_collateral_token l = l_asset l"
  shows "books_inv X self t"
proof -
  from liquidate_bad_debt_OkD [OF assms(2)] obtain l p owe ev where
    *: "st_loan s u = Some l" "st_pool_state s (l_asset l) = Some p" "l_principal l \<le> owe"
      "owe - l_collateral_amount l \<le> p_bad_debt_reserve p"
    and t: "t = s\<lparr>st_pool_state := (st_pool_state s)(l_asset l \<mapsto> p\<lparr>
            p_bad_debt_reserve := p_bad_debt_reserve p - (owe - l_collateral_amount l),
            p_total_borrowed := p_total_borrowed p - l_principal l\<rparr>),
          st_loan := (st_loan s)(u := None), st_loan_by_id := (st_loan_by_id s)(l_loan_id l := None),
          st_user_loans := user_loans_without (st_user_loans s) u (l_loan_id l),
          st_late_fees_accrued := (st_late_fees_accrued s)(l_loan_id l := None),
          lending_events := lending_events s @ [ev]\<rparr>" by blast
  have inv: "loans_indexed s" "pools_listed s" using assms(1) by (auto simp: books_inv_def)
  note l = loans_indexedD [OF inv(1) *(1)]
  have tk: "l_collateral_token l = l_asset l" by (rule assms(3) [OF *(1)])
  have "int (p_total_borrowed p) - int (p_total_borrowed p - l_principal l) \<le> int owe" using *(3) by linarith
  then have claim: "int (p_bad_debt_reserve p - (owe - l_collateral_amount l)) - int (p_bad_debt_reserve p)
      + (int (p_total_borrowed p) - int (p_total_borrowed p - l_principal l)) \<le> int (l_collateral_amount l)"
    using *(4) by linarith
  show ?thesis
  proof (rule books_invI [OF assms(1)])
    show "loans_indexed t" by (rule loans_indexed_close [OF inv(1), of _ l]) (simp_all add: t l)
    show "pools_listed t" by (rule pools_listed_upd [OF inv(2) *(2)]) (simp add: t)+
    show "owed t b - owed s b \<le> token_held X b self (world t) - token_held X b self (world s)" for b
      using *(2) collateral_sum_close [of "st_loan_by_id s", OF l(1,3), of b] claim tk
      by (cases "b = l_asset l")
        (simp_all add: t owed_def get_next_loan_id_def pools_owed_Some collateral_in_def)
  qed
qed

section \<open>Insurance\<close>

lemma books_init_fund: "books_inv X self s \<Longrightarrow> books_inv X self (init_insurance_fund_if_needed s)"
  by (erule books_inv_fund_step) simp+

lemma sat_add_le: "int (saturating_add_u64 x y) \<le> int x + int y"
  by (simp add: saturating_add_u64_def of_nat_min)

lemma books_purchase_insurance:
  assumes "books_inv X self s" and "at_self self cx" and "purchase_loan_insurance X cx u i s = Ok (r, t)"
  shows "books_inv X self t"
proof -
  from purchase_loan_insurance_OkD [OF assms(3)] obtain tk w s1 f where
    *: "authorized cx u" "s1 = init_insurance_fund_if_needed s" "st_token s1 = Some tk"
      "tok_transfer X tk u (current_contract_address cx) (int r) (world s1) = Some w"
      "st_insurance_fund t = Some f"
      "f_available_balance f = saturating_add_u64 (f_available_balance (unwrap_or empty_fund (st_insurance_fund s1))) r"
    and t: "world t = w" "st_loan t = st_loan s1" "st_loan_by_id t = st_loan_by_id s1"
      "st_next_loan_id t = st_next_loan_id s1" "st_pool_state t = st_pool_state s1"
      "st_supported_assets t = st_supported_assets s1" "st_token t = st_token s1" "st_admin t = st_admin s1"
    by blast
  have "u \<noteq> self" using at_selfD assms(2) *(1) by blast
  with *(4) assms(2) have h: "token_held X b self w = token_held X b self (world s1) + (if b = tk then int r else 0)" for b
    by (intro held_after_incoming) (auto simp: at_self_def)
  have bal: "fund_balance t \<le> fund_balance s1 + int r"
    using *(5,6) sat_add_le [of 0 r] sat_add_le [of "f_available_balance (the (st_insurance_fund s1))" r]
    by (cases "st_insurance_fund s1") (simp_all add: fund_balance_def empty_fund_def)
  have "books_inv X self s1" using books_init_fund [OF assms(1)] *(2) by simp
  then show ?thesis by (rule books_inv_fund_step) (use bal *(3) t h in simp_all)
qed

lemma books_cancel_insurance:
  assumes "books_inv X self s" and "at_self self cx" and "cancel_insurance X cx u i s = Ok (r, t)"
    and "int r \<le> fund_balance s"
  shows "books_inv X self t"
proof -
  let ?s0 = "s\<lparr>st_insurance := (st_insurance s)(i := None)\<rparr>"
  from cancel_insurance_OkD [OF assms(3)] obtain s1 where
    *: "authorized cx u" "pay_refund X cx u r ?s0 = Ok s1"
    and t: "t = publish (InsuranceCancelledEvent i u r (timestamp cx)) s1" by blast
  show ?thesis
  proof (cases "r = 0")
    case True
    with * have "s1 = ?s0" by (simp add: pay_refund_eq_Ok)
    then show ?thesis by (intro books_inv_cong [OF assms(1)]) (simp_all add: t publish_def)
  next
    case False
    then obtain tk w where
      w: "st_token s = Some tk" "tok_transfer X tk (current_contract_address cx) u (int r) (world s) = Some w"
      and s1: "s1 = ?s0\<lparr>st_insurance_fund := Some ((unwrap_or empty_fund (st_insurance_fund s))
         \<lparr>f_available_balance := f_available_balance (unwrap_or empty_fund (st_insurance_fund s)) - r\<rparr>), world := w\<rparr>"
      using *(2) by (auto simp: pay_refund_eq_Ok)
    have "self \<noteq> u" using at_selfD assms(2) *(1) by blast
    with w(2) assms(2) have h: "token_held X b self w = token_held X b self (world s) - (if b = tk then int r else 0)" for b
      by (intro held_after_outgoing) (auto simp: at_self_def)
    have bal: "fund_balance t = fund_balance s - int r"
      using assms(4) False by (cases "st_insurance_fund s") (simp_all add: t s1 publish_def fund_balance_def of_nat_diff)
    have wt: "world t = w" by (simp add: t s1 publish_def)
    show ?thesis
      by (rule books_inv_fund_step [OF assms(1)]) (use w(1) in \<open>simp_all add: wt h bal\<close>, simp_all add: t s1 publish_def)
  qed
qed

lemma books_deposit_fund:
  assumes "books_inv X self s" and "at_self self cx" and "deposit_to_insurance_fund X cx u n s = Ok t"
  shows "books_inv X self t"
proof -
  let ?s1 = "init_insurance_fund_if_needed s"
  from assms(3) obtain tk w where
    *: "authorized cx u" "st_token s = Some tk"
      "tok_transfer X tk u (current_contract_address cx) (int n) (world s) = Some w"
    and t: "t = ?s1\<lparr>world := w, st_insurance_fund := Some ((unwrap_or empty_fund (st_insurance_fund ?s1))
        \<lparr>f_available_balance := saturating_add_u64
          (f_available_balance (unwrap_or empty_fund (st_insurance_fund ?s1))) n\<rparr>)\<rparr>"
    by (auto simp: deposit_to_insurance_fund_def Let_def)
  have "u \<noteq> self" using at_selfD assms(2) *(1) by blast
  with *(3) assms(2) have h: "token_held X b self w = token_held X b self (world s) + (if b = tk then int n else 0)" for b
    by (intro held_after_incoming) (auto simp: at_self_def)
  obtain f where f: "st_insurance_fund ?s1 = Some f" using init_fund_Some by blast
  have bal: "fund_balance t \<le> fund_balance ?s1 + int n"
    using sat_add_le [of "f_available_balance f" n] f by (simp add: t fund_balance_def del: init_fund_eqs)
  show ?thesis by (rule books_inv_fund_step [OF assms(1)]) (use bal *(2) h in \<open>simp_all add: t\<close>)
qed

lemma books_withdraw_fund:
  assumes "books_inv X self s" and "at_self self cx" and "withdraw_from_insurance_fund X cx u n s = Ok t"
  shows "books_inv X self t"
proof -
  let ?s1 = "init_insurance_fund_if_needed s"
  from assms(3) obtain tk w f where
    *: "authorized cx u" "st_token s = Some tk" "st_insurance_fund ?s1 = Some f" "n \<le> f_available_balance f"
      "tok_transfer X tk (current_contract_address cx) u (int n) (world s) = Some w"
    and t: "t = ?s1\<lparr>st_insurance_fund := Some (f\<lparr>f_available_balance := f_available_balance f - n\<rparr>), world := w\<rparr>"
    by (auto simp: withdraw_from_insurance_fund_def pay_or_panic_def Let_def)
  have "self \<noteq> u" using at_selfD assms(2) *(1) by blast
  with *(5) assms(2) have h: "token_held X b self w = token_held X b self (world s) - (if b = tk then int n else 0)" for b
    by (intro held_after_outgoing) (auto simp: at_self_def)
  have "fund_balance t = fund_balance ?s1 - int n"
    using *(3,4) by (simp add: t fund_balance_def del: init_fund_eqs)
  then have bal: "fund_balance t = fund_balance s - int n" by simp
  show ?thesis by (rule books_inv_fund_step [OF assms(1)]) (use bal *(2) h in \<open>simp_all add: t\<close>)
qed

lemma books_claim_insurance:
  assumes "books_inv X self s" and "claim_insurance cx i s = Ok (r, t)"
  shows "books_inv X self t"
proof -
  from assms(2) obtain f where f: "st_insurance_fund s = Some f"
    and t: "world t = world s" "st_loan t = st_loan s" "st_loan_by_id t = st_loan_by_id s"
      "st_next_loan_id t = st_next_loan_id s" "st_pool_state t = st_pool_state s"
      "st_supported_assets t = st_supported_assets s" "st_token t = st_token s" "st_admin t = st_admin s"
      "st_insurance_fund t = Some (f\<lparr>f_total_claims_paid := saturating_add_u64 (f_total_claims_paid f) r,
         f_available_balance := f_available_balance f - r\<rparr>)"
    by (auto simp: claim_insurance_def publish_def Let_def)
  have "fund_balance t \<le> fund_balance s" using f t(9) by (simp add: fund_balance_def)
  then show ?thesis using t by (intro books_inv_fund_step [OF assms(1)]) simp_all
qed

end

end
