(* ===== verification/Lending_Frame.thy ===== *)
theory Lending_Frame
  imports Lending_Books
begin

text \<open>
  What the administrative operations of the lending contract leave alone: roles, the pause switch,
  whitelists, fees, farming, plan registrations and governance links do not touch the books, and
  the setters of a pool's parameters leave its claim as it is.
\<close>

section \<open>Operations outside the books\<close>

definition same_books :: "'w lending_state \<Rightarrow> 'w lending_state \<Rightarrow> bool" where
  "same_books s t \<longleftrightarrow> same_funds s t \<and> st_loan t = st_loan s \<and> st_loan_by_id t = st_loan_by_id s \<and>
     st_next_loan_id t = st_next_loan_id s \<and> world t = world s"

lemma books_inv_same_books: "books_inv X self s \<Longrightarrow> same_books s t \<Longrightarrow> books_inv X self t"
  by (erule books_inv_cong) (simp_all add: same_books_def same_funds_def)

named_theorems frame "operations that leave the books alone"

lemmas books_simps = same_books_def same_funds_def accessors Let_def

lemma same_books_publish [simp]: "same_books s (publish ev t) = same_books s t"
  by (simp add: books_simps)

lemma same_books_roles [frame]:
  "lending_assign_role cx ad u r s = Ok t \<Longrightarrow> same_books s t"
  "lending_revoke_role cx ad u r s = Ok t \<Longrightarrow> same_books s t"
  by (auto simp: lending_assign_role_def lending_revoke_role_def assign_role_def revoke_role_def lock_defs books_simps
      split: option.splits if_splits)

lemma same_books_switches [frame]:
  "set_nft_token cx ad n s = Ok t \<Longrightarrow> same_books s t"
  "pause cx ad s = Ok t \<Longrightarrow> same_books s t"
  "unpause cx ad s = Ok t \<Longrightarrow> same_books s t"
  by (auto simp: set_nft_token_def pause_def unpause_def pause_contract_def unpause_contract_def books_simps
      split: if_splits)

lemma same_books_whitelists [frame]:
  "whitelist_collateral cx ad tk s = Ok t \<Longrightarrow> same_books s t"
  "remove_collateral cx ad tk s = Ok t \<Longrightarrow> same_books s t"
  "add_reserve cx ad tk l th s = Ok t \<Longrightarrow> same_books s t"
  "set_flash_loan_fee cx ad f s = Ok t \<Longrightarrow> same_books s t"
  "whitelist_flash_loan_receiver cx ad tk s = Ok t \<Longrightarrow> same_books s t"
  "remove_flash_loan_receiver cx ad tk s = Ok t \<Longrightarrow> same_books s t"
  by (auto simp: whitelist_collateral_def remove_collateral_def add_reserve_def set_flash_loan_fee_def
      whitelist_flash_loan_receiver_def remove_flash_loan_receiver_def books_simps)

lemma same_books_accrual_event [frame]: "emit_interest_accrual cx u s = Ok (r, t) \<Longrightarrow> same_books s t"
  by (auto simp: emit_interest_accrual_def books_simps split: option.splits)

lemma same_books_reward_updates [simp]:
  "same_books s (update_reward_pool cx a s)"
  "same_books s (update_user_reward_debt cx u a s)"
  "same_books s (snd (get_pending_rewards cx u a s))"
  by (simp_all add: update_reward_pool_def update_user_reward_debt_def get_pending_rewards_def
      calculate_pending_rewards_def books_simps)

lemma same_books_trans: "same_books s t \<Longrightarrow> same_books t v \<Longrightarrow> same_books s v"
  by (simp add: same_books_def same_funds_def)

lemma same_books_farming [frame]:
  "stake_lp_tokens cx u a n s = Ok t \<Longrightarrow> same_books s t"
  "unstake_lp_tokens cx u a n s = Ok t \<Longrightarrow> same_books s t"
  "claim_rewards cx u a s = Ok (r, t) \<Longrightarrow> same_books s t"
  "set_reward_rate cx ad a n s = Ok t \<Longrightarrow> same_books s t"
  using same_books_reward_updates(1) [of s cx a] same_books_reward_updates(2) [of s cx u a]
  unfolding stake_lp_tokens_def unstake_lp_tokens_def claim_rewards_def set_reward_rate_def Let_def
  by (auto simp: same_books_def same_funds_def publish_def)

lemma same_books_links [frame]:
  "set_inheritance_contract cx ad c s = Ok t \<Longrightarrow> same_books s t"
  "set_governance_contract cx ad c s = Ok t \<Longrightarrow> same_books s t"
  "add_supported_wrapped_token cx ad c s = Ok t \<Longrightarrow> same_books s t"
  "remove_wrapped_token cx ad c s = Ok t \<Longrightarrow> same_books s t"
  "set_rate_model cx ad b o1 s1 s2 r s = Ok t \<Longrightarrow> same_books s t"
  "upgrade cx ad h s = Ok t \<Longrightarrow> same_books s t"
  by (auto simp: set_inheritance_contract_def set_governance_contract_def add_supported_wrapped_token_def
      remove_wrapped_token_def set_rate_model_def upgrade_def books_simps)

lemma same_books_index: "index_plan_yield i s = Ok t \<Longrightarrow> same_books s t"
  by (auto simp: index_plan_yield_def books_simps split: if_splits)

lemma same_books_set_position [simp]: "same_books s (set_position i p t) = same_books s t"
  by (simp add: set_position_def books_simps)

lemma same_books_refl [simp]: "same_books s s"
  by (simp add: same_books_def)

lemma same_books_plans [frame]:
  "register_plan_yield cx u i a n s = Ok t \<Longrightarrow> same_books s t"
  "unregister_plan_yield cx u i s = Ok t \<Longrightarrow> same_books s t"
  "set_plan_yield_boost cx ad i b s = Ok t \<Longrightarrow> same_books s t"
  by (auto simp: register_plan_yield_def unregister_plan_yield_def set_plan_yield_boost_def Let_def
      dest: same_books_index split: option.splits)

section \<open>Setters of a pool\<close>

named_theorems pool_frame "operations that change one pool and do not raise its claim"

definition pool_parameters_only :: "'w lending_state \<Rightarrow> 'w lending_state \<Rightarrow> bool" where
  "pool_parameters_only s t \<longleftrightarrow> (\<exists>a p p'. st_pool_state s a = Some p \<and> pool_claim p' \<le> pool_claim p \<and>
     p_total_shares p' = p_total_shares p \<and> same_books (set_pool a p' s) t)"

lemma books_inv_pool_parameters:
  assumes "books_inv X self s" and "pool_parameters_only s t"
  shows "books_inv X self t"
proof -
  from assms(2) obtain a p p' where
    *: "st_pool_state s a = Some p" "pool_claim p' \<le> pool_claim p" "same_books (set_pool a p' s) t"
    by (auto simp: pool_parameters_only_def)
  then have "books_inv X self (set_pool a p' s)"
    by (intro books_inv_pool_step [OF assms(1) *(1)]) (simp add: set_pool_def)+
  then show ?thesis by (rule books_inv_same_books) (rule *(3))
qed

lemma pool_parameters_set [intro]:
  "st_pool_state s a = Some p \<Longrightarrow> pool_claim p' \<le> pool_claim p \<Longrightarrow> p_total_shares p' = p_total_shares p \<Longrightarrow>
   pool_parameters_only s (set_pool a p' s)"
  unfolding pool_parameters_only_def by (intro exI [of _ a] exI [of _ p] exI [of _ p']) simp

lemma pool_parameters_outside [simp]:
  "pool_parameters_only s (publish ev t) = pool_parameters_only s t"
  "pool_parameters_only s (set_position i pos t) = pool_parameters_only s t"
  by (simp_all add: pool_parameters_only_def)

lemma pool_setters [pool_frame]:
  "pause_asset_pool cx ad a b s = Ok t \<Longrightarrow> pool_parameters_only s t"
  "set_grace_period cx ad a g s = Ok t \<Longrightarrow> pool_parameters_only s t"
  "set_late_fee_rate cx ad a r s = Ok t \<Longrightarrow> pool_parameters_only s t"
  "set_reserve_factor cx ad a f s = Ok t \<Longrightarrow> pool_parameters_only s t"
  by (auto simp: pause_asset_pool_def set_grace_period_def set_late_fee_rate_def set_reserve_factor_def
      require_stored_admin_def Let_def)

text \<open>A claim of plan yield lowers the retained yield of the plan's pool.\<close>

lemma claim_plan_yield_pool: "claim_plan_yield_inner cx u i s = Ok (r, t) \<Longrightarrow> pool_parameters_only s t"
  unfolding claim_plan_yield_inner_def Let_def
  by clarsimp (erule pool_parameters_set, simp_all)

end
