(* ===== verification/Lending_Machine.thy ===== *)
theory Lending_Machine
  imports Lending_Solvency Lending_Frame
begin

text \<open>
  Runs of the lending contract: it is deployed empty and initialized, then calls that succeed
  alternate with steps of the other contracts. \<open>solvency_safe\<close> names the calls that can leave
  the contract owing more than it holds; every run without them keeps the books.
\<close>

section \<open>Runs\<close>

definition refund_due :: "ctx \<Rightarrow> nat \<Rightarrow> 'w lending_state \<Rightarrow> nat" where
  "refund_due cx i s = (case st_insurance s i of None \<Rightarrow> 0 | Some ins \<Rightarrow> insurance_refund (timestamp cx) ins)"

definition solvency_safe :: "address \<Rightarrow> ctx \<Rightarrow> lending_call \<Rightarrow> 'w lending_state \<Rightarrow> bool" where
  "solvency_safe self cx c s =
     (case c of
        CLiquidate u b n \<Rightarrow> False
      | CAccrueInterest i \<Rightarrow> False
      | CConsolidate u ids d \<Rightarrow> distinct ids
      | CLiquidateBadDebt ad u \<Rightarrow>
          (case st_loan s u of None \<Rightarrow> True | Some l \<Rightarrow> l_collateral_token l = l_asset l)
      | CAllocateReserves ad a n f \<Rightarrow> f \<noteq> self
      | CCancelInsurance u i \<Rightarrow> int (refund_due cx i s) \<le> fund_balance s
      | _ \<Rightarrow> True)"

text \<open>
  Each call sees the other contracts under its own authorizations, so the calls it makes are a
  family over its context. What an account holds does not depend on who asks.
\<close>

inductive lending_run :: "(ctx \<Rightarrow> 'w externals) \<Rightarrow> address \<Rightarrow> 'w lending_state \<Rightarrow> bool"
  for XS :: "ctx \<Rightarrow> 'w externals" and self :: address where
  run_start: "initialize cx ad tk br mu cr uc (lending_empty w) = Ok s \<Longrightarrow>
    \<forall>a. 0 \<le> token_held (XS cx) a self w \<Longrightarrow> lending_run XS self s"
| run_call: "lending_run XS self s \<Longrightarrow> at_self self cx \<Longrightarrow> solvency_safe self cx c s \<Longrightarrow>
    exec (XS cx) cx c s = Ok t \<Longrightarrow> lending_run XS self t"
| run_world: "lending_run XS self s \<Longrightarrow>
    \<forall>a. token_held (XS cx) a self (world s) \<le> token_held (XS cx) a self w \<Longrightarrow>
    lending_run XS self (s\<lparr>world := w\<rparr>)"

section \<open>The remaining calls\<close>

context lending_env
begin

lemma books_initialize:
  assumes "initialize cx ad tk br mu cr uc (lending_empty w) = Ok s" and "\<forall>a. 0 \<le> token_held X a self w"
  shows "books_inv X self s"
  using assms
  by (auto simp: initialize_def lending_empty_def assign_role_def roles_of_def books_inv_def loans_indexed_def pools_listed_def
      covered_def owed_def pools_owed_def fund_owed_def collateral_sum_def collateral_in_def get_supported_assets_def
      split: if_splits)

lemma initialize_once: "books_inv X self s \<Longrightarrow> initialize cx ad tk br mu cr uc s \<noteq> Ok t"
  by (auto simp: initialize_def books_inv_def pools_listed_def)

lemma books_add_asset_pool:
  assumes "books_inv X self s" and "add_asset_pool cx ad a br mu uc s = Ok t"
  shows "books_inv X self t"
proof -
  from assms(2) have new: "a \<notin> set (get_supported_assets s)"
    and t: "t = s\<lparr>st_supported_assets := Some (get_supported_assets s @ [a]),
           st_pool_state := (st_pool_state s)(a \<mapsto> new_pool br mu uc),
           st_reward_pool := (st_reward_pool s)(a \<mapsto> new_reward_pool (timestamp cx))\<rparr>"
    by (auto simp: add_asset_pool_def get_supported_assets_def Let_def)
  have inv: "loans_indexed s" "pools_listed s" using assms(1) by (auto simp: books_inv_def)
  have none: "st_pool_state s a = None" using inv(2) new by (auto simp: pools_listed_def)
  show ?thesis
  proof (rule books_invI [OF assms(1)])
    show "loans_indexed t" using inv(1) by (simp add: t loans_indexed_def get_next_loan_id_def)
    show "pools_listed t" using inv(2) by (auto simp: t pools_listed_def get_supported_assets_def)
    show "owed t b - owed s b \<le> token_held X b self (world t) - token_held X b self (world s)" for b
      using none by (simp add: t owed_def get_next_loan_id_def pools_owed_def)
  qed
qed

lemma books_fund_retained_yield:
  assumes "books_inv X self s" and "at_self self cx" and "fund_retained_yield X cx u a n s = Ok (r, t)"
  shows "books_inv X self t"
proof -
  from assms(3) obtain p w where
    *: "authorized cx u" "st_pool_state s a = Some p"
      "tok_transfer X a u (current_contract_address cx) (int n) (world s) = Some w"
    and t: "t = publish (RetainedYieldFundedEvent a u n r)
       (set_pool a (p\<lparr>p_retained_yield := p_retained_yield p + n\<rparr>) (s\<lparr>world := w\<rparr>))"
    by (auto simp: fund_retained_yield_def require_plan_yield_caller_def Let_def checked_add_u64_def split: if_splits)
  have "u \<noteq> self" using at_selfD assms(2) *(1) by blast
  with *(3) assms(2) have h: "token_held X b self w = token_held X b self (world s) + (if b = a then int n else 0)" for b
    by (intro held_after_incoming) (auto simp: at_self_def)
  show ?thesis by (rule books_inv_pool_step [OF assms(1) *(2)]) (simp add: t h accessors)+
qed

lemma books_claim_plan_yield:
  "books_inv X self s \<Longrightarrow> claim_plan_yield_inner cx u i s = Ok (r, t) \<Longrightarrow> books_inv X self t"
  by (blast intro: books_inv_pool_parameters claim_plan_yield_pool)

lemma books_claim_loop:
  "fold_outcome (claim_or_zero cx u) ids (rs, s) = Ok (rs', t) \<Longrightarrow> books_inv X self s \<Longrightarrow> books_inv X self t"
proof (induction ids arbitrary: rs s)
  case (Cons i ids)
  then obtain rs1 s1 where 1: "claim_or_zero cx u i (rs, s) = Ok (rs1, s1)"
    and 2: "fold_outcome (claim_or_zero cx u) ids (rs1, s1) = Ok (rs', t)" by auto
  have "books_inv X self s1" using 1 Cons.prems(2) books_claim_plan_yield
    by (auto simp: claim_or_zero_def split: outcome.splits)
  with 2 show ?case by (rule Cons.IH)
qed simp

lemma books_insurance_settings:
  assumes "books_inv X self s"
  shows "get_insurance_premium n s = Ok (r, t) \<Longrightarrow> books_inv X self t"
    and "set_insurance_premium_rate cx ad n s = Ok t \<Longrightarrow> books_inv X self t"
    and "books_inv X self (snd (get_insurance_fund_state s))"
  using books_init_fund [OF assms]
  by (auto simp: get_insurance_premium_def set_insurance_premium_rate_def get_insurance_fund_state_def Let_def
      intro: books_inv_same_books simp: same_books_def same_funds_def)

lemma refund_due_eq:
  "cancel_insurance X cx u i s = Ok (r, t) \<Longrightarrow> refund_due cx i s = r"
  by (auto simp: refund_due_def dest!: cancel_insurance_OkD)

text \<open>Every safe call keeps the books.\<close>

lemma books_exec:
  assumes inv: "books_inv X self s" and cx: "at_self self cx" and safe: "solvency_safe self cx c s"
    and run: "exec X cx c s = Ok t"
  shows "books_inv X self t"
proof -
  note calls = frame [THEN books_inv_same_books [OF inv]] pool_frame [THEN books_inv_pool_parameters [OF inv]]
    books_add_asset_pool [OF inv] books_deposit [OF inv cx] books_withdraw [OF inv cx] books_borrow [OF inv cx]
    books_repay [OF inv cx] books_withdraw_priority [OF inv cx] books_flash_loan [OF inv cx]
    books_refinance [OF inv cx] books_split [OF inv cx] books_withdraw_reserves [OF inv cx]
    books_replenish [OF inv cx] books_purchase_insurance [OF inv cx] books_claim_insurance [OF inv]
    books_deposit_fund [OF inv cx] books_withdraw_fund [OF inv cx] books_insurance_settings(1,2) [OF inv]
    books_fund_retained_yield [OF inv cx]
  show ?thesis
  proof (cases c)
    case (CConsolidate u ids d)
    then show ?thesis using assms books_consolidate by (auto simp: solvency_safe_def)
  next
    case (CLiquidateBadDebt ad u)
    then have "\<And>l. st_loan s u = Some l \<Longrightarrow> l_collateral_token l = l_asset l"
      using safe by (simp add: solvency_safe_def)
    then show ?thesis using inv run CLiquidateBadDebt books_liquidate_bad_debt by auto
  next
    case (CAllocateReserves ad a n f)
    then show ?thesis using assms books_allocate_reserves by (auto simp: solvency_safe_def)
  next
    case (CCancelInsurance u i)
    then show ?thesis using assms books_cancel_insurance refund_due_eq by (fastforce simp: solvency_safe_def)
  next
    case (CClaimPlanYield u i)
    then show ?thesis using assms books_claim_plan_yield by (auto simp: claim_plan_yield_def)
  next
    case (CClaimPlanYieldBatch u ids)
    then show ?thesis using assms books_claim_loop by (auto simp: claim_plan_yield_batch_def)
  next
    case (CInitialize ad tk br mu cr uc)
    then show ?thesis using assms initialize_once by auto
  next
    case (CGetPendingRewards u a)
    then show ?thesis using run books_inv_same_books [OF inv same_books_reward_updates(3)] by auto
  next
    case CGetInsuranceFundState
    then show ?thesis using run books_insurance_settings(3) [OF inv] by auto
  next
    case (CLiquidate u b n)
    then show ?thesis using safe by (simp add: solvency_safe_def)
  next
    case (CAccrueInterest i)
    then show ?thesis using safe by (simp add: solvency_safe_def)
  qed (insert run, (hypsubst, unfold exec.simps effect_eq_Ok, (elim exE)?, erule calls)+)
qed

text \<open>Growth of what the contract holds, with nothing else changed, keeps the books.\<close>

lemma books_world:
  assumes "books_inv X self s" and "\<forall>a. token_held X a self (world s) \<le> token_held X a self w"
  shows "books_inv X self (s\<lparr>world := w\<rparr>)"
proof (rule books_invI [OF assms(1)])
  show "loans_indexed (s\<lparr>world := w\<rparr>)"
    using assms(1) by (simp add: books_inv_def loans_indexed_def get_next_loan_id_def)
  show "pools_listed (s\<lparr>world := w\<rparr>)"
    using assms(1) by (simp add: books_inv_def pools_listed_def get_supported_assets_def)
qed (use assms(2) in \<open>simp add: owed_def get_next_loan_id_def\<close>)

end

section \<open>The invariant of a run\<close>

locale lending_chain =
  fixes XS :: "ctx \<Rightarrow> 'w externals" and self :: address
  assumes env: "lending_env (XS cx) self"
    and held_anyone: "token_held (XS cx) tk a w = token_held (XS cx') tk a w"
begin

lemma books_inv_anyone: "books_inv (XS cx) self s \<longleftrightarrow> books_inv (XS cx') self s"
  using held_anyone [of cx _ self "world s" cx'] by (simp add: books_inv_def covered_def)

lemma run_books: "lending_run XS self s \<Longrightarrow> books_inv (XS cx') self s"
proof (induction rule: lending_run.induct)
  case (run_start cx ad tk br mu cr uc w s)
  then have "books_inv (XS cx) self s" by (rule lending_env.books_initialize [OF env])
  then show ?case using books_inv_anyone by blast
next
  case (run_call s cx c t)
  then have "books_inv (XS cx) self s" using books_inv_anyone by blast
  then have "books_inv (XS cx) self t" using run_call by (blast intro: lending_env.books_exec [OF env])
  then show ?case using books_inv_anyone by blast
next
  case (run_world s cx w)
  then have "\<forall>a. token_held (XS cx') a self (world s) \<le> token_held (XS cx') a self w"
    using held_anyone [of cx _ self _ cx'] by auto
  then show ?case by (rule lending_env.books_world [OF env run_world.IH])
qed

end

end
