(* ===== verification/Chain.thy ===== *)
theory Chain
  imports Lending_Machine
begin

text \<open>
  The lending contract together with the repository's other contracts: every token address runs
  \<open>Mock_Token\<close> and every NFT address runs \<open>Loan_NFT\<close>. A flash-loan receiver is arbitrary code of
  its owner; it is a parameter, a program of token transfers that the receiver authorizes. The
  answer of the inheritance contract to \<open>verify_plan_ownership\<close> is a parameter too.
\<close>

section \<open>The world\<close>

record chain_world =
  ch_tokens :: "address \<Rightarrow> token_state"
  ch_nfts :: "address \<Rightarrow> nft_state"

type_synonym receiver_program = "address \<Rightarrow> nat \<Rightarrow> nat \<Rightarrow> address \<Rightarrow> (address \<times> address \<times> int) list"

definition succeeds :: "('a, 'e) outcome \<Rightarrow> 'a option" where
  "succeeds m = (case m of Ok x \<Rightarrow> Some x | Err _ \<Rightarrow> None | Panic \<Rightarrow> None)"

lemma succeeds_eq_Some [simp]: "succeeds m = Some x \<longleftrightarrow> m = Ok x"
  by (auto simp: succeeds_def split: outcome.splits)

definition acting_for :: "address \<Rightarrow> ctx \<Rightarrow> ctx" where
  "acting_for self cx = cx\<lparr>authorized := \<lambda>a. a = self \<or> authorized cx a\<rparr>"

definition chain_transfer :: "ctx \<Rightarrow> address \<Rightarrow> address \<Rightarrow> address \<Rightarrow> int \<Rightarrow> chain_world \<Rightarrow> chain_world option" where
  "chain_transfer cx tk a b n w =
     map_option (\<lambda>t. w\<lparr>ch_tokens := (ch_tokens w)(tk := t)\<rparr>) (succeeds (token_transfer cx a b n (ch_tokens w tk)))"

text \<open>The receiver's transfers, under the receiver's authorization alone.\<close>

fun receiver_runs :: "ctx \<Rightarrow> address \<Rightarrow> (address \<times> address \<times> int) list \<Rightarrow> chain_world \<Rightarrow> chain_world option" where
  "receiver_runs cx rc [] w = Some w"
| "receiver_runs cx rc ((tk, b, n) # prog) w =
     Option.bind (chain_transfer (cx\<lparr>authorized := \<lambda>a. a = rc\<rparr>) tk rc b n w) (receiver_runs cx rc prog)"

definition chain_ops ::
  "receiver_program \<Rightarrow> (address \<Rightarrow> nat \<Rightarrow> address \<Rightarrow> chain_world \<Rightarrow> bool option) \<Rightarrow> address \<Rightarrow> ctx \<Rightarrow>
   chain_world externals" where
  "chain_ops prog verify self cx = \<lparr>
     tok_transfer = chain_transfer (acting_for self cx),
     tok_balance = \<lambda>tk a w. Some (token_balance (ch_tokens w tk) a),
     call_nft_mint = \<lambda>nft u md w.
       map_option (\<lambda>t. w\<lparr>ch_nfts := (ch_nfts w)(nft := t)\<rparr>) (succeeds (nft_mint (acting_for self cx) u md (ch_nfts w nft))),
     call_nft_burn = \<lambda>nft i w.
       map_option (\<lambda>t. w\<lparr>ch_nfts := (ch_nfts w)(nft := t)\<rparr>) (succeeds (nft_burn (acting_for self cx) i (ch_nfts w nft))),
     call_execute_operation = \<lambda>rc n fee u w.
       if rc = self then None else receiver_runs cx rc (prog rc n fee u) w,
     call_verify_plan_ownership = verify\<rparr>"

section \<open>The interfaces hold\<close>

lemma chain_held [simp]: "token_held (chain_ops prog verify self cx) tk a w = token_balance (ch_tokens w tk) a"
  by (simp add: token_held_def chain_ops_def)

lemma chain_transfer_Some:
  "chain_transfer cx tk a b n w = Some w' \<longleftrightarrow>
     (\<exists>t. token_transfer cx a b n (ch_tokens w tk) = Ok t \<and> w' = w\<lparr>ch_tokens := (ch_tokens w)(tk := t)\<rparr>)"
  by (auto simp: chain_transfer_def)

text \<open>No program of a receiver other than the contract itself lowers what the contract holds.\<close>

lemma receiver_runs_held:
  "receiver_runs cx rc prog w = Some w' \<Longrightarrow> rc \<noteq> self \<Longrightarrow>
   token_balance (ch_tokens w tk) self \<le> token_balance (ch_tokens w' tk) self"
proof (induction cx rc prog w rule: receiver_runs.induct)
  case (2 cx rc t b n prog w)
  then obtain w1 where 1: "chain_transfer (cx\<lparr>authorized := \<lambda>a. a = rc\<rparr>) t rc b n w = Some w1"
    and *: "receiver_runs cx rc prog w1 = Some w'" by (auto simp: bind_eq_Some_conv)
  have "token_balance (ch_tokens w tk) self \<le> token_balance (ch_tokens w1 tk) self"
    using 1 "2.prems"(2) by (auto simp: chain_transfer_Some token_transfer_Ok token_balance_def)
  also have "\<dots> \<le> token_balance (ch_tokens w' tk) self" using 2 1 * by simp
  finally show ?case .
qed simp

interpretation chain_env: lending_env "chain_ops prog verify self cx" self
proof unfold_locales
  fix tk a b n w w' assume *: "tok_transfer (chain_ops prog verify self cx) tk a b n w = Some w'"
  then show "a \<noteq> b \<Longrightarrow> token_held (chain_ops prog verify self cx) tk a w' = token_held (chain_ops prog verify self cx) tk a w - n"
    and "a \<noteq> b \<Longrightarrow> token_held (chain_ops prog verify self cx) tk b w' = token_held (chain_ops prog verify self cx) tk b w + n"
    and "tk' \<noteq> tk \<or> (c \<noteq> a \<and> c \<noteq> b) \<Longrightarrow>
      token_held (chain_ops prog verify self cx) tk' c w' = token_held (chain_ops prog verify self cx) tk' c w" for tk' c
    by (auto simp: chain_ops_def chain_transfer_Some token_transfer_Ok token_balance_def token_held_def)
next
  show "call_execute_operation (chain_ops prog verify self cx) rc n fee u w = Some w' \<Longrightarrow>
      token_held (chain_ops prog verify self cx) tk self w \<le> token_held (chain_ops prog verify self cx) tk self w'"
    for rc n fee u w w' tk
    using receiver_runs_held [of cx rc] by (auto simp: chain_ops_def token_held_def split: if_splits)
qed (auto simp: chain_ops_def token_held_def)

interpretation chain_runs: lending_chain "chain_ops prog verify self" self
  by unfold_locales simp

end
