(* ===== verification/Lending_Demo.thy ===== *)
theory Lending_Demo
  imports Chain
begin

text \<open>
  A concrete deployment of the lending contract on the world of \<open>Chain\<close>, followed through
  initialization, a deposit and a loan. Its states are written out, so that later theories can
  apply their theorems to them. The contract lives at \<open>Addr 100\<close>, its administrator is
  \<open>Addr 9\<close>, the lender \<open>Addr 2\<close>, the borrower \<open>Addr 3\<close>, a flash-loan receiver \<open>Addr 7\<close>; the
  pool's token is \<open>Addr 10\<close> and the collateral \<open>Addr 11\<close>.
\<close>

section \<open>The deployment\<close>

definition demo_cx :: "nat \<Rightarrow> ctx" where
  "demo_cx n = \<lparr>timestamp = n, sequence = n, current_contract_address = Addr 100,
     authorized = \<lambda>a. a \<noteq> Addr 100\<rparr>"

text \<open>The receiver pays the loan back with its fee.\<close>

definition demo_program :: receiver_program where
  "demo_program rc n fee u = [(Addr 10, Addr 100, int (n + fee))]"

definition demo_ops :: "ctx \<Rightarrow> chain_world externals" where
  "demo_ops = chain_ops demo_program (\<lambda>_ _ _ _. None) (Addr 100)"

definition demo_token :: token_state where
  "demo_token = \<lparr>tk_balance = [Addr 2 \<mapsto> 100000, Addr 3 \<mapsto> 100000, Addr 7 \<mapsto> 1000], tk_total_supply = Some 201000\<rparr>"

definition demo_world :: chain_world where
  "demo_world = \<lparr>ch_tokens = \<lambda>_. demo_token, ch_nfts = \<lambda>_. nft_empty\<rparr>"

text \<open>The world after a transfer that leaves two accounts with the given balances.\<close>

definition settled :: "address \<Rightarrow> address \<Rightarrow> int \<Rightarrow> address \<Rightarrow> int \<Rightarrow> chain_world \<Rightarrow> chain_world" where
  "settled tk a x b y w = w\<lparr>ch_tokens := (ch_tokens w)(tk := (ch_tokens w tk)
     \<lparr>tk_balance := (tk_balance (ch_tokens w tk))(a \<mapsto> x, b \<mapsto> y)\<rparr>)\<rparr>"

section \<open>The states\<close>

definition demo_init :: "chain_world lending_state" where
  "demo_init = (lending_empty demo_world)\<lparr>roles_key := [Addr 9 \<mapsto> [RoleAdmin]], st_admin := Some (Addr 9),
     st_token := Some (Addr 10), st_supported_assets := Some [Addr 10], st_collateral_ratio := Some 15000,
     st_pool_state := [Addr 10 \<mapsto> new_pool 500 2000 8000], st_reward_pool := [Addr 10 \<mapsto> new_reward_pool 0],
     st_insurance_fund := Some empty_fund,
     st_insurance_premium_rate := Some DEFAULT_INSURANCE_PREMIUM_RATE_BPS\<rparr>"

definition demo_listed :: "chain_world lending_state" where
  "demo_listed = demo_init\<lparr>st_whitelisted_collateral := [Addr 11 \<mapsto> True]\<rparr>"

definition demo_deposited :: "chain_world lending_state" where
  "demo_deposited = demo_listed\<lparr>
     st_pool_state := [Addr 10 \<mapsto> (new_pool 500 2000 8000)\<lparr>p_total_deposits := 50000, p_total_shares := 50000\<rparr>],
     st_shares := [(Addr 2, Addr 10) \<mapsto> 49000], st_deposit_ledger := [(Addr 2, Addr 10) \<mapsto> 4],
     world := settled (Addr 10) (Addr 2) 50000 (Addr 100) 50000 demo_world,
     lending_events := [DepositEvent (Addr 2) (Addr 10) 50000 49000]\<rparr>"

definition demo_loan :: loan_record where
  "demo_loan = \<lparr>l_loan_id = 1, l_borrower = Addr 3, l_asset = Addr 10, l_principal = 1000,
     l_collateral_amount = 2000, l_collateral_token = Addr 11, l_borrow_time = 5, l_due_date = 1005,
     l_interest_rate_bps = 540\<rparr>"

definition demo_borrowed :: "chain_world lending_state" where
  "demo_borrowed = demo_deposited\<lparr>
     st_pool_state := [Addr 10 \<mapsto> (new_pool 500 2000 8000)
       \<lparr>p_total_deposits := 50000, p_total_shares := 50000, p_total_borrowed := 1000\<rparr>],
     st_next_loan_id := Some 2, st_loan := [Addr 3 \<mapsto> demo_loan], st_loan_by_id := [1 \<mapsto> demo_loan],
     st_user_loans := [Addr 3 \<mapsto> [1]],
     world := settled (Addr 10) (Addr 100) 49000 (Addr 3) 101000
       (settled (Addr 11) (Addr 3) 98000 (Addr 100) 2000
         (settled (Addr 10) (Addr 2) 50000 (Addr 100) 50000 demo_world)),
     lending_events := [DepositEvent (Addr 2) (Addr 10) 50000 49000,
       BorrowEvent 1 (Addr 3) (Addr 10) 1000 2000 1005, CollateralDepositEvent 1 (Addr 3) (Addr 11) 2000]\<rparr>"

section \<open>The steps\<close>

text \<open>The definitions that evaluate an operation on these states.\<close>

lemmas demo_defs = demo_cx_def demo_ops_def demo_token_def demo_world_def settled_def demo_init_def
  demo_listed_def demo_deposited_def demo_loan_def demo_borrowed_def lending_empty_def new_pool_def
  empty_fund_def

lemmas chain_eval = chain_ops_def chain_transfer_def acting_for_def token_transfer_def token_balance_def
  succeeds_def checked_add_i128_def i128_add_def i128_sub_def i128_max_def i128_min_def

lemmas guard_eval = require_unpaused_def pause_defs require_initialized_def enter_reentrancy_guard_def
  lock_defs require_admin_def require_auth_def role_defs flash_loan_defense_def accessors

lemmas arith_eval = get_pool_def transfer_def u64_add_def u64_sub_def u64_max_def u32_max_def u128_max_def
  checked_mul_u128_def checked_mul_u64_def checked_div_def checked_add_u128_def mul_then_div_def as_u64_def as_u32_def
  saturating_mul_u64_def saturating_mul_u128_def saturating_add_u128_def saturating_add_u32_def saturating_add_u64_def
  Let_def

text \<open>Evaluation runs one step of a call at a time.\<close>

lemma and_then_step: "m = m' \<Longrightarrow> and_then m f = and_then m' f"
  by simp

lemmas eval_congs = and_then_step let_weak_cong

lemma demo_initialize:
  "initialize (demo_cx 0) (Addr 9) (Addr 10) 500 2000 15000 8000 (lending_empty demo_world) = Ok demo_init"
  by (simp add: initialize_def demo_defs assign_role_def roles_of_def)

lemma demo_whitelist: "whitelist_collateral (demo_cx 4) (Addr 9) (Addr 11) demo_init = Ok demo_listed"
  by (simp add: whitelist_collateral_def demo_defs guard_eval)

lemma demo_deposit:
  "deposit (demo_ops (demo_cx 4)) (demo_cx 4) (Addr 2) (Addr 10) 50000 demo_listed = Ok (49000, demo_deposited)"
  by (simp add: deposit_def demo_defs guard_eval chain_eval arith_eval shares_for_deposit_def
      lock_minimum_liquidity_def MINIMUM_LIQUIDITY_def cong: eval_congs del: and_then_eq_Ok)

lemma demo_borrow:
  "borrow (demo_ops (demo_cx 5)) (demo_cx 5) (Addr 3) (Addr 10) 1000 (Addr 11) 2000 1000 demo_deposited =
     Ok (1, demo_borrowed)"
  by (simp add: borrow_def demo_defs guard_eval chain_eval arith_eval get_utilization_bps_def
      reserve_on_borrow_def loan_rate_def calculate_dynamic_rate_def store_loan_def mint_loan_nft_def
      increment_loan_id_def cong: eval_congs del: and_then_eq_Ok)

lemma demo_at_self [simp]: "at_self (Addr 100) (demo_cx n)"
  by (simp add: at_self_def demo_cx_def)

lemma demo_run: "lending_run demo_ops (Addr 100) demo_borrowed"
proof -
  have "lending_run demo_ops (Addr 100) demo_init"
    by (rule run_start [OF demo_initialize]) (simp add: demo_ops_def demo_world_def demo_token_def token_balance_def)
  then have "lending_run demo_ops (Addr 100) demo_listed"
    by (rule run_call [of _ _ _ "demo_cx 4" "CWhitelistCollateral (Addr 9) (Addr 11)"])
       (simp_all add: solvency_safe_def demo_whitelist)
  then have "lending_run demo_ops (Addr 100) demo_deposited"
    by (rule run_call [of _ _ _ "demo_cx 4" "CDeposit (Addr 2) (Addr 10) 50000"])
       (simp_all add: solvency_safe_def demo_deposit)
  then show ?thesis
    by (rule run_call [of _ _ _ "demo_cx 5" "CBorrow (Addr 3) (Addr 10) 1000 (Addr 11) 2000 1000"])
       (simp_all add: solvency_safe_def demo_borrow)
qed

text \<open>The borrower of the example repays a year later.\<close>

lemma demo_repay: "\<exists>r t. repay (demo_ops (demo_cx 31536005)) (demo_cx 31536005) (Addr 3) demo_borrowed = Ok (r, t)"
  by (simp add: repay_def demo_defs guard_eval chain_eval arith_eval loan_interest_def calculate_interest_def
      calculate_late_fee_def grace_period_end_def checked_add_u64_def SECONDS_IN_YEAR_def reserve_on_repay_def
      DEFAULT_GRACE_PERIOD_SECONDS_def DEFAULT_LATE_FEE_RATE_BPS_def
      settle_repayment_def PROTOCOL_INTEREST_BPS_def BAD_DEBT_RESERVE_BPS_def drop_loan_def close_loan_def
      burn_loan_nft_def cong: eval_congs del: and_then_eq_Ok)

end
