(* ===== verification/Lending_Shares.thy ===== *)
theory Lending_Shares
  imports Lending_Frame
begin

text \<open>
  The depositors' shares: in every state that calls of the contract can reach, the total of a pool
  is the sum of what its depositors hold and the minimum liquidity locked by the first deposit.
  Only deposits and withdrawals touch the shares.
\<close>

section \<open>The invariant\<close>

definition pool_shares :: "'w lending_state \<Rightarrow> address \<Rightarrow> nat" where
  "pool_shares s a = (case st_pool_state s a of None \<Rightarrow> 0 | Some p \<Rightarrow> p_total_shares p)"

definition share_sum :: "(address \<times> address \<Rightarrow> nat option) \<Rightarrow> address \<Rightarrow> nat" where
  "share_sum m a = (\<Sum>k \<in> dom m. if snd k = a then unwrap_or 0 (m k) else 0)"

definition shares_inv :: "'w lending_state \<Rightarrow> bool" where
  "shares_inv s \<longleftrightarrow> finite (dom (st_shares s)) \<and>
     (\<forall>a. pool_shares s a = share_sum (st_shares s) a + (if pool_shares s a = 0 then 0 else MINIMUM_LIQUIDITY))"

lemma share_sum_superset:
  assumes "finite A" and "dom m \<subseteq> A"
  shows "share_sum m a = (\<Sum>k \<in> A. if snd k = a then unwrap_or 0 (m k) else 0)"
  unfolding share_sum_def using assms
  by (intro sum.mono_neutral_left) (auto simp: domIff)

lemma share_sum_upd:
  assumes "finite (dom m)"
  shows "share_sum (m((u, a) \<mapsto> n)) b + (if b = a then unwrap_or 0 (m (u, a)) else 0) =
    share_sum m b + (if b = a then n else 0)"
proof -
  let ?A = "insert (u, a) (dom m)" and ?f = "\<lambda>m k. if snd k = b then unwrap_or 0 (m k) else (0::nat)"
  have fin: "finite ?A" using assms by simp
  have "share_sum (m((u, a) \<mapsto> n)) b = sum (?f (m((u, a) \<mapsto> n))) ?A" by (rule share_sum_superset [OF fin]) auto
  also have "\<dots> = (if b = a then n else 0) + sum (?f (m((u, a) \<mapsto> n))) (?A - {(u, a)})"
    using fin by (subst sum.remove [where x = "(u, a)"]) auto
  also have "sum (?f (m((u, a) \<mapsto> n))) (?A - {(u, a)}) = sum (?f m) (?A - {(u, a)})"
    by (rule sum.cong) auto
  finally have "share_sum (m((u, a) \<mapsto> n)) b = (if b = a then n else 0) + sum (?f m) (?A - {(u, a)})" .
  moreover have "share_sum m b = (if b = a then unwrap_or 0 (m (u, a)) else 0) + sum (?f m) (?A - {(u, a)})"
    unfolding share_sum_superset [OF fin subset_insertI] using fin
    by (subst sum.remove [where x = "(u, a)"]) auto
  ultimately show ?thesis by simp
qed

lemma share_le_sum:
  assumes "finite (dom m)"
  shows "unwrap_or 0 (m (u, a)) \<le> share_sum m a"
proof (cases "m (u, a)")
  case (Some n)
  then have "(u, a) \<in> dom m" by auto
  then have "(\<lambda>k. if snd k = a then unwrap_or 0 (m k) else 0) (u, a) \<le> share_sum m a"
    unfolding share_sum_def using assms by (intro member_le_sum) auto
  then show ?thesis by simp
qed simp

text \<open>The set of pools, and who administers them.\<close>

definition same_pools :: "'w lending_state \<Rightarrow> 'w lending_state \<Rightarrow> bool" where
  "same_pools s t \<longleftrightarrow> (\<forall>a. st_pool_state t a = None \<longleftrightarrow> st_pool_state s a = None) \<and>
     st_supported_assets t = st_supported_assets s \<and> st_admin t = st_admin s"

lemma if_Some_eq_None [simp]: "(if b then Some x else y) = None \<longleftrightarrow> \<not> b \<and> y = None"
  by simp

lemma pools_listed_same: "pools_listed s \<Longrightarrow> same_pools s t \<Longrightarrow> pools_listed t"
  unfolding pools_listed_def same_pools_def get_supported_assets_def by (metis not_None_eq)

section \<open>Deposits and withdrawals\<close>

lemma shares_deposit:
  assumes "shares_inv s" and "deposit X cx u a n s = Ok (sh, t)"
  shows "shares_inv t"
proof -
  from deposit_OkD [OF assms(2)] obtain p where
    p: "st_pool_state s a = Some p" "0 < sh"
    and t: "st_pool_state t = (st_pool_state s)(a \<mapsto> p\<lparr>p_total_deposits := p_total_deposits p + n,
           p_total_shares := p_total_shares p + locked_liquidity p + sh\<rparr>)"
      "st_shares t = (st_shares s)((u, a) \<mapsto> get_shares s a u + sh)" by fastforce
  have fin: "finite (dom (st_shares s))" using assms(1) by (simp add: shares_inv_def)
  have inv: "pool_shares s b = share_sum (st_shares s) b + (if pool_shares s b = 0 then 0 else MINIMUM_LIQUIDITY)" for b
    using assms(1) by (simp add: shares_inv_def)
  have "pool_shares t b = share_sum (st_shares t) b + (if pool_shares t b = 0 then 0 else MINIMUM_LIQUIDITY)" for b
    using inv [of b] share_sum_upd [OF fin, of u a "get_shares s a u + sh" b] p
    by (cases "b = a") (auto simp: t pool_shares_def get_shares_def locked_liquidity_def split: if_splits)
  then show ?thesis using fin by (simp add: shares_inv_def t)
qed

lemma shares_withdraw:
  assumes "shares_inv s" and "withdraw X cx u a sh s = Ok (n, t)"
  shows "shares_inv t"
proof -
  from withdraw_OkD [OF assms(2)] obtain p where
    p: "st_pool_state s a = Some p" "0 < sh" "sh \<le> get_shares s a u" "sh \<le> p_total_shares p"
    and t: "st_pool_state t = (st_pool_state s)(a \<mapsto> p\<lparr>p_total_deposits := p_total_deposits p - n,
           p_total_shares := p_total_shares p - sh\<rparr>)"
      "st_shares t = (st_shares s)((u, a) \<mapsto> get_shares s a u - sh)" by fastforce
  have fin: "finite (dom (st_shares s))" using assms(1) by (simp add: shares_inv_def)
  have inv: "pool_shares s b = share_sum (st_shares s) b + (if pool_shares s b = 0 then 0 else MINIMUM_LIQUIDITY)" for b
    using assms(1) by (simp add: shares_inv_def)
  have le: "get_shares s a u \<le> share_sum (st_shares s) a"
    using share_le_sum [OF fin] by (simp add: get_shares_def)
  have min: "0 < MINIMUM_LIQUIDITY" by (simp add: MINIMUM_LIQUIDITY_def)
  have "pool_shares t b = share_sum (st_shares t) b + (if pool_shares t b = 0 then 0 else MINIMUM_LIQUIDITY)" for b
    using inv [of b] share_sum_upd [OF fin, of u a "get_shares s a u - sh" b] p le min
    by (cases "b = a") (simp_all add: t pool_shares_def get_shares_def)
  then show ?thesis using fin by (simp add: shares_inv_def t)
qed

lemma same_pools_deposit: "deposit X cx u a n s = Ok (sh, t) \<Longrightarrow> same_pools s t"
  by (auto simp: same_pools_def dest!: deposit_OkD)

lemma same_pools_withdraw: "withdraw X cx u a sh s = Ok (n, t) \<Longrightarrow> same_pools s t"
  by (auto simp: same_pools_def dest!: withdraw_OkD)

section \<open>Every other call leaves the shares alone\<close>

definition same_shares :: "'w lending_state \<Rightarrow> 'w lending_state \<Rightarrow> bool" where
  "same_shares s t \<longleftrightarrow> st_shares t = st_shares s \<and> (\<forall>a. pool_shares t a = pool_shares s a) \<and> same_pools s t"

lemma shares_inv_same: "shares_inv s \<Longrightarrow> same_shares s t \<Longrightarrow> shares_inv t"
  by (simp add: shares_inv_def same_shares_def)

lemma same_shares_books: "same_books s t \<Longrightarrow> same_shares s t"
  by (simp add: same_books_def same_funds_def same_shares_def pool_shares_def same_pools_def)

lemma same_shares_pool: "pool_parameters_only s t \<Longrightarrow> same_shares s t"
  by (auto simp: pool_parameters_only_def same_books_def same_funds_def same_shares_def pool_shares_def same_pools_def set_pool_def)

named_theorems unshared "calls that leave the shares alone"

lemma same_shares_pool_ops [unshared]:
  "borrow X cx u a n c ca d s = Ok (i, t) \<Longrightarrow> same_shares s t"
  "withdraw_priority X cx u a n s = Ok (r, t) \<Longrightarrow> same_shares s t"
  "flash_loan X cx u rc a n s = Ok t \<Longrightarrow> same_shares s t"
  by (auto simp: same_shares_def pool_shares_def same_pools_def dest!: borrow_OkD withdraw_priority_OkD flash_loan_OkD)

lemma settled_shares: "settle_repayment l i late p = Ok p' \<Longrightarrow> p_total_shares p' = p_total_shares p"
  by (auto dest!: settle_repayment_OkD simp: settled_pool_def)

lemma same_shares_repay [unshared]: "repay X cx u s = Ok (r, t) \<Longrightarrow> same_shares s t"
  by (auto simp: same_shares_def pool_shares_def same_pools_def settled_shares dest!: repay_OkD)

lemma rebooked_shares: "rebook_principal op np p = Ok p' \<Longrightarrow> p_total_shares p' = p_total_shares p"
  by (auto simp: rebook_principal_def Let_def split: if_splits option.splits)

lemma same_shares_refinance [unshared]: "refinance_loan X cx u d s = Ok (i, t) \<Longrightarrow> same_shares s t"
  by (auto simp: same_shares_def pool_shares_def same_pools_def rebooked_shares dest!: refinance_loan_OkD)

lemma same_shares_liquidate [unshared]: "liquidate X cx u b n s = Ok (r, t) \<Longrightarrow> same_shares s t"
  by (auto simp: liquidate_def same_shares_def pool_shares_def same_pools_def accessors Let_def)

text \<open>The loops of consolidation and split touch neither the pools nor the shares.\<close>

lemma retire_loop_funds: "fold_outcome (retire_loan X u) ls s = Ok t \<Longrightarrow> same_funds s t"
proof (induction ls arbitrary: s)
  case (Cons l ls)
  then obtain s1 where 1: "retire_loan X u l s = Ok s1" and 2: "fold_outcome (retire_loan X u) ls s1 = Ok t" by auto
  have "same_funds s s1" using retire_loan_OkD [OF 1] by (auto simp: same_funds_def)
  then show ?case using Cons.IH [OF 2] by (rule same_funds_trans)
qed simp

lemma split_loop_funds:
  "fold_outcome (split_one X cx u l tot due rate) ns (ids, s) = Ok (ids', t) \<Longrightarrow> same_funds s t"
proof (induction ns arbitrary: ids s)
  case (Cons n ns)
  then obtain ids1 s1 where 1: "split_one X cx u l tot due rate n (ids, s) = Ok (ids1, s1)"
    and 2: "fold_outcome (split_one X cx u l tot due rate) ns (ids1, s1) = Ok (ids', t)" by auto
  have "same_funds s s1" using split_one_OkD [OF 1] by (auto simp: same_funds_def)
  then show ?case using Cons.IH [OF 2] by (rule same_funds_trans)
qed simp

lemma same_shares_consolidate [unshared]:
  assumes "consolidate_loans X cx u ids d s = Ok (i, t)"
  shows "same_shares s t"
proof -
  from consolidate_loans_OkD [OF assms] obtain acc a ct fee w1 s2 p w3 rate evs where
    acc: "fold_outcome (consolidate_one cx u s) ids consolidation_start = Ok acc"
    and *: "fold_outcome (retire_loan X u) (c_old_loans acc) (s\<lparr>reentrancy_lock := Some True, world := w1\<rparr>) = Ok s2"
      "st_pool_state s2 a = Some p"
    and t: "t = s2\<lparr>st_next_loan_id := Some (i + 1),
          st_loan := (st_loan s2)(u \<mapsto> consolidated_loan cx i u a (c_total_outstanding acc + fee)
            (c_total_collateral acc) ct (timestamp cx + d) rate),
          st_loan_by_id := (st_loan_by_id s2)(i \<mapsto> consolidated_loan cx i u a (c_total_outstanding acc + fee)
            (c_total_collateral acc) ct (timestamp cx + d) rate),
          st_user_loans := (st_user_loans s2)(u \<mapsto> get_user_loans s2 u @ [i]), world := w3,
          st_pool_state := (st_pool_state s2)(a \<mapsto> p\<lparr>p_retained_yield := p_retained_yield p + fee\<rparr>),
          lending_events := evs, reentrancy_lock := None\<rparr>"
    by blast
  show ?thesis using retire_loop_funds [OF *(1)] *(2)
    by (auto simp: t same_shares_def pool_shares_def same_pools_def same_funds_def)
qed

lemma same_shares_split [unshared]:
  assumes "split_loan X cx u ns d s = Ok (ids, t)"
  shows "same_shares s t"
proof -
  from split_loan_OkD [OF assms] obtain l tot fee w1 w2 rate s2 p evs where
    *: "fold_outcome (split_one X cx u l tot (timestamp cx + d) rate) ns ([], s\<lparr>reentrancy_lock := Some True,
        st_loan := (st_loan s)(u := None), st_loan_by_id := (st_loan_by_id s)(l_loan_id l := None),
        st_user_loans := user_loans_without (st_user_loans s) u (l_loan_id l), world := w2\<rparr>) = Ok (ids, s2)"
      "st_pool_state s2 (l_asset l) = Some p"
    and t: "t = s2\<lparr>st_pool_state := (st_pool_state s2)(l_asset l \<mapsto> p\<lparr>p_retained_yield := p_retained_yield p + fee\<rparr>),
          lending_events := evs, reentrancy_lock := None\<rparr>"
    by blast
  show ?thesis using split_loop_funds [OF *(1)] *(2)
    by (auto simp: t same_shares_def pool_shares_def same_pools_def same_funds_def)
qed

lemma same_shares_reserves [unshared]:
  "withdraw_reserves X cx ad a n s = Ok t \<Longrightarrow> same_shares s t"
  "replenish_bad_debt_reserve X cx ad a n s = Ok (r, t) \<Longrightarrow> same_shares s t"
  "liquidate_bad_debt cx ad u s = Ok (r, t) \<Longrightarrow> same_shares s t"
  "allocate_reserves X cx ad a n f s = Ok t \<Longrightarrow> same_shares s t"
  by (auto simp: withdraw_reserves_def replenish_bad_debt_reserve_def allocate_reserves_def
      same_shares_def pool_shares_def same_pools_def accessors Let_def dest!: liquidate_bad_debt_OkD)

lemma same_shares_accrue [unshared]: "accrue_interest_with_reserve cx i s = Ok t \<Longrightarrow> same_shares s t"
  unfolding accrue_interest_with_reserve_def Let_def and_then_eq_Ok case_prod_beta
  by (auto simp: same_shares_def pool_shares_def same_pools_def accessors)

lemma same_shares_init_fund [simp]: "same_shares s (init_insurance_fund_if_needed s)"
  by (simp add: init_insurance_fund_if_needed_def same_shares_def pool_shares_def same_pools_def Let_def)

lemma init_fund_shares [simp]: "st_shares (init_insurance_fund_if_needed s) = st_shares s"
  by (simp add: init_insurance_fund_if_needed_def Let_def)

lemma same_shares_insurance [unshared]:
  "get_insurance_premium n s = Ok (r, t) \<Longrightarrow> same_shares s t"
  "set_insurance_premium_rate cx ad n s = Ok t \<Longrightarrow> same_shares s t"
  "purchase_loan_insurance X cx u i s = Ok (r, t) \<Longrightarrow> same_shares s t"
  "claim_insurance cx i s = Ok (r, t) \<Longrightarrow> same_shares s t"
  "cancel_insurance X cx u i s = Ok (r, t) \<Longrightarrow> same_shares s t"
  "deposit_to_insurance_fund X cx ad n s = Ok t \<Longrightarrow> same_shares s t"
  "withdraw_from_insurance_fund X cx ad n s = Ok t \<Longrightarrow> same_shares s t"
  by (auto simp: get_insurance_premium_def set_insurance_premium_rate_def purchase_loan_insurance_def claim_insurance_def
      deposit_to_insurance_fund_def withdraw_from_insurance_fund_def pay_or_panic_def pay_refund_eq_Ok
      same_shares_def pool_shares_def same_pools_def accessors Let_def dest!: cancel_insurance_OkD split: if_splits)

lemma same_shares_fund_state [simp]: "same_shares s (snd (get_insurance_fund_state s))"
  by (simp add: get_insurance_fund_state_def Let_def)

lemma same_shares_fund_yield [unshared]: "fund_retained_yield X cx u a n s = Ok (r, t) \<Longrightarrow> same_shares s t"
  by (auto simp: fund_retained_yield_def same_shares_def pool_shares_def same_pools_def accessors Let_def)

lemma same_shares_refl [simp]: "same_shares s s"
  by (simp add: same_shares_def same_pools_def)

lemma same_shares_trans: "same_shares s t \<Longrightarrow> same_shares t v \<Longrightarrow> same_shares s v"
  by (simp add: same_shares_def same_pools_def)

lemma claim_loop_shares: "fold_outcome (claim_or_zero cx u) ids (rs, s) = Ok (rs', t) \<Longrightarrow> same_shares s t"
proof (induction ids arbitrary: rs s)
  case Nil
  then show ?case by (simp add: same_shares_def)
next
  case (Cons i ids)
  then obtain rs1 s1 where 1: "claim_or_zero cx u i (rs, s) = Ok (rs1, s1)"
    and 2: "fold_outcome (claim_or_zero cx u) ids (rs1, s1) = Ok (rs', t)" by auto
  have "same_shares s s1" using 1 same_shares_pool [OF claim_plan_yield_pool]
    by (auto simp: claim_or_zero_def split: outcome.splits)
  then show ?case using Cons.IH [OF 2] by (rule same_shares_trans)
qed

lemma same_shares_claims [unshared]:
  "claim_plan_yield cx u i s = Ok (r, t) \<Longrightarrow> same_shares s t"
  "claim_plan_yield_batch cx u ids s = Ok (rs, t) \<Longrightarrow> same_shares s t"
  using same_shares_pool [OF claim_plan_yield_pool] claim_loop_shares
  by (auto simp: claim_plan_yield_def claim_plan_yield_batch_def)

section \<open>Every reachable state\<close>

text \<open>Any sequence of calls that succeed, the unsafe ones included, between steps of the other contracts.\<close>

inductive lending_calls :: "(ctx \<Rightarrow> 'w externals) \<Rightarrow> 'w lending_state \<Rightarrow> bool"
  for XS :: "ctx \<Rightarrow> 'w externals" where
  calls_start: "initialize cx ad tk br mu cr uc (lending_empty w) = Ok s \<Longrightarrow> lending_calls XS s"
| calls_call: "lending_calls XS s \<Longrightarrow> exec (XS cx) cx c s = Ok t \<Longrightarrow> lending_calls XS t"
| calls_world: "lending_calls XS s \<Longrightarrow> lending_calls XS (s\<lparr>world := w\<rparr>)"

lemma shares_initialize:
  "initialize cx ad tk br mu cr uc (lending_empty w) = Ok s \<Longrightarrow> shares_inv s \<and> pools_listed s"
  by (auto simp: initialize_def lending_empty_def assign_role_def roles_of_def shares_inv_def pool_shares_def
      share_sum_def new_pool_def pools_listed_def get_supported_assets_def split: if_splits)

lemma shares_add_pool:
  assumes "shares_inv s" and "pools_listed s" and "add_asset_pool cx ad a br mu uc s = Ok t"
  shows "shares_inv t \<and> pools_listed t"
proof -
  from assms(3) have new: "a \<notin> set (get_supported_assets s)"
    and t: "t = s\<lparr>st_supported_assets := Some (get_supported_assets s @ [a]),
           st_pool_state := (st_pool_state s)(a \<mapsto> new_pool br mu uc),
           st_reward_pool := (st_reward_pool s)(a \<mapsto> new_reward_pool (timestamp cx))\<rparr>"
    by (auto simp: add_asset_pool_def get_supported_assets_def Let_def)
  have "st_pool_state s a = None" using assms(2) new by (auto simp: pools_listed_def)
  then have "pool_shares t b = pool_shares s b" for b by (simp add: t pool_shares_def new_pool_def)
  then show ?thesis using assms(1,2) by (auto simp: shares_inv_def t pools_listed_def get_supported_assets_def)
qed

lemma shares_exec:
  assumes inv: "shares_inv s" "pools_listed s" and run: "exec X cx c s = Ok t"
  shows "shares_inv t \<and> pools_listed t"
proof -
  have keep: "same_shares s v \<Longrightarrow> shares_inv v \<and> pools_listed v" for v
    using inv shares_inv_same pools_listed_same by (auto simp: same_shares_def)
  have dep: "deposit X cx u a n s = Ok (r, v) \<Longrightarrow> shares_inv v \<and> pools_listed v" for u a n r v
    using shares_deposit [OF inv(1)] pools_listed_same [OF inv(2) same_pools_deposit] by blast
  have wd: "withdraw X cx u a n s = Ok (r, v) \<Longrightarrow> shares_inv v \<and> pools_listed v" for u a n r v
    using shares_withdraw [OF inv(1)] pools_listed_same [OF inv(2) same_pools_withdraw] by blast
  note calls = frame [THEN same_shares_books, THEN keep] pool_frame [THEN same_shares_pool, THEN keep]
    unshared [THEN keep] dep wd shares_add_pool [OF inv]
  show ?thesis
  proof (cases c)
    case (CInitialize ad tk br mu cr uc)
    then show ?thesis using run inv(2) by (auto simp: initialize_def pools_listed_def)
  next
    case (CGetPendingRewards u a)
    then show ?thesis using run keep [OF same_shares_books [OF same_books_reward_updates(3)]] by auto
  next
    case CGetInsuranceFundState
    then show ?thesis using run keep [OF same_shares_fund_state] by auto
  qed (insert run, (hypsubst, unfold exec.simps effect_eq_Ok, (elim exE)?, erule calls)+)
qed

lemma lending_calls_shares: "lending_calls XS s \<Longrightarrow> shares_inv s \<and> pools_listed s"
proof (induction rule: lending_calls.induct)
  case (calls_start cx ad tk br mu cr uc w s)
  then show ?case by (rule shares_initialize)
next
  case (calls_call s cx c t)
  then show ?case using shares_exec by blast
next
  case (calls_world s w)
  then show ?case by (simp add: shares_inv_def pool_shares_def pools_listed_def get_supported_assets_def)
qed

end
