(* ===== verification/Lending_Later.thy ===== *)
theory Lending_Later
  imports Lending_Shares
begin

text \<open>
  What the contract's calls, the unsafe ones included, keep from one state to any later one: the index of the
  loans, the use of an id for one loan only, the marks of the deposits, and free locks.
\<close>

section \<open>Later states\<close>

text \<open>The states that calls in contexts of the set \<open>P\<close> and steps of the other contracts lead to from \<open>s\<close>.\<close>

inductive lending_later ::
  "(ctx \<Rightarrow> bool) \<Rightarrow> (ctx \<Rightarrow> 'w externals) \<Rightarrow> 'w lending_state \<Rightarrow> 'w lending_state \<Rightarrow> bool"
  for P :: "ctx \<Rightarrow> bool" and XS :: "ctx \<Rightarrow> 'w externals" and s :: "'w lending_state" where
  later_same: "lending_later P XS s s"
| later_call: "lending_later P XS s t \<Longrightarrow> P cx \<Longrightarrow> exec (XS cx) cx c t = Ok u \<Longrightarrow> lending_later P XS s u"
| later_world: "lending_later P XS s t \<Longrightarrow> lending_later P XS s (t\<lparr>world := w\<rparr>)"

text \<open>What every call and every other step keeps, every later state has.\<close>

lemma later_keeps:
  assumes "lending_later P XS s t" and "R s s"
    and "\<And>u v. R s u \<Longrightarrow> K u v \<Longrightarrow> R s v"
    and "\<And>cx c u v. P cx \<Longrightarrow> exec (XS cx) cx c u = Ok v \<Longrightarrow> K u v" and "\<And>u w. K u (u\<lparr>world := w\<rparr>)"
  shows "R s t"
  using assms(1) by (induction rule: lending_later.induct) (use assms(2-5) in blast)+

lemma later_calls: "lending_later P XS s t \<Longrightarrow> lending_calls XS s \<Longrightarrow> lending_calls XS t"
  by (induction rule: lending_later.induct) (auto intro: lending_calls.intros)

section \<open>The loans\<close>

definition loans_kept :: "'w lending_state \<Rightarrow> 'w lending_state \<Rightarrow> bool" where
  "loans_kept s t \<longleftrightarrow> (loans_indexed s \<longrightarrow> loans_indexed t \<and> get_next_loan_id s \<le> get_next_loan_id t \<and>
     (\<forall>i < get_next_loan_id s. st_loan_by_id t i = None \<or> st_loan_by_id t i = st_loan_by_id s i))"

lemma loans_kept_refl [simp]: "loans_kept s s"
  by (simp add: loans_kept_def)

lemma loans_kept_trans [trans]: "loans_kept s t \<Longrightarrow> loans_kept t u \<Longrightarrow> loans_kept s u"
  unfolding loans_kept_def by (metis order_trans order_less_le_trans)

lemma loans_kept_same:
  "st_loan t = st_loan s \<Longrightarrow> st_loan_by_id t = st_loan_by_id s \<Longrightarrow> st_next_loan_id t = st_next_loan_id s \<Longrightarrow> loans_kept s t"
  by (simp add: loans_kept_def loans_indexed_def get_next_loan_id_def)

lemma loans_kept_books: "same_books s t \<Longrightarrow> loans_kept s t"
  by (rule loans_kept_same) (simp_all add: same_books_def)

lemma loans_kept_pool: "pool_parameters_only s t \<Longrightarrow> loans_kept s t"
  by (rule loans_kept_same) (auto simp: pool_parameters_only_def same_books_def set_pool_def)

text \<open>A loan that is opened has a fresh id, one that is closed leaves its id empty.\<close>

lemma loans_kept_open:
  assumes "st_loan t = (st_loan s)(l_borrower l \<mapsto> l)" and "st_loan_by_id t = (st_loan_by_id s)(l_loan_id l \<mapsto> l)"
    and "l_loan_id l = get_next_loan_id s" and "st_next_loan_id t = Some (Suc (l_loan_id l))"
  shows "loans_kept s t"
  unfolding loans_kept_def
proof (intro impI conjI)
  assume "loans_indexed s"
  then show "loans_indexed t" by (rule loans_indexed_open [OF _ assms])
qed (use assms(2-4) in \<open>auto simp: get_next_loan_id_def [of t]\<close>)

lemma loans_kept_close:
  assumes "st_loan t = (st_loan s)(l_borrower l := None)" and "st_loan_by_id t = (st_loan_by_id s)(l_loan_id l := None)"
    and "st_next_loan_id t = st_next_loan_id s"
    and "loans_indexed s \<Longrightarrow> st_loan_by_id s (l_loan_id l) = None \<or> st_loan_by_id s (l_loan_id l) = Some l"
  shows "loans_kept s t"
  unfolding loans_kept_def
proof (intro impI conjI)
  assume idx: "loans_indexed s"
  from assms(4) [OF idx] show "loans_indexed t"
  proof
    assume none: "st_loan_by_id s (l_loan_id l) = None"
    then have "st_loan_by_id t = st_loan_by_id s" using assms(2) by auto
    then show ?thesis using idx assms(1,3) by (auto simp: loans_indexed_def get_next_loan_id_def)
  next
    assume "st_loan_by_id s (l_loan_id l) = Some l"
    then show ?thesis using loans_indexed_close [OF idx assms(1,2) _ assms(3)] by blast
  qed
  show "get_next_loan_id s \<le> get_next_loan_id t" using assms(3) by (simp add: get_next_loan_id_def)
qed (use assms(2) in auto)

lemma closed_borrower:
  assumes "st_loan s u = Some l" and "loans_indexed s"
  shows "l_borrower l = u \<and> st_loan_by_id s (l_loan_id l) = Some l"
  using loans_indexedD [OF assms(2,1)] by simp

lemma loans_kept_if: "(loans_indexed s \<Longrightarrow> loans_kept s t) \<Longrightarrow> loans_kept s t"
  by (simp add: loans_kept_def)

lemma loans_kept_close_borrower:
  assumes "st_loan s u = Some l" and "st_loan t = (st_loan s)(u := None)"
    and "st_loan_by_id t = (st_loan_by_id s)(l_loan_id l := None)" and "st_next_loan_id t = st_next_loan_id s"
  shows "loans_kept s t"
proof (rule loans_kept_if)
  assume "loans_indexed s"
  note l = closed_borrower [OF assms(1) this]
  show ?thesis by (rule loans_kept_close [of _ _ l]) (use assms l in simp_all)
qed

named_theorems loan_calls "calls and the loans they keep"

lemma loan_calls_pool [loan_calls]:
  "deposit X cx u a n s = Ok (r, t) \<Longrightarrow> loans_kept s t"
  "withdraw X cx u a n s = Ok (r, t) \<Longrightarrow> loans_kept s t"
  "withdraw_priority X cx u a n s = Ok (r, t) \<Longrightarrow> loans_kept s t"
  "flash_loan X cx u rc a n s = Ok t \<Longrightarrow> loans_kept s t"
  by (auto intro!: loans_kept_same dest!: deposit_OkD withdraw_OkD withdraw_priority_OkD flash_loan_OkD)

lemma loan_calls_borrow [loan_calls]: "borrow X cx u a n c ca d s = Ok (i, t) \<Longrightarrow> loans_kept s t"
  by (drule borrow_OkD, clarify, rule loans_kept_open [where l = "opened_loan cx s _ u a n c ca d"])
    (simp_all add: opened_loan_def)

lemma loan_calls_repay [loan_calls]: "repay X cx u s = Ok (r, t) \<Longrightarrow> loans_kept s t"
  by (drule repay_OkD, clarify, rule loans_kept_close_borrower) simp_all

lemma loan_calls_bad_debt [loan_calls]: "liquidate_bad_debt cx ad u s = Ok (r, t) \<Longrightarrow> loans_kept s t"
  by (drule liquidate_bad_debt_OkD, clarify, rule loans_kept_close_borrower) simp_all

lemma loan_calls_liquidate [loan_calls]: "liquidate X cx u b n s = Ok (r, t) \<Longrightarrow> loans_kept s t"
  by (rule loans_kept_same) (auto simp: liquidate_def accessors Let_def)

lemma loan_calls_refinance [loan_calls]:
  assumes "refinance_loan X cx u d s = Ok (i, t)"
  shows "loans_kept s t"
proof -
  from refinance_loan_OkD [OF assms] obtain l p' tm w3 evs where
    l: "st_loan s u = Some l" and i: "i = get_next_loan_id s"
    and t: "t = s\<lparr>st_next_loan_id := Some (i + 1),
          st_loan := (st_loan s)(u \<mapsto> refinanced_loan cx i u l tm),
          st_loan_by_id := (st_loan_by_id s)(l_loan_id l := None, i \<mapsto> refinanced_loan cx i u l tm),
          st_user_loans := (user_loans_without (st_user_loans s) u (l_loan_id l))(u \<mapsto>
            unwrap_or [] (user_loans_without (st_user_loans s) u (l_loan_id l) u) @ [i]), world := w3,
          st_pool_state := (st_pool_state s)(l_asset l \<mapsto> p'),
          lending_events := evs, reentrancy_lock := None\<rparr>"
    by blast
  let ?s1 = "s\<lparr>st_loan := (st_loan s)(u := None), st_loan_by_id := (st_loan_by_id s)(l_loan_id l := None)\<rparr>"
  have "loans_kept s ?s1" by (rule loans_kept_close_borrower [OF l]) simp_all
  moreover have "loans_kept ?s1 t"
    by (rule loans_kept_open [where l = "refinanced_loan cx i u l tm"])
      (simp_all add: t i refinanced_loan_def get_next_loan_id_def)
  ultimately show ?thesis by (rule loans_kept_trans)
qed

text \<open>The loop of a consolidation may meet the same loan again, whose id is empty then.\<close>

lemma loan_calls_retire:
  assumes "fold_outcome (retire_loan X u) ls s = Ok t"
    and "loans_indexed s \<Longrightarrow> \<forall>l \<in> set ls. st_loan_by_id s (l_loan_id l) = None \<or> st_loan_by_id s (l_loan_id l) = Some l"
  shows "loans_kept s t"
  using assms
proof (induction ls arbitrary: s)
  case (Cons l ls)
  from Cons.prems(1) obtain s1 where 1: "retire_loan X u l s = Ok s1"
    and 2: "fold_outcome (retire_loan X u) ls s1 = Ok t" by auto
  from retire_loan_OkD [OF 1] have s1: "st_loan s1 = (st_loan s)(l_borrower l := None)"
    "st_loan_by_id s1 = (st_loan_by_id s)(l_loan_id l := None)" "st_next_loan_id s1 = st_next_loan_id s" by auto
  show ?case
  proof (rule loans_kept_if)
    assume idx: "loans_indexed s"
    have "loans_kept s s1" by (rule loans_kept_close [OF s1]) (use Cons.prems(2) in simp)
    moreover have "loans_kept s1 t"
      by (rule Cons.IH [OF 2]) (use Cons.prems(2) [OF idx] in \<open>auto simp: s1\<close>)
    ultimately show "loans_kept s t" by (rule loans_kept_trans)
  qed
qed simp

lemma loan_calls_consolidate [loan_calls]:
  assumes "consolidate_loans X cx u ids d s = Ok (i, t)"
  shows "loans_kept s t"
proof (rule loans_kept_if)
  assume idx: "loans_indexed s"
  from consolidate_loans_OkD [OF assms] obtain acc a ct fee w1 s2 p w3 rate evs where
    acc: "fold_outcome (consolidate_one cx u s) ids consolidation_start = Ok acc"
    and loop: "fold_outcome (retire_loan X u) (c_old_loans acc) (s\<lparr>reentrancy_lock := Some True, world := w1\<rparr>) = Ok s2"
    and i: "i = get_next_loan_id s2"
    and t: "t = s2\<lparr>st_next_loan_id := Some (i + 1),
          st_loan := (st_loan s2)(u \<mapsto> consolidated_loan cx i u a (c_total_outstanding acc + fee)
            (c_total_collateral acc) ct (timestamp cx + d) rate),
          st_loan_by_id := (st_loan_by_id s2)(i \<mapsto> consolidated_loan cx i u a (c_total_outstanding acc + fee)
            (c_total_collateral acc) ct (timestamp cx + d) rate),
          st_user_loans := (st_user_loans s2)(u \<mapsto> get_user_loans s2 u @ [i]), world := w3,
          st_pool_state := (st_pool_state s2)(a \<mapsto> p\<lparr>p_retained_yield := p_retained_yield p + fee\<rparr>),
          lending_events := evs, reentrancy_lock := None\<rparr>"
    by blast
  let ?s1 = "s\<lparr>reentrancy_lock := Some True, world := w1\<rparr>"
  from consolidate_loop_OkD [OF acc] obtain ls where ls: "consolidation_of s u ids ls" "c_old_loans acc = ls"
    by (auto simp: consolidation_start_def)
  have "loans_kept s ?s1" by (rule loans_kept_same) simp_all
  also have "loans_kept ?s1 s2"
    by (rule loan_calls_retire [OF loop]) (use consolidation_indexed(1) [OF idx ls(1)] ls(2) in auto)
  also have "loans_kept s2 t"
    by (rule loans_kept_open [where l = "consolidated_loan cx i u a (c_total_outstanding acc + fee)
        (c_total_collateral acc) ct (timestamp cx + d) rate"]) (simp_all add: t i consolidated_loan_def)
  finally show "loans_kept s t" .
qed

lemma loan_calls_split_loop:
  "fold_outcome (split_one X cx u l tot due rate) ns (ids, s) = Ok (ids', t) \<Longrightarrow> loans_kept s t"
proof (induction ns arbitrary: ids s)
  case (Cons n ns)
  then obtain ids1 s1 where 1: "split_one X cx u l tot due rate n (ids, s) = Ok (ids1, s1)"
    and 2: "fold_outcome (split_one X cx u l tot due rate) ns (ids1, s1) = Ok (ids', t)" by auto
  have "loans_kept s s1" using split_one_OkD [OF 1]
    by (auto intro!: loans_kept_open [where l = "split_part cx (get_next_loan_id s) u l tot due rate n"] simp: split_part_def)
  then show ?case using Cons.IH [OF 2] by (rule loans_kept_trans)
qed simp

lemma loan_calls_split [loan_calls]:
  assumes "split_loan X cx u ns d s = Ok (ids, t)"
  shows "loans_kept s t"
proof -
  from split_loan_OkD [OF assms] obtain l tot fee w2 rate s2 p evs where
    l: "st_loan s u = Some l" and loop: "fold_outcome (split_one X cx u l tot (timestamp cx + d) rate) ns ([], s\<lparr>reentrancy_lock := Some True,
        st_loan := (st_loan s)(u := None), st_loan_by_id := (st_loan_by_id s)(l_loan_id l := None),
        st_user_loans := user_loans_without (st_user_loans s) u (l_loan_id l), world := w2\<rparr>) = Ok (ids, s2)"
    and t: "t = s2\<lparr>st_pool_state := (st_pool_state s2)(l_asset l \<mapsto> p\<lparr>p_retained_yield := p_retained_yield p + fee\<rparr>),
          lending_events := evs, reentrancy_lock := None\<rparr>"
    by blast
  let ?s1 = "s\<lparr>reentrancy_lock := Some True,
        st_loan := (st_loan s)(u := None), st_loan_by_id := (st_loan_by_id s)(l_loan_id l := None),
        st_user_loans := user_loans_without (st_user_loans s) u (l_loan_id l), world := w2\<rparr>"
  have "loans_kept s ?s1" by (rule loans_kept_close_borrower [OF l]) simp_all
  also have "loans_kept ?s1 s2" by (rule loan_calls_split_loop [OF loop])
  also have "loans_kept s2 t" by (rule loans_kept_same) (simp_all add: t)
  finally show ?thesis .
qed

lemma init_fund_loans:
  "loans_kept s (init_insurance_fund_if_needed s)" "loans_kept s (snd (get_insurance_fund_state s))"
  by (rule loans_kept_same; simp add: get_insurance_fund_state_def Let_def)+

lemma loan_calls_reserves [loan_calls]:
  "withdraw_reserves X cx ad a n s = Ok t \<Longrightarrow> loans_kept s t"
  "replenish_bad_debt_reserve X cx ad a n s = Ok (r, t) \<Longrightarrow> loans_kept s t"
  "allocate_reserves X cx ad a n f s = Ok t \<Longrightarrow> loans_kept s t"
  "fund_retained_yield X cx u a n s = Ok (r, t) \<Longrightarrow> loans_kept s t"
  by (rule loans_kept_same; auto simp: withdraw_reserves_def replenish_bad_debt_reserve_def allocate_reserves_def
      fund_retained_yield_def accessors Let_def)+

lemma loan_calls_accrue [loan_calls]: "accrue_interest_with_reserve cx i s = Ok t \<Longrightarrow> loans_kept s t"
  unfolding accrue_interest_with_reserve_def Let_def and_then_eq_Ok case_prod_beta
  by (auto intro!: loans_kept_same simp: accessors)

lemma loan_calls_insurance [loan_calls]:
  "get_insurance_premium n s = Ok (r, t) \<Longrightarrow> loans_kept s t"
  "set_insurance_premium_rate cx ad n s = Ok t \<Longrightarrow> loans_kept s t"
  "purchase_loan_insurance X cx u i s = Ok (r, t) \<Longrightarrow> loans_kept s t"
  "claim_insurance cx i s = Ok (r, t) \<Longrightarrow> loans_kept s t"
  "cancel_insurance X cx u i s = Ok (r, t) \<Longrightarrow> loans_kept s t"
  "deposit_to_insurance_fund X cx ad n s = Ok t \<Longrightarrow> loans_kept s t"
  "withdraw_from_insurance_fund X cx ad n s = Ok t \<Longrightarrow> loans_kept s t"
  by (rule loans_kept_same; auto simp: get_insurance_premium_def set_insurance_premium_rate_def purchase_loan_insurance_def
      claim_insurance_def deposit_to_insurance_fund_def withdraw_from_insurance_fund_def pay_or_panic_def pay_refund_eq_Ok
      accessors Let_def dest!: cancel_insurance_OkD split: if_splits)+

lemma loan_calls_claim_loop: "fold_outcome (claim_or_zero cx u) ids (rs, s) = Ok (rs', t) \<Longrightarrow> loans_kept s t"
proof (induction ids arbitrary: rs s)
  case (Cons i ids)
  then obtain rs1 s1 where 1: "claim_or_zero cx u i (rs, s) = Ok (rs1, s1)"
    and 2: "fold_outcome (claim_or_zero cx u) ids (rs1, s1) = Ok (rs', t)" by auto
  have "loans_kept s s1" using 1 loans_kept_pool [OF claim_plan_yield_pool]
    by (auto simp: claim_or_zero_def split: outcome.splits)
  then show ?case using Cons.IH [OF 2] by (rule loans_kept_trans)
qed simp

lemma loan_calls_claims [loan_calls]:
  "claim_plan_yield cx u i s = Ok (r, t) \<Longrightarrow> loans_kept s t"
  "claim_plan_yield_batch cx u ids s = Ok (rs, t) \<Longrightarrow> loans_kept s t"
  using loans_kept_pool [OF claim_plan_yield_pool] loan_calls_claim_loop
  by (auto simp: claim_plan_yield_def claim_plan_yield_batch_def)

lemma loan_calls_setup [loan_calls]:
  "initialize cx ad tk br mu cr uc s = Ok t \<Longrightarrow> loans_kept s t"
  "add_asset_pool cx ad a br mu uc s = Ok t \<Longrightarrow> loans_kept s t"
  by (rule loans_kept_same; auto simp: initialize_def assign_role_def add_asset_pool_def Let_def split: if_splits)+

lemma loans_kept_exec:
  assumes "exec X cx c s = Ok t"
  shows "loans_kept s t"
proof -
  note calls = frame [THEN loans_kept_books] pool_frame [THEN loans_kept_pool] loan_calls
  show ?thesis
  proof (cases c)
    case (CGetPendingRewards u a)
    then show ?thesis using assms loans_kept_books [OF same_books_reward_updates(3)] by auto
  next
    case CGetInsuranceFundState
    then show ?thesis using assms init_fund_loans(2) by auto
  qed (insert assms, (hypsubst, unfold exec.simps effect_eq_Ok, (elim exE)?, erule calls)+)
qed

lemma loans_kept_later: "lending_later P XS s t \<Longrightarrow> loans_kept s t"
  by (erule later_keeps [where K = loans_kept]) (auto intro: loans_kept_trans loans_kept_exec loans_kept_same)

lemma loans_indexed_calls: "lending_calls XS s \<Longrightarrow> loans_indexed s"
proof (induction rule: lending_calls.induct)
  case (calls_start cx ad tk br mu cr uc w s)
  then show ?case by (auto simp: initialize_def lending_empty_def assign_role_def loans_indexed_def split: if_splits)
next
  case (calls_call s cx c t)
  then show ?case using loans_kept_exec [OF calls_call(2)] unfolding loans_kept_def by blast
next
  case (calls_world s w)
  then show ?case by (simp add: loans_indexed_def get_next_loan_id_def)
qed

section \<open>Marks and locks\<close>

text \<open>
  A call in the context \<open>cx\<close> marks a deposit with its own ledger or leaves the marks alone; and a call that finds
  the locks free leaves them free.
\<close>

definition sides_kept :: "ctx \<Rightarrow> 'w lending_state \<Rightarrow> 'w lending_state \<Rightarrow> bool" where
  "sides_kept cx s t \<longleftrightarrow>
     (\<forall>k. st_deposit_ledger t k = st_deposit_ledger s k \<or> st_deposit_ledger t k = Some (sequence cx)) \<and>
     (reentrancy_lock s = None \<longrightarrow> reentrancy_lock t = None) \<and> (pause_lock s = None \<longrightarrow> pause_lock t = None)"

lemma sides_same:
  "st_deposit_ledger t = st_deposit_ledger s \<Longrightarrow> (reentrancy_lock s = None \<Longrightarrow> reentrancy_lock t = None) \<Longrightarrow>
   pause_lock t = pause_lock s \<Longrightarrow> sides_kept cx s t"
  by (simp add: sides_kept_def)

lemma sides_refl [simp]: "sides_kept cx s s"
  by (simp add: sides_kept_def)

lemma sides_trans: "sides_kept cx s t \<Longrightarrow> sides_kept cx t u \<Longrightarrow> sides_kept cx s u"
  unfolding sides_kept_def by metis

named_theorems side_calls "calls and the marks and locks they keep"

lemma side_calls_pool [side_calls]:
  "deposit X cx u a n s = Ok (r, t) \<Longrightarrow> sides_kept cx s t"
  "withdraw X cx u a n s = Ok (r, t) \<Longrightarrow> sides_kept cx s t"
  "borrow X cx u a n c ca d s = Ok (i, t) \<Longrightarrow> sides_kept cx s t"
  "repay X cx u s = Ok (r, t) \<Longrightarrow> sides_kept cx s t"
  "withdraw_priority X cx u a n s = Ok (r, t) \<Longrightarrow> sides_kept cx s t"
  "flash_loan X cx u rc a n s = Ok t \<Longrightarrow> sides_kept cx s t"
  "emit_interest_accrual cx u s = Ok (r, t) \<Longrightarrow> sides_kept cx s t"
  "refinance_loan X cx u d s = Ok (i, t) \<Longrightarrow> sides_kept cx s t"
  "liquidate_bad_debt cx ad u s = Ok (r, t) \<Longrightarrow> sides_kept cx s t"
  by (auto simp: sides_kept_def emit_interest_accrual_def accessors Let_def dest!: deposit_OkD withdraw_OkD borrow_OkD repay_OkD
      withdraw_priority_OkD flash_loan_OkD refinance_loan_OkD liquidate_bad_debt_OkD split: option.splits)

lemma side_calls_liquidate [side_calls]: "liquidate X cx u b n s = Ok (r, t) \<Longrightarrow> sides_kept cx s t"
  by (auto simp: liquidate_def sides_kept_def accessors Let_def)

lemma retire_loop_sides: "fold_outcome (retire_loan X u) ls s = Ok t \<Longrightarrow> sides_kept cx s t"
proof (induction ls arbitrary: s)
  case (Cons l ls)
  then obtain s1 where 1: "retire_loan X u l s = Ok s1" and 2: "fold_outcome (retire_loan X u) ls s1 = Ok t" by auto
  have "sides_kept cx s s1" using retire_loan_OkD [OF 1] by (auto intro!: sides_same)
  then show ?case using Cons.IH [OF 2] by (rule sides_trans)
qed simp

lemma split_loop_sides:
  "fold_outcome (split_one X cx u l tot due rate) ns (ids, s) = Ok (ids', t) \<Longrightarrow> sides_kept cx s t"
proof (induction ns arbitrary: ids s)
  case (Cons n ns)
  then obtain ids1 s1 where 1: "split_one X cx u l tot due rate n (ids, s) = Ok (ids1, s1)"
    and 2: "fold_outcome (split_one X cx u l tot due rate) ns (ids1, s1) = Ok (ids', t)" by auto
  have "sides_kept cx s s1" using split_one_OkD [OF 1] by (auto intro!: sides_same)
  then show ?case using Cons.IH [OF 2] by (rule sides_trans)
qed simp

lemma sides_unlocked:
  "sides_kept cx s1 t \<Longrightarrow> st_deposit_ledger s1 = st_deposit_ledger s \<Longrightarrow> pause_lock s1 = pause_lock s \<Longrightarrow>
   reentrancy_lock t' = None \<Longrightarrow> st_deposit_ledger t' = st_deposit_ledger t \<Longrightarrow> pause_lock t' = pause_lock t \<Longrightarrow> sides_kept cx s t'"
  by (simp add: sides_kept_def)

lemma side_calls_loops [side_calls]:
  "consolidate_loans X cx u ids d s = Ok (i, t) \<Longrightarrow> sides_kept cx s t"
  "split_loan X cx u ns d s = Ok (ids', t) \<Longrightarrow> sides_kept cx s t"
  by (drule consolidate_loans_OkD, clarify, drule retire_loop_sides, erule sides_unlocked, simp_all)
    (drule split_loan_OkD, clarify, drule split_loop_sides, erule sides_unlocked, simp_all)

lemma side_calls_roles [side_calls]:
  "initialize cx ad tk br mu cr uc s = Ok t \<Longrightarrow> sides_kept cx s t"
  "lending_assign_role cx ad u q s = Ok t \<Longrightarrow> sides_kept cx s t"
  "lending_revoke_role cx ad u q s = Ok t \<Longrightarrow> sides_kept cx s t"
  "pause cx ad s = Ok t \<Longrightarrow> sides_kept cx s t"
  "unpause cx ad s = Ok t \<Longrightarrow> sides_kept cx s t"
  by (auto simp: sides_kept_def initialize_def lending_assign_role_def lending_revoke_role_def assign_role_def revoke_role_def
      pause_def unpause_def pause_contract_def unpause_contract_def lock_defs accessors Let_def split: option.splits if_splits)

lemma side_calls_settings [side_calls]:
  "add_asset_pool cx ad a br mu uc s = Ok t \<Longrightarrow> sides_kept cx s t"
  "pause_asset_pool cx ad a b s = Ok t \<Longrightarrow> sides_kept cx s t"
  "set_nft_token cx ad n s = Ok t \<Longrightarrow> sides_kept cx s t"
  "whitelist_collateral cx ad tk s = Ok t \<Longrightarrow> sides_kept cx s t"
  "remove_collateral cx ad tk s = Ok t \<Longrightarrow> sides_kept cx s t"
  "add_reserve cx ad tk l th s = Ok t \<Longrightarrow> sides_kept cx s t"
  "set_grace_period cx ad a g s = Ok t \<Longrightarrow> sides_kept cx s t"
  "set_late_fee_rate cx ad a g s = Ok t \<Longrightarrow> sides_kept cx s t"
  "set_flash_loan_fee cx ad f s = Ok t \<Longrightarrow> sides_kept cx s t"
  "whitelist_flash_loan_receiver cx ad tk s = Ok t \<Longrightarrow> sides_kept cx s t"
  "remove_flash_loan_receiver cx ad tk s = Ok t \<Longrightarrow> sides_kept cx s t"
  "set_reserve_factor cx ad a rf s = Ok t \<Longrightarrow> sides_kept cx s t"
  by (auto simp: sides_kept_def add_asset_pool_def pause_asset_pool_def set_nft_token_def whitelist_collateral_def
      remove_collateral_def add_reserve_def set_grace_period_def set_late_fee_rate_def set_flash_loan_fee_def
      whitelist_flash_loan_receiver_def remove_flash_loan_receiver_def set_reserve_factor_def accessors Let_def)

lemma side_calls_farming [side_calls]:
  "stake_lp_tokens cx u a n s = Ok t \<Longrightarrow> sides_kept cx s t"
  "unstake_lp_tokens cx u a n s = Ok t \<Longrightarrow> sides_kept cx s t"
  "claim_rewards cx u a s = Ok (r, t) \<Longrightarrow> sides_kept cx s t"
  "set_reward_rate cx ad a n s = Ok t \<Longrightarrow> sides_kept cx s t"
  "sides_kept cx s (snd (get_pending_rewards cx u a s))"
  by (auto simp: sides_kept_def stake_lp_tokens_def unstake_lp_tokens_def claim_rewards_def set_reward_rate_def
      get_pending_rewards_def calculate_pending_rewards_def update_reward_pool_def update_user_reward_debt_def accessors Let_def)

lemma side_calls_reserves [side_calls]:
  "withdraw_reserves X cx ad a n s = Ok t \<Longrightarrow> sides_kept cx s t"
  "replenish_bad_debt_reserve X cx ad a n s = Ok (r, t) \<Longrightarrow> sides_kept cx s t"
  "allocate_reserves X cx ad a n f s = Ok t \<Longrightarrow> sides_kept cx s t"
  "fund_retained_yield X cx u a n s = Ok (r, t) \<Longrightarrow> sides_kept cx s t"
  by (auto simp: sides_kept_def withdraw_reserves_def replenish_bad_debt_reserve_def allocate_reserves_def
      fund_retained_yield_def accessors Let_def)

lemma side_calls_accrue [side_calls]: "accrue_interest_with_reserve cx i s = Ok t \<Longrightarrow> sides_kept cx s t"
  unfolding accrue_interest_with_reserve_def Let_def and_then_eq_Ok case_prod_beta
  by (auto intro!: sides_same simp: accessors)

lemma init_fund_sides [simp]:
  "st_deposit_ledger (init_insurance_fund_if_needed s) = st_deposit_ledger s"
  "reentrancy_lock (init_insurance_fund_if_needed s) = reentrancy_lock s"
  "pause_lock (init_insurance_fund_if_needed s) = pause_lock s"
  by (simp_all add: init_insurance_fund_if_needed_def Let_def)

lemma side_calls_insurance [side_calls]:
  "get_insurance_premium n s = Ok (r, t) \<Longrightarrow> sides_kept cx s t"
  "set_insurance_premium_rate cx ad n s = Ok t \<Longrightarrow> sides_kept cx s t"
  "purchase_loan_insurance X cx u i s = Ok (r, t) \<Longrightarrow> sides_kept cx s t"
  "claim_insurance cx i s = Ok (r, t) \<Longrightarrow> sides_kept cx s t"
  "cancel_insurance X cx u i s = Ok (r, t) \<Longrightarrow> sides_kept cx s t"
  "deposit_to_insurance_fund X cx ad n s = Ok t \<Longrightarrow> sides_kept cx s t"
  "withdraw_from_insurance_fund X cx ad n s = Ok t \<Longrightarrow> sides_kept cx s t"
  "sides_kept cx s (snd (get_insurance_fund_state s))"
  by (rule sides_same; auto simp: get_insurance_premium_def set_insurance_premium_rate_def purchase_loan_insurance_def
      claim_insurance_def deposit_to_insurance_fund_def withdraw_from_insurance_fund_def pay_or_panic_def pay_refund_eq_Ok
      get_insurance_fund_state_def accessors Let_def dest!: cancel_insurance_OkD split: if_splits)+

lemma side_calls_links [side_calls]:
  "set_inheritance_contract cx ad c s = Ok t \<Longrightarrow> sides_kept cx s t"
  "set_governance_contract cx ad c s = Ok t \<Longrightarrow> sides_kept cx s t"
  "add_supported_wrapped_token cx ad c s = Ok t \<Longrightarrow> sides_kept cx s t"
  "remove_wrapped_token cx ad c s = Ok t \<Longrightarrow> sides_kept cx s t"
  "set_rate_model cx ad b o1 s1 s2 rr s = Ok t \<Longrightarrow> sides_kept cx s t"
  "upgrade cx ad h s = Ok t \<Longrightarrow> sides_kept cx s t"
  by (auto simp: sides_kept_def set_inheritance_contract_def set_governance_contract_def add_supported_wrapped_token_def
      remove_wrapped_token_def set_rate_model_def upgrade_def accessors Let_def)

lemma plan_yield_sides:
  "index_plan_yield i s = Ok t \<Longrightarrow> sides_kept cx s t"
  "claim_plan_yield_inner cx u i s = Ok (r, t) \<Longrightarrow> sides_kept cx s t"
  by (auto simp: sides_kept_def index_plan_yield_def claim_plan_yield_inner_def set_position_def accessors Let_def split: if_splits)

lemma claim_loop_sides: "fold_outcome (claim_or_zero cx u) ids (rs, s) = Ok (rs', t) \<Longrightarrow> sides_kept cx s t"
proof (induction ids arbitrary: rs s)
  case (Cons i ids)
  then obtain rs1 s1 where 1: "claim_or_zero cx u i (rs, s) = Ok (rs1, s1)"
    and 2: "fold_outcome (claim_or_zero cx u) ids (rs1, s1) = Ok (rs', t)" by auto
  have "sides_kept cx s s1" using 1 plan_yield_sides(2) by (auto simp: claim_or_zero_def split: outcome.splits)
  then show ?case using Cons.IH [OF 2] by (rule sides_trans)
qed simp

lemma sides_outside [simp]:
  "sides_kept cx s (publish ev t) \<longleftrightarrow> sides_kept cx s t" "sides_kept cx s (set_position i p t) \<longleftrightarrow> sides_kept cx s t"
  by (simp_all add: sides_kept_def publish_def set_position_def)

lemma side_calls_plans [side_calls]:
  "register_plan_yield cx u i a n s = Ok t \<Longrightarrow> sides_kept cx s t"
  "unregister_plan_yield cx u i s = Ok t \<Longrightarrow> sides_kept cx s t"
  "set_plan_yield_boost cx ad i b s = Ok t \<Longrightarrow> sides_kept cx s t"
  by (auto simp: register_plan_yield_def unregister_plan_yield_def set_plan_yield_boost_def Let_def
      dest: plan_yield_sides(1) split: option.splits)

lemma side_calls_claims [side_calls]:
  "claim_plan_yield cx u i s = Ok (r, t) \<Longrightarrow> sides_kept cx s t"
  "claim_plan_yield_batch cx u ids s = Ok (rs, t) \<Longrightarrow> sides_kept cx s t"
  by (auto simp: claim_plan_yield_def claim_plan_yield_batch_def dest: plan_yield_sides(2) claim_loop_sides)

lemma sides_kept_exec:
  assumes "exec X cx c s = Ok t"
  shows "sides_kept cx s t"
proof (cases c)
  case (CGetPendingRewards u a)
  then show ?thesis using assms side_calls_farming(5) by auto
next
  case CGetInsuranceFundState
  then show ?thesis using assms side_calls_insurance(8) by auto
qed (insert assms, (hypsubst, unfold exec.simps effect_eq_Ok, (elim exE)?, erule side_calls)+)

text \<open>Between the calls of a run no lock is held, and a mark stays while its ledger lasts.\<close>

lemma sides_world [simp]: "sides_kept cx s (s\<lparr>world := w\<rparr>)"
  by (simp add: sides_kept_def)

lemma locks_free: "lending_calls XS s \<Longrightarrow> reentrancy_lock s = None \<and> pause_lock s = None"
proof (induction rule: lending_calls.induct)
  case (calls_start cx ad tk br mu cr uc w s)
  then show ?case using side_calls_roles(1) by (fastforce simp: sides_kept_def lending_empty_def ac_empty_def)
next
  case (calls_call s cx c t)
  then show ?case using sides_kept_exec [OF calls_call(2)] by (simp add: sides_kept_def)
qed simp

lemma mark_stays:
  assumes "lending_later (\<lambda>c. sequence c = n) XS s t" and "st_deposit_ledger s k = Some n"
  shows "st_deposit_ledger t k = Some n"
  using assms
proof (induction rule: lending_later.induct)
  case (later_call t cx c u)
  then show ?case using sides_kept_exec [OF later_call(3)] unfolding sides_kept_def by metis
qed simp_all

end
