(* ===== verification/Lending_System_Properties.thy ===== *)
theory Lending_System_Properties
  imports Lending_Demo Lending_Later
begin

text \<open>
  The properties of the lending contract as a whole: solvency and that a depositor's withdrawal really goes
  through, over the states of safe runs on the world of \<open>Chain\<close>; the index of the loans and the accounting of the
  shares, over the states that any calls lead to.
\<close>

lemma run_calls: "lending_run XS self s \<Longrightarrow> lending_calls XS s"
  by (induction rule: lending_run.induct) (auto intro: lending_calls.intros)

section \<open>Solvency\<close>

text \<open>
  C1. In every reachable state the contract holds, of every token, at least what it owes: the
  unborrowed deposits, the retained yield and the reserve of the token's pool, the collateral of all
  open loans and the balance of the insurance fund. The runs exclude only the calls that
  \<open>solvency_safe\<close> names.
\<close>

theorem lending_solvent:
  assumes "lending_run (chain_ops prog verify self) self s"
  shows "owed s a \<le> token_balance (ch_tokens (world s) a) self"
  using chain_runs.run_books [OF assms] by (simp add: books_inv_def covered_def)

theorem lending_solvent_witness:
  "owed demo_borrowed (Addr 10) = 49000 \<and> owed demo_borrowed (Addr 11) = 2000 \<and>
   owed demo_borrowed (Addr 10) \<le> token_balance (ch_tokens (world demo_borrowed) (Addr 10)) (Addr 100)"
proof -
  have "lending_run (chain_ops demo_program (\<lambda>_ _ _ _. None) (Addr 100)) (Addr 100) demo_borrowed"
    using demo_run by (simp add: demo_ops_def [abs_def])
  from lending_solvent [OF this, of "Addr 10"] show ?thesis
    by (simp add: owed_def pools_owed_def collateral_sum_def collateral_in_def fund_owed_def pool_claim_def
        get_next_loan_id_def demo_defs numeral_2_eq_2)
qed

text \<open>
  C17. In every reachable state, the unsafe calls included, the loan of a borrower is the one stored under its
  id and carries the borrower's name, and every stored loan has its own id, below the counter. And no id is ever
  used again: once the counter has passed an id, in every later state its place holds the same loan or none,
  so that a place that is empty then stays empty.
\<close>

theorem open_loans_indexed:
  assumes "lending_calls XS s" and "lending_later (\<lambda>cx. True) XS s t"
  shows "(st_loan t u = Some l \<longrightarrow> st_loan_by_id t (l_loan_id l) = Some l \<and> l_borrower l = u) \<and>
    (st_loan_by_id t i = Some k \<longrightarrow> l_loan_id k = i \<and> i < get_next_loan_id t) \<and>
    (i < get_next_loan_id s \<longrightarrow> i < get_next_loan_id t \<and>
       (st_loan_by_id t i = None \<or> st_loan_by_id t i = st_loan_by_id s i))"
proof -
  have "loans_indexed t" by (rule loans_indexed_calls [OF later_calls [OF assms(2,1)]])
  moreover have "get_next_loan_id s \<le> get_next_loan_id t \<and>
      (\<forall>i < get_next_loan_id s. st_loan_by_id t i = None \<or> st_loan_by_id t i = st_loan_by_id s i)"
    using loans_kept_later [OF assms(2)] loans_indexed_calls [OF assms(1)] by (simp add: loans_kept_def)
  ultimately show ?thesis by (auto simp: loans_indexed_def)
qed

theorem open_loans_indexed_witness:
  "\<exists>t. repay (demo_ops (demo_cx 31536005)) (demo_cx 31536005) (Addr 3) demo_borrowed = Ok t \<and>
     st_loan_by_id demo_borrowed 1 = Some demo_loan \<and> 1 < get_next_loan_id (snd t) \<and>
     (st_loan_by_id (snd t) 1 = None \<or> st_loan_by_id (snd t) 1 = Some demo_loan)"
proof -
  obtain r t where t: "repay (demo_ops (demo_cx 31536005)) (demo_cx 31536005) (Addr 3) demo_borrowed = Ok (r, t)"
    using demo_repay by blast
  have "exec (demo_ops (demo_cx 31536005)) (demo_cx 31536005) (CRepay (Addr 3)) demo_borrowed = Ok t"
    using t by (simp add: effect_def)
  then have "lending_later (\<lambda>cx. True) demo_ops demo_borrowed t"
    using later_call [OF later_same, of "\<lambda>cx. True"] by blast
  from open_loans_indexed [OF run_calls [OF demo_run] this, of "Addr 3" demo_loan 1 demo_loan] t show ?thesis
    by (simp add: demo_borrowed_def get_next_loan_id_def)
qed

section \<open>Shares\<close>

lemma shares_le_pool:
  assumes "shares_inv s"
  shows "get_shares s a u \<le> pool_shares s a"
proof -
  have "get_shares s a u \<le> share_sum (st_shares s) a"
    unfolding get_shares_def using assms by (intro share_le_sum) (simp add: shares_inv_def)
  also have "\<dots> \<le> pool_shares s a" using assms le_add1 unfolding shares_inv_def by metis
  finally show ?thesis .
qed

text \<open>
  C19. In every reachable state, the unsafe calls included, the shares of a pool are the shares of
  its depositors and, once there are any, the minimum liquidity locked by the first deposit.
\<close>

theorem pool_shares_are_depositors_shares:
  assumes "lending_calls XS s"
  shows "finite (dom (st_shares s)) \<and> pool_shares s a =
    share_sum (st_shares s) a + (if pool_shares s a = 0 then 0 else MINIMUM_LIQUIDITY) \<and>
    get_shares s a u \<le> pool_shares s a"
proof -
  have inv: "shares_inv s" using lending_calls_shares [OF assms] by simp
  then show ?thesis using shares_le_pool by (auto simp: shares_inv_def)
qed

theorem pool_shares_are_depositors_shares_witness:
  "pool_shares demo_borrowed (Addr 10) = 50000 \<and>
   50000 = share_sum (st_shares demo_borrowed) (Addr 10) + MINIMUM_LIQUIDITY"
proof -
  have "pool_shares demo_borrowed (Addr 10) = 50000" by (simp add: pool_shares_def demo_defs)
  then show ?thesis using pool_shares_are_depositors_shares [OF run_calls [OF demo_run], of "Addr 10"] by simp
qed

section \<open>Withdrawals go through\<close>

lemma pool_cash_le_owed:
  assumes "st_pool_state s a = Some p"
  shows "int (p_total_deposits p) - int (p_total_borrowed p) \<le> owed s a"
proof -
  have "0 \<le> collateral_sum (st_loan_by_id s) (get_next_loan_id s) a"
    unfolding collateral_sum_def by (rule sum_nonneg) (simp add: collateral_in_nonneg)
  moreover have "0 \<le> fund_owed (st_token s) (st_insurance_fund s) a"
    by (simp add: fund_owed_def split: option.splits)
  ultimately show ?thesis using assms by (simp add: owed_def pools_owed_Some pool_claim_def)
qed

text \<open>A transfer by the contract of what it holds succeeds on a well-formed token.\<close>

lemma contract_transfer_succeeds:
  assumes "token_inv (ch_tokens w a)" and "int n \<le> token_balance (ch_tokens w a) self"
  shows "\<exists>w'. tok_transfer (chain_ops prog verify self cx) a self u (int n) w = Some w'"
proof -
  let ?t = "ch_tokens w a"
  have bal: "0 \<le> token_balance ?t b \<and> token_balance ?t b \<le> MAX_SUPPLY" for b
  proof -
    have "token_balance ?t b \<le> holders_total ?t"
    proof (cases "b \<in> dom (tk_balance ?t)")
      case True
      then show ?thesis unfolding holders_total_def using assms(1)
        by (intro member_le_sum) (auto simp: token_inv_def)
    next
      case False
      have "0 \<le> holders_total ?t" unfolding holders_total_def using assms(1)
        by (intro sum_nonneg) (auto simp: token_inv_def)
      then show ?thesis using False by (auto simp: token_balance_def domIff)
    qed
    then show ?thesis using assms(1) by (auto simp: token_inv_def)
  qed
  show ?thesis using bal [of self] bal [of u] assms(2)
    by (simp add: chain_ops_def chain_transfer_Some token_transfer_Ok acting_for_def i128_min_def i128_max_def MAX_SUPPLY_def)
qed

text \<open>
  C18. A depositor can leave: in every state of a run without the calls \<open>solvency_safe\<close> excludes, while neither the
  contract nor the pool is paused, an account that authorizes the withdrawal, holds the shares, made no deposit of
  the asset in this or a later ledger, and asks for shares worth something and no more than the pool's unborrowed cash
  is paid their value, provided the token's own supply is the sum of its balances, within its cap. Solvency is what
  makes the token transfer succeed; that no lock is held is a fact of every reachable state.
\<close>

theorem withdrawal_succeeds:
  assumes run: "lending_run (chain_ops prog verify self) self s" and cx: "at_self self cx" "authorized cx u"
    and live: "\<not> is_contract_paused s"
    and pool: "st_pool_state s a = Some p" "\<not> p_is_paused p"
    and sh: "0 < sh" "sh \<le> get_shares s a u" "\<And>l. st_deposit_ledger s (u, a) = Some l \<Longrightarrow> l < sequence cx"
    and cash: "0 < assets_for_shares p sh" "assets_for_shares p sh + p_total_borrowed p \<le> p_total_deposits p"
    and token: "token_inv (ch_tokens (world s) a)"
  shows "\<exists>t. withdraw (chain_ops prog verify self cx) cx u a sh s = Ok (assets_for_shares p sh, t)"
proof -
  let ?n = "assets_for_shares p sh"
  have free: "\<not> is_contract_paused s" "\<not> unwrap_or False (pause_lock s)" "reentrancy_lock s = None"
    using live locks_free [OF run_calls [OF run]] by simp_all
  have books: "books_inv (chain_ops prog verify self cx) self s" using chain_runs.run_books [OF run] .
  have shares: "sh \<le> p_total_shares p"
  proof -
    have "shares_inv s" using lending_calls_shares [OF run_calls [OF run]] by simp
    from shares_le_pool [OF this, of a u] show ?thesis using sh(2) pool(1) by (simp add: pool_shares_def)
  qed
  have admin: "st_admin s \<noteq> None" using books by (simp add: books_inv_def pools_listed_def)
  have "int ?n \<le> owed s a" using pool_cash_le_owed [OF pool(1)] cash(2) by linarith
  also have "\<dots> \<le> token_balance (ch_tokens (world s) a) self"
    using books by (simp add: books_inv_def covered_def)
  finally obtain w where w: "tok_transfer (chain_ops prog verify self cx) a self u (int ?n) (world s) = Some w"
    using contract_transfer_succeeds [OF token] by blast
  have self: "current_contract_address cx = self" using cx(1) by (simp add: at_self_def)
  have defense: "\<forall>l. st_deposit_ledger s (u, a) = Some l \<longrightarrow> l < sequence cx" using sh(3) by blast
  have cash': "?n \<le> p_total_deposits p - p_total_borrowed p" "?n \<le> p_total_deposits p" using cash(2) by linarith+
  show ?thesis unfolding withdraw_def Let_def and_then_eq_Ok accessors
    using cx(2) free pool sh(1,2) shares admin w self defense cash(1) cash' by (simp add: get_shares_def)
qed

theorem withdrawal_succeeds_witness:
  "\<exists>t. withdraw (demo_ops (demo_cx 6)) (demo_cx 6) (Addr 2) (Addr 10) 10000 demo_borrowed = Ok (10000, t)"
proof -
  let ?p = "(new_pool 500 2000 8000)\<lparr>p_total_deposits := 50000, p_total_shares := 50000, p_total_borrowed := 1000\<rparr>"
  have n: "assets_for_shares ?p 10000 = 10000"
    by (simp add: assets_for_shares_def new_pool_def arith_eval)
  have run: "lending_run (chain_ops demo_program (\<lambda>_ _ _ _. None) (Addr 100)) (Addr 100) demo_borrowed"
    using demo_run by (simp add: demo_ops_def [abs_def])
  have tok: "token_inv (ch_tokens (world demo_borrowed) (Addr 10))"
    by (auto simp: token_inv_def holders_total_def token_balance_def token_total_supply_def demo_defs MAX_SUPPLY_def)
  have "\<exists>t. withdraw (chain_ops demo_program (\<lambda>_ _ _ _. None) (Addr 100) (demo_cx 6)) (demo_cx 6) (Addr 2) (Addr 10)
      10000 demo_borrowed = Ok (assets_for_shares ?p 10000, t)"
    by (rule withdrawal_succeeds [OF run])
       (simp_all add: n tok, simp_all add: demo_defs is_contract_paused_def get_shares_def)
  then show ?thesis by (simp add: n demo_ops_def)
qed

end
