(* ===== verification/Lending_Pool_Properties.thy ===== *)
theory Lending_Pool_Properties
  imports Lending_Demo Lending_Later
begin

text \<open>
  The properties of the pool: what deposits, withdrawals, loans, repayments and flash loans do
  to the contract's state and to the accounts of the tokens, on the world of \<open>Chain\<close>.
\<close>

section \<open>Token movements\<close>

text \<open>A transfer between two accounts on the chain, as the balances of its token.\<close>

lemma chain_transfer_balances:
  assumes "tok_transfer (chain_ops prog verify self cx) tk a b n w = Some w'" and "a \<noteq> b"
  shows "token_balance (ch_tokens w' tk') c = token_balance (ch_tokens w tk') c +
    (if tk' = tk \<and> c = b then n else if tk' = tk \<and> c = a then - n else 0)"
  using chain_env.transfer_debits [OF assms] chain_env.transfer_credits [OF assms]
    chain_env.transfer_frame [OF assms(1), of tk' c]
  by (cases "tk' = tk"; cases "c = a"; cases "c = b") (simp_all add: assms(2))

section \<open>Deposits and withdrawals\<close>

text \<open>
  C20. A successful deposit takes exactly the deposited amount from the depositor, credits the
  returned shares to the depositor alone and enters the amount in the pool's books; the first
  deposit also locks the minimum liquidity.
\<close>

theorem deposit_effect:
  assumes "deposit (chain_ops prog verify self cx) cx u a n s = Ok (sh, t)" and "at_self self cx"
  shows "\<exists>p q. st_pool_state s a = Some p \<and> st_pool_state t a = Some q \<and>
    p_total_deposits q = p_total_deposits p + n \<and>
    p_total_shares q = p_total_shares p + sh + (if p_total_shares p = 0 then MINIMUM_LIQUIDITY else 0) \<and>
    get_shares t a u = get_shares s a u + sh \<and>
    (\<forall>v b. (v, b) \<noteq> (u, a) \<longrightarrow> get_shares t b v = get_shares s b v) \<and>
    token_balance (ch_tokens (world t) a) self = token_balance (ch_tokens (world s) a) self + int n \<and>
    token_balance (ch_tokens (world t) a) u = token_balance (ch_tokens (world s) a) u - int n \<and> 0 < n \<and> 0 < sh"
proof -
  from deposit_OkD [OF assms(1)] obtain p w where
    *: "authorized cx u" "st_pool_state s a = Some p" "0 < n" "0 < sh"
      "tok_transfer (chain_ops prog verify self cx) a u (current_contract_address cx) (int n) (world s) = Some w"
    and t: "t = s\<lparr>world := w, st_pool_state := (st_pool_state s)(a \<mapsto> p\<lparr>p_total_deposits := p_total_deposits p + n,
           p_total_shares := p_total_shares p + locked_liquidity p + sh\<rparr>),
           st_shares := (st_shares s)((u, a) \<mapsto> get_shares s a u + sh),
           st_deposit_ledger := (st_deposit_ledger s)((u, a) \<mapsto> sequence cx),
           lending_events := lending_events s @ [DepositEvent u a n sh], reentrancy_lock := None\<rparr>"
    by blast
  have u: "u \<noteq> self" "current_contract_address cx = self" using *(1) assms(2) by (auto simp: at_self_def)
  show ?thesis
    using * chain_transfer_balances [OF *(5)] u by (simp add: t get_shares_def locked_liquidity_def)
qed

theorem deposit_effect_witness:
  "\<exists>p q. st_pool_state demo_listed (Addr 10) = Some p \<and> st_pool_state demo_deposited (Addr 10) = Some q \<and>
    p_total_deposits q = p_total_deposits p + 50000 \<and>
    p_total_shares q = p_total_shares p + 49000 + (if p_total_shares p = 0 then MINIMUM_LIQUIDITY else 0)"
  using deposit_effect [OF demo_deposit [unfolded demo_ops_def] demo_at_self] by blast

text \<open>
  C21. A successful withdrawal burns exactly the shares given and pays their value at the pool's
  exchange rate, which is never more than the pool's unborrowed cash.
\<close>

theorem withdraw_effect:
  assumes "withdraw (chain_ops prog verify self cx) cx u a sh s = Ok (n, t)" and "at_self self cx"
  shows "\<exists>p q. st_pool_state s a = Some p \<and> st_pool_state t a = Some q \<and>
    n = assets_for_shares p sh \<and> n + p_total_borrowed p \<le> p_total_deposits p \<and>
    p_total_deposits q = p_total_deposits p - n \<and> p_total_shares q = p_total_shares p - sh \<and>
    get_shares t a u + sh = get_shares s a u \<and>
    (\<forall>v b. (v, b) \<noteq> (u, a) \<longrightarrow> get_shares t b v = get_shares s b v) \<and>
    token_balance (ch_tokens (world t) a) self = token_balance (ch_tokens (world s) a) self - int n \<and>
    token_balance (ch_tokens (world t) a) u = token_balance (ch_tokens (world s) a) u + int n"
proof -
  from withdraw_OkD [OF assms(1)] obtain p w where
    *: "authorized cx u" "st_pool_state s a = Some p" "0 < n" "sh \<le> get_shares s a u" "sh \<le> p_total_shares p"
      "n = assets_for_shares p sh" "n \<le> p_total_deposits p - p_total_borrowed p"
      "tok_transfer (chain_ops prog verify self cx) a (current_contract_address cx) u (int n) (world s) = Some w"
    and t: "t = s\<lparr>world := w, st_pool_state := (st_pool_state s)(a \<mapsto> p\<lparr>p_total_deposits := p_total_deposits p - n,
           p_total_shares := p_total_shares p - sh\<rparr>),
           st_shares := (st_shares s)((u, a) \<mapsto> get_shares s a u - sh),
           lending_events := lending_events s @ [WithdrawEvent u a sh n], reentrancy_lock := None\<rparr>"
    by blast
  have u: "u \<noteq> self" "self \<noteq> u" "current_contract_address cx = self" using *(1) assms(2) by (auto simp: at_self_def)
  have "n + p_total_borrowed p \<le> p_total_deposits p" using *(3,7) by linarith
  then show ?thesis
    using *(2,4,6) chain_transfer_balances [OF *(8)] u by (simp add: t get_shares_def)
qed

text \<open>The lender of the example takes 10000 shares back two ledgers later.\<close>

definition demo_withdrawn :: "chain_world lending_state" where
  "demo_withdrawn = demo_deposited\<lparr>
     st_pool_state := [Addr 10 \<mapsto> (new_pool 500 2000 8000)\<lparr>p_total_deposits := 40000, p_total_shares := 40000\<rparr>],
     st_shares := [(Addr 2, Addr 10) \<mapsto> 39000],
     world := settled (Addr 10) (Addr 100) 40000 (Addr 2) 60000
       (settled (Addr 10) (Addr 2) 50000 (Addr 100) 50000 demo_world),
     lending_events := [DepositEvent (Addr 2) (Addr 10) 50000 49000, WithdrawEvent (Addr 2) (Addr 10) 10000 10000]\<rparr>"

lemma demo_withdraw:
  "withdraw (demo_ops (demo_cx 6)) (demo_cx 6) (Addr 2) (Addr 10) 10000 demo_deposited = Ok (10000, demo_withdrawn)"
  by (simp add: withdraw_def demo_withdrawn_def demo_defs guard_eval chain_eval arith_eval assets_for_shares_def
      cong: eval_congs del: and_then_eq_Ok)

theorem withdraw_effect_witness:
  "\<exists>p q. st_pool_state demo_deposited (Addr 10) = Some p \<and> st_pool_state demo_withdrawn (Addr 10) = Some q \<and>
    10000 = assets_for_shares p 10000 \<and> 10000 + p_total_borrowed p \<le> p_total_deposits p \<and>
    p_total_shares q = p_total_shares p - 10000"
  using withdraw_effect [OF demo_withdraw [unfolded demo_ops_def] demo_at_self] by blast

text \<open>
  C22. Rounding is always against the depositor: whoever deposits and then withdraws all the shares
  received gets back at most what was deposited, in a pool that holds no assets while it has no
  shares.
\<close>

theorem deposit_withdraw_no_profit:
  assumes "deposit X cx u a n s = Ok (sh, t)" and "withdraw X' cx' u a sh t = Ok (m, t')"
    and "\<And>p. st_pool_state s a = Some p \<Longrightarrow> p_total_shares p = 0 \<Longrightarrow> p_total_deposits p = 0"
  shows "m \<le> n"
proof -
  from deposit_OkD [OF assms(1)] obtain p where
    p: "st_pool_state s a = Some p" "shares_for_deposit p n = sh + locked_liquidity p" "0 < sh" "0 < n"
    and t: "st_pool_state t = (st_pool_state s)(a \<mapsto> p\<lparr>p_total_deposits := p_total_deposits p + n,
           p_total_shares := p_total_shares p + locked_liquidity p + sh\<rparr>)" by fastforce
  let ?q = "p\<lparr>p_total_deposits := p_total_deposits p + n, p_total_shares := p_total_shares p + locked_liquidity p + sh\<rparr>"
  have m: "m = assets_for_shares ?q sh" using withdraw_OkD [OF assms(2)] t by auto
  let ?S = "p_total_shares p + locked_liquidity p" and ?D = "p_total_deposits p"
  have sD: "sh * ?D \<le> n * ?S"
  proof (cases "p_total_shares p = 0 \<or> ?D = 0")
    case True
    then show ?thesis using assms(3) [OF p(1)] by auto
  next
    case False
    then show ?thesis using shares_for_deposit_le [of p n] p(2) by (simp add: locked_liquidity_def)
  qed
  have "m * (?S + sh) \<le> sh * (?D + n)" using assets_for_shares_le [of ?q sh] m by simp
  also have "\<dots> \<le> n * (?S + sh)" using sD by (simp add: algebra_simps)
  finally show ?thesis using p(3) by simp
qed

theorem deposit_withdraw_no_profit_witness:
  "\<exists>m t'. withdraw (demo_ops (demo_cx 6)) (demo_cx 6) (Addr 2) (Addr 10) 49000 demo_deposited = Ok (m, t') \<and> m \<le> 50000"
proof -
  have "\<exists>t'. withdraw (demo_ops (demo_cx 6)) (demo_cx 6) (Addr 2) (Addr 10) 49000 demo_deposited = Ok (49000, t')"
    by (simp add: withdraw_def demo_defs guard_eval chain_eval arith_eval assets_for_shares_def
        cong: eval_congs del: and_then_eq_Ok)
  moreover have "p_total_deposits p = 0" if "st_pool_state demo_listed (Addr 10) = Some p" for p
    using that by (auto simp: demo_defs)
  ultimately show ?thesis using deposit_withdraw_no_profit [OF demo_deposit] by blast
qed

text \<open>
  C23. In the ledger of a deposit the depositor can neither withdraw the asset nor borrow against
  it as collateral: not right after the deposit, and not after any calls, of whoever makes them, and any steps of
  other contracts that follow it in the same ledger.
\<close>

theorem no_withdraw_or_borrow_in_deposit_ledger:
  assumes "deposit X cx u a n s = Ok (sh, t)" and "lending_later (\<lambda>c. sequence c = sequence cx) XS t v"
    and "sequence cx' \<le> sequence cx"
  shows "withdraw X' cx' u a k v \<noteq> Ok r \<and> borrow X' cx' u b m a ca d v \<noteq> Ok r'"
proof -
  have "st_deposit_ledger t (u, a) = Some (sequence cx)" using deposit_OkD [OF assms(1)] by auto
  then have "st_deposit_ledger v (u, a) = Some (sequence cx)" by (rule mark_stays [OF assms(2)])
  then show ?thesis
    using assms(3) by (cases r; cases r') (auto dest!: withdraw_OkD borrow_OkD)
qed

theorem no_withdraw_or_borrow_in_deposit_ledger_witness:
  "withdraw (demo_ops (demo_cx 4)) (demo_cx 4) (Addr 2) (Addr 10) 10000 (snd (get_insurance_fund_state demo_deposited)) \<noteq>
     Ok (10000, demo_withdrawn)"
proof -
  have "lending_later (\<lambda>c. sequence c = sequence (demo_cx 4)) demo_ops demo_deposited (snd (get_insurance_fund_state demo_deposited))"
    by (rule later_call [OF later_same, of _ "demo_cx 4" _ CGetInsuranceFundState]) simp_all
  from no_withdraw_or_borrow_in_deposit_ledger [OF demo_deposit this] show ?thesis by blast
qed

section \<open>Loans\<close>

text \<open>
  C24. A successful borrow is covered by the pool and by its collateral: the pool had the cash, the
  utilization stays within the cap, the collateral token is whitelisted and the collateral reaches
  the required ratio; the loan is the borrower's only one, it is stored under its fresh id, and of every token
  exactly the collateral comes in from the borrower and exactly the principal goes out, also where the two are
  amounts of the same token.
\<close>

theorem borrow_effect:
  assumes "borrow (chain_ops prog verify self cx) cx u a n c ca d s = Ok (i, t)" and "at_self self cx"
  shows "\<exists>p l. st_pool_state s a = Some p \<and> n + p_total_borrowed p \<le> p_total_deposits p \<and>
    get_utilization_bps (p_total_borrowed p + n) (p_total_deposits p) \<le> p_utilization_cap_bps p \<and>
    is_collateral_whitelisted s c \<and>
    as_u64 (unwrap_or 0 (mul_then_div n (get_collateral_ratio s) 10000)) \<le> ca \<and>
    get_user_loans s u = [] \<and> get_user_loans t u = [i] \<and> i = get_next_loan_id s \<and>
    st_loan t u = Some l \<and> st_loan_by_id t i = Some l \<and> l_principal l = n \<and> l_collateral_amount l = ca \<and>
    l_asset l = a \<and> l_collateral_token l = c \<and> l_due_date l = timestamp cx + d \<and>
    (\<forall>k. token_balance (ch_tokens (world t) k) self = token_balance (ch_tokens (world s) k) self +
        (if k = c then int ca else 0) - (if k = a then int n else 0) \<and>
      token_balance (ch_tokens (world t) k) u = token_balance (ch_tokens (world s) k) u -
        (if k = c then int ca else 0) + (if k = a then int n else 0))"
proof -
  let ?X = "chain_ops prog verify self cx"
  from borrow_OkD [OF assms(1)] obtain p w1 w2 w3 where
    *: "authorized cx u" "0 < n" "st_pool_state s a = Some p" "is_collateral_whitelisted s c" "get_user_loans s u = []"
      "as_u64 (unwrap_or 0 (mul_then_div n (get_collateral_ratio s) 10000)) \<le> ca"
      "n \<le> p_total_deposits p - p_total_borrowed p"
      "get_utilization_bps (p_total_borrowed p + n) (p_total_deposits p) \<le> p_utilization_cap_bps p"
      "i = get_next_loan_id s"
    and w: "tok_transfer ?X c u (current_contract_address cx) (int ca) (world s) = Some w1"
      "minted ?X (opened_loan cx s p u a n c ca d) (st_nft_token s) w1 w2"
      "tok_transfer ?X a (current_contract_address cx) u (int n) w2 = Some w3"
    and t: "t = s\<lparr>st_reserve := reserve_after_borrow c ca n (st_reserve s),
          st_pool_state := (st_pool_state s)(a \<mapsto> p\<lparr>p_total_borrowed := p_total_borrowed p + n\<rparr>),
          st_next_loan_id := Some (i + 1),
          st_loan := (st_loan s)(u \<mapsto> opened_loan cx s p u a n c ca d),
          st_loan_by_id := (st_loan_by_id s)(i \<mapsto> opened_loan cx s p u a n c ca d),
          st_user_loans := (st_user_loans s)(u \<mapsto> [i]), world := w3,
          lending_events := lending_events s @ [BorrowEvent i u a n ca (timestamp cx + d),
            CollateralDepositEvent i u c ca], reentrancy_lock := None\<rparr>"
    by blast
  have u: "u \<noteq> self" "self \<noteq> u" "current_contract_address cx = self" using *(1) assms(2) by (auto simp: at_self_def)
  have same: "ch_tokens w2 = ch_tokens w1"
    using w(2) by (auto simp: minted_def chain_ops_def split: option.splits)
  have bal: "token_balance (ch_tokens w3 k) self = token_balance (ch_tokens (world s) k) self +
      (if k = c then int ca else 0) - (if k = a then int n else 0)"
    "token_balance (ch_tokens w3 k) u = token_balance (ch_tokens (world s) k) u -
      (if k = c then int ca else 0) + (if k = a then int n else 0)" for k
    using chain_transfer_balances [OF w(1)] chain_transfer_balances [OF w(3)] u same by simp_all
  have "n + p_total_borrowed p \<le> p_total_deposits p" using *(2,7) by linarith
  then show ?thesis using * bal by (simp add: t opened_loan_def get_user_loans_def)
qed

theorem borrow_effect_witness:
  "\<exists>p l. st_pool_state demo_deposited (Addr 10) = Some p \<and> 1000 + p_total_borrowed p \<le> p_total_deposits p \<and>
    st_loan demo_borrowed (Addr 3) = Some l \<and> st_loan_by_id demo_borrowed 1 = Some l \<and> l_principal l = 1000"
  using borrow_effect [OF demo_borrow [unfolded demo_ops_def] demo_at_self] by auto

text \<open>
  C25. A repayment charges exactly what \<open>get_repayment_amount\<close> quotes in the same ledger, namely
  principal, interest and late fee; the loan is closed, its collateral goes back to the borrower,
  and what the pool owes grows by exactly the amount paid in.
\<close>

theorem repay_effect:
  assumes "repay (chain_ops prog verify self cx) cx u s = Ok (r, t)" and "at_self self cx"
  shows "\<exists>l. get_repayment_amount cx u s = Ok r \<and> st_loan s u = Some l \<and> l_principal l \<le> r \<and>
    st_loan t u = None \<and> st_loan_by_id t (l_loan_id l) = None \<and> l_loan_id l \<notin> set (get_user_loans t u) \<and>
    pools_owed (st_pool_state t) (l_asset l) = pools_owed (st_pool_state s) (l_asset l) + int r \<and>
    (l_collateral_token l \<noteq> l_asset l \<longrightarrow>
      token_balance (ch_tokens (world t) (l_asset l)) self = token_balance (ch_tokens (world s) (l_asset l)) self + int r \<and>
      token_balance (ch_tokens (world t) (l_collateral_token l)) u =
        token_balance (ch_tokens (world s) (l_collateral_token l)) u + int (l_collateral_amount l))"
proof -
  let ?X = "chain_ops prog verify self cx"
  from repay_OkD [OF assms(1)] obtain l p p' late w1 w2 w3 where
    *: "authorized cx u" "st_loan s u = Some l" "st_pool_state s (l_asset l) = Some p"
      "calculate_late_fee cx u s = Ok late" "settle_repayment l (loan_interest cx l) late p = Ok p'"
      "r = l_principal l + loan_interest cx l + late" "r \<le> u64_max"
    and w: "tok_transfer ?X (l_asset l) u (current_contract_address cx) (int r) (world s) = Some w1"
      "tok_transfer ?X (l_collateral_token l) (current_contract_address cx) u (int (l_collateral_amount l)) w1 = Some w2"
      "burned ?X (l_loan_id l) (st_nft_token s) w2 w3"
    and t: "st_pool_state t = (st_pool_state s)(l_asset l \<mapsto> p')" "st_loan t = (st_loan s)(u := None)"
      "st_loan_by_id t = (st_loan_by_id s)(l_loan_id l := None)"
      "st_user_loans t = user_loans_without (st_user_loans s) u (l_loan_id l)" "world t = w3"
    by fastforce
  have u: "u \<noteq> self" "self \<noteq> u" "current_contract_address cx = self" using *(1) assms(2) by (auto simp: at_self_def)
  have same: "ch_tokens w3 = ch_tokens w2"
    using w(3) by (auto simp: burned_def chain_ops_def split: option.splits)
  have "get_repayment_amount cx u s = Ok r"
    using *(2,4,6,7) by (simp add: get_repayment_amount_def Let_def)
  moreover have "l_loan_id l \<notin> set (get_user_loans t u)"
    by (auto simp: get_user_loans_def t user_loans_without_def Let_def split: if_splits)
  moreover have "pools_owed (st_pool_state t) (l_asset l) = pools_owed (st_pool_state s) (l_asset l) + int r"
    using pool_claim_settled [OF *(5)] *(3,6) by (simp add: t pools_owed_Some)
  ultimately show ?thesis
    using *(2,6) chain_transfer_balances [OF w(1)] chain_transfer_balances [OF w(2)] u same by (simp add: t)
qed

theorem repay_effect_witness:
  "\<exists>r t. repay (demo_ops (demo_cx 31536005)) (demo_cx 31536005) (Addr 3) demo_borrowed = Ok (r, t) \<and>
    get_repayment_amount (demo_cx 31536005) (Addr 3) demo_borrowed = Ok r \<and> st_loan t (Addr 3) = None"
proof -
  obtain r t where *: "repay (demo_ops (demo_cx 31536005)) (demo_cx 31536005) (Addr 3) demo_borrowed = Ok (r, t)"
    using demo_repay by blast
  then show ?thesis using repay_effect [OF * [unfolded demo_ops_def] demo_at_self] by blast
qed

section \<open>Flash loans\<close>

text \<open>
  C26. A flash loan that succeeds leaves the contract with at least the fee more than before,
  whatever the receiver's code did, and the fee is credited to the depositors.
\<close>

theorem flash_loan_earns:
  assumes "flash_loan (chain_ops prog verify self cx) cx u rc a n s = Ok t" and "at_self self cx"
  shows "\<exists>p q. st_pool_state s a = Some p \<and> st_pool_state t a = Some q \<and>
    p_total_deposits q = p_total_deposits p + flash_fee s n \<and> p_total_borrowed q = p_total_borrowed p \<and>
    token_balance (ch_tokens (world s) a) self + int (flash_fee s n) \<le> token_balance (ch_tokens (world t) a) self \<and>
    (\<forall>b. b \<noteq> a \<longrightarrow> token_balance (ch_tokens (world s) b) self \<le> token_balance (ch_tokens (world t) b) self) \<and>
    is_flash_receiver_whitelisted s rc"
proof -
  let ?X = "chain_ops prog verify self cx"
  have self: "current_contract_address cx = self" using assms(2) by (simp add: at_self_def)
  from flash_loan_OkD [OF assms(1)] obtain p w1 w2 b0 b1 where
    *: "st_pool_state s a = Some p" "is_flash_receiver_whitelisted s rc"
      "tok_balance ?X a self (world s) = Some b0" "tok_transfer ?X a self rc (int n) (world s) = Some w1"
      "call_execute_operation ?X rc n (flash_fee s n) u w1 = Some w2"
      "tok_balance ?X a self w2 = Some b1" "b0 + int (flash_fee s n) \<le> b1"
    and t: "st_pool_state t = (st_pool_state s)(a \<mapsto> p\<lparr>p_total_deposits := p_total_deposits p + flash_fee s n\<rparr>)" "world t = w2"
    unfolding self by fastforce
  have rc: "rc \<noteq> self" using *(5) by (auto simp: chain_ops_def)
  have here: "token_balance (ch_tokens (world s) a) self + int (flash_fee s n) \<le> token_balance (ch_tokens w2 a) self"
    using *(3,6,7) by (simp add: chain_ops_def)
  have others: "token_balance (ch_tokens (world s) b) self \<le> token_balance (ch_tokens w2 b) self" if "b \<noteq> a" for b
    using chain_env.receiver_held [OF *(5), of b] chain_transfer_balances [OF *(4), of b self] rc that by simp
  show ?thesis using *(1,2) here others by (simp add: t)
qed

definition demo_flash :: "chain_world lending_state" where
  "demo_flash = demo_deposited\<lparr>st_whitelisted_flash_receiver := [Addr 7 \<mapsto> True]\<rparr>"

theorem flash_loan_earns_witness:
  "\<exists>t. flash_loan (demo_ops (demo_cx 6)) (demo_cx 6) (Addr 2) (Addr 7) (Addr 10) 10000 demo_flash = Ok t \<and>
    50000 + int (flash_fee demo_flash 10000) \<le> token_balance (ch_tokens (world t) (Addr 10)) (Addr 100) \<and>
    0 < flash_fee demo_flash 10000"
proof -
  have "\<exists>t. flash_loan (demo_ops (demo_cx 6)) (demo_cx 6) (Addr 2) (Addr 7) (Addr 10) 10000 demo_flash = Ok t"
    by (simp add: flash_loan_def flash_loan_inner_def demo_flash_def demo_defs demo_program_def guard_eval chain_eval arith_eval
        get_utilization_bps_def cong: eval_congs del: and_then_eq_Ok)
  then obtain t where t: "flash_loan (demo_ops (demo_cx 6)) (demo_cx 6) (Addr 2) (Addr 7) (Addr 10) 10000 demo_flash = Ok t"
    by blast
  have "token_balance (ch_tokens (world demo_flash) (Addr 10)) (Addr 100) = 50000"
    by (simp add: demo_flash_def demo_defs token_balance_def)
  moreover have "flash_fee demo_flash 10000 = 9"
    by (simp add: flash_fee_def get_flash_loan_fee_def demo_flash_def demo_defs arith_eval)
  ultimately show ?thesis using flash_loan_earns [OF t [unfolded demo_ops_def] demo_at_self] t by auto
qed

end
