(* ===== verification/Lending_Guards.thy ===== *)
theory Lending_Guards
  imports Lending_Demo
begin

text \<open>
  The guards of the lending contract, over every entry point at once: who must have authorized a
  call that succeeds, which calls the administrator alone can make, which take the reentrancy lock
  and which the pause switch stops.
\<close>

section \<open>Callers\<close>

definition admin_of :: "lending_call \<Rightarrow> address option" where
  "admin_of c = (case c of
       CAddAssetPool ad a br mu uc \<Rightarrow> Some ad | CAssignRole ad u r \<Rightarrow> Some ad | CRevokeRole ad u r \<Rightarrow> Some ad
     | CPauseAssetPool ad a b \<Rightarrow> Some ad | CSetNftToken ad n \<Rightarrow> Some ad | CPause ad \<Rightarrow> Some ad
     | CUnpause ad \<Rightarrow> Some ad | CWhitelistCollateral ad tk \<Rightarrow> Some ad | CRemoveCollateral ad tk \<Rightarrow> Some ad
     | CAddReserve ad tk l th \<Rightarrow> Some ad | CSetGracePeriod ad a g \<Rightarrow> Some ad | CSetLateFeeRate ad a r \<Rightarrow> Some ad
     | CSetFlashLoanFee ad f \<Rightarrow> Some ad | CWhitelistFlashLoanReceiver ad r \<Rightarrow> Some ad
     | CRemoveFlashLoanReceiver ad r \<Rightarrow> Some ad | CSetRewardRate ad a r \<Rightarrow> Some ad
     | CSetReserveFactor ad a f \<Rightarrow> Some ad | CWithdrawReserves ad a n \<Rightarrow> Some ad | CReplenish ad a n \<Rightarrow> Some ad
     | CLiquidateBadDebt ad u \<Rightarrow> Some ad | CAllocateReserves ad a n f \<Rightarrow> Some ad
     | CSetInsurancePremiumRate ad r \<Rightarrow> Some ad | CDepositInsuranceFund ad n \<Rightarrow> Some ad
     | CWithdrawInsuranceFund ad n \<Rightarrow> Some ad | CSetInheritanceContract ad k \<Rightarrow> Some ad
     | CSetGovernanceContract ad k \<Rightarrow> Some ad | CSetPlanYieldBoost ad i b \<Rightarrow> Some ad
     | CSetRateModel ad b o1 s1 s2 r \<Rightarrow> Some ad | CAddWrappedToken ad tk \<Rightarrow> Some ad
     | CRemoveWrappedToken ad tk \<Rightarrow> Some ad | CUpgrade ad h \<Rightarrow> Some ad
     | _ \<Rightarrow> None)"

definition user_of :: "lending_call \<Rightarrow> address option" where
  "user_of c = (case c of
       CDeposit u a n \<Rightarrow> Some u | CWithdraw u a n \<Rightarrow> Some u | CBorrow u a n k ca d \<Rightarrow> Some u
     | CRepay u \<Rightarrow> Some u | CWithdrawPriority u a n \<Rightarrow> Some u | CFlashLoan u rc a n \<Rightarrow> Some u
     | CStake u a n \<Rightarrow> Some u | CUnstake u a n \<Rightarrow> Some u | CClaimRewards u a \<Rightarrow> Some u
     | CLiquidate u b n \<Rightarrow> Some u | CRefinance u d \<Rightarrow> Some u | CConsolidate u ids d \<Rightarrow> Some u
     | CSplit u ns d \<Rightarrow> Some u | CPurchaseInsurance u i \<Rightarrow> Some u | CCancelInsurance u i \<Rightarrow> Some u
     | CRegisterPlanYield u i a n \<Rightarrow> Some u | CUnregisterPlanYield u i \<Rightarrow> Some u
     | CClaimPlanYield u i \<Rightarrow> Some u | CClaimPlanYieldBatch u ids \<Rightarrow> Some u
     | CFundRetainedYield u a n \<Rightarrow> Some u
     | _ \<Rightarrow> None)"

text \<open>What the reserve operations of \<open>reserves.rs\<close>'s callers ask: the stored administrator, not the role.\<close>

definition stored_admin_call :: "lending_call \<Rightarrow> bool" where
  "stored_admin_call c = (case c of
       CSetReserveFactor ad a f \<Rightarrow> True | CWithdrawReserves ad a n \<Rightarrow> True | CAllocateReserves ad a n f \<Rightarrow> True
     | _ \<Rightarrow> False)"

section \<open>Administration\<close>

definition admin_ok :: "ctx \<Rightarrow> 'w lending_state \<Rightarrow> address \<Rightarrow> bool" where
  "admin_ok cx s ad \<longleftrightarrow> authorized cx ad \<and> has_role s ad RoleAdmin"

definition stored_admin_ok :: "ctx \<Rightarrow> 'w lending_state \<Rightarrow> address \<Rightarrow> bool" where
  "stored_admin_ok cx s ad \<longleftrightarrow> authorized cx ad \<and> st_admin s = Some ad"

named_theorems admin_checks "what a successful administrative call has checked"

lemma admin_checks_storage [admin_checks]:
  "add_asset_pool cx ad a br mu uc s = Ok t \<Longrightarrow> admin_ok cx s ad"
  "lending_assign_role cx ad u r s = Ok t \<Longrightarrow> admin_ok cx s ad"
  "lending_revoke_role cx ad u r s = Ok t \<Longrightarrow> admin_ok cx s ad"
  "pause_asset_pool cx ad a b s = Ok t \<Longrightarrow> admin_ok cx s ad"
  "set_nft_token cx ad n s = Ok t \<Longrightarrow> admin_ok cx s ad"
  "pause cx ad s = Ok t \<Longrightarrow> admin_ok cx s ad"
  "unpause cx ad s = Ok t \<Longrightarrow> admin_ok cx s ad"
  "whitelist_collateral cx ad tk s = Ok t \<Longrightarrow> admin_ok cx s ad"
  "remove_collateral cx ad tk s = Ok t \<Longrightarrow> admin_ok cx s ad"
  "add_reserve cx ad tk l th s = Ok t \<Longrightarrow> admin_ok cx s ad"
  "set_grace_period cx ad a g s = Ok t \<Longrightarrow> admin_ok cx s ad"
  "set_late_fee_rate cx ad a g s = Ok t \<Longrightarrow> admin_ok cx s ad"
  "set_flash_loan_fee cx ad f s = Ok t \<Longrightarrow> admin_ok cx s ad"
  "whitelist_flash_loan_receiver cx ad tk s = Ok t \<Longrightarrow> admin_ok cx s ad"
  "remove_flash_loan_receiver cx ad tk s = Ok t \<Longrightarrow> admin_ok cx s ad"
  by (auto simp: add_asset_pool_def lending_assign_role_def lending_revoke_role_def pause_asset_pool_def
      set_nft_token_def pause_def unpause_def whitelist_collateral_def remove_collateral_def add_reserve_def
      set_grace_period_def set_late_fee_rate_def set_flash_loan_fee_def whitelist_flash_loan_receiver_def
      remove_flash_loan_receiver_def admin_ok_def)

lemma admin_checks_rest [admin_checks]:
  "set_reward_rate cx ad a n s = Ok t \<Longrightarrow> admin_ok cx s ad"
  "replenish_bad_debt_reserve X cx ad a n s = Ok (r, t) \<Longrightarrow> admin_ok cx s ad"
  "liquidate_bad_debt cx ad u s = Ok (r, t) \<Longrightarrow> admin_ok cx s ad"
  "set_insurance_premium_rate cx ad n s = Ok t \<Longrightarrow> admin_ok cx s ad"
  "deposit_to_insurance_fund X cx ad n s = Ok t \<Longrightarrow> admin_ok cx s ad"
  "withdraw_from_insurance_fund X cx ad n s = Ok t \<Longrightarrow> admin_ok cx s ad"
  "set_inheritance_contract cx ad k s = Ok t \<Longrightarrow> admin_ok cx s ad"
  "set_governance_contract cx ad k s = Ok t \<Longrightarrow> admin_ok cx s ad"
  "set_plan_yield_boost cx ad i b s = Ok t \<Longrightarrow> admin_ok cx s ad"
  "set_rate_model cx ad b o1 s1 s2 r' s = Ok t \<Longrightarrow> admin_ok cx s ad"
  "add_supported_wrapped_token cx ad k s = Ok t \<Longrightarrow> admin_ok cx s ad"
  "remove_wrapped_token cx ad k s = Ok t \<Longrightarrow> admin_ok cx s ad"
  "upgrade cx ad h s = Ok t \<Longrightarrow> admin_ok cx s ad"
  by (auto simp: set_reward_rate_def replenish_bad_debt_reserve_def set_insurance_premium_rate_def
      deposit_to_insurance_fund_def withdraw_from_insurance_fund_def set_inheritance_contract_def
      set_governance_contract_def set_plan_yield_boost_def set_rate_model_def add_supported_wrapped_token_def
      remove_wrapped_token_def upgrade_def admin_ok_def dest!: liquidate_bad_debt_OkD)

lemma stored_admin_checks:
  "set_reserve_factor cx ad a rf s = Ok t \<Longrightarrow> stored_admin_ok cx s ad"
  "withdraw_reserves X cx ad a n s = Ok t \<Longrightarrow> stored_admin_ok cx s ad"
  "allocate_reserves X cx ad a n f s = Ok t \<Longrightarrow> stored_admin_ok cx s ad"
  by (auto simp: set_reserve_factor_def withdraw_reserves_def allocate_reserves_def require_stored_admin_def
      stored_admin_ok_def)

text \<open>
  C34. No administrative call succeeds for anyone but an administrator who authorized it: of the
  thirty-one calls, three ask for the administrator stored at initialization and all others for
  the administrator role.
\<close>

theorem admin_calls_need_admin:
  assumes "exec X cx c s = Ok t" and "admin_of c = Some ad"
  shows "authorized cx ad \<and> (if stored_admin_call c then st_admin s = Some ad else has_role s ad RoleAdmin)"
proof -
  have "if stored_admin_call c then stored_admin_ok cx s ad else admin_ok cx s ad"
  proof (cases c)
    case (CSetReserveFactor ad a f)
    then show ?thesis using assms by (auto simp: stored_admin_call_def admin_of_def dest: stored_admin_checks)
  next
    case (CWithdrawReserves ad a n)
    then show ?thesis using assms by (auto simp: stored_admin_call_def admin_of_def dest: stored_admin_checks)
  next
    case (CAllocateReserves ad a n f)
    then show ?thesis using assms by (auto simp: stored_admin_call_def admin_of_def dest: stored_admin_checks)
  qed (insert assms, (hypsubst, simp add: stored_admin_call_def admin_of_def, (elim exE)?, (hypsubst, erule admin_checks)?)+)
  then show ?thesis by (simp add: stored_admin_ok_def admin_ok_def split: if_splits)
qed

theorem admin_calls_need_admin_witness:
  "authorized (demo_cx 4) (Addr 9) \<and> has_role demo_init (Addr 9) RoleAdmin"
  using admin_calls_need_admin [of "demo_ops (demo_cx 4)" "demo_cx 4" "CWhitelistCollateral (Addr 9) (Addr 11)"
      demo_init demo_listed "Addr 9"]
  by (simp add: demo_whitelist admin_of_def stored_admin_call_def)

section \<open>Users\<close>

named_theorems user_checks "who must have authorized a successful user call"

lemma user_checks_pool [user_checks]:
  "deposit X cx u a n s = Ok (r, t) \<Longrightarrow> authorized cx u"
  "withdraw X cx u a n s = Ok (r, t) \<Longrightarrow> authorized cx u"
  "borrow X cx u a n c ca d s = Ok (r, t) \<Longrightarrow> authorized cx u"
  "repay X cx u s = Ok (r, t) \<Longrightarrow> authorized cx u"
  "withdraw_priority X cx u a n s = Ok (r, t) \<Longrightarrow> authorized cx u"
  "flash_loan X cx u rc a n s = Ok t \<Longrightarrow> authorized cx u"
  by (auto dest!: deposit_OkD withdraw_OkD borrow_OkD repay_OkD withdraw_priority_OkD flash_loan_OkD)

lemma user_checks_loans [user_checks]:
  "liquidate X cx u b n s = Ok (r, t) \<Longrightarrow> authorized cx u"
  "refinance_loan X cx u d s = Ok (r, t) \<Longrightarrow> authorized cx u"
  "consolidate_loans X cx u ids d s = Ok (r, t) \<Longrightarrow> authorized cx u"
  "split_loan X cx u ns d s = Ok (ids, t) \<Longrightarrow> authorized cx u"
  by (auto simp: liquidate_def dest!: refinance_loan_OkD consolidate_loans_OkD split_loan_OkD)

lemma user_checks_rest [user_checks]:
  "stake_lp_tokens cx u a n s = Ok t \<Longrightarrow> authorized cx u"
  "unstake_lp_tokens cx u a n s = Ok t \<Longrightarrow> authorized cx u"
  "claim_rewards cx u a s = Ok (r, t) \<Longrightarrow> authorized cx u"
  "purchase_loan_insurance X cx u i s = Ok (r, t) \<Longrightarrow> authorized cx u"
  "cancel_insurance X cx u i s = Ok (r, t) \<Longrightarrow> authorized cx u"
  "register_plan_yield cx u i a n s = Ok t \<Longrightarrow> authorized cx u"
  "unregister_plan_yield cx u i s = Ok t \<Longrightarrow> authorized cx u"
  "claim_plan_yield cx u i s = Ok (r, t) \<Longrightarrow> authorized cx u"
  "claim_plan_yield_batch cx u is s = Ok (rs, t) \<Longrightarrow> authorized cx u"
  "fund_retained_yield X cx u a n s = Ok (r, t) \<Longrightarrow> authorized cx u"
  by (auto simp: stake_lp_tokens_def unstake_lp_tokens_def claim_rewards_def register_plan_yield_def
      unregister_plan_yield_def require_plan_yield_caller_def claim_plan_yield_def claim_plan_yield_batch_def
      fund_retained_yield_def dest!: purchase_loan_insurance_OkD cancel_insurance_OkD)

text \<open>
  C35. No call that spends an account's tokens, shares, collateral or claims succeeds without that
  account's authorization.
\<close>

theorem user_calls_need_user:
  assumes "exec X cx c s = Ok t" and "user_of c = Some u"
  shows "authorized cx u"
proof (cases c)
qed (insert assms, (hypsubst, simp add: user_of_def, (elim exE)?, (hypsubst, erule user_checks)?)+)

theorem user_calls_need_user_witness: "authorized (demo_cx 5) (Addr 3)"
  using user_calls_need_user [of "demo_ops (demo_cx 5)" "demo_cx 5" "CBorrow (Addr 3) (Addr 10) 1000 (Addr 11) 2000 1000"
      demo_deposited demo_borrowed "Addr 3"]
  by (simp add: demo_borrow user_of_def)

section \<open>The reentrancy lock\<close>

definition takes_lock :: "lending_call \<Rightarrow> bool" where
  "takes_lock c = (case c of
       CDeposit u a n \<Rightarrow> True | CWithdraw u a n \<Rightarrow> True | CBorrow u a n k ca d \<Rightarrow> True | CRepay u \<Rightarrow> True
     | CWithdrawPriority u a n \<Rightarrow> True | CFlashLoan u rc a n \<Rightarrow> True | CLiquidate u b n \<Rightarrow> True
     | CRefinance u d \<Rightarrow> True | CConsolidate u ids d \<Rightarrow> True | CSplit u ns d \<Rightarrow> True
     | CRevokeRole ad u r \<Rightarrow> True
     | _ \<Rightarrow> False)"

definition lock_cycle :: "'w lending_state \<Rightarrow> 'w lending_state \<Rightarrow> bool" where
  "lock_cycle s t \<longleftrightarrow> reentrancy_lock s = None \<and> reentrancy_lock t = None"

named_theorems lock_cycles "calls that find the lock free and leave it free"

lemma lock_cycles_pool [lock_cycles]:
  "deposit X cx u a n s = Ok (r, t) \<Longrightarrow> lock_cycle s t"
  "withdraw X cx u a n s = Ok (r, t) \<Longrightarrow> lock_cycle s t"
  "borrow X cx u a n c ca d s = Ok (r, t) \<Longrightarrow> lock_cycle s t"
  "repay X cx u s = Ok (r, t) \<Longrightarrow> lock_cycle s t"
  "withdraw_priority X cx u a n s = Ok (r, t) \<Longrightarrow> lock_cycle s t"
  "flash_loan X cx u rc a n s = Ok t \<Longrightarrow> lock_cycle s t"
  by (auto simp: lock_cycle_def dest!: deposit_OkD withdraw_OkD borrow_OkD repay_OkD withdraw_priority_OkD
      flash_loan_OkD)

lemma lock_cycles_loans [lock_cycles]:
  "liquidate X cx u b n s = Ok (r, t) \<Longrightarrow> lock_cycle s t"
  "refinance_loan X cx u d s = Ok (r, t) \<Longrightarrow> lock_cycle s t"
  "lending_revoke_role cx ad u q s = Ok t \<Longrightarrow> lock_cycle s t"
  by (auto simp: liquidate_def lending_revoke_role_def revoke_role_eq_Ok lock_cycle_def accessors Let_def
      dest!: refinance_loan_OkD)

lemma lock_cycles_loops [lock_cycles]:
  "consolidate_loans X cx u ids d s = Ok (r, t) \<Longrightarrow> lock_cycle s t"
  "split_loan X cx u ns d s = Ok (ids', t) \<Longrightarrow> lock_cycle s t"
  unfolding consolidate_loans_def split_loan_def Let_def and_then_eq_Ok
  by (auto simp: lock_cycle_def accessors)

text \<open>
  A guarded call never succeeds while the lock is held, so no other contract can re-enter one
  guarded call from another, and a guarded call that succeeds has given the lock back.
\<close>

theorem guarded_calls_respect_lock:
  assumes "exec X cx c s = Ok t" and "takes_lock c"
  shows "reentrancy_lock s = None \<and> reentrancy_lock t = None"
proof -
  have "lock_cycle s t"
  proof (cases c)
  qed (insert assms, (hypsubst, simp add: takes_lock_def, (elim exE)?, (erule lock_cycles)?)+)
  then show ?thesis by (simp add: lock_cycle_def)
qed

theorem guarded_calls_respect_lock_witness:
  "reentrancy_lock demo_deposited = None \<and> reentrancy_lock demo_borrowed = None"
  using guarded_calls_respect_lock [of "demo_ops (demo_cx 5)" "demo_cx 5"
      "CBorrow (Addr 3) (Addr 10) 1000 (Addr 11) 2000 1000" demo_deposited demo_borrowed]
  by (simp add: demo_borrow takes_lock_def)

section \<open>The pause switch\<close>

definition stopped_by_pause :: "lending_call \<Rightarrow> bool" where
  "stopped_by_pause c = (case c of
       CDeposit u a n \<Rightarrow> True | CWithdraw u a n \<Rightarrow> True | CBorrow u a n k ca d \<Rightarrow> True | CRepay u \<Rightarrow> True
     | CWithdrawPriority u a n \<Rightarrow> True | CFlashLoan u rc a n \<Rightarrow> True | CReplenish ad a n \<Rightarrow> True
     | CLiquidateBadDebt ad u \<Rightarrow> True | CRegisterPlanYield u i a n \<Rightarrow> True | CClaimPlanYield u i \<Rightarrow> True
     | CClaimPlanYieldBatch u ids \<Rightarrow> True | CFundRetainedYield u a n \<Rightarrow> True
     | _ \<Rightarrow> False)"

text \<open>
  While an initialized contract is paused, every call the pause switch covers returns the error
  \<open>ContractPaused\<close>, except that a call for which \<open>require_auth\<close> comes first may trap instead;
  none succeeds.
\<close>

theorem paused_calls_fail:
  assumes "is_contract_paused s" and "st_admin s \<noteq> None" and "stopped_by_pause c"
  shows "exec X cx c s = Err ContractPaused \<or> exec X cx c s = Panic"
proof -
  have p: "require_unpaused s = Err ContractPaused"
    using assms(1) by (simp add: require_unpaused_def require_not_paused_def)
  obtain ad where ad: "st_admin s = Some ad" using assms(2) by blast
  show ?thesis
  proof (cases c)
  qed (insert assms(3), (hypsubst, simp add: stopped_by_pause_def effect_def deposit_def withdraw_def borrow_def repay_def
      withdraw_priority_def flash_loan_def replenish_bad_debt_reserve_def liquidate_bad_debt_def
      register_plan_yield_def claim_plan_yield_def claim_plan_yield_inner_def claim_plan_yield_batch_def fund_retained_yield_def p ad
      require_initialized_def require_auth_def panic_unless_def ensure_def)+)
qed

definition demo_paused :: "chain_world lending_state" where
  "demo_paused = demo_borrowed\<lparr>paused_key := Some True\<rparr>"

theorem paused_calls_fail_witness:
  "exec (demo_ops (demo_cx 5)) (demo_cx 5) (CDeposit (Addr 2) (Addr 10) 7) demo_paused = Err ContractPaused \<or>
   exec (demo_ops (demo_cx 5)) (demo_cx 5) (CDeposit (Addr 2) (Addr 10) 7) demo_paused = Panic"
proof (rule paused_calls_fail)
  show "is_contract_paused demo_paused" by (simp add: demo_paused_def is_contract_paused_def)
  show "st_admin demo_paused \<noteq> None" by (simp add: demo_paused_def demo_defs)
  show "stopped_by_pause (CDeposit (Addr 2) (Addr 10) 7)" by (simp add: stopped_by_pause_def)
qed

end
