(* ===== verification/Lending_Rate_Properties.thy ===== *)
theory Lending_Rate_Properties
  imports Lending_Demo
begin

text \<open>
  The properties of the contract's arithmetic: the interest rate curves, interest and its rounding,
  the decimal printer behind the NFT metadata, the error codes, and the yield of plans.
\<close>

section \<open>Rates\<close>

text \<open>
  C36. The two-slope rate with its casts, checked products and saturating sums is the plain
  two-slope formula, clamped once to 32 bits: the base rate when the pool is idle, base plus first
  slope at the kink, base plus both slopes when everything is lent.
\<close>

theorem two_slope_is_reference:
  assumes "rate_model_wf m" and "0 < m_optimal_utilization_bps m" and "m_optimal_utilization_bps m < 10000"
  shows "two_slope_rate m u = min (two_slope_reference m (min u 10000)) u32_max \<and>
    two_slope_rate m 0 = m_base_rate_bps m \<and>
    two_slope_rate m (m_optimal_utilization_bps m) = min (m_base_rate_bps m + m_slope1_bps m) u32_max \<and>
    two_slope_rate m 10000 = min (m_base_rate_bps m + m_slope1_bps m + m_slope2_bps m) u32_max"
  using assms by (simp add: two_slope_rate_eq_reference two_slope_reference_def Let_def rate_model_wf_def min_def)

definition demo_model :: rate_model where
  "demo_model = \<lparr>m_base_rate_bps = 200, m_optimal_utilization_bps = 8000, m_slope1_bps = 400,
     m_slope2_bps = 6000, m_reserve_factor_bps = 1000\<rparr>"

theorem two_slope_is_reference_witness: "two_slope_rate demo_model 8000 = 600 \<and> two_slope_rate demo_model 10000 = 6600"
  using two_slope_is_reference [of demo_model 0] by (simp add: demo_model_def rate_model_wf_def u32_max_def)

text \<open>
  C37. Whichever curve prices a pool, its borrow rate never falls as the utilization rises, fits
  32 bits, and depositors are never paid a higher rate than borrowers.
\<close>

theorem pool_rate_curve:
  assumes "\<And>m. rm = Some m \<Longrightarrow> rate_model_wf m" and "base \<le> u32_max" and "mult \<le> u32_max"
    and "u \<le> v" and "v \<le> 10000"
  shows "loan_rate rm base mult u \<le> loan_rate rm base mult v \<and> loan_rate rm base mult v \<le> u32_max \<and>
    supply_rate (loan_rate rm base mult u) u rf \<le> supply_rate (loan_rate rm base mult v) v rf \<and>
    supply_rate (loan_rate rm base mult v) v rf \<le> loan_rate rm base mult v"
proof (cases rm)
  case None
  have wf: "linear_wf (base, mult)" using assms by (simp add: linear_wf_def)
  show ?thesis using None assms
      linear_rate.curve_mono [OF wf assms(4,5)] linear_rate.curve_bound [OF wf assms(5)]
      linear_rate.supply_rate_mono [OF wf assms(4,5)] linear_rate.supply_rate_exact(2) [OF wf assms(5)]
    by (simp add: loan_rate_def linear_curve_def)
next
  case (Some m)
  have wf: "rate_model_wf m" using assms Some by simp
  show ?thesis using Some
      two_slope.curve_mono [OF wf assms(4,5)] two_slope.curve_bound [OF wf assms(5)]
      two_slope.supply_rate_mono [OF wf assms(4,5)] two_slope.supply_rate_exact(2) [OF wf assms(5)]
    by (simp add: loan_rate_def)
qed

theorem pool_rate_curve_witness:
  "loan_rate (Some demo_model) 500 2000 5000 \<le> loan_rate (Some demo_model) 500 2000 9000 \<and>
   supply_rate (loan_rate (Some demo_model) 500 2000 9000) 9000 1000 \<le> loan_rate (Some demo_model) 500 2000 9000"
  using pool_rate_curve [of "Some demo_model" 500 2000 5000 9000]
  by (simp add: demo_model_def rate_model_wf_def u32_max_def)

section \<open>Interest\<close>

text \<open>
  Within the range of its 128-bit intermediate and 64-bit result, the interest is the exact
  rational interest rounded to the nearest unit, a half rounded up.
\<close>

theorem interest_rounds_to_nearest:
  assumes "prin \<le> u64_max" and "rate \<le> u32_max" and "el \<le> u64_max"
    and "prin * rate * el + 5000 * SECONDS_IN_YEAR \<le> u128_max"
    and "(prin * rate * el + 5000 * SECONDS_IN_YEAR) div (10000 * SECONDS_IN_YEAR) \<le> u64_max"
  shows "2 * (prin * rate * el) < (2 * calculate_interest prin rate el + 1) * (10000 * SECONDS_IN_YEAR) \<and>
    2 * calculate_interest prin rate el * (10000 * SECONDS_IN_YEAR) \<le> 2 * (prin * rate * el) + 10000 * SECONDS_IN_YEAR"
proof -
  have d: "10000 * SECONDS_IN_YEAR div 2 = 5000 * SECONDS_IN_YEAR" "0 < 10000 * SECONDS_IN_YEAR"
    by (simp_all add: SECONDS_IN_YEAR_def)
  show ?thesis
    using round_half_up [OF d(2), of "prin * rate * el"] calculate_interest_exact [OF assms] unfolding d(1) by simp
qed

theorem interest_rounds_to_nearest_witness:
  "2 * (1000 * 540 * 31536000) < (2 * calculate_interest 1000 540 31536000 + 1) * (10000 * SECONDS_IN_YEAR)"
  using interest_rounds_to_nearest [of 1000 540 31536000]
  by (simp add: u64_max_def u32_max_def u128_max_def SECONDS_IN_YEAR_def)

section \<open>Printing and error codes\<close>

text \<open>
  The digits the contract writes for a 64-bit number read back as that number, its buffer of
  twenty bytes is always large enough, and building the metadata of a loan never traps.
\<close>

theorem uri_numbers_round_trip:
  assumes "n \<le> u64_max"
  shows "(\<exists>ds. append_u64_to_bytes data n = Ok (data @ ds) \<and> parse_decimal ds = n \<and> length ds \<le> 20) \<and>
    (\<exists>uri. build_loan_nft_uri n n n n n = Ok uri)"
proof -
  have "n < 10 ^ Suc 19" using assms by (simp add: u64_max_def)
  then have "length (decimal n) \<le> 20" using length_decimal_le [of n 19] by simp
  then show ?thesis
    using append_u64_to_bytes_decimal [OF assms] parse_decimal_decimal build_loan_nft_uri_total [OF assms assms assms assms assms]
    by blast
qed

theorem uri_numbers_round_trip_witness:
  "\<exists>ds. append_u64_to_bytes ''x'' 18446744073709551615 = Ok (''x'' @ ds) \<and> parse_decimal ds = 18446744073709551615 \<and> length ds \<le> 20"
  using uri_numbers_round_trip [of 18446744073709551615 "''x''"] by (simp add: u64_max_def)

text \<open>
  C38. Every error survives the trip through its numeric code, except the two reserve errors 40 and
  41, which \<open>try_from\<close> does not recognize; no two errors share a code.
\<close>

theorem error_codes_round_trip:
  "try_from_code (error_code e) = (if e \<in> {ReserveAlreadyExists, ReserveNotFound} then None else Some e) \<and>
   (error_code e = error_code f \<longleftrightarrow> e = f)"
proof (intro conjI iffI)
  assume eq: "error_code e = error_code f"
  let ?S = "{ReserveAlreadyExists, ReserveNotFound}"
  have "(if e \<in> ?S then None else Some e) = (if f \<in> ?S then None else Some f)"
    unfolding try_from_code_error_code [symmetric] eq by (rule refl)
  then consider "e = f" | "e \<in> ?S" "f \<in> ?S" by (simp only: split: if_splits) blast+
  then show "e = f" using eq by cases auto
qed (simp_all only: try_from_code_error_code)

section \<open>Utilization\<close>

text \<open>
  The utilization is never above 100 percent, even when more is borrowed than deposited; it is
  the exact ratio rounded down for a pool that has lent at most its deposits.
\<close>

theorem utilization_bounds:
  "get_utilization_bps b d \<le> 10000 \<and>
   (b \<le> d \<and> 0 < d \<and> d \<le> u64_max \<longrightarrow> get_utilization_bps b d = b * 10000 div d)"
  using get_utilization_bps_le get_utilization_bps_exact by simp

theorem utilization_bounds_witness: "get_utilization_bps 1000 50000 = 200"
  using utilization_bounds [of 1000 50000] by (simp add: u64_max_def)

end
