(* ===== verification/Lending_Plan_Properties.thy ===== *)
theory Lending_Plan_Properties
  imports Lending_Demo Lending_Shares
begin

text \<open>
  The properties of plan yield, insurance and loan splitting: what a claim pays and what it leaves,
  the batch against single claims, the index of the registered plans, the refund of a policy and
  the parts of a split loan.
\<close>

section \<open>Accrual and claims\<close>

lemma accrued_simulates:
  assumes "supply_rate_bps_for s (y_asset pos) = Ok sr" and "y_active pos"
    and "timestamp cx = y_last_harvest_at pos + h"
  shows "accrued_for_position cx pos s =
    Ok (simulate_plan_yield (y_principal pos) (saturating_add_u32 sr (y_boost_bps pos)) h)"
  using assms
  by (auto simp: accrued_for_position_def simulate_plan_yield_def Let_def checked_mul_u128_def checked_div_def
      SECONDS_IN_YEAR_def)

text \<open>
  C33. The projection shown to a plan is what it accrues: if the rate does not change, the accrual
  of an active position after the projected horizon is exactly the projected amount.
\<close>

theorem projection_is_accrual:
  assumes "project_plan_yield s i h = Ok v" and "st_plan_yield s i = Some pos" and "y_active pos"
    and "timestamp cx = y_last_harvest_at pos + h"
  shows "accrued_for_position cx pos s = Ok v"
proof -
  from assms(1,2) obtain sr where "supply_rate_bps_for s (y_asset pos) = Ok sr"
    and "v = simulate_plan_yield (y_principal pos) (saturating_add_u32 sr (y_boost_bps pos)) h"
    by (auto simp: project_plan_yield_def get_plan_yield_rate_def)
  then show ?thesis using accrued_simulates assms(3,4) by simp
qed

definition demo_position :: plan_yield_position where
  "demo_position = \<lparr>y_plan_id = 8, y_asset = Addr 10, y_principal = 20000, y_last_harvest_at = 5,
     y_total_harvested = 0, y_last_harvest_amount = 0, y_harvest_count = 0, y_registered_at = 5,
     y_boost_bps = 500, y_active = True\<rparr>"

text \<open>A plan with a position and a pool with yield to pay out, after the loan of the example.\<close>

definition demo_plan :: "chain_world lending_state" where
  "demo_plan = demo_borrowed\<lparr>st_plan_yield := [8 \<mapsto> demo_position], st_plan_yield_index := Some [8],
     st_pool_state := [Addr 10 \<mapsto> (new_pool 500 2000 8000)
       \<lparr>p_total_deposits := 50000, p_total_shares := 50000, p_total_borrowed := 1000, p_retained_yield := 700\<rparr>]\<rparr>"

lemmas plan_eval = demo_plan_def demo_position_def supply_rate_bps_for_def get_utilization_bps_def
  calculate_dynamic_rate_def supply_rate_def accrued_for_position_def simulate_plan_yield_def SECONDS_IN_YEAR_def

lemma demo_project: "project_plan_yield demo_plan 8 31536000 = Ok 1018"
  by (simp add: project_plan_yield_def get_plan_yield_rate_def plan_eval demo_defs arith_eval guard_eval
      cong: eval_congs del: and_then_eq_Ok)

theorem projection_is_accrual_witness: "accrued_for_position (demo_cx 31536005) demo_position demo_plan = Ok 1018"
  by (rule projection_is_accrual [OF demo_project]) (simp_all add: demo_plan_def demo_position_def demo_cx_def)

lemma claim_plan_yield_inner_OkD:
  assumes "claim_plan_yield_inner cx u i s = Ok (r, t)"
  shows "\<exists>pos p accrued. st_admin s \<noteq> None \<and> st_plan_yield s i = Some pos \<and> y_active pos \<and>
    st_pool_state s (y_asset pos) = Some p \<and> accrued_for_position cx pos s = Ok accrued \<and>
    r = min accrued (p_retained_yield p) \<and> 0 < r \<and>
    st_pool_state t = (st_pool_state s)(y_asset pos \<mapsto> p\<lparr>p_retained_yield := p_retained_yield p - r\<rparr>) \<and>
    st_plan_yield t = (st_plan_yield s)(i \<mapsto> pos\<lparr>y_last_harvest_at := timestamp cx, y_last_harvest_amount := r,
      y_harvest_count := saturating_add_u32 (y_harvest_count pos) 1,
      y_total_harvested := saturating_add_u64 (y_total_harvested pos) r\<rparr>) \<and>
    st_plan_yield_index t = st_plan_yield_index s \<and> st_admin t = st_admin s \<and> world t = world s"
  using assms unfolding claim_plan_yield_inner_def Let_def and_then_eq_Ok
  by (elim exE conjE) (clarsimp simp: accessors set_position_def)

text \<open>
  C31. A claim pays exactly what \<open>get_accrued_plan_yield\<close> previewed, never more than the pool has
  retained, takes it from the retained yield, and restarts the accrual: a second claim in the same
  ledger finds nothing.
\<close>

theorem claim_pays_preview:
  assumes "claim_plan_yield cx u i s = Ok (r, t)"
  shows "get_accrued_plan_yield cx i s = Ok r \<and> 0 < r \<and> get_accrued_plan_yield cx i t = Ok 0 \<and>
    claim_plan_yield cx u i t \<noteq> Ok (r', t') \<and>
    (\<exists>a p q. st_pool_state s a = Some p \<and> st_pool_state t a = Some q \<and> r \<le> p_retained_yield p \<and>
      q = p\<lparr>p_retained_yield := p_retained_yield p - r\<rparr>)"
proof -
  have inner: "claim_plan_yield_inner cx u i s = Ok (r, t)" using assms by (simp add: claim_plan_yield_def)
  from claim_plan_yield_inner_OkD [OF inner] obtain pos p acc where
    *: "st_admin s \<noteq> None" "st_plan_yield s i = Some pos" "st_pool_state s (y_asset pos) = Some p"
      "accrued_for_position cx pos s = Ok acc" "r = min acc (p_retained_yield p)" "0 < r"
    and t: "st_pool_state t = (st_pool_state s)(y_asset pos \<mapsto> p\<lparr>p_retained_yield := p_retained_yield p - r\<rparr>)"
      "st_plan_yield t = (st_plan_yield s)(i \<mapsto> pos\<lparr>y_last_harvest_at := timestamp cx, y_last_harvest_amount := r,
      y_harvest_count := saturating_add_u32 (y_harvest_count pos) 1,
      y_total_harvested := saturating_add_u64 (y_total_harvested pos) r\<rparr>)" "st_admin t = st_admin s" by blast
  have zero: "accrued_for_position cx (pos\<lparr>y_last_harvest_at := timestamp cx, y_last_harvest_amount := r,
      y_harvest_count := k, y_total_harvested := n\<rparr>) t = Ok 0" for k n
    by (simp add: accrued_for_position_def)
  have again: "claim_plan_yield cx u i t \<noteq> Ok (r', t')"
  proof
    assume "claim_plan_yield cx u i t = Ok (r', t')"
    then have "claim_plan_yield_inner cx u i t = Ok (r', t')" by (simp add: claim_plan_yield_def)
    from claim_plan_yield_inner_OkD [OF this] show False using zero by (auto simp: t)
  qed
  have "get_accrued_plan_yield cx i s = Ok r" "get_accrued_plan_yield cx i t = Ok 0"
    using * zero by (simp_all add: get_accrued_plan_yield_def t)
  then show ?thesis using again * t(1) by fastforce
qed

theorem claim_pays_preview_witness:
  "\<exists>t. claim_plan_yield (demo_cx 31536005) (Addr 9) 8 demo_plan = Ok (700, t) \<and>
    get_accrued_plan_yield (demo_cx 31536005) 8 demo_plan = Ok 700 \<and>
    get_accrued_plan_yield (demo_cx 31536005) 8 t = Ok 0"
proof -
  have "\<exists>t. claim_plan_yield (demo_cx 31536005) (Addr 9) 8 demo_plan = Ok (700, t)"
    by (simp add: claim_plan_yield_def claim_plan_yield_inner_def check_plan_yield_caller_def get_inheritance_contract_def
        plan_eval demo_defs arith_eval guard_eval cong: eval_congs del: and_then_eq_Ok)
  then show ?thesis using claim_pays_preview by blast
qed

section \<open>Batches\<close>

definition retained_of :: "'w lending_state \<Rightarrow> address \<Rightarrow> nat" where
  "retained_of s a = (case st_pool_state s a of None \<Rightarrow> 0 | Some p \<Rightarrow> p_retained_yield p)"

definition plan_asset :: "'w lending_state \<Rightarrow> nat \<Rightarrow> address option" where
  "plan_asset s i = map_option y_asset (st_plan_yield s i)"

text \<open>What the claims of a batch pay out of the pool of an asset.\<close>

definition paid_from :: "'w lending_state \<Rightarrow> address \<Rightarrow> (nat \<times> nat) list \<Rightarrow> nat" where
  "paid_from s a claims = sum_list (map (\<lambda>(i, r). if plan_asset s i = Some a then r else 0) claims)"

lemma claim_or_zero_OkD:
  assumes "claim_or_zero cx u i (rs, s) = Ok (rs', t)"
  shows "\<exists>r. rs' = rs @ [r] \<and> plan_asset t = plan_asset s \<and>
    retained_of s a = retained_of t a + (if plan_asset s i = Some a then r else 0)"
proof (cases "claim_plan_yield_inner cx u i s")
  case (Ok x)
  then obtain r where r: "claim_plan_yield_inner cx u i s = Ok (r, t)" "rs' = rs @ [r]"
    using assms by (cases x) (auto simp: claim_or_zero_def)
  from claim_plan_yield_inner_OkD [OF r(1)] show ?thesis
    using r(2) by (auto simp: retained_of_def plan_asset_def fun_eq_iff)
qed (use assms in \<open>auto simp: claim_or_zero_def\<close>)

lemma claim_loop_pays:
  "fold_outcome (claim_or_zero cx u) ids (rs, s) = Ok (rs', t) \<Longrightarrow>
   \<exists>new. rs' = rs @ new \<and> length new = length ids \<and> plan_asset t = plan_asset s \<and>
     retained_of s a = retained_of t a + paid_from s a (zip ids new)"
proof (induction ids arbitrary: rs s)
  case (Cons i ids)
  then obtain rs1 s1 where 1: "claim_or_zero cx u i (rs, s) = Ok (rs1, s1)"
    and 2: "fold_outcome (claim_or_zero cx u) ids (rs1, s1) = Ok (rs', t)" by auto
  from claim_or_zero_OkD [OF 1, of a] obtain r where r: "rs1 = rs @ [r]" "plan_asset s1 = plan_asset s"
    "retained_of s a = retained_of s1 a + (if plan_asset s i = Some a then r else 0)" by blast
  from Cons.IH [OF 2] obtain new where "rs' = rs1 @ new" "length new = length ids" "plan_asset t = plan_asset s1"
    "retained_of s1 a = retained_of t a + paid_from s1 a (zip ids new)" by blast
  then show ?case using r by (intro exI [of _ "r # new"]) (simp add: paid_from_def)
qed (simp add: paid_from_def)

text \<open>
  C32. A batch answers one amount per plan, in the order of the request, for at most the allowed
  number of plans; for every asset the retained yield falls by exactly the sum of the amounts
  answered for its plans, so a failing plan costs the others nothing and none is paid twice.
\<close>

theorem batch_pays_what_it_reports:
  assumes "claim_plan_yield_batch cx u ids s = Ok (rs, t)"
  shows "length rs = length ids \<and> length ids \<le> MAX_YIELD_CLAIM_BATCH \<and>
    (\<forall>a. retained_of s a = retained_of t a + paid_from s a (zip ids rs))"
proof -
  have loop: "fold_outcome (claim_or_zero cx u) ids ([], s) = Ok (rs, t)" and "length ids \<le> MAX_YIELD_CLAIM_BATCH"
    using assms by (auto simp: claim_plan_yield_batch_def)
  then show ?thesis using claim_loop_pays [OF loop] by auto
qed

theorem batch_pays_what_it_reports_witness:
  "\<exists>t. claim_plan_yield_batch (demo_cx 31536005) (Addr 9) [8, 3, 8] demo_plan = Ok ([700, 0, 0], t) \<and>
    retained_of demo_plan (Addr 10) = retained_of t (Addr 10) + 700"
proof -
  have "\<exists>t. claim_plan_yield_batch (demo_cx 31536005) (Addr 9) [8, 3, 8] demo_plan = Ok ([700, 0, 0], t)"
    by (simp add: claim_plan_yield_batch_def claim_or_zero_def claim_plan_yield_inner_def check_plan_yield_caller_def
        get_inheritance_contract_def set_position_def MAX_YIELD_CLAIM_BATCH_def
        plan_eval demo_defs arith_eval guard_eval cong: eval_congs del: and_then_eq_Ok)
  then obtain t where t: "claim_plan_yield_batch (demo_cx 31536005) (Addr 9) [8, 3, 8] demo_plan = Ok ([700, 0, 0], t)"
    by blast
  have "paid_from demo_plan (Addr 10) (zip [8, 3, 8] [700, 0, 0]) = 700"
    by (simp add: paid_from_def plan_asset_def demo_plan_def demo_position_def)
  then show ?thesis using batch_pays_what_it_reports [OF t] t by auto
qed

section \<open>The registry of plans\<close>

text \<open>The plan entry points as a state machine over the registry.\<close>

inductive plan_step :: "'w lending_state \<Rightarrow> 'w lending_state \<Rightarrow> bool" where
  plan_register: "register_plan_yield cx u i a n s = Ok t \<Longrightarrow> plan_step s t"
| plan_unregister: "unregister_plan_yield cx u i s = Ok t \<Longrightarrow> plan_step s t"
| plan_boost: "set_plan_yield_boost cx ad i b s = Ok t \<Longrightarrow> plan_step s t"
| plan_claim: "claim_plan_yield cx u i s = Ok (r, t) \<Longrightarrow> plan_step s t"

inductive_cases plan_stepE: "plan_step s t"

inductive plan_reachable :: "'w lending_state \<Rightarrow> bool" where
  plan_start: "st_plan_yield s = (\<lambda>_. None) \<Longrightarrow> st_plan_yield_index s = None \<Longrightarrow> plan_reachable s"
| plan_next: "plan_reachable s \<Longrightarrow> plan_step s t \<Longrightarrow> plan_reachable t"

definition plans_indexed :: "'w lending_state \<Rightarrow> bool" where
  "plans_indexed s \<longleftrightarrow> distinct (get_registered_plan_ids s) \<and>
     length (get_registered_plan_ids s) \<le> MAX_PLAN_YIELD_POSITIONS \<and>
     dom (st_plan_yield s) = set (get_registered_plan_ids s) \<and>
     (\<forall>i pos. st_plan_yield s i = Some pos \<longrightarrow> y_boost_bps pos \<le> MAX_YIELD_BOOST_BPS)"

lemma index_plan_yield_OkD:
  assumes "index_plan_yield i s = Ok t" and "plans_indexed s"
  shows "st_plan_yield t = st_plan_yield s \<and> distinct (get_registered_plan_ids t) \<and>
    length (get_registered_plan_ids t) \<le> MAX_PLAN_YIELD_POSITIONS \<and>
    set (get_registered_plan_ids t) = insert i (set (get_registered_plan_ids s))"
  using assms
  by (auto simp: index_plan_yield_def plans_indexed_def get_registered_plan_ids_def Let_def split: if_splits)

lemma get_registered_plan_ids_cong:
  "st_plan_yield_index t = st_plan_yield_index s \<Longrightarrow> get_registered_plan_ids t = get_registered_plan_ids s"
  by (simp add: get_registered_plan_ids_def)

lemma registry_simps [simp]:
  "st_plan_yield (publish ev s) = st_plan_yield s"
  "get_registered_plan_ids (publish ev s) = get_registered_plan_ids s"
  "get_registered_plan_ids (set_position i pos s) = get_registered_plan_ids s"
  "st_plan_yield (set_position i pos s) = (st_plan_yield s)(i \<mapsto> pos)"
  by (simp_all add: publish_def set_position_def get_registered_plan_ids_def)

text \<open>Writing the position of a registered plan.\<close>

lemma plans_indexed_update:
  assumes "plans_indexed s" and "st_plan_yield s i = Some prior" and "y_boost_bps pos \<le> MAX_YIELD_BOOST_BPS"
    and "st_plan_yield t = (st_plan_yield s)(i \<mapsto> pos)" and "get_registered_plan_ids t = get_registered_plan_ids s"
  shows "plans_indexed t"
proof -
  have "insert i (dom (st_plan_yield s)) = dom (st_plan_yield s)" using assms(2) by auto
  then show ?thesis using assms by (simp add: plans_indexed_def)
qed

lemma plans_indexed_boost:
  "plans_indexed s \<Longrightarrow> st_plan_yield s i = Some pos \<Longrightarrow> y_boost_bps pos \<le> MAX_YIELD_BOOST_BPS"
  by (simp add: plans_indexed_def)

lemma plans_indexed_register:
  assumes "plans_indexed s" and "register_plan_yield cx u i a n s = Ok t"
  shows "plans_indexed t"
proof (cases "st_plan_yield s i")
  case None
  with assms(2) obtain s1 pos ev where s1: "index_plan_yield i s = Ok s1"
    and t: "t = publish ev (set_position i pos s1)" "y_boost_bps pos = 0"
    by (auto simp: register_plan_yield_def Let_def)
  from index_plan_yield_OkD [OF s1 assms(1)] t show ?thesis
    using assms(1) by (auto simp: plans_indexed_def split: if_splits)
next
  case (Some prior)
  with assms(2) obtain pos ev where "t = publish ev (set_position i pos s)" "y_boost_bps pos = y_boost_bps prior"
    by (auto simp: register_plan_yield_def Let_def)
  then show ?thesis
    using plans_indexed_boost [OF assms(1) Some] by (intro plans_indexed_update [OF assms(1) Some, of pos]) auto
qed

lemma plans_indexed_unregister:
  assumes "plans_indexed s" and "unregister_plan_yield cx u i s = Ok t"
  shows "plans_indexed t"
proof -
  from assms(2) obtain prior pos ev where t: "t = publish ev (set_position i pos s)"
    and *: "st_plan_yield s i = Some prior" "y_boost_bps pos = y_boost_bps prior" by (auto simp: unregister_plan_yield_def Let_def)
  show ?thesis using plans_indexed_boost [OF assms(1) *(1)] *(2)
    by (intro plans_indexed_update [OF assms(1) *(1), of pos]) (auto simp: t)
qed

lemma plans_indexed_set_boost:
  assumes "plans_indexed s" and "set_plan_yield_boost cx ad i b s = Ok t"
  shows "plans_indexed t"
proof -
  from assms(2) obtain prior ev where *: "st_plan_yield s i = Some prior" "b \<le> MAX_YIELD_BOOST_BPS"
    and t: "t = publish ev (set_position i (prior\<lparr>y_boost_bps := b\<rparr>) s)"
    by (auto simp: set_plan_yield_boost_def Let_def)
  show ?thesis using *(2) by (intro plans_indexed_update [OF assms(1) *(1), of "prior\<lparr>y_boost_bps := b\<rparr>"]) (auto simp: t)
qed

lemma plans_indexed_claim:
  assumes "plans_indexed s" and "claim_plan_yield cx u i s = Ok (r, t)"
  shows "plans_indexed t"
proof -
  have "claim_plan_yield_inner cx u i s = Ok (r, t)" using assms(2) by (simp add: claim_plan_yield_def)
  from claim_plan_yield_inner_OkD [OF this] obtain prior pos where
    *: "st_plan_yield s i = Some prior" "st_plan_yield t = (st_plan_yield s)(i \<mapsto> pos)"
      "y_boost_bps pos = y_boost_bps prior" "st_plan_yield_index t = st_plan_yield_index s" by force
  show ?thesis using plans_indexed_boost [OF assms(1) *(1)] *
    by (intro plans_indexed_update [OF assms(1) *(1), of pos]) (auto intro: get_registered_plan_ids_cong)
qed

lemma plans_indexed_step: "plan_step s t \<Longrightarrow> plans_indexed s \<Longrightarrow> plans_indexed t"
  by (erule plan_stepE)
     (blast intro: plans_indexed_register plans_indexed_unregister plans_indexed_set_boost plans_indexed_claim)+

text \<open>
  Whatever sequence of registrations, removals, boosts and claims is made, the index lists
  every registered plan exactly once and nothing else, holds at most the allowed number of plans,
  and no boost exceeds its cap.
\<close>

theorem plan_registry_invariant:
  assumes "plan_reachable s"
  shows "distinct (get_registered_plan_ids s) \<and> get_plan_yield_count s \<le> MAX_PLAN_YIELD_POSITIONS \<and>
    (st_plan_yield s i \<noteq> None \<longleftrightarrow> i \<in> set (get_registered_plan_ids s)) \<and>
    (\<forall>pos. st_plan_yield s i = Some pos \<longrightarrow> y_boost_bps pos \<le> MAX_YIELD_BOOST_BPS)"
proof -
  have "plans_indexed s" using assms
  proof (induction rule: plan_reachable.induct)
    case (plan_start s)
    then show ?case by (simp add: plans_indexed_def get_registered_plan_ids_def)
  qed (rule plans_indexed_step)
  then show ?thesis by (auto simp: plans_indexed_def get_plan_yield_count_def domIff)
qed

definition demo_registered :: "chain_world lending_state" where
  "demo_registered = demo_borrowed\<lparr>st_plan_yield := [8 \<mapsto> demo_position\<lparr>y_boost_bps := 0\<rparr>],
     st_plan_yield_index := Some [8],
     lending_events := lending_events demo_borrowed @ [PlanYieldRegisteredEvent 8 (Addr 10) 20000 5]\<rparr>"

lemma demo_register: "register_plan_yield (demo_cx 5) (Addr 9) 8 (Addr 10) 20000 demo_borrowed = Ok demo_registered"
  by (simp add: register_plan_yield_def require_plan_yield_caller_def check_plan_yield_caller_def
      get_inheritance_contract_def index_plan_yield_def MAX_PLAN_YIELD_POSITIONS_def set_position_def
      demo_registered_def demo_position_def demo_defs arith_eval guard_eval cong: eval_congs del: and_then_eq_Ok)

theorem plan_registry_invariant_witness:
  "st_plan_yield demo_registered 8 \<noteq> None \<and> 8 \<in> set (get_registered_plan_ids demo_registered)"
proof -
  have "plan_reachable demo_borrowed" by (rule plan_start) (simp_all add: demo_defs)
  then have "plan_reachable demo_registered" using demo_register by (blast intro: plan_reachable.intros plan_step.intros)
  from plan_registry_invariant [OF this, of 8] show ?thesis by (simp add: demo_registered_def)
qed

section \<open>Insurance\<close>

text \<open>
  Cancelling a policy removes it and pays back at most the premium, nothing once the policy
  has expired; only its holder can cancel, and never after a claim.
\<close>

theorem cancelled_policy_refund:
  assumes "cancel_insurance X cx u i s = Ok (r, t)"
  shows "\<exists>ins. st_insurance s i = Some ins \<and> i_borrower ins = u \<and> authorized cx u \<and> \<not> i_claimed ins \<and>
    r \<le> i_premium_paid ins \<and> (i_expires_at ins \<le> timestamp cx \<longrightarrow> r = 0) \<and> st_insurance t i = None"
proof -
  from cancel_insurance_OkD [OF assms] obtain ins s1 where
    *: "authorized cx u" "st_insurance s i = Some ins" "i_borrower ins = u" "\<not> i_claimed ins"
      "r = insurance_refund (timestamp cx) ins"
    and s1: "pay_refund X cx u r (s\<lparr>st_insurance := (st_insurance s)(i := None)\<rparr>) = Ok s1"
    and t: "t = publish (InsuranceCancelledEvent i u r (timestamp cx)) s1" by blast
  have "st_insurance t i = None" using s1 by (auto simp: t publish_def pay_refund_eq_Ok split: if_splits)
  moreover have "i_expires_at ins \<le> timestamp cx \<longrightarrow> r = 0" using *(5) by (simp add: insurance_refund_def)
  ultimately show ?thesis using * insurance_refund_le by auto
qed

definition demo_policy :: loan_insurance where
  "demo_policy = \<lparr>i_loan_id = 1, i_borrower = Addr 3, i_coverage_amount = 1000, i_premium_paid = 50,
     i_premium_rate_bps = 500, i_purchase_time = 5, i_expires_at = 105, i_claimed = False\<rparr>"

definition demo_insured :: "chain_world lending_state" where
  "demo_insured = demo_borrowed\<lparr>st_insurance := [1 \<mapsto> demo_policy],
     st_insurance_fund := Some \<lparr>f_total_premiums_collected = 50, f_total_claims_paid = 0, f_available_balance = 50\<rparr>\<rparr>"

theorem cancelled_policy_refund_witness:
  "\<exists>t. cancel_insurance (demo_ops (demo_cx 30)) (demo_cx 30) (Addr 3) 1 demo_insured = Ok (37, t) \<and>
    37 \<le> i_premium_paid demo_policy \<and> st_insurance t 1 = None"
proof -
  have "\<exists>t. cancel_insurance (demo_ops (demo_cx 30)) (demo_cx 30) (Addr 3) 1 demo_insured = Ok (37, t)"
    by (simp add: cancel_insurance_def pay_refund_def pay_or_panic_def insurance_refund_def demo_insured_def demo_policy_def
        demo_defs arith_eval guard_eval chain_eval cong: eval_congs del: and_then_eq_Ok)
  then obtain t where t: "cancel_insurance (demo_ops (demo_cx 30)) (demo_cx 30) (Addr 3) 1 demo_insured = Ok (37, t)" by blast
  from cancelled_policy_refund [OF t] have "37 \<le> i_premium_paid demo_policy" "st_insurance t 1 = None"
    by (auto simp: demo_insured_def)
  then show ?thesis using t by blast
qed

section \<open>Splitting a loan\<close>

lemma split_loop_parts:
  "fold_outcome (split_one X cx u l tot due rate) ns (ids, s) = Ok (ids', t) \<Longrightarrow>
   ids' = ids @ [get_next_loan_id s ..< get_next_loan_id s + length ns] \<and>
   (\<forall>j < get_next_loan_id s. st_loan_by_id t j = st_loan_by_id s j) \<and>
   (\<forall>k < length ns. st_loan_by_id t (get_next_loan_id s + k) =
      Some (split_part cx (get_next_loan_id s + k) u l tot due rate (ns ! k)))"
proof (induction ns arbitrary: ids s)
  case (Cons n ns)
  let ?i = "get_next_loan_id s"
  from Cons.prems obtain ids1 s1 where 1: "split_one X cx u l tot due rate n (ids, s) = Ok (ids1, s1)"
    and 2: "fold_outcome (split_one X cx u l tot due rate) ns (ids1, s1) = Ok (ids', t)" by auto
  from split_one_OkD [OF 1] have ids1: "ids1 = ids @ [?i]" and nxt: "get_next_loan_id s1 = Suc ?i"
    and byid: "st_loan_by_id s1 = (st_loan_by_id s)(?i \<mapsto> split_part cx ?i u l tot due rate n)"
    by (auto simp: get_next_loan_id_def [of s1])
  note IH = Cons.IH [OF 2, unfolded nxt]
  have "st_loan_by_id t (?i + k) = Some (split_part cx (?i + k) u l tot due rate ((n # ns) ! k))"
    if "k < length (n # ns)" for k
  proof (cases k)
    case 0
    then show ?thesis using IH byid by simp
  next
    case (Suc m)
    then show ?thesis using IH that by simp
  qed
  moreover have "st_loan_by_id t j = st_loan_by_id s j" if "j < ?i" for j
    using IH byid that by simp
  moreover have "[?i ..< ?i + length (n # ns)] = ?i # [Suc ?i ..< Suc ?i + length ns]"
    by (simp only: length_Cons add_Suc_right add_Suc) (rule upt_conv_Cons, simp)
  ultimately show ?case using IH ids1 by simp
qed simp

text \<open>
  Splitting a loan replaces it by one new loan per requested amount, with fresh consecutive
  ids, whose principals add up to the outstanding balance and whose collateral never adds up to
  more than the collateral of the loan that was split.
\<close>

theorem split_parts_cover_loan:
  assumes "split_loan X cx u ns d s = Ok (ids, t)"
  shows "\<exists>l. st_loan s u = Some l \<and> sum_list ns = l_principal l + loan_interest cx l \<and>
    ids = [get_next_loan_id s ..< get_next_loan_id s + length ns] \<and>
    (\<forall>k < length ns. \<exists>part. st_loan_by_id t (ids ! k) = Some part \<and> l_principal part = ns ! k \<and>
       l_borrower part = u \<and> l_asset part = l_asset l \<and> l_collateral_token part = l_collateral_token l) \<and>
    (\<Sum>i\<leftarrow>ids. case st_loan_by_id t i of None \<Rightarrow> 0 | Some part \<Rightarrow> l_collateral_amount part) \<le> l_collateral_amount l"
proof -
  from split_loan_OkD [OF assms] obtain l tot fee w1 w2 rate s2 p evs where
    *: "st_loan s u = Some l" "tot = l_principal l + loan_interest cx l" "sum_u64 ns = Ok tot"
    and loop: "fold_outcome (split_one X cx u l tot (timestamp cx + d) rate) ns ([], s\<lparr>reentrancy_lock := Some True,
        st_loan := (st_loan s)(u := None), st_loan_by_id := (st_loan_by_id s)(l_loan_id l := None),
        st_user_loans := user_loans_without (st_user_loans s) u (l_loan_id l), world := w2\<rparr>) = Ok (ids, s2)"
    and t: "t = s2\<lparr>st_pool_state := (st_pool_state s2)(l_asset l \<mapsto> p\<lparr>p_retained_yield := p_retained_yield p + fee\<rparr>),
          lending_events := evs, reentrancy_lock := None\<rparr>"
    by blast
  let ?i = "get_next_loan_id s"
  have ids: "ids = [?i ..< ?i + length ns]"
    and parts: "\<forall>k < length ns. st_loan_by_id t (?i + k) = Some (split_part cx (?i + k) u l tot (timestamp cx + d) rate (ns ! k))"
    using split_loop_parts [OF loop] by (simp_all add: t get_next_loan_id_def)
  have sum: "sum_list ns = tot" using sum_u64_eq_Ok [OF *(3)] by simp
  have "map (\<lambda>i. case st_loan_by_id t i of None \<Rightarrow> 0 | Some part \<Rightarrow> l_collateral_amount part) ids = map (split_collateral l tot) ns"
    using parts by (intro nth_equalityI) (auto simp: ids split_part_def)
  then have "(\<Sum>i\<leftarrow>ids. case st_loan_by_id t i of None \<Rightarrow> 0 | Some part \<Rightarrow> l_collateral_amount part) \<le> l_collateral_amount l"
    using split_collateral_sum [OF sum] by simp
  then show ?thesis using *(1,2) sum ids parts by (auto simp: split_part_def)
qed

theorem split_parts_cover_loan_witness:
  "\<exists>t. split_loan (demo_ops (demo_cx 6)) (demo_cx 6) (Addr 3) [400, 600] 1000 demo_borrowed = Ok ([2, 3], t) \<and>
    (\<Sum>i\<leftarrow>[2, 3]. case st_loan_by_id t i of None \<Rightarrow> 0 | Some part \<Rightarrow> l_collateral_amount part) \<le> 2000"
proof -
  have "\<exists>t. split_loan (demo_ops (demo_cx 6)) (demo_cx 6) (Addr 3) [400, 600] 1000 demo_borrowed = Ok ([2, 3], t)"
    by (simp add: split_loan_def split_one_def split_collateral_def sum_u64_def is_in_grace_period_def grace_period_end_def
        checked_add_u64_def DEFAULT_GRACE_PERIOD_SECONDS_def calculate_outstanding_balance_def loan_interest_def
        calculate_interest_def SECONDS_IN_YEAR_def REFINANCING_FEE_BPS_def close_loan_def store_loan_def burn_loan_nft_def
        mint_loan_nft_def increment_loan_id_def get_utilization_bps_def loan_rate_def calculate_dynamic_rate_def
        demo_defs arith_eval guard_eval chain_eval cong: eval_congs del: and_then_eq_Ok)
  then obtain t where t: "split_loan (demo_ops (demo_cx 6)) (demo_cx 6) (Addr 3) [400, 600] 1000 demo_borrowed = Ok ([2, 3], t)"
    by blast
  from split_parts_cover_loan [OF t] t show ?thesis by (auto simp: demo_borrowed_def demo_loan_def)
qed

end
