(* ===== verification/Inherit_Types.thy ===== *)
theory Inherit_Types
  imports Access_Control Token_Interface
begin

text \<open>
  The data of the inheritance contract, \<open>src/contracts/inheritance-contract/src/lib.rs\<close> and
  \<open>disputes.rs\<close>: its structs as records, its enums, events and errors as datatypes, its storage
  as one record \<open>ih_state\<close>.

  A field \<open>ih_x\<close> of the state is a storage key of \<open>DataKey\<close>, \<open>None\<close> while the key is absent; the
  comments name the key. The state extends the record of the access-control library and ends with
  the world of the other contracts and the log of published events. A byte string is a list of
  numbers below 256, a Soroban string a list of characters. The time-to-live of entries is not
  modelled.
\<close>

section \<open>Constants\<close>

definition IH_CONTRACT_VERSION :: nat where "IH_CONTRACT_VERSION = 1"
definition MAX_BENEFICIARIES :: nat where "MAX_BENEFICIARIES = 10"
definition EMERGENCY_TRANSFER_LIMIT_BP :: nat where "EMERGENCY_TRANSFER_LIMIT_BP = 1000"
definition MAX_YIELD_RELAYERS :: nat where "MAX_YIELD_RELAYERS = 10"
definition MAX_YIELD_HISTORY :: nat where "MAX_YIELD_HISTORY = 20"
definition MAX_YIELD_BATCH :: nat where "MAX_YIELD_BATCH = 25"
definition EMERGENCY_COOLDOWN_PERIOD :: nat where "EMERGENCY_COOLDOWN_PERIOD = 86400"
definition MIN_GRACE_PERIOD_SECONDS :: nat where "MIN_GRACE_PERIOD_SECONDS = 604800"
definition MAX_GRACE_PERIOD_SECONDS :: nat where "MAX_GRACE_PERIOD_SECONDS = 5 * 365 * 24 * 60 * 60"
definition EMERGENCY_EXPIRATION_PERIOD :: nat where "EMERGENCY_EXPIRATION_PERIOD = 604800"
definition CLAIM_ATTEMPT_WINDOW_SECONDS :: nat where "CLAIM_ATTEMPT_WINDOW_SECONDS = 3600"
definition CLAIM_MAX_ATTEMPTS_PER_WINDOW :: nat where "CLAIM_MAX_ATTEMPTS_PER_WINDOW = 10"
definition CREATION_FEE_BP :: nat where "CREATION_FEE_BP = 200"
definition BATCH_LIMIT :: nat where "BATCH_LIMIT = 20"
definition BATCH_MESSAGE_LIMIT :: nat where "BATCH_MESSAGE_LIMIT = 10"

lemmas ih_const_defs =
  MAX_BENEFICIARIES_def EMERGENCY_TRANSFER_LIMIT_BP_def MAX_YIELD_RELAYERS_def MAX_YIELD_HISTORY_def
  MAX_YIELD_BATCH_def EMERGENCY_COOLDOWN_PERIOD_def MIN_GRACE_PERIOD_SECONDS_def
  MAX_GRACE_PERIOD_SECONDS_def EMERGENCY_EXPIRATION_PERIOD_def CLAIM_ATTEMPT_WINDOW_SECONDS_def
  CLAIM_MAX_ATTEMPTS_PER_WINDOW_def CREATION_FEE_BP_def BATCH_LIMIT_def BATCH_MESSAGE_LIMIT_def

section \<open>Structs and enums\<close>

datatype distribution_method = LumpSum | Monthly | Quarterly | Yearly

record beneficiary =
  b_hashed_full_name :: bytes32
  b_hashed_email :: bytes32
  b_hashed_claim_code :: bytes32
  b_bank_account :: "nat list"
  b_allocation_bp :: nat
  b_priority :: nat
  b_is_claimed :: bool

record beneficiary_input =
  bi_name :: string
  bi_email :: string
  bi_claim_code :: nat
  bi_bank_account :: "nat list"
  bi_allocation_bp :: nat
  bi_priority :: nat

text \<open>The tuple of the plan parameters: name, email, claim code, bank account, basis points, priority.\<close>

type_synonym beneficiary_data = "string \<times> string \<times> nat \<times> nat list \<times> nat \<times> nat"

record inheritance_plan =
  pl_plan_name :: string
  pl_description :: string
  pl_token :: address
  pl_asset_type :: string
  pl_total_amount :: nat
  pl_distribution_method :: distribution_method
  pl_beneficiaries :: "beneficiary list"
  pl_total_allocation_bp :: nat
  pl_owner :: address
  pl_created_at :: nat
  pl_is_active :: bool
  pl_is_lendable :: bool
  pl_total_loaned :: nat
  pl_waterfall_enabled :: bool
  pl_grace_period :: nat
  pl_earn_yield :: bool

record guardian_config =
  g_guardians :: "address list"
  g_threshold :: nat

record claim_record =
  cr_plan_id :: nat
  cr_beneficiary_index :: nat
  cr_claimed_at :: nat

record claim_attempt_window =
  aw_window_start :: nat
  aw_attempts :: nat

record kyc_status =
  k_submitted :: bool
  k_approved :: bool
  k_rejected :: bool
  k_submitted_at :: nat
  k_approved_at :: nat
  k_rejected_at :: nat

record inheritance_trigger_info =
  ti_triggered_at :: nat
  ti_loan_freeze_active :: bool
  ti_recall_attempted :: bool
  ti_liquidation_triggered :: bool
  ti_original_loaned :: nat
  ti_recalled_amount :: nat
  ti_settled_amount :: nat

record emergency_access_record =
  em_plan_id :: nat
  em_trusted_contact :: address
  em_activated_at :: nat

record yield_config =
  yc_auto_compound :: bool
  yc_min_harvest_amount :: nat
  yc_harvest_interval :: nat
  yc_performance_fee_bp :: nat

definition default_config :: yield_config where
  "default_config = \<lparr>yc_auto_compound = True, yc_min_harvest_amount = 0, yc_harvest_interval = 0,
     yc_performance_fee_bp = 0\<rparr>"

record yield_harvest_record =
  hr_gross_amount :: nat
  hr_net_amount :: nat
  hr_fee_amount :: nat
  hr_harvested_at :: nat
  hr_harvested_by :: address
  hr_compounded :: bool

record plan_yield_state =
  yst_asset :: address
  yst_last_harvest_at :: nat
  yst_total_harvested :: nat
  yst_total_fees_paid :: nat
  yst_harvest_count :: nat
  yst_last_harvest_amount :: nat
  yst_registered_principal :: nat
  yst_pending_credit :: nat
  yst_paused :: bool
  yst_config :: yield_config
  yst_history :: "yield_harvest_record list"

record yield_summary =
  sm_plan_id :: nat
  sm_asset :: address
  sm_registered_principal :: nat
  sm_total_harvested :: nat
  sm_total_fees_paid :: nat
  sm_pending_credit :: nat
  sm_harvest_count :: nat
  sm_last_harvest_at :: nat
  sm_last_harvest_amount :: nat
  sm_next_harvest_at :: nat
  sm_paused :: bool
  sm_auto_compound :: bool

record legacy_message =
  lm_vault_id :: nat
  lm_message_id :: nat
  lm_message_hash :: bytes32
  lm_creator :: address
  lm_key_reference :: string
  lm_unlock_timestamp :: nat
  lm_is_unlocked :: bool
  lm_is_finalized :: bool
  lm_created_at :: nat

record create_message_params =
  mp_vault_id :: nat
  mp_message_hash :: bytes32
  mp_unlock_timestamp :: nat
  mp_key_reference :: string

record will_version_info =
  wv_version :: nat
  wv_will_hash :: bytes32
  wv_created_at :: nat
  wv_is_active :: bool

record will_signature_proof =
  wp_vault_id :: nat
  wp_will_hash :: bytes32
  wp_signer :: address
  wp_sig_hash :: bytes32
  wp_signed_at :: nat

datatype trigger_condition = Manual | Time | Inactivity | Oracle | Health

record trigger_config =
  tc_conditions :: "trigger_condition list"
  tc_trigger_date :: nat
  tc_inactivity_period :: nat
  tc_last_activity :: nat
  tc_oracle_address :: "address option"
  tc_oracle_triggered :: bool
  tc_health_triggered :: bool

record create_plan_params =
  cp_owner :: address
  cp_token :: address
  cp_plan_name :: string
  cp_description :: string
  cp_total_amount :: nat
  cp_distribution_method :: distribution_method
  cp_beneficiaries_data :: "beneficiary_data list"
  cp_is_lendable :: bool
  cp_guardians :: "address list"
  cp_guardian_threshold :: nat

record freeze_record =
  fz_plan_id :: nat
  fz_frozen_at :: nat
  fz_reason :: string
  fz_frozen_by :: address

record legal_hold =
  lh_plan_id :: nat
  lh_added_at :: nat
  lh_reason :: string
  lh_added_by :: address

record beneficiary_acknowledgment =
  ak_plan_id :: nat
  ak_beneficiary_index :: nat
  ak_notification_sent_at :: nat
  ak_acknowledged_at :: nat

datatype dispute_status = Filed | UnderReview | Resolved | Rejected

record dispute_record =
  ds_dispute_id :: nat
  ds_plan_id :: nat
  ds_disputer :: address
  ds_reason :: string
  ds_status :: dispute_status
  ds_filed_at :: nat
  ds_resolved_at :: nat
  ds_resolution_notes :: string
  ds_arbitrator :: address

section \<open>Errors\<close>

datatype (plugins only: code size) inheritance_error =
    InvalidAssetType
  | InvalidTotalAmount
  | MissingRequiredField
  | TooManyBeneficiaries
  | InvalidClaimCode
  | AllocationPercentageMismatch
  | DescriptionTooLong
  | InvalidBeneficiaryData
  | Unauthorized
  | PlanNotFound
  | InvalidBeneficiaryIndex
  | InvalidAllocation
  | InvalidClaimCodeRange
  | ClaimNotAllowedYet
  | AlreadyClaimed
  | BeneficiaryNotFound
  | PlanAlreadyDeactivated
  | PlanNotActive
  | AdminNotSet
  | AdminAlreadyInitialized
  | NotAdmin
  | KycNotSubmitted
  | PlanNotClaimed
  | KycAlreadyRejected
  | InsufficientBalance
  | FeeTransferFailed
  | InsufficientLiquidity
  | InheritanceAlreadyTriggered
  | EmergencyCooldownActive
  | VestingScheduleActive
  | NothingToClaim
  | EmergencyAccessAlreadyActive
  | InvalidGuardianThreshold
  | EmergencyContactAlreadyExists
  | TooManyEmergencyContacts
  | EmergencyContactNotFound
  | GuardianNotFound
  | AlreadyApproved
  | InheritanceNotTriggered
  | NoOutstandingLoans
  | LoanRecallFailed
  | WillHashAlreadyStored
  | VaultNotFound
  | WillAlreadyLinked
  | WillAlreadyFinalized
  | WillVersionNotFound
  | ReentrantCall
  | Blk

type_synonym 'a ih_result = "('a, inheritance_error) outcome"

section \<open>Events\<close>

text \<open>
  One constructor per published event, its arguments the fields in the source's order. The last
  ones are the events the source publishes as tuples. The events of disputes that share a name with
  the contract's own carry the prefix of their module.
\<close>

datatype (plugins only: code) ih_event =
    BeneficiaryAddedEvent nat bytes32 nat
  | BeneficiaryRemovedEvent nat nat nat
  | PlanDeactivatedEvent nat address nat nat
  | KycApprovedEvent address nat
  | KycRejectedEvent address nat
  | ContractLinkedEvent string address
  | YieldHarvestedEvent nat nat nat nat
  | YieldFeeCollectedEvent nat nat nat nat
  | YieldConfigUpdatedEvent nat bool nat nat nat
  | YieldPausedEvent nat bool
  | YieldBatchHarvestEvent nat nat nat
  | YieldPositionRegisteredEvent nat address nat
  | YieldRelayerUpdatedEvent address bool
  | ContractUpgradedEvent nat nat bytes32 address nat
  | VaultDepositEvent nat nat
  | VaultWithdrawEvent nat nat
  | VaultLendableChangedEvent nat bool
  | GracePeriodUpdatedEvent nat nat
  | InheritanceTriggeredEvent nat nat nat
  | LoanFreezeEvent nat nat
  | LoanRecallEvent nat nat nat
  | LiquidationFallbackEvent nat nat nat
  | EmergencyAccessRevocationEvent nat nat
  | EmergencyAccessApprovedEvent nat address address nat
  | EmergencyAccessExpirationEvent nat nat
  | EmergencyAccessActivatedEvent nat address nat
  | EmergencyContactAddedEvent nat address
  | EmergencyContactRemovedEvent nat address
  | WaterfallEnabledEvent nat nat
  | PrioritySetEvent nat nat nat
  | MessageCreatedEvent nat nat nat
  | MessageUpdatedEvent nat nat nat
  | MessageFinalizedEvent nat nat nat
  | MessageDeletedEvent nat nat nat
  | MessageUnlockedEvent nat nat nat
  | MessageAccessedEvent nat nat nat
  | WillHashStoredEvent nat bytes32
  | WillLinkedToVaultEvent nat bytes32
  | BeneficiariesVerifiedEvent nat bool
  | WillVersionCreatedEvent nat nat
  | WillVersionActivatedEvent nat nat
  | BatchBeneficiariesAddedEvent nat nat nat
  | BatchBeneficiariesRemovedEvent nat nat nat
  | BatchAllocationsUpdatedEvent nat nat
  | BatchKycApprovedEvent nat nat
  | BatchMessagesCreatedEvent nat nat nat
  | BatchClaimEvent nat nat nat
  | WillSignedEvent nat address
  | WillFinalizedEvent nat nat nat
  | WitnessAddedEvent nat address
  | WitnessSignedEvent nat address
  | PlanOwnershipTransferredEvent nat address address nat
  | TriggerConditionSetEvent nat nat
  | TriggerConditionMetEvent nat nat
  | PlanFrozenEvent nat address nat string
  | PlanUnfrozenEvent nat address nat
  | BeneficiaryNotifiedEvent nat nat nat
  | BeneficiaryAcknowledgedEvent nat nat nat
  | DisputeFiledEvent nat nat address string nat
  | DisputeResolvedEvent nat nat dispute_status address nat
  | DisputePlanFrozenEvent nat nat nat
  | DisputePlanUnfrozenEvent nat nat nat
  | PauseEvent nat
  | UnpauseEvent nat
  | ClaimSuccess nat bytes32 nat
  | FiatPayoutRequested nat nat nat string
  | KeyRotated nat nat
  | WrappedAdded address
  | WrappedRemoved address

section \<open>Storage\<close>

record 'w ih_state = ac_state +
  ih_next_plan_id :: "nat option" \<comment> \<open>Npi\<close>
  ih_plan :: "nat \<Rightarrow> inheritance_plan option" \<comment> \<open>P\<close>
  ih_claim :: "bytes32 \<Rightarrow> claim_record option" \<comment> \<open>C\<close>
  ih_salt :: "nat \<times> nat \<Rightarrow> bytes32 option" \<comment> \<open>Cs\<close>
  ih_attempts :: "nat \<times> address \<Rightarrow> claim_attempt_window option" \<comment> \<open>Ca\<close>
  ih_user_plans :: "address \<Rightarrow> nat list option" \<comment> \<open>Up\<close>
  ih_user_claimed :: "address \<Rightarrow> nat list option" \<comment> \<open>Uc\<close>
  ih_deactivated :: "nat list option" \<comment> \<open>Dp\<close>
  ih_all_claimed :: "nat list option" \<comment> \<open>Ac\<close>
  ih_admin :: "address option" \<comment> \<open>Ad\<close>
  ih_kyc :: "address \<Rightarrow> kyc_status option" \<comment> \<open>Ky\<close>
  ih_version :: "nat option" \<comment> \<open>Ver\<close>
  ih_trigger :: "nat \<Rightarrow> inheritance_trigger_info option" \<comment> \<open>It\<close>
  ih_emergency :: "nat \<Rightarrow> emergency_access_record option" \<comment> \<open>Eac\<close>
  ih_guardians :: "nat \<Rightarrow> guardian_config option" \<comment> \<open>Gd\<close>
  ih_approvals :: "nat \<times> address \<Rightarrow> address list option" \<comment> \<open>Eap\<close>
  ih_contacts :: "nat \<Rightarrow> address list option" \<comment> \<open>Ec\<close>
  ih_will_hash :: "nat \<Rightarrow> bytes32 option" \<comment> \<open>Wh\<close>
  ih_vault_will :: "nat \<Rightarrow> bytes32 option" \<comment> \<open>Vw\<close>
  ih_verified :: "nat \<Rightarrow> bool option" \<comment> \<open>Bv\<close>
  ih_will_count :: "nat \<Rightarrow> nat option" \<comment> \<open>Wvc\<close>
  ih_will_version :: "nat \<times> nat \<Rightarrow> will_version_info option" \<comment> \<open>Wv\<close>
  ih_active_version :: "nat \<Rightarrow> nat option" \<comment> \<open>Awv\<close>
  ih_will_signature :: "nat \<Rightarrow> will_signature_proof option" \<comment> \<open>Ws\<close>
  ih_sig_used :: "bytes32 \<Rightarrow> bool option" \<comment> \<open>Su\<close>
  ih_next_message :: "nat option" \<comment> \<open>Nmi\<close>
  ih_message :: "nat \<Rightarrow> legacy_message option" \<comment> \<open>Lm\<close>
  ih_vault_messages :: "nat \<Rightarrow> nat list option" \<comment> \<open>Vm\<close>
  ih_will_final :: "nat \<times> nat \<Rightarrow> bool option" \<comment> \<open>Wf\<close>
  ih_will_final_at :: "nat \<times> nat \<Rightarrow> nat option" \<comment> \<open>Wfa\<close>
  ih_witnesses :: "nat \<Rightarrow> address list option" \<comment> \<open>Ww\<close>
  ih_witness_sig :: "nat \<times> address \<Rightarrow> nat option" \<comment> \<open>Wsig\<close>
  ih_lending :: "address option" \<comment> \<open>Lc\<close>
  ih_governance :: "address option" \<comment> \<open>Gc\<close>
  ih_notified :: "nat \<times> nat \<Rightarrow> nat option" \<comment> \<open>Bn\<close>
  ih_acknowledged :: "nat \<times> nat \<Rightarrow> nat option" \<comment> \<open>Ba\<close>
  ih_ack_required :: "nat \<Rightarrow> bool option" \<comment> \<open>Ra\<close>
  ih_freeze :: "nat \<Rightarrow> freeze_record option" \<comment> \<open>Fz\<close>
  ih_legal_hold :: "nat \<Rightarrow> legal_hold option" \<comment> \<open>Lh\<close>
  ih_frozen_beneficiary :: "nat \<times> nat \<Rightarrow> bool option" \<comment> \<open>Fb\<close>
  ih_trigger_config :: "nat \<Rightarrow> trigger_config option" \<comment> \<open>Tc\<close>
  ih_exit_settlement :: "nat \<times> nat \<Rightarrow> nat option" \<comment> \<open>Ves\<close>
  ih_next_dispute :: "nat option" \<comment> \<open>Ndi\<close>
  ih_dispute :: "nat \<Rightarrow> dispute_record option" \<comment> \<open>Ds\<close>
  ih_plan_disputes :: "nat \<Rightarrow> nat list option" \<comment> \<open>Pd\<close>
  ih_arbitrators :: "address list option" \<comment> \<open>Arb\<close>
  ih_relayers :: "address list option" \<comment> \<open>Yr\<close>
  ih_yield :: "nat \<Rightarrow> plan_yield_state option" \<comment> \<open>Ys\<close>
  ih_vault_wasm :: "bytes32 option" \<comment> \<open>vhash\<close>
  ih_plan_vault :: "nat \<Rightarrow> address option" \<comment> \<open>pvault\<close>
  ih_key_version :: "nat \<Rightarrow> nat option" \<comment> \<open>vk_ver\<close>
  ih_key_current :: "nat \<Rightarrow> nat option" \<comment> \<open>vk_cur\<close>
  ih_key_ref :: "nat \<times> nat \<Rightarrow> string option" \<comment> \<open>vk_ref\<close>
  ih_wrapped :: "address list option" \<comment> \<open>supp_wrp\<close>
  ih_wasm :: "bytes32 option"
  ih_world :: 'w
  ih_events :: "ih_event list"

definition ih_empty :: "'w \<Rightarrow> 'w ih_state" where
  "ih_empty w = \<lparr>
     roles_key = \<lambda>_. None, blacklisted_key = \<lambda>_. None, reentrancy_lock = None, paused_key = None,
     pause_lock = None, active_ops = None, contract_version = None,
     ih_next_plan_id = None, ih_plan = \<lambda>_. None, ih_claim = \<lambda>_. None, ih_salt = \<lambda>_. None,
     ih_attempts = \<lambda>_. None, ih_user_plans = \<lambda>_. None, ih_user_claimed = \<lambda>_. None,
     ih_deactivated = None, ih_all_claimed = None, ih_admin = None, ih_kyc = \<lambda>_. None,
     ih_version = None, ih_trigger = \<lambda>_. None, ih_emergency = \<lambda>_. None, ih_guardians = \<lambda>_. None,
     ih_approvals = \<lambda>_. None, ih_contacts = \<lambda>_. None, ih_will_hash = \<lambda>_. None,
     ih_vault_will = \<lambda>_. None, ih_verified = \<lambda>_. None, ih_will_count = \<lambda>_. None,
     ih_will_version = \<lambda>_. None, ih_active_version = \<lambda>_. None, ih_will_signature = \<lambda>_. None,
     ih_sig_used = \<lambda>_. None, ih_next_message = None, ih_message = \<lambda>_. None,
     ih_vault_messages = \<lambda>_. None, ih_will_final = \<lambda>_. None, ih_will_final_at = \<lambda>_. None,
     ih_witnesses = \<lambda>_. None, ih_witness_sig = \<lambda>_. None, ih_lending = None, ih_governance = None,
     ih_notified = \<lambda>_. None, ih_acknowledged = \<lambda>_. None, ih_ack_required = \<lambda>_. None,
     ih_freeze = \<lambda>_. None, ih_legal_hold = \<lambda>_. None, ih_frozen_beneficiary = \<lambda>_. None,
     ih_trigger_config = \<lambda>_. None, ih_exit_settlement = \<lambda>_. None, ih_next_dispute = None,
     ih_dispute = \<lambda>_. None, ih_plan_disputes = \<lambda>_. None, ih_arbitrators = None,
     ih_relayers = None, ih_yield = \<lambda>_. None, ih_vault_wasm = None, ih_plan_vault = \<lambda>_. None,
     ih_key_version = \<lambda>_. None, ih_key_current = \<lambda>_. None, ih_key_ref = \<lambda>_. None,
     ih_wrapped = None, ih_wasm = None, ih_world = w, ih_events = []\<rparr>"

definition ih_publish :: "ih_event \<Rightarrow> 'w ih_state \<Rightarrow> 'w ih_state" where
  "ih_publish ev s = s\<lparr>ih_events := ih_events s @ [ev]\<rparr>"

section \<open>Calls of the host and of other contracts\<close>

text \<open>
  The host's SHA-256 and random generator, the deployment of a plan's vault, the vault's entry
  points, the lending contract's yield entry points and a peer's \<open>get_version\<close>. A call of another
  contract that fails returns \<open>None\<close>. The state of the random generator is part of the world.
\<close>

record 'w ih_externals = "'w token_ops" +
  host_sha256 :: "nat list \<Rightarrow> bytes32"
  host_prng :: "'w \<Rightarrow> bytes32 \<times> 'w"
  host_deploy :: "bytes32 \<Rightarrow> bytes32 \<Rightarrow> 'w \<Rightarrow> (address \<times> 'w) option"
  vault_init_call :: "address \<Rightarrow> address \<Rightarrow> address \<Rightarrow> nat \<Rightarrow> 'w \<Rightarrow> 'w option"
  vault_release_call :: "address \<Rightarrow> address \<Rightarrow> address \<Rightarrow> nat \<Rightarrow> 'w \<Rightarrow> 'w option"
  pool_register :: "address \<Rightarrow> address \<Rightarrow> nat \<Rightarrow> address \<Rightarrow> nat \<Rightarrow> 'w \<Rightarrow> 'w option"
  pool_unregister :: "address \<Rightarrow> address \<Rightarrow> nat \<Rightarrow> 'w \<Rightarrow> 'w option"
  pool_accrued :: "address \<Rightarrow> nat \<Rightarrow> 'w \<Rightarrow> nat option"
  pool_claim :: "address \<Rightarrow> address \<Rightarrow> nat \<Rightarrow> 'w \<Rightarrow> (nat \<times> 'w) option"
  peer_version :: "address \<Rightarrow> 'w \<Rightarrow> nat option"
  address_bytes :: "address \<Rightarrow> nat list"

end
