(* ===== verification/Inherit_Store.thy ===== *)
theory Inherit_Store
  imports Inherit_Types
begin

text \<open>
  The ground of the inheritance contract (\<open>src/contracts/inheritance-contract/src/lib.rs\<close>): hashing,
  the window of claim attempts, the guards, the administration of roles, the storage of plans and of
  their vaults, the indexes of plans, and the expiry of emergency access.
\<close>

section \<open>Hashing\<close>

definition bytes_of_string :: "string \<Rightarrow> nat list" where
  "bytes_of_string str = map of_char str"

text \<open>
  The buffer holds 256 bytes; copying a longer string into it fails, since the host demands a slice
  of the string's own length.
\<close>

definition hash_string :: "'w ih_externals \<Rightarrow> string \<Rightarrow> bytes32 ih_result" where
  "hash_string X input =
     (if length input > 256 then Panic else Ok (host_sha256 X (bytes_of_string input)))"

definition hash_bytes :: "'w ih_externals \<Rightarrow> nat list \<Rightarrow> bytes32" where
  "hash_bytes X input = host_sha256 X input"

definition claim_digits :: "nat \<Rightarrow> nat list" where
  "claim_digits claim_code = map (\<lambda>i. (claim_code div 10 ^ (5 - i)) mod 10 + 48) [0..<6]"

definition hash_claim_code_with_salt :: "'w ih_externals \<Rightarrow> nat \<Rightarrow> bytes32 \<Rightarrow> bytes32 ih_result" where
  "hash_claim_code_with_salt X claim_code salt =
     (if claim_code > 999999 then Err InvalidClaimCodeRange
      else Ok (host_sha256 X (salt @ claim_digits claim_code)))"

definition zero_salt :: bytes32 where
  "zero_salt = replicate 32 0"

definition hash_claim_code :: "'w ih_externals \<Rightarrow> nat \<Rightarrow> bytes32 ih_result" where
  "hash_claim_code X claim_code = hash_claim_code_with_salt X claim_code zero_salt"

definition generate_claim_salt :: "'w ih_externals \<Rightarrow> 'w ih_state \<Rightarrow> bytes32 \<times> 'w ih_state" where
  "generate_claim_salt X s = (let (salt, w) = host_prng X (ih_world s) in (salt, s\<lparr>ih_world := w\<rparr>))"

definition be_bytes :: "nat \<Rightarrow> nat list" where
  "be_bytes n = map (\<lambda>i. (n div 256 ^ (7 - i)) mod 256) [0..<8]"

section \<open>Guards\<close>

definition check_and_record_claim_attempt ::
  "ctx \<Rightarrow> nat \<Rightarrow> address \<Rightarrow> 'w ih_state \<Rightarrow> 'w ih_state ih_result" where
  "check_and_record_claim_attempt cx plan_id claimer s =
     (let now = timestamp cx;
          w = unwrap_or \<lparr>aw_window_start = now, aw_attempts = 0\<rparr> (ih_attempts s (plan_id, claimer));
          w = (if saturating_sub now (aw_window_start w) \<ge> CLAIM_ATTEMPT_WINDOW_SECONDS
               then w\<lparr>aw_window_start := now, aw_attempts := 0\<rparr> else w) in
      if aw_attempts w \<ge> CLAIM_MAX_ATTEMPTS_PER_WINDOW then Err Unauthorized
      else Ok (s\<lparr>ih_attempts := (ih_attempts s)((plan_id, claimer) \<mapsto>
             w\<lparr>aw_attempts := saturating_add_u32 (aw_attempts w) 1\<rparr>)\<rparr>))"

definition ih_require_not_blacklisted :: "'w ih_state \<Rightarrow> address \<Rightarrow> unit ih_result" where
  "ih_require_not_blacklisted s a = require_not_blacklisted s a Blk"

definition ih_require_admin :: "ctx \<Rightarrow> address \<Rightarrow> 'w ih_state \<Rightarrow> unit ih_result" where
  "ih_require_admin cx admin s =
     and_then (require_auth cx admin) (\<lambda>_.
     and_then (ih_require_not_blacklisted s admin) (\<lambda>_.
     require_role s admin RoleAdmin NotAdmin))"

definition enter_guard :: "'w ih_state \<Rightarrow> 'w ih_state ih_result" where
  "enter_guard s = reentrancy_enter_or_panic s"

definition exit_guard :: "'w ih_state \<Rightarrow> 'w ih_state" where
  "exit_guard s = reentrancy_exit s"

definition check_not_paused :: "'w ih_state \<Rightarrow> unit ih_result" where
  "check_not_paused s = require_not_paused_or_panic s"

definition check_kyc_approved :: "'w ih_state \<Rightarrow> address \<Rightarrow> unit ih_result" where
  "check_kyc_approved s user =
     and_then (ok_or (ih_kyc s user) KycNotSubmitted) (\<lambda>status.
     ensure (k_approved status) KycNotSubmitted)"

section \<open>Administration\<close>

definition ih_pause :: "ctx \<Rightarrow> address \<Rightarrow> 'w ih_state \<Rightarrow> 'w ih_state ih_result" where
  "ih_pause cx admin s =
     and_then (ih_require_admin cx admin s) (\<lambda>_.
     and_then (pause_contract s) (\<lambda>s. Ok (ih_publish (PauseEvent (timestamp cx)) s)))"

definition ih_unpause :: "ctx \<Rightarrow> address \<Rightarrow> 'w ih_state \<Rightarrow> 'w ih_state ih_result" where
  "ih_unpause cx admin s =
     and_then (ih_require_admin cx admin s) (\<lambda>_.
     Ok (ih_publish (UnpauseEvent (timestamp cx)) (unpause_contract s)))"

definition ih_is_paused :: "'w ih_state \<Rightarrow> bool" where
  "ih_is_paused s = is_contract_paused s"

definition ih_get_version :: "'w ih_state \<Rightarrow> nat" where
  "ih_get_version s = get_contract_version s"

definition initialize_admin :: "ctx \<Rightarrow> address \<Rightarrow> 'w ih_state \<Rightarrow> 'w ih_state ih_result" where
  "initialize_admin cx admin s =
     and_then (require_auth cx admin) (\<lambda>_.
     and_then (ih_require_not_blacklisted s admin) (\<lambda>_.
     if ih_admin s \<noteq> None then Err AdminAlreadyInitialized
     else Ok (assign_role admin RoleAdmin (set_contract_version 1 (s\<lparr>ih_admin := Some admin\<rparr>)))))"

definition ih_assign_role :: "ctx \<Rightarrow> address \<Rightarrow> address \<Rightarrow> role \<Rightarrow> 'w ih_state \<Rightarrow> 'w ih_state ih_result" where
  "ih_assign_role cx admin a r s =
     and_then (ih_require_admin cx admin s) (\<lambda>_.
     and_then (ih_require_not_blacklisted s a) (\<lambda>_. Ok (assign_role a r s)))"

definition ih_revoke_role :: "ctx \<Rightarrow> address \<Rightarrow> address \<Rightarrow> role \<Rightarrow> 'w ih_state \<Rightarrow> 'w ih_state ih_result" where
  "ih_revoke_role cx admin a r s = and_then (ih_require_admin cx admin s) (\<lambda>_. revoke_role a r s)"

definition ih_blacklist_address :: "ctx \<Rightarrow> address \<Rightarrow> address \<Rightarrow> 'w ih_state \<Rightarrow> 'w ih_state ih_result" where
  "ih_blacklist_address cx admin target s =
     and_then (ih_require_admin cx admin s) (\<lambda>_. Ok (blacklist_address target s))"

definition ih_unblacklist_address :: "ctx \<Rightarrow> address \<Rightarrow> address \<Rightarrow> 'w ih_state \<Rightarrow> 'w ih_state ih_result" where
  "ih_unblacklist_address cx admin target s =
     and_then (ih_require_admin cx admin s) (\<lambda>_. Ok (unblacklist_address target s))"

definition ih_is_blacklisted :: "'w ih_state \<Rightarrow> address \<Rightarrow> bool" where
  "ih_is_blacklisted s target = is_blacklisted s target"

definition ih_has_role :: "'w ih_state \<Rightarrow> address \<Rightarrow> role \<Rightarrow> bool" where
  "ih_has_role s a r = has_role s a r"

definition ih_get_roles :: "'w ih_state \<Rightarrow> address \<Rightarrow> role list" where
  "ih_get_roles s a = unwrap_or [] (roles_key s a)"

section \<open>Plans and their vaults\<close>

definition get_next_plan_id :: "'w ih_state \<Rightarrow> nat" where
  "get_next_plan_id s = unwrap_or 1 (ih_next_plan_id s)"

definition increment_plan_id :: "'w ih_state \<Rightarrow> (nat \<times> 'w ih_state) ih_result" where
  "increment_plan_id s =
     (let current_id = get_next_plan_id s
      in and_then (u64_add current_id 1) (\<lambda>next_id. Ok (current_id, s\<lparr>ih_next_plan_id := Some next_id\<rparr>)))"

definition store_plan :: "nat \<Rightarrow> inheritance_plan \<Rightarrow> 'w ih_state \<Rightarrow> 'w ih_state" where
  "store_plan plan_id plan s = s\<lparr>ih_plan := (ih_plan s)(plan_id \<mapsto> plan)\<rparr>"

definition get_plan :: "'w ih_state \<Rightarrow> nat \<Rightarrow> inheritance_plan option" where
  "get_plan s plan_id = ih_plan s plan_id"

text \<open>\<open>Self::get_plan(..).ok_or(InheritanceError::PlanNotFound)?\<close>, the first step of most calls.\<close>

definition the_plan :: "'w ih_state \<Rightarrow> nat \<Rightarrow> inheritance_plan ih_result" where
  "the_plan s plan_id = ok_or (get_plan s plan_id) PlanNotFound"

text \<open>The plan of a caller who must own it.\<close>

definition owned_plan :: "address \<Rightarrow> nat \<Rightarrow> 'w ih_state \<Rightarrow> inheritance_plan ih_result" where
  "owned_plan owner plan_id s =
     and_then (the_plan s plan_id) (\<lambda>plan.
     and_then (ensure (pl_owner plan = owner) Unauthorized) (\<lambda>_. Ok plan))"

text \<open>The check of a freeze or a legal hold on the plan.\<close>

definition check_not_held :: "nat \<Rightarrow> 'w ih_state \<Rightarrow> unit ih_result" where
  "check_not_held plan_id s =
     and_then (ensure (ih_freeze s plan_id = None) PlanNotActive) (\<lambda>_.
     ensure (ih_legal_hold s plan_id = None) PlanNotActive)"

definition plan_vault_salt :: "nat \<Rightarrow> bytes32" where
  "plan_vault_salt plan_id = bytes_of_string ''planvault:'' @ replicate 14 0 @ be_bytes plan_id"

definition store_plan_vault :: "nat \<Rightarrow> address \<Rightarrow> 'w ih_state \<Rightarrow> 'w ih_state" where
  "store_plan_vault plan_id vault s = s\<lparr>ih_plan_vault := (ih_plan_vault s)(plan_id \<mapsto> vault)\<rparr>"

definition deploy_plan_vault ::
  "'w ih_externals \<Rightarrow> ctx \<Rightarrow> nat \<Rightarrow> address \<Rightarrow> 'w ih_state \<Rightarrow> (address \<times> 'w ih_state) ih_result" where
  "deploy_plan_vault X cx plan_id owner s =
     and_then (ok_or (ih_vault_wasm s) VaultNotFound) (\<lambda>wasm_hash.
     and_then (unwrap (host_deploy X wasm_hash (plan_vault_salt plan_id) (ih_world s))) (\<lambda>(vault, w).
     and_then (ok_or (vault_init_call X vault (current_contract_address cx) owner plan_id w) FeeTransferFailed)
       (\<lambda>w. Ok (vault, store_plan_vault plan_id vault (s\<lparr>ih_world := w\<rparr>)))))"

definition require_plan_vault :: "'w ih_state \<Rightarrow> nat \<Rightarrow> address ih_result" where
  "require_plan_vault s plan_id = ok_or (ih_plan_vault s plan_id) VaultNotFound"

definition release_from_plan_vault ::
  "'w ih_externals \<Rightarrow> nat \<Rightarrow> address \<Rightarrow> address \<Rightarrow> nat \<Rightarrow> 'w ih_state \<Rightarrow> 'w ih_state ih_result" where
  "release_from_plan_vault X plan_id token recipient amount s =
     and_then (require_plan_vault s plan_id) (\<lambda>vault.
     and_then (ok_or (vault_release_call X vault token recipient amount (ih_world s)) FeeTransferFailed) (\<lambda>w.
     Ok (s\<lparr>ih_world := w\<rparr>)))"

text \<open>\<open>try_invoke_contract\<close> of a token's \<open>transfer\<close>, its failure reported as \<open>FeeTransferFailed\<close>.\<close>

definition try_transfer ::
  "'w ih_externals \<Rightarrow> address \<Rightarrow> address \<Rightarrow> address \<Rightarrow> int \<Rightarrow> 'w ih_state \<Rightarrow> 'w ih_state ih_result" where
  "try_transfer X token frm dst amount s =
     and_then (ok_or (tok_transfer X token frm dst amount (ih_world s)) FeeTransferFailed) (\<lambda>w.
     Ok (s\<lparr>ih_world := w\<rparr>))"

definition add_plan_to_user :: "address \<Rightarrow> nat \<Rightarrow> 'w ih_state \<Rightarrow> 'w ih_state" where
  "add_plan_to_user owner plan_id s =
     s\<lparr>ih_user_plans := (ih_user_plans s)(owner \<mapsto> unwrap_or [] (ih_user_plans s owner) @ [plan_id])\<rparr>"

definition remove_plan_from_user :: "address \<Rightarrow> nat \<Rightarrow> 'w ih_state \<Rightarrow> 'w ih_state" where
  "remove_plan_from_user owner plan_id s =
     s\<lparr>ih_user_plans := (ih_user_plans s)(owner \<mapsto> remove1 plan_id (unwrap_or [] (ih_user_plans s owner)))\<rparr>"

definition add_plan_to_deactivated :: "nat \<Rightarrow> 'w ih_state \<Rightarrow> 'w ih_state" where
  "add_plan_to_deactivated plan_id s =
     (let plans = unwrap_or [] (ih_deactivated s)
      in if plan_id \<in> set plans then s else s\<lparr>ih_deactivated := Some (plans @ [plan_id])\<rparr>)"

definition add_plan_to_claimed :: "address \<Rightarrow> nat \<Rightarrow> 'w ih_state \<Rightarrow> 'w ih_state" where
  "add_plan_to_claimed owner plan_id s =
     (let user_plans = unwrap_or [] (ih_user_claimed s owner);
          s = (if plan_id \<in> set user_plans then s
               else s\<lparr>ih_user_claimed := (ih_user_claimed s)(owner \<mapsto> user_plans @ [plan_id])\<rparr>);
          all_plans = unwrap_or [] (ih_all_claimed s)
      in if plan_id \<in> set all_plans then s else s\<lparr>ih_all_claimed := Some (all_plans @ [plan_id])\<rparr>)"

definition set_plan_vault_wasm_hash :: "ctx \<Rightarrow> address \<Rightarrow> bytes32 \<Rightarrow> 'w ih_state \<Rightarrow> 'w ih_state ih_result" where
  "set_plan_vault_wasm_hash cx admin wasm_hash s =
     and_then (ih_require_admin cx admin s) (\<lambda>_. Ok (s\<lparr>ih_vault_wasm := Some wasm_hash\<rparr>))"

text \<open>Removal by swapping with the last element and dropping the last.\<close>

definition swap_remove :: "nat \<Rightarrow> 'a list \<Rightarrow> 'a list" where
  "swap_remove index xs =
     (let last_index = length xs - 1;
          xs = (if index \<noteq> last_index then xs[index := xs ! last_index] else xs)
      in butlast xs)"

section \<open>Expiry of emergency access\<close>

definition check_and_expire_emergency_access ::
  "ctx \<Rightarrow> nat \<Rightarrow> 'w ih_state \<Rightarrow> (bool \<times> 'w ih_state) ih_result" where
  "check_and_expire_emergency_access cx plan_id s =
     (case ih_emergency s plan_id of
        None \<Rightarrow> Ok (False, s)
      | Some record \<Rightarrow>
          and_then (u64_add (em_activated_at record) EMERGENCY_EXPIRATION_PERIOD) (\<lambda>expires.
          if timestamp cx > expires
          then Ok (False, ih_publish (EmergencyAccessExpirationEvent plan_id (timestamp cx))
                 (s\<lparr>ih_emergency := (ih_emergency s)(plan_id := None)\<rparr>))
          else Ok (True, s)))"

definition get_emergency_access ::
  "ctx \<Rightarrow> nat \<Rightarrow> 'w ih_state \<Rightarrow> (emergency_access_record option \<times> 'w ih_state) ih_result" where
  "get_emergency_access cx plan_id s =
     and_then (check_and_expire_emergency_access cx plan_id s) (\<lambda>(active, s).
     if active then Ok (ih_emergency s plan_id, s) else Ok (None, s))"

definition is_emergency_active :: "ctx \<Rightarrow> nat \<Rightarrow> 'w ih_state \<Rightarrow> (bool \<times> 'w ih_state) ih_result" where
  "is_emergency_active cx plan_id s =
     and_then (check_and_expire_emergency_access cx plan_id s) (\<lambda>(active, s).
     if \<not> active then Ok (False, s)
     else case ih_emergency s plan_id of
            Some record \<Rightarrow> Ok (saturating_sub (timestamp cx) (em_activated_at record) < EMERGENCY_COOLDOWN_PERIOD, s)
          | None \<Rightarrow> Ok (False, s))"

section \<open>Reading plans\<close>

definition get_plan_details :: "'w ih_state \<Rightarrow> nat \<Rightarrow> inheritance_plan option" where
  "get_plan_details s plan_id = get_plan s plan_id"

definition get_plan_vault_address :: "'w ih_state \<Rightarrow> nat \<Rightarrow> address option" where
  "get_plan_vault_address s plan_id = ih_plan_vault s plan_id"

definition get_user_plan ::
  "ctx \<Rightarrow> address \<Rightarrow> nat \<Rightarrow> 'w ih_state \<Rightarrow> (inheritance_plan \<times> 'w ih_state) ih_result" where
  "get_user_plan cx caller plan_id s =
     and_then (require_auth cx caller) (\<lambda>_.
     and_then (the_plan s plan_id) (\<lambda>plan.
     if pl_owner plan = caller then Ok (plan, s)
     else and_then (get_emergency_access cx plan_id s) (\<lambda>(record, s).
          case record of
            Some r \<Rightarrow> if em_trusted_contact r = caller then Ok (plan, s) else Err Unauthorized
          | None \<Rightarrow> Err Unauthorized)))"

text \<open>The loop that collects the plans that exist among a list of ids.\<close>

definition plans_of :: "'w ih_state \<Rightarrow> nat list \<Rightarrow> inheritance_plan list" where
  "plans_of s ids = List.map_filter (get_plan s) ids"

definition get_user_plans :: "ctx \<Rightarrow> address \<Rightarrow> 'w ih_state \<Rightarrow> inheritance_plan list ih_result" where
  "get_user_plans cx user s =
     and_then (require_auth cx user) (\<lambda>_. Ok (plans_of s (unwrap_or [] (ih_user_plans s user))))"

definition get_all_plans :: "ctx \<Rightarrow> address \<Rightarrow> 'w ih_state \<Rightarrow> inheritance_plan list ih_result" where
  "get_all_plans cx admin s =
     and_then (ih_require_admin cx admin s) (\<lambda>_. Ok (plans_of s [1..<get_next_plan_id s]))"

definition get_user_pending_plans :: "ctx \<Rightarrow> address \<Rightarrow> 'w ih_state \<Rightarrow> inheritance_plan list ih_result" where
  "get_user_pending_plans cx user s =
     and_then (get_user_plans cx user s) (\<lambda>plans. Ok (filter pl_is_active plans))"

definition get_all_pending_plans :: "ctx \<Rightarrow> address \<Rightarrow> 'w ih_state \<Rightarrow> inheritance_plan list ih_result" where
  "get_all_pending_plans cx admin s =
     and_then (get_all_plans cx admin s) (\<lambda>plans. Ok (filter pl_is_active plans))"

definition get_deactivated_plan :: "ctx \<Rightarrow> address \<Rightarrow> nat \<Rightarrow> 'w ih_state \<Rightarrow> inheritance_plan ih_result" where
  "get_deactivated_plan cx user plan_id s =
     and_then (require_auth cx user) (\<lambda>_.
     and_then (owned_plan user plan_id s) (\<lambda>plan.
     and_then (ensure (\<not> pl_is_active plan) PlanNotActive) (\<lambda>_. Ok plan)))"

definition get_user_deactivated_plans :: "ctx \<Rightarrow> address \<Rightarrow> 'w ih_state \<Rightarrow> inheritance_plan list ih_result" where
  "get_user_deactivated_plans cx user s =
     and_then (require_auth cx user) (\<lambda>_.
     Ok (filter (\<lambda>p. \<not> pl_is_active p) (plans_of s (unwrap_or [] (ih_user_plans s user)))))"

definition get_all_deactivated_plans :: "ctx \<Rightarrow> address \<Rightarrow> 'w ih_state \<Rightarrow> inheritance_plan list ih_result" where
  "get_all_deactivated_plans cx admin s =
     and_then (require_auth cx admin) (\<lambda>_.
     and_then (ok_or (ih_admin s) Unauthorized) (\<lambda>stored_admin.
     and_then (ensure (admin = stored_admin) Unauthorized) (\<lambda>_.
     Ok (filter (\<lambda>p. \<not> pl_is_active p) (plans_of s (unwrap_or [] (ih_deactivated s)))))))"

definition get_claimed_plan :: "ctx \<Rightarrow> address \<Rightarrow> nat \<Rightarrow> 'w ih_state \<Rightarrow> inheritance_plan ih_result" where
  "get_claimed_plan cx user plan_id s =
     and_then (require_auth cx user) (\<lambda>_.
     and_then (owned_plan user plan_id s) (\<lambda>plan.
     and_then (ensure (plan_id \<in> set (unwrap_or [] (ih_user_claimed s user))) PlanNotClaimed) (\<lambda>_. Ok plan)))"

definition get_user_claimed_plans :: "ctx \<Rightarrow> address \<Rightarrow> 'w ih_state \<Rightarrow> inheritance_plan list ih_result" where
  "get_user_claimed_plans cx user s =
     and_then (require_auth cx user) (\<lambda>_. Ok (plans_of s (unwrap_or [] (ih_user_claimed s user))))"

definition get_all_claimed_plans :: "ctx \<Rightarrow> address \<Rightarrow> 'w ih_state \<Rightarrow> inheritance_plan list ih_result" where
  "get_all_claimed_plans cx admin s =
     and_then (ih_require_admin cx admin s) (\<lambda>_. Ok (plans_of s (unwrap_or [] (ih_all_claimed s))))"

section \<open>Facts about the accessors\<close>

named_theorems ih_access "the accessors of the inheritance contract, which read or write one key"

lemmas ih_access_defs [ih_access] =
  get_plan_def store_plan_def store_plan_vault_def ih_publish_def add_plan_to_user_def
  remove_plan_from_user_def set_contract_version_def enter_guard_def exit_guard_def reentrancy_exit_def

lemma the_plan_eq_Ok [simp]: "the_plan s i = Ok p \<longleftrightarrow> ih_plan s i = Some p"
  by (simp add: the_plan_def get_plan_def)

lemma owned_plan_eq_Ok [simp]: "owned_plan u i s = Ok p \<longleftrightarrow> ih_plan s i = Some p \<and> pl_owner p = u"
  by (auto simp: owned_plan_def)

lemma check_not_held_eq_Ok [simp]:
  "check_not_held i s = Ok u \<longleftrightarrow> ih_freeze s i = None \<and> ih_legal_hold s i = None"
  by (simp add: check_not_held_def)

lemma ih_require_not_blacklisted_eq_Ok [simp]:
  "ih_require_not_blacklisted s a = Ok u \<longleftrightarrow> \<not> is_blacklisted s a"
  by (simp add: ih_require_not_blacklisted_def require_not_blacklisted_def)

lemma ih_require_admin_eq_Ok [simp]:
  "ih_require_admin cx a s = Ok u \<longleftrightarrow> authorized cx a \<and> \<not> is_blacklisted s a \<and> has_role s a RoleAdmin"
  by (auto simp: ih_require_admin_def)

lemma ih_enter_guard_eq_Ok [simp]:
  "enter_guard s = Ok t \<longleftrightarrow> reentrancy_lock s = None \<and> t = s\<lparr>reentrancy_lock := Some True\<rparr>"
  by (auto simp: enter_guard_def reentrancy_enter_or_panic_def)

lemma check_not_paused_eq_Ok [simp]:
  "check_not_paused s = Ok u \<longleftrightarrow> \<not> is_contract_paused s \<and> \<not> unwrap_or False (pause_lock s)"
  by (auto simp: check_not_paused_def require_not_paused_or_panic_def)

lemma check_kyc_approved_eq_Ok [simp]:
  "check_kyc_approved s u = Ok x \<longleftrightarrow> (\<exists>k. ih_kyc s u = Some k \<and> k_approved k)"
  by (auto simp: check_kyc_approved_def)

lemma try_transfer_eq_Ok [simp]:
  "try_transfer X tk a b n s = Ok t \<longleftrightarrow>
     (\<exists>w. tok_transfer X tk a b n (ih_world s) = Some w \<and> t = s\<lparr>ih_world := w\<rparr>)"
  by (auto simp: try_transfer_def)

lemma release_from_plan_vault_eq_Ok [simp]:
  "release_from_plan_vault X i tk r n s = Ok t \<longleftrightarrow>
     (\<exists>v w. ih_plan_vault s i = Some v \<and> vault_release_call X v tk r n (ih_world s) = Some w \<and>
       t = s\<lparr>ih_world := w\<rparr>)"
  by (auto simp: release_from_plan_vault_def require_plan_vault_def)

lemma increment_plan_id_eq_Ok [simp]:
  "increment_plan_id s = Ok (i, t) \<longleftrightarrow>
     i = get_next_plan_id s \<and> i + 1 \<le> u64_max \<and> t = s\<lparr>ih_next_plan_id := Some (i + 1)\<rparr>"
  by (auto simp: increment_plan_id_def Let_def)

text \<open>The contract's guard is a lock in the sense of the access-control library.\<close>

interpretation ih_lock: lock_guard
  "\<lambda>s :: 'w ih_state. reentrancy_lock s \<noteq> None" enter_guard exit_guard "\<lambda>s. s\<lparr>reentrancy_lock := None\<rparr>"
  by unfold_locales (auto simp: enter_guard_def exit_guard_def lock_defs)

end
