(* ===== verification/Inherit_Disputes.thy ===== *)
theory Inherit_Disputes
  imports Inherit_Store
begin

text \<open>
  Disputes about a plan (\<open>src/contracts/inheritance-contract/src/lib.rs\<close>, \<open>disputes.rs\<close>):
  arbitrators, filing and raising a dispute, its review and resolution, and the freeze a dispute
  puts on its plan.
\<close>

section \<open>Arbitrators\<close>

definition get_arbitrators :: "'w ih_state \<Rightarrow> address list" where
  "get_arbitrators s = unwrap_or [] (ih_arbitrators s)"

definition is_arbitrator :: "'w ih_state \<Rightarrow> address \<Rightarrow> bool" where
  "is_arbitrator s who = (who \<in> set (get_arbitrators s))"

definition add_arbitrator :: "ctx \<Rightarrow> address \<Rightarrow> address \<Rightarrow> 'w ih_state \<Rightarrow> 'w ih_state ih_result" where
  "add_arbitrator cx admin arbitrator s =
     and_then (ih_require_admin cx admin s) (\<lambda>_.
     if arbitrator \<in> set (get_arbitrators s) then Ok s
     else Ok (s\<lparr>ih_arbitrators := Some (get_arbitrators s @ [arbitrator])\<rparr>))"

definition remove_arbitrator :: "ctx \<Rightarrow> address \<Rightarrow> address \<Rightarrow> 'w ih_state \<Rightarrow> 'w ih_state ih_result" where
  "remove_arbitrator cx admin arbitrator s =
     and_then (ih_require_admin cx admin s) (\<lambda>_.
     Ok (s\<lparr>ih_arbitrators := Some (filter (\<lambda>a. a \<noteq> arbitrator) (get_arbitrators s))\<rparr>))"

text \<open>The arbitrator of a new dispute: the first of the list, or the admin when the list is empty.\<close>

definition first_arbitrator :: "'w ih_state \<Rightarrow> address ih_result" where
  "first_arbitrator s =
     and_then (ok_or (ih_admin s) AdminNotSet) (\<lambda>admin.
     Ok (case get_arbitrators s of [] \<Rightarrow> admin | a # _ \<Rightarrow> a))"

section \<open>Filing\<close>

definition get_dispute :: "'w ih_state \<Rightarrow> nat \<Rightarrow> dispute_record option" where
  "get_dispute s dispute_id = ih_dispute s dispute_id"

definition get_plan_disputes :: "'w ih_state \<Rightarrow> nat \<Rightarrow> nat list" where
  "get_plan_disputes s plan_id = unwrap_or [] (ih_plan_disputes s plan_id)"

text \<open>Both ways of opening a dispute write the same record, list and counter.\<close>

definition open_dispute ::
  "ctx \<Rightarrow> address \<Rightarrow> nat \<Rightarrow> string \<Rightarrow> 'w ih_state \<Rightarrow> (nat \<times> 'w ih_state) ih_result" where
  "open_dispute cx disputer plan_id reason s =
     (let dispute_id = unwrap_or 0 (ih_next_dispute s) in
      and_then (first_arbitrator s) (\<lambda>arbitrator.
      let record = \<lparr>ds_dispute_id = dispute_id, ds_plan_id = plan_id, ds_disputer = disputer,
            ds_reason = reason, ds_status = Filed, ds_filed_at = timestamp cx, ds_resolved_at = 0,
            ds_resolution_notes = '''', ds_arbitrator = arbitrator\<rparr>;
          s = s\<lparr>ih_dispute := (ih_dispute s)(dispute_id \<mapsto> record)\<rparr>;
          s = s\<lparr>ih_plan_disputes := (ih_plan_disputes s)(plan_id \<mapsto> get_plan_disputes s plan_id @ [dispute_id])\<rparr> in
      and_then (u64_add dispute_id 1) (\<lambda>nxt.
      Ok (dispute_id, s\<lparr>ih_next_dispute := Some nxt\<rparr>))))"

definition file_dispute ::
  "ctx \<Rightarrow> address \<Rightarrow> nat \<Rightarrow> string \<Rightarrow> 'w ih_state \<Rightarrow> (nat \<times> 'w ih_state) ih_result" where
  "file_dispute cx disputer plan_id reason s =
     and_then (require_auth cx disputer) (\<lambda>_.
     and_then (check_not_paused s) (\<lambda>_.
     and_then (the_plan s plan_id) (\<lambda>_.
     and_then (open_dispute cx disputer plan_id reason s) (\<lambda>(dispute_id, s).
     Ok (dispute_id, ih_publish (DisputeFiledEvent dispute_id plan_id disputer reason (timestamp cx)) s)))))"

definition freeze_plan_for_dispute :: "ctx \<Rightarrow> address \<Rightarrow> nat \<Rightarrow> 'w ih_state \<Rightarrow> 'w ih_state" where
  "freeze_plan_for_dispute cx who plan_id s =
     s\<lparr>ih_freeze := (ih_freeze s)(plan_id \<mapsto>
        \<lparr>fz_plan_id = plan_id, fz_frozen_at = timestamp cx, fz_reason = ''dispute'', fz_frozen_by = who\<rparr>)\<rparr>"

definition raise_dispute ::
  "ctx \<Rightarrow> nat \<Rightarrow> address \<Rightarrow> bytes32 \<Rightarrow> 'w ih_state \<Rightarrow> (nat \<times> 'w ih_state) ih_result" where
  "raise_dispute cx plan_id challenger proof_hash s =
     and_then (require_auth cx challenger) (\<lambda>_.
     and_then (check_not_paused s) (\<lambda>_.
     and_then (the_plan s plan_id) (\<lambda>_.
     and_then (open_dispute cx challenger plan_id ''dispute raised'' s) (\<lambda>(dispute_id, s).
     let s = freeze_plan_for_dispute cx challenger plan_id s;
         s = ih_publish (DisputeFiledEvent dispute_id plan_id challenger ''dispute raised'' (timestamp cx)) s;
         s = ih_publish (DisputePlanFrozenEvent plan_id dispute_id (timestamp cx)) s
     in Ok (dispute_id, s)))))"

section \<open>Review and resolution\<close>

definition is_open :: "dispute_record \<Rightarrow> bool" where
  "is_open record \<longleftrightarrow> ds_status record = Filed \<or> ds_status record = UnderReview"

definition review_dispute ::
  "ctx \<Rightarrow> address \<Rightarrow> nat \<Rightarrow> dispute_status \<Rightarrow> string \<Rightarrow> bool \<Rightarrow> 'w ih_state \<Rightarrow> 'w ih_state ih_result" where
  "review_dispute cx arbitrator dispute_id new_status resolution_notes freeze_plan s =
     and_then (require_auth cx arbitrator) (\<lambda>_.
     and_then (check_not_paused s) (\<lambda>_.
     and_then (ok_or (ih_dispute s dispute_id) PlanNotFound) (\<lambda>record.
     and_then (ensure (is_arbitrator s arbitrator) Unauthorized) (\<lambda>_.
     and_then (ensure (\<not> (ds_status record \<noteq> Filed \<and> ds_status record \<noteq> UnderReview)) AlreadyApproved) (\<lambda>_.
     let closing = (new_status = Resolved \<or> new_status = Rejected);
         record = record\<lparr>ds_status := new_status, ds_resolution_notes := resolution_notes\<rparr>;
         record = (if closing then record\<lparr>ds_resolved_at := timestamp cx\<rparr> else record);
         s = s\<lparr>ih_dispute := (ih_dispute s)(dispute_id \<mapsto> record)\<rparr>;
         s = (if freeze_plan
              then ih_publish (PlanFrozenEvent (ds_plan_id record) arbitrator (timestamp cx) ''dispute'')
                     (freeze_plan_for_dispute cx arbitrator (ds_plan_id record) s)
              else s)
     in Ok (if closing
            then ih_publish (DisputeResolvedEvent dispute_id (ds_plan_id record) (ds_status record) arbitrator
                   (ds_resolved_at record)) s
            else s))))))"

definition unfreeze_plan :: "ctx \<Rightarrow> address \<Rightarrow> nat \<Rightarrow> 'w ih_state \<Rightarrow> 'w ih_state ih_result" where
  "unfreeze_plan cx admin plan_id s =
     and_then (ih_require_admin cx admin s) (\<lambda>_.
     Ok (ih_publish (PlanUnfrozenEvent plan_id admin (timestamp cx))
       (s\<lparr>ih_freeze := (ih_freeze s)(plan_id := None)\<rparr>)))"

text \<open>One pass of the resolution loop: an open dispute is closed, any other is left as it is.\<close>

definition close_dispute ::
  "ctx \<Rightarrow> address \<Rightarrow> nat \<Rightarrow> bool \<Rightarrow> nat \<Rightarrow> 'w ih_state \<Rightarrow> 'w ih_state" where
  "close_dispute cx arbitrator plan_id approve dispute_id s =
     (let new_status = (if approve then Resolved else Rejected) in
      case ih_dispute s dispute_id of
        None \<Rightarrow> s
      | Some record \<Rightarrow>
          if is_open record
          then let record = record\<lparr>ds_status := new_status, ds_resolved_at := timestamp cx,
                     ds_resolution_notes := (if approve then ''resolved'' else ''rejected'')\<rparr>;
                   s = s\<lparr>ih_dispute := (ih_dispute s)(dispute_id \<mapsto> record)\<rparr>
               in ih_publish (DisputeResolvedEvent dispute_id plan_id new_status arbitrator (ds_resolved_at record)) s
          else s)"

definition resolve_dispute :: "ctx \<Rightarrow> nat \<Rightarrow> bool \<Rightarrow> 'w ih_state \<Rightarrow> 'w ih_state ih_result" where
  "resolve_dispute cx plan_id approve s =
     and_then (check_not_paused s) (\<lambda>_.
     and_then (first_arbitrator s) (\<lambda>arbitrator.
     and_then (require_auth cx arbitrator) (\<lambda>_.
     let plan_disputes = get_plan_disputes s plan_id in
     and_then (ensure (plan_disputes \<noteq> []) PlanNotFound) (\<lambda>_.
     let s = fold (close_dispute cx arbitrator plan_id approve) plan_disputes s;
         s = s\<lparr>ih_freeze := (ih_freeze s)(plan_id := None)\<rparr>
     in Ok (ih_publish (DisputePlanUnfrozenEvent plan_id 0 (timestamp cx)) s)))))"

end
