(* ===== verification/Inherit_Triggers.thy ===== *)
theory Inherit_Triggers
  imports Inherit_Store
begin

text \<open>
  The trigger of an inheritance (\<open>src/contracts/inheritance-contract/src/lib.rs\<close>): the conditions a
  plan can carry, their check, the triggering by admin, owner or emergency contact, and the loan
  freeze, recall and write-off that follow it.
\<close>

section \<open>Trigger conditions\<close>

definition get_trigger_info :: "'w ih_state \<Rightarrow> nat \<Rightarrow> inheritance_trigger_info option" where
  "get_trigger_info s plan_id = ih_trigger s plan_id"

definition set_trigger_info :: "nat \<Rightarrow> inheritance_trigger_info \<Rightarrow> 'w ih_state \<Rightarrow> 'w ih_state" where
  "set_trigger_info plan_id info s = s\<lparr>ih_trigger := (ih_trigger s)(plan_id \<mapsto> info)\<rparr>"

definition get_trigger_config :: "'w ih_state \<Rightarrow> nat \<Rightarrow> trigger_config option" where
  "get_trigger_config s plan_id = ih_trigger_config s plan_id"

definition save_trigger_config :: "nat \<Rightarrow> trigger_config \<Rightarrow> 'w ih_state \<Rightarrow> 'w ih_state" where
  "save_trigger_config plan_id config s = s\<lparr>ih_trigger_config := (ih_trigger_config s)(plan_id \<mapsto> config)\<rparr>"

text \<open>One condition. The inactivity deadline is a plain sum, which traps on overflow.\<close>

fun condition_met :: "nat \<Rightarrow> trigger_config \<Rightarrow> trigger_condition \<Rightarrow> bool ih_result" where
  "condition_met now config Time = Ok (tc_trigger_date config > 0 \<and> now \<ge> tc_trigger_date config)"
| "condition_met now config Inactivity =
     (if tc_inactivity_period config > 0 \<and> tc_last_activity config > 0
      then and_then (u64_add (tc_last_activity config) (tc_inactivity_period config)) (\<lambda>d. Ok (now \<ge> d))
      else Ok False)"
| "condition_met now config Oracle = Ok (tc_oracle_triggered config)"
| "condition_met now config Health = Ok (tc_health_triggered config)"
| "condition_met now config Manual = Ok False"

fun any_condition_met :: "nat \<Rightarrow> trigger_config \<Rightarrow> trigger_condition list \<Rightarrow> bool ih_result" where
  "any_condition_met now config [] = Ok False"
| "any_condition_met now config (c # cs) =
     and_then (condition_met now config c) (\<lambda>met. if met then Ok True else any_condition_met now config cs)"

definition check_trigger_conditions :: "ctx \<Rightarrow> nat \<Rightarrow> 'w ih_state \<Rightarrow> bool ih_result" where
  "check_trigger_conditions cx plan_id s =
     (case get_trigger_config s plan_id of
        None \<Rightarrow> Ok False
      | Some config \<Rightarrow> any_condition_met (timestamp cx) config (tc_conditions config))"

definition get_trigger_conditions :: "'w ih_state \<Rightarrow> nat \<Rightarrow> trigger_config option" where
  "get_trigger_conditions s plan_id = get_trigger_config s plan_id"

definition set_trigger_conditions ::
  "ctx \<Rightarrow> address \<Rightarrow> nat \<Rightarrow> trigger_condition list \<Rightarrow> nat \<Rightarrow> nat \<Rightarrow> address option \<Rightarrow> 'w ih_state \<Rightarrow>
   'w ih_state ih_result" where
  "set_trigger_conditions cx owner plan_id conditions trigger_date inactivity_period oracle_address s =
     and_then (require_auth cx owner) (\<lambda>_.
     and_then (owned_plan owner plan_id s) (\<lambda>_.
     and_then (ensure (get_trigger_info s plan_id = None) InheritanceAlreadyTriggered) (\<lambda>_.
     and_then (ensure (\<not> (Oracle \<in> set conditions \<and> oracle_address = None)) MissingRequiredField) (\<lambda>_.
     let config = \<lparr>tc_conditions = conditions, tc_trigger_date = trigger_date,
           tc_inactivity_period = inactivity_period, tc_last_activity = timestamp cx,
           tc_oracle_address = oracle_address, tc_oracle_triggered = False, tc_health_triggered = False\<rparr>
     in Ok (ih_publish (TriggerConditionSetEvent plan_id (length conditions))
          (save_trigger_config plan_id config s))))))"

definition default_trigger_config :: "ctx \<Rightarrow> trigger_config" where
  "default_trigger_config cx = \<lparr>tc_conditions = [], tc_trigger_date = 0, tc_inactivity_period = 0,
     tc_last_activity = timestamp cx, tc_oracle_address = None, tc_oracle_triggered = False,
     tc_health_triggered = False\<rparr>"

text \<open>Adding a condition to the list unless it is there already.\<close>

definition with_condition :: "trigger_condition \<Rightarrow> trigger_config \<Rightarrow> trigger_config" where
  "with_condition c config =
     (if c \<in> set (tc_conditions config) then config
      else config\<lparr>tc_conditions := tc_conditions config @ [c]\<rparr>)"

definition config_or_default :: "ctx \<Rightarrow> nat \<Rightarrow> 'w ih_state \<Rightarrow> trigger_config" where
  "config_or_default cx plan_id s = unwrap_or (default_trigger_config cx) (get_trigger_config s plan_id)"

definition add_time_trigger :: "ctx \<Rightarrow> address \<Rightarrow> nat \<Rightarrow> nat \<Rightarrow> 'w ih_state \<Rightarrow> 'w ih_state ih_result" where
  "add_time_trigger cx owner plan_id trigger_date s =
     and_then (require_auth cx owner) (\<lambda>_.
     and_then (owned_plan owner plan_id s) (\<lambda>_.
     and_then (ensure (trigger_date \<noteq> 0) MissingRequiredField) (\<lambda>_.
     and_then (ensure (get_trigger_info s plan_id = None) InheritanceAlreadyTriggered) (\<lambda>_.
     let config = with_condition Time (config_or_default cx plan_id s)
     in Ok (save_trigger_config plan_id (config\<lparr>tc_trigger_date := trigger_date\<rparr>) s)))))"

definition add_inactivity_trigger :: "ctx \<Rightarrow> address \<Rightarrow> nat \<Rightarrow> nat \<Rightarrow> 'w ih_state \<Rightarrow> 'w ih_state ih_result" where
  "add_inactivity_trigger cx owner plan_id period_seconds s =
     and_then (require_auth cx owner) (\<lambda>_.
     and_then (owned_plan owner plan_id s) (\<lambda>_.
     and_then (ensure (period_seconds \<noteq> 0) MissingRequiredField) (\<lambda>_.
     let config = with_condition Inactivity (config_or_default cx plan_id s);
         config = config\<lparr>tc_inactivity_period := period_seconds\<rparr>;
         config = (if tc_last_activity config = 0 then config\<lparr>tc_last_activity := timestamp cx\<rparr> else config)
     in Ok (save_trigger_config plan_id config s))))"

definition add_oracle_trigger :: "ctx \<Rightarrow> address \<Rightarrow> nat \<Rightarrow> address \<Rightarrow> 'w ih_state \<Rightarrow> 'w ih_state ih_result" where
  "add_oracle_trigger cx owner plan_id oracle_address s =
     and_then (require_auth cx owner) (\<lambda>_.
     and_then (owned_plan owner plan_id s) (\<lambda>_.
     let config = with_condition Oracle (config_or_default cx plan_id s)
     in Ok (save_trigger_config plan_id (config\<lparr>tc_oracle_address := Some oracle_address\<rparr>) s)))"

definition add_health_trigger :: "ctx \<Rightarrow> address \<Rightarrow> nat \<Rightarrow> address \<Rightarrow> 'w ih_state \<Rightarrow> 'w ih_state ih_result" where
  "add_health_trigger cx owner plan_id oracle_address s =
     and_then (require_auth cx owner) (\<lambda>_.
     and_then (owned_plan owner plan_id s) (\<lambda>_.
     let config = with_condition Health (config_or_default cx plan_id s)
     in Ok (save_trigger_config plan_id (config\<lparr>tc_oracle_address := Some oracle_address\<rparr>) s)))"

definition record_activity :: "ctx \<Rightarrow> address \<Rightarrow> nat \<Rightarrow> 'w ih_state \<Rightarrow> 'w ih_state ih_result" where
  "record_activity cx owner plan_id s =
     and_then (require_auth cx owner) (\<lambda>_.
     and_then (owned_plan owner plan_id s) (\<lambda>_.
     and_then (ok_or (get_trigger_config s plan_id) PlanNotFound) (\<lambda>config.
     Ok (save_trigger_config plan_id (config\<lparr>tc_last_activity := timestamp cx\<rparr>) s))))"

definition submit_oracle_trigger :: "ctx \<Rightarrow> address \<Rightarrow> nat \<Rightarrow> 'w ih_state \<Rightarrow> 'w ih_state ih_result" where
  "submit_oracle_trigger cx oracle plan_id s =
     and_then (require_auth cx oracle) (\<lambda>_.
     and_then (ok_or (get_trigger_config s plan_id) PlanNotFound) (\<lambda>config.
     and_then (ensure (tc_oracle_address config = Some oracle) Unauthorized) (\<lambda>_.
     Ok (save_trigger_config plan_id (config\<lparr>tc_oracle_triggered := True\<rparr>) s))))"

definition submit_health_trigger :: "ctx \<Rightarrow> address \<Rightarrow> nat \<Rightarrow> 'w ih_state \<Rightarrow> 'w ih_state ih_result" where
  "submit_health_trigger cx oracle plan_id s =
     and_then (require_auth cx oracle) (\<lambda>_.
     and_then (ok_or (get_trigger_config s plan_id) PlanNotFound) (\<lambda>config.
     and_then (ensure (tc_oracle_address config = Some oracle) Unauthorized) (\<lambda>_.
     Ok (save_trigger_config plan_id (config\<lparr>tc_health_triggered := True\<rparr>) s))))"

section \<open>Triggering\<close>

text \<open>The record every trigger starts from, and the plan it leaves behind.\<close>

definition fresh_trigger :: "ctx \<Rightarrow> inheritance_plan \<Rightarrow> inheritance_trigger_info" where
  "fresh_trigger cx plan = \<lparr>ti_triggered_at = timestamp cx, ti_loan_freeze_active = True,
     ti_recall_attempted = False, ti_liquidation_triggered = False,
     ti_original_loaned = pl_total_loaned plan, ti_recalled_amount = 0, ti_settled_amount = 0\<rparr>"

definition start_inheritance :: "ctx \<Rightarrow> nat \<Rightarrow> inheritance_plan \<Rightarrow> 'w ih_state \<Rightarrow> 'w ih_state" where
  "start_inheritance cx plan_id plan s =
     (let plan = plan\<lparr>pl_is_lendable := False\<rparr>;
          s = store_plan plan_id plan s
      in set_trigger_info plan_id (fresh_trigger cx plan) s)"

definition auto_trigger_check :: "ctx \<Rightarrow> nat \<Rightarrow> 'w ih_state \<Rightarrow> 'w ih_state ih_result" where
  "auto_trigger_check cx plan_id s =
     and_then (check_trigger_conditions cx plan_id s) (\<lambda>met.
     if \<not> met then Ok s
     else if get_trigger_info s plan_id \<noteq> None then Ok s
     else and_then (the_plan s plan_id) (\<lambda>plan.
          and_then (ensure (pl_is_active plan) PlanNotActive) (\<lambda>_.
          let s = start_inheritance cx plan_id plan s;
              s = ih_publish (TriggerConditionMetEvent plan_id (timestamp cx)) s
          in Ok (ih_publish (InheritanceTriggeredEvent plan_id (timestamp cx) (pl_total_loaned plan)) s))))"

text \<open>
  \<open>let _ = Self::auto_trigger_check(..)\<close>: an error, which always comes before the first write, is
  dropped and the state is as before; a trap is still a trap.
\<close>

definition try_auto_trigger :: "ctx \<Rightarrow> nat \<Rightarrow> 'w ih_state \<Rightarrow> 'w ih_state ih_result" where
  "try_auto_trigger cx plan_id s =
     (case auto_trigger_check cx plan_id s of Ok t \<Rightarrow> Ok t | Err _ \<Rightarrow> Ok s | Panic \<Rightarrow> Panic)"

text \<open>
  Who may trigger: the admin, the owner, or the contact of a live emergency access, each under its
  own authorization. Looking up the access may expire it.
\<close>

definition authorize_trigger :: "ctx \<Rightarrow> address \<Rightarrow> nat \<Rightarrow> 'w ih_state \<Rightarrow> 'w ih_state ih_result" where
  "authorize_trigger cx caller plan_id s =
     (if ih_admin s = Some caller then and_then (require_auth cx caller) (\<lambda>_. Ok s)
      else and_then (the_plan s plan_id) (\<lambda>plan.
           if pl_owner plan = caller then and_then (require_auth cx caller) (\<lambda>_. Ok s)
           else and_then (get_emergency_access cx plan_id s) (\<lambda>(record, s).
                case record of
                  Some r \<Rightarrow> if em_trusted_contact r = caller then and_then (require_auth cx caller) (\<lambda>_. Ok s)
                            else Err Unauthorized
                | None \<Rightarrow> Err Unauthorized)))"

definition publish_trigger :: "ctx \<Rightarrow> nat \<Rightarrow> inheritance_plan \<Rightarrow> 'w ih_state \<Rightarrow> 'w ih_state" where
  "publish_trigger cx plan_id plan s =
     ih_publish (LoanFreezeEvent plan_id (timestamp cx))
       (ih_publish (InheritanceTriggeredEvent plan_id (timestamp cx) (pl_total_loaned plan)) s)"

definition trigger_inheritance :: "ctx \<Rightarrow> address \<Rightarrow> nat \<Rightarrow> 'w ih_state \<Rightarrow> 'w ih_state ih_result" where
  "trigger_inheritance cx caller plan_id s =
     and_then (check_not_paused s) (\<lambda>_.
     and_then (enter_guard s) (\<lambda>s.
     and_then (authorize_trigger cx caller plan_id s) (\<lambda>s.
     and_then (the_plan s plan_id) (\<lambda>plan.
     and_then (ensure (pl_is_active plan) PlanNotActive) (\<lambda>_.
     and_then (check_not_held plan_id s) (\<lambda>_.
     and_then (ensure (get_trigger_info s plan_id = None) InheritanceAlreadyTriggered) (\<lambda>_.
     let s = start_inheritance cx plan_id plan s;
         s = publish_trigger cx plan_id plan s
     in Ok (exit_guard s))))))))"

section \<open>Loans after the trigger\<close>

definition freeze_loans :: "ctx \<Rightarrow> address \<Rightarrow> nat \<Rightarrow> 'w ih_state \<Rightarrow> 'w ih_state ih_result" where
  "freeze_loans cx admin plan_id s =
     and_then (check_not_paused s) (\<lambda>_.
     and_then (ih_require_admin cx admin s) (\<lambda>_.
     and_then (the_plan s plan_id) (\<lambda>plan.
     and_then (ok_or (get_trigger_info s plan_id) InheritanceNotTriggered) (\<lambda>trigger_info.
     let s = store_plan plan_id (plan\<lparr>pl_is_lendable := False\<rparr>) s;
         s = set_trigger_info plan_id (trigger_info\<lparr>ti_loan_freeze_active := True\<rparr>) s
     in Ok (ih_publish (LoanFreezeEvent plan_id (timestamp cx)) s)))))"

definition recall_loan :: "ctx \<Rightarrow> address \<Rightarrow> nat \<Rightarrow> nat \<Rightarrow> 'w ih_state \<Rightarrow> 'w ih_state ih_result" where
  "recall_loan cx admin plan_id recall_amount s =
     and_then (ih_require_admin cx admin s) (\<lambda>_.
     and_then (the_plan s plan_id) (\<lambda>plan.
     and_then (ok_or (get_trigger_info s plan_id) InheritanceNotTriggered) (\<lambda>trigger_info.
     and_then (ensure (pl_total_loaned plan \<noteq> 0) NoOutstandingLoans) (\<lambda>_.
     and_then (ensure (\<not> (recall_amount = 0 \<or> recall_amount > pl_total_loaned plan)) LoanRecallFailed) (\<lambda>_.
     and_then (u64_sub (pl_total_loaned plan) recall_amount) (\<lambda>loaned.
     let s = store_plan plan_id (plan\<lparr>pl_total_loaned := loaned\<rparr>) s in
     and_then (u64_add (ti_recalled_amount trigger_info) recall_amount) (\<lambda>recalled.
     let s = set_trigger_info plan_id
               (trigger_info\<lparr>ti_recall_attempted := True, ti_recalled_amount := recalled\<rparr>) s
     in Ok (ih_publish (LoanRecallEvent plan_id recall_amount loaned) s))))))))"

definition liquidation_fallback :: "ctx \<Rightarrow> address \<Rightarrow> nat \<Rightarrow> 'w ih_state \<Rightarrow> 'w ih_state ih_result" where
  "liquidation_fallback cx admin plan_id s =
     and_then (ih_require_admin cx admin s) (\<lambda>_.
     and_then (the_plan s plan_id) (\<lambda>plan.
     and_then (ok_or (get_trigger_info s plan_id) InheritanceNotTriggered) (\<lambda>trigger_info.
     and_then (ensure (pl_total_loaned plan \<noteq> 0) NoOutstandingLoans) (\<lambda>_.
     let unrecoverable = pl_total_loaned plan;
         plan = plan\<lparr>pl_total_amount := saturating_sub (pl_total_amount plan) unrecoverable,
                     pl_total_loaned := 0\<rparr>;
         s = store_plan plan_id plan s in
     and_then (u64_add (ti_settled_amount trigger_info) unrecoverable) (\<lambda>settled.
     let s = set_trigger_info plan_id
               (trigger_info\<lparr>ti_liquidation_triggered := True, ti_settled_amount := settled\<rparr>) s
     in Ok (ih_publish (LiquidationFallbackEvent plan_id unrecoverable (pl_total_amount plan)) s))))))"

definition get_inheritance_trigger :: "'w ih_state \<Rightarrow> nat \<Rightarrow> inheritance_trigger_info option" where
  "get_inheritance_trigger s plan_id = get_trigger_info s plan_id"

definition get_claimable_amount :: "nat \<Rightarrow> 'w ih_state \<Rightarrow> nat ih_result" where
  "get_claimable_amount plan_id s =
     and_then (the_plan s plan_id) (\<lambda>plan.
     Ok (saturating_sub (pl_total_amount plan) (pl_total_loaned plan)))"

lemmas trigger_access [ih_access] =
  get_trigger_info_def set_trigger_info_def get_trigger_config_def save_trigger_config_def

end
