(* ===== verification/Inherit_Emergency.thy ===== *)
theory Inherit_Emergency
  imports Inherit_Triggers
begin

text \<open>
  Emergency access of a plan (\<open>src/contracts/inheritance-contract/src/lib.rs\<close>): guardians and
  their quorum, emergency contacts, and the access itself, granted by the owner or by enough
  guardians, revoked by the owner or by time.
\<close>

section \<open>Granting and revoking access\<close>

definition activate_emergency_access ::
  "ctx \<Rightarrow> address \<Rightarrow> nat \<Rightarrow> address \<Rightarrow> 'w ih_state \<Rightarrow> 'w ih_state ih_result" where
  "activate_emergency_access cx owner plan_id trusted_contact s =
     and_then (check_and_expire_emergency_access cx plan_id s) (\<lambda>(_, s).
     and_then (require_auth cx owner) (\<lambda>_.
     and_then (owned_plan owner plan_id s) (\<lambda>_.
     and_then (ensure (ih_emergency s plan_id = None) EmergencyAccessAlreadyActive) (\<lambda>_.
     let now = timestamp cx;
         s = s\<lparr>ih_emergency := (ih_emergency s)(plan_id \<mapsto>
           \<lparr>em_plan_id = plan_id, em_trusted_contact = trusted_contact, em_activated_at = now\<rparr>)\<rparr>
     in Ok (ih_publish (EmergencyAccessActivatedEvent plan_id trusted_contact now) s)))))"

definition deactivate_emergency_access :: "ctx \<Rightarrow> address \<Rightarrow> nat \<Rightarrow> 'w ih_state \<Rightarrow> 'w ih_state ih_result" where
  "deactivate_emergency_access cx owner plan_id s =
     and_then (require_auth cx owner) (\<lambda>_.
     and_then (owned_plan owner plan_id s) (\<lambda>_.
     Ok (if ih_emergency s plan_id \<noteq> None
         then ih_publish (EmergencyAccessRevocationEvent plan_id (timestamp cx))
                (s\<lparr>ih_emergency := (ih_emergency s)(plan_id := None)\<rparr>)
         else s)))"

section \<open>Guardians\<close>

definition set_guardians ::
  "ctx \<Rightarrow> address \<Rightarrow> nat \<Rightarrow> address list \<Rightarrow> nat \<Rightarrow> 'w ih_state \<Rightarrow> 'w ih_state ih_result" where
  "set_guardians cx owner plan_id guardians threshold s =
     and_then (require_auth cx owner) (\<lambda>_.
     and_then (owned_plan owner plan_id s) (\<lambda>_.
     and_then (ensure (\<not> (threshold = 0 \<or> length guardians < threshold)) InvalidGuardianThreshold) (\<lambda>_.
     let s = s\<lparr>ih_guardians := (ih_guardians s)(plan_id \<mapsto>
           \<lparr>g_guardians = guardians, g_threshold = threshold\<rparr>)\<rparr>
     in Ok (fold (\<lambda>g. assign_role g RoleGuardian) guardians s))))"

text \<open>
  One signer of the recovery: strangers and repeated signers are passed over, a registered guardian
  not yet counted must have authorized the call.
\<close>

definition collect_guardian ::
  "ctx \<Rightarrow> guardian_config \<Rightarrow> address \<Rightarrow> address list \<Rightarrow> address list ih_result" where
  "collect_guardian cx config signer approved =
     (if signer \<notin> set (g_guardians config) then Ok approved
      else if signer \<in> set approved then Ok approved
      else and_then (require_auth cx signer) (\<lambda>_. Ok (approved @ [signer])))"

definition guardian_emergency_trigger ::
  "ctx \<Rightarrow> nat \<Rightarrow> address list \<Rightarrow> 'w ih_state \<Rightarrow> 'w ih_state ih_result" where
  "guardian_emergency_trigger cx plan_id signers s =
     and_then (check_not_paused s) (\<lambda>_.
     and_then (enter_guard s) (\<lambda>s.
     and_then (ok_or (ih_guardians s plan_id) GuardianNotFound) (\<lambda>config.
     and_then (fold_outcome (collect_guardian cx config) signers []) (\<lambda>approved.
     and_then (ensure (\<not> length approved < g_threshold config) Unauthorized) (\<lambda>_.
     and_then (the_plan s plan_id) (\<lambda>plan.
     and_then (ensure (pl_is_active plan) PlanNotActive) (\<lambda>_.
     and_then (ensure (\<not> (ih_freeze s plan_id \<noteq> None \<or> ih_legal_hold s plan_id \<noteq> None)) PlanNotActive) (\<lambda>_.
     and_then (ensure (get_trigger_info s plan_id = None) InheritanceAlreadyTriggered) (\<lambda>_.
     let s = start_inheritance cx plan_id plan s;
         s = publish_trigger cx plan_id plan s
     in Ok (exit_guard s))))))))))"

definition approve_emergency_access ::
  "ctx \<Rightarrow> address \<Rightarrow> nat \<Rightarrow> address \<Rightarrow> 'w ih_state \<Rightarrow> 'w ih_state ih_result" where
  "approve_emergency_access cx guardian plan_id trusted_contact s =
     and_then (check_and_expire_emergency_access cx plan_id s) (\<lambda>(_, s).
     and_then (require_auth cx guardian) (\<lambda>_.
     and_then (require_role s guardian RoleGuardian Unauthorized) (\<lambda>_.
     and_then (the_plan s plan_id) (\<lambda>_.
     and_then (ensure (ih_emergency s plan_id = None) EmergencyAccessAlreadyActive) (\<lambda>_.
     and_then (ok_or (ih_guardians s plan_id) GuardianNotFound) (\<lambda>config.
     and_then (ensure (guardian \<in> set (g_guardians config)) Unauthorized) (\<lambda>_.
     let approvals = unwrap_or [] (ih_approvals s (plan_id, trusted_contact)) in
     and_then (ensure (guardian \<notin> set approvals) AlreadyApproved) (\<lambda>_.
     let approvals = approvals @ [guardian];
         s = s\<lparr>ih_approvals := (ih_approvals s)((plan_id, trusted_contact) \<mapsto> approvals)\<rparr>;
         s = ih_publish (EmergencyAccessApprovedEvent plan_id trusted_contact guardian (length approvals)) s
     in if length approvals \<ge> g_threshold config
        then let now = timestamp cx;
                 s = s\<lparr>ih_emergency := (ih_emergency s)(plan_id \<mapsto>
                   \<lparr>em_plan_id = plan_id, em_trusted_contact = trusted_contact, em_activated_at = now\<rparr>)\<rparr>
             in Ok (ih_publish (EmergencyAccessActivatedEvent plan_id trusted_contact now) s)
        else Ok s))))))))"

section \<open>Emergency contacts\<close>

definition get_emergency_contacts :: "'w ih_state \<Rightarrow> nat \<Rightarrow> address list" where
  "get_emergency_contacts s plan_id = unwrap_or [] (ih_contacts s plan_id)"

definition add_emergency_contact ::
  "ctx \<Rightarrow> address \<Rightarrow> nat \<Rightarrow> address \<Rightarrow> 'w ih_state \<Rightarrow> 'w ih_state ih_result" where
  "add_emergency_contact cx owner plan_id contact s =
     and_then (require_auth cx owner) (\<lambda>_.
     and_then (owned_plan owner plan_id s) (\<lambda>_.
     let contacts = get_emergency_contacts s plan_id in
     and_then (ensure (contact \<notin> set contacts) EmergencyContactAlreadyExists) (\<lambda>_.
     and_then (ensure (\<not> length contacts \<ge> 10) TooManyEmergencyContacts) (\<lambda>_.
     let s = s\<lparr>ih_contacts := (ih_contacts s)(plan_id \<mapsto> contacts @ [contact])\<rparr>
     in Ok (ih_publish (EmergencyContactAddedEvent plan_id contact) s)))))"

text \<open>The position of the first element that is the contact, if any.\<close>

fun first_index :: "'a \<Rightarrow> 'a list \<Rightarrow> nat option" where
  "first_index x [] = None"
| "first_index x (y # ys) = (if y = x then Some 0 else map_option Suc (first_index x ys))"

definition remove_emergency_contact ::
  "ctx \<Rightarrow> address \<Rightarrow> nat \<Rightarrow> address \<Rightarrow> 'w ih_state \<Rightarrow> 'w ih_state ih_result" where
  "remove_emergency_contact cx owner plan_id contact s =
     and_then (require_auth cx owner) (\<lambda>_.
     and_then (owned_plan owner plan_id s) (\<lambda>_.
     let contacts = get_emergency_contacts s plan_id in
     and_then (ok_or (first_index contact contacts) EmergencyContactNotFound) (\<lambda>index.
     let s = s\<lparr>ih_contacts := (ih_contacts s)(plan_id \<mapsto> swap_remove index contacts)\<rparr>
     in Ok (ih_publish (EmergencyContactRemovedEvent plan_id contact) s))))"

end
