(* ===== verification/Inherit_Plans.thy ===== *)
theory Inherit_Plans
  imports Inherit_Store
begin

text \<open>
  The life of a plan (\<open>src/contracts/inheritance-contract/src/lib.rs\<close>): validation, creation with
  its fee and vault, changes of beneficiaries and their shares, deposits and withdrawals, the batch
  operations on beneficiaries, deactivation and transfer of ownership.
\<close>

section \<open>Beneficiaries\<close>

text \<open>
  The salt is drawn and stored before the claim code is checked, so an invalid code leaves it behind
  in a caller that goes on. The result is therefore a value, beside the new state.
\<close>

definition create_beneficiary ::
  "'w ih_externals \<Rightarrow> nat \<Rightarrow> nat \<Rightarrow> string \<Rightarrow> string \<Rightarrow> nat \<Rightarrow> nat list \<Rightarrow> nat \<Rightarrow> nat \<Rightarrow> 'w ih_state \<Rightarrow>
   ((inheritance_error + beneficiary) \<times> 'w ih_state) ih_result" where
  "create_beneficiary X plan_id beneficiary_index full_name email claim_code bank_account allocation_bp prio s =
     (if full_name = [] \<or> email = [] \<or> bank_account = [] then Ok (Inl InvalidBeneficiaryData, s)
      else if allocation_bp = 0 then Ok (Inl InvalidAllocation, s)
      else let (salt, s) = generate_claim_salt X s;
               s = s\<lparr>ih_salt := (ih_salt s)((plan_id, beneficiary_index) \<mapsto> salt)\<rparr>
           in case hash_claim_code_with_salt X claim_code salt of
                Err e \<Rightarrow> Ok (Inl e, s)
              | Panic \<Rightarrow> Panic
              | Ok hashed_claim_code \<Rightarrow>
                  and_then (hash_string X full_name) (\<lambda>name_hash.
                  and_then (hash_string X email) (\<lambda>email_hash.
                  Ok (Inr \<lparr>b_hashed_full_name = name_hash, b_hashed_email = email_hash,
                        b_hashed_claim_code = hashed_claim_code, b_bank_account = bank_account,
                        b_allocation_bp = allocation_bp, b_priority = prio, b_is_claimed = False\<rparr>, s))))"

text \<open>The same under the \<open>?\<close> operator.\<close>

definition create_beneficiary_or_fail ::
  "'w ih_externals \<Rightarrow> nat \<Rightarrow> nat \<Rightarrow> string \<Rightarrow> string \<Rightarrow> nat \<Rightarrow> nat list \<Rightarrow> nat \<Rightarrow> nat \<Rightarrow> 'w ih_state \<Rightarrow>
   (beneficiary \<times> 'w ih_state) ih_result" where
  "create_beneficiary_or_fail X plan_id beneficiary_index full_name email claim_code bank_account allocation_bp prio s =
     and_then (create_beneficiary X plan_id beneficiary_index full_name email claim_code bank_account
       allocation_bp prio s) (\<lambda>(r, s).
     case r of Inl e \<Rightarrow> Err e | Inr b \<Rightarrow> Ok (b, s))"

definition validate_plan_inputs :: "string \<Rightarrow> string \<Rightarrow> string \<Rightarrow> nat \<Rightarrow> unit ih_result" where
  "validate_plan_inputs plan_name description asset_type total_amount =
     and_then (ensure (plan_name \<noteq> []) MissingRequiredField) (\<lambda>_.
     and_then (ensure (\<not> length description > 500) DescriptionTooLong) (\<lambda>_.
     and_then (ensure (asset_type = ''USDC'') InvalidAssetType) (\<lambda>_.
     ensure (total_amount \<noteq> 0) InvalidTotalAmount)))"

text \<open>One pass of the validation loop over total, priorities and emails seen so far.\<close>

fun validate_one ::
  "beneficiary_data \<Rightarrow> nat \<times> nat list \<times> string list \<Rightarrow> (nat \<times> nat list \<times> string list) ih_result" where
  "validate_one (name, email, claim_code, bank_account, bp, prio) (total_allocation, priorities, emails) =
     and_then (ensure (name \<noteq> []) InvalidBeneficiaryData) (\<lambda>_.
     and_then (ensure (email \<notin> set emails) InvalidBeneficiaryData) (\<lambda>_.
     and_then (ok_or (checked_add_u32 total_allocation bp) AllocationPercentageMismatch) (\<lambda>total_allocation.
     and_then (ensure (prio \<noteq> 0) InvalidBeneficiaryData) (\<lambda>_.
     and_then (ensure (prio \<notin> set priorities) InvalidBeneficiaryData) (\<lambda>_.
     Ok (total_allocation, priorities @ [prio], emails @ [email]))))))"

definition validate_beneficiaries :: "beneficiary_data list \<Rightarrow> unit ih_result" where
  "validate_beneficiaries beneficiaries_data =
     and_then (ensure (\<not> length beneficiaries_data > 10) TooManyBeneficiaries) (\<lambda>_.
     and_then (ensure (beneficiaries_data \<noteq> []) MissingRequiredField) (\<lambda>_.
     and_then (fold_outcome validate_one beneficiaries_data (0, [], [])) (\<lambda>(total_allocation, _, _).
     ensure (total_allocation = 10000) AllocationPercentageMismatch)))"

text \<open>
  The loop that turns the data into beneficiaries, with the sum of their basis points. The index of
  a beneficiary is its position.
\<close>

fun create_one ::
  "'w ih_externals \<Rightarrow> nat \<Rightarrow> beneficiary_data \<Rightarrow> beneficiary list \<times> nat \<times> 'w ih_state \<Rightarrow>
   (beneficiary list \<times> nat \<times> 'w ih_state) ih_result" where
  "create_one X plan_id (name, email, claim_code, bank_account, bp, prio) (beneficiaries, total_allocation_bp, s) =
     and_then (create_beneficiary_or_fail X plan_id (length beneficiaries) name email claim_code bank_account bp prio s)
       (\<lambda>(beneficiary, s).
     and_then (u32_add total_allocation_bp bp) (\<lambda>total_allocation_bp.
     Ok (beneficiaries @ [beneficiary], total_allocation_bp, s)))"

definition create_beneficiaries ::
  "'w ih_externals \<Rightarrow> nat \<Rightarrow> beneficiary_data list \<Rightarrow> 'w ih_state \<Rightarrow>
   (beneficiary list \<times> nat \<times> 'w ih_state) ih_result" where
  "create_beneficiaries X plan_id beneficiaries_data s =
     fold_outcome (create_one X plan_id) beneficiaries_data ([], 0, s)"

definition add_beneficiary ::
  "'w ih_externals \<Rightarrow> ctx \<Rightarrow> address \<Rightarrow> nat \<Rightarrow> beneficiary_input \<Rightarrow> 'w ih_state \<Rightarrow> 'w ih_state ih_result" where
  "add_beneficiary X cx owner plan_id input s =
     and_then (require_auth cx owner) (\<lambda>_.
     and_then (ih_require_not_blacklisted s owner) (\<lambda>_.
     and_then (check_not_paused s) (\<lambda>_.
     and_then (enter_guard s) (\<lambda>s.
     and_then (owned_plan owner plan_id s) (\<lambda>plan.
     and_then (ensure (\<not> length (pl_beneficiaries plan) \<ge> 10) TooManyBeneficiaries) (\<lambda>_.
     and_then (ensure (bi_allocation_bp input \<noteq> 0) InvalidAllocation) (\<lambda>_.
     and_then (u32_add (pl_total_allocation_bp plan) (bi_allocation_bp input)) (\<lambda>new_total.
     and_then (ensure (\<not> new_total > 10000) AllocationPercentageMismatch) (\<lambda>_.
     and_then (create_beneficiary_or_fail X plan_id (length (pl_beneficiaries plan)) (bi_name input)
       (bi_email input) (bi_claim_code input) (bi_bank_account input) (bi_allocation_bp input)
       (bi_priority input) s) (\<lambda>(beneficiary, s).
     let plan = plan\<lparr>pl_beneficiaries := pl_beneficiaries plan @ [beneficiary],
                     pl_total_allocation_bp := new_total\<rparr>;
         s = store_plan plan_id plan s;
         s = ih_publish (BeneficiaryAddedEvent plan_id (b_hashed_email beneficiary) (bi_allocation_bp input)) s
     in Ok (exit_guard s)))))))))))"

definition remove_beneficiary ::
  "ctx \<Rightarrow> address \<Rightarrow> nat \<Rightarrow> nat \<Rightarrow> 'w ih_state \<Rightarrow> 'w ih_state ih_result" where
  "remove_beneficiary cx owner plan_id index s =
     and_then (require_auth cx owner) (\<lambda>_.
     and_then (check_not_paused s) (\<lambda>_.
     and_then (enter_guard s) (\<lambda>s.
     and_then (owned_plan owner plan_id s) (\<lambda>plan.
     and_then (ensure (\<not> index \<ge> length (pl_beneficiaries plan)) InvalidBeneficiaryIndex) (\<lambda>_.
     let removed_allocation = b_allocation_bp (pl_beneficiaries plan ! index);
         plan = plan\<lparr>pl_beneficiaries := swap_remove index (pl_beneficiaries plan)\<rparr> in
     and_then (u32_sub (pl_total_allocation_bp plan) removed_allocation) (\<lambda>tot.
     let s = store_plan plan_id (plan\<lparr>pl_total_allocation_bp := tot\<rparr>) s;
         s = ih_publish (BeneficiaryRemovedEvent plan_id index removed_allocation) s
     in Ok (exit_guard s)))))))"

section \<open>Creation\<close>

definition creation_fee :: "nat \<Rightarrow> nat" where
  "creation_fee total_amount =
     unwrap_or 0 (Option.bind (checked_mul_u64 total_amount CREATION_FEE_BP) (\<lambda>v. checked_div v 10000))"

text \<open>
  The fee is transferred to the admin with the outcome ignored: when the transfer fails the fee is
  not paid and the creation goes on.
\<close>

definition pay_creation_fee ::
  "'w ih_externals \<Rightarrow> address \<Rightarrow> address \<Rightarrow> address \<Rightarrow> nat \<Rightarrow> 'w ih_state \<Rightarrow> 'w ih_state" where
  "pay_creation_fee X token owner admin fee s =
     (if int fee > 0
      then s\<lparr>ih_world := unwrap_or (ih_world s) (tok_transfer X token owner admin (int fee) (ih_world s))\<rparr>
      else s)"

definition assign_role_all :: "address list \<Rightarrow> role \<Rightarrow> 'w ih_state \<Rightarrow> 'w ih_state" where
  "assign_role_all as r s = fold (\<lambda>a. assign_role a r) as s"

definition register_guardians ::
  "nat \<Rightarrow> address list \<Rightarrow> nat \<Rightarrow> 'w ih_state \<Rightarrow> 'w ih_state ih_result" where
  "register_guardians plan_id guardians guardian_threshold s =
     (if guardians = [] then Ok s
      else and_then (ensure (\<not> length guardians > 5) TooManyEmergencyContacts) (\<lambda>_.
           and_then (ensure (\<not> (guardian_threshold = 0 \<or> length guardians < guardian_threshold))
             InvalidGuardianThreshold) (\<lambda>_.
           Ok (assign_role_all guardians RoleGuardian
             (s\<lparr>ih_guardians := (ih_guardians s)(plan_id \<mapsto>
                  \<lparr>g_guardians = guardians, g_threshold = guardian_threshold\<rparr>)\<rparr>)))))"

definition create_inheritance_plan ::
  "'w ih_externals \<Rightarrow> ctx \<Rightarrow> create_plan_params \<Rightarrow> 'w ih_state \<Rightarrow> (nat \<times> 'w ih_state) ih_result" where
  "create_inheritance_plan X cx params s =
     (let owner = cp_owner params; token = cp_token params; total_amount = cp_total_amount params in
     and_then (require_auth cx owner) (\<lambda>_.
     and_then (check_not_paused s) (\<lambda>_.
     and_then (enter_guard s) (\<lambda>s.
     and_then (check_kyc_approved s owner) (\<lambda>_.
     and_then (ok_or (ih_admin s) AdminNotSet) (\<lambda>admin.
     let fee = creation_fee total_amount in
     and_then (ok_or (checked_sub total_amount fee) InvalidTotalAmount) (\<lambda>net_amount.
     and_then (ensure (net_amount \<noteq> 0) InvalidTotalAmount) (\<lambda>_.
     and_then (validate_plan_inputs (cp_plan_name params) (cp_description params) ''USDC'' total_amount) (\<lambda>_.
     and_then (unwrap (tok_balance X token owner (ih_world s))) (\<lambda>balance.
     and_then (ensure (\<not> balance < int total_amount) InsufficientBalance) (\<lambda>_.
     let s = pay_creation_fee X token owner admin fee s in
     and_then (increment_plan_id s) (\<lambda>(plan_id, s).
     and_then (deploy_plan_vault X cx plan_id owner s) (\<lambda>(vault_address, s).
     and_then (try_transfer X token owner vault_address (int net_amount) s) (\<lambda>s.
     and_then (validate_beneficiaries (cp_beneficiaries_data params)) (\<lambda>_.
     and_then (create_beneficiaries X plan_id (cp_beneficiaries_data params) s)
       (\<lambda>(beneficiaries, total_allocation_bp, s).
     let plan = \<lparr>pl_plan_name = cp_plan_name params, pl_description = cp_description params,
           pl_token = token, pl_asset_type = ''USDC'', pl_total_amount = net_amount,
           pl_distribution_method = cp_distribution_method params, pl_beneficiaries = beneficiaries,
           pl_total_allocation_bp = total_allocation_bp, pl_owner = owner, pl_created_at = timestamp cx,
           pl_is_active = True, pl_is_lendable = cp_is_lendable params, pl_total_loaned = 0,
           pl_waterfall_enabled = False, pl_grace_period = 0, pl_earn_yield = False\<rparr>;
         s = store_plan plan_id plan s;
         s = add_plan_to_user owner plan_id s;
         s = assign_role owner RoleOwner s in
     and_then (register_guardians plan_id (cp_guardians params) (cp_guardian_threshold params) s) (\<lambda>s.
     Ok (plan_id, exit_guard s))))))))))))))))))"

section \<open>Settings\<close>

definition set_lendable :: "ctx \<Rightarrow> address \<Rightarrow> nat \<Rightarrow> bool \<Rightarrow> 'w ih_state \<Rightarrow> 'w ih_state ih_result" where
  "set_lendable cx owner plan_id is_lendable s =
     and_then (require_auth cx owner) (\<lambda>_.
     and_then (owned_plan owner plan_id s) (\<lambda>plan.
     Ok (ih_publish (VaultLendableChangedEvent plan_id is_lendable)
       (store_plan plan_id (plan\<lparr>pl_is_lendable := is_lendable\<rparr>) s))))"

definition update_grace_period :: "ctx \<Rightarrow> nat \<Rightarrow> nat \<Rightarrow> 'w ih_state \<Rightarrow> 'w ih_state ih_result" where
  "update_grace_period cx plan_id new_grace_period s =
     and_then (the_plan s plan_id) (\<lambda>plan.
     and_then (require_auth cx (pl_owner plan)) (\<lambda>_.
     and_then (ensure (MIN_GRACE_PERIOD_SECONDS \<le> new_grace_period \<and> new_grace_period \<le> MAX_GRACE_PERIOD_SECONDS)
       InvalidBeneficiaryData) (\<lambda>_.
     Ok (ih_publish (GracePeriodUpdatedEvent plan_id new_grace_period)
       (store_plan plan_id (plan\<lparr>pl_grace_period := new_grace_period\<rparr>) s)))))"

definition update_plan ::
  "'w ih_externals \<Rightarrow> ctx \<Rightarrow> address \<Rightarrow> nat \<Rightarrow> beneficiary_data list \<Rightarrow> nat \<Rightarrow> bool \<Rightarrow> 'w ih_state \<Rightarrow>
   'w ih_state ih_result" where
  "update_plan X cx owner plan_id beneficiaries grace_period earn_yield s =
     and_then (require_auth cx owner) (\<lambda>_.
     and_then (check_not_paused s) (\<lambda>_.
     and_then (enter_guard s) (\<lambda>s.
     and_then (owned_plan owner plan_id s) (\<lambda>plan.
     and_then (ensure (ih_trigger s plan_id = None) InheritanceAlreadyTriggered) (\<lambda>_.
     and_then (validate_beneficiaries beneficiaries) (\<lambda>_.
     and_then (create_beneficiaries X plan_id beneficiaries s) (\<lambda>(new_beneficiaries, total_allocation_bp, s).
     let plan = plan\<lparr>pl_beneficiaries := new_beneficiaries, pl_total_allocation_bp := total_allocation_bp,
                     pl_grace_period := grace_period, pl_earn_yield := earn_yield\<rparr>
     in Ok (exit_guard (store_plan plan_id plan s)))))))))"

section \<open>Funds\<close>

definition ih_deposit ::
  "'w ih_externals \<Rightarrow> ctx \<Rightarrow> address \<Rightarrow> address \<Rightarrow> nat \<Rightarrow> nat \<Rightarrow> 'w ih_state \<Rightarrow> 'w ih_state ih_result" where
  "ih_deposit X cx caller token plan_id amount s =
     and_then (require_auth cx caller) (\<lambda>_.
     and_then (check_not_paused s) (\<lambda>_.
     and_then (enter_guard s) (\<lambda>s.
     and_then (ensure (amount \<noteq> 0) InvalidTotalAmount) (\<lambda>_.
     and_then (owned_plan caller plan_id s) (\<lambda>plan.
     and_then (ensure (pl_token plan = token) InvalidAssetType) (\<lambda>_.
     and_then (ensure (pl_is_active plan) PlanNotActive) (\<lambda>_.
     and_then (check_not_held plan_id s) (\<lambda>_.
     and_then (unwrap (tok_balance X token caller (ih_world s))) (\<lambda>balance.
     and_then (ensure (\<not> balance < int amount) InsufficientBalance) (\<lambda>_.
     and_then (require_plan_vault s plan_id) (\<lambda>vault_address.
     and_then (try_transfer X token caller vault_address (int amount) s) (\<lambda>s.
     and_then (u64_add (pl_total_amount plan) amount) (\<lambda>tot.
     let s = store_plan plan_id (plan\<lparr>pl_total_amount := tot\<rparr>) s
     in Ok (exit_guard (ih_publish (VaultDepositEvent plan_id amount) s)))))))))))))))"

text \<open>The cap of a payment while emergency access is fresh: a tenth of the plan.\<close>

definition emergency_limit :: "inheritance_plan \<Rightarrow> nat" where
  "emergency_limit plan =
     as_u64 (unwrap_or 0 (mul_then_div (pl_total_amount plan) EMERGENCY_TRANSFER_LIMIT_BP 10000))"

definition check_emergency_limit ::
  "ctx \<Rightarrow> nat \<Rightarrow> inheritance_plan \<Rightarrow> nat \<Rightarrow> 'w ih_state \<Rightarrow> 'w ih_state ih_result" where
  "check_emergency_limit cx plan_id plan amount s =
     and_then (is_emergency_active cx plan_id s) (\<lambda>(active, s).
     and_then (ensure (\<not> (active \<and> amount > emergency_limit plan)) EmergencyCooldownActive) (\<lambda>_. Ok s))"

definition ih_withdraw ::
  "'w ih_externals \<Rightarrow> ctx \<Rightarrow> address \<Rightarrow> address \<Rightarrow> nat \<Rightarrow> nat \<Rightarrow> 'w ih_state \<Rightarrow> 'w ih_state ih_result" where
  "ih_withdraw X cx caller token plan_id amount s =
     and_then (require_auth cx caller) (\<lambda>_.
     and_then (check_not_paused s) (\<lambda>_.
     and_then (enter_guard s) (\<lambda>s.
     and_then (ensure (amount \<noteq> 0) InvalidTotalAmount) (\<lambda>_.
     and_then (owned_plan caller plan_id s) (\<lambda>plan.
     and_then (ensure (pl_token plan = token) InvalidAssetType) (\<lambda>_.
     and_then (check_not_held plan_id s) (\<lambda>_.
     and_then (check_emergency_limit cx plan_id plan amount s) (\<lambda>s.
     and_then (check_emergency_limit cx plan_id plan amount s) (\<lambda>s.
     let available = saturating_sub (pl_total_amount plan) (pl_total_loaned plan) in
     and_then (ensure (\<not> amount > available) InsufficientLiquidity) (\<lambda>_.
     and_then (release_from_plan_vault X plan_id token caller amount s) (\<lambda>s.
     and_then (u64_sub (pl_total_amount plan) amount) (\<lambda>tot.
     let s = store_plan plan_id (plan\<lparr>pl_total_amount := tot\<rparr>) s
     in Ok (exit_guard (ih_publish (VaultWithdrawEvent plan_id amount) s))))))))))))))"

section \<open>Priorities\<close>

definition set_beneficiary_priority ::
  "ctx \<Rightarrow> address \<Rightarrow> nat \<Rightarrow> nat \<Rightarrow> nat \<Rightarrow> 'w ih_state \<Rightarrow> 'w ih_state ih_result" where
  "set_beneficiary_priority cx owner plan_id beneficiary_index prio s =
     and_then (require_auth cx owner) (\<lambda>_.
     and_then (owned_plan owner plan_id s) (\<lambda>plan.
     let bs = pl_beneficiaries plan in
     and_then (ensure (\<not> beneficiary_index \<ge> length bs) InvalidBeneficiaryIndex) (\<lambda>_.
     and_then (ensure (prio \<noteq> 0) InvalidBeneficiaryData) (\<lambda>_.
     and_then (ensure (\<not> list_ex (\<lambda>i. i \<noteq> beneficiary_index \<and> b_priority (bs ! i) = prio) [0..<length bs])
       InvalidBeneficiaryData) (\<lambda>_.
     let bs = bs[beneficiary_index := (bs ! beneficiary_index)\<lparr>b_priority := prio\<rparr>];
         s = store_plan plan_id (plan\<lparr>pl_beneficiaries := bs\<rparr>) s
     in Ok (ih_publish (PrioritySetEvent plan_id beneficiary_index prio) s))))))"

definition get_beneficiary_priority :: "nat \<Rightarrow> nat \<Rightarrow> 'w ih_state \<Rightarrow> nat ih_result" where
  "get_beneficiary_priority plan_id beneficiary_index s =
     and_then (the_plan s plan_id) (\<lambda>plan.
     and_then (ensure (\<not> beneficiary_index \<ge> length (pl_beneficiaries plan)) InvalidBeneficiaryIndex) (\<lambda>_.
     Ok (b_priority (pl_beneficiaries plan ! beneficiary_index))))"

definition enable_waterfall_distribution :: "ctx \<Rightarrow> address \<Rightarrow> nat \<Rightarrow> 'w ih_state \<Rightarrow> 'w ih_state ih_result" where
  "enable_waterfall_distribution cx owner plan_id s =
     and_then (require_auth cx owner) (\<lambda>_.
     and_then (owned_plan owner plan_id s) (\<lambda>plan.
     Ok (ih_publish (WaterfallEnabledEvent plan_id (timestamp cx))
       (store_plan plan_id (plan\<lparr>pl_waterfall_enabled := True\<rparr>) s))))"

section \<open>Deactivation and ownership\<close>

definition deactivate_inheritance_plan :: "ctx \<Rightarrow> address \<Rightarrow> nat \<Rightarrow> 'w ih_state \<Rightarrow> 'w ih_state ih_result" where
  "deactivate_inheritance_plan cx owner plan_id s =
     and_then (check_not_paused s) (\<lambda>_.
     and_then (enter_guard s) (\<lambda>s.
     and_then (require_auth cx owner) (\<lambda>_.
     and_then (owned_plan owner plan_id s) (\<lambda>plan.
     and_then (ensure (pl_is_active plan) PlanAlreadyDeactivated) (\<lambda>_.
     let plan = plan\<lparr>pl_is_active := False\<rparr>;
         s = store_plan plan_id plan s;
         s = add_plan_to_deactivated plan_id s;
         s = ih_publish (PlanDeactivatedEvent plan_id owner (pl_total_amount plan) (timestamp cx)) s
     in Ok (exit_guard s))))))"

definition transfer_plan_ownership ::
  "ctx \<Rightarrow> address \<Rightarrow> address \<Rightarrow> nat \<Rightarrow> 'w ih_state \<Rightarrow> 'w ih_state ih_result" where
  "transfer_plan_ownership cx owner new_owner plan_id s =
     and_then (require_auth cx owner) (\<lambda>_.
     and_then (owned_plan owner plan_id s) (\<lambda>plan.
     and_then (ensure (ih_trigger s plan_id = None) PlanNotActive) (\<lambda>_.
     and_then (check_not_held plan_id s) (\<lambda>_.
     let s = remove_plan_from_user owner plan_id s;
         s = add_plan_to_user new_owner plan_id s;
         s = store_plan plan_id (plan\<lparr>pl_owner := new_owner\<rparr>) s
     in Ok (ih_publish (PlanOwnershipTransferredEvent plan_id (pl_owner plan) new_owner (timestamp cx)) s)))))"

section \<open>Batches\<close>

text \<open>One entry of the batch: added to the plan, or counted as a failure.\<close>

definition batch_add_one ::
  "'w ih_externals \<Rightarrow> nat \<Rightarrow> beneficiary_input \<Rightarrow> inheritance_plan \<times> nat \<times> nat \<times> 'w ih_state \<Rightarrow>
   (inheritance_plan \<times> nat \<times> nat \<times> 'w ih_state) ih_result" where
  "batch_add_one X plan_id input = (\<lambda>(plan, success, fail, s).
     if length (pl_beneficiaries plan) \<ge> 10
     then and_then (u32_add fail 1) (\<lambda>fail. Ok (plan, success, fail, s))
     else if bi_allocation_bp input = 0
     then and_then (u32_add fail 1) (\<lambda>fail. Ok (plan, success, fail, s))
     else and_then (u32_add (pl_total_allocation_bp plan) (bi_allocation_bp input)) (\<lambda>new_total.
     if new_total > 10000
     then and_then (u32_add fail 1) (\<lambda>fail. Ok (plan, success, fail, s))
     else and_then (create_beneficiary X plan_id (length (pl_beneficiaries plan)) (bi_name input)
            (bi_email input) (bi_claim_code input) (bi_bank_account input) (bi_allocation_bp input)
            (bi_priority input) s) (\<lambda>(r, s).
       case r of
         Inr beneficiary \<Rightarrow>
           and_then (u32_add success 1) (\<lambda>success.
           Ok (plan\<lparr>pl_total_allocation_bp := new_total,
                    pl_beneficiaries := pl_beneficiaries plan @ [beneficiary]\<rparr>, success, fail, s))
       | Inl _ \<Rightarrow> and_then (u32_add fail 1) (\<lambda>fail. Ok (plan, success, fail, s)))))"

definition batch_add_beneficiaries ::
  "'w ih_externals \<Rightarrow> ctx \<Rightarrow> address \<Rightarrow> nat \<Rightarrow> beneficiary_input list \<Rightarrow> 'w ih_state \<Rightarrow>
   ((nat \<times> nat) \<times> 'w ih_state) ih_result" where
  "batch_add_beneficiaries X cx owner plan_id inputs s =
     and_then (require_auth cx owner) (\<lambda>_.
     and_then (ensure (\<not> length inputs > BATCH_LIMIT) TooManyBeneficiaries) (\<lambda>_.
     and_then (owned_plan owner plan_id s) (\<lambda>plan.
     and_then (fold_outcome (batch_add_one X plan_id) inputs (plan, 0, 0, s)) (\<lambda>(plan, success, fail, s).
     Ok ((success, fail), ih_publish (BatchBeneficiariesAddedEvent plan_id success fail)
       (store_plan plan_id plan s))))))"

text \<open>
  The indices to remove: those within range, each once, in the order given; then sorted downwards by
  exchanging every pair that is out of order.
\<close>

definition distinct_in_range :: "nat \<Rightarrow> nat list \<Rightarrow> nat list" where
  "distinct_in_range n indices =
     fold (\<lambda>idx kept. if idx < n \<and> idx \<notin> set kept then kept @ [idx] else kept) indices []"

definition exchange_if_less :: "nat \<Rightarrow> nat \<Rightarrow> nat list \<Rightarrow> nat list" where
  "exchange_if_less i j xs = (if xs ! i < xs ! j then xs[i := xs ! j, j := xs ! i] else xs)"

definition sort_descending :: "nat list \<Rightarrow> nat list" where
  "sort_descending xs =
     (let n = length xs
      in fold (\<lambda>i xs. fold (\<lambda>j xs. exchange_if_less i j xs) [i + 1..<n] xs) [0..<n] xs)"

definition batch_remove_one :: "nat \<Rightarrow> inheritance_plan \<times> nat \<Rightarrow> (inheritance_plan \<times> nat) ih_result" where
  "batch_remove_one idx = (\<lambda>(plan, success).
     if idx \<ge> length (pl_beneficiaries plan) then Ok (plan, success)
     else let removed = pl_beneficiaries plan ! idx;
              plan = plan\<lparr>pl_total_allocation_bp :=
                saturating_sub (pl_total_allocation_bp plan) (b_allocation_bp removed)\<rparr>;
              plan = plan\<lparr>pl_beneficiaries := swap_remove idx (pl_beneficiaries plan)\<rparr>
          in and_then (u32_add success 1) (\<lambda>success. Ok (plan, success)))"

definition batch_remove_beneficiaries ::
  "ctx \<Rightarrow> address \<Rightarrow> nat \<Rightarrow> nat list \<Rightarrow> 'w ih_state \<Rightarrow> ((nat \<times> nat) \<times> 'w ih_state) ih_result" where
  "batch_remove_beneficiaries cx owner plan_id indices s =
     and_then (require_auth cx owner) (\<lambda>_.
     and_then (ensure (\<not> length indices > BATCH_LIMIT) TooManyBeneficiaries) (\<lambda>_.
     and_then (owned_plan owner plan_id s) (\<lambda>plan.
     let sorted = sort_descending (distinct_in_range (length (pl_beneficiaries plan)) indices);
         fail = saturating_sub (length indices) (length sorted) in
     and_then (fold_outcome batch_remove_one sorted (plan, 0)) (\<lambda>(plan, success).
     Ok ((success, fail), ih_publish (BatchBeneficiariesRemovedEvent plan_id success fail)
       (store_plan plan_id plan s))))))"

definition sum_u32 :: "nat list \<Rightarrow> nat ih_result" where
  "sum_u32 xs = fold_outcome (\<lambda>x acc. u32_add acc x) xs 0"

definition batch_update_allocations ::
  "ctx \<Rightarrow> address \<Rightarrow> nat \<Rightarrow> nat list \<Rightarrow> 'w ih_state \<Rightarrow> 'w ih_state ih_result" where
  "batch_update_allocations cx owner plan_id new_allocations s =
     and_then (require_auth cx owner) (\<lambda>_.
     and_then (ensure (\<not> length new_allocations > BATCH_LIMIT) TooManyBeneficiaries) (\<lambda>_.
     and_then (owned_plan owner plan_id s) (\<lambda>plan.
     and_then (ensure (length new_allocations = length (pl_beneficiaries plan)) InvalidBeneficiaryData) (\<lambda>_.
     and_then (ensure (0 \<notin> set new_allocations) InvalidAllocation) (\<lambda>_.
     and_then (sum_u32 new_allocations) (\<lambda>total.
     and_then (ensure (total = 10000) AllocationPercentageMismatch) (\<lambda>_.
     let plan = plan\<lparr>pl_beneficiaries :=
           map2 (\<lambda>b bp. b\<lparr>b_allocation_bp := bp\<rparr>) (pl_beneficiaries plan) new_allocations,
           pl_total_allocation_bp := 10000\<rparr>;
         s = store_plan plan_id plan s
     in Ok (ih_publish (BatchAllocationsUpdatedEvent plan_id (length (pl_beneficiaries plan))) s))))))))"

end
