(* ===== verification/Inherit_Claims.thy ===== *)
theory Inherit_Claims
  imports Inherit_Plans Inherit_Triggers
begin

text \<open>
  Claims on a plan (\<open>src/contracts/inheritance-contract/src/lib.rs\<close>): identity approval, the
  payout of a beneficiary under the waterfall order, a single claim, and the batch of claims.
\<close>

section \<open>Identity approval\<close>

definition empty_kyc :: kyc_status where
  "empty_kyc = \<lparr>k_submitted = False, k_approved = False, k_rejected = False, k_submitted_at = 0,
     k_approved_at = 0, k_rejected_at = 0\<rparr>"

definition set_kyc :: "address \<Rightarrow> kyc_status \<Rightarrow> 'w ih_state \<Rightarrow> 'w ih_state" where
  "set_kyc user status s = s\<lparr>ih_kyc := (ih_kyc s)(user \<mapsto> status)\<rparr>"

definition submit_kyc :: "ctx \<Rightarrow> address \<Rightarrow> 'w ih_state \<Rightarrow> 'w ih_state ih_result" where
  "submit_kyc cx user s =
     and_then (require_auth cx user) (\<lambda>_.
     and_then (ih_require_not_blacklisted s user) (\<lambda>_.
     let status = unwrap_or empty_kyc (ih_kyc s user) in
     and_then (ensure (\<not> k_approved status) AlreadyApproved) (\<lambda>_.
     Ok (set_kyc user (status\<lparr>k_submitted := True, k_submitted_at := timestamp cx\<rparr>) s))))"

definition approve_kyc :: "ctx \<Rightarrow> address \<Rightarrow> address \<Rightarrow> 'w ih_state \<Rightarrow> 'w ih_state ih_result" where
  "approve_kyc cx admin user s =
     and_then (ih_require_admin cx admin s) (\<lambda>_.
     and_then (ih_require_not_blacklisted s user) (\<lambda>_.
     and_then (ok_or (ih_kyc s user) KycNotSubmitted) (\<lambda>status.
     and_then (ensure (k_submitted status) KycNotSubmitted) (\<lambda>_.
     and_then (ensure (\<not> k_approved status) AlreadyApproved) (\<lambda>_.
     Ok (ih_publish (KycApprovedEvent user (timestamp cx))
       (set_kyc user (status\<lparr>k_approved := True, k_approved_at := timestamp cx\<rparr>) s)))))))"

definition reject_kyc :: "ctx \<Rightarrow> address \<Rightarrow> address \<Rightarrow> 'w ih_state \<Rightarrow> 'w ih_state ih_result" where
  "reject_kyc cx admin user s =
     and_then (ih_require_admin cx admin s) (\<lambda>_.
     and_then (ih_require_not_blacklisted s user) (\<lambda>_.
     and_then (ok_or (ih_kyc s user) KycNotSubmitted) (\<lambda>status.
     and_then (ensure (k_submitted status) KycNotSubmitted) (\<lambda>_.
     and_then (ensure (\<not> k_rejected status) KycAlreadyRejected) (\<lambda>_.
     Ok (ih_publish (KycRejectedEvent user (timestamp cx))
       (set_kyc user (status\<lparr>k_rejected := True, k_rejected_at := timestamp cx\<rparr>) s)))))))"

definition batch_approve_one ::
  "nat \<Rightarrow> address \<Rightarrow> nat \<times> nat \<times> 'w ih_state \<Rightarrow> (nat \<times> nat \<times> 'w ih_state) ih_result" where
  "batch_approve_one now user = (\<lambda>(success, fail, s).
     case ih_kyc s user of
       None \<Rightarrow> and_then (u32_add fail 1) (\<lambda>fail. Ok (success, fail, s))
     | Some status \<Rightarrow>
         if \<not> k_submitted status \<or> k_approved status
         then and_then (u32_add fail 1) (\<lambda>fail. Ok (success, fail, s))
         else let s = set_kyc user (status\<lparr>k_approved := True, k_approved_at := now\<rparr>) s;
                  s = ih_publish (KycApprovedEvent user now) s
              in and_then (u32_add success 1) (\<lambda>success. Ok (success, fail, s)))"

definition batch_approve_kyc ::
  "ctx \<Rightarrow> address \<Rightarrow> address list \<Rightarrow> 'w ih_state \<Rightarrow> ((nat \<times> nat) \<times> 'w ih_state) ih_result" where
  "batch_approve_kyc cx admin users s =
     and_then (ih_require_admin cx admin s) (\<lambda>_.
     and_then (ensure (\<not> length users > BATCH_LIMIT) TooManyBeneficiaries) (\<lambda>_.
     and_then (fold_outcome (batch_approve_one (timestamp cx)) users (0, 0, s)) (\<lambda>(success, fail, s).
     Ok ((success, fail), ih_publish (BatchKycApprovedEvent success fail) s))))"

section \<open>The payout\<close>

text \<open>Someone strictly ahead in the waterfall who has not claimed yet.\<close>

definition blocked_by_priority :: "beneficiary list \<Rightarrow> beneficiary \<Rightarrow> bool" where
  "blocked_by_priority bs this =
     list_ex (\<lambda>b. b_priority b \<noteq> 0 \<and> b_priority b < b_priority this \<and> \<not> b_is_claimed b) bs"

definition entitlement :: "inheritance_plan \<Rightarrow> beneficiary \<Rightarrow> nat" where
  "entitlement plan b = as_u64 (unwrap_or 0 (mul_then_div (pl_total_amount plan) (b_allocation_bp b) 10000))"

definition calculate_waterfall_payout :: "inheritance_plan \<Rightarrow> nat \<Rightarrow> nat" where
  "calculate_waterfall_payout plan beneficiary_index =
     (let this = pl_beneficiaries plan ! beneficiary_index in
      if pl_waterfall_enabled plan \<and> blocked_by_priority (pl_beneficiaries plan) this then 0
      else min (entitlement plan this) (pl_total_amount plan))"

definition get_vesting_exit_settlement :: "'w ih_state \<Rightarrow> nat \<Rightarrow> nat \<Rightarrow> nat" where
  "get_vesting_exit_settlement s plan_id beneficiary_index =
     unwrap_or 0 (ih_exit_settlement s (plan_id, beneficiary_index))"

definition has_active_vesting_schedule :: "nat \<Rightarrow> nat \<Rightarrow> bool" where
  "has_active_vesting_schedule plan_id beneficiary_index = False"

definition get_claimable_by_priority :: "nat \<Rightarrow> nat \<Rightarrow> 'w ih_state \<Rightarrow> nat ih_result" where
  "get_claimable_by_priority plan_id beneficiary_index s =
     and_then (the_plan s plan_id) (\<lambda>plan.
     and_then (ensure (\<not> beneficiary_index \<ge> length (pl_beneficiaries plan)) InvalidBeneficiaryIndex) (\<lambda>_.
     Ok (calculate_waterfall_payout plan beneficiary_index)))"

definition is_claim_time_valid :: "ctx \<Rightarrow> inheritance_plan \<Rightarrow> bool ih_result" where
  "is_claim_time_valid cx plan =
     and_then (u64_sub (timestamp cx) (pl_created_at plan)) (\<lambda>elapsed.
     Ok (case pl_distribution_method plan of
           LumpSum \<Rightarrow> True
         | Monthly \<Rightarrow> elapsed \<ge> 30 * 24 * 60 * 60
         | Quarterly \<Rightarrow> elapsed \<ge> 90 * 24 * 60 * 60
         | Yearly \<Rightarrow> elapsed \<ge> 365 * 24 * 60 * 60))"

text \<open>\<open>!triggered && !is_claim_time_valid(..)\<close> reads the clock only for a plan not triggered.\<close>

definition check_claim_time :: "ctx \<Rightarrow> inheritance_plan \<Rightarrow> bool \<Rightarrow> unit ih_result" where
  "check_claim_time cx plan triggered =
     (if triggered then Ok ()
      else and_then (is_claim_time_valid cx plan) (\<lambda>valid. ensure valid ClaimNotAllowedYet))"

section \<open>A claim\<close>

definition claim_key :: "'w ih_externals \<Rightarrow> nat \<Rightarrow> bytes32 \<Rightarrow> bytes32" where
  "claim_key X plan_id hashed_email = host_sha256 X (be_bytes plan_id @ hashed_email)"

text \<open>The search for the beneficiary, by email and then by the claim code under the stored salt.\<close>

fun find_beneficiary ::
  "'w ih_externals \<Rightarrow> 'w ih_state \<Rightarrow> nat \<Rightarrow> bytes32 \<Rightarrow> nat \<Rightarrow> nat \<Rightarrow> beneficiary list \<Rightarrow> nat option ih_result" where
  "find_beneficiary X s plan_id hashed_email claim_code i [] = Ok None"
| "find_beneficiary X s plan_id hashed_email claim_code i (b # bs) =
     (if b_hashed_email b \<noteq> hashed_email
      then find_beneficiary X s plan_id hashed_email claim_code (i + 1) bs
      else let salt = unwrap_or zero_salt (ih_salt s (plan_id, i)) in
           and_then (hash_claim_code_with_salt X claim_code salt) (\<lambda>hashed_claim_code.
           if b_hashed_claim_code b = hashed_claim_code then Ok (Some i)
           else find_beneficiary X s plan_id hashed_email claim_code (i + 1) bs))"

text \<open>The books of a claim that has been paid, on the plan as it was read at the start.\<close>

definition finish_claim ::
  "ctx \<Rightarrow> nat \<Rightarrow> inheritance_plan \<Rightarrow> nat \<Rightarrow> nat \<Rightarrow> nat \<Rightarrow> bytes32 \<Rightarrow> 'w ih_state \<Rightarrow> 'w ih_state" where
  "finish_claim cx plan_id plan index payout exit_settlement key s =
     (let exit_remaining_after = saturating_sub exit_settlement payout;
          exit_finalized = (exit_settlement = 0 \<or> exit_remaining_after = 0);
          b = pl_beneficiaries plan ! index;
          b = (if exit_finalized then b\<lparr>b_is_claimed := True\<rparr> else b);
          updated_plan = plan\<lparr>pl_beneficiaries := (pl_beneficiaries plan)[index := b]\<rparr>;
          updated_plan = updated_plan\<lparr>pl_total_amount := saturating_sub (pl_total_amount updated_plan) payout\<rparr>;
          s = store_plan plan_id updated_plan s;
          s = (if exit_settlement > 0
               then s\<lparr>ih_exit_settlement := (ih_exit_settlement s)((plan_id, index) :=
                      (if exit_remaining_after = 0 then None else Some exit_remaining_after))\<rparr>
               else s)
      in if exit_finalized
         then let claim = \<lparr>cr_plan_id = plan_id, cr_beneficiary_index = index, cr_claimed_at = timestamp cx\<rparr>;
                  s = s\<lparr>ih_claim := (ih_claim s)(key \<mapsto> claim)\<rparr>
              in add_plan_to_claimed (pl_owner plan) plan_id s
         else s)"

definition claim_events ::
  "nat \<Rightarrow> inheritance_plan \<Rightarrow> nat \<Rightarrow> bytes32 \<Rightarrow> nat \<Rightarrow> 'w ih_state \<Rightarrow> 'w ih_state" where
  "claim_events plan_id plan index hashed_email payout s =
     (let s = ih_publish (ClaimSuccess plan_id hashed_email payout) s
      in if b_bank_account (pl_beneficiaries plan ! index) \<noteq> []
         then ih_publish (FiatPayoutRequested plan_id index payout ''BANK'') s else s)"

definition claim_inheritance_plan ::
  "'w ih_externals \<Rightarrow> ctx \<Rightarrow> nat \<Rightarrow> address \<Rightarrow> string \<Rightarrow> nat \<Rightarrow> 'w ih_state \<Rightarrow> 'w ih_state ih_result" where
  "claim_inheritance_plan X cx plan_id claimer email claim_code s =
     and_then (require_auth cx claimer) (\<lambda>_.
     and_then (ih_require_not_blacklisted s claimer) (\<lambda>_.
     and_then (check_not_paused s) (\<lambda>_.
     and_then (guard_lock_or_panic s) (\<lambda>s.
     and_then (check_kyc_approved s claimer) (\<lambda>_.
     and_then (the_plan s plan_id) (\<lambda>plan.
     and_then (ensure (pl_is_active plan) PlanNotActive) (\<lambda>_.
     and_then (check_not_held plan_id s) (\<lambda>_.
     and_then (check_and_record_claim_attempt cx plan_id claimer s) (\<lambda>s.
     and_then (try_auto_trigger cx plan_id s) (\<lambda>s.
     let triggered = (get_trigger_info s plan_id \<noteq> None) in
     and_then (check_claim_time cx plan triggered) (\<lambda>_.
     and_then (hash_string X email) (\<lambda>hashed_email.
     let key = claim_key X plan_id hashed_email in
     and_then (ensure (ih_claim s key = None) AlreadyClaimed) (\<lambda>_.
     let bs = take MAX_BENEFICIARIES (pl_beneficiaries plan) in
     and_then (find_beneficiary X s plan_id hashed_email claim_code 0 bs) (\<lambda>found.
     and_then (ok_or found BeneficiaryNotFound) (\<lambda>index.
     and_then (ensure (\<not> unwrap_or False (ih_frozen_beneficiary s (plan_id, index))) Unauthorized) (\<lambda>_.
     and_then (ensure (\<not> has_active_vesting_schedule plan_id index) VestingScheduleActive) (\<lambda>_.
     and_then (ensure (\<not> (pl_waterfall_enabled plan \<and> blocked_by_priority bs (pl_beneficiaries plan ! index)))
       ClaimNotAllowedYet) (\<lambda>_.
     let payout = calculate_waterfall_payout plan index;
         exit_settlement = get_vesting_exit_settlement s plan_id index;
         payout = (if exit_settlement > 0 then min payout exit_settlement else payout) in
     and_then (check_emergency_limit cx plan_id plan payout s) (\<lambda>s.
     let available_liquidity = saturating_sub (pl_total_amount plan) (pl_total_loaned plan) in
     and_then (ensure (\<not> (\<not> triggered \<and> payout > available_liquidity)) InsufficientLiquidity) (\<lambda>_.
     and_then (ensure (payout \<noteq> 0) NothingToClaim) (\<lambda>_.
     and_then (release_from_plan_vault X plan_id (pl_token plan) claimer payout s) (\<lambda>s.
     let s = finish_claim cx plan_id plan index payout exit_settlement key s;
         s = assign_role claimer RoleBeneficiary s;
         s = claim_events plan_id plan index hashed_email payout s
     in Ok (guard_drop (exit_guard s))))))))))))))))))))))))"

section \<open>The batch of claims\<close>

text \<open>
  One entry of the batch. A claim code out of range stops the search and is counted as a failure,
  and the entry without a beneficiary is then counted once more.
\<close>

definition batch_claim_one ::
  "'w ih_externals \<Rightarrow> ctx \<Rightarrow> nat \<Rightarrow> address \<times> string \<times> nat \<Rightarrow> nat \<times> nat \<times> 'w ih_state \<Rightarrow>
   (nat \<times> nat \<times> 'w ih_state) ih_result" where
  "batch_claim_one X cx plan_id = (\<lambda>(claimer, email, claim_code) (success, fail, s).
     let failed = (\<lambda>s. and_then (u32_add fail 1) (\<lambda>fail. Ok (success, fail, s))) in
     and_then (require_auth cx claimer) (\<lambda>_.
     if ih_require_not_blacklisted s claimer \<noteq> Ok () then failed s
     else case check_and_record_claim_attempt cx plan_id claimer s of
       Err _ \<Rightarrow> failed s
     | Panic \<Rightarrow> Panic
     | Ok s \<Rightarrow>
     if check_kyc_approved s claimer \<noteq> Ok () then failed s
     else and_then (hash_string X email) (\<lambda>hashed_email.
     let key = claim_key X plan_id hashed_email in
     if ih_claim s key \<noteq> None then failed s
     else case get_plan s plan_id of
       None \<Rightarrow> failed s
     | Some current_plan \<Rightarrow>
     (case find_beneficiary X s plan_id hashed_email claim_code 0 (pl_beneficiaries current_plan) of
        Panic \<Rightarrow> Panic
      | Err _ \<Rightarrow> and_then (u32_add fail 1) (\<lambda>fail. and_then (u32_add fail 1) (\<lambda>fail. Ok (success, fail, s)))
      | Ok None \<Rightarrow> failed s
      | Ok (Some index) \<Rightarrow>
          let base_payout = entitlement current_plan (pl_beneficiaries current_plan ! index) in
          and_then (is_emergency_active cx plan_id s) (\<lambda>(active, s).
          if active \<and> base_payout > emergency_limit current_plan then failed s
          else let claim = \<lparr>cr_plan_id = plan_id, cr_beneficiary_index = index, cr_claimed_at = timestamp cx\<rparr>;
                   s = s\<lparr>ih_claim := (ih_claim s)(key \<mapsto> claim)\<rparr>;
                   updated = current_plan\<lparr>pl_total_amount :=
                     saturating_sub (pl_total_amount current_plan) base_payout\<rparr>;
                   s = store_plan plan_id updated s;
                   s = add_plan_to_claimed (pl_owner current_plan) plan_id s;
                   s = ih_publish (ClaimSuccess plan_id hashed_email base_payout) s
               in and_then (u32_add success 1) (\<lambda>success. Ok (success, fail, s)))))))"

definition batch_claim ::
  "'w ih_externals \<Rightarrow> ctx \<Rightarrow> nat \<Rightarrow> (address \<times> string \<times> nat) list \<Rightarrow> 'w ih_state \<Rightarrow>
   ((nat \<times> nat) \<times> 'w ih_state) ih_result" where
  "batch_claim X cx plan_id claimers s =
     and_then (check_not_paused s) (\<lambda>_.
     and_then (enter_guard s) (\<lambda>s.
     and_then (ensure (\<not> length claimers > BATCH_LIMIT) TooManyBeneficiaries) (\<lambda>_.
     and_then (the_plan s plan_id) (\<lambda>plan.
     and_then (try_auto_trigger cx plan_id s) (\<lambda>s.
     let triggered = (get_trigger_info s plan_id \<noteq> None) in
     and_then (ensure (pl_is_active plan) PlanNotActive) (\<lambda>_.
     and_then (check_not_held plan_id s) (\<lambda>_.
     and_then (check_claim_time cx plan triggered) (\<lambda>_.
     and_then (fold_outcome (batch_claim_one X cx plan_id) claimers (0, 0, s)) (\<lambda>(success, fail, s).
     let s = ih_publish (BatchClaimEvent plan_id success fail) s
     in Ok ((success, fail), exit_guard s))))))))))"

end
