(* ===== verification/Inherit_Wills.thy ===== *)
theory Inherit_Wills
  imports Inherit_Store
begin

text \<open>
  Wills (\<open>src/contracts/inheritance-contract/src/lib.rs\<close>): the hash of a will and its link to a
  plan, versions, the owner's signature, witnesses, finalization, and the check of the plan's
  beneficiaries against a will.
\<close>

section \<open>Hash, link and versions\<close>

definition store_will_hash :: "ctx \<Rightarrow> address \<Rightarrow> nat \<Rightarrow> bytes32 \<Rightarrow> 'w ih_state \<Rightarrow> 'w ih_state ih_result" where
  "store_will_hash cx owner plan_id will_hash s =
     and_then (require_auth cx owner) (\<lambda>_.
     and_then (owned_plan owner plan_id s) (\<lambda>_.
     and_then (ensure (ih_will_hash s plan_id = None) WillHashAlreadyStored) (\<lambda>_.
     Ok (ih_publish (WillHashStoredEvent plan_id will_hash)
       (s\<lparr>ih_will_hash := (ih_will_hash s)(plan_id \<mapsto> will_hash)\<rparr>)))))"

definition get_will_hash :: "'w ih_state \<Rightarrow> nat \<Rightarrow> bytes32 option" where
  "get_will_hash s plan_id = ih_will_hash s plan_id"

definition link_will_to_vault :: "ctx \<Rightarrow> address \<Rightarrow> nat \<Rightarrow> bytes32 \<Rightarrow> 'w ih_state \<Rightarrow> 'w ih_state ih_result" where
  "link_will_to_vault cx owner plan_id will_hash s =
     and_then (require_auth cx owner) (\<lambda>_.
     and_then (ok_or (get_plan s plan_id) VaultNotFound) (\<lambda>plan.
     and_then (ensure (pl_owner plan = owner) Unauthorized) (\<lambda>_.
     and_then (ensure (ih_vault_will s plan_id = None) WillAlreadyLinked) (\<lambda>_.
     Ok (ih_publish (WillLinkedToVaultEvent plan_id will_hash)
       (s\<lparr>ih_vault_will := (ih_vault_will s)(plan_id \<mapsto> will_hash)\<rparr>))))))"

definition get_vault_will :: "'w ih_state \<Rightarrow> nat \<Rightarrow> bytes32 option" where
  "get_vault_will s plan_id = ih_vault_will s plan_id"

definition verify_beneficiaries :: "nat \<Rightarrow> (bytes32 \<times> nat) list \<Rightarrow> 'w ih_state \<Rightarrow> (bool \<times> 'w ih_state) ih_result" where
  "verify_beneficiaries plan_id will_beneficiaries s =
     and_then (the_plan s plan_id) (\<lambda>plan.
     let plan_bens = pl_beneficiaries plan;
         status = (if length will_beneficiaries \<noteq> length plan_bens then False
                   else list_all (\<lambda>(wh_email, w_alloc).
                          list_ex (\<lambda>pb. b_hashed_email pb = wh_email \<and> b_allocation_bp pb = w_alloc) plan_bens)
                        will_beneficiaries);
         s = s\<lparr>ih_verified := (ih_verified s)(plan_id \<mapsto> status)\<rparr>
     in Ok (status, ih_publish (BeneficiariesVerifiedEvent plan_id status) s))"

definition get_verification_status :: "'w ih_state \<Rightarrow> nat \<Rightarrow> bool option" where
  "get_verification_status s plan_id = ih_verified s plan_id"

definition is_will_finalized :: "'w ih_state \<Rightarrow> nat \<Rightarrow> nat \<Rightarrow> bool" where
  "is_will_finalized s vault_id version = unwrap_or False (ih_will_final s (vault_id, version))"

text \<open>Deactivating the version that was active so far, if it is there.\<close>

definition deactivate_version :: "nat \<Rightarrow> 'w ih_state \<Rightarrow> 'w ih_state" where
  "deactivate_version plan_id s =
     (case ih_active_version s plan_id of
        None \<Rightarrow> s
      | Some prev_ver_num \<Rightarrow>
          (case ih_will_version s (plan_id, prev_ver_num) of
             None \<Rightarrow> s
           | Some prev_ver \<Rightarrow> s\<lparr>ih_will_version :=
               (ih_will_version s)((plan_id, prev_ver_num) \<mapsto> prev_ver\<lparr>wv_is_active := False\<rparr>)\<rparr>))"

definition get_will_version_count :: "'w ih_state \<Rightarrow> nat \<Rightarrow> nat" where
  "get_will_version_count s plan_id = unwrap_or 0 (ih_will_count s plan_id)"

definition active_is_final :: "'w ih_state \<Rightarrow> nat \<Rightarrow> bool" where
  "active_is_final s plan_id =
     (case ih_active_version s plan_id of None \<Rightarrow> False | Some v \<Rightarrow> is_will_finalized s plan_id v)"

definition create_will_version ::
  "ctx \<Rightarrow> address \<Rightarrow> nat \<Rightarrow> bytes32 \<Rightarrow> 'w ih_state \<Rightarrow> (nat \<times> 'w ih_state) ih_result" where
  "create_will_version cx owner plan_id will_hash s =
     and_then (require_auth cx owner) (\<lambda>_.
     and_then (owned_plan owner plan_id s) (\<lambda>_.
     and_then (ensure (\<not> active_is_final s plan_id) WillAlreadyFinalized) (\<lambda>_.
     and_then (u32_add (get_will_version_count s plan_id) 1) (\<lambda>new_version.
     let s = s\<lparr>ih_will_count := (ih_will_count s)(plan_id \<mapsto> new_version)\<rparr>;
         s = deactivate_version plan_id s;
         version_info = \<lparr>wv_version = new_version, wv_will_hash = will_hash, wv_created_at = timestamp cx,
           wv_is_active = True\<rparr>;
         s = s\<lparr>ih_will_version := (ih_will_version s)((plan_id, new_version) \<mapsto> version_info)\<rparr>;
         s = s\<lparr>ih_active_version := (ih_active_version s)(plan_id \<mapsto> new_version)\<rparr>;
         s = s\<lparr>ih_vault_will := (ih_vault_will s)(plan_id \<mapsto> will_hash)\<rparr>;
         s = ih_publish (WillVersionCreatedEvent plan_id new_version) s
     in Ok (new_version, ih_publish (WillVersionActivatedEvent plan_id new_version) s)))))"

definition get_will_version :: "'w ih_state \<Rightarrow> nat \<Rightarrow> nat \<Rightarrow> will_version_info option" where
  "get_will_version s plan_id version = ih_will_version s (plan_id, version)"

definition get_active_will_version :: "'w ih_state \<Rightarrow> nat \<Rightarrow> will_version_info option" where
  "get_active_will_version s plan_id =
     Option.bind (ih_active_version s plan_id) (\<lambda>v. ih_will_version s (plan_id, v))"

section \<open>Signature and witnesses\<close>

definition signature_used :: "'w ih_state \<Rightarrow> bytes32 \<Rightarrow> bool" where
  "signature_used s sig_hash = unwrap_or False (ih_sig_used s sig_hash)"

definition mark_signature :: "bytes32 \<Rightarrow> 'w ih_state \<Rightarrow> 'w ih_state" where
  "mark_signature sig_hash s = s\<lparr>ih_sig_used := (ih_sig_used s)(sig_hash \<mapsto> True)\<rparr>"

definition sign_will ::
  "'w ih_externals \<Rightarrow> ctx \<Rightarrow> address \<Rightarrow> nat \<Rightarrow> bytes32 \<Rightarrow> nat list \<Rightarrow> nat \<Rightarrow> 'w ih_state \<Rightarrow> 'w ih_state ih_result" where
  "sign_will X cx owner vault_id will_hash sign expires_at s =
     and_then (require_auth cx owner) (\<lambda>_.
     and_then (owned_plan owner vault_id s) (\<lambda>_.
     and_then (ensure (\<not> timestamp cx > expires_at) Unauthorized) (\<lambda>_.
     let sig_hash = host_sha256 X sign in
     and_then (ensure (\<not> signature_used s sig_hash) WillAlreadyFinalized) (\<lambda>_.
     let s = mark_signature sig_hash s;
         proof_record = \<lparr>wp_vault_id = vault_id, wp_will_hash = will_hash, wp_signer = owner,
           wp_sig_hash = sig_hash, wp_signed_at = timestamp cx\<rparr>;
         s = s\<lparr>ih_will_signature := (ih_will_signature s)(vault_id \<mapsto> proof_record)\<rparr>
     in Ok (ih_publish (WillSignedEvent vault_id owner) s)))))"

definition get_will_signature :: "'w ih_state \<Rightarrow> nat \<Rightarrow> will_signature_proof option" where
  "get_will_signature s vault_id = ih_will_signature s vault_id"

definition get_witnesses :: "'w ih_state \<Rightarrow> nat \<Rightarrow> address list" where
  "get_witnesses s vault_id = unwrap_or [] (ih_witnesses s vault_id)"

definition add_witness :: "ctx \<Rightarrow> address \<Rightarrow> nat \<Rightarrow> address \<Rightarrow> 'w ih_state \<Rightarrow> 'w ih_state ih_result" where
  "add_witness cx owner vault_id witness s =
     and_then (require_auth cx owner) (\<lambda>_.
     and_then (owned_plan owner vault_id s) (\<lambda>_.
     let witnesses = get_witnesses s vault_id in
     and_then (ensure (witness \<notin> set witnesses) EmergencyContactAlreadyExists) (\<lambda>_.
     Ok (ih_publish (WitnessAddedEvent vault_id witness)
       (s\<lparr>ih_witnesses := (ih_witnesses s)(vault_id \<mapsto> witnesses @ [witness])\<rparr>)))))"

definition get_witness_signature :: "'w ih_state \<Rightarrow> nat \<Rightarrow> address \<Rightarrow> nat option" where
  "get_witness_signature s vault_id witness = ih_witness_sig s (vault_id, witness)"

definition sign_as_witness ::
  "'w ih_externals \<Rightarrow> ctx \<Rightarrow> address \<Rightarrow> nat \<Rightarrow> nat list \<Rightarrow> nat \<Rightarrow> 'w ih_state \<Rightarrow> 'w ih_state ih_result" where
  "sign_as_witness X cx witness vault_id sign expires_at s =
     and_then (require_auth cx witness) (\<lambda>_.
     and_then (the_plan s vault_id) (\<lambda>_.
     and_then (ensure (witness \<in> set (get_witnesses s vault_id)) EmergencyContactNotFound) (\<lambda>_.
     and_then (ensure (\<not> timestamp cx > expires_at) Unauthorized) (\<lambda>_.
     let sig_hash = host_sha256 X sign in
     and_then (ensure (\<not> signature_used s sig_hash) AlreadyApproved) (\<lambda>_.
     and_then (ensure (ih_witness_sig s (vault_id, witness) = None) AlreadyApproved) (\<lambda>_.
     let s = mark_signature sig_hash s;
         s = s\<lparr>ih_witness_sig := (ih_witness_sig s)((vault_id, witness) \<mapsto> timestamp cx)\<rparr>
     in Ok (ih_publish (WitnessSignedEvent vault_id witness) s)))))))"

section \<open>Finalization\<close>

text \<open>
  The flag is set first and removed again on the two late errors; since an error rolls the call
  back, the removals are never seen, and the model keeps the flag only on success.
\<close>

definition finalize_will :: "ctx \<Rightarrow> address \<Rightarrow> nat \<Rightarrow> nat \<Rightarrow> 'w ih_state \<Rightarrow> 'w ih_state ih_result" where
  "finalize_will cx owner vault_id version s =
     and_then (require_auth cx owner) (\<lambda>_.
     and_then (owned_plan owner vault_id s) (\<lambda>_.
     and_then (ok_or (ih_will_version s (vault_id, version)) WillVersionNotFound) (\<lambda>_.
     and_then (ensure (\<not> is_will_finalized s vault_id version) WillAlreadyFinalized) (\<lambda>_.
     let s = s\<lparr>ih_will_final := (ih_will_final s)((vault_id, version) \<mapsto> True)\<rparr> in
     and_then (ensure (ih_will_signature s vault_id \<noteq> None) WillVersionNotFound) (\<lambda>_.
     and_then (ensure (list_all (\<lambda>w. ih_witness_sig s (vault_id, w) \<noteq> None) (get_witnesses s vault_id))
       MissingRequiredField) (\<lambda>_.
     let s = s\<lparr>ih_will_final_at := (ih_will_final_at s)((vault_id, version) \<mapsto> timestamp cx)\<rparr>
     in Ok (ih_publish (WillFinalizedEvent vault_id version (timestamp cx)) s)))))))"

definition get_will_finalized_at :: "'w ih_state \<Rightarrow> nat \<Rightarrow> nat \<Rightarrow> nat option" where
  "get_will_finalized_at s vault_id version = ih_will_final_at s (vault_id, version)"

end
