(* ===== verification/Inherit_Messages.thy ===== *)
theory Inherit_Messages
  imports Inherit_Triggers
begin

text \<open>
  Legacy messages (\<open>src/contracts/inheritance-contract/src/lib.rs\<close>): the rotation of a plan's
  message key, the life of a message from creation to finalization or deletion, its unlocking by
  time or by the trigger, and the notices to beneficiaries.
\<close>

section \<open>Keys\<close>

definition get_vault_message_key_version :: "'w ih_state \<Rightarrow> nat \<Rightarrow> nat" where
  "get_vault_message_key_version s vault_id = unwrap_or 0 (ih_key_current s vault_id)"

definition get_vault_message_key :: "'w ih_state \<Rightarrow> nat \<Rightarrow> string option" where
  "get_vault_message_key s vault_id = ih_key_ref s (vault_id, unwrap_or 0 (ih_key_current s vault_id))"

definition rotate_vault_message_key ::
  "ctx \<Rightarrow> address \<Rightarrow> nat \<Rightarrow> string \<Rightarrow> 'w ih_state \<Rightarrow> (nat \<times> 'w ih_state) ih_result" where
  "rotate_vault_message_key cx owner vault_id new_key_reference s =
     and_then (require_auth cx owner) (\<lambda>_.
     and_then (owned_plan owner vault_id s) (\<lambda>_.
     and_then (ensure (new_key_reference \<noteq> []) MissingRequiredField) (\<lambda>_.
     let nxt = saturating_add_u32 (unwrap_or 0 (ih_key_version s vault_id)) 1;
         s = s\<lparr>ih_key_ref := (ih_key_ref s)((vault_id, nxt) \<mapsto> new_key_reference)\<rparr>;
         s = s\<lparr>ih_key_version := (ih_key_version s)(vault_id \<mapsto> nxt)\<rparr>;
         s = s\<lparr>ih_key_current := (ih_key_current s)(vault_id \<mapsto> nxt)\<rparr>
     in Ok (nxt, ih_publish (KeyRotated vault_id nxt) s))))"

section \<open>Messages\<close>

definition get_vault_messages :: "'w ih_state \<Rightarrow> nat \<Rightarrow> nat list" where
  "get_vault_messages s vault_id = unwrap_or [] (ih_vault_messages s vault_id)"

definition get_legacy_message :: "'w ih_state \<Rightarrow> nat \<Rightarrow> legacy_message option" where
  "get_legacy_message s message_id = ih_message s message_id"

text \<open>Writing a new message under the next id: shared by the single and the batch creation.\<close>

definition store_new_message ::
  "ctx \<Rightarrow> address \<Rightarrow> create_message_params \<Rightarrow> string \<Rightarrow> 'w ih_state \<Rightarrow> (nat \<times> 'w ih_state) ih_result" where
  "store_new_message cx creator params key_ref s =
     (let message_id = unwrap_or 0 (ih_next_message s);
          vault_id = mp_vault_id params;
          message = \<lparr>lm_vault_id = vault_id, lm_message_id = message_id, lm_message_hash = mp_message_hash params,
            lm_creator = creator, lm_key_reference = key_ref, lm_unlock_timestamp = mp_unlock_timestamp params,
            lm_is_unlocked = False, lm_is_finalized = False, lm_created_at = timestamp cx\<rparr>;
          s = s\<lparr>ih_message := (ih_message s)(message_id \<mapsto> message)\<rparr>;
          s = s\<lparr>ih_vault_messages := (ih_vault_messages s)(vault_id \<mapsto> get_vault_messages s vault_id @ [message_id])\<rparr> in
      and_then (u64_add message_id 1) (\<lambda>nxt.
      let s = s\<lparr>ih_next_message := Some nxt\<rparr>
      in Ok (message_id, ih_publish (MessageCreatedEvent vault_id message_id (timestamp cx)) s)))"

text \<open>The creation does not ask for the creator's authorization, only that the creator owns the plan.\<close>

definition create_legacy_message ::
  "ctx \<Rightarrow> address \<Rightarrow> create_message_params \<Rightarrow> 'w ih_state \<Rightarrow> (nat \<times> 'w ih_state) ih_result" where
  "create_legacy_message cx creator params s =
     and_then (owned_plan creator (mp_vault_id params) s) (\<lambda>_.
     and_then (ensure (\<not> mp_unlock_timestamp params \<le> timestamp cx) InvalidClaimCode) (\<lambda>_.
     let key_ref = mp_key_reference params;
         key_ref = (if key_ref = [] then unwrap_or [] (get_vault_message_key s (mp_vault_id params)) else key_ref)
     in store_new_message cx creator params key_ref s))"

definition the_message :: "'w ih_state \<Rightarrow> nat \<Rightarrow> legacy_message ih_result" where
  "the_message s message_id = ok_or (ih_message s message_id) PlanNotFound"

definition set_message :: "nat \<Rightarrow> legacy_message \<Rightarrow> 'w ih_state \<Rightarrow> 'w ih_state" where
  "set_message message_id message s = s\<lparr>ih_message := (ih_message s)(message_id \<mapsto> message)\<rparr>"

definition update_legacy_message ::
  "ctx \<Rightarrow> address \<Rightarrow> nat \<Rightarrow> create_message_params \<Rightarrow> 'w ih_state \<Rightarrow> 'w ih_state ih_result" where
  "update_legacy_message cx creator message_id params s =
     and_then (require_auth cx creator) (\<lambda>_.
     and_then (the_message s message_id) (\<lambda>message.
     and_then (ensure (lm_creator message = creator) Unauthorized) (\<lambda>_.
     and_then (ensure (\<not> lm_is_finalized message) WillAlreadyFinalized) (\<lambda>_.
     and_then (ensure (\<not> lm_is_unlocked message) AlreadyClaimed) (\<lambda>_.
     let message = message\<lparr>lm_message_hash := mp_message_hash params,
           lm_unlock_timestamp := mp_unlock_timestamp params, lm_key_reference := mp_key_reference params\<rparr>
     in Ok (ih_publish (MessageUpdatedEvent (lm_vault_id message) message_id (timestamp cx))
          (set_message message_id message s)))))))"

definition finalize_legacy_message :: "ctx \<Rightarrow> address \<Rightarrow> nat \<Rightarrow> 'w ih_state \<Rightarrow> 'w ih_state ih_result" where
  "finalize_legacy_message cx creator message_id s =
     and_then (require_auth cx creator) (\<lambda>_.
     and_then (the_message s message_id) (\<lambda>message.
     and_then (ensure (lm_creator message = creator) Unauthorized) (\<lambda>_.
     and_then (ensure (\<not> lm_is_finalized message) WillAlreadyFinalized) (\<lambda>_.
     Ok (ih_publish (MessageFinalizedEvent (lm_vault_id message) message_id (timestamp cx))
       (set_message message_id (message\<lparr>lm_is_finalized := True\<rparr>) s))))))"

definition delete_legacy_message :: "ctx \<Rightarrow> address \<Rightarrow> nat \<Rightarrow> 'w ih_state \<Rightarrow> 'w ih_state ih_result" where
  "delete_legacy_message cx owner message_id s =
     and_then (require_auth cx owner) (\<lambda>_.
     and_then (the_message s message_id) (\<lambda>message.
     and_then (ensure (lm_creator message = owner) Unauthorized) (\<lambda>_.
     and_then (ensure (\<not> lm_is_finalized message) WillAlreadyFinalized) (\<lambda>_.
     let vault_id = lm_vault_id message;
         s = s\<lparr>ih_message := (ih_message s)(message_id := None)\<rparr>;
         s = s\<lparr>ih_vault_messages := (ih_vault_messages s)(vault_id \<mapsto>
               filter (\<lambda>i. i \<noteq> message_id) (get_vault_messages s vault_id))\<rparr>
     in Ok (ih_publish (MessageDeletedEvent vault_id message_id (timestamp cx)) s)))))"

section \<open>Unlocking\<close>

definition unlock_message :: "ctx \<Rightarrow> nat \<Rightarrow> nat \<Rightarrow> legacy_message \<Rightarrow> 'w ih_state \<Rightarrow> 'w ih_state" where
  "unlock_message cx vault_id message_id message s =
     ih_publish (MessageUnlockedEvent vault_id message_id (timestamp cx))
       (set_message message_id (message\<lparr>lm_is_unlocked := True\<rparr>) s)"

definition inheritance_triggered :: "'w ih_state \<Rightarrow> nat \<Rightarrow> bool" where
  "inheritance_triggered s plan_id =
     (case ih_trigger s plan_id of None \<Rightarrow> False | Some info \<Rightarrow> ti_triggered_at info > 0)"

definition access_legacy_message ::
  "'w ih_externals \<Rightarrow> ctx \<Rightarrow> address \<Rightarrow> nat \<Rightarrow> 'w ih_state \<Rightarrow> (legacy_message \<times> 'w ih_state) ih_result" where
  "access_legacy_message X cx caller message_id s =
     and_then (the_message s message_id) (\<lambda>message.
     let vault_id = lm_vault_id message in
     and_then
       (if lm_is_unlocked message then Ok (message, s)
        else if timestamp cx \<ge> lm_unlock_timestamp message \<or> inheritance_triggered s vault_id
        then Ok (message\<lparr>lm_is_unlocked := True\<rparr>, unlock_message cx vault_id message_id message s)
        else Err ClaimNotAllowedYet) (\<lambda>(message, s).
     and_then (the_plan s vault_id) (\<lambda>plan.
     let caller_hash = host_sha256 X (address_bytes X caller) in
     and_then (ensure (list_ex (\<lambda>b. b_hashed_email b = caller_hash) (pl_beneficiaries plan)) Unauthorized) (\<lambda>_.
     Ok (message, ih_publish (MessageAccessedEvent vault_id message_id (timestamp cx)) s)))))"

definition unlock_one :: "ctx \<Rightarrow> nat \<Rightarrow> nat \<Rightarrow> 'w ih_state \<Rightarrow> 'w ih_state" where
  "unlock_one cx vault_id message_id s =
     (case ih_message s message_id of
        None \<Rightarrow> s
      | Some message \<Rightarrow> if lm_is_unlocked message then s else unlock_message cx vault_id message_id message s)"

definition unlock_messages_on_inheritance :: "ctx \<Rightarrow> nat \<Rightarrow> 'w ih_state \<Rightarrow> 'w ih_state ih_result" where
  "unlock_messages_on_inheritance cx vault_id s =
     and_then (ok_or (ih_trigger s vault_id) InheritanceNotTriggered) (\<lambda>trigger_info.
     and_then (ensure (ti_triggered_at trigger_info \<noteq> 0) InheritanceNotTriggered) (\<lambda>_.
     Ok (fold (unlock_one cx vault_id) (get_vault_messages s vault_id) s)))"

section \<open>Batch creation\<close>

definition batch_create_one ::
  "ctx \<Rightarrow> address \<Rightarrow> create_message_params \<Rightarrow> nat list \<times> nat \<times> nat \<times> 'w ih_state \<Rightarrow>
   (nat list \<times> nat \<times> nat \<times> 'w ih_state) ih_result" where
  "batch_create_one cx creator params = (\<lambda>(created_ids, fail, batch_vault_id, s).
     let failed = and_then (u32_add fail 1) (\<lambda>fail. Ok (created_ids, fail, batch_vault_id, s)) in
     case get_plan s (mp_vault_id params) of
       None \<Rightarrow> failed
     | Some plan \<Rightarrow>
         if pl_owner plan \<noteq> creator then failed
         else if mp_unlock_timestamp params \<le> timestamp cx then failed
         else and_then (store_new_message cx creator params (mp_key_reference params) s) (\<lambda>(message_id, s).
              let batch_vault_id = (if batch_vault_id = 0 then mp_vault_id params else batch_vault_id)
              in Ok (created_ids @ [message_id], fail, batch_vault_id, s)))"

definition batch_create_messages ::
  "ctx \<Rightarrow> address \<Rightarrow> create_message_params list \<Rightarrow> 'w ih_state \<Rightarrow> ((nat list \<times> nat) \<times> 'w ih_state) ih_result" where
  "batch_create_messages cx creator params_list s =
     and_then (require_auth cx creator) (\<lambda>_.
     and_then (ensure (\<not> length params_list > BATCH_MESSAGE_LIMIT) TooManyBeneficiaries) (\<lambda>_.
     and_then (fold_outcome (batch_create_one cx creator) params_list ([], 0, 0, s))
       (\<lambda>(created_ids, fail, batch_vault_id, s).
     Ok ((created_ids, fail), ih_publish (BatchMessagesCreatedEvent batch_vault_id (length created_ids) fail) s))))"

section \<open>Notices\<close>

text \<open>The owner may act, and anyone else only as an admin.\<close>

definition owner_or_admin :: "ctx \<Rightarrow> address \<Rightarrow> inheritance_plan \<Rightarrow> 'w ih_state \<Rightarrow> unit ih_result" where
  "owner_or_admin cx caller plan s =
     (if caller \<noteq> pl_owner plan then ih_require_admin cx caller s else Ok ())"

definition notify_beneficiary :: "ctx \<Rightarrow> address \<Rightarrow> nat \<Rightarrow> nat \<Rightarrow> 'w ih_state \<Rightarrow> 'w ih_state ih_result" where
  "notify_beneficiary cx caller plan_id beneficiary_index s =
     and_then (require_auth cx caller) (\<lambda>_.
     and_then (the_plan s plan_id) (\<lambda>plan.
     and_then (owner_or_admin cx caller plan s) (\<lambda>_.
     and_then (ensure (\<not> beneficiary_index \<ge> length (pl_beneficiaries plan)) InvalidBeneficiaryIndex) (\<lambda>_.
     and_then (ensure (ih_notified s (plan_id, beneficiary_index) = None) AlreadyApproved) (\<lambda>_.
     Ok (ih_publish (BeneficiaryNotifiedEvent plan_id beneficiary_index (timestamp cx))
       (s\<lparr>ih_notified := (ih_notified s)((plan_id, beneficiary_index) \<mapsto> timestamp cx)\<rparr>)))))))"

definition acknowledge_beneficiary_status :: "ctx \<Rightarrow> address \<Rightarrow> nat \<Rightarrow> nat \<Rightarrow> 'w ih_state \<Rightarrow> 'w ih_state ih_result" where
  "acknowledge_beneficiary_status cx beneficiary_caller plan_id beneficiary_index s =
     and_then (require_auth cx beneficiary_caller) (\<lambda>_.
     and_then (the_plan s plan_id) (\<lambda>plan.
     and_then (ensure (\<not> beneficiary_index \<ge> length (pl_beneficiaries plan)) InvalidBeneficiaryIndex) (\<lambda>_.
     and_then (ensure (ih_notified s (plan_id, beneficiary_index) \<noteq> None) ClaimNotAllowedYet) (\<lambda>_.
     and_then (ensure (ih_acknowledged s (plan_id, beneficiary_index) = None) AlreadyApproved) (\<lambda>_.
     Ok (ih_publish (BeneficiaryAcknowledgedEvent plan_id beneficiary_index (timestamp cx))
       (s\<lparr>ih_acknowledged := (ih_acknowledged s)((plan_id, beneficiary_index) \<mapsto> timestamp cx)\<rparr>)))))))"

definition get_beneficiary_acknowledgment :: "'w ih_state \<Rightarrow> nat \<Rightarrow> nat \<Rightarrow> beneficiary_acknowledgment option" where
  "get_beneficiary_acknowledgment s plan_id beneficiary_index =
     map_option (\<lambda>notification_sent_at. \<lparr>ak_plan_id = plan_id, ak_beneficiary_index = beneficiary_index,
         ak_notification_sent_at = notification_sent_at,
         ak_acknowledged_at = unwrap_or 0 (ih_acknowledged s (plan_id, beneficiary_index))\<rparr>)
       (ih_notified s (plan_id, beneficiary_index))"

definition require_acknowledgment :: "ctx \<Rightarrow> address \<Rightarrow> nat \<Rightarrow> bool \<Rightarrow> 'w ih_state \<Rightarrow> 'w ih_state ih_result" where
  "require_acknowledgment cx caller plan_id required s =
     and_then (require_auth cx caller) (\<lambda>_.
     and_then (the_plan s plan_id) (\<lambda>plan.
     and_then (owner_or_admin cx caller plan s) (\<lambda>_.
     Ok (s\<lparr>ih_ack_required := (ih_ack_required s)(plan_id \<mapsto> required)\<rparr>))))"

definition get_unacknowledged_beneficiaries :: "nat \<Rightarrow> 'w ih_state \<Rightarrow> nat list ih_result" where
  "get_unacknowledged_beneficiaries plan_id s =
     and_then (the_plan s plan_id) (\<lambda>plan.
     Ok (filter (\<lambda>idx. ih_notified s (plan_id, idx) \<noteq> None \<and> ih_acknowledged s (plan_id, idx) = None)
       [0..<length (pl_beneficiaries plan)]))"

end
