(* ===== verification/Yield_Math.thy ===== *)
theory Yield_Math
  imports Inherit_Types Complex_Main
begin

text \<open>
  The yield arithmetic \<open>src/contracts/inheritance-contract/src/yield_math.rs\<close>: checked primitives,
  simple and compound interest on a fixed-point growth factor, the effective annual yield, fee
  splitting and the harvest schedule. No function of the module traps; each either returns a value
  or an error, and the lemmas say which.
\<close>

section \<open>Constants\<close>

definition BPS_DENOMINATOR :: nat where "BPS_DENOMINATOR = 10000"
definition YIELD_SCALE :: nat where "YIELD_SCALE = 1000000000000"
definition SECONDS_PER_DAY :: nat where "SECONDS_PER_DAY = 86400"
definition DAYS_PER_YEAR :: nat where "DAYS_PER_YEAR = 365"
definition SECONDS_PER_YEAR :: nat where "SECONDS_PER_YEAR = 31536000"
definition MAX_YIELD_RATE_BPS :: nat where "MAX_YIELD_RATE_BPS = 10000"
definition MAX_PERFORMANCE_FEE_BPS :: nat where "MAX_PERFORMANCE_FEE_BPS = 5000"
definition MAX_COMPOUND_PERIODS :: nat where "MAX_COMPOUND_PERIODS = 36500"

lemmas yield_consts =
  BPS_DENOMINATOR_def YIELD_SCALE_def SECONDS_PER_DAY_def DAYS_PER_YEAR_def SECONDS_PER_YEAR_def
  MAX_YIELD_RATE_BPS_def MAX_PERFORMANCE_FEE_BPS_def MAX_COMPOUND_PERIODS_def

section \<open>Checked primitives\<close>

definition safe_add :: "nat \<Rightarrow> nat \<Rightarrow> nat ih_result" where
  "safe_add a b = ok_or (checked_add_u64 a b) InvalidTotalAmount"

definition safe_sub :: "nat \<Rightarrow> nat \<Rightarrow> nat ih_result" where
  "safe_sub a b = ok_or (checked_sub a b) InvalidTotalAmount"

definition safe_mul :: "nat \<Rightarrow> nat \<Rightarrow> nat ih_result" where
  "safe_mul a b = ok_or (checked_mul_u64 a b) InvalidTotalAmount"

definition safe_div :: "nat \<Rightarrow> nat \<Rightarrow> nat ih_result" where
  "safe_div a b =
     (if b = 0 then Err InvalidBeneficiaryData else ok_or (checked_div a b) InvalidTotalAmount)"

definition safe_mul_u128 :: "nat \<Rightarrow> nat \<Rightarrow> nat ih_result" where
  "safe_mul_u128 a b = ok_or (checked_mul_u128 a b) InvalidTotalAmount"

definition safe_div_u128 :: "nat \<Rightarrow> nat \<Rightarrow> nat ih_result" where
  "safe_div_u128 a b =
     (if b = 0 then Err InvalidBeneficiaryData else ok_or (checked_div a b) InvalidTotalAmount)"

definition to_u64 :: "nat \<Rightarrow> nat ih_result" where
  "to_u64 value = (if value \<le> u64_max then Ok value else Err InvalidTotalAmount)"

definition to_u32 :: "nat \<Rightarrow> nat ih_result" where
  "to_u32 value = (if value \<le> u32_max then Ok value else Err InvalidTotalAmount)"

definition mul_div :: "nat \<Rightarrow> nat \<Rightarrow> nat \<Rightarrow> nat ih_result" where
  "mul_div a b denominator =
     (if denominator = 0 then Err InvalidBeneficiaryData
      else and_then (safe_mul_u128 a b) (\<lambda>product.
           and_then (safe_div_u128 product denominator) to_u64))"

definition apply_bps :: "nat \<Rightarrow> nat \<Rightarrow> nat ih_result" where
  "apply_bps amount bps = mul_div amount bps BPS_DENOMINATOR"

section \<open>Validation\<close>

definition validate_yield_rate :: "nat \<Rightarrow> unit ih_result" where
  "validate_yield_rate rate_bps = ensure (\<not> rate_bps > MAX_YIELD_RATE_BPS) InvalidAllocation"

definition validate_performance_fee :: "nat \<Rightarrow> unit ih_result" where
  "validate_performance_fee fee_bps = ensure (\<not> fee_bps > MAX_PERFORMANCE_FEE_BPS) InvalidAllocation"

definition validate_periods :: "nat \<Rightarrow> unit ih_result" where
  "validate_periods periods = ensure (\<not> periods > MAX_COMPOUND_PERIODS) InvalidAllocation"

section \<open>Interest\<close>

definition simple_interest :: "nat \<Rightarrow> nat \<Rightarrow> nat \<Rightarrow> nat ih_result" where
  "simple_interest prin annual_rate_bps elapsed_secs =
     and_then (validate_yield_rate annual_rate_bps) (\<lambda>_.
     if prin = 0 \<or> annual_rate_bps = 0 \<or> elapsed_secs = 0 then Ok 0
     else and_then (safe_mul_u128 prin annual_rate_bps) (\<lambda>product.
          and_then (safe_mul_u128 product elapsed_secs) (\<lambda>numerator.
          and_then (safe_mul_u128 BPS_DENOMINATOR SECONDS_PER_YEAR) (\<lambda>denominator.
          and_then (safe_div_u128 numerator denominator) to_u64))))"

definition daily_rate_bps :: "nat \<Rightarrow> nat ih_result" where
  "daily_rate_bps annual_rate_bps =
     and_then (validate_yield_rate annual_rate_bps) (\<lambda>_.
     Ok (as_u32 (annual_rate_bps div DAYS_PER_YEAR)))"

definition periods_elapsed :: "nat \<Rightarrow> nat \<Rightarrow> nat ih_result" where
  "periods_elapsed elapsed_secs period_secs =
     (if period_secs = 0 then Err InvalidBeneficiaryData else Ok (elapsed_secs div period_secs))"

section \<open>Compounding\<close>

definition daily_growth_factor :: "nat \<Rightarrow> nat ih_result" where
  "daily_growth_factor annual_rate_bps =
     and_then (validate_yield_rate annual_rate_bps) (\<lambda>_.
     and_then (safe_mul_u128 YIELD_SCALE annual_rate_bps) (\<lambda>daily_numerator.
     and_then (safe_mul_u128 BPS_DENOMINATOR DAYS_PER_YEAR) (\<lambda>denominator.
     and_then (safe_div_u128 daily_numerator denominator) (\<lambda>daily_increment.
     ok_or (checked_add_u128 YIELD_SCALE daily_increment) InvalidTotalAmount))))"

definition mul_factor :: "nat \<Rightarrow> nat \<Rightarrow> nat ih_result" where
  "mul_factor a b = and_then (safe_mul_u128 a b) (\<lambda>product. safe_div_u128 product YIELD_SCALE)"

text \<open>
  The squaring loop. Each pass halves the remaining exponent, and the loop ends when nothing
  remains, so it runs at most 16 times for an exponent within \<open>MAX_COMPOUND_PERIODS\<close>.
\<close>

function pow_loop :: "nat \<Rightarrow> nat \<Rightarrow> nat \<Rightarrow> nat ih_result" where
  "pow_loop result accumulator remaining =
     and_then (if remaining mod 2 = 1 then mul_factor result accumulator else Ok result) (\<lambda>result.
     if remaining div 2 = 0 then Ok result
     else and_then (mul_factor accumulator accumulator) (\<lambda>accumulator.
          pow_loop result accumulator (remaining div 2)))"
  by pat_completeness auto
termination by (relation "measure (\<lambda>(_, _, m). m)") auto

declare pow_loop.simps [simp del]

definition pow_factor :: "nat \<Rightarrow> nat \<Rightarrow> nat ih_result" where
  "pow_factor base exponent =
     and_then (validate_periods exponent) (\<lambda>_.
     if exponent = 0 then Ok YIELD_SCALE else pow_loop YIELD_SCALE base exponent)"

text \<open>The last step of both compounding functions: the principal times the growth factor.\<close>

definition grow :: "nat \<Rightarrow> nat \<Rightarrow> nat ih_result" where
  "grow prin growth =
     and_then (safe_mul_u128 prin growth) (\<lambda>product.
     and_then (safe_div_u128 product YIELD_SCALE) to_u64)"

definition compound_amount :: "nat \<Rightarrow> nat \<Rightarrow> nat \<Rightarrow> nat ih_result" where
  "compound_amount prin rate_bps_per_period periods =
     and_then (validate_yield_rate rate_bps_per_period) (\<lambda>_.
     and_then (validate_periods periods) (\<lambda>_.
     if prin = 0 \<or> rate_bps_per_period = 0 \<or> periods = 0 then Ok prin
     else and_then (safe_mul_u128 YIELD_SCALE rate_bps_per_period) (\<lambda>product.
          and_then (safe_div_u128 product BPS_DENOMINATOR) (\<lambda>per_period_increment.
          and_then (ok_or (checked_add_u128 YIELD_SCALE per_period_increment) InvalidTotalAmount)
            (\<lambda>per_period_factor.
          and_then (pow_factor per_period_factor periods) (grow prin))))))"

definition compound_interest :: "nat \<Rightarrow> nat \<Rightarrow> nat \<Rightarrow> nat ih_result" where
  "compound_interest prin rate_bps_per_period periods =
     and_then (compound_amount prin rate_bps_per_period periods) (\<lambda>total. safe_sub total prin)"

definition project_daily_compound :: "nat \<Rightarrow> nat \<Rightarrow> nat \<Rightarrow> nat ih_result" where
  "project_daily_compound prin annual_rate_bps days =
     and_then (validate_yield_rate annual_rate_bps) (\<lambda>_.
     and_then (validate_periods days) (\<lambda>_.
     if prin = 0 \<or> annual_rate_bps = 0 \<or> days = 0 then Ok prin
     else and_then (daily_growth_factor annual_rate_bps) (\<lambda>factor.
          and_then (pow_factor factor days) (grow prin))))"

definition project_daily_interest :: "nat \<Rightarrow> nat \<Rightarrow> nat \<Rightarrow> nat ih_result" where
  "project_daily_interest prin annual_rate_bps days =
     and_then (project_daily_compound prin annual_rate_bps days) (\<lambda>total. safe_sub total prin)"

definition effective_apy_bps :: "nat \<Rightarrow> nat ih_result" where
  "effective_apy_bps nominal_annual_rate_bps =
     and_then (validate_yield_rate nominal_annual_rate_bps) (\<lambda>_.
     if nominal_annual_rate_bps = 0 then Ok 0
     else and_then (daily_growth_factor nominal_annual_rate_bps) (\<lambda>factor.
          and_then (pow_factor factor DAYS_PER_YEAR) (\<lambda>growth.
          and_then (ok_or (checked_sub growth YIELD_SCALE) InvalidTotalAmount) (\<lambda>gain.
          and_then (safe_mul_u128 gain BPS_DENOMINATOR) (\<lambda>product.
          and_then (safe_div_u128 product YIELD_SCALE) to_u32)))))"

section \<open>Fees and harvests\<close>

definition split_performance_fee :: "nat \<Rightarrow> nat \<Rightarrow> (nat \<times> nat) ih_result" where
  "split_performance_fee amount fee_bps =
     and_then (validate_performance_fee fee_bps) (\<lambda>_.
     if amount = 0 \<or> fee_bps = 0 then Ok (amount, 0)
     else and_then (apply_bps amount fee_bps) (\<lambda>fee.
          and_then (safe_sub amount fee) (\<lambda>net. Ok (net, fee))))"

definition blended_rate_bps :: "nat \<Rightarrow> nat \<Rightarrow> nat \<Rightarrow> nat \<Rightarrow> nat ih_result" where
  "blended_rate_bps principal_a rate_a_bps principal_b rate_b_bps =
     and_then (validate_yield_rate rate_a_bps) (\<lambda>_.
     and_then (validate_yield_rate rate_b_bps) (\<lambda>_.
     and_then (safe_add principal_a principal_b) (\<lambda>total.
     if total = 0 then Ok 0
     else and_then (safe_mul_u128 principal_a rate_a_bps) (\<lambda>part_a.
          and_then (safe_mul_u128 principal_b rate_b_bps) (\<lambda>part_b.
          and_then (ok_or (checked_add_u128 part_a part_b) InvalidTotalAmount) (\<lambda>weighted.
          and_then (safe_div_u128 weighted total) to_u32))))))"

definition harvest_due :: "nat \<Rightarrow> nat \<Rightarrow> nat \<Rightarrow> nat \<Rightarrow> nat \<Rightarrow> bool" where
  "harvest_due now last_harvest_at interval_secs pending minimum =
     (let cooldown_elapsed = (interval_secs = 0 \<or> now \<ge> saturating_add_u64 last_harvest_at interval_secs);
          clears_floor = (pending \<ge> minimum)
      in cooldown_elapsed \<and> clears_floor \<and> pending > 0)"

definition next_harvest_at :: "nat \<Rightarrow> nat \<Rightarrow> nat" where
  "next_harvest_at last_harvest_at interval_secs = saturating_add_u64 last_harvest_at interval_secs"

section \<open>When the checked operations return\<close>

lemma safe_ops_eq_Ok [simp]:
  "safe_add a b = Ok c \<longleftrightarrow> c = a + b \<and> a + b \<le> u64_max"
  "safe_sub a b = Ok c \<longleftrightarrow> c = a - b \<and> b \<le> a"
  "safe_mul a b = Ok c \<longleftrightarrow> c = a * b \<and> a * b \<le> u64_max"
  "safe_mul_u128 a b = Ok c \<longleftrightarrow> c = a * b \<and> a * b \<le> u128_max"
  "safe_div a b = Ok c \<longleftrightarrow> c = a div b \<and> 0 < b"
  "safe_div_u128 a b = Ok c \<longleftrightarrow> c = a div b \<and> 0 < b"
  "to_u64 a = Ok c \<longleftrightarrow> c = a \<and> a \<le> u64_max"
  "to_u32 a = Ok c \<longleftrightarrow> c = a \<and> a \<le> u32_max"
  by (auto simp: safe_add_def safe_sub_def safe_mul_def safe_mul_u128_def safe_div_def safe_div_u128_def
      to_u64_def to_u32_def checked_add_u64_def checked_sub_def checked_mul_u64_def checked_mul_u128_def
      checked_div_def)

lemma checked_add_u128_eq [simp]: "checked_add_u128 a b = Some c \<longleftrightarrow> c = a + b \<and> a + b \<le> u128_max"
  by (auto simp: checked_add_u128_def)

lemma checked_sub_eq [simp]: "checked_sub a b = Some c \<longleftrightarrow> c = a - b \<and> b \<le> a"
  by (auto simp: checked_sub_def)

lemma mul_div_eq_Ok [simp]:
  "mul_div a b d = Ok c \<longleftrightarrow> 0 < d \<and> a * b \<le> u128_max \<and> c = a * b div d \<and> c \<le> u64_max"
  by (auto simp: mul_div_def)

lemma mul_factor_eq_Ok [simp]:
  "mul_factor a b = Ok c \<longleftrightarrow> c = a * b div YIELD_SCALE \<and> a * b \<le> u128_max"
  by (auto simp: mul_factor_def YIELD_SCALE_def)

lemma split_performance_fee_eq_Ok:
  assumes "amount \<le> u64_max"
  shows "split_performance_fee amount fee_bps = Ok (net, fee) \<longleftrightarrow>
    fee_bps \<le> MAX_PERFORMANCE_FEE_BPS \<and> fee = amount * fee_bps div 10000 \<and> net = amount - fee"
proof (cases "fee_bps \<le> MAX_PERFORMANCE_FEE_BPS")
  case True
  then have b: "fee_bps \<le> 10000" by (simp add: MAX_PERFORMANCE_FEE_BPS_def)
  have le: "amount * fee_bps div 10000 \<le> amount" using b by (rule mult_div_le)
  have "amount * fee_bps \<le> u128_max"
    using assms b u64_mult_bound [of amount fee_bps] by (simp add: u64_max_def)
  with True le assms show ?thesis
    by (auto simp: split_performance_fee_def validate_performance_fee_def apply_bps_def BPS_DENOMINATOR_def)
qed (auto simp: split_performance_fee_def validate_performance_fee_def)

section \<open>Compounding against real powers\<close>

text \<open>
  A growth factor \<open>f\<close> stands for \<open>f / YIELD_SCALE\<close>. Each product is rounded down, by less than one
  unit, so the loop never exceeds the exact power; and as long as both factors are at least one,
  a rounding loses at most the fraction \<open>1 / YIELD_SCALE\<close> of a product.
\<close>

definition scaled :: "nat \<Rightarrow> real" where
  "scaled f = real f / real YIELD_SCALE"

definition kept :: real where
  "kept = 1 - 1 / real YIELD_SCALE"

lemma scale_pos [simp]: "0 < YIELD_SCALE" "0 < real YIELD_SCALE"
  by (simp_all add: YIELD_SCALE_def)

lemma scaled_nonneg [simp]: "0 \<le> scaled f"
  by (simp add: scaled_def)

lemma scaled_ge_1: "YIELD_SCALE \<le> f \<longleftrightarrow> 1 \<le> scaled f"
  by (simp add: scaled_def)

lemma kept_bounds: "0 < kept" "kept \<le> 1"
  by (simp_all add: kept_def YIELD_SCALE_def)

lemma mul_factor_scaled:
  assumes "mul_factor a b = Ok c"
  shows "scaled c \<le> scaled a * scaled b"
    and "YIELD_SCALE \<le> a \<Longrightarrow> YIELD_SCALE \<le> b \<Longrightarrow> scaled a * scaled b * kept \<le> scaled c"
    and "YIELD_SCALE \<le> a \<Longrightarrow> YIELD_SCALE \<le> b \<Longrightarrow> YIELD_SCALE \<le> c"
proof -
  let ?S = "YIELD_SCALE"
  have c: "c = a * b div ?S" using assms by simp
  have "c * ?S \<le> a * b" unfolding c by (rule div_times_less_eq_dividend)
  then have up: "real c * real ?S \<le> real a * real b" by (simp flip: of_nat_mult)
  show "scaled c \<le> scaled a * scaled b"
    using up by (simp add: scaled_def field_simps)
  have "a * b < (c + 1) * ?S" unfolding c by (simp add: dividend_less_div_times)
  then have "a * b \<le> c * ?S + ?S - 1" by (simp add: algebra_simps)
  then have low: "real a * real b \<le> real c * real ?S + real ?S - 1"
    by (metis (no_types, lifting) One_nat_def Suc_leI add_gr_0 of_nat_1 of_nat_add of_nat_diff of_nat_le_iff
        of_nat_mult scale_pos(1))
  assume ab: "?S \<le> a" "?S \<le> b"
  have "?S * ?S \<le> a * b" using ab by (rule mult_le_mono)
  then show "?S \<le> c" unfolding c by (metis div_le_mono nonzero_mult_div_cancel_right scale_pos(1) less_not_refl)
  have one: "1 \<le> scaled a * scaled b"
    using ab mult_mono [of 1 "scaled a" 1 "scaled b"] by (simp add: scaled_ge_1)
  have "scaled a * scaled b - 1 / real ?S \<le> scaled c"
    using low \<open>?S \<le> c\<close> by (simp add: scaled_def field_simps)
  moreover have "scaled a * scaled b * kept \<le> scaled a * scaled b - 1 / real ?S"
    using one by (simp add: kept_def right_diff_distrib divide_right_mono)
  ultimately show "scaled a * scaled b * kept \<le> scaled c" by simp
qed

lemma power_split:
  fixes a :: real
  shows "a ^ m = a ^ (m mod 2) * (a * a) ^ (m div 2)"
proof -
  have "a ^ m = a ^ (m mod 2 + 2 * (m div 2))" by simp
  also have "\<dots> = a ^ (m mod 2) * (a ^ 2) ^ (m div 2)" by (simp only: power_add power_mult)
  finally show ?thesis by (simp only: power2_eq_square)
qed

lemma pow_loop_step:
  assumes "pow_loop r a m = Ok v"
  obtains r' where "(if m mod 2 = 1 then mul_factor r a else Ok r) = Ok r'"
    and "m div 2 = 0 \<Longrightarrow> v = r'"
    and "m div 2 \<noteq> 0 \<Longrightarrow> \<exists>a'. mul_factor a a = Ok a' \<and> pow_loop r' a' (m div 2) = Ok v"
proof -
  from assms have "and_then (if m mod 2 = 1 then mul_factor r a else Ok r) (\<lambda>result.
     if m div 2 = 0 then Ok result
     else and_then (mul_factor a a) (\<lambda>accumulator. pow_loop result accumulator (m div 2))) = Ok v"
    by (subst (asm) pow_loop.simps)
  then obtain r' where "(if m mod 2 = 1 then mul_factor r a else Ok r) = Ok r'"
    and "(if m div 2 = 0 then Ok r'
      else and_then (mul_factor a a) (\<lambda>accumulator. pow_loop r' accumulator (m div 2))) = Ok v"
    unfolding and_then_eq_Ok by blast
  then show ?thesis using that unfolding and_then_eq_Ok by (cases "m div 2 = 0") simp_all
qed

lemma pow_loop_upper: "pow_loop r a m = Ok v \<Longrightarrow> scaled v \<le> scaled r * scaled a ^ m"
proof (induction r a m arbitrary: v rule: pow_loop.induct)
  case (1 r a m)
  obtain r' where r': "(if m mod 2 = 1 then mul_factor r a else Ok r) = Ok r'"
    and last: "m div 2 = 0 \<Longrightarrow> v = r'"
    and more: "m div 2 \<noteq> 0 \<Longrightarrow> \<exists>a'. mul_factor a a = Ok a' \<and> pow_loop r' a' (m div 2) = Ok v"
    using pow_loop_step [OF "1.prems"] by metis
  have le: "scaled r' \<le> scaled r * scaled a ^ (m mod 2)"
    using r' mul_factor_scaled(1) [of r a r'] by (cases "m mod 2 = 1") auto
  show ?case
  proof (cases "m div 2 = 0")
    case True
    then have "m = m mod 2" by simp
    with le last [OF True] show ?thesis by metis
  next
    case False
    then obtain a' where a': "mul_factor a a = Ok a'" and *: "pow_loop r' a' (m div 2) = Ok v"
      using more by blast
    from "1.IH" [OF False *] have "scaled v \<le> scaled r' * scaled a' ^ (m div 2)" .
    also have "\<dots> \<le> (scaled r * scaled a ^ (m mod 2)) * (scaled a * scaled a) ^ (m div 2)"
      using le mul_factor_scaled(1) [OF a'] by (intro mult_mono power_mono) auto
    also have "\<dots> = scaled r * scaled a ^ m"
      using power_split [of "scaled a" m] by (simp add: mult.assoc)
    finally show ?thesis .
  qed
qed

lemma pow_loop_lower:
  "pow_loop r a m = Ok v \<Longrightarrow> YIELD_SCALE \<le> r \<Longrightarrow> YIELD_SCALE \<le> a \<Longrightarrow> 0 < m \<Longrightarrow>
   scaled r * (scaled a * kept) ^ m \<le> scaled v"
proof (induction r a m arbitrary: v rule: pow_loop.induct)
  case (1 r a m)
  obtain r' where r': "(if m mod 2 = 1 then mul_factor r a else Ok r) = Ok r'"
    and last: "m div 2 = 0 \<Longrightarrow> v = r'"
    and more: "m div 2 \<noteq> 0 \<Longrightarrow> \<exists>a'. mul_factor a a = Ok a' \<and> pow_loop r' a' (m div 2) = Ok v"
    using pow_loop_step [OF "1.prems"(1)] by metis
  have ge: "scaled r * (scaled a * kept) ^ (m mod 2) \<le> scaled r'" and big: "YIELD_SCALE \<le> r'"
    using r' "1.prems"(2,3) mul_factor_scaled(2,3) [of r a r'] by (cases "m mod 2 = 1"; auto simp: mult.assoc)+
  have k: "0 \<le> kept" using kept_bounds by simp
  show ?case
  proof (cases "m div 2 = 0")
    case True
    then have "m = m mod 2" by simp
    with ge last [OF True] show ?thesis by metis
  next
    case False
    then obtain a' where a': "mul_factor a a = Ok a'" and *: "pow_loop r' a' (m div 2) = Ok v"
      using more by blast
    from "1.IH" [OF False * big mul_factor_scaled(3) [OF a' "1.prems"(3,3)]] False
    have IH: "scaled r' * (scaled a' * kept) ^ (m div 2) \<le> scaled v" by simp
    have "scaled a * kept * (scaled a * kept) \<le> scaled a' * kept"
      using mult_right_mono [OF mul_factor_scaled(2) [OF a' "1.prems"(3,3)] k] by (simp add: mult_ac)
    then have sq: "(scaled a * kept * (scaled a * kept)) ^ (m div 2) \<le> (scaled a' * kept) ^ (m div 2)"
      using k by (intro power_mono) auto
    have "scaled r * (scaled a * kept) ^ m =
        (scaled r * (scaled a * kept) ^ (m mod 2)) * (scaled a * kept * (scaled a * kept)) ^ (m div 2)"
      using power_split [of "scaled a * kept" m] by (simp add: mult.assoc)
    also have "\<dots> \<le> scaled r' * (scaled a' * kept) ^ (m div 2)"
      using ge sq k by (intro mult_mono) auto
    also note IH
    finally show ?thesis .
  qed
qed

text \<open>The loop returns when the exact power fits beside one more scale in 128 bits.\<close>

lemma pow_loop_returns:
  "YIELD_SCALE \<le> r \<Longrightarrow> YIELD_SCALE \<le> a \<Longrightarrow> 0 < m \<Longrightarrow>
   real YIELD_SCALE ^ 2 * (scaled r * scaled a ^ m) \<le> real u128_max \<Longrightarrow> \<exists>v. pow_loop r a m = Ok v"
proof (induction r a m rule: pow_loop.induct)
  case (1 r a m)
  let ?S = "real YIELD_SCALE"
  have r1: "1 \<le> scaled r" and a1: "1 \<le> scaled a" using "1.prems" by (simp_all add: scaled_ge_1)
  have fits: "x * y \<le> u128_max" if "scaled x * scaled y \<le> scaled r * scaled a ^ m" for x y
  proof -
    have "real x * real y = ?S ^ 2 * (scaled x * scaled y)" by (simp add: scaled_def power2_eq_square)
    also have "\<dots> \<le> ?S ^ 2 * (scaled r * scaled a ^ m)" using that by (intro mult_left_mono) auto
    also note "1.prems"(4)
    finally show ?thesis by (simp flip: of_nat_mult)
  qed
  have pow: "scaled a ^ i \<le> scaled a ^ j" if "i \<le> j" for i j using that a1 by (rule power_increasing)
  obtain r' where r': "(if m mod 2 = 1 then mul_factor r a else Ok r) = Ok r'"
    and le: "scaled r' \<le> scaled r * scaled a ^ (m mod 2)" and big: "YIELD_SCALE \<le> r'"
  proof (cases "m mod 2 = 1")
    case True
    have "scaled r * scaled a \<le> scaled r * scaled a ^ m"
      using pow [of 1 m] "1.prems"(3) by (intro mult_left_mono) auto
    then have *: "mul_factor r a = Ok (r * a div YIELD_SCALE)" using fits by simp
    show ?thesis
      using that [of "r * a div YIELD_SCALE"] True * mul_factor_scaled(1,3) [OF *] "1.prems"(1,2) by simp
  qed (use that "1.prems"(1) in auto)
  show ?case
  proof (cases "m div 2 = 0")
    case True
    then show ?thesis using r' by (subst pow_loop.simps) simp
  next
    case False
    have "scaled a ^ 2 \<le> 1 * scaled a ^ m" using pow [of 2 m] False by simp
    also have "\<dots> \<le> scaled r * scaled a ^ m" using r1 by (intro mult_right_mono) auto
    finally have a': "mul_factor a a = Ok (a * a div YIELD_SCALE)" (is "_ = Ok ?a'")
      using fits [of a a] by (simp add: power2_eq_square)
    have "scaled r' * scaled ?a' ^ (m div 2)
        \<le> (scaled r * scaled a ^ (m mod 2)) * (scaled a * scaled a) ^ (m div 2)"
      using le mul_factor_scaled(1) [OF a'] by (intro mult_mono power_mono) auto
    also have "\<dots> = scaled r * scaled a ^ m" using power_split [of "scaled a" m] by (simp add: mult.assoc)
    finally have "?S ^ 2 * (scaled r' * scaled ?a' ^ (m div 2)) \<le> ?S ^ 2 * (scaled r * scaled a ^ m)"
      by (intro mult_left_mono) auto
    with "1.prems"(4) have "?S ^ 2 * (scaled r' * scaled ?a' ^ (m div 2)) \<le> real u128_max" by linarith
    then obtain v where "pow_loop r' ?a' (m div 2) = Ok v"
      using "1.IH" [OF False big mul_factor_scaled(3) [OF a' "1.prems"(2,2)]] False by blast
    then show ?thesis using r' a' False by (subst pow_loop.simps) (simp del: mul_factor_eq_Ok)
  qed
qed

section \<open>The effective annual yield\<close>

definition daily_increment :: "nat \<Rightarrow> nat" where
  "daily_increment rate = YIELD_SCALE * rate div 3650000"

lemma daily_growth_factor_eq:
  assumes "rate \<le> MAX_YIELD_RATE_BPS"
  shows "daily_growth_factor rate = Ok (YIELD_SCALE + daily_increment rate)"
proof -
  have m: "YIELD_SCALE * rate \<le> YIELD_SCALE * 10000" using assms by (simp add: MAX_YIELD_RATE_BPS_def)
  then have a: "YIELD_SCALE * rate \<le> u128_max" by (simp add: YIELD_SCALE_def u128_max_def)
  have "daily_increment rate \<le> YIELD_SCALE * rate" by (simp add: daily_increment_def)
  then have "YIELD_SCALE + daily_increment rate \<le> YIELD_SCALE + YIELD_SCALE * 10000" using m by linarith
  then have "YIELD_SCALE + daily_increment rate \<le> u128_max" by (simp add: YIELD_SCALE_def u128_max_def)
  with a assms show ?thesis
    by (auto simp: daily_growth_factor_def validate_yield_rate_def daily_increment_def BPS_DENOMINATOR_def
        DAYS_PER_YEAR_def safe_mul_u128_def safe_div_u128_def checked_mul_u128_def checked_div_def
        checked_add_u128_def u128_max_def)
qed

lemma scaled_factor:
  "scaled (YIELD_SCALE + d) = 1 + real d / real YIELD_SCALE"
  by (simp add: scaled_def add_divide_distrib)

lemma daily_increment_bounds:
  "real YIELD_SCALE * real rate / 3650000 - 1 \<le> real (daily_increment rate)"
  "real (daily_increment rate) \<le> real YIELD_SCALE * real rate / 3650000"
proof -
  have "real (daily_increment rate) = \<lfloor>real YIELD_SCALE * real rate / 3650000\<rfloor>"
    using floor_divide_of_nat_eq [of "YIELD_SCALE * rate" 3650000, where ?'a = real]
    by (simp add: daily_increment_def)
  then show "real YIELD_SCALE * real rate / 3650000 - 1 \<le> real (daily_increment rate)"
    and "real (daily_increment rate) \<le> real YIELD_SCALE * real rate / 3650000"
    by linarith+
qed

lemma power_second_order:
  fixes y :: real
  assumes "0 \<le> y"
  shows "1 + real n * y + real n * (real n - 1) / 2 * y\<^sup>2 \<le> (1 + y) ^ n"
proof (induction n)
  case (Suc n)
  let ?q = "1 + real n * y + real n * (real n - 1) / 2 * y\<^sup>2"
  have "0 \<le> real n * (real n - 1)" by (cases n) auto
  then have "0 \<le> real n * (real n - 1) / 2 * y\<^sup>2 * y" using assms by simp
  then have "1 + real (Suc n) * y + real (Suc n) * (real (Suc n) - 1) / 2 * y\<^sup>2 \<le> (1 + y) * ?q"
    by (simp add: field_simps power2_eq_square)
  also have "\<dots> \<le> (1 + y) * (1 + y) ^ n" using Suc assms by (intro mult_left_mono) auto
  finally show ?case by simp
qed simp

lemma power_le_exp:
  assumes "0 \<le> (x :: real)" and "0 < n"
  shows "(1 + x / real n) ^ n \<le> exp x"
proof -
  have "(1 + x / real n) ^ n \<le> exp (x / real n) ^ n"
    using assms exp_ge_add_one_self [of "x / real n"] by (intro power_mono) auto
  also have "\<dots> = exp x" using assms(2) by (simp flip: exp_of_nat_mult)
  finally show ?thesis .
qed

text \<open>A year of daily growth lies between the simple rate and its quadratic bound.\<close>

lemma year_growth_bounds:
  assumes "0 < rate" and "rate \<le> 10000"
    and "pow_loop YIELD_SCALE (YIELD_SCALE + daily_increment rate) 365 = Ok v"
  shows "1 + real rate / 10000 \<le> scaled v" and "scaled v \<le> 1 + real rate / 10000 + (real rate / 10000)\<^sup>2"
proof -
  let ?S = "real YIELD_SCALE" and ?d = "real (daily_increment rate)" and ?x = "real rate / 10000"
  have one: "scaled YIELD_SCALE = 1" by (simp add: scaled_def)
  have x: "0 \<le> ?x" "?x \<le> 1" using assms by simp_all
  have "scaled v \<le> (1 + ?d / ?S) ^ 365"
    using pow_loop_upper [OF assms(3)] by (simp add: one scaled_factor)
  also have "\<dots> \<le> (1 + ?x / real 365) ^ 365"
    using daily_increment_bounds(2) [of rate] by (intro power_mono) (simp_all add: YIELD_SCALE_def)
  also have "\<dots> \<le> exp ?x" using x by (intro power_le_exp) auto
  also have "\<dots> \<le> 1 + ?x + ?x\<^sup>2" using x by (intro exp_bound)
  finally show "scaled v \<le> 1 + ?x + ?x\<^sup>2" .
  define y where "y = (?d - 2) / ?S"
  have r1: "1 \<le> real rate" using assms(1) by simp
  have y: "real rate / 3650000 - 3 / ?S \<le> y"
    using daily_increment_bounds(1) [of rate] by (simp add: y_def YIELD_SCALE_def field_simps)
  have ypos: "2 / 10000000 \<le> y" using y r1 by (simp add: YIELD_SCALE_def)
  have "1 + y \<le> (1 + ?d / ?S) * kept"
  proof -
    have "?d / ?S \<le> 1" using daily_increment_bounds(2) [of rate] assms(2) by (simp add: YIELD_SCALE_def)
    then have "(1 + ?d / ?S) * (1 / ?S) \<le> 2 / ?S" by (simp add: divide_right_mono)
    then show ?thesis by (simp add: kept_def y_def right_diff_distrib diff_divide_distrib)
  qed
  then have "(1 + y) ^ 365 \<le> ((1 + ?d / ?S) * kept) ^ 365" using ypos by (intro power_mono) auto
  also have "\<dots> \<le> scaled v"
    using pow_loop_lower [OF assms(3)] by (simp add: one scaled_factor)
  finally have low: "(1 + y) ^ 365 \<le> scaled v" .
  have "(2 / 10000000)\<^sup>2 \<le> y\<^sup>2" using ypos by (intro power_mono) auto
  then have sq: "1095 / ?S \<le> 66430 * y\<^sup>2" by (simp add: YIELD_SCALE_def power2_eq_square)
  have "?x \<le> 365 * y + 1095 / ?S" using y by (simp add: field_simps YIELD_SCALE_def)
  also have "\<dots> \<le> 365 * y + 66430 * y\<^sup>2" using sq by simp
  finally have "1 + ?x \<le> 1 + real 365 * y + real 365 * (real 365 - 1) / 2 * y\<^sup>2" by simp
  also have "\<dots> \<le> (1 + y) ^ 365" using ypos by (intro power_second_order) auto
  also note low
  finally show "1 + ?x \<le> scaled v" .
qed

text \<open>The loop over a year returns for every allowed rate.\<close>

lemma year_growth_returns:
  assumes "rate \<le> 10000"
  shows "\<exists>g. pow_loop YIELD_SCALE (YIELD_SCALE + daily_increment rate) 365 = Ok g"
proof -
  let ?S = "real YIELD_SCALE" and ?a = "YIELD_SCALE + daily_increment rate"
  have "real (daily_increment rate) / ?S \<le> 1 / 365"
    using daily_increment_bounds(2) [of rate] assms by (simp add: YIELD_SCALE_def)
  then have "scaled ?a \<le> 1 + 1 / 365" by (simp add: scaled_factor)
  then have "scaled ?a ^ 365 \<le> (1 + 1 / real 365) ^ 365" by (intro power_mono) auto
  also have "\<dots> \<le> exp 1" by (intro power_le_exp) auto
  also have "\<dots> \<le> 3" by (rule exp_le)
  finally have "?S\<^sup>2 * (scaled YIELD_SCALE * scaled ?a ^ 365) \<le> ?S\<^sup>2 * 3"
    by (simp add: scaled_def YIELD_SCALE_def)
  also have "\<dots> \<le> real u128_max" by (simp add: YIELD_SCALE_def u128_max_def)
  finally show ?thesis using pow_loop_returns [of YIELD_SCALE ?a 365] by auto
qed

text \<open>The gain of a growth factor in basis points, between two bounds on the factor.\<close>

lemma gain_bps_bounds:
  assumes "1 + real rate / 10000 \<le> scaled g" and "scaled g \<le> 1 + real rate / 10000 + (real rate / 10000)\<^sup>2"
  shows "YIELD_SCALE \<le> g" and "rate \<le> (g - YIELD_SCALE) * 10000 div YIELD_SCALE"
    and "10000 * ((g - YIELD_SCALE) * 10000 div YIELD_SCALE) \<le> 10000 * rate + rate\<^sup>2"
    and "rate \<le> 10000 \<Longrightarrow> (g - YIELD_SCALE) * 10000 \<le> u128_max"
proof -
  let ?S = "real YIELD_SCALE"
  show gS: "YIELD_SCALE \<le> g" using assms(1) by (simp add: scaled_ge_1 add_increasing)
  define v where "v = (g - YIELD_SCALE) * 10000 div YIELD_SCALE"
  have gain: "real (g - YIELD_SCALE) = ?S * (scaled g - 1)"
    using gS by (simp add: scaled_def of_nat_diff field_simps)
  have rl: "real rate \<le> 10000 * (scaled g - 1)" using assms(1) by simp
  have "?S * real rate \<le> real (g - YIELD_SCALE) * 10000"
    using mult_left_mono [OF rl, of ?S] by (simp add: gain mult_ac)
  then have "real (YIELD_SCALE * rate) \<le> real ((g - YIELD_SCALE) * 10000)" by simp
  then have "YIELD_SCALE * rate \<le> (g - YIELD_SCALE) * 10000" by (simp only: of_nat_le_iff)
  then show "rate \<le> v" unfolding v_def by (simp add: less_eq_div_iff_mult_less_eq mult.commute)
  have "v * YIELD_SCALE \<le> (g - YIELD_SCALE) * 10000" unfolding v_def by (rule div_times_less_eq_dividend)
  then have "real v * ?S \<le> real (g - YIELD_SCALE) * 10000" by (simp flip: of_nat_mult)
  also have "\<dots> = ?S * ((scaled g - 1) * 10000)" by (simp add: gain)
  also have "\<dots> \<le> ?S * (real rate + (real rate)\<^sup>2 / 10000)"
    using assms(2) by (intro mult_left_mono) (simp_all add: field_simps power2_eq_square)
  finally have "real v \<le> real rate + (real rate)\<^sup>2 / 10000" by (simp add: mult.commute)
  then have "real (10000 * v) \<le> real (10000 * rate + rate\<^sup>2)" by (simp add: field_simps)
  then show "10000 * v \<le> 10000 * rate + rate\<^sup>2" by (simp only: of_nat_le_iff)
  assume r: "rate \<le> 10000"
  then have "(real rate / 10000)\<^sup>2 \<le> 1" by (intro power_le_one) auto
  then have "scaled g - 1 \<le> 2" using assms(2) r by simp
  then have "real (g - YIELD_SCALE) \<le> ?S * 2" unfolding gain by (intro mult_left_mono) auto
  then have "real (g - YIELD_SCALE) \<le> real (YIELD_SCALE * 2)" by simp
  then have "g - YIELD_SCALE \<le> YIELD_SCALE * 2" by (simp only: of_nat_le_iff)
  then have "(g - YIELD_SCALE) * 10000 \<le> YIELD_SCALE * 2 * 10000" by (rule mult_le_mono1)
  then show "(g - YIELD_SCALE) * 10000 \<le> u128_max" by (simp add: YIELD_SCALE_def u128_max_def)
qed

text \<open>
  C30. The compounding loop always returns: for every rate that is allowed the effective annual rate is
  computed without overflow, is at least the nominal rate and exceeds it by at most its square.
\<close>

theorem effective_apy_bounds:
  assumes "rate \<le> MAX_YIELD_RATE_BPS"
  shows "\<exists>v. effective_apy_bps rate = Ok v \<and> rate \<le> v \<and> 10000 * v \<le> 10000 * rate + rate\<^sup>2"
proof (cases "rate = 0")
  case False
  have r: "0 < rate" "rate \<le> 10000" using False assms by (simp_all add: MAX_YIELD_RATE_BPS_def)
  obtain g where g: "pow_loop YIELD_SCALE (YIELD_SCALE + daily_increment rate) 365 = Ok g"
    using year_growth_returns [OF r(2)] by blast
  note b = gain_bps_bounds [OF year_growth_bounds [OF r g]]
  define v where "v = (g - YIELD_SCALE) * 10000 div YIELD_SCALE"
  have "rate\<^sup>2 \<le> 10000\<^sup>2" using r(2) by (rule power_mono) simp
  with b(3) r(2) have "v \<le> 20000" by (simp add: v_def)
  then have "effective_apy_bps rate = Ok v"
    using False assms g b(1) b(4) [OF r(2)]
    by (auto simp: effective_apy_bps_def validate_yield_rate_def daily_growth_factor_eq pow_factor_def
        validate_periods_def MAX_COMPOUND_PERIODS_def DAYS_PER_YEAR_def BPS_DENOMINATOR_def v_def u32_max_def)
  with b(2,3) show ?thesis by (auto simp: v_def)
qed (simp add: effective_apy_bps_def validate_yield_rate_def)

theorem effective_apy_bounds_witness:
  "\<exists>v. effective_apy_bps 500 = Ok v \<and> 500 \<le> v \<and> v \<le> 525"
  using effective_apy_bounds [of 500] by (auto simp: MAX_YIELD_RATE_BPS_def power2_eq_square)

end
