(* ===== verification/Inherit_Yield.thy ===== *)
theory Inherit_Yield
  imports Inherit_Store Yield_Math
begin

text \<open>
  Yield of a plan in the lending pool (\<open>src/contracts/inheritance-contract/src/lib.rs\<close>): the links to
  other contracts, relayers, the yield position and its policy, projections, and the harvest, single,
  deferred and batched; then the upgrades of the contract and the registry of wrapped tokens.
\<close>

section \<open>Links to other contracts\<close>

definition require_compatible_version :: "'w ih_externals \<Rightarrow> address \<Rightarrow> 'w ih_state \<Rightarrow> unit ih_result" where
  "require_compatible_version X target s =
     assert_compatible_version_or_panic (\<lambda>a. peer_version X a (ih_world s)) target 1"

definition set_lending_contract ::
  "'w ih_externals \<Rightarrow> ctx \<Rightarrow> address \<Rightarrow> address \<Rightarrow> 'w ih_state \<Rightarrow> 'w ih_state ih_result" where
  "set_lending_contract X cx admin target s =
     and_then (ih_require_admin cx admin s) (\<lambda>_.
     and_then (require_compatible_version X target s) (\<lambda>_.
     Ok (ih_publish (ContractLinkedEvent ''LEND'' target) (s\<lparr>ih_lending := Some target\<rparr>))))"

definition get_lending_contract :: "'w ih_state \<Rightarrow> address option" where
  "get_lending_contract s = ih_lending s"

definition ih_set_governance_contract ::
  "'w ih_externals \<Rightarrow> ctx \<Rightarrow> address \<Rightarrow> address \<Rightarrow> 'w ih_state \<Rightarrow> 'w ih_state ih_result" where
  "ih_set_governance_contract X cx admin target s =
     and_then (ih_require_admin cx admin s) (\<lambda>_.
     and_then (require_compatible_version X target s) (\<lambda>_.
     Ok (ih_publish (ContractLinkedEvent ''GOV'' target) (s\<lparr>ih_governance := Some target\<rparr>))))"

definition ih_get_governance_contract :: "'w ih_state \<Rightarrow> address option" where
  "ih_get_governance_contract s = ih_governance s"

definition require_lending_contract :: "'w ih_state \<Rightarrow> address ih_result" where
  "require_lending_contract s = ok_or (get_lending_contract s) AdminNotSet"

text \<open>A call of the lending contract: the linked address, then the call, its failure one error.\<close>

definition invoke_lending_contract :: "(address \<Rightarrow> 'a option) \<Rightarrow> 'w ih_state \<Rightarrow> 'a ih_result" where
  "invoke_lending_contract call s =
     and_then (require_lending_contract s) (\<lambda>target. ok_or (call target) FeeTransferFailed)"

definition ih_verify_plan_ownership :: "'w ih_state \<Rightarrow> nat \<Rightarrow> address \<Rightarrow> bool" where
  "ih_verify_plan_ownership s plan_id user =
     (case get_plan s plan_id of Some plan \<Rightarrow> pl_owner plan = user | None \<Rightarrow> False)"

section \<open>Authority and relayers\<close>

definition get_relayers :: "'w ih_state \<Rightarrow> address list" where
  "get_relayers s = unwrap_or [] (ih_relayers s)"

definition check_harvest_authority :: "address \<Rightarrow> inheritance_plan \<Rightarrow> 'w ih_state \<Rightarrow> unit ih_result" where
  "check_harvest_authority caller plan s =
     ensure (caller = pl_owner plan \<or> has_role s caller RoleAdmin \<or> caller \<in> set (get_relayers s)) Unauthorized"

definition require_harvest_authority ::
  "ctx \<Rightarrow> address \<Rightarrow> inheritance_plan \<Rightarrow> 'w ih_state \<Rightarrow> unit ih_result" where
  "require_harvest_authority cx caller plan s =
     and_then (require_auth cx caller) (\<lambda>_. check_harvest_authority caller plan s)"

definition require_yield_config_authority ::
  "ctx \<Rightarrow> address \<Rightarrow> inheritance_plan \<Rightarrow> 'w ih_state \<Rightarrow> unit ih_result" where
  "require_yield_config_authority cx caller plan s =
     and_then (require_auth cx caller) (\<lambda>_.
     ensure (caller = pl_owner plan \<or> has_role s caller RoleAdmin) Unauthorized)"

definition add_yield_relayer :: "ctx \<Rightarrow> address \<Rightarrow> address \<Rightarrow> 'w ih_state \<Rightarrow> 'w ih_state ih_result" where
  "add_yield_relayer cx admin relayer s =
     and_then (ih_require_admin cx admin s) (\<lambda>_.
     let relayers = get_relayers s in
     if relayer \<in> set relayers then Ok s
     else and_then (ensure (\<not> length relayers \<ge> MAX_YIELD_RELAYERS) TooManyBeneficiaries) (\<lambda>_.
          Ok (ih_publish (YieldRelayerUpdatedEvent relayer True)
            (s\<lparr>ih_relayers := Some (relayers @ [relayer])\<rparr>))))"

definition remove_yield_relayer :: "ctx \<Rightarrow> address \<Rightarrow> address \<Rightarrow> 'w ih_state \<Rightarrow> 'w ih_state ih_result" where
  "remove_yield_relayer cx admin relayer s =
     and_then (ih_require_admin cx admin s) (\<lambda>_.
     let relayers = get_relayers s in
     and_then (ensure (relayer \<in> set relayers) Unauthorized) (\<lambda>_.
     Ok (ih_publish (YieldRelayerUpdatedEvent relayer False)
       (s\<lparr>ih_relayers := Some (remove1 relayer relayers)\<rparr>))))"

definition is_yield_relayer :: "'w ih_state \<Rightarrow> address \<Rightarrow> bool" where
  "is_yield_relayer s a = (a \<in> set (get_relayers s))"

section \<open>The yield position\<close>

definition get_yield_state :: "'w ih_state \<Rightarrow> nat \<Rightarrow> plan_yield_state option" where
  "get_yield_state s plan_id = ih_yield s plan_id"

definition set_yield_state :: "nat \<Rightarrow> plan_yield_state \<Rightarrow> 'w ih_state \<Rightarrow> 'w ih_state" where
  "set_yield_state plan_id state s = s\<lparr>ih_yield := (ih_yield s)(plan_id \<mapsto> state)\<rparr>"

definition require_yield_state :: "'w ih_state \<Rightarrow> nat \<Rightarrow> plan_yield_state ih_result" where
  "require_yield_state s plan_id = ok_or (get_yield_state s plan_id) PlanNotFound"

definition push_history :: "yield_harvest_record \<Rightarrow> yield_harvest_record list \<Rightarrow> yield_harvest_record list" where
  "push_history record history =
     (if length history \<ge> MAX_YIELD_HISTORY then tl history else history) @ [record]"

definition register_yield_position ::
  "'w ih_externals \<Rightarrow> ctx \<Rightarrow> address \<Rightarrow> nat \<Rightarrow> address \<Rightarrow> 'w ih_state \<Rightarrow> 'w ih_state ih_result" where
  "register_yield_position X cx caller plan_id asset s =
     and_then (check_not_paused s) (\<lambda>_.
     and_then (the_plan s plan_id) (\<lambda>plan.
     and_then (require_harvest_authority cx caller plan s) (\<lambda>_.
     and_then (ensure (\<not> (\<not> pl_is_active plan \<or> \<not> pl_earn_yield plan)) PlanNotActive) (\<lambda>_.
     let prin = saturating_sub (pl_total_amount plan) (pl_total_loaned plan) in
     and_then (invoke_lending_contract (\<lambda>c.
       pool_register X c (current_contract_address cx) plan_id asset prin (ih_world s)) s) (\<lambda>w.
     let s = s\<lparr>ih_world := w\<rparr>;
         now = timestamp cx;
         state = (case get_yield_state s plan_id of
             Some existing \<Rightarrow> existing\<lparr>yst_asset := asset, yst_registered_principal := prin,
               yst_last_harvest_at := now\<rparr>
           | None \<Rightarrow> \<lparr>yst_asset = asset, yst_last_harvest_at = now, yst_total_harvested = 0,
               yst_total_fees_paid = 0, yst_harvest_count = 0, yst_last_harvest_amount = 0,
               yst_registered_principal = prin, yst_pending_credit = 0, yst_paused = False,
               yst_config = default_config, yst_history = []\<rparr>);
         s = set_yield_state plan_id state s
     in Ok (ih_publish (YieldPositionRegisteredEvent plan_id asset prin) s))))))"

definition sync_yield_principal ::
  "'w ih_externals \<Rightarrow> ctx \<Rightarrow> address \<Rightarrow> nat \<Rightarrow> 'w ih_state \<Rightarrow> (nat \<times> 'w ih_state) ih_result" where
  "sync_yield_principal X cx caller plan_id s =
     and_then (require_yield_state s plan_id) (\<lambda>state.
     and_then (register_yield_position X cx caller plan_id (yst_asset state) s) (\<lambda>s.
     and_then (require_yield_state s plan_id) (\<lambda>state. Ok (yst_registered_principal state, s))))"

definition unregister_yield_position ::
  "'w ih_externals \<Rightarrow> ctx \<Rightarrow> address \<Rightarrow> nat \<Rightarrow> 'w ih_state \<Rightarrow> 'w ih_state ih_result" where
  "unregister_yield_position X cx caller plan_id s =
     and_then (check_not_paused s) (\<lambda>_.
     and_then (the_plan s plan_id) (\<lambda>plan.
     and_then (require_yield_config_authority cx caller plan s) (\<lambda>_.
     and_then (require_yield_state s plan_id) (\<lambda>state.
     and_then
       (if yst_pending_credit state > 0
        then and_then (safe_add (pl_total_amount plan) (yst_pending_credit state)) (\<lambda>tot.
             Ok (store_plan plan_id (plan\<lparr>pl_total_amount := tot\<rparr>) s))
        else Ok s) (\<lambda>s.
     and_then (invoke_lending_contract (\<lambda>c.
       pool_unregister X c (current_contract_address cx) plan_id (ih_world s)) s) (\<lambda>w.
     let s = s\<lparr>ih_world := w\<rparr>
     in Ok (s\<lparr>ih_yield := (ih_yield s)(plan_id := None)\<rparr>)))))))"

section \<open>The yield policy\<close>

definition set_yield_config ::
  "ctx \<Rightarrow> address \<Rightarrow> nat \<Rightarrow> bool \<Rightarrow> nat \<Rightarrow> nat \<Rightarrow> nat \<Rightarrow> 'w ih_state \<Rightarrow> 'w ih_state ih_result" where
  "set_yield_config cx caller plan_id auto_compound min_harvest_amount harvest_interval performance_fee_bp s =
     and_then (check_not_paused s) (\<lambda>_.
     and_then (the_plan s plan_id) (\<lambda>plan.
     and_then (require_yield_config_authority cx caller plan s) (\<lambda>_.
     and_then (validate_performance_fee performance_fee_bp) (\<lambda>_.
     and_then (require_yield_state s plan_id) (\<lambda>state.
     let config = \<lparr>yc_auto_compound = auto_compound, yc_min_harvest_amount = min_harvest_amount,
           yc_harvest_interval = harvest_interval, yc_performance_fee_bp = performance_fee_bp\<rparr>;
         s = set_yield_state plan_id (state\<lparr>yst_config := config\<rparr>) s
     in Ok (ih_publish (YieldConfigUpdatedEvent plan_id auto_compound min_harvest_amount harvest_interval
          performance_fee_bp) s))))))"

definition get_yield_config :: "'w ih_state \<Rightarrow> nat \<Rightarrow> yield_config option" where
  "get_yield_config s plan_id = map_option yst_config (get_yield_state s plan_id)"

definition set_plan_yield_paused :: "ctx \<Rightarrow> address \<Rightarrow> nat \<Rightarrow> bool \<Rightarrow> 'w ih_state \<Rightarrow> 'w ih_state ih_result" where
  "set_plan_yield_paused cx caller plan_id paused s =
     and_then (check_not_paused s) (\<lambda>_.
     and_then (the_plan s plan_id) (\<lambda>plan.
     and_then (require_yield_config_authority cx caller plan s) (\<lambda>_.
     and_then (require_yield_state s plan_id) (\<lambda>state.
     Ok (ih_publish (YieldPausedEvent plan_id paused)
       (set_yield_state plan_id (state\<lparr>yst_paused := paused\<rparr>) s))))))"

definition pause_plan_yield :: "ctx \<Rightarrow> address \<Rightarrow> nat \<Rightarrow> 'w ih_state \<Rightarrow> 'w ih_state ih_result" where
  "pause_plan_yield cx caller plan_id s = set_plan_yield_paused cx caller plan_id True s"

definition resume_plan_yield :: "ctx \<Rightarrow> address \<Rightarrow> nat \<Rightarrow> 'w ih_state \<Rightarrow> 'w ih_state ih_result" where
  "resume_plan_yield cx caller plan_id s = set_plan_yield_paused cx caller plan_id False s"

section \<open>Reads\<close>

definition yield_read :: "'a \<Rightarrow> (plan_yield_state \<Rightarrow> 'a) \<Rightarrow> 'w ih_state \<Rightarrow> nat \<Rightarrow> 'a" where
  "yield_read d f s plan_id = unwrap_or d (map_option f (get_yield_state s plan_id))"

definition is_plan_yield_paused :: "'w ih_state \<Rightarrow> nat \<Rightarrow> bool" where
  "is_plan_yield_paused = yield_read False yst_paused"

definition get_pending_yield :: "'w ih_externals \<Rightarrow> nat \<Rightarrow> 'w ih_state \<Rightarrow> nat ih_result" where
  "get_pending_yield X plan_id s = invoke_lending_contract (\<lambda>c. pool_accrued X c plan_id (ih_world s)) s"

definition get_total_yield_harvested :: "'w ih_state \<Rightarrow> nat \<Rightarrow> nat" where
  "get_total_yield_harvested = yield_read 0 yst_total_harvested"

definition get_total_yield_fees :: "'w ih_state \<Rightarrow> nat \<Rightarrow> nat" where
  "get_total_yield_fees = yield_read 0 yst_total_fees_paid"

definition get_last_yield_harvest :: "'w ih_state \<Rightarrow> nat \<Rightarrow> nat" where
  "get_last_yield_harvest = yield_read 0 yst_last_harvest_at"

definition get_yield_asset :: "'w ih_state \<Rightarrow> nat \<Rightarrow> address option" where
  "get_yield_asset s plan_id = map_option yst_asset (get_yield_state s plan_id)"

definition get_pending_credit :: "'w ih_state \<Rightarrow> nat \<Rightarrow> nat" where
  "get_pending_credit = yield_read 0 yst_pending_credit"

definition get_yield_history :: "'w ih_state \<Rightarrow> nat \<Rightarrow> yield_harvest_record list" where
  "get_yield_history = yield_read [] yst_history"

definition get_yield_harvest_count :: "'w ih_state \<Rightarrow> nat \<Rightarrow> nat" where
  "get_yield_harvest_count = yield_read 0 yst_harvest_count"

definition state_next_harvest :: "plan_yield_state \<Rightarrow> nat" where
  "state_next_harvest st = next_harvest_at (yst_last_harvest_at st) (yc_harvest_interval (yst_config st))"

definition get_next_harvest_at :: "'w ih_state \<Rightarrow> nat \<Rightarrow> nat" where
  "get_next_harvest_at = yield_read 0 state_next_harvest"

definition is_harvest_due :: "'w ih_externals \<Rightarrow> ctx \<Rightarrow> nat \<Rightarrow> 'w ih_state \<Rightarrow> bool" where
  "is_harvest_due X cx plan_id s =
     (case get_yield_state s plan_id of
        None \<Rightarrow> False
      | Some state \<Rightarrow>
          if yst_paused state then False
          else case get_pending_yield X plan_id s of
                 Ok pending \<Rightarrow> harvest_due (timestamp cx) (yst_last_harvest_at state)
                   (yc_harvest_interval (yst_config state)) pending (yc_min_harvest_amount (yst_config state))
               | Err _ \<Rightarrow> False
               | Panic \<Rightarrow> False)"

definition get_yield_summary :: "nat \<Rightarrow> 'w ih_state \<Rightarrow> yield_summary ih_result" where
  "get_yield_summary plan_id s =
     and_then (require_yield_state s plan_id) (\<lambda>st.
     Ok \<lparr>sm_plan_id = plan_id, sm_asset = yst_asset st, sm_registered_principal = yst_registered_principal st,
         sm_total_harvested = yst_total_harvested st, sm_total_fees_paid = yst_total_fees_paid st,
         sm_pending_credit = yst_pending_credit st, sm_harvest_count = yst_harvest_count st,
         sm_last_harvest_at = yst_last_harvest_at st, sm_last_harvest_amount = yst_last_harvest_amount st,
         sm_next_harvest_at = state_next_harvest st, sm_paused = yst_paused st,
         sm_auto_compound = yc_auto_compound (yst_config st)\<rparr>)"

section \<open>Projections\<close>

definition free_balance :: "inheritance_plan \<Rightarrow> nat" where
  "free_balance plan = saturating_sub (pl_total_amount plan) (pl_total_loaned plan)"

definition project_plan_balance :: "nat \<Rightarrow> nat \<Rightarrow> nat \<Rightarrow> 'w ih_state \<Rightarrow> nat ih_result" where
  "project_plan_balance plan_id annual_rate_bps days s =
     and_then (the_plan s plan_id) (\<lambda>plan. project_daily_compound (free_balance plan) annual_rate_bps days)"

definition project_plan_interest :: "nat \<Rightarrow> nat \<Rightarrow> nat \<Rightarrow> 'w ih_state \<Rightarrow> nat ih_result" where
  "project_plan_interest plan_id annual_rate_bps days s =
     and_then (the_plan s plan_id) (\<lambda>plan. project_daily_interest (free_balance plan) annual_rate_bps days)"

definition effective_apy :: "nat \<Rightarrow> nat ih_result" where
  "effective_apy nominal_annual_rate_bps = effective_apy_bps nominal_annual_rate_bps"

definition estimate_next_harvest_amount :: "nat \<Rightarrow> nat \<Rightarrow> nat \<Rightarrow> 'w ih_state \<Rightarrow> nat ih_result" where
  "estimate_next_harvest_amount plan_id annual_rate_bps elapsed_secs s =
     and_then (require_yield_state s plan_id) (\<lambda>st.
     simple_interest (yst_registered_principal st) annual_rate_bps elapsed_secs)"

definition compute_compound_amount :: "nat \<Rightarrow> nat \<Rightarrow> nat \<Rightarrow> nat ih_result" where
  "compute_compound_amount prin rate_bps_per_period periods = compound_amount prin rate_bps_per_period periods"

definition compute_compound_interest :: "nat \<Rightarrow> nat \<Rightarrow> nat \<Rightarrow> nat ih_result" where
  "compute_compound_interest prin rate_bps_per_period periods = compound_interest prin rate_bps_per_period periods"

definition compute_daily_rate_bps :: "nat \<Rightarrow> nat ih_result" where
  "compute_daily_rate_bps annual_rate_bps = daily_rate_bps annual_rate_bps"

definition compute_periods_elapsed :: "nat \<Rightarrow> nat ih_result" where
  "compute_periods_elapsed elapsed_secs = periods_elapsed elapsed_secs SECONDS_PER_DAY"

definition days_since_last_harvest :: "ctx \<Rightarrow> nat \<Rightarrow> 'w ih_state \<Rightarrow> nat ih_result" where
  "days_since_last_harvest cx plan_id s =
     and_then (require_yield_state s plan_id) (\<lambda>st.
     periods_elapsed (saturating_sub (timestamp cx) (yst_last_harvest_at st)) SECONDS_PER_DAY)"

definition compute_blended_rate :: "nat \<Rightarrow> nat \<Rightarrow> nat \<Rightarrow> nat \<Rightarrow> nat ih_result" where
  "compute_blended_rate principal_a rate_a_bps principal_b rate_b_bps =
     blended_rate_bps principal_a rate_a_bps principal_b rate_b_bps"

definition realized_yield_rate_bps :: "nat \<Rightarrow> 'w ih_state \<Rightarrow> nat ih_result" where
  "realized_yield_rate_bps plan_id s =
     and_then (require_yield_state s plan_id) (\<lambda>st.
     if yst_registered_principal st = 0 \<or> yst_harvest_count st = 0 then Ok 0
     else let first_harvest = (case yst_history st of [] \<Rightarrow> yst_last_harvest_at st | r # _ \<Rightarrow> hr_harvested_at r);
              span = saturating_sub (yst_last_harvest_at st) first_harvest
          in if span = 0 then Ok 0
             else and_then (mul_div (yst_total_harvested st) BPS_DENOMINATOR (yst_registered_principal st)) (\<lambda>scaled.
                  and_then (mul_div scaled SECONDS_PER_YEAR span) (\<lambda>annualized.
                  Ok (if annualized \<le> u32_max then annualized else u32_max))))"

definition get_total_plan_value :: "nat \<Rightarrow> 'w ih_state \<Rightarrow> nat ih_result" where
  "get_total_plan_value plan_id s =
     and_then (the_plan s plan_id) (\<lambda>plan. safe_add (pl_total_amount plan) (get_pending_credit s plan_id))"

definition compute_plan_pool_share_bps :: "nat \<Rightarrow> nat \<Rightarrow> 'w ih_state \<Rightarrow> nat ih_result" where
  "compute_plan_pool_share_bps plan_id pool_total s =
     and_then (require_yield_state s plan_id) (\<lambda>st.
     if pool_total = 0 then Ok 0
     else and_then (safe_mul (yst_registered_principal st) BPS_DENOMINATOR) (\<lambda>m.
          and_then (safe_div m pool_total) (\<lambda>share. Ok (if share \<le> u32_max then share else u32_max))))"

definition preview_harvest_split :: "nat \<Rightarrow> nat \<Rightarrow> 'w ih_state \<Rightarrow> (nat \<times> nat) ih_result" where
  "preview_harvest_split plan_id gross_amount s =
     and_then (require_yield_state s plan_id) (\<lambda>st.
     split_performance_fee gross_amount (yc_performance_fee_bp (yst_config st)))"

section \<open>Harvesting\<close>

text \<open>
  A batch goes on after a plan that fails, and keeps what the failed plan had already written: after
  the claim at the pool an error leaves the pool's payment behind. So the inner harvest returns its
  error as a value, beside the state at that point.
\<close>

definition or_report ::
  "'w ih_state \<Rightarrow> 'a ih_result \<Rightarrow> ('a \<Rightarrow> ((inheritance_error + 'b) \<times> 'w ih_state) ih_result) \<Rightarrow>
   ((inheritance_error + 'b) \<times> 'w ih_state) ih_result" where
  "or_report s m f = (case m of Ok x \<Rightarrow> f x | Err e \<Rightarrow> Ok (Inl e, s) | Panic \<Rightarrow> Panic)"

text \<open>Everything up to the claim, none of which writes.\<close>

definition harvest_checks ::
  "'w ih_externals \<Rightarrow> ctx \<Rightarrow> address \<Rightarrow> nat \<Rightarrow> 'w ih_state \<Rightarrow> (inheritance_plan \<times> plan_yield_state) ih_result" where
  "harvest_checks X cx caller plan_id s =
     and_then (the_plan s plan_id) (\<lambda>plan.
     and_then (check_harvest_authority caller plan s) (\<lambda>_.
     and_then (ensure (\<not> (\<not> pl_is_active plan \<or> \<not> pl_earn_yield plan)) PlanNotActive) (\<lambda>_.
     and_then (require_yield_state s plan_id) (\<lambda>state.
     and_then (ensure (\<not> yst_paused state) PlanNotActive) (\<lambda>_.
     and_then (ensure (\<not> (yc_harvest_interval (yst_config state) > 0 \<and> timestamp cx < state_next_harvest state))
       EmergencyCooldownActive) (\<lambda>_.
     and_then (get_pending_yield X plan_id s) (\<lambda>pending.
     and_then (ensure (\<not> (pending = 0 \<or> pending < yc_min_harvest_amount (yst_config state))) NothingToClaim) (\<lambda>_.
     Ok (plan, state)))))))))"

definition harvested_state ::
  "ctx \<Rightarrow> address \<Rightarrow> nat \<Rightarrow> nat \<Rightarrow> nat \<Rightarrow> plan_yield_state \<Rightarrow> plan_yield_state" where
  "harvested_state cx caller gross net fee state =
     state\<lparr>yst_last_harvest_at := timestamp cx, yst_last_harvest_amount := gross,
       yst_total_harvested := saturating_add_u64 (yst_total_harvested state) gross,
       yst_total_fees_paid := saturating_add_u64 (yst_total_fees_paid state) fee,
       yst_harvest_count := saturating_add_u32 (yst_harvest_count state) 1,
       yst_history := push_history \<lparr>hr_gross_amount = gross, hr_net_amount = net, hr_fee_amount = fee,
           hr_harvested_at = timestamp cx, hr_harvested_by = caller,
           hr_compounded = yc_auto_compound (yst_config state)\<rparr> (yst_history state)\<rparr>"

definition harvest_yield_inner ::
  "'w ih_externals \<Rightarrow> ctx \<Rightarrow> address \<Rightarrow> nat \<Rightarrow> 'w ih_state \<Rightarrow> ((inheritance_error + nat) \<times> 'w ih_state) ih_result" where
  "harvest_yield_inner X cx caller plan_id s =
     or_report s (harvest_checks X cx caller plan_id s) (\<lambda>(plan, state).
     or_report s (invoke_lending_contract (\<lambda>c.
       pool_claim X c (current_contract_address cx) plan_id (ih_world s)) s) (\<lambda>(gross, w).
     let s = s\<lparr>ih_world := w\<rparr> in
     or_report s (ensure (gross \<noteq> 0) NothingToClaim) (\<lambda>_.
     let auto_compound = yc_auto_compound (yst_config state);
         fee_bp = yc_performance_fee_bp (yst_config state) in
     or_report s (split_performance_fee gross fee_bp) (\<lambda>(net, fee).
     or_report s
       (if auto_compound then safe_add (pl_total_amount plan) net else Ok (pl_total_amount plan)) (\<lambda>total_amount.
     or_report s
       (if auto_compound then Ok (yst_pending_credit state) else safe_add (yst_pending_credit state) net) (\<lambda>credit.
     let s = (if auto_compound then store_plan plan_id (plan\<lparr>pl_total_amount := total_amount\<rparr>) s else s);
         s = set_yield_state plan_id (harvested_state cx caller gross net fee (state\<lparr>yst_pending_credit := credit\<rparr>)) s;
         s = (if fee > 0 then ih_publish (YieldFeeCollectedEvent plan_id gross fee fee_bp) s else s);
         s = ih_publish (YieldHarvestedEvent plan_id gross total_amount (timestamp cx)) s
     in Ok (Inr gross, s)))))))"

definition harvest_yield ::
  "'w ih_externals \<Rightarrow> ctx \<Rightarrow> address \<Rightarrow> nat \<Rightarrow> 'w ih_state \<Rightarrow> (nat \<times> 'w ih_state) ih_result" where
  "harvest_yield X cx caller plan_id s =
     and_then (check_not_paused s) (\<lambda>_.
     and_then (require_auth cx caller) (\<lambda>_.
     and_then (enter_guard s) (\<lambda>s.
     and_then (harvest_yield_inner X cx caller plan_id s) (\<lambda>(result, s).
     case result of Inl e \<Rightarrow> Err e | Inr gross \<Rightarrow> Ok (gross, exit_guard s)))))"

definition compound_pending_yield :: "ctx \<Rightarrow> address \<Rightarrow> nat \<Rightarrow> 'w ih_state \<Rightarrow> (nat \<times> 'w ih_state) ih_result" where
  "compound_pending_yield cx caller plan_id s =
     and_then (check_not_paused s) (\<lambda>_.
     and_then (the_plan s plan_id) (\<lambda>plan.
     and_then (require_yield_config_authority cx caller plan s) (\<lambda>_.
     and_then (require_yield_state s plan_id) (\<lambda>state.
     and_then (ensure (yst_pending_credit state \<noteq> 0) NothingToClaim) (\<lambda>_.
     let amount = yst_pending_credit state in
     and_then (safe_add (pl_total_amount plan) amount) (\<lambda>total_amount.
     let s = store_plan plan_id (plan\<lparr>pl_total_amount := total_amount\<rparr>) s;
         s = set_yield_state plan_id (state\<lparr>yst_pending_credit := 0\<rparr>) s
     in Ok (amount, ih_publish (YieldHarvestedEvent plan_id amount total_amount (timestamp cx)) s)))))))"

definition harvest_batch_one ::
  "'w ih_externals \<Rightarrow> ctx \<Rightarrow> address \<Rightarrow> nat \<Rightarrow> nat \<times> nat \<times> nat \<times> 'w ih_state \<Rightarrow>
   (nat \<times> nat \<times> nat \<times> 'w ih_state) ih_result" where
  "harvest_batch_one X cx caller plan_id = (\<lambda>(success, fail, total, s).
     and_then (harvest_yield_inner X cx caller plan_id s) (\<lambda>(result, s).
     case result of
       Inr amount \<Rightarrow> and_then (u32_add success 1) (\<lambda>success. Ok (success, fail, saturating_add_u64 total amount, s))
     | Inl _ \<Rightarrow> and_then (u32_add fail 1) (\<lambda>fail. Ok (success, fail, total, s))))"

definition harvest_yield_batch ::
  "'w ih_externals \<Rightarrow> ctx \<Rightarrow> address \<Rightarrow> nat list \<Rightarrow> 'w ih_state \<Rightarrow> ((nat \<times> nat \<times> nat) \<times> 'w ih_state) ih_result" where
  "harvest_yield_batch X cx caller plan_ids s =
     and_then (check_not_paused s) (\<lambda>_.
     and_then (require_auth cx caller) (\<lambda>_.
     and_then (ensure (\<not> length plan_ids > MAX_YIELD_BATCH) TooManyBeneficiaries) (\<lambda>_.
     and_then (enter_guard s) (\<lambda>s.
     and_then (fold_outcome (harvest_batch_one X cx caller) plan_ids (0, 0, 0, s)) (\<lambda>(success, fail, total, s).
     let s = exit_guard s
     in Ok ((success, fail, total), ih_publish (YieldBatchHarvestEvent success fail total) s))))))"

section \<open>Upgrades\<close>

definition ih_code_version :: "'w ih_state \<Rightarrow> nat" where
  "ih_code_version s = unwrap_or IH_CONTRACT_VERSION (ih_version s)"

text \<open>The steps the three upgrade entry points share; the new code itself is outside the model.\<close>

definition install_code ::
  "ctx \<Rightarrow> address \<Rightarrow> bytes32 \<Rightarrow> nat \<Rightarrow> 'w ih_state \<Rightarrow> 'w ih_state ih_result" where
  "install_code cx admin new_wasm_hash old_version s =
     and_then (u32_add old_version 1) (\<lambda>new_version.
     let s = s\<lparr>ih_version := Some new_version\<rparr>;
         s = ih_publish (ContractUpgradedEvent old_version new_version new_wasm_hash admin (timestamp cx)) s
     in Ok (s\<lparr>ih_wasm := Some new_wasm_hash\<rparr>))"

definition ih_upgrade :: "ctx \<Rightarrow> address \<Rightarrow> bytes32 \<Rightarrow> 'w ih_state \<Rightarrow> 'w ih_state ih_result" where
  "ih_upgrade cx admin new_wasm_hash s =
     and_then (ih_require_admin cx admin s) (\<lambda>_. install_code cx admin new_wasm_hash (ih_code_version s) s)"

definition ih_upgrade_wasm :: "ctx \<Rightarrow> bytes32 \<Rightarrow> 'w ih_state \<Rightarrow> 'w ih_state ih_result" where
  "ih_upgrade_wasm cx new_wasm_hash s =
     and_then (ok_or (ih_admin s) AdminNotSet) (\<lambda>admin.
     and_then (ih_require_admin cx admin s) (\<lambda>_. install_code cx admin new_wasm_hash (ih_code_version s) s))"

definition ih_upgrade_contract :: "ctx \<Rightarrow> address \<Rightarrow> bytes32 \<Rightarrow> 'w ih_state \<Rightarrow> 'w ih_state ih_result" where
  "ih_upgrade_contract cx admin new_wasm_hash s =
     and_then (ih_require_admin cx admin s) (\<lambda>_. install_code cx admin new_wasm_hash (unwrap_or 0 (ih_version s)) s)"

definition ih_migrate :: "ctx \<Rightarrow> address \<Rightarrow> 'w ih_state \<Rightarrow> 'w ih_state ih_result" where
  "ih_migrate cx admin s =
     and_then (ih_require_admin cx admin s) (\<lambda>_.
     let stored_version = unwrap_or 0 (ih_version s) in
     if stored_version \<ge> IH_CONTRACT_VERSION then Ok s
     else Ok (s\<lparr>ih_version := Some IH_CONTRACT_VERSION\<rparr>))"

section \<open>Wrapped tokens\<close>

definition ih_get_wrapped_tokens :: "'w ih_state \<Rightarrow> address list" where
  "ih_get_wrapped_tokens s = unwrap_or [] (ih_wrapped s)"

definition ih_is_wrapped_token_supported :: "'w ih_state \<Rightarrow> address \<Rightarrow> bool" where
  "ih_is_wrapped_token_supported s token = (token \<in> set (ih_get_wrapped_tokens s))"

definition ih_add_supported_wrapped_token :: "ctx \<Rightarrow> address \<Rightarrow> 'w ih_state \<Rightarrow> 'w ih_state ih_result" where
  "ih_add_supported_wrapped_token cx token s =
     and_then (ok_or (ih_admin s) AdminNotSet) (\<lambda>admin.
     and_then (require_auth cx admin) (\<lambda>_.
     and_then (ensure (token \<notin> set (ih_get_wrapped_tokens s)) AlreadyApproved) (\<lambda>_.
     Ok (ih_publish (WrappedAdded token) (s\<lparr>ih_wrapped := Some (ih_get_wrapped_tokens s @ [token])\<rparr>)))))"

definition ih_remove_wrapped_token :: "ctx \<Rightarrow> address \<Rightarrow> 'w ih_state \<Rightarrow> 'w ih_state ih_result" where
  "ih_remove_wrapped_token cx token s =
     and_then (ok_or (ih_admin s) AdminNotSet) (\<lambda>admin.
     and_then (require_auth cx admin) (\<lambda>_.
     and_then (ensure (token \<in> set (ih_get_wrapped_tokens s)) BeneficiaryNotFound) (\<lambda>_.
     Ok (ih_publish (WrappedRemoved token) (s\<lparr>ih_wrapped := Some (remove1 token (ih_get_wrapped_tokens s))\<rparr>)))))"

end
