(* ===== verification/Inherit_Contract.thy ===== *)
theory Inherit_Contract
  imports Inherit_Disputes Inherit_Emergency Inherit_Claims Inherit_Wills Inherit_Messages Inherit_Yield
begin

text \<open>
  The entry points of the inheritance contract that can change its state, as one type of calls: a
  datatype per group of the source, the function that runs a call of the group, and their sum.
\<close>

section \<open>Administration and reads that expire emergency access\<close>

datatype (plugins only: code size) admin_call =
    IInitialize address
  | IPause address
  | IUnpause address
  | IAssignRole address address role
  | IRevokeRole address address role
  | IBlacklist address address
  | IUnblacklist address address
  | ISetVaultWasm address bytes32
  | IGetUserPlan address nat
  | IGetEmergencyAccess nat
  | IIsEmergencyActive nat
  | IUpgrade address bytes32
  | IUpgradeWasm bytes32
  | IUpgradeContract address bytes32
  | IMigrate address
  | IAddWrapped address
  | IRemoveWrapped address

primrec run_admin :: "ctx \<Rightarrow> admin_call \<Rightarrow> 'w ih_state \<Rightarrow> 'w ih_state ih_result" where
  "run_admin cx (IInitialize ad) s = initialize_admin cx ad s"
| "run_admin cx (IPause ad) s = ih_pause cx ad s"
| "run_admin cx (IUnpause ad) s = ih_unpause cx ad s"
| "run_admin cx (IAssignRole ad u r) s = ih_assign_role cx ad u r s"
| "run_admin cx (IRevokeRole ad u r) s = ih_revoke_role cx ad u r s"
| "run_admin cx (IBlacklist ad u) s = ih_blacklist_address cx ad u s"
| "run_admin cx (IUnblacklist ad u) s = ih_unblacklist_address cx ad u s"
| "run_admin cx (ISetVaultWasm ad h) s = set_plan_vault_wasm_hash cx ad h s"
| "run_admin cx (IGetUserPlan u i) s = effect (get_user_plan cx u i s)"
| "run_admin cx (IGetEmergencyAccess i) s = effect (get_emergency_access cx i s)"
| "run_admin cx (IIsEmergencyActive i) s = effect (is_emergency_active cx i s)"
| "run_admin cx (IUpgrade ad h) s = ih_upgrade cx ad h s"
| "run_admin cx (IUpgradeWasm h) s = ih_upgrade_wasm cx h s"
| "run_admin cx (IUpgradeContract ad h) s = ih_upgrade_contract cx ad h s"
| "run_admin cx (IMigrate ad) s = ih_migrate cx ad s"
| "run_admin cx (IAddWrapped tk) s = ih_add_supported_wrapped_token cx tk s"
| "run_admin cx (IRemoveWrapped tk) s = ih_remove_wrapped_token cx tk s"

section \<open>Plans\<close>

datatype (plugins only: code size) plan_call =
    ICreatePlan create_plan_params
  | IAddBeneficiary address nat beneficiary_input
  | IRemoveBeneficiary address nat nat
  | ISetLendable address nat bool
  | IUpdateGracePeriod nat nat
  | IUpdatePlan address nat "beneficiary_data list" nat bool
  | IDeposit address address nat nat
  | IWithdraw address address nat nat
  | ISetPriority address nat nat nat
  | IEnableWaterfall address nat
  | IDeactivatePlan address nat
  | ITransferOwnership address address nat
  | IBatchAdd address nat "beneficiary_input list"
  | IBatchRemove address nat "nat list"
  | IBatchAllocations address nat "nat list"

primrec run_plan :: "'w ih_externals \<Rightarrow> ctx \<Rightarrow> plan_call \<Rightarrow> 'w ih_state \<Rightarrow> 'w ih_state ih_result" where
  "run_plan X cx (ICreatePlan params) s = effect (create_inheritance_plan X cx params s)"
| "run_plan X cx (IAddBeneficiary u i b) s = add_beneficiary X cx u i b s"
| "run_plan X cx (IRemoveBeneficiary u i k) s = remove_beneficiary cx u i k s"
| "run_plan X cx (ISetLendable u i b) s = set_lendable cx u i b s"
| "run_plan X cx (IUpdateGracePeriod i g) s = update_grace_period cx i g s"
| "run_plan X cx (IUpdatePlan u i bs g e) s = update_plan X cx u i bs g e s"
| "run_plan X cx (IDeposit u tk i n) s = ih_deposit X cx u tk i n s"
| "run_plan X cx (IWithdraw u tk i n) s = ih_withdraw X cx u tk i n s"
| "run_plan X cx (ISetPriority u i k r) s = set_beneficiary_priority cx u i k r s"
| "run_plan X cx (IEnableWaterfall u i) s = enable_waterfall_distribution cx u i s"
| "run_plan X cx (IDeactivatePlan u i) s = deactivate_inheritance_plan cx u i s"
| "run_plan X cx (ITransferOwnership u v i) s = transfer_plan_ownership cx u v i s"
| "run_plan X cx (IBatchAdd u i bs) s = effect (batch_add_beneficiaries X cx u i bs s)"
| "run_plan X cx (IBatchRemove u i ks) s = effect (batch_remove_beneficiaries cx u i ks s)"
| "run_plan X cx (IBatchAllocations u i ns) s = batch_update_allocations cx u i ns s"

section \<open>Triggers and emergency access\<close>

datatype (plugins only: code size) trigger_call =
    ISetTriggers address nat "trigger_condition list" nat nat "address option"
  | IAddTimeTrigger address nat nat
  | IAddInactivityTrigger address nat nat
  | IAddOracleTrigger address nat address
  | IAddHealthTrigger address nat address
  | IRecordActivity address nat
  | ISubmitOracle address nat
  | ISubmitHealth address nat
  | IAutoTrigger nat
  | ITrigger address nat
  | IFreezeLoans address nat
  | IRecallLoan address nat nat
  | ILiquidationFallback address nat
  | IActivateEmergency address nat address
  | IDeactivateEmergency address nat
  | ISetGuardians address nat "address list" nat
  | IGuardianTrigger nat "address list"
  | IApproveEmergency address nat address
  | IAddContact address nat address
  | IRemoveContact address nat address

primrec run_trigger :: "ctx \<Rightarrow> trigger_call \<Rightarrow> 'w ih_state \<Rightarrow> 'w ih_state ih_result" where
  "run_trigger cx (ISetTriggers u i cs d p orc) s = set_trigger_conditions cx u i cs d p orc s"
| "run_trigger cx (IAddTimeTrigger u i d) s = add_time_trigger cx u i d s"
| "run_trigger cx (IAddInactivityTrigger u i p) s = add_inactivity_trigger cx u i p s"
| "run_trigger cx (IAddOracleTrigger u i orc) s = add_oracle_trigger cx u i orc s"
| "run_trigger cx (IAddHealthTrigger u i orc) s = add_health_trigger cx u i orc s"
| "run_trigger cx (IRecordActivity u i) s = record_activity cx u i s"
| "run_trigger cx (ISubmitOracle u i) s = submit_oracle_trigger cx u i s"
| "run_trigger cx (ISubmitHealth u i) s = submit_health_trigger cx u i s"
| "run_trigger cx (IAutoTrigger i) s = auto_trigger_check cx i s"
| "run_trigger cx (ITrigger u i) s = trigger_inheritance cx u i s"
| "run_trigger cx (IFreezeLoans ad i) s = freeze_loans cx ad i s"
| "run_trigger cx (IRecallLoan ad i n) s = recall_loan cx ad i n s"
| "run_trigger cx (ILiquidationFallback ad i) s = liquidation_fallback cx ad i s"
| "run_trigger cx (IActivateEmergency u i k) s = activate_emergency_access cx u i k s"
| "run_trigger cx (IDeactivateEmergency u i) s = deactivate_emergency_access cx u i s"
| "run_trigger cx (ISetGuardians u i gs n) s = set_guardians cx u i gs n s"
| "run_trigger cx (IGuardianTrigger i gs) s = guardian_emergency_trigger cx i gs s"
| "run_trigger cx (IApproveEmergency g i k) s = approve_emergency_access cx g i k s"
| "run_trigger cx (IAddContact u i k) s = add_emergency_contact cx u i k s"
| "run_trigger cx (IRemoveContact u i k) s = remove_emergency_contact cx u i k s"

section \<open>Claims, disputes and wills\<close>

datatype (plugins only: code size) claim_call =
    ISubmitKyc address
  | IApproveKyc address address
  | IRejectKyc address address
  | IBatchApproveKyc address "address list"
  | IClaim nat address string nat
  | IBatchClaim nat "(address \<times> string \<times> nat) list"

primrec run_claim :: "'w ih_externals \<Rightarrow> ctx \<Rightarrow> claim_call \<Rightarrow> 'w ih_state \<Rightarrow> 'w ih_state ih_result" where
  "run_claim X cx (ISubmitKyc u) s = submit_kyc cx u s"
| "run_claim X cx (IApproveKyc ad u) s = approve_kyc cx ad u s"
| "run_claim X cx (IRejectKyc ad u) s = reject_kyc cx ad u s"
| "run_claim X cx (IBatchApproveKyc ad us) s = effect (batch_approve_kyc cx ad us s)"
| "run_claim X cx (IClaim i u e k) s = claim_inheritance_plan X cx i u e k s"
| "run_claim X cx (IBatchClaim i cs) s = effect (batch_claim X cx i cs s)"

datatype (plugins only: code size) dispute_call =
    IAddArbitrator address address
  | IRemoveArbitrator address address
  | IFileDispute address nat string
  | IRaiseDispute nat address bytes32
  | IReviewDispute address nat dispute_status string bool
  | IUnfreezePlan address nat
  | IResolveDispute nat bool

primrec run_dispute :: "ctx \<Rightarrow> dispute_call \<Rightarrow> 'w ih_state \<Rightarrow> 'w ih_state ih_result" where
  "run_dispute cx (IAddArbitrator ad u) s = add_arbitrator cx ad u s"
| "run_dispute cx (IRemoveArbitrator ad u) s = remove_arbitrator cx ad u s"
| "run_dispute cx (IFileDispute u i r) s = effect (file_dispute cx u i r s)"
| "run_dispute cx (IRaiseDispute i u h) s = effect (raise_dispute cx i u h s)"
| "run_dispute cx (IReviewDispute u d st notes fr) s = review_dispute cx u d st notes fr s"
| "run_dispute cx (IUnfreezePlan ad i) s = unfreeze_plan cx ad i s"
| "run_dispute cx (IResolveDispute i b) s = resolve_dispute cx i b s"

datatype (plugins only: code size) will_call =
    IStoreWillHash address nat bytes32
  | ILinkWill address nat bytes32
  | IVerifyBeneficiaries nat "(bytes32 \<times> nat) list"
  | ICreateWillVersion address nat bytes32
  | ISignWill address nat bytes32 "nat list" nat
  | IAddWitness address nat address
  | ISignAsWitness address nat "nat list" nat
  | IFinalizeWill address nat nat

primrec run_will :: "'w ih_externals \<Rightarrow> ctx \<Rightarrow> will_call \<Rightarrow> 'w ih_state \<Rightarrow> 'w ih_state ih_result" where
  "run_will X cx (IStoreWillHash u i h) s = store_will_hash cx u i h s"
| "run_will X cx (ILinkWill u i h) s = link_will_to_vault cx u i h s"
| "run_will X cx (IVerifyBeneficiaries i bs) s = effect (verify_beneficiaries i bs s)"
| "run_will X cx (ICreateWillVersion u i h) s = effect (create_will_version cx u i h s)"
| "run_will X cx (ISignWill u i h sg e) s = sign_will X cx u i h sg e s"
| "run_will X cx (IAddWitness u i v) s = add_witness cx u i v s"
| "run_will X cx (ISignAsWitness u i sg e) s = sign_as_witness X cx u i sg e s"
| "run_will X cx (IFinalizeWill u i v) s = finalize_will cx u i v s"

section \<open>Messages and yield\<close>

datatype (plugins only: code size) message_call =
    IRotateKey address nat string
  | ICreateMessage address create_message_params
  | IUpdateMessage address nat create_message_params
  | IFinalizeMessage address nat
  | IDeleteMessage address nat
  | IAccessMessage address nat
  | IUnlockMessages nat
  | IBatchMessages address "create_message_params list"
  | INotify address nat nat
  | IAcknowledge address nat nat
  | IRequireAcknowledgment address nat bool

primrec run_message :: "'w ih_externals \<Rightarrow> ctx \<Rightarrow> message_call \<Rightarrow> 'w ih_state \<Rightarrow> 'w ih_state ih_result" where
  "run_message X cx (IRotateKey u i k) s = effect (rotate_vault_message_key cx u i k s)"
| "run_message X cx (ICreateMessage u params) s = effect (create_legacy_message cx u params s)"
| "run_message X cx (IUpdateMessage u m params) s = update_legacy_message cx u m params s"
| "run_message X cx (IFinalizeMessage u m) s = finalize_legacy_message cx u m s"
| "run_message X cx (IDeleteMessage u m) s = delete_legacy_message cx u m s"
| "run_message X cx (IAccessMessage u m) s = effect (access_legacy_message X cx u m s)"
| "run_message X cx (IUnlockMessages i) s = unlock_messages_on_inheritance cx i s"
| "run_message X cx (IBatchMessages u ps) s = effect (batch_create_messages cx u ps s)"
| "run_message X cx (INotify u i k) s = notify_beneficiary cx u i k s"
| "run_message X cx (IAcknowledge u i k) s = acknowledge_beneficiary_status cx u i k s"
| "run_message X cx (IRequireAcknowledgment u i b) s = require_acknowledgment cx u i b s"

datatype (plugins only: code size) yield_call =
    ISetLending address address
  | ISetGovernance address address
  | IAddRelayer address address
  | IRemoveRelayer address address
  | IRegisterPosition address nat address
  | ISyncPrincipal address nat
  | IUnregisterPosition address nat
  | ISetYieldConfig address nat bool nat nat nat
  | IPauseYield address nat
  | IResumeYield address nat
  | IHarvest address nat
  | ICompound address nat
  | IHarvestBatch address "nat list"

primrec run_yield :: "'w ih_externals \<Rightarrow> ctx \<Rightarrow> yield_call \<Rightarrow> 'w ih_state \<Rightarrow> 'w ih_state ih_result" where
  "run_yield X cx (ISetLending ad c) s = set_lending_contract X cx ad c s"
| "run_yield X cx (ISetGovernance ad c) s = ih_set_governance_contract X cx ad c s"
| "run_yield X cx (IAddRelayer ad u) s = add_yield_relayer cx ad u s"
| "run_yield X cx (IRemoveRelayer ad u) s = remove_yield_relayer cx ad u s"
| "run_yield X cx (IRegisterPosition u i a) s = register_yield_position X cx u i a s"
| "run_yield X cx (ISyncPrincipal u i) s = effect (sync_yield_principal X cx u i s)"
| "run_yield X cx (IUnregisterPosition u i) s = unregister_yield_position X cx u i s"
| "run_yield X cx (ISetYieldConfig u i ac m iv fb) s = set_yield_config cx u i ac m iv fb s"
| "run_yield X cx (IPauseYield u i) s = pause_plan_yield cx u i s"
| "run_yield X cx (IResumeYield u i) s = resume_plan_yield cx u i s"
| "run_yield X cx (IHarvest u i) s = effect (harvest_yield X cx u i s)"
| "run_yield X cx (ICompound u i) s = effect (compound_pending_yield cx u i s)"
| "run_yield X cx (IHarvestBatch u is) s = effect (harvest_yield_batch X cx u is s)"

section \<open>All calls\<close>

datatype (plugins only: code size) ih_call =
    AdminCall admin_call
  | PlanCall plan_call
  | TriggerCall trigger_call
  | ClaimCall claim_call
  | DisputeCall dispute_call
  | WillCall will_call
  | MessageCall message_call
  | YieldCall yield_call

primrec ih_exec :: "'w ih_externals \<Rightarrow> ctx \<Rightarrow> ih_call \<Rightarrow> 'w ih_state \<Rightarrow> 'w ih_state ih_result" where
  "ih_exec X cx (AdminCall c) s = run_admin cx c s"
| "ih_exec X cx (PlanCall c) s = run_plan X cx c s"
| "ih_exec X cx (TriggerCall c) s = run_trigger cx c s"
| "ih_exec X cx (ClaimCall c) s = run_claim X cx c s"
| "ih_exec X cx (DisputeCall c) s = run_dispute cx c s"
| "ih_exec X cx (WillCall c) s = run_will X cx c s"
| "ih_exec X cx (MessageCall c) s = run_message X cx c s"
| "ih_exec X cx (YieldCall c) s = run_yield X cx c s"

end
