(* ===== verification/Inherit_Frame.thy ===== *)
theory Inherit_Frame
  imports Inherit_Contract
begin

text \<open>
  What the calls of the inheritance contract leave alone: most of them neither move the money of a
  plan, nor change its shares, nor touch what is settled for good (claims, disputes, finalized wills).
\<close>

section \<open>Two frames\<close>

text \<open>The part of a plan that says what it holds and how it is shared.\<close>

definition holdings :: "inheritance_plan \<Rightarrow> address \<times> nat \<times> nat \<times> nat list" where
  "holdings p = (pl_token p, pl_total_amount p, pl_total_allocation_bp p,
     map b_allocation_bp (pl_beneficiaries p))"

definition plan_books :: "'w ih_state \<Rightarrow> nat \<Rightarrow> (address \<times> nat \<times> nat \<times> nat list) option" where
  "plan_books s i = map_option holdings (ih_plan s i)"

text \<open>No plan has loans outstanding.\<close>

definition unowed :: "'w ih_state \<Rightarrow> bool" where
  "unowed s \<longleftrightarrow> (\<forall>i p. ih_plan s i = Some p \<longrightarrow> pl_total_loaned p = 0)"

lemma unowed_update:
  "unowed s \<Longrightarrow> ih_plan t = (ih_plan s)(i \<mapsto> q) \<Longrightarrow> pl_total_loaned q = 0 \<Longrightarrow> unowed t"
  by (simp add: unowed_def)

lemma unowed_plan: "unowed s \<Longrightarrow> ih_plan s i = Some p \<Longrightarrow> pl_total_loaned p = 0"
  by (simp add: unowed_def)

definition same_holdings :: "'w ih_state \<Rightarrow> 'w ih_state \<Rightarrow> bool" where
  "same_holdings s t \<longleftrightarrow> plan_books t = plan_books s \<and> ih_plan_vault t = ih_plan_vault s \<and>
     ih_next_plan_id t = ih_next_plan_id s \<and> ih_world t = ih_world s \<and> (unowed s \<longrightarrow> unowed t)"

definition same_settled :: "'w ih_state \<Rightarrow> 'w ih_state \<Rightarrow> bool" where
  "same_settled s t \<longleftrightarrow> ih_claim t = ih_claim s \<and> ih_dispute t = ih_dispute s \<and>
     ih_next_dispute t = ih_next_dispute s \<and> ih_will_final t = ih_will_final s \<and>
     ih_will_final_at t = ih_will_final_at s \<and> ih_active_version t = ih_active_version s \<and>
     ih_vault_will t = ih_vault_will s \<and> ih_will_version t = ih_will_version s \<and>
     dom (ih_trigger s) \<subseteq> dom (ih_trigger t)"

definition quiet :: "'w ih_state \<Rightarrow> 'w ih_state \<Rightarrow> bool" where
  "quiet s t \<longleftrightarrow> same_holdings s t \<and> same_settled s t"

lemma plan_books_eq [simp]: "plan_books s i = None \<longleftrightarrow> ih_plan s i = None"
  by (simp add: plan_books_def)

lemma quiet_refl [simp]: "quiet s s" and same_settled_refl [simp]: "same_settled s s"
  by (simp_all add: quiet_def same_holdings_def same_settled_def)

lemma same_settled_trans: "same_settled s t \<Longrightarrow> same_settled t u \<Longrightarrow> same_settled s u"
  by (auto simp: same_settled_def)

lemma quiet_trans: "quiet s t \<Longrightarrow> quiet t u \<Longrightarrow> quiet s u"
  using same_settled_trans [of s t u] by (auto simp: quiet_def same_holdings_def)

text \<open>A plan written back with the same holdings.\<close>

lemma plan_books_store:
  "ih_plan s i = Some p \<Longrightarrow> ih_plan t = (ih_plan s)(i \<mapsto> q) \<Longrightarrow> holdings q = holdings p \<Longrightarrow>
   plan_books t = plan_books s"
  by (auto simp: plan_books_def fun_eq_iff)

lemma quiet_store:
  "ih_plan s i = Some p \<Longrightarrow> holdings q = holdings p \<Longrightarrow> (pl_total_loaned p = 0 \<longrightarrow> pl_total_loaned q = 0) \<Longrightarrow>
   quiet s (store_plan i q s)"
  by (auto simp: quiet_def same_holdings_def same_settled_def store_plan_def unowed_def intro!: plan_books_store)

lemma quietI:
  "ih_plan t = ih_plan s \<Longrightarrow> ih_plan_vault t = ih_plan_vault s \<Longrightarrow> ih_next_plan_id t = ih_next_plan_id s \<Longrightarrow>
   ih_world t = ih_world s \<Longrightarrow> same_settled s t \<Longrightarrow> quiet s t"
  by (simp add: quiet_def same_holdings_def plan_books_def [abs_def] unowed_def)

text \<open>The keys outside both frames.\<close>

lemma quiet_fields [simp]:
  "quiet s (t\<lparr>ih_salt := x0\<rparr>) = quiet s t"
  "quiet s (t\<lparr>ih_attempts := x1\<rparr>) = quiet s t"
  "quiet s (t\<lparr>ih_user_plans := x2\<rparr>) = quiet s t"
  "quiet s (t\<lparr>ih_user_claimed := x3\<rparr>) = quiet s t"
  "quiet s (t\<lparr>ih_deactivated := x4\<rparr>) = quiet s t"
  "quiet s (t\<lparr>ih_all_claimed := x5\<rparr>) = quiet s t"
  "quiet s (t\<lparr>ih_admin := x6\<rparr>) = quiet s t"
  "quiet s (t\<lparr>ih_kyc := x7\<rparr>) = quiet s t"
  "quiet s (t\<lparr>ih_version := x8\<rparr>) = quiet s t"
  "quiet s (t\<lparr>ih_emergency := x10\<rparr>) = quiet s t"
  "quiet s (t\<lparr>ih_guardians := x11\<rparr>) = quiet s t"
  "quiet s (t\<lparr>ih_approvals := x12\<rparr>) = quiet s t"
  "quiet s (t\<lparr>ih_contacts := x13\<rparr>) = quiet s t"
  "quiet s (t\<lparr>ih_will_hash := x14\<rparr>) = quiet s t"
  "quiet s (t\<lparr>ih_verified := x16\<rparr>) = quiet s t"
  "quiet s (t\<lparr>ih_will_count := x17\<rparr>) = quiet s t"
  "quiet s (t\<lparr>ih_will_signature := x20\<rparr>) = quiet s t"
  "quiet s (t\<lparr>ih_sig_used := x21\<rparr>) = quiet s t"
  "quiet s (t\<lparr>ih_next_message := x22\<rparr>) = quiet s t"
  "quiet s (t\<lparr>ih_message := x23\<rparr>) = quiet s t"
  "quiet s (t\<lparr>ih_vault_messages := x24\<rparr>) = quiet s t"
  "quiet s (t\<lparr>ih_witnesses := x25\<rparr>) = quiet s t"
  "quiet s (t\<lparr>ih_witness_sig := x26\<rparr>) = quiet s t"
  "quiet s (t\<lparr>ih_lending := x27\<rparr>) = quiet s t"
  "quiet s (t\<lparr>ih_governance := x28\<rparr>) = quiet s t"
  "quiet s (t\<lparr>ih_notified := x29\<rparr>) = quiet s t"
  "quiet s (t\<lparr>ih_acknowledged := x30\<rparr>) = quiet s t"
  "quiet s (t\<lparr>ih_ack_required := x31\<rparr>) = quiet s t"
  "quiet s (t\<lparr>ih_freeze := x32\<rparr>) = quiet s t"
  "quiet s (t\<lparr>ih_legal_hold := x33\<rparr>) = quiet s t"
  "quiet s (t\<lparr>ih_frozen_beneficiary := x34\<rparr>) = quiet s t"
  "quiet s (t\<lparr>ih_trigger_config := x35\<rparr>) = quiet s t"
  "quiet s (t\<lparr>ih_exit_settlement := x36\<rparr>) = quiet s t"
  "quiet s (t\<lparr>ih_plan_disputes := x37\<rparr>) = quiet s t"
  "quiet s (t\<lparr>ih_arbitrators := x38\<rparr>) = quiet s t"
  "quiet s (t\<lparr>ih_relayers := x39\<rparr>) = quiet s t"
  "quiet s (t\<lparr>ih_yield := x40\<rparr>) = quiet s t"
  "quiet s (t\<lparr>ih_vault_wasm := x41\<rparr>) = quiet s t"
  "quiet s (t\<lparr>ih_key_version := x42\<rparr>) = quiet s t"
  "quiet s (t\<lparr>ih_key_current := x43\<rparr>) = quiet s t"
  "quiet s (t\<lparr>ih_key_ref := x44\<rparr>) = quiet s t"
  "quiet s (t\<lparr>ih_wrapped := x45\<rparr>) = quiet s t"
  "quiet s (t\<lparr>ih_wasm := x46\<rparr>) = quiet s t"
  "quiet s (t\<lparr>roles_key := x47\<rparr>) = quiet s t"
  "quiet s (t\<lparr>blacklisted_key := x48\<rparr>) = quiet s t"
  "quiet s (t\<lparr>reentrancy_lock := x49\<rparr>) = quiet s t"
  "quiet s (t\<lparr>paused_key := x50\<rparr>) = quiet s t"
  "quiet s (t\<lparr>pause_lock := x51\<rparr>) = quiet s t"
  "quiet s (t\<lparr>contract_version := x52\<rparr>) = quiet s t"
  "quiet s (t\<lparr>ih_events := x53\<rparr>) = quiet s t"
  by (simp_all add: quiet_def same_holdings_def same_settled_def plan_books_def [abs_def] unowed_def)

lemma same_settled_fields [simp]:
  "same_settled s (t\<lparr>ih_salt := x0\<rparr>) = same_settled s t"
  "same_settled s (t\<lparr>ih_attempts := x1\<rparr>) = same_settled s t"
  "same_settled s (t\<lparr>ih_user_plans := x2\<rparr>) = same_settled s t"
  "same_settled s (t\<lparr>ih_user_claimed := x3\<rparr>) = same_settled s t"
  "same_settled s (t\<lparr>ih_deactivated := x4\<rparr>) = same_settled s t"
  "same_settled s (t\<lparr>ih_all_claimed := x5\<rparr>) = same_settled s t"
  "same_settled s (t\<lparr>ih_admin := x6\<rparr>) = same_settled s t"
  "same_settled s (t\<lparr>ih_kyc := x7\<rparr>) = same_settled s t"
  "same_settled s (t\<lparr>ih_version := x8\<rparr>) = same_settled s t"
  "same_settled s (t\<lparr>ih_emergency := x10\<rparr>) = same_settled s t"
  "same_settled s (t\<lparr>ih_guardians := x11\<rparr>) = same_settled s t"
  "same_settled s (t\<lparr>ih_approvals := x12\<rparr>) = same_settled s t"
  "same_settled s (t\<lparr>ih_contacts := x13\<rparr>) = same_settled s t"
  "same_settled s (t\<lparr>ih_will_hash := x14\<rparr>) = same_settled s t"
  "same_settled s (t\<lparr>ih_verified := x16\<rparr>) = same_settled s t"
  "same_settled s (t\<lparr>ih_will_count := x17\<rparr>) = same_settled s t"
  "same_settled s (t\<lparr>ih_will_signature := x20\<rparr>) = same_settled s t"
  "same_settled s (t\<lparr>ih_sig_used := x21\<rparr>) = same_settled s t"
  "same_settled s (t\<lparr>ih_next_message := x22\<rparr>) = same_settled s t"
  "same_settled s (t\<lparr>ih_message := x23\<rparr>) = same_settled s t"
  "same_settled s (t\<lparr>ih_vault_messages := x24\<rparr>) = same_settled s t"
  "same_settled s (t\<lparr>ih_witnesses := x25\<rparr>) = same_settled s t"
  "same_settled s (t\<lparr>ih_witness_sig := x26\<rparr>) = same_settled s t"
  "same_settled s (t\<lparr>ih_lending := x27\<rparr>) = same_settled s t"
  "same_settled s (t\<lparr>ih_governance := x28\<rparr>) = same_settled s t"
  "same_settled s (t\<lparr>ih_notified := x29\<rparr>) = same_settled s t"
  "same_settled s (t\<lparr>ih_acknowledged := x30\<rparr>) = same_settled s t"
  "same_settled s (t\<lparr>ih_ack_required := x31\<rparr>) = same_settled s t"
  "same_settled s (t\<lparr>ih_freeze := x32\<rparr>) = same_settled s t"
  "same_settled s (t\<lparr>ih_legal_hold := x33\<rparr>) = same_settled s t"
  "same_settled s (t\<lparr>ih_frozen_beneficiary := x34\<rparr>) = same_settled s t"
  "same_settled s (t\<lparr>ih_trigger_config := x35\<rparr>) = same_settled s t"
  "same_settled s (t\<lparr>ih_exit_settlement := x36\<rparr>) = same_settled s t"
  "same_settled s (t\<lparr>ih_plan_disputes := x37\<rparr>) = same_settled s t"
  "same_settled s (t\<lparr>ih_arbitrators := x38\<rparr>) = same_settled s t"
  "same_settled s (t\<lparr>ih_relayers := x39\<rparr>) = same_settled s t"
  "same_settled s (t\<lparr>ih_yield := x40\<rparr>) = same_settled s t"
  "same_settled s (t\<lparr>ih_vault_wasm := x41\<rparr>) = same_settled s t"
  "same_settled s (t\<lparr>ih_key_version := x42\<rparr>) = same_settled s t"
  "same_settled s (t\<lparr>ih_key_current := x43\<rparr>) = same_settled s t"
  "same_settled s (t\<lparr>ih_key_ref := x44\<rparr>) = same_settled s t"
  "same_settled s (t\<lparr>ih_wrapped := x45\<rparr>) = same_settled s t"
  "same_settled s (t\<lparr>ih_wasm := x46\<rparr>) = same_settled s t"
  "same_settled s (t\<lparr>roles_key := x47\<rparr>) = same_settled s t"
  "same_settled s (t\<lparr>blacklisted_key := x48\<rparr>) = same_settled s t"
  "same_settled s (t\<lparr>reentrancy_lock := x49\<rparr>) = same_settled s t"
  "same_settled s (t\<lparr>paused_key := x50\<rparr>) = same_settled s t"
  "same_settled s (t\<lparr>pause_lock := x51\<rparr>) = same_settled s t"
  "same_settled s (t\<lparr>contract_version := x52\<rparr>) = same_settled s t"
  "same_settled s (t\<lparr>ih_events := x53\<rparr>) = same_settled s t"
  "same_settled s (t\<lparr>ih_plan := x54\<rparr>) = same_settled s t"
  "same_settled s (t\<lparr>ih_plan_vault := x55\<rparr>) = same_settled s t"
  "same_settled s (t\<lparr>ih_next_plan_id := x56\<rparr>) = same_settled s t"
  "same_settled s (t\<lparr>ih_world := x57\<rparr>) = same_settled s t"
  by (simp_all add: same_settled_def)

lemma same_holdings_fields [simp]:
  "same_holdings s (t\<lparr>ih_salt := x0\<rparr>) = same_holdings s t"
  "same_holdings s (t\<lparr>ih_attempts := x1\<rparr>) = same_holdings s t"
  "same_holdings s (t\<lparr>ih_user_plans := x2\<rparr>) = same_holdings s t"
  "same_holdings s (t\<lparr>ih_user_claimed := x3\<rparr>) = same_holdings s t"
  "same_holdings s (t\<lparr>ih_deactivated := x4\<rparr>) = same_holdings s t"
  "same_holdings s (t\<lparr>ih_all_claimed := x5\<rparr>) = same_holdings s t"
  "same_holdings s (t\<lparr>ih_admin := x6\<rparr>) = same_holdings s t"
  "same_holdings s (t\<lparr>ih_kyc := x7\<rparr>) = same_holdings s t"
  "same_holdings s (t\<lparr>ih_version := x8\<rparr>) = same_holdings s t"
  "same_holdings s (t\<lparr>ih_trigger := x9\<rparr>) = same_holdings s t"
  "same_holdings s (t\<lparr>ih_emergency := x10\<rparr>) = same_holdings s t"
  "same_holdings s (t\<lparr>ih_guardians := x11\<rparr>) = same_holdings s t"
  "same_holdings s (t\<lparr>ih_approvals := x12\<rparr>) = same_holdings s t"
  "same_holdings s (t\<lparr>ih_contacts := x13\<rparr>) = same_holdings s t"
  "same_holdings s (t\<lparr>ih_will_hash := x14\<rparr>) = same_holdings s t"
  "same_holdings s (t\<lparr>ih_vault_will := x15\<rparr>) = same_holdings s t"
  "same_holdings s (t\<lparr>ih_verified := x16\<rparr>) = same_holdings s t"
  "same_holdings s (t\<lparr>ih_will_count := x17\<rparr>) = same_holdings s t"
  "same_holdings s (t\<lparr>ih_will_version := x18\<rparr>) = same_holdings s t"
  "same_holdings s (t\<lparr>ih_active_version := x19\<rparr>) = same_holdings s t"
  "same_holdings s (t\<lparr>ih_will_signature := x20\<rparr>) = same_holdings s t"
  "same_holdings s (t\<lparr>ih_sig_used := x21\<rparr>) = same_holdings s t"
  "same_holdings s (t\<lparr>ih_next_message := x22\<rparr>) = same_holdings s t"
  "same_holdings s (t\<lparr>ih_message := x23\<rparr>) = same_holdings s t"
  "same_holdings s (t\<lparr>ih_vault_messages := x24\<rparr>) = same_holdings s t"
  "same_holdings s (t\<lparr>ih_witnesses := x25\<rparr>) = same_holdings s t"
  "same_holdings s (t\<lparr>ih_witness_sig := x26\<rparr>) = same_holdings s t"
  "same_holdings s (t\<lparr>ih_lending := x27\<rparr>) = same_holdings s t"
  "same_holdings s (t\<lparr>ih_governance := x28\<rparr>) = same_holdings s t"
  "same_holdings s (t\<lparr>ih_notified := x29\<rparr>) = same_holdings s t"
  "same_holdings s (t\<lparr>ih_acknowledged := x30\<rparr>) = same_holdings s t"
  "same_holdings s (t\<lparr>ih_ack_required := x31\<rparr>) = same_holdings s t"
  "same_holdings s (t\<lparr>ih_freeze := x32\<rparr>) = same_holdings s t"
  "same_holdings s (t\<lparr>ih_legal_hold := x33\<rparr>) = same_holdings s t"
  "same_holdings s (t\<lparr>ih_frozen_beneficiary := x34\<rparr>) = same_holdings s t"
  "same_holdings s (t\<lparr>ih_trigger_config := x35\<rparr>) = same_holdings s t"
  "same_holdings s (t\<lparr>ih_exit_settlement := x36\<rparr>) = same_holdings s t"
  "same_holdings s (t\<lparr>ih_plan_disputes := x37\<rparr>) = same_holdings s t"
  "same_holdings s (t\<lparr>ih_arbitrators := x38\<rparr>) = same_holdings s t"
  "same_holdings s (t\<lparr>ih_relayers := x39\<rparr>) = same_holdings s t"
  "same_holdings s (t\<lparr>ih_yield := x40\<rparr>) = same_holdings s t"
  "same_holdings s (t\<lparr>ih_vault_wasm := x41\<rparr>) = same_holdings s t"
  "same_holdings s (t\<lparr>ih_key_version := x42\<rparr>) = same_holdings s t"
  "same_holdings s (t\<lparr>ih_key_current := x43\<rparr>) = same_holdings s t"
  "same_holdings s (t\<lparr>ih_key_ref := x44\<rparr>) = same_holdings s t"
  "same_holdings s (t\<lparr>ih_wrapped := x45\<rparr>) = same_holdings s t"
  "same_holdings s (t\<lparr>ih_wasm := x46\<rparr>) = same_holdings s t"
  "same_holdings s (t\<lparr>roles_key := x47\<rparr>) = same_holdings s t"
  "same_holdings s (t\<lparr>blacklisted_key := x48\<rparr>) = same_holdings s t"
  "same_holdings s (t\<lparr>reentrancy_lock := x49\<rparr>) = same_holdings s t"
  "same_holdings s (t\<lparr>paused_key := x50\<rparr>) = same_holdings s t"
  "same_holdings s (t\<lparr>pause_lock := x51\<rparr>) = same_holdings s t"
  "same_holdings s (t\<lparr>contract_version := x52\<rparr>) = same_holdings s t"
  "same_holdings s (t\<lparr>ih_events := x53\<rparr>) = same_holdings s t"
  "same_holdings s (t\<lparr>ih_claim := x54\<rparr>) = same_holdings s t"
  "same_holdings s (t\<lparr>ih_dispute := x55\<rparr>) = same_holdings s t"
  "same_holdings s (t\<lparr>ih_next_dispute := x56\<rparr>) = same_holdings s t"
  "same_holdings s (t\<lparr>ih_will_final := x57\<rparr>) = same_holdings s t"
  "same_holdings s (t\<lparr>ih_will_final_at := x58\<rparr>) = same_holdings s t"
  by (simp_all add: same_holdings_def plan_books_def [abs_def] unowed_def)

lemma quiet_outside [simp]:
  "quiet s (ih_publish ev t) = quiet s t"
  "quiet s (save_trigger_config i tc t) = quiet s t"
  "quiet s (set_message m msg t) = quiet s t"
  "quiet s (set_yield_state i st t) = quiet s t"
  "quiet s (set_kyc u k t) = quiet s t"
  "quiet s (exit_guard t) = quiet s t"
  "quiet s (assign_role u r t) = quiet s t"
  "quiet s (add_plan_to_user u i t) = quiet s t"
  "quiet s (remove_plan_from_user u i t) = quiet s t"
  "quiet s (mark_signature h t) = quiet s t"
  by (simp_all add: quiet_def same_holdings_def same_settled_def plan_books_def [abs_def] unowed_def ih_access
      set_message_def set_yield_state_def set_kyc_def assign_role_def mark_signature_def Let_def
      split: option.splits)

lemma same_settled_outside [simp]:
  "same_settled s (ih_publish ev t) = same_settled s t"
  "same_settled s (exit_guard t) = same_settled s t"
  "same_settled s (store_plan i p t) = same_settled s t"
  "same_settled s (store_plan_vault i v t) = same_settled s t"
  "same_settled s (assign_role u r t) = same_settled s t"
  "same_settled s (add_plan_to_user u i t) = same_settled s t"
  "same_settled s (remove_plan_from_user u i t) = same_settled s t"
  "same_settled s (add_plan_to_deactivated i t) = same_settled s t"
  "same_settled s (set_yield_state i st t) = same_settled s t"
  by (simp_all add: ih_access add_plan_to_deactivated_def set_yield_state_def assign_role_def Let_def)

text \<open>A trigger may be recorded or changed, but is never removed.\<close>

lemma set_trigger_frame [simp]:
  "same_settled s t \<Longrightarrow> same_settled s (set_trigger_info i ti t)"
  "same_settled s t \<Longrightarrow> same_settled s (t\<lparr>ih_trigger := (ih_trigger t)(i \<mapsto> ti)\<rparr>)"
  "same_holdings s (set_trigger_info i ti t) = same_holdings s t"
  "quiet s t \<Longrightarrow> quiet s (set_trigger_info i ti t)"
  by (auto simp: quiet_def same_settled_def same_holdings_def plan_books_def [abs_def] unowed_def ih_access)

lemma same_holdings_outside [simp]:
  "same_holdings s (ih_publish ev t) = same_holdings s t"
  "same_holdings s (exit_guard t) = same_holdings s t"
  "same_holdings s s"
  by (simp_all add: ih_access) (simp add: same_holdings_def)

named_theorems frame "calls that neither move money or shares nor settle anything"

section \<open>Administration\<close>

lemma quiet_roles [simp]:
  "quiet s (blacklist_address u s)" "quiet s (unblacklist_address u s)" "quiet s (unpause_contract s)"
  "quiet s (set_contract_version n s)"
  by (simp_all add: blacklist_address_def unblacklist_address_def unpause_contract_def set_contract_version_def)

lemma quiet_pause: "pause_contract s = Ok t \<Longrightarrow> quiet s t"
  by (auto simp: pause_contract_def Let_def split: if_splits)

lemma quiet_revoke: "revoke_role u r s = Ok t \<Longrightarrow> quiet s t"
  by (auto simp: revoke_role_def lock_defs Let_def split: option.splits if_splits)

lemma quiet_expire: "check_and_expire_emergency_access cx i s = Ok (b, t) \<Longrightarrow> quiet s t"
  by (auto simp: check_and_expire_emergency_access_def Let_def split: option.splits if_splits)

lemma quiet_emergency_reads [frame]:
  "get_emergency_access cx i s = Ok (r, t) \<Longrightarrow> quiet s t"
  "is_emergency_active cx i s = Ok (b, t) \<Longrightarrow> quiet s t"
  by (auto simp: get_emergency_access_def is_emergency_active_def dest: quiet_expire split: if_splits option.splits)

lemma quiet_get_user_plan [frame]: "get_user_plan cx u i s = Ok (r, t) \<Longrightarrow> quiet s t"
  by (auto simp: get_user_plan_def dest: quiet_emergency_reads split: if_splits option.splits)

lemma quiet_initialize [frame]: "initialize_admin cx ad s = Ok t \<Longrightarrow> quiet s t"
  by (auto simp: initialize_admin_def set_contract_version_def Let_def split: if_splits)

lemma quiet_admin [frame]:
  "ih_pause cx ad s = Ok t \<Longrightarrow> quiet s t"
  "ih_unpause cx ad s = Ok t \<Longrightarrow> quiet s t"
  "ih_assign_role cx ad u r s = Ok t \<Longrightarrow> quiet s t"
  "ih_revoke_role cx ad u r s = Ok t \<Longrightarrow> quiet s t"
  "ih_blacklist_address cx ad u s = Ok t \<Longrightarrow> quiet s t"
  "ih_unblacklist_address cx ad u s = Ok t \<Longrightarrow> quiet s t"
  "set_plan_vault_wasm_hash cx ad h s = Ok t \<Longrightarrow> quiet s t"
  by (auto simp: ih_pause_def ih_unpause_def ih_assign_role_def ih_revoke_role_def ih_blacklist_address_def
      ih_unblacklist_address_def set_plan_vault_wasm_hash_def Let_def dest: quiet_pause quiet_revoke)

lemma quiet_upgrades [frame]:
  "ih_upgrade cx ad h s = Ok t \<Longrightarrow> quiet s t"
  "ih_upgrade_wasm cx h s = Ok t \<Longrightarrow> quiet s t"
  "ih_upgrade_contract cx ad h s = Ok t \<Longrightarrow> quiet s t"
  "ih_migrate cx ad s = Ok t \<Longrightarrow> quiet s t"
  "ih_add_supported_wrapped_token cx tk s = Ok t \<Longrightarrow> quiet s t"
  "ih_remove_wrapped_token cx tk s = Ok t \<Longrightarrow> quiet s t"
  by (auto simp: ih_upgrade_def ih_upgrade_wasm_def ih_upgrade_contract_def ih_migrate_def install_code_def
      ih_add_supported_wrapped_token_def ih_remove_wrapped_token_def Let_def split: if_splits)

lemma quiet_run_admin: "run_admin cx c s = Ok t \<Longrightarrow> quiet s t"
  by (cases c) (hypsubst, unfold run_admin.simps effect_eq_Ok, (elim exE)?, erule frame)+

section \<open>Triggers and emergency access\<close>

lemma quiet_trigger_settings [frame]:
  "set_trigger_conditions cx u i cs d p orc s = Ok t \<Longrightarrow> quiet s t"
  "add_time_trigger cx u i d s = Ok t \<Longrightarrow> quiet s t"
  "add_inactivity_trigger cx u i p s = Ok t \<Longrightarrow> quiet s t"
  "add_oracle_trigger cx u i o1 s = Ok t \<Longrightarrow> quiet s t"
  "add_health_trigger cx u i o1 s = Ok t \<Longrightarrow> quiet s t"
  "record_activity cx u i s = Ok t \<Longrightarrow> quiet s t"
  "submit_oracle_trigger cx u i s = Ok t \<Longrightarrow> quiet s t"
  "submit_health_trigger cx u i s = Ok t \<Longrightarrow> quiet s t"
  by (auto simp: set_trigger_conditions_def add_time_trigger_def add_inactivity_trigger_def add_oracle_trigger_def
      add_health_trigger_def record_activity_def submit_oracle_trigger_def submit_health_trigger_def Let_def)

lemma quiet_start: "ih_plan s i = Some p \<Longrightarrow> quiet s (start_inheritance cx i p s)"
  by (simp add: start_inheritance_def Let_def quiet_store holdings_def)

lemma quiet_publish_trigger [simp]: "quiet s (publish_trigger cx i p t) = quiet s t"
  by (simp add: publish_trigger_def)

lemma quiet_auto_trigger [frame]: "auto_trigger_check cx i s = Ok t \<Longrightarrow> quiet s t"
  by (auto simp: auto_trigger_check_def Let_def quiet_start split: if_splits)

lemma quiet_try_auto: "try_auto_trigger cx i s = Ok t \<Longrightarrow> quiet s t"
  by (auto simp: try_auto_trigger_def dest: quiet_auto_trigger split: outcome.splits)

lemma quiet_authorize: "authorize_trigger cx u i s = Ok t \<Longrightarrow> quiet s t"
  by (auto simp: authorize_trigger_def dest: quiet_emergency_reads split: if_splits option.splits)

lemma quiet_unlocked: "quiet (s\<lparr>reentrancy_lock := x\<rparr>) t = quiet s t"
  by (simp add: quiet_def same_holdings_def same_settled_def plan_books_def [abs_def] unowed_def)

lemma quiet_trigger [frame]:
  assumes "trigger_inheritance cx u i s = Ok t"
  shows "quiet s t"
proof -
  obtain s1 p where "authorize_trigger cx u i (s\<lparr>reentrancy_lock := Some True\<rparr>) = Ok s1" "ih_plan s1 i = Some p"
    and t: "t = exit_guard (publish_trigger cx i p (start_inheritance cx i p s1))"
    using assms by (auto simp: trigger_inheritance_def Let_def)
  then have "quiet s s1" "quiet s1 (start_inheritance cx i p s1)"
    by (auto dest!: quiet_authorize simp: quiet_unlocked quiet_start)
  then show ?thesis unfolding t by (simp add: quiet_trans)
qed

lemma quiet_guardian_trigger [frame]:
  assumes "guardian_emergency_trigger cx i gs s = Ok t"
  shows "quiet s t"
proof -
  let ?s = "s\<lparr>reentrancy_lock := Some True\<rparr>"
  obtain p where "ih_plan ?s i = Some p"
    and t: "t = exit_guard (publish_trigger cx i p (start_inheritance cx i p ?s))"
    using assms by (auto simp: guardian_emergency_trigger_def Let_def)
  then have "quiet ?s (start_inheritance cx i p ?s)" by (simp add: quiet_start)
  then show ?thesis unfolding t by (simp add: quiet_unlocked)
qed

lemma quiet_freeze_loans [frame]:
  assumes "freeze_loans cx ad i s = Ok t"
  shows "quiet s t"
proof -
  obtain p ti where "ih_plan s i = Some p"
    and t: "t = ih_publish (LoanFreezeEvent i (timestamp cx)) (set_trigger_info i ti
      (store_plan i (p\<lparr>pl_is_lendable := False\<rparr>) s))"
    using assms by (auto simp: freeze_loans_def Let_def)
  then show ?thesis by (simp add: quiet_store holdings_def)
qed

lemma quiet_recall_loan [frame]:
  assumes "recall_loan cx ad i n s = Ok t"
  shows "quiet s t"
proof -
  obtain p ti k where "ih_plan s i = Some p" "pl_total_loaned p \<noteq> 0"
    and t: "t = ih_publish (LoanRecallEvent i n k) (set_trigger_info i ti
      (store_plan i (p\<lparr>pl_total_loaned := k\<rparr>) s))"
    using assms by (auto simp: recall_loan_def Let_def)
  then show ?thesis by (simp add: quiet_store holdings_def)
qed

lemma quiet_emergency [frame]:
  "activate_emergency_access cx u i k s = Ok t \<Longrightarrow> quiet s t"
  "deactivate_emergency_access cx u i s = Ok t \<Longrightarrow> quiet s t"
  by (auto simp: activate_emergency_access_def deactivate_emergency_access_def Let_def dest!: quiet_expire)

lemma quiet_fold_roles: "quiet s t \<Longrightarrow> quiet s (fold (\<lambda>g. assign_role g r) gs t)"
  by (induction gs arbitrary: t) simp_all

lemma quiet_set_guardians [frame]: "set_guardians cx u i gs n s = Ok t \<Longrightarrow> quiet s t"
  by (auto simp: set_guardians_def Let_def intro!: quiet_fold_roles)

lemma quiet_approve_emergency [frame]: "approve_emergency_access cx g i k s = Ok t \<Longrightarrow> quiet s t"
  by (auto simp: approve_emergency_access_def Let_def dest!: quiet_expire split: if_splits)

lemma quiet_contacts [frame]:
  "add_emergency_contact cx u i k s = Ok t \<Longrightarrow> quiet s t"
  "remove_emergency_contact cx u i k s = Ok t \<Longrightarrow> quiet s t"
  by (auto simp: add_emergency_contact_def remove_emergency_contact_def Let_def)

section \<open>Wills and disputes move no money\<close>

lemma quiet_wills [frame]:
  "store_will_hash cx u i h s = Ok t \<Longrightarrow> quiet s t"
  "verify_beneficiaries i bs s = Ok (r, t) \<Longrightarrow> quiet s t"
  "sign_will X cx u i h sg e s = Ok t \<Longrightarrow> quiet s t"
  "add_witness cx u i w s = Ok t \<Longrightarrow> quiet s t"
  "sign_as_witness X cx u i sg e s = Ok t \<Longrightarrow> quiet s t"
  by (auto simp: store_will_hash_def verify_beneficiaries_def sign_will_def add_witness_def
      sign_as_witness_def Let_def)

lemma holdings_wills:
  "link_will_to_vault cx u i h s = Ok t \<Longrightarrow> same_holdings s t"
  "create_will_version cx u i h s = Ok (r, t) \<Longrightarrow> same_holdings s t"
  "finalize_will cx u i v s = Ok t \<Longrightarrow> same_holdings s t"
  by (auto simp: link_will_to_vault_def create_will_version_def deactivate_version_def finalize_will_def Let_def
      split: option.splits)

lemma holdings_run_will: "run_will X cx c s = Ok t \<Longrightarrow> same_holdings s t"
  using holdings_wills quiet_wills unfolding quiet_def by (cases c) fastforce+

lemma holdings_open: "open_dispute cx u i r s = Ok (d, t) \<Longrightarrow> same_holdings s t"
  by (auto simp: open_dispute_def Let_def)

lemma holdings_freeze [simp]: "same_holdings s (freeze_plan_for_dispute cx u i t) = same_holdings s t"
  by (simp add: freeze_plan_for_dispute_def)

lemma holdings_close: "same_holdings s t \<Longrightarrow> same_holdings s (close_dispute cx u i b d t)"
  by (auto simp: close_dispute_def Let_def split: option.splits)

lemma holdings_disputes:
  "file_dispute cx u i r s = Ok (d, t) \<Longrightarrow> same_holdings s t"
  "raise_dispute cx i u h s = Ok (d, t) \<Longrightarrow> same_holdings s t"
  "review_dispute cx u d st notes fr s = Ok t \<Longrightarrow> same_holdings s t"
  by (auto simp: file_dispute_def raise_dispute_def review_dispute_def Let_def dest!: holdings_open)

lemma holdings_resolve: 
  assumes "resolve_dispute cx i b s = Ok t"
  shows "same_holdings s t"
proof -
  have "same_holdings s (fold (close_dispute cx u i b) ds v)" if "same_holdings s v" for u ds v
    using that by (induction ds arbitrary: v) (simp_all add: holdings_close)
  then show ?thesis using assms by (auto simp: resolve_dispute_def Let_def)
qed

section \<open>Identity, arbitrators, messages\<close>

lemma quiet_kyc [frame]:
  "submit_kyc cx u s = Ok t \<Longrightarrow> quiet s t"
  "approve_kyc cx ad u s = Ok t \<Longrightarrow> quiet s t"
  "reject_kyc cx ad u s = Ok t \<Longrightarrow> quiet s t"
  by (auto simp: submit_kyc_def approve_kyc_def reject_kyc_def Let_def)

text \<open>What every pass of a loop over the state at the end of a tuple leaves alone, the loop does.\<close>

lemma quiet_loop:
  assumes "fold_outcome f xs a = Ok b" and "quiet s (g a)"
    and "\<And>x u v. f x u = Ok v \<Longrightarrow> quiet s (g u) \<Longrightarrow> quiet s (g v)"
  shows "quiet s (g b)"
  by (rule fold_outcome_invariant [of f xs a b "\<lambda>u. quiet s (g u)"]) (use assms in auto)

lemma quiet_batch_kyc [frame]:
  assumes "batch_approve_kyc cx ad us s = Ok (r, t)"
  shows "quiet s t"
proof -
  obtain ok bad s1 where loop: "fold_outcome (batch_approve_one (timestamp cx)) us (0, 0, s) = Ok (ok, bad, s1)"
    and t: "t = ih_publish (BatchKycApprovedEvent ok bad) s1"
    using assms by (auto simp: batch_approve_kyc_def)
  have "quiet s (snd (snd (ok, bad, s1)))"
    by (rule quiet_loop [OF loop]) (auto simp: batch_approve_one_def Let_def split: option.splits if_splits)
  then show ?thesis by (simp add: t)
qed

lemma quiet_arbitrators [frame]:
  "add_arbitrator cx ad u s = Ok t \<Longrightarrow> quiet s t"
  "remove_arbitrator cx ad u s = Ok t \<Longrightarrow> quiet s t"
  "unfreeze_plan cx ad i s = Ok t \<Longrightarrow> quiet s t"
  by (auto simp: add_arbitrator_def remove_arbitrator_def unfreeze_plan_def split: if_splits)

lemma holdings_run_dispute: "run_dispute cx c s = Ok t \<Longrightarrow> same_holdings s t"
  using holdings_disputes holdings_resolve quiet_arbitrators unfolding quiet_def by (cases c) fastforce+

lemma quiet_store_message: "store_new_message cx u params k s = Ok (m, t) \<Longrightarrow> quiet s' s \<Longrightarrow> quiet s' t"
  by (auto simp: store_new_message_def Let_def)

lemma quiet_unlock [simp]: "quiet s (unlock_message cx i m msg t) = quiet s t"
  by (simp add: unlock_message_def)

lemma quiet_messages [frame]:
  "rotate_vault_message_key cx u i k s = Ok (r, t) \<Longrightarrow> quiet s t"
  "create_legacy_message cx u params s = Ok (r, t) \<Longrightarrow> quiet s t"
  "update_legacy_message cx u m params s = Ok t \<Longrightarrow> quiet s t"
  "finalize_legacy_message cx u m s = Ok t \<Longrightarrow> quiet s t"
  "delete_legacy_message cx u m s = Ok t \<Longrightarrow> quiet s t"
  "access_legacy_message X cx u m s = Ok (r2, t) \<Longrightarrow> quiet s t"
  by (auto simp: rotate_vault_message_key_def create_legacy_message_def update_legacy_message_def
      finalize_legacy_message_def delete_legacy_message_def access_legacy_message_def Let_def
      dest!: quiet_store_message [where s' = s] split: if_splits)

lemma quiet_unlock_all [frame]:
  assumes "unlock_messages_on_inheritance cx i s = Ok t"
  shows "quiet s t"
proof -
  have "quiet s (fold (unlock_one cx i) ms u)" if "quiet s u" for ms u
    using that by (induction ms arbitrary: u) (simp_all add: unlock_one_def split: option.splits)
  then show ?thesis using assms by (auto simp: unlock_messages_on_inheritance_def)
qed

lemma quiet_batch_messages [frame]:
  assumes "batch_create_messages cx u ps s = Ok (r, t)"
  shows "quiet s t"
proof -
  obtain ids bad v s1 where loop: "fold_outcome (batch_create_one cx u) ps ([], 0, 0, s) = Ok (ids, bad, v, s1)"
    and t: "t = ih_publish (BatchMessagesCreatedEvent v (length ids) bad) s1"
    using assms by (auto simp: batch_create_messages_def)
  have "quiet s (snd (snd (snd (ids, bad, v, s1))))"
    by (rule quiet_loop [OF loop])
      (auto simp: batch_create_one_def Let_def dest: quiet_store_message split: option.splits if_splits)
  then show ?thesis by (simp add: t)
qed

lemma quiet_notices [frame]:
  "notify_beneficiary cx u i k s = Ok t \<Longrightarrow> quiet s t"
  "acknowledge_beneficiary_status cx u i k s = Ok t \<Longrightarrow> quiet s t"
  "require_acknowledgment cx u i b s = Ok t \<Longrightarrow> quiet s t"
  by (auto simp: notify_beneficiary_def acknowledge_beneficiary_status_def require_acknowledgment_def)

lemma quiet_run_message: "run_message X cx c s = Ok t \<Longrightarrow> quiet s t"
  by (cases c) (hypsubst, unfold run_message.simps effect_eq_Ok, (elim exE)?, erule frame)+

section \<open>Yield settings\<close>

lemma quiet_yield_settings [frame]:
  "set_lending_contract X cx ad c s = Ok t \<Longrightarrow> quiet s t"
  "ih_set_governance_contract X cx ad c s = Ok t \<Longrightarrow> quiet s t"
  "add_yield_relayer cx ad u s = Ok t \<Longrightarrow> quiet s t"
  "remove_yield_relayer cx ad u s = Ok t \<Longrightarrow> quiet s t"
  "set_yield_config cx u i ac m iv fb s = Ok t \<Longrightarrow> quiet s t"
  by (auto simp: set_lending_contract_def ih_set_governance_contract_def add_yield_relayer_def
      remove_yield_relayer_def set_yield_config_def Let_def split: if_splits)

lemma quiet_yield_pauses [frame]:
  "pause_plan_yield cx u i s = Ok t \<Longrightarrow> quiet s t"
  "resume_plan_yield cx u i s = Ok t \<Longrightarrow> quiet s t"
  by (auto simp: pause_plan_yield_def resume_plan_yield_def set_plan_yield_paused_def)

section \<open>Plans: settings that keep the holdings\<close>

lemma quiet_plan_settings [frame]:
  "set_lendable cx u i b s = Ok t \<Longrightarrow> quiet s t"
  "update_grace_period cx i g s = Ok t \<Longrightarrow> quiet s t"
  "enable_waterfall_distribution cx u i s = Ok t \<Longrightarrow> quiet s t"
  by (auto simp: set_lendable_def update_grace_period_def enable_waterfall_distribution_def quiet_store holdings_def)

lemma quiet_add_deactivated [simp]: "quiet s (add_plan_to_deactivated i t) = quiet s t"
  by (simp add: add_plan_to_deactivated_def Let_def)

lemma holdings_priority [simp]:
  "k < length bs \<Longrightarrow> map b_allocation_bp (bs[k := (bs ! k)\<lparr>b_priority := r\<rparr>]) = map b_allocation_bp bs"
  by (simp add: map_update) (metis list_update_id length_map nth_map)

lemma quiet_set_priority [frame]:
  assumes "set_beneficiary_priority cx u i k r s = Ok t"
  shows "quiet s t"
proof -
  obtain p where p: "ih_plan s i = Some p" "k < length (pl_beneficiaries p)"
    and t: "t = ih_publish (PrioritySetEvent i k r) (store_plan i (p\<lparr>pl_beneficiaries :=
      (pl_beneficiaries p)[k := (pl_beneficiaries p ! k)\<lparr>b_priority := r\<rparr>]\<rparr>) s)"
    using assms by (auto simp: set_beneficiary_priority_def Let_def)
  show ?thesis using p by (simp add: t quiet_store holdings_def)
qed

lemma quiet_deactivate [frame]:
  assumes "deactivate_inheritance_plan cx u i s = Ok t"
  shows "quiet s t"
proof -
  let ?s = "s\<lparr>reentrancy_lock := Some True\<rparr>"
  obtain p ev where p: "ih_plan ?s i = Some p"
    and t: "t = exit_guard (ih_publish ev (add_plan_to_deactivated i
      (store_plan i (p\<lparr>pl_is_active := False\<rparr>) ?s)))"
    using assms by (auto simp: deactivate_inheritance_plan_def Let_def)
  have "quiet ?s (store_plan i (p\<lparr>pl_is_active := False\<rparr>) ?s)" using p by (simp add: quiet_store holdings_def)
  then show ?thesis by (simp add: t quiet_unlocked)
qed

lemma quiet_transfer_ownership [frame]:
  assumes "transfer_plan_ownership cx u v i s = Ok t"
  shows "quiet s t"
proof -
  let ?s = "add_plan_to_user v i (remove_plan_from_user u i s)"
  obtain p ev where p: "ih_plan ?s i = Some p"
    and t: "t = ih_publish ev (store_plan i (p\<lparr>pl_owner := v\<rparr>) ?s)"
    using assms by (auto simp: transfer_plan_ownership_def Let_def add_plan_to_user_def remove_plan_from_user_def)
  have "quiet ?s (store_plan i (p\<lparr>pl_owner := v\<rparr>) ?s)" using p by (simp add: quiet_store holdings_def)
  then have "quiet s (store_plan i (p\<lparr>pl_owner := v\<rparr>) ?s)" by (rule quiet_trans [rotated]) simp
  then show ?thesis by (simp add: t)
qed

end
