(* ===== verification/Inherit_Plans_Facts.thy ===== *)
theory Inherit_Plans_Facts
  imports Inherit_Frame
begin

text \<open>
  What the operations on plans did when they returned: one lemma per operation that moves money or
  changes the beneficiaries, with the plan it found, the world it left and the state it produced.
\<close>

section \<open>Emergency access\<close>

text \<open>Looking at the emergency access of a plan changes at most its record and the events.\<close>

definition expiry_only :: "'w ih_state \<Rightarrow> 'w ih_state \<Rightarrow> bool" where
  "expiry_only s t \<longleftrightarrow> (\<exists>e ev. t = s\<lparr>ih_emergency := e, ih_events := ev\<rparr>)"

lemma expiry_only_refl [simp]: "expiry_only s s"
  unfolding expiry_only_def by (intro exI [of _ "ih_emergency s"] exI [of _ "ih_events s"]) simp

lemma expiry_only_step: "expiry_only s (ih_publish ev (s\<lparr>ih_emergency := e\<rparr>))"
  unfolding expiry_only_def ih_publish_def by auto

lemma expiry_only_trans: "expiry_only s t \<Longrightarrow> expiry_only t u \<Longrightarrow> expiry_only s u"
  unfolding expiry_only_def by clarsimp (intro exI, rule refl)

lemma expire_OkD: "check_and_expire_emergency_access cx i s = Ok (b, t) \<Longrightarrow> expiry_only s t"
  by (auto simp: check_and_expire_emergency_access_def expiry_only_step split: option.splits if_splits)

lemma emergency_active_OkD: "is_emergency_active cx i s = Ok (b, t) \<Longrightarrow> expiry_only s t"
  by (auto simp: is_emergency_active_def dest!: expire_OkD split: if_splits option.splits)

lemma emergency_limit_OkD: "check_emergency_limit cx i p n s = Ok t \<Longrightarrow> expiry_only s t"
  by (auto simp: check_emergency_limit_def dest: emergency_active_OkD)

section \<open>Beneficiaries\<close>

text \<open>New beneficiaries draw random salts: the world goes on by steps of the generator only.\<close>

definition prng_reach :: "'w ih_externals \<Rightarrow> 'w \<Rightarrow> 'w \<Rightarrow> bool" where
  "prng_reach X w w' \<longleftrightarrow> (\<exists>k. w' = ((\<lambda>w. snd (host_prng X w)) ^^ k) w)"

lemma prng_reach_refl [simp]: "prng_reach X w w"
  unfolding prng_reach_def by (rule exI [of _ 0]) simp

lemma prng_reach_step: "prng_reach X (snd (host_prng X w)) w' \<Longrightarrow> prng_reach X w w'"
  unfolding prng_reach_def by (metis comp_apply funpow_Suc_right)

lemma prng_reach_trans: "prng_reach X u v \<Longrightarrow> prng_reach X v w \<Longrightarrow> prng_reach X u w"
  unfolding prng_reach_def by (metis comp_apply funpow_add)

definition salts_only :: "'w ih_externals \<Rightarrow> 'w ih_state \<Rightarrow> 'w ih_state \<Rightarrow> bool" where
  "salts_only X s t \<longleftrightarrow> (\<exists>sa w. prng_reach X (ih_world s) w \<and> t = s\<lparr>ih_salt := sa, ih_world := w\<rparr>)"

lemma salts_only_refl [simp]: "salts_only X s s"
  unfolding salts_only_def by (intro exI [of _ "ih_salt s"] exI [of _ "ih_world s"]) simp

lemma salts_only_trans: "salts_only X s t \<Longrightarrow> salts_only X t u \<Longrightarrow> salts_only X s u"
  unfolding salts_only_def by clarsimp (blast intro: prng_reach_trans)

lemma salts_only_step: "salts_only X s (s\<lparr>ih_world := snd (host_prng X (ih_world s)), ih_salt := f\<rparr>)"
  unfolding salts_only_def
  by (intro exI [of _ f] exI [of _ "snd (host_prng X (ih_world s))"]) (simp add: prng_reach_step)

lemma create_beneficiary_OkD:
  assumes "create_beneficiary X i k n e c b a r s = Ok (q, t)"
  shows "salts_only X s t \<and> (\<forall>x. q = Inr x \<longrightarrow> b_allocation_bp x = a \<and> a \<noteq> 0 \<and> b_priority x = r)"
  using assms salts_only_step [of X s]
  by (auto simp: create_beneficiary_def generate_claim_salt_def Let_def split: if_splits outcome.splits prod.splits)

lemma create_or_fail_OkD:
  assumes "create_beneficiary_or_fail X i k n e c b a r s = Ok (x, t)"
  shows "salts_only X s t \<and> b_allocation_bp x = a \<and> a \<noteq> 0 \<and> b_priority x = r"
proof -
  obtain q v where q: "create_beneficiary X i k n e c b a r s = Ok (q, v)"
    and "(case q of Inl e \<Rightarrow> Err e | Inr y \<Rightarrow> Ok (y, v)) = Ok (x, t)"
    using assms by (auto simp: create_beneficiary_or_fail_def)
  then have "q = Inr x \<and> v = t" by (cases q) auto
  with create_beneficiary_OkD [OF q] show ?thesis by simp
qed

text \<open>The shares of the data, in order, are the shares of the beneficiaries.\<close>

definition data_bp :: "beneficiary_data \<Rightarrow> nat" where
  "data_bp d = (case d of (name, email, code, bank, bp, prio) \<Rightarrow> bp)"

lemma create_beneficiaries_loop:
  "fold_outcome (create_one X i) ds (bs, n, s) = Ok (bs', n', t) \<Longrightarrow>
   salts_only X s t \<and> map b_allocation_bp bs' = map b_allocation_bp bs @ map data_bp ds \<and>
   n' = n + sum_list (map data_bp ds) \<and> (\<forall>d \<in> set ds. data_bp d \<noteq> 0)"
proof (induction ds arbitrary: bs n s)
  case (Cons d ds)
  obtain nm em c bk bp pr where d: "d = (nm, em, c, bk, bp, pr)" by (cases d)
  from Cons.prems obtain x s1 where
    x: "create_beneficiary_or_fail X i (length bs) nm em c bk bp pr s = Ok (x, s1)"
    and rest: "fold_outcome (create_one X i) ds (bs @ [x], n + bp, s1) = Ok (bs', n', t)"
    by (auto simp: d)
  from create_or_fail_OkD [OF x] Cons.IH [OF rest] show ?case
    by (auto simp: d data_bp_def intro: salts_only_trans)
qed simp

lemma create_beneficiaries_OkD:
  assumes "create_beneficiaries X i ds s = Ok (bs, n, t)"
  shows "salts_only X s t" and "map b_allocation_bp bs = map data_bp ds" and "n = sum_list (map data_bp ds)"
    and "\<forall>d \<in> set ds. data_bp d \<noteq> 0"
  using create_beneficiaries_loop [OF assms [unfolded create_beneficiaries_def]] by simp_all

text \<open>Valid data are at most ten beneficiaries whose shares add up to the whole.\<close>

lemma validate_loop:
  "fold_outcome validate_one ds (n, ps, es) = Ok (n', ps', es') \<Longrightarrow> n' = n + sum_list (map data_bp ds)"
proof (induction ds arbitrary: n ps es)
  case (Cons d ds)
  obtain nm em c bk bp pr where d: "d = (nm, em, c, bk, bp, pr)" by (cases d)
  from Cons.prems have "fold_outcome validate_one ds (n + bp, ps @ [pr], es @ [em]) = Ok (n', ps', es')"
    by (auto simp: d checked_add_u32_def split: if_splits)
  from Cons.IH [OF this] show ?case by (simp add: d data_bp_def)
qed simp

lemma validate_OkD:
  "validate_beneficiaries ds = Ok u \<Longrightarrow> length ds \<le> 10 \<and> sum_list (map data_bp ds) = 10000"
  by (auto simp: validate_beneficiaries_def dest: validate_loop)

section \<open>Operations on plans\<close>

lemma ih_deposit_OkD:
  assumes "ih_deposit X cx u tk i n s = Ok t"
  obtains p v w where "t = exit_guard (ih_publish (VaultDepositEvent i n)
        (store_plan i (p\<lparr>pl_total_amount := pl_total_amount p + n\<rparr>)
          (s\<lparr>reentrancy_lock := Some True, ih_world := w\<rparr>)))"
    and "authorized cx u" and "ih_plan s i = Some p" and "pl_owner p = u" and "pl_token p = tk"
    and "pl_is_active p" and "ih_freeze s i = None" and "ih_legal_hold s i = None"
    and "ih_plan_vault s i = Some v" and "tok_transfer X tk u v (int n) (ih_world s) = Some w" and "0 < n"
    and "pl_total_amount p + n \<le> u64_max"
  using assms by (auto simp: ih_deposit_def require_plan_vault_def Let_def)

lemma ih_withdraw_OkD:
  assumes "ih_withdraw X cx u tk i n s = Ok t"
  obtains p v w e ev where "t = exit_guard (ih_publish (VaultWithdrawEvent i n)
        (store_plan i (p\<lparr>pl_total_amount := pl_total_amount p - n\<rparr>)
          (s\<lparr>reentrancy_lock := Some True, ih_emergency := e, ih_events := ev, ih_world := w\<rparr>)))"
    and "authorized cx u" and "ih_plan s i = Some p" and "pl_owner p = u" and "pl_token p = tk"
    and "ih_freeze s i = None" and "ih_legal_hold s i = None" and "n + pl_total_loaned p \<le> pl_total_amount p"
    and "ih_plan_vault s i = Some v" and "vault_release_call X v tk u n (ih_world s) = Some w" and "0 < n"
proof -
  let ?s = "s\<lparr>reentrancy_lock := Some True\<rparr>"
  obtain p s1 s2 v w where
    1: "check_emergency_limit cx i p n ?s = Ok s1" and 2: "check_emergency_limit cx i p n s1 = Ok s2"
    and t: "t = exit_guard (ih_publish (VaultWithdrawEvent i n)
        (store_plan i (p\<lparr>pl_total_amount := pl_total_amount p - n\<rparr>) (s2\<lparr>ih_world := w\<rparr>)))"
    and *: "authorized cx u" "ih_plan s i = Some p" "pl_owner p = u" "pl_token p = tk"
      "ih_freeze s i = None" "ih_legal_hold s i = None" "0 < n" "n \<le> pl_total_amount p - pl_total_loaned p"
      "n \<le> pl_total_amount p"
      "ih_plan_vault s2 i = Some v" "vault_release_call X v tk u n (ih_world s2) = Some w"
    using assms by (auto simp: ih_withdraw_def Let_def)
  obtain e ev where s2: "s2 = ?s\<lparr>ih_emergency := e, ih_events := ev\<rparr>"
    using expiry_only_trans [OF emergency_limit_OkD [OF 1] emergency_limit_OkD [OF 2]]
    by (auto simp: expiry_only_def)
  have "t = exit_guard (ih_publish (VaultWithdrawEvent i n) (store_plan i (p\<lparr>pl_total_amount := pl_total_amount p - n\<rparr>)
      (?s\<lparr>ih_emergency := e, ih_events := ev, ih_world := w\<rparr>)))" by (simp add: t s2)
  then show thesis by (rule that) (use * in \<open>simp_all add: s2\<close>)
qed

lemma pay_fee_world:
  "pay_creation_fee X tk u ad n s = s\<lparr>ih_world := ih_world (pay_creation_fee X tk u ad n s)\<rparr>"
  by (simp add: pay_creation_fee_def)

lemma pay_fee_cases:
  "ih_world (pay_creation_fee X tk u ad n s) = ih_world s \<or>
   tok_transfer X tk u ad (int n) (ih_world s) = Some (ih_world (pay_creation_fee X tk u ad n s))"
  by (cases "tok_transfer X tk u ad (int n) (ih_world s)") (simp_all add: pay_creation_fee_def)

lemma deploy_OkD:
  "deploy_plan_vault X cx i u s = Ok (v, t) \<Longrightarrow>
   \<exists>h w1 w2. host_deploy X h (plan_vault_salt i) (ih_world s) = Some (v, w1) \<and>
     vault_init_call X v (current_contract_address cx) u i w1 = Some w2 \<and>
     t = s\<lparr>ih_world := w2, ih_plan_vault := (ih_plan_vault s)(i \<mapsto> v)\<rparr>"
  by (auto simp: deploy_plan_vault_def store_plan_vault_def)

definition roles_and_guardians_only :: "'w ih_state \<Rightarrow> 'w ih_state \<Rightarrow> bool" where
  "roles_and_guardians_only s t \<longleftrightarrow> t\<lparr>roles_key := roles_key s, ih_guardians := ih_guardians s\<rparr> = s"

lemma roles_only_eq:
  "roles_and_guardians_only s t \<Longrightarrow> t = s\<lparr>roles_key := roles_key t, ih_guardians := ih_guardians t\<rparr>"
  unfolding roles_and_guardians_only_def by (cases s, cases t) simp

lemma roles_only_assign [simp]: "roles_and_guardians_only s (assign_role a r t) = roles_and_guardians_only s t"
  by (simp add: roles_and_guardians_only_def assign_role_def)

lemma register_guardians_OkD: "register_guardians i gs n s = Ok t \<Longrightarrow> roles_and_guardians_only s t"
proof -
  have loop: "roles_and_guardians_only s (fold (\<lambda>a. assign_role a RoleGuardian) gs v)"
    if "roles_and_guardians_only s v" for v
    using that by (induction gs arbitrary: v) simp_all
  have "roles_and_guardians_only s s" "roles_and_guardians_only s (s\<lparr>ih_guardians := f\<rparr>)" for f
    by (simp_all add: roles_and_guardians_only_def)
  then show "register_guardians i gs n s = Ok t \<Longrightarrow> roles_and_guardians_only s t"
    by (auto simp: register_guardians_def assign_role_all_def intro: loop split: if_splits)
qed

text \<open>The creation: fee, vault, net amount and beneficiaries, in this order.\<close>

lemma create_plan_OkD:
  assumes "create_inheritance_plan X cx params s = Ok (i, t)"
  obtains fee w1 v w2 w3 w4 w5 sa bs r gs where
    "authorized cx (cp_owner params)" and "i = get_next_plan_id s" and "i + 1 \<le> u64_max"
    and "fee = creation_fee (cp_total_amount params)" and "fee < cp_total_amount params"
    and "w1 = ih_world s \<or> (\<exists>ad. ih_admin s = Some ad \<and>
      tok_transfer X (cp_token params) (cp_owner params) ad (int fee) (ih_world s) = Some w1)"
    and "\<exists>h. host_deploy X h (plan_vault_salt i) w1 = Some (v, w2)"
    and "vault_init_call X v (current_contract_address cx) (cp_owner params) i w2 = Some w3"
    and "tok_transfer X (cp_token params) (cp_owner params) v (int (cp_total_amount params - fee)) w3 = Some w4"
    and "validate_beneficiaries (cp_beneficiaries_data params) = Ok ()"
    and "prng_reach X w4 w5"
    and "map b_allocation_bp bs = map data_bp (cp_beneficiaries_data params)"
    and "\<forall>d \<in> set (cp_beneficiaries_data params). data_bp d \<noteq> 0"
    and "ih_plan t = (ih_plan s)(i \<mapsto> \<lparr>pl_plan_name = cp_plan_name params, pl_description = cp_description params,
           pl_token = cp_token params, pl_asset_type = ''USDC'', pl_total_amount = cp_total_amount params - fee,
           pl_distribution_method = cp_distribution_method params, pl_beneficiaries = bs,
           pl_total_allocation_bp = sum_list (map data_bp (cp_beneficiaries_data params)),
           pl_owner = cp_owner params, pl_created_at = timestamp cx,
           pl_is_active = True, pl_is_lendable = cp_is_lendable params, pl_total_loaned = 0,
           pl_waterfall_enabled = False, pl_grace_period = 0, pl_earn_yield = False\<rparr>)"
    and "ih_plan_vault t = (ih_plan_vault s)(i \<mapsto> v)" and "ih_next_plan_id t = Some (i + 1)"
    and "ih_world t = w5" and "same_settled s t"
proof -
  let ?u = "cp_owner params" and ?tk = "cp_token params"
  let ?fee = "creation_fee (cp_total_amount params)" and ?s = "s\<lparr>reentrancy_lock := Some True\<rparr>"
  from assms obtain ad s3 v s4 w bs n s5 s6 where
    t: "t = exit_guard s6" and au: "authorized cx ?u" and ad: "ih_admin s = Some ad"
    and net: "?fee < cp_total_amount params"
    and inc: "increment_plan_id (pay_creation_fee X ?tk ?u ad ?fee ?s) = Ok (i, s3)"
    and dep: "deploy_plan_vault X cx i ?u s3 = Ok (v, s4)"
    and tr: "tok_transfer X ?tk ?u v (int (cp_total_amount params - ?fee)) (ih_world s4) = Some w"
    and val: "validate_beneficiaries (cp_beneficiaries_data params) = Ok ()"
    and ben: "create_beneficiaries X i (cp_beneficiaries_data params) (s4\<lparr>ih_world := w\<rparr>) = Ok (bs, n, s5)"
    and gua: "register_guardians i (cp_guardians params) (cp_guardian_threshold params)
      (assign_role ?u RoleOwner (add_plan_to_user ?u i (store_plan i
        \<lparr>pl_plan_name = cp_plan_name params, pl_description = cp_description params,
           pl_token = ?tk, pl_asset_type = ''USDC'', pl_total_amount = cp_total_amount params - ?fee,
           pl_distribution_method = cp_distribution_method params, pl_beneficiaries = bs,
           pl_total_allocation_bp = n, pl_owner = ?u, pl_created_at = timestamp cx,
           pl_is_active = True, pl_is_lendable = cp_is_lendable params, pl_total_loaned = 0,
           pl_waterfall_enabled = False, pl_grace_period = 0, pl_earn_yield = False\<rparr> s5))) = Ok s6"
    unfolding create_inheritance_plan_def Let_def and_then_eq_Ok
    by (elim exE conjE) (clarsimp simp del: increment_plan_id_eq_Ok)
  define w1 where "w1 = ih_world (pay_creation_fee X ?tk ?u ad ?fee ?s)"
  have s1: "pay_creation_fee X ?tk ?u ad ?fee ?s = ?s\<lparr>ih_world := w1\<rparr>" unfolding w1_def by (rule pay_fee_world)
  have i: "i = get_next_plan_id s" "i + 1 \<le> u64_max" and s3: "s3 = ?s\<lparr>ih_world := w1, ih_next_plan_id := Some (i + 1)\<rparr>"
    using inc by (auto simp: s1 get_next_plan_id_def)
  obtain h w2 w3 where dh: "host_deploy X h (plan_vault_salt i) w1 = Some (v, w2)"
    and di: "vault_init_call X v (current_contract_address cx) ?u i w2 = Some w3"
    and s4: "s4 = s3\<lparr>ih_world := w3, ih_plan_vault := (ih_plan_vault s)(i \<mapsto> v)\<rparr>"
    using deploy_OkD [OF dep] by (auto simp: s3)
  obtain sa w5 where pr: "prng_reach X w w5" and s5: "s5 = s4\<lparr>ih_salt := sa, ih_world := w5\<rparr>"
    using create_beneficiaries_OkD(1) [OF ben] by (auto simp: salts_only_def)
  obtain ro gu where s6: "s6 = (assign_role ?u RoleOwner (add_plan_to_user ?u i (store_plan i
        \<lparr>pl_plan_name = cp_plan_name params, pl_description = cp_description params,
           pl_token = ?tk, pl_asset_type = ''USDC'', pl_total_amount = cp_total_amount params - ?fee,
           pl_distribution_method = cp_distribution_method params, pl_beneficiaries = bs,
           pl_total_allocation_bp = n, pl_owner = ?u, pl_created_at = timestamp cx,
           pl_is_active = True, pl_is_lendable = cp_is_lendable params, pl_total_loaned = 0,
           pl_waterfall_enabled = False, pl_grace_period = 0, pl_earn_yield = False\<rparr> s5)))
        \<lparr>roles_key := ro, ih_guardians := gu\<rparr>"
    using roles_only_eq [OF register_guardians_OkD [OF gua]] by blast
  note fields = t s6 s5 s4 s3 exit_guard_def reentrancy_exit_def assign_role_def add_plan_to_user_def store_plan_def
  show thesis
  proof (rule that [of ?fee w1 v w2 w3 w w5 bs])
    show "w1 = ih_world s \<or> (\<exists>ad. ih_admin s = Some ad \<and>
        tok_transfer X ?tk ?u ad (int ?fee) (ih_world s) = Some w1)"
      using pay_fee_cases [of X ?tk ?u ad ?fee ?s] ad by (auto simp: w1_def)
    show "same_settled s t" by (simp add: t s6 s5 s4 s3)
  qed (use au i net dh di tr val pr create_beneficiaries_OkD(2-) [OF ben] in \<open>auto simp: fields\<close>)
qed

end
