(* ===== verification/Inherit_Shares.thy ===== *)
theory Inherit_Shares
  imports Inherit_Plans_Facts "HOL-Library.Multiset"
begin

text \<open>
  The shares of a plan's beneficiaries: the operations that change them keep their sum equal to the
  recorded total, which is at most the whole, and leave the money of the plan alone.
\<close>

section \<open>Removing by swapping\<close>

lemma mset_swap_remove:
  assumes "i < length xs"
  shows "mset (swap_remove i xs) = mset xs - {#xs ! i#}"
proof -
  have ne: "xs \<noteq> []" using assms by auto
  have last: "xs ! (length xs - 1) = last xs" using ne by (simp add: last_conv_nth)
  have drop: "mset (butlast ys) = mset ys - {#last ys#}" if "ys \<noteq> []" for ys :: "'a list"
    using that by (metis add_diff_cancel_right' append_butlast_last_id mset.simps mset_append)
  show ?thesis
  proof (cases "i = length xs - 1")
    case True
    then show ?thesis using drop [OF ne] last by (simp add: swap_remove_def)
  next
    case False
    let ?ys = "xs[i := last xs]"
    have "last ?ys = last xs" using False ne by (simp add: last_list_update)
    moreover have "mset ?ys = add_mset (last xs) (mset xs - {#xs ! i#})" using assms by (rule mset_update)
    ultimately show ?thesis using drop [of ?ys] False ne last by (simp add: swap_remove_def)
  qed
qed

lemma length_swap_remove: "i < length xs \<Longrightarrow> length (swap_remove i xs) = length xs - 1"
  by (simp add: swap_remove_def Let_def)

lemma sum_swap_remove:
  fixes f :: "'a \<Rightarrow> nat"
  assumes "i < length xs"
  shows "sum_list (map f (swap_remove i xs)) = sum_list (map f xs) - f (xs ! i)"
    and "f (xs ! i) \<le> sum_list (map f xs)"
proof -
  have "xs ! i \<in># mset xs" using assms by simp
  then have "mset xs = add_mset (xs ! i) (mset (swap_remove i xs))" by (simp add: mset_swap_remove [OF assms])
  then have "sum_mset (image_mset f (mset xs)) = f (xs ! i) + sum_mset (image_mset f (mset (swap_remove i xs)))"
    by simp
  then have "sum_list (map f xs) = f (xs ! i) + sum_list (map f (swap_remove i xs))"
    by (simp flip: sum_mset_sum_list)
  then show "sum_list (map f (swap_remove i xs)) = sum_list (map f xs) - f (xs ! i)"
    and "f (xs ! i) \<le> sum_list (map f xs)" by simp_all
qed

lemma set_swap_remove: "i < length xs \<Longrightarrow> set (swap_remove i xs) \<subseteq> set xs"
  using mset_swap_remove [of i xs] by (metis in_diffD set_mset_mset subsetI)

section \<open>Well-formed shares\<close>

definition shares_ok :: "inheritance_plan \<Rightarrow> bool" where
  "shares_ok p \<longleftrightarrow> length (pl_beneficiaries p) \<le> 10 \<and>
     sum_list (map b_allocation_bp (pl_beneficiaries p)) = pl_total_allocation_bp p \<and>
     pl_total_allocation_bp p \<le> 10000 \<and> (\<forall>b \<in> set (pl_beneficiaries p). b_allocation_bp b \<noteq> 0)"

text \<open>An operation on the plan \<open>i\<close> that may change its shares and draws salts, nothing else of interest.\<close>

definition reshares :: "'w ih_externals \<Rightarrow> 'w ih_state \<Rightarrow> 'w ih_state \<Rightarrow> bool" where
  "reshares X s t \<longleftrightarrow> (\<exists>i p q. ih_plan s i = Some p \<and> ih_plan t = (ih_plan s)(i \<mapsto> q) \<and>
     pl_token q = pl_token p \<and> pl_total_amount q = pl_total_amount p \<and> pl_total_loaned q = pl_total_loaned p \<and> (shares_ok p \<longrightarrow> shares_ok q) \<and>
     ih_plan_vault t = ih_plan_vault s \<and> ih_next_plan_id t = ih_next_plan_id s \<and>
     prng_reach X (ih_world s) (ih_world t) \<and> same_settled s t)"

lemma resharesI:
  assumes "ih_plan s i = Some p" and "salts_only X u v" and "ih_world u = ih_world s"
    and "ih_plan t = (ih_plan s)(i \<mapsto> q)" and "ih_plan_vault t = ih_plan_vault s"
    and "ih_next_plan_id t = ih_next_plan_id s" and "ih_world t = ih_world v" and "same_settled s t"
    and "pl_token q = pl_token p" and "pl_total_amount q = pl_total_amount p" and "pl_total_loaned q = pl_total_loaned p" and "shares_ok p \<Longrightarrow> shares_ok q"
  shows "reshares X s t"
  unfolding reshares_def using assms
  by (intro exI [of _ i] exI [of _ p] exI [of _ q]) (auto simp: salts_only_def)

lemma shares_ok_add:
  "shares_ok p \<Longrightarrow> length (pl_beneficiaries p) < 10 \<Longrightarrow> b_allocation_bp b \<noteq> 0 \<Longrightarrow>
   pl_total_allocation_bp p + b_allocation_bp b \<le> 10000 \<Longrightarrow> pl_beneficiaries q = pl_beneficiaries p @ [b] \<Longrightarrow>
   pl_total_allocation_bp q = pl_total_allocation_bp p + b_allocation_bp b \<Longrightarrow> shares_ok q"
  by (auto simp: shares_ok_def)

lemma shares_ok_remove:
  "shares_ok p \<Longrightarrow> k < length (pl_beneficiaries p) \<Longrightarrow>
   pl_beneficiaries q = swap_remove k (pl_beneficiaries p) \<Longrightarrow>
   pl_total_allocation_bp q = pl_total_allocation_bp p - b_allocation_bp (pl_beneficiaries p ! k) \<Longrightarrow> shares_ok q"
  using set_swap_remove [of k "pl_beneficiaries p"]
  by (auto simp: shares_ok_def length_swap_remove sum_swap_remove)

lemma shares_ok_replace:
  assumes "map b_allocation_bp bs = map data_bp ds" and "length ds \<le> 10" and "sum_list (map data_bp ds) = 10000"
    and "\<forall>d \<in> set ds. data_bp d \<noteq> 0" and "pl_beneficiaries q = bs" and "pl_total_allocation_bp q = 10000"
  shows "shares_ok q"
proof -
  have "length bs = length ds" using assms(1) map_eq_imp_length_eq by blast
  moreover have "b_allocation_bp b \<noteq> 0" if "b \<in> set bs" for b
    using that assms(1,4) by (metis (no_types, lifting) image_iff list.set_map)
  ultimately show ?thesis using assms by (simp add: shares_ok_def)
qed

section \<open>The operations\<close>

lemma reshares_add_beneficiary:
  assumes "add_beneficiary X cx u i b s = Ok t"
  shows "reshares X s t"
proof -
  let ?s = "s\<lparr>reentrancy_lock := Some True\<rparr>"
  from assms obtain p x v where
    *: "ih_plan s i = Some p" "length (pl_beneficiaries p) < 10"
      "pl_total_allocation_bp p + bi_allocation_bp b \<le> 10000"
    and c: "create_beneficiary_or_fail X i (length (pl_beneficiaries p)) (bi_name b) (bi_email b)
        (bi_claim_code b) (bi_bank_account b) (bi_allocation_bp b) (bi_priority b) ?s = Ok (x, v)"
    and t: "t = exit_guard (ih_publish (BeneficiaryAddedEvent i (b_hashed_email x) (bi_allocation_bp b))
        (store_plan i (p\<lparr>pl_beneficiaries := pl_beneficiaries p @ [x],
           pl_total_allocation_bp := pl_total_allocation_bp p + bi_allocation_bp b\<rparr>) v))"
    by (auto simp: add_beneficiary_def Let_def)
  note c = create_or_fail_OkD [OF c]
  then obtain sa w where v: "v = ?s\<lparr>ih_salt := sa, ih_world := w\<rparr>" by (auto simp: salts_only_def)
  show ?thesis
    by (rule resharesI [OF *(1) c [THEN conjunct1], where q = "p\<lparr>pl_beneficiaries := pl_beneficiaries p @ [x],
         pl_total_allocation_bp := pl_total_allocation_bp p + bi_allocation_bp b\<rparr>"])
      (use * c shares_ok_add [of p x] in \<open>simp_all add: t v ih_access\<close>)
qed

lemma reshares_remove_beneficiary:
  assumes "remove_beneficiary cx u i k s = Ok t"
  shows "reshares X s t"
proof -
  from assms obtain p where
    *: "ih_plan s i = Some p" "k < length (pl_beneficiaries p)"
    and t: "t = exit_guard (ih_publish (BeneficiaryRemovedEvent i k (b_allocation_bp (pl_beneficiaries p ! k)))
        (store_plan i (p\<lparr>pl_beneficiaries := swap_remove k (pl_beneficiaries p),
           pl_total_allocation_bp := pl_total_allocation_bp p - b_allocation_bp (pl_beneficiaries p ! k)\<rparr>)
          (s\<lparr>reentrancy_lock := Some True\<rparr>)))"
    by (auto simp: remove_beneficiary_def Let_def)
  show ?thesis
    by (rule resharesI [OF *(1) salts_only_refl refl, where q = "p\<lparr>pl_beneficiaries := swap_remove k (pl_beneficiaries p),
         pl_total_allocation_bp := pl_total_allocation_bp p - b_allocation_bp (pl_beneficiaries p ! k)\<rparr>"])
      (use * shares_ok_remove [of p k] in \<open>simp_all add: t ih_access\<close>)
qed

lemma reshares_update_plan:
  assumes "update_plan X cx u i ds g e s = Ok t"
  shows "reshares X s t"
proof -
  let ?s = "s\<lparr>reentrancy_lock := Some True\<rparr>"
  from assms obtain p bs n v where
    *: "ih_plan s i = Some p" "validate_beneficiaries ds = Ok ()"
    and c: "create_beneficiaries X i ds ?s = Ok (bs, n, v)"
    and t: "t = exit_guard (store_plan i (p\<lparr>pl_beneficiaries := bs, pl_total_allocation_bp := n,
           pl_grace_period := g, pl_earn_yield := e\<rparr>) v)"
    by (auto simp: update_plan_def Let_def)
  note c = create_beneficiaries_OkD [OF c] and val = validate_OkD [OF *(2)]
  then obtain sa w where v: "v = ?s\<lparr>ih_salt := sa, ih_world := w\<rparr>" by (auto simp: salts_only_def)
  show ?thesis
    by (rule resharesI [OF *(1) c(1), where q = "p\<lparr>pl_beneficiaries := bs, pl_total_allocation_bp := n,
         pl_grace_period := g, pl_earn_yield := e\<rparr>"]) (use c val in \<open>simp_all add: t v ih_access shares_ok_replace [of bs ds]\<close>)
qed

text \<open>The batches: a loop over the plan keeps what each pass keeps.\<close>

lemma batch_add_one_keeps:
  assumes "batch_add_one X i b (p, n, m, s) = Ok (q, n', m', t)"
  shows "salts_only X s t \<and> pl_token q = pl_token p \<and> pl_total_amount q = pl_total_amount p \<and> pl_total_loaned q = pl_total_loaned p \<and>
    (shares_ok p \<longrightarrow> shares_ok q)"
proof -
  show ?thesis
  proof (cases "length (pl_beneficiaries p) \<ge> 10 \<or> bi_allocation_bp b = 0 \<or>
      pl_total_allocation_bp p + bi_allocation_bp b > 10000")
    case True
    then show ?thesis using assms by (auto simp: batch_add_one_def split: if_splits)
  next
    case False
    then have new: "batch_add_one X i b (p, n, m, s) =
      and_then (create_beneficiary X i (length (pl_beneficiaries p)) (bi_name b) (bi_email b)
        (bi_claim_code b) (bi_bank_account b) (bi_allocation_bp b) (bi_priority b) s) (\<lambda>(x, s1).
        case x of
          Inr y \<Rightarrow> and_then (u32_add n 1) (\<lambda>n. Ok (p\<lparr>pl_total_allocation_bp :=
            pl_total_allocation_bp p + bi_allocation_bp b, pl_beneficiaries := pl_beneficiaries p @ [y]\<rparr>, n, m, s1))
        | Inl e \<Rightarrow> and_then (u32_add m 1) (\<lambda>m. Ok (p, n, m, s1)))"
      by (simp add: batch_add_one_def u32_add_def u32_max_def)
    show ?thesis
    proof (cases "create_beneficiary X i (length (pl_beneficiaries p)) (bi_name b) (bi_email b)
        (bi_claim_code b) (bi_bank_account b) (bi_allocation_bp b) (bi_priority b) s")
      case (Ok y)
      obtain x s1 where y: "y = (x, s1)" by (cases y)
      note made = create_beneficiary_OkD [OF Ok [unfolded y]] and run = assms [unfolded new Ok y]
      show ?thesis
      proof (cases x)
        case (Inr z)
        have q: "q = p\<lparr>pl_total_allocation_bp := pl_total_allocation_bp p + bi_allocation_bp b,
            pl_beneficiaries := pl_beneficiaries p @ [z]\<rparr>" and "s1 = t"
          using run Inr by auto
        have "shares_ok p \<Longrightarrow> shares_ok q"
          by (rule shares_ok_add [of p z]) (use made False Inr in \<open>simp_all add: q\<close>)
        then show ?thesis using made \<open>s1 = t\<close> by (simp add: q)
      qed (use made run in simp)
    qed (use assms in \<open>simp_all add: new\<close>)
  qed
qed

lemma batch_add_loop:
  "fold_outcome (batch_add_one X i) bs (p, n, m, s) = Ok (q, n', m', t) \<Longrightarrow>
   salts_only X s t \<and> pl_token q = pl_token p \<and> pl_total_amount q = pl_total_amount p \<and> pl_total_loaned q = pl_total_loaned p \<and>
   (shares_ok p \<longrightarrow> shares_ok q)"
proof (induction bs arbitrary: p n m s)
  case (Cons b bs)
  then obtain p1 n1 m1 s1 where 1: "batch_add_one X i b (p, n, m, s) = Ok (p1, n1, m1, s1)"
    and 2: "fold_outcome (batch_add_one X i) bs (p1, n1, m1, s1) = Ok (q, n', m', t)" by auto
  from batch_add_one_keeps [OF 1] Cons.IH [OF 2] show ?case by (auto intro: salts_only_trans)
qed simp

lemma reshares_batch_add:
  assumes "batch_add_beneficiaries X cx u i bs s = Ok (r, t)"
  shows "reshares X s t"
proof -
  from assms obtain p q n m v where
    p: "ih_plan s i = Some p" and loop: "fold_outcome (batch_add_one X i) bs (p, 0, 0, s) = Ok (q, n, m, v)"
    and t: "t = ih_publish (BatchBeneficiariesAddedEvent i n m) (store_plan i q v)"
    by (auto simp: batch_add_beneficiaries_def)
  note l = batch_add_loop [OF loop]
  then obtain sa w where v: "v = s\<lparr>ih_salt := sa, ih_world := w\<rparr>" by (auto simp: salts_only_def)
  show ?thesis
    by (rule resharesI [OF p, of X s v _ q]) (use l in \<open>simp_all add: t v ih_access\<close>)
qed

lemma batch_remove_loop:
  "fold_outcome batch_remove_one ks (p, n) = Ok (q, n') \<Longrightarrow>
   pl_token q = pl_token p \<and> pl_total_amount q = pl_total_amount p \<and> pl_total_loaned q = pl_total_loaned p \<and> (shares_ok p \<longrightarrow> shares_ok q)"
proof (induction ks arbitrary: p n)
  case (Cons k ks)
  then obtain p1 n1 where 1: "batch_remove_one k (p, n) = Ok (p1, n1)"
    and 2: "fold_outcome batch_remove_one ks (p1, n1) = Ok (q, n')" by auto
  have "pl_token p1 = pl_token p \<and> pl_total_amount p1 = pl_total_amount p \<and> pl_total_loaned p1 = pl_total_loaned p \<and> (shares_ok p \<longrightarrow> shares_ok p1)"
    using 1 shares_ok_remove [of p k] by (auto simp: batch_remove_one_def Let_def split: if_splits)
  with Cons.IH [OF 2] show ?case by simp
qed simp

lemma reshares_batch_remove:
  assumes "batch_remove_beneficiaries cx u i ks s = Ok (r, t)"
  shows "reshares X s t"
proof -
  from assms obtain p q n m where
    p: "ih_plan s i = Some p"
    and loop: "fold_outcome batch_remove_one (sort_descending (distinct_in_range (length (pl_beneficiaries p)) ks))
        (p, 0) = Ok (q, n)"
    and t: "t = ih_publish (BatchBeneficiariesRemovedEvent i n m) (store_plan i q s)"
    by (auto simp: batch_remove_beneficiaries_def Let_def)
  show ?thesis
    by (rule resharesI [OF p salts_only_refl refl, of _ q])
      (use batch_remove_loop [OF loop] in \<open>simp_all add: t ih_access\<close>)
qed

lemma sum_u32_eq: "sum_u32 xs = Ok n \<Longrightarrow> n = sum_list xs"
proof -
  have "fold_outcome (\<lambda>x acc. u32_add acc x) xs a = Ok n \<Longrightarrow> n = a + sum_list xs" for a
    by (induction xs arbitrary: a) (auto simp: add.assoc, fastforce simp: add.assoc)
  then show "sum_u32 xs = Ok n \<Longrightarrow> n = sum_list xs" by (fastforce simp: sum_u32_def)
qed

lemma reshares_batch_allocations:
  assumes "batch_update_allocations cx u i ns s = Ok t"
  shows "reshares X s t"
proof -
  let ?bs = "\<lambda>p. map2 (\<lambda>b bp. b\<lparr>b_allocation_bp := bp\<rparr>) (pl_beneficiaries p) ns"
  from assms obtain p m where
    *: "ih_plan s i = Some p" "length ns = length (pl_beneficiaries p)" "0 \<notin> set ns" "sum_u32 ns = Ok 10000"
    and t: "t = ih_publish (BatchAllocationsUpdatedEvent i m)
      (store_plan i (p\<lparr>pl_beneficiaries := ?bs p, pl_total_allocation_bp := 10000\<rparr>) s)"
    by (auto simp: batch_update_allocations_def Let_def)
  have bp: "map b_allocation_bp (?bs p) = ns" using *(2) by (intro nth_equalityI) simp_all
  have "b_allocation_bp b \<noteq> 0" if "b \<in> set (?bs p)" for b
    using that *(3) bp by (metis (no_types, lifting) image_eqI list.set_map)
  with bp *(2,4) have "shares_ok p \<Longrightarrow> shares_ok (p\<lparr>pl_beneficiaries := ?bs p, pl_total_allocation_bp := 10000\<rparr>)"
    by (auto simp: shares_ok_def dest: sum_u32_eq)
  then show ?thesis
    by (intro resharesI [OF *(1) salts_only_refl refl, of _ "p\<lparr>pl_beneficiaries := ?bs p, pl_total_allocation_bp := 10000\<rparr>"])
      (simp_all add: t ih_access)
qed

end
