(* ===== verification/Inherit_Claims_Facts.thy ===== *)
theory Inherit_Claims_Facts
  imports Inherit_Plans_Facts
begin

text \<open>
  What a claim did when it returned: the plan it read, the beneficiary it found, the amount released
  by the vault and the books it wrote; the same for one entry of a batch of claims.
\<close>

section \<open>The trigger a claim may start\<close>

text \<open>Trying the trigger of a plan writes the plan's own record, its trigger and the events.\<close>

definition trigger_only :: "nat \<Rightarrow> 'w ih_state \<Rightarrow> 'w ih_state \<Rightarrow> bool" where
  "trigger_only i s t \<longleftrightarrow> (\<exists>pl tr ev. t = s\<lparr>ih_plan := (ih_plan s)(i := pl), ih_trigger := tr, ih_events := ev\<rparr> \<and>
     dom (ih_trigger s) \<subseteq> dom tr)"

lemma trigger_only_refl: "trigger_only i s s"
  unfolding trigger_only_def
  by (intro exI [of _ "ih_plan s i"] exI [of _ "ih_trigger s"] exI [of _ "ih_events s"]) simp

lemma auto_trigger_OkD:
  assumes "auto_trigger_check cx i s = Ok t"
  shows "trigger_only i s t"
proof (cases "t = s")
  case False
  with assms obtain p where "t = ih_publish (InheritanceTriggeredEvent i (timestamp cx) (pl_total_loaned p))
      (ih_publish (TriggerConditionMetEvent i (timestamp cx)) (start_inheritance cx i p s))"
    by (auto simp: auto_trigger_check_def Let_def split: if_splits)
  then show ?thesis
    unfolding trigger_only_def
    by (intro exI [of _ "ih_plan t i"] exI [of _ "ih_trigger t"] exI [of _ "ih_events t"])
      (auto simp: start_inheritance_def set_trigger_info_def ih_access Let_def)
qed (simp add: trigger_only_refl)

lemma try_auto_OkD: "try_auto_trigger cx i s = Ok t \<Longrightarrow> trigger_only i s t"
  by (auto simp: try_auto_trigger_def intro: auto_trigger_OkD trigger_only_refl split: outcome.splits)

lemma attempt_OkD: "check_and_record_claim_attempt cx i u s = Ok t \<Longrightarrow> \<exists>f. t = s\<lparr>ih_attempts := f\<rparr>"
  by (auto simp: check_and_record_claim_attempt_def Let_def split: if_splits)

text \<open>The search reads only the salts.\<close>

lemma find_beneficiary_salts:
  "ih_salt s = ih_salt t \<Longrightarrow> find_beneficiary X s i e c k bs = find_beneficiary X t i e c k bs"
proof (induction bs arbitrary: k)
  case (Cons b bs)
  then obtain r where "find_beneficiary X s i e c (k + 1) bs = r" "find_beneficiary X t i e c (k + 1) bs = r"
    by blast
  then show ?case using Cons.prems by (simp add: Let_def cong: if_cong)
qed simp

text \<open>It finds a beneficiary with that email whose code is the given one under the salt of the index.\<close>

lemma find_beneficiary_index:
  "find_beneficiary X s i e c k bs = Ok (Some j) \<Longrightarrow>
   k \<le> j \<and> j < k + length bs \<and> b_hashed_email (bs ! (j - k)) = e \<and>
   hash_claim_code_with_salt X c (unwrap_or zero_salt (ih_salt s (i, j))) = Ok (b_hashed_claim_code (bs ! (j - k)))"
proof (induction bs arbitrary: k)
  case (Cons b bs)
  have found: "(if b_hashed_email b \<noteq> e then find_beneficiary X s i e c (k + 1) bs
      else and_then (hash_claim_code_with_salt X c (unwrap_or zero_salt (ih_salt s (i, k)))) (\<lambda>h.
        if b_hashed_claim_code b = h then Ok (Some k) else find_beneficiary X s i e c (k + 1) bs)) = Ok (Some j)"
    using Cons.prems by (simp only: find_beneficiary.simps Let_def)
  show ?case
  proof (cases "find_beneficiary X s i e c (k + 1) bs = Ok (Some j)")
    case True
    note this = Cons.IH [OF this]
    moreover from this have "k + 1 \<le> j" by blast
    then have "j - k = Suc (j - (k + 1))" by arith
    ultimately show ?thesis by simp
  next
    case False
    with found have "b_hashed_email b = e" by (simp split: if_splits)
    moreover from this found False obtain h where
      "hash_claim_code_with_salt X c (unwrap_or zero_salt (ih_salt s (i, k))) = Ok h"
      "b_hashed_claim_code b = h" "k = j" by (auto simp del: find_beneficiary.simps split: if_splits)
    ultimately show ?thesis by simp
  qed
qed simp

section \<open>A claim\<close>

text \<open>What a claim of the beneficiary \<open>k\<close> pays: the payout, bounded by an open exit settlement.\<close>

definition claim_payout :: "'w ih_state \<Rightarrow> nat \<Rightarrow> inheritance_plan \<Rightarrow> nat \<Rightarrow> nat" where
  "claim_payout s i p k =
     (let n = calculate_waterfall_payout p k; ex = get_vesting_exit_settlement s i k
      in if ex > 0 then min n ex else n)"

lemma claim_payout_le: "claim_payout s i p k \<le> pl_total_amount p"
  by (auto simp: claim_payout_def calculate_waterfall_payout_def Let_def)

definition claim_final :: "'w ih_state \<Rightarrow> nat \<Rightarrow> inheritance_plan \<Rightarrow> nat \<Rightarrow> bool" where
  "claim_final s i p k \<longleftrightarrow>
     (let ex = get_vesting_exit_settlement s i k in ex = 0 \<or> saturating_sub ex (claim_payout s i p k) = 0)"

definition claimed_plan :: "'w ih_state \<Rightarrow> nat \<Rightarrow> inheritance_plan \<Rightarrow> nat \<Rightarrow> inheritance_plan" where
  "claimed_plan s i p k =
     (let b = pl_beneficiaries p ! k in
      p\<lparr>pl_beneficiaries := (pl_beneficiaries p)[k := if claim_final s i p k then b\<lparr>b_is_claimed := True\<rparr> else b],
        pl_total_amount := pl_total_amount p - claim_payout s i p k\<rparr>)"

text \<open>The two books of a plan's claims and the events of a payment are outside the rest.\<close>

lemma claimed_list_fields [simp]:
  "ih_world (add_plan_to_claimed u i s) = ih_world s" "ih_plan (add_plan_to_claimed u i s) = ih_plan s"
  "ih_claim (add_plan_to_claimed u i s) = ih_claim s" "ih_next_plan_id (add_plan_to_claimed u i s) = ih_next_plan_id s"
  "ih_plan_vault (add_plan_to_claimed u i s) = ih_plan_vault s"
  "same_settled r (add_plan_to_claimed u i s) = same_settled r s"
  by (simp_all add: add_plan_to_claimed_def Let_def)

lemma claim_events_fields [simp]:
  "ih_world (claim_events i p k e n s) = ih_world s" "ih_plan (claim_events i p k e n s) = ih_plan s"
  "ih_claim (claim_events i p k e n s) = ih_claim s" "ih_next_plan_id (claim_events i p k e n s) = ih_next_plan_id s"
  "ih_plan_vault (claim_events i p k e n s) = ih_plan_vault s"
  "same_settled r (claim_events i p k e n s) = same_settled r s"
  by (simp_all add: claim_events_def ih_publish_def Let_def)

lemma finish_claim_fields [simp]:
  "ih_world (finish_claim cx i p k n ex key s) = ih_world s"
  "ih_next_plan_id (finish_claim cx i p k n ex key s) = ih_next_plan_id s"
  "ih_plan_vault (finish_claim cx i p k n ex key s) = ih_plan_vault s"
  by (simp_all add: finish_claim_def store_plan_def Let_def)

lemma same_settled_claims: "same_settled s t \<Longrightarrow> same_settled (s\<lparr>ih_claim := f\<rparr>) (t\<lparr>ih_claim := f\<rparr>)"
  by (simp add: same_settled_def)

lemma finish_claim_settled:
  "same_settled s t \<Longrightarrow> same_settled (s\<lparr>ih_claim := ih_claim (finish_claim cx i p k n ex key t)\<rparr>)
     (finish_claim cx i p k n ex key t)"
  by (simp add: finish_claim_def store_plan_def Let_def same_settled_claims) (simp add: same_settled_def)

lemma claim_OkD:
  assumes "claim_inheritance_plan X cx i c email code s = Ok t"
  obtains p e k v n where
    "authorized cx c" and "\<not> is_blacklisted s c" and "ih_plan s i = Some p" and "pl_is_active p"
    and "ih_freeze s i = None" and "ih_legal_hold s i = None"
    and "hash_string X email = Ok e" and "ih_claim s (claim_key X i e) = None"
    and "find_beneficiary X s i e code 0 (take MAX_BENEFICIARIES (pl_beneficiaries p)) = Ok (Some k)"
    and "n = claim_payout s i p k" and "n \<noteq> 0"
    and "ih_plan_vault s i = Some v"
    and "vault_release_call X v (pl_token p) c n (ih_world s) = Some (ih_world t)"
    and "ih_plan t = (ih_plan s)(i \<mapsto> claimed_plan s i p k)"
    and "ih_claim t = (if claim_final s i p k then (ih_claim s)(claim_key X i e \<mapsto>
           \<lparr>cr_plan_id = i, cr_beneficiary_index = k, cr_claimed_at = timestamp cx\<rparr>) else ih_claim s)"
    and "ih_plan_vault t = ih_plan_vault s" and "ih_next_plan_id t = ih_next_plan_id s"
    and "same_settled (s\<lparr>ih_claim := ih_claim t\<rparr>) t"
proof -
  let ?s = "s\<lparr>reentrancy_lock := Some True\<rparr>"
  from assms obtain p s1 s2 e k s3 s4 where
    *: "authorized cx c" "\<not> is_blacklisted s c" "ih_plan s i = Some p" "pl_is_active p"
      "ih_freeze s i = None" "ih_legal_hold s i = None" "hash_string X email = Ok e"
      "ih_claim s2 (claim_key X i e) = None"
      "find_beneficiary X s2 i e code 0 (take MAX_BENEFICIARIES (pl_beneficiaries p)) = Ok (Some k)"
    and n: "claim_payout s2 i p k \<noteq> 0"
    and 1: "check_and_record_claim_attempt cx i c ?s = Ok s1" and 2: "try_auto_trigger cx i s1 = Ok s2"
    and 3: "check_emergency_limit cx i p (claim_payout s2 i p k) s2 = Ok s3"
    and 4: "release_from_plan_vault X i (pl_token p) c (claim_payout s2 i p k) s3 = Ok s4"
    and t: "t = guard_drop (exit_guard (claim_events i p k e (claim_payout s2 i p k) (assign_role c RoleBeneficiary
      (finish_claim cx i p k (claim_payout s2 i p k) (get_vesting_exit_settlement s2 i k) (claim_key X i e) s4))))"
    unfolding claim_inheritance_plan_def Let_def and_then_eq_Ok claim_payout_def
    by (elim exE conjE) (clarsimp simp: guard_lock_or_panic_def split: if_splits)
  obtain f where s1: "s1 = ?s\<lparr>ih_attempts := f\<rparr>" using attempt_OkD [OF 1] by blast
  obtain pl tr ev where s2: "s2 = s1\<lparr>ih_plan := (ih_plan s)(i := pl), ih_trigger := tr, ih_events := ev\<rparr>"
    and tr: "dom (ih_trigger s) \<subseteq> dom tr"
    using try_auto_OkD [OF 2] by (auto simp: trigger_only_def s1)
  obtain em ev' where s3: "s3 = s2\<lparr>ih_emergency := em, ih_events := ev'\<rparr>"
    using emergency_limit_OkD [OF 3] by (auto simp: expiry_only_def)
  have same: "claim_payout s2 i p k = claim_payout s i p k"
    "get_vesting_exit_settlement s2 i k = get_vesting_exit_settlement s i k"
    by (simp_all add: claim_payout_def get_vesting_exit_settlement_def s2 s1)
  obtain v w where v: "ih_plan_vault s i = Some v"
    and w: "vault_release_call X v (pl_token p) c (claim_payout s i p k) (ih_world s) = Some w"
    and s4: "s4 = s3\<lparr>ih_world := w\<rparr>"
    using 4 by (auto simp: same(1)) (simp add: s3 s2 s1)
  have find: "find_beneficiary X s i e code 0 (take MAX_BENEFICIARIES (pl_beneficiaries p)) = Ok (Some k)"
    using *(9) find_beneficiary_salts [of s2 s X i e code 0] by (simp add: s2 s1)
  let ?f = "finish_claim cx i p k (claim_payout s i p k) (get_vesting_exit_settlement s i k) (claim_key X i e) s4"
  have settled: "same_settled s s4" using tr by (simp add: s4 s3 s2 s1 same_settled_def)
  have t: "ih_plan t = ih_plan ?f" "ih_claim t = ih_claim ?f" "ih_world t = w"
    "ih_plan_vault t = ih_plan_vault s" "ih_next_plan_id t = ih_next_plan_id s" "same_settled r t = same_settled r ?f" for r
    by (simp_all add: t [unfolded same] guard_drop_def exit_guard_def reentrancy_exit_def assign_role_def s4 s3 s2 s1)
  have books: "ih_plan ?f = (ih_plan s)(i \<mapsto> claimed_plan s i p k)"
    "ih_claim ?f = (if claim_final s i p k then (ih_claim s)(claim_key X i e \<mapsto>
       \<lparr>cr_plan_id = i, cr_beneficiary_index = k, cr_claimed_at = timestamp cx\<rparr>) else ih_claim s)"
    by (simp_all add: finish_claim_def claim_final_def claimed_plan_def store_plan_def Let_def s4 s3 s2 s1)
  show thesis
  proof (rule that [OF *(1-7) _ find refl])
    show "same_settled (s\<lparr>ih_claim := ih_claim t\<rparr>) t" by (simp add: t finish_claim_settled settled)
    show "ih_claim s (claim_key X i e) = None" using *(8) by (simp add: s2 s1)
    show "claim_payout s i p k \<noteq> 0" using n by (simp add: same)
  qed (use v w books in \<open>simp_all add: t\<close>)
qed

section \<open>The batch of claims\<close>

text \<open>The batch lowers totals and records claims; it moves nothing and settles nothing else.\<close>

definition lowered :: "inheritance_plan \<Rightarrow> inheritance_plan \<Rightarrow> bool" where
  "lowered p q \<longleftrightarrow> pl_token q = pl_token p \<and> pl_total_amount q \<le> pl_total_amount p \<and>
     pl_total_allocation_bp q = pl_total_allocation_bp p \<and>
     map b_allocation_bp (pl_beneficiaries q) = map b_allocation_bp (pl_beneficiaries p)"

definition pays_down :: "'w ih_state \<Rightarrow> 'w ih_state \<Rightarrow> bool" where
  "pays_down s t \<longleftrightarrow> (\<forall>j. rel_option lowered (ih_plan s j) (ih_plan t j)) \<and> ih_world t = ih_world s \<and>
     ih_plan_vault t = ih_plan_vault s \<and> ih_next_plan_id t = ih_next_plan_id s \<and>
     ih_claim s \<subseteq>\<^sub>m ih_claim t \<and> same_settled (s\<lparr>ih_claim := ih_claim t\<rparr>) t \<and>
     (unowed s \<longrightarrow> unowed t)"

lemma lowered_trans: "lowered p q \<Longrightarrow> lowered q r \<Longrightarrow> lowered p r"
  by (simp add: lowered_def)

lemma pays_down_trans:
  assumes "pays_down s t" "pays_down t u"
  shows "pays_down s u"
proof -
  have "rel_option lowered (ih_plan s j) (ih_plan u j)" for j
  proof -
    have "rel_option lowered (ih_plan s j) (ih_plan t j)" "rel_option lowered (ih_plan t j) (ih_plan u j)"
      using assms unfolding pays_down_def by blast+
    then show ?thesis
      by (cases "ih_plan s j"; cases "ih_plan t j"; cases "ih_plan u j") (auto intro: lowered_trans)
  qed
  moreover have "ih_claim s \<subseteq>\<^sub>m ih_claim u" using assms by (auto simp: pays_down_def intro: map_le_trans)
  moreover have "dom (ih_trigger s) \<subseteq> dom (ih_trigger t)" "dom (ih_trigger t) \<subseteq> dom (ih_trigger u)"
    using assms by (simp_all add: pays_down_def same_settled_def)
  then have "dom (ih_trigger s) \<subseteq> dom (ih_trigger u)" by (rule subset_trans)
  then have "same_settled (s\<lparr>ih_claim := ih_claim u\<rparr>) u" using assms by (simp add: pays_down_def same_settled_def)
  ultimately show ?thesis using assms by (simp add: pays_down_def)
qed

lemma pays_down_quiet:
  assumes "quiet s t"
  shows "pays_down s t"
proof -
  have "rel_option lowered (ih_plan s j) (ih_plan t j)" for j
  proof -
    have "plan_books t j = plan_books s j" using assms by (simp add: quiet_def same_holdings_def)
    then show ?thesis
      by (cases "ih_plan s j"; cases "ih_plan t j") (simp_all add: plan_books_def holdings_def lowered_def)
  qed
  then show ?thesis using assms
    by (simp add: pays_down_def quiet_def same_holdings_def same_settled_def map_le_def)
qed

lemma quiet_attempt: "check_and_record_claim_attempt cx i u s = Ok t \<Longrightarrow> quiet s t"
  by (auto dest: attempt_OkD)

lemma quiet_expiry: "expiry_only s t \<Longrightarrow> quiet s t"
  by (auto simp: expiry_only_def)

text \<open>The books of one paid entry.\<close>

lemma pays_down_entry:
  assumes "quiet s v" and "ih_plan s i = Some p" and "ih_claim s key = None" and "ih_plan v = ih_plan s"
  shows "pays_down s (ih_publish ev (add_plan_to_claimed u i (store_plan i
    (p\<lparr>pl_total_amount := saturating_sub (pl_total_amount p) n\<rparr>) (v\<lparr>ih_claim := (ih_claim v)(key \<mapsto> c)\<rparr>))))"
    (is "pays_down s ?t")
proof -
  have plan: "ih_plan ?t = (ih_plan s)(i \<mapsto> p\<lparr>pl_total_amount := pl_total_amount p - n\<rparr>)"
    using assms by (simp add: ih_publish_def store_plan_def)
  have "rel_option lowered (ih_plan s j) (ih_plan ?t j)" for j
    using assms(2) unfolding plan by (cases "ih_plan s j") (auto simp: lowered_def)
  moreover have "ih_claim ?t = (ih_claim s)(key \<mapsto> c)" "ih_world ?t = ih_world s"
    "ih_plan_vault ?t = ih_plan_vault s" "ih_next_plan_id ?t = ih_next_plan_id s"
    using assms(1) by (simp_all add: ih_publish_def store_plan_def quiet_def same_holdings_def same_settled_def)
  moreover have "same_settled (s\<lparr>ih_claim := (ih_claim s)(key \<mapsto> c)\<rparr>) ?t"
    using assms(1) by (simp add: quiet_def same_settled_def ih_publish_def store_plan_def add_plan_to_claimed_def Let_def)
  moreover have "ih_claim s \<subseteq>\<^sub>m (ih_claim s)(key \<mapsto> c)" using assms(3) by (auto simp: map_le_def)
  moreover have "unowed ?t" if "unowed s"
    by (rule unowed_update [OF that plan]) (use unowed_plan [OF that assms(2)] in simp)
  ultimately show ?thesis by (simp add: pays_down_def)
qed

text \<open>An entry whose beneficiary was found: it fails at the emergency limit or it is paid.\<close>

lemma pays_down_found:
  assumes p: "ih_plan s i = Some p" and free: "ih_claim s key = None"
    and active: "is_emergency_active cx i s = Ok (r, v)"
    and t: "t = v \<or> t = ih_publish ev (add_plan_to_claimed u i (store_plan i
      (p\<lparr>pl_total_amount := saturating_sub (pl_total_amount p) n\<rparr>) (v\<lparr>ih_claim := (ih_claim v)(key \<mapsto> c)\<rparr>)))"
  shows "pays_down s t"
proof -
  have "quiet s v" "ih_plan v = ih_plan s" using emergency_active_OkD [OF active] by (auto simp: expiry_only_def)
  from t pays_down_entry [OF this(1) p free this(2)] pays_down_quiet [OF this(1)] show ?thesis by auto
qed

lemma batch_claim_one_OkD:
  assumes "batch_claim_one X cx i (c, email, code) (a, b, s) = Ok (a', b', t)"
  shows "pays_down s t"
proof (cases "check_and_record_claim_attempt cx i c s")
  case (Ok s1)
  have s1: "pays_down s s1" by (rule pays_down_quiet [OF quiet_attempt [OF Ok]])
  have self: "pays_down s s" by (simp add: pays_down_quiet)
  note run = assms [unfolded batch_claim_one_def Let_def prod.case and_then_eq_Ok Ok outcome.case]
  show ?thesis
  proof (cases "ih_require_not_blacklisted s c = Ok () \<and> check_kyc_approved s1 c = Ok ()")
    case kyc: True
    with run obtain e where e: "hash_string X email = Ok e" by (auto split: if_splits)
    let ?key = "claim_key X i e"
    show ?thesis
    proof (cases "\<exists>p k. ih_claim s1 ?key = None \<and> ih_plan s1 i = Some p \<and>
        find_beneficiary X s1 i e code 0 (pl_beneficiaries p) = Ok (Some k)")
      case True
      then obtain p k where found: "ih_claim s1 ?key = None" "ih_plan s1 i = Some p"
          "find_beneficiary X s1 i e code 0 (pl_beneficiaries p) = Ok (Some k)" by blast
      let ?n = "entitlement p (pl_beneficiaries p ! k)"
      from run e found kyc obtain active s2 where "is_emergency_active cx i s1 = Ok (active, s2)"
        and "t = s2 \<or> t = ih_publish (ClaimSuccess i e ?n) (add_plan_to_claimed (pl_owner p) i
          (store_plan i (p\<lparr>pl_total_amount := saturating_sub (pl_total_amount p) ?n\<rparr>)
            (s2\<lparr>ih_claim := (ih_claim s2)(?key \<mapsto>
              \<lparr>cr_plan_id = i, cr_beneficiary_index = k, cr_claimed_at = timestamp cx\<rparr>)\<rparr>)))"
        by (auto simp: get_plan_def split: if_splits)
      from pays_down_trans [OF s1 pays_down_found [OF found(2,1) this]] show ?thesis .
    qed (use run e kyc s1 in \<open>auto simp: get_plan_def split: if_splits outcome.splits option.splits\<close>)
  qed (use run self s1 in \<open>auto split: if_splits\<close>)
qed (use assms in \<open>auto simp: batch_claim_one_def pays_down_quiet split: if_splits\<close>)

lemma batch_claim_OkD:
  assumes "batch_claim X cx i cs s = Ok (r, t)"
  obtains p where "ih_plan s i = Some p" and "pl_is_active p" and "ih_freeze s i = None"
    and "ih_legal_hold s i = None" and "pays_down s t"
proof -
  let ?s = "s\<lparr>reentrancy_lock := Some True\<rparr>"
  from assms obtain p s1 a b s2 where p: "ih_plan s i = Some p" "pl_is_active p"
    and 1: "try_auto_trigger cx i ?s = Ok s1" and hold: "ih_freeze s1 i = None" "ih_legal_hold s1 i = None"
    and loop: "fold_outcome (batch_claim_one X cx i) cs (0, 0, s1) = Ok (a, b, s2)"
    and t: "t = exit_guard (ih_publish (BatchClaimEvent i a b) s2)"
    unfolding batch_claim_def Let_def and_then_eq_Ok by (elim exE conjE) (clarsimp)
  have "pays_down s1 (snd (snd (a, b, s2)))"
    by (rule fold_outcome_invariant [OF loop])
      (auto simp: pays_down_quiet elim: pays_down_trans [OF _ batch_claim_one_OkD])
  moreover have "quiet s s1" using quiet_try_auto [OF 1] by (simp add: quiet_unlocked)
  moreover have "quiet s2 t" by (simp add: t)
  ultimately have "pays_down s t" by (metis pays_down_quiet pays_down_trans snd_conv)
  moreover have "ih_freeze s i = None" "ih_legal_hold s i = None"
    using hold try_auto_OkD [OF 1] by (auto simp: trigger_only_def)
  ultimately show thesis using p by (intro that)
qed

text \<open>Writing off what the liquidation could not recover lowers a total too; no other trigger call does.\<close>

lemma pays_down_liquidation:
  assumes "liquidation_fallback cx ad i s = Ok t"
  shows "pays_down s t"
proof -
  obtain p ti ev where p: "ih_plan s i = Some p" and t: "t = ih_publish ev (set_trigger_info i ti (store_plan i
      (p\<lparr>pl_total_amount := saturating_sub (pl_total_amount p) (pl_total_loaned p), pl_total_loaned := 0\<rparr>) s))"
    using assms by (auto simp: liquidation_fallback_def Let_def)
  have plan: "ih_plan t = (ih_plan s)(i \<mapsto>
      p\<lparr>pl_total_amount := saturating_sub (pl_total_amount p) (pl_total_loaned p), pl_total_loaned := 0\<rparr>)"
    by (simp add: t ih_access)
  have "rel_option lowered (ih_plan s j) (((ih_plan s)(i \<mapsto>
      p\<lparr>pl_total_amount := saturating_sub (pl_total_amount p) (pl_total_loaned p), pl_total_loaned := 0\<rparr>)) j)" for j
    using p by (cases "ih_plan s j") (auto simp: lowered_def)
  moreover have "same_settled s t" "ih_world t = ih_world s" "ih_plan_vault t = ih_plan_vault s"
    "ih_next_plan_id t = ih_next_plan_id s" by (simp add: t) (simp_all add: t ih_access)
  moreover have "unowed t" if "unowed s" by (rule unowed_update [OF that plan]) simp
  ultimately show ?thesis by (simp add: pays_down_def same_settled_def plan)
qed

lemma pays_down_run_trigger:
  assumes "run_trigger cx c s = Ok t"
  shows "pays_down s t"
  using assms by (cases c) (auto intro: pays_down_quiet pays_down_liquidation frame)

end
