(* ===== verification/Inherit_Yield_Facts.thy ===== *)
theory Inherit_Yield_Facts
  imports Inherit_Frame
begin

text \<open>
  What a harvest did: it failed before the claim at the pool, it failed after it and kept the pool's
  payment, or it succeeded and credited the net yield to the plan or to its pending credit.
\<close>

lemma or_report_OkD:
  assumes "or_report v m f = Ok (r, t)"
  obtains (ok) x where "m = Ok x" and "f x = Ok (r, t)" | (failed) e where "m = Err e" and "r = Inl e" and "t = v"
  using assms by (cases m) (auto simp: or_report_def)

lemma same_settled_world [simp]: "same_settled s (t\<lparr>ih_world := w\<rparr>) = same_settled s t"
  by (simp add: same_settled_def)

text \<open>The books of a successful harvest of \<open>gross\<close>, of which \<open>net\<close> is the plan's.\<close>

definition harvest_books ::
  "ctx \<Rightarrow> address \<Rightarrow> nat \<Rightarrow> inheritance_plan \<Rightarrow> plan_yield_state \<Rightarrow> nat \<Rightarrow> nat \<Rightarrow> nat \<Rightarrow>
   'w ih_state \<Rightarrow> 'w ih_state \<Rightarrow> bool" where
  "harvest_books cx u i p st gross net fee s t \<longleftrightarrow>
     ih_plan t = (if yc_auto_compound (yst_config st)
                  then (ih_plan s)(i \<mapsto> p\<lparr>pl_total_amount := pl_total_amount p + net\<rparr>) else ih_plan s) \<and>
     ih_yield t = (ih_yield s)(i \<mapsto> harvested_state cx u gross net fee (st\<lparr>yst_pending_credit :=
       (if yc_auto_compound (yst_config st) then yst_pending_credit st else yst_pending_credit st + net)\<rparr>)) \<and>
     (yc_auto_compound (yst_config st) \<longrightarrow> pl_total_amount p + net \<le> u64_max) \<and>
     ih_plan_vault t = ih_plan_vault s \<and> ih_next_plan_id t = ih_next_plan_id s \<and> same_settled s t"

lemma harvest_inner_OkD:
  assumes "harvest_yield_inner X cx u i s = Ok (r, t)"
  obtains (failed) e where "r = Inl e" and "t = s"
  | (kept) e c g w where "r = Inl e" and "ih_lending s = Some c"
      and "pool_claim X c (current_contract_address cx) i (ih_world s) = Some (g, w)" and "t = s\<lparr>ih_world := w\<rparr>"
  | (harvested) p st c gross net fee where "r = Inr gross" and "harvest_checks X cx u i s = Ok (p, st)"
      and "ih_lending s = Some c" and "gross \<noteq> 0"
      and "pool_claim X c (current_contract_address cx) i (ih_world s) = Some (gross, ih_world t)"
      and "split_performance_fee gross (yc_performance_fee_bp (yst_config st)) = Ok (net, fee)"
      and "harvest_books cx u i p st gross net fee s t"
proof -
  note run = assms [unfolded harvest_yield_inner_def Let_def]
  show thesis
  proof (cases rule: or_report_OkD [OF run, case_names ok1 err1])
    case (ok1 x)
    obtain p st where x: "x = (p, st)" by (cases x)
    note run = ok1(2) [unfolded x prod.case]
    show thesis
    proof (cases rule: or_report_OkD [OF run, case_names ok2 err2])
      case (ok2 y)
      obtain gross w where y: "y = (gross, w)" by (cases y)
      let ?s = "s\<lparr>ih_world := w\<rparr>"
      obtain c where c: "ih_lending s = Some c"
        "pool_claim X c (current_contract_address cx) i (ih_world s) = Some (gross, w)"
        using ok2(1) by (auto simp: y invoke_lending_contract_def require_lending_contract_def get_lending_contract_def)
      note kept = kept [OF _ c]
      note run = ok2(2) [unfolded y prod.case]
      show thesis
      proof (cases "\<exists>e. r = Inl e \<and> t = ?s")
        case False
        from run False obtain z where gross: "gross \<noteq> 0" and
          split: "split_performance_fee gross (yc_performance_fee_bp (yst_config st)) = Ok z"
          by (elim or_report_OkD) auto
        obtain net fee where z: "z = (net, fee)" by (cases z)
        note run = run [unfolded split [unfolded z] gross, simplified]
        from run False obtain total credit where "r = Inr gross" and sums: "(if yc_auto_compound (yst_config st) then safe_add (pl_total_amount p) net
              else Ok (pl_total_amount p)) = Ok total"
            "(if yc_auto_compound (yst_config st) then Ok (yst_pending_credit st)
              else safe_add (yst_pending_credit st) net) = Ok credit"
          and t: "t = ih_publish (YieldHarvestedEvent i gross total (timestamp cx)) (
            let v = set_yield_state i (harvested_state cx u gross net fee (st\<lparr>yst_pending_credit := credit\<rparr>))
              (if yc_auto_compound (yst_config st) then store_plan i (p\<lparr>pl_total_amount := total\<rparr>) ?s else ?s)
            in if fee > 0 then ih_publish (YieldFeeCollectedEvent i gross fee
              (yc_performance_fee_bp (yst_config st))) v else v)"
          by (auto simp: Let_def gross elim!: or_report_OkD)
        moreover have "harvest_books cx u i p st gross net fee s t" "ih_world t = w"
          using sums by (auto simp: t harvest_books_def set_yield_state_def store_plan_def ih_publish_def Let_def
              split: if_splits)
        ultimately show thesis using harvested ok1(1) c gross split by (simp add: x z)
      qed (use kept in blast)
    qed (use failed in blast)
  qed (use failed in blast)
qed

text \<open>One plan of a batch: its inner harvest, whatever it reported.\<close>

lemma harvest_batch_one_OkD:
  assumes "harvest_batch_one X cx u i x = Ok y"
  obtains r where "harvest_yield_inner X cx u i (snd (snd (snd x))) = Ok (r, snd (snd (snd y)))"
proof -
  obtain a b n s where x: "x = (a, b, n, s)" by (cases x)
  obtain q v where inner: "harvest_yield_inner X cx u i s = Ok (q, v)"
    and rest: "(case q of Inr g \<Rightarrow> and_then (u32_add a 1) (\<lambda>a. Ok (a, b, saturating_add_u64 n g, v))
      | Inl _ \<Rightarrow> and_then (u32_add b 1) (\<lambda>b. Ok (a, b, n, v))) =
      (Ok y :: (nat \<times> nat \<times> nat \<times> 'a ih_state) ih_result)"
    using assms by (auto simp: harvest_batch_one_def x)
  from rest have "snd (snd (snd y)) = v" by (cases q) auto
  with inner show thesis by (intro that) (simp add: x)
qed

end
