(* ===== verification/Inherit_Settled.thy ===== *)
theory Inherit_Settled
  imports Inherit_Shares Inherit_Claims_Facts Inherit_Yield_Facts
begin

text \<open>
  What is settled stays settled: over every run of the inheritance contract a claim that was paid
  stays recorded, a dispute that was closed stays closed as it was, and once the active version of a
  plan's will is finalized the plan's will never changes again.
\<close>

section \<open>Runs\<close>

text \<open>
  Successful calls alternate with steps of the other contracts. \<open>allowed\<close> restricts the calls and
  \<open>env\<close> the steps of the world; both are trivial where a property needs no restriction.
\<close>

inductive ih_run ::
  "(ctx \<Rightarrow> 'w ih_externals) \<Rightarrow> (ctx \<Rightarrow> ih_call \<Rightarrow> 'w ih_state \<Rightarrow> bool) \<Rightarrow> ('w \<Rightarrow> 'w \<Rightarrow> bool) \<Rightarrow>
   'w ih_state \<Rightarrow> 'w ih_state \<Rightarrow> bool"
  for XS allowed env where
  run_refl: "ih_run XS allowed env s s"
| run_call: "ih_run XS allowed env s t \<Longrightarrow> allowed cx c t \<Longrightarrow> ih_exec (XS cx) cx c t = Ok u \<Longrightarrow>
    ih_run XS allowed env s u"
| run_world: "ih_run XS allowed env s t \<Longrightarrow> env (ih_world t) w \<Longrightarrow> ih_run XS allowed env s (t\<lparr>ih_world := w\<rparr>)"

abbreviation any_run :: "(ctx \<Rightarrow> 'w ih_externals) \<Rightarrow> 'w ih_state \<Rightarrow> 'w ih_state \<Rightarrow> bool" where
  "any_run XS \<equiv> ih_run XS (\<lambda>_ _ _. True) (\<lambda>_ _. True)"

text \<open>Runs whose new plans have an amount of 64 bits.\<close>

fun typed_call :: "ih_call \<Rightarrow> bool" where
  "typed_call (PlanCall (ICreatePlan params)) \<longleftrightarrow> cp_total_amount params \<le> u64_max"
| "typed_call c \<longleftrightarrow> True"

abbreviation typed_run :: "(ctx \<Rightarrow> 'w ih_externals) \<Rightarrow> 'w ih_state \<Rightarrow> 'w ih_state \<Rightarrow> bool" where
  "typed_run XS \<equiv> ih_run XS (\<lambda>_ c _. typed_call c) (\<lambda>_ _. True)"

lemma run_mono:
  assumes "ih_run XS allowed env s t" and "\<And>cx c s. allowed cx c s \<Longrightarrow> allowed' cx c s"
    and "\<And>w w'. env w w' \<Longrightarrow> env' w w'"
  shows "ih_run XS allowed' env' s t"
  using assms(1) by (induction rule: ih_run.induct) (auto intro: ih_run.intros assms(2,3))

lemma any_run: "ih_run XS allowed env s t \<Longrightarrow> any_run XS s t"
  by (rule run_mono) simp_all

lemma run_trans: "ih_run XS allowed env s t \<Longrightarrow> ih_run XS allowed env r s \<Longrightarrow> ih_run XS allowed env r t"
  by (induction rule: ih_run.induct) (auto intro: ih_run.intros)

section \<open>Settled facts\<close>

definition still_settled :: "'w ih_state \<Rightarrow> 'w ih_state \<Rightarrow> bool" where
  "still_settled s t \<longleftrightarrow> ih_claim s \<subseteq>\<^sub>m ih_claim t \<and> dom (ih_trigger s) \<subseteq> dom (ih_trigger t) \<and>
     (\<forall>d r. ih_dispute s d = Some r \<longrightarrow> \<not> is_open r \<longrightarrow> ih_dispute t d = Some r) \<and>
     (\<forall>k. ih_will_final s k = Some True \<longrightarrow>
        ih_will_final t k = Some True \<and> ih_will_final_at t k = ih_will_final_at s k) \<and>
     (\<forall>i. active_is_final s i \<longrightarrow> ih_active_version t i = ih_active_version s i \<and>
        ih_vault_will t i = ih_vault_will s i \<and> (\<forall>v. ih_will_version t (i, v) = ih_will_version s (i, v)))"

text \<open>Dispute ids come from the counter, and a plan with an active version has a will.\<close>

definition settled_inv :: "'w ih_state \<Rightarrow> bool" where
  "settled_inv s \<longleftrightarrow> (\<forall>d. ih_dispute s d \<noteq> None \<longrightarrow> d < unwrap_or 0 (ih_next_dispute s)) \<and>
     (\<forall>i. ih_active_version s i \<noteq> None \<longrightarrow> ih_vault_will s i \<noteq> None)"

definition settles :: "'w ih_state \<Rightarrow> 'w ih_state \<Rightarrow> bool" where
  "settles s t \<longleftrightarrow> (settled_inv s \<longrightarrow> settled_inv t \<and> still_settled s t)"

lemma still_settled_refl [simp]: "still_settled s s"
  by (simp add: still_settled_def)

lemma unwrap_or_False: "unwrap_or False x \<longleftrightarrow> x = Some True"
  by (cases x) simp_all

lemma active_is_final_iff:
  "active_is_final s i \<longleftrightarrow> (\<exists>v. ih_active_version s i = Some v \<and> ih_will_final s (i, v) = Some True)"
  by (cases "ih_active_version s i") (simp_all add: active_is_final_def is_will_finalized_def unwrap_or_False)

lemma active_is_final_mono: "still_settled s t \<Longrightarrow> active_is_final s i \<Longrightarrow> active_is_final t i"
  unfolding still_settled_def active_is_final_iff by metis

lemma still_settled_trans:
  assumes "still_settled s t" "still_settled t u"
  shows "still_settled s u"
proof -
  have "active_is_final s i \<Longrightarrow> active_is_final t i" for i
    using assms(1) by (rule active_is_final_mono)
  moreover have "ih_claim s \<subseteq>\<^sub>m ih_claim u"
    by (rule map_le_trans [of _ "ih_claim t"]) (use assms in \<open>simp_all add: still_settled_def\<close>)
  moreover have "dom (ih_trigger s) \<subseteq> dom (ih_trigger u)"
    by (rule subset_trans [of _ "dom (ih_trigger t)"]) (use assms in \<open>simp_all add: still_settled_def\<close>)
  ultimately show ?thesis using assms unfolding still_settled_def by simp
qed

lemma settles_trans: "settles s t \<Longrightarrow> settles t u \<Longrightarrow> settles s u"
  by (auto simp: settles_def intro: still_settled_trans)

text \<open>Recording claims settles more; everything else that is settled is as before.\<close>

lemma settles_claims:
  assumes "ih_claim s \<subseteq>\<^sub>m ih_claim t" and "same_settled (s\<lparr>ih_claim := ih_claim t\<rparr>) t"
  shows "settles s t"
proof -
  have "active_is_final t i = active_is_final s i" for i
    using assms(2) by (simp add: same_settled_def active_is_final_iff)
  then show ?thesis using assms by (simp add: settles_def settled_inv_def still_settled_def same_settled_def)
qed

lemma settles_same: "same_settled s t \<Longrightarrow> settles s t"
  by (rule settles_claims) (simp_all add: same_settled_def)

lemma settles_quiet: "quiet s t \<Longrightarrow> settles s t"
  by (simp add: quiet_def settles_same)

lemma settles_unlocked: "settles (s\<lparr>reentrancy_lock := x\<rparr>) t = settles s t"
  by (simp add: settles_def settled_inv_def still_settled_def active_is_final_iff)

section \<open>Plans, claims and yield\<close>

lemma reshares_settles: "reshares X s t \<Longrightarrow> settles s t"
  by (auto simp: reshares_def settles_same)

lemma settled_deposit: "ih_deposit X cx u tk i n s = Ok t \<Longrightarrow> same_settled s t"
  by (erule ih_deposit_OkD) (simp add: same_settled_def ih_access)

lemma settled_withdraw: "ih_withdraw X cx u tk i n s = Ok t \<Longrightarrow> same_settled s t"
  by (erule ih_withdraw_OkD) (simp add: same_settled_def ih_access)

lemma settled_create_plan: "create_inheritance_plan X cx params s = Ok (i, t) \<Longrightarrow> same_settled s t"
  by (erule create_plan_OkD)

lemma settles_plan:
  assumes "run_plan X cx c s = Ok t"
  shows "settles s t"
proof (cases c)
  case (ICreatePlan params)
  then show ?thesis using assms by (auto intro: settles_same settled_create_plan)
next
  case (IDeposit u tk i n)
  then show ?thesis using assms by (auto intro: settles_same settled_deposit)
next
  case (IWithdraw u tk i n)
  then show ?thesis using assms by (auto intro: settles_same settled_withdraw)
qed (use assms in \<open>auto intro: settles_quiet reshares_settles reshares_add_beneficiary reshares_remove_beneficiary
    reshares_update_plan reshares_batch_add reshares_batch_remove reshares_batch_allocations frame\<close>)

lemma settles_pays_down: "pays_down s t \<Longrightarrow> settles s t"
  by (simp add: pays_down_def settles_claims)

lemma settles_claim:
  assumes "run_claim X cx c s = Ok t"
  shows "settles s t"
proof (cases c)
  case (IClaim i u e k)
  with assms have "claim_inheritance_plan X cx i u e k s = Ok t" by simp
  then show ?thesis by (rule claim_OkD) (auto intro!: settles_claims simp: map_le_def)
next
  case (IBatchClaim i cs)
  with assms obtain r where "batch_claim X cx i cs s = Ok (r, t)" by auto
  then show ?thesis by (rule batch_claim_OkD) (rule settles_pays_down)
qed (use assms in \<open>auto intro: settles_quiet frame\<close>)

lemma settled_register: "register_yield_position X cx u i a s = Ok t \<Longrightarrow> same_settled s t"
  by (auto simp: register_yield_position_def Let_def)

lemma settled_unregister: "unregister_yield_position X cx u i s = Ok t \<Longrightarrow> same_settled s t"
  by (auto simp: unregister_yield_position_def split: if_splits)

lemma settled_compound: "compound_pending_yield cx u i s = Ok (r, t) \<Longrightarrow> same_settled s t"
  by (auto simp: compound_pending_yield_def Let_def)

text \<open>A harvest, also one that reports an error, writes a plan, a yield position and events.\<close>

lemma settled_harvest_inner: "harvest_yield_inner X cx u i s = Ok (r, t) \<Longrightarrow> same_settled s t"
  by (erule harvest_inner_OkD) (auto simp: harvest_books_def)

lemma settled_harvest: 
  assumes "harvest_yield X cx u i s = Ok (r, t)"
  shows "settles s t"
proof -
  obtain q v where "harvest_yield_inner X cx u i (s\<lparr>reentrancy_lock := Some True\<rparr>) = Ok (q, v)"
    and "(case q of Inl e \<Rightarrow> Err e | Inr g \<Rightarrow> Ok (g, exit_guard v)) = Ok (r, t)"
    using assms by (auto simp: harvest_yield_def)
  then have "same_settled (s\<lparr>reentrancy_lock := Some True\<rparr>) t" by (cases q) (auto dest: settled_harvest_inner)
  then show ?thesis using settles_same settles_unlocked by blast
qed

lemma settled_harvest_batch:
  assumes "harvest_yield_batch X cx u is s = Ok (r, t)"
  shows "settles s t"
proof -
  let ?s = "s\<lparr>reentrancy_lock := Some True\<rparr>"
  obtain a b n v where loop: "fold_outcome (harvest_batch_one X cx u) is (0, 0, 0, ?s) = Ok (a, b, n, v)"
    and t: "t = ih_publish (YieldBatchHarvestEvent a b n) (exit_guard v)"
    using assms by (auto simp: harvest_yield_batch_def Let_def)
  have "same_settled ?s (snd (snd (snd (a, b, n, v))))"
    by (rule fold_outcome_invariant [OF loop])
      (auto elim!: harvest_batch_one_OkD dest!: settled_harvest_inner intro: same_settled_trans)
  then have "settles ?s t" by (simp add: t settles_same)
  then show ?thesis by (simp add: settles_unlocked)
qed

lemma settles_yield:
  assumes "run_yield X cx c s = Ok t"
  shows "settles s t"
proof (cases c)
  case (ISyncPrincipal u i)
  then show ?thesis using assms by (auto simp: sync_yield_principal_def intro: settles_same settled_register)
qed (use assms in \<open>auto intro: settles_quiet settles_same settled_register settled_unregister settled_compound
    settled_harvest settled_harvest_batch frame\<close>)

section \<open>Disputes\<close>

text \<open>A dispute that is closed is never written again, and new disputes take fresh ids.\<close>

definition disputes_only :: "'w ih_state \<Rightarrow> 'w ih_state \<Rightarrow> bool" where
  "disputes_only s t \<longleftrightarrow> same_settled (s\<lparr>ih_dispute := ih_dispute t, ih_next_dispute := ih_next_dispute t\<rparr>) t"

lemma settles_disputes:
  assumes "disputes_only s t" and "unwrap_or 0 (ih_next_dispute s) \<le> unwrap_or 0 (ih_next_dispute t)"
    and "\<And>d. ih_dispute t d = ih_dispute s d \<or>
      d < unwrap_or 0 (ih_next_dispute t) \<and> (\<forall>r. ih_dispute s d = Some r \<longrightarrow> is_open r)"
  shows "settles s t"
  unfolding settles_def
proof
  assume inv: "settled_inv s"
  have "d < unwrap_or 0 (ih_next_dispute t)" if "ih_dispute t d \<noteq> None" for d
    using assms(2) assms(3) [of d] that inv unfolding settled_inv_def by (metis less_le_trans)
  moreover have "ih_dispute t d = Some r" if "ih_dispute s d = Some r" "\<not> is_open r" for d r
    using assms(3) [of d] that by auto
  ultimately show "settled_inv t \<and> still_settled s t"
    using inv assms(1) by (simp add: settled_inv_def still_settled_def disputes_only_def same_settled_def)
qed

lemma settles_open:
  assumes "open_dispute cx u i r s = Ok (d, t)"
  shows "settles s t"
proof -
  let ?n = "unwrap_or 0 (ih_next_dispute s)"
  have nxt: "ih_next_dispute t = Some (?n + 1)" and only: "disputes_only s t"
    and disp: "\<And>j. j \<noteq> ?n \<Longrightarrow> ih_dispute t j = ih_dispute s j"
    using assms by (auto simp: open_dispute_def Let_def disputes_only_def same_settled_def)
  show ?thesis unfolding settles_def
  proof
    assume inv: "settled_inv s"
    then have "ih_dispute s ?n = None" by (auto simp: settled_inv_def)
    then have "ih_dispute t j = ih_dispute s j \<or> j < unwrap_or 0 (ih_next_dispute t) \<and>
        (\<forall>r. ih_dispute s j = Some r \<longrightarrow> is_open r)" for j
      using disp [of j] nxt by (cases "j = ?n") simp_all
    then have "settles s t" using nxt only by (intro settles_disputes) simp_all
    then show "settled_inv t \<and> still_settled s t" using inv by (simp add: settles_def)
  qed
qed

lemma settles_freeze [simp]: "settles s (freeze_plan_for_dispute cx u i t) = settles s t"
  by (simp add: settles_def settled_inv_def still_settled_def active_is_final_iff freeze_plan_for_dispute_def)

lemma settles_publish [simp]: "settles s (ih_publish ev t) = settles s t"
  by (simp add: settles_def settled_inv_def still_settled_def active_is_final_iff ih_publish_def)

text \<open>An open dispute may be closed.\<close>

lemma settles_update:
  assumes "ih_dispute s d = Some r" and "is_open r"
  shows "settles s (s\<lparr>ih_dispute := (ih_dispute s)(d \<mapsto> q)\<rparr>)"
proof -
  have "settled_inv s \<Longrightarrow> settled_inv (s\<lparr>ih_dispute := (ih_dispute s)(d \<mapsto> q)\<rparr>)"
    using assms by (auto simp: settled_inv_def)
  then show ?thesis using assms by (auto simp: settles_def still_settled_def active_is_final_iff)
qed

lemma settles_close: "settles s (close_dispute cx u i b d s)"
  using settles_update [of s d]
  by (auto simp: close_dispute_def Let_def settles_quiet split: option.splits)

lemma settles_review:
  assumes "review_dispute cx u d st notes fr s = Ok t"
  shows "settles s t"
proof -
  from assms obtain r where r: "ih_dispute s d = Some r" "is_open r"
    by (auto simp: review_dispute_def is_open_def Let_def)
  show ?thesis using assms settles_update [OF r]
    by (auto simp: review_dispute_def r Let_def split: if_splits)
qed

lemma settles_resolve:
  assumes "resolve_dispute cx i b s = Ok t"
  shows "settles s t"
proof -
  have loop: "settles s (fold (close_dispute cx u i b) ds s)" for u ds
    by (induction ds rule: rev_induct) (auto simp: settles_quiet intro: settles_trans settles_close)
  have "settles s (v\<lparr>ih_freeze := f\<rparr>) = settles s v" for v f
    by (simp add: settles_def settled_inv_def still_settled_def active_is_final_iff)
  then show ?thesis using assms loop by (auto simp: resolve_dispute_def Let_def)
qed

lemma settles_dispute:
  assumes "run_dispute cx c s = Ok t"
  shows "settles s t"
proof (cases c)
  case (IFileDispute u i r)
  then show ?thesis using assms by (auto simp: file_dispute_def dest!: settles_open)
next
  case (IRaiseDispute i u h)
  then show ?thesis using assms by (auto simp: raise_dispute_def Let_def dest!: settles_open)
qed (use assms in \<open>auto intro: settles_quiet settles_review settles_resolve frame\<close>)

section \<open>Wills\<close>

text \<open>The operations on wills write the will of a plan whose active version is not final, or a new flag.\<close>

lemma settles_create_version:
  assumes "create_will_version cx u i h s = Ok (v, t)"
  shows "settles s t"
proof -
  have open_will: "\<not> active_is_final s i"
    and same: "\<And>j w. j \<noteq> i \<Longrightarrow> ih_will_version t (j, w) = ih_will_version s (j, w)"
      "\<And>j. j \<noteq> i \<Longrightarrow> ih_active_version t j = ih_active_version s j"
      "\<And>j. j \<noteq> i \<Longrightarrow> ih_vault_will t j = ih_vault_will s j" "ih_vault_will t i \<noteq> None"
      "ih_claim t = ih_claim s" "ih_dispute t = ih_dispute s" "ih_next_dispute t = ih_next_dispute s"
      "ih_will_final t = ih_will_final s" "ih_will_final_at t = ih_will_final_at s" "ih_trigger t = ih_trigger s"
    using assms by (auto simp: create_will_version_def deactivate_version_def ih_publish_def Let_def
        split: option.splits)
  have "settled_inv t" if "settled_inv s" using that same unfolding settled_inv_def by metis
  moreover have "j \<noteq> i" if "active_is_final s j" for j using that open_will by auto
  then have "still_settled s t" using same by (simp add: still_settled_def)
  ultimately show ?thesis by (simp add: settles_def)
qed

lemma settles_link:
  assumes "link_will_to_vault cx u i h s = Ok t"
  shows "settles s t"
proof -
  have free: "ih_vault_will s i = None"
    and t: "t = ih_publish (WillLinkedToVaultEvent i h) (s\<lparr>ih_vault_will := (ih_vault_will s)(i \<mapsto> h)\<rparr>)"
    using assms by (auto simp: link_will_to_vault_def)
  have "settled_inv s \<Longrightarrow> \<not> active_is_final s i" using free by (auto simp: settled_inv_def active_is_final_iff)
  then show ?thesis unfolding t by (auto simp: settles_def settled_inv_def still_settled_def ih_publish_def)
qed

lemma settles_finalize:
  assumes "finalize_will cx u i v s = Ok t"
  shows "settles s t"
proof -
  have free: "ih_will_final s (i, v) \<noteq> Some True"
    and t: "t = ih_publish (WillFinalizedEvent i v (timestamp cx)) (s\<lparr>
      ih_will_final := (ih_will_final s)((i, v) \<mapsto> True),
      ih_will_final_at := (ih_will_final_at s)((i, v) \<mapsto> timestamp cx)\<rparr>)"
    using assms by (auto simp: finalize_will_def is_will_finalized_def unwrap_or_False Let_def)
  then show ?thesis unfolding t by (auto simp: settles_def settled_inv_def still_settled_def ih_publish_def)
qed

lemma settles_will:
  assumes "run_will X cx c s = Ok t"
  shows "settles s t"
  using assms
  by (cases c) (auto intro: settles_quiet settles_create_version settles_link settles_finalize frame)

section \<open>Every call\<close>

lemma settles_exec:
  assumes "ih_exec X cx c s = Ok t"
  shows "settles s t"
proof (cases c)
  case (AdminCall a)
  then show ?thesis using assms by (auto intro: settles_quiet quiet_run_admin)
next
  case (TriggerCall a)
  then show ?thesis using assms by (auto intro: settles_pays_down pays_down_run_trigger)
next
  case (MessageCall a)
  then show ?thesis using assms by (auto intro: settles_quiet quiet_run_message)
qed (use assms in \<open>auto intro: settles_plan settles_claim settles_dispute settles_will settles_yield\<close>)

lemma settles_run:
  assumes "ih_run XS allowed env s t"
  shows "settles s t"
  using assms
proof (induction rule: ih_run.induct)
  case (run_call s t cx c u)
  then show ?case by (blast intro: settles_trans settles_exec)
next
  case (run_world s t w)
  then show ?case by (simp add: settles_def settled_inv_def still_settled_def active_is_final_iff)
qed (simp add: settles_quiet)

lemma settled_inv_empty: "settled_inv (ih_empty w)"
  by (simp add: settled_inv_def ih_empty_def)

end
