(* ===== verification/Plan_Custody.thy ===== *)
theory Plan_Custody
  imports Inherit_Settled
begin

text \<open>
  The money of the plans: the inheritance contract keeps a total per plan, the plan's vault keeps
  the tokens. The locale \<open>plan_custody\<close> states what the contract relies on (tokens, vaults, the
  deployment of a vault at the address of its salt, and the other contracts, which cannot move the
  vaults' tokens); in it every vault covers the total of its plan, over all runs that leave out the
  calls that add yield to a total.
\<close>

section \<open>Backed plans\<close>

text \<open>\<open>held\<close> is what an account holds of a token in a world, \<open>va\<close> the address of a salt.\<close>

definition backed ::
  "(address \<Rightarrow> address \<Rightarrow> 'w \<Rightarrow> int) \<Rightarrow> (bytes32 \<Rightarrow> address) \<Rightarrow> 'w ih_state \<Rightarrow> bool" where
  "backed held va s \<longleftrightarrow> (\<forall>i p. ih_plan s i = Some p \<longrightarrow> i \<le> u64_max \<and>
     ih_plan_vault s i = Some (va (plan_vault_salt i)) \<and>
     int (pl_total_amount p) \<le> held (pl_token p) (va (plan_vault_salt i)) (ih_world s))"

text \<open>A world where no vault holds less than before.\<close>

definition vaults_grow :: "(address \<Rightarrow> address \<Rightarrow> 'w \<Rightarrow> int) \<Rightarrow> (bytes32 \<Rightarrow> address) \<Rightarrow> 'w \<Rightarrow> 'w \<Rightarrow> bool" where
  "vaults_grow held va w w' \<longleftrightarrow> (\<forall>tk salt. held tk (va salt) w \<le> held tk (va salt) w')"

lemma vaults_grow_refl [simp]: "vaults_grow held va w w"
  by (simp add: vaults_grow_def)

lemma vaults_grow_trans: "vaults_grow held va u v \<Longrightarrow> vaults_grow held va v w \<Longrightarrow> vaults_grow held va u w"
  unfolding vaults_grow_def by (meson order_trans)

text \<open>Plans whose totals are not raised.\<close>

definition totals_not_raised :: "'w ih_state \<Rightarrow> 'w ih_state \<Rightarrow> bool" where
  "totals_not_raised s t \<longleftrightarrow> ih_plan_vault t = ih_plan_vault s \<and>
     (\<forall>i q. ih_plan t i = Some q \<longrightarrow>
        (\<exists>p. ih_plan s i = Some p \<and> pl_token q = pl_token p \<and> pl_total_amount q \<le> pl_total_amount p))"

lemma backed_not_raised:
  assumes "backed held va s" and "totals_not_raised s t" and "vaults_grow held va (ih_world s) (ih_world t)"
  shows "backed held va t"
proof -
  have "i \<le> u64_max \<and> ih_plan_vault t i = Some (va (plan_vault_salt i)) \<and>
      int (pl_total_amount q) \<le> held (pl_token q) (va (plan_vault_salt i)) (ih_world t)"
    if q: "ih_plan t i = Some q" for i q
  proof -
    obtain p where p: "ih_plan s i = Some p" "pl_token q = pl_token p" "pl_total_amount q \<le> pl_total_amount p"
      using assms(2) q by (auto simp: totals_not_raised_def)
    have "int (pl_total_amount q) \<le> int (pl_total_amount p)" using p(3) by simp
    also have "\<dots> \<le> held (pl_token p) (va (plan_vault_salt i)) (ih_world s)" using assms(1) p(1) by (simp add: backed_def)
    also have "\<dots> \<le> held (pl_token p) (va (plan_vault_salt i)) (ih_world t)"
      using assms(3) by (simp add: vaults_grow_def)
    finally show ?thesis using assms(1,2) p by (simp add: backed_def totals_not_raised_def)
  qed
  then show ?thesis by (simp add: backed_def)
qed

text \<open>One plan's total moves with its vault.\<close>

lemma backed_moved:
  assumes inv: "backed held va s" and plan: "ih_plan t = (ih_plan s)(i \<mapsto> q)"
    and vault: "ih_plan_vault t = (ih_plan_vault s)(i \<mapsto> va (plan_vault_salt i))" and i: "i \<le> u64_max"
    and total: "int (pl_total_amount q) \<le> held (pl_token q) (va (plan_vault_salt i)) (ih_world t)"
    and rest: "\<And>j tk. j \<noteq> i \<Longrightarrow> j \<le> u64_max \<Longrightarrow>
      held tk (va (plan_vault_salt j)) (ih_world s) \<le> held tk (va (plan_vault_salt j)) (ih_world t)"
  shows "backed held va t"
proof -
  have "int (pl_total_amount p) \<le> held (pl_token p) (va (plan_vault_salt j)) (ih_world t)"
    if "j \<noteq> i" "ih_plan s j = Some p" for j p
    using inv that rest [of j] unfolding backed_def by (metis order_trans)
  then show ?thesis using inv plan vault i total by (auto simp: backed_def)
qed

lemma lowered_not_raised:
  assumes "pays_down s t"
  shows "totals_not_raised s t"
proof -
  have "\<exists>p. ih_plan s i = Some p \<and> pl_token q = pl_token p \<and> pl_total_amount q \<le> pl_total_amount p"
    if "ih_plan t i = Some q" for i q
  proof -
    have "rel_option lowered (ih_plan s i) (Some q)" using assms that by (metis pays_down_def)
    then show ?thesis by (auto simp: option_rel_Some2 lowered_def)
  qed
  then show ?thesis using assms by (simp add: totals_not_raised_def pays_down_def)
qed

lemma holdings_not_raised:
  assumes "same_holdings s t"
  shows "totals_not_raised s t"
proof -
  have "\<exists>p. ih_plan s i = Some p \<and> pl_token q = pl_token p \<and> pl_total_amount q \<le> pl_total_amount p"
    if "ih_plan t i = Some q" for i q
  proof -
    have "plan_books s i = plan_books t i" using assms by (simp add: same_holdings_def)
    then show ?thesis using that by (auto simp: plan_books_def holdings_def)
  qed
  then show ?thesis using assms by (simp add: totals_not_raised_def same_holdings_def)
qed

lemma reshares_not_raised: "reshares X s t \<Longrightarrow> totals_not_raised s t"
  by (auto simp: reshares_def totals_not_raised_def split: if_splits)

section \<open>The address of a plan's vault\<close>

text \<open>The eight bytes of a plan id determine it.\<close>

definition of_be_bytes :: "nat list \<Rightarrow> nat" where
  "of_be_bytes bs = fold (\<lambda>b n. n * 256 + b) bs 0"

lemma of_be_bytes_prefix:
  assumes "n div 256 ^ 8 = 0"
  shows "m \<le> 8 \<Longrightarrow> of_be_bytes (map (\<lambda>i. n div 256 ^ (7 - i) mod 256) [0..<m]) = n div 256 ^ (8 - m)"
proof (induction m)
  case 0
  then show ?case using assms by (simp add: of_be_bytes_def)
next
  case (Suc m)
  have "8 - m = Suc (7 - m)" using Suc.prems by simp
  then have "n div 256 ^ (8 - m) * 256 + n div 256 ^ (7 - m) mod 256 = n div 256 ^ (7 - m)"
    by (simp only: power_Suc2 div_mult2_eq div_mult_mod_eq)
  then show ?case using Suc by (simp add: of_be_bytes_def)
qed

lemma of_be_bytes_be_bytes:
  assumes "n \<le> u64_max"
  shows "of_be_bytes (be_bytes n) = n"
proof -
  have "n div 256 ^ 8 = 0" using assms by (simp add: u64_max_def)
  from of_be_bytes_prefix [OF this, of 8] show ?thesis by (simp add: be_bytes_def)
qed

lemma plan_vault_salt_inj: "plan_vault_salt i = plan_vault_salt j \<Longrightarrow> i \<le> u64_max \<Longrightarrow> j \<le> u64_max \<Longrightarrow> i = j"
  unfolding plan_vault_salt_def by (metis append_same_eq same_append_eq of_be_bytes_be_bytes)

section \<open>The interface\<close>

text \<open>
  \<open>sane\<close> says that nobody holds a negative amount. The vaults' addresses are those of the salts, one
  per plan; a release pays from the vault it is called on; no other call takes tokens from a vault.
\<close>

locale plan_custody =
  fixes XS :: "ctx \<Rightarrow> 'w ih_externals" and held :: "address \<Rightarrow> address \<Rightarrow> 'w \<Rightarrow> int"
    and va :: "bytes32 \<Rightarrow> address" and sane :: "'w \<Rightarrow> bool"
  assumes ledger: "token_ledger (XS cx)"
    and held: "token_held (XS cx) tk a w = held tk a w"
    and sane_nonneg: "sane w \<Longrightarrow> 0 \<le> held tk a w"
    and va_inj: "i \<le> u64_max \<Longrightarrow> j \<le> u64_max \<Longrightarrow> va (plan_vault_salt i) = va (plan_vault_salt j) \<Longrightarrow> i = j"
    and transfer_sane: "tok_transfer (XS cx) tk a b n w = Some w' \<Longrightarrow> sane w \<Longrightarrow> sane w'"
    and deploy: "host_deploy (XS cx) h salt w = Some (v, w') \<Longrightarrow>
      v = va salt \<and> (sane w \<longrightarrow> sane w') \<and> (\<forall>tk a. held tk a w' = held tk a w)"
    and initialized: "vault_init_call (XS cx) v c u i w = Some w' \<Longrightarrow>
      (sane w \<longrightarrow> sane w') \<and> (\<forall>tk a. held tk a w' = held tk a w)"
    and random: "(sane w \<longrightarrow> sane (snd (host_prng (XS cx) w))) \<and> held tk a (snd (host_prng (XS cx) w)) = held tk a w"
    and released: "vault_release_call (XS cx) v tk u n w = Some w' \<Longrightarrow> sane w \<Longrightarrow> u \<noteq> v \<Longrightarrow>
      sane w' \<and> held tk v w' = held tk v w - int n \<and> (\<forall>tk' a. a \<noteq> v \<longrightarrow> held tk' a w \<le> held tk' a w')"
    and pool_registers: "pool_register (XS cx) c u i a m w = Some w' \<Longrightarrow>
      (sane w \<longrightarrow> sane w') \<and> vaults_grow held va w w'"
    and pool_unregisters: "pool_unregister (XS cx) c u i w = Some w' \<Longrightarrow>
      (sane w \<longrightarrow> sane w') \<and> vaults_grow held va w w'"
    and pool_claims: "pool_claim (XS cx) c u i w = Some (g, w') \<Longrightarrow>
      (sane w \<longrightarrow> sane w') \<and> vaults_grow held va w w'"
begin

text \<open>A transfer takes from its source only.\<close>

lemma transfer_grows:
  assumes "tok_transfer (XS cx) tk a b n w = Some w'" and "0 \<le> n" and "c \<noteq> a"
  shows "held tk' c w \<le> held tk' c w'"
proof (cases "b = c")
  case True
  then show ?thesis
    using token_ledger.held_after_incoming [OF ledger assms(1), where tk' = tk'] assms(2,3) by (simp add: held)
next
  case False
  then show ?thesis
    using token_ledger.transfer_frame [OF ledger assms(1), where c = c and tk' = tk'] assms(3) by (simp add: held)
qed

lemma transfer_credit: "tok_transfer (XS cx) tk a b n w = Some w' \<Longrightarrow> a \<noteq> b \<Longrightarrow> held tk b w' = held tk b w + n"
  using token_ledger.transfer_credits [OF ledger] by (simp add: held)

lemma transfer_vaults_grow:
  "tok_transfer (XS cx) tk a b n w = Some w' \<Longrightarrow> 0 \<le> n \<Longrightarrow> a \<notin> range va \<Longrightarrow> vaults_grow held va w w'"
  unfolding vaults_grow_def by (metis rangeI transfer_grows)

lemma random_reach:
  assumes "prng_reach (XS cx) w w'"
  shows "held tk a w' = held tk a w" and "sane w \<Longrightarrow> sane w'"
proof -
  obtain k where w': "w' = ((\<lambda>w. snd (host_prng (XS cx) w)) ^^ k) w" using assms by (auto simp: prng_reach_def)
  have "held tk a (((\<lambda>w. snd (host_prng (XS cx) w)) ^^ k) w) = held tk a w \<and>
      (sane w \<longrightarrow> sane (((\<lambda>w. snd (host_prng (XS cx) w)) ^^ k) w))"
    by (induction k) (simp_all add: random)
  then show "held tk a w' = held tk a w" and "sane w \<Longrightarrow> sane w'" by (simp_all add: w')
qed

lemma random_grows: "prng_reach (XS cx) w w' \<Longrightarrow> vaults_grow held va w w'"
  by (simp add: vaults_grow_def random_reach)

end

section \<open>The calls\<close>

definition custody_inv ::
  "(address \<Rightarrow> address \<Rightarrow> 'w \<Rightarrow> int) \<Rightarrow> (bytes32 \<Rightarrow> address) \<Rightarrow> ('w \<Rightarrow> bool) \<Rightarrow> 'w ih_state \<Rightarrow> bool" where
  "custody_inv held va sane s \<longleftrightarrow> sane (ih_world s) \<and> backed held va s"

text \<open>
  The calls the invariant is about: vaults authorize no call, and yield is not added to a total, since
  it is credited while its tokens stay with this contract.
\<close>

definition adds_no_yield :: "yield_call \<Rightarrow> 'w ih_state \<Rightarrow> bool" where
  "adds_no_yield c s =
     (case c of
        IHarvest u i \<Rightarrow> (case ih_yield s i of None \<Rightarrow> True | Some st \<Rightarrow> \<not> yc_auto_compound (yst_config st))
      | ICompound u i \<Rightarrow> False
      | IHarvestBatch u is \<Rightarrow> False
      | IUnregisterPosition u i \<Rightarrow> get_pending_credit s i = 0
      | _ \<Rightarrow> True)"

definition custody_call :: "(bytes32 \<Rightarrow> address) \<Rightarrow> ctx \<Rightarrow> ih_call \<Rightarrow> 'w ih_state \<Rightarrow> bool" where
  "custody_call va cx c s \<longleftrightarrow> (\<forall>salt. \<not> authorized cx (va salt)) \<and>
     (case c of YieldCall y \<Rightarrow> adds_no_yield y s | _ \<Rightarrow> True)"

text \<open>What the other contracts do between the calls takes nothing from a vault.\<close>

definition custody_env ::
  "(address \<Rightarrow> address \<Rightarrow> 'w \<Rightarrow> int) \<Rightarrow> (bytes32 \<Rightarrow> address) \<Rightarrow> ('w \<Rightarrow> bool) \<Rightarrow> 'w \<Rightarrow> 'w \<Rightarrow> bool" where
  "custody_env held va sane w w' \<longleftrightarrow> sane w' \<and> vaults_grow held va w w'"

context plan_custody
begin

lemma keeps_not_raised:
  "custody_inv held va sane s \<Longrightarrow> totals_not_raised s t \<Longrightarrow> vaults_grow held va (ih_world s) (ih_world t) \<Longrightarrow>
   sane (ih_world t) \<Longrightarrow> custody_inv held va sane t"
  by (auto simp: custody_inv_def intro: backed_not_raised)

lemma keeps_lowered: "custody_inv held va sane s \<Longrightarrow> pays_down s t \<Longrightarrow> custody_inv held va sane t"
  by (rule keeps_not_raised) (auto simp: lowered_not_raised pays_down_def custody_inv_def)

lemma keeps_holdings: "custody_inv held va sane s \<Longrightarrow> same_holdings s t \<Longrightarrow> custody_inv held va sane t"
  by (rule keeps_not_raised) (auto simp: holdings_not_raised same_holdings_def custody_inv_def)

lemma keeps_quiet: "custody_inv held va sane s \<Longrightarrow> quiet s t \<Longrightarrow> custody_inv held va sane t"
  unfolding quiet_def by (blast intro: keeps_holdings)

lemma keeps_reshares:
  assumes inv: "custody_inv held va sane s" and re: "reshares (XS cx) s t"
  shows "custody_inv held va sane t"
proof (rule keeps_not_raised [OF inv reshares_not_raised [OF re]])
  have reach: "prng_reach (XS cx) (ih_world s) (ih_world t)" using re by (auto simp: reshares_def)
  show "vaults_grow held va (ih_world s) (ih_world t)" using reach by (rule random_grows)
  show "sane (ih_world t)" using random_reach(2) [OF reach] inv by (simp add: custody_inv_def)
qed

text \<open>The world goes on and no plan changes.\<close>

lemma keeps_world:
  assumes "custody_inv held va sane s" and "ih_plan t = ih_plan s" and "ih_plan_vault t = ih_plan_vault s"
    and "vaults_grow held va (ih_world s) (ih_world t)" and "sane (ih_world t)"
  shows "custody_inv held va sane t"
  using assms by (intro keeps_not_raised [OF assms(1)]) (simp_all add: totals_not_raised_def)

lemma keeps_deposit:
  assumes inv: "custody_inv held va sane s" and auth: "\<forall>salt. \<not> authorized cx (va salt)"
    and dep: "ih_deposit (XS cx) cx u tk i n s = Ok t"
  shows "custody_inv held va sane t"
  using dep
proof (rule ih_deposit_OkD)
  fix p v w
  assume t: "t = exit_guard (ih_publish (VaultDepositEvent i n) (store_plan i
      (p\<lparr>pl_total_amount := pl_total_amount p + n\<rparr>) (s\<lparr>reentrancy_lock := Some True, ih_world := w\<rparr>)))"
    and u: "authorized cx u" and p: "ih_plan s i = Some p" "pl_token p = tk" and v: "ih_plan_vault s i = Some v"
    and tr: "tok_transfer (XS cx) tk u v (int n) (ih_world s) = Some w"
  have va: "v = va (plan_vault_salt i)" "i \<le> u64_max" "int (pl_total_amount p) \<le> held tk v (ih_world s)"
    using inv p v by (auto simp: custody_inv_def backed_def)
  have "u \<notin> range va" using auth u by auto
  then have grow: "vaults_grow held va (ih_world s) w" and cred: "held tk v w = held tk v (ih_world s) + int n"
    using transfer_vaults_grow [OF tr] transfer_credit [OF tr] va by auto
  have "backed held va t"
    by (rule backed_moved [of held va s t i "p\<lparr>pl_total_amount := pl_total_amount p + n\<rparr>"])
      (use inv grow cred va p v in \<open>simp_all add: t ih_access custody_inv_def vaults_grow_def fun_upd_idem\<close>)
  then show ?thesis using transfer_sane [OF tr] inv by (simp add: custody_inv_def t ih_access)
qed

text \<open>A release of \<open>n\<close> from the vault of a plan whose total goes down by \<open>n\<close>.\<close>

lemma keeps_release:
  assumes inv: "custody_inv held va sane s" and p: "ih_plan s i = Some p" and v: "ih_plan_vault s i = Some v"
    and u: "\<forall>salt. u \<noteq> va salt"
    and rel: "vault_release_call (XS cx) v (pl_token p) u n (ih_world s) = Some (ih_world t)"
    and n: "n \<le> pl_total_amount p"
    and t: "ih_plan t = (ih_plan s)(i \<mapsto> q)" "ih_plan_vault t = ih_plan_vault s" "pl_token q = pl_token p"
      "pl_total_amount q = pl_total_amount p - n"
  shows "custody_inv held va sane t"
proof -
  have va: "v = va (plan_vault_salt i)" "i \<le> u64_max" "int (pl_total_amount p) \<le> held (pl_token p) v (ih_world s)"
    using inv p v by (auto simp: custody_inv_def backed_def)
  have "u \<noteq> v" using u va by simp
  note r = released [OF rel _ this]
  have sane: "sane (ih_world s)" using inv by (simp add: custody_inv_def)
  have "backed held va t"
  proof (rule backed_moved [OF _ t(1)])
    show "held tk (va (plan_vault_salt j)) (ih_world s) \<le> held tk (va (plan_vault_salt j)) (ih_world t)"
      if "j \<noteq> i" "j \<le> u64_max" for j tk
    proof -
      have "va (plan_vault_salt j) \<noteq> v" using va_inj [of j i] va(1,2) that by auto
      then show ?thesis using r sane by blast
    qed
  qed (use inv r sane va v n t in \<open>simp_all add: custody_inv_def of_nat_diff fun_upd_idem\<close>)
  then show ?thesis using r sane by (simp add: custody_inv_def)
qed

lemma keeps_withdraw:
  assumes inv: "custody_inv held va sane s" and auth: "\<forall>salt. \<not> authorized cx (va salt)"
    and wd: "ih_withdraw (XS cx) cx u tk i n s = Ok t"
  shows "custody_inv held va sane t"
  using wd
proof (rule ih_withdraw_OkD)
  fix p v w e ev
  assume t: "t = exit_guard (ih_publish (VaultWithdrawEvent i n) (store_plan i
      (p\<lparr>pl_total_amount := pl_total_amount p - n\<rparr>)
      (s\<lparr>reentrancy_lock := Some True, ih_emergency := e, ih_events := ev, ih_world := w\<rparr>)))"
    and u: "authorized cx u" and p: "ih_plan s i = Some p" "pl_token p = tk" and v: "ih_plan_vault s i = Some v"
    and n: "n + pl_total_loaned p \<le> pl_total_amount p"
    and rel: "vault_release_call (XS cx) v tk u n (ih_world s) = Some w"
  show ?thesis
    by (rule keeps_release [OF inv p(1) v, of u cx n, where q = "p\<lparr>pl_total_amount := pl_total_amount p - n\<rparr>"])
      (use auth u n rel p in \<open>auto simp: t ih_access\<close>)
qed

lemma keeps_claim:
  assumes inv: "custody_inv held va sane s" and auth: "\<forall>salt. \<not> authorized cx (va salt)"
    and cl: "claim_inheritance_plan (XS cx) cx i c email code s = Ok t"
  shows "custody_inv held va sane t"
  using cl
proof (rule claim_OkD)
  fix p e k v n
  assume c: "authorized cx c" and p: "ih_plan s i = Some p" and v: "ih_plan_vault s i = Some v"
    and n: "n = claim_payout s i p k"
    and rel: "vault_release_call (XS cx) v (pl_token p) c n (ih_world s) = Some (ih_world t)"
    and t: "ih_plan t = (ih_plan s)(i \<mapsto> claimed_plan s i p k)" "ih_plan_vault t = ih_plan_vault s"
  show ?thesis
    by (rule keeps_release [OF inv p v _ rel _ t])
      (use auth c n claim_payout_le [of s i p k] in \<open>auto simp: claimed_plan_def Let_def\<close>)
qed

text \<open>The creation: the fee is the owner's, the vault is new, and the net amount goes into it.\<close>

lemma keeps_create:
  assumes inv: "custody_inv held va sane s" and auth: "\<forall>salt. \<not> authorized cx (va salt)"
    and cr: "create_inheritance_plan (XS cx) cx params s = Ok (i, t)"
  shows "custody_inv held va sane t"
  using cr
proof (rule create_plan_OkD)
  fix fee w1 v w2 w3 w4 w5 bs
  let ?u = "cp_owner params" and ?tk = "cp_token params" and ?net = "cp_total_amount params - fee"
  assume u: "authorized cx ?u" and i: "i + 1 \<le> u64_max"
    and pay: "w1 = ih_world s \<or> (\<exists>ad. ih_admin s = Some ad \<and>
      tok_transfer (XS cx) ?tk ?u ad (int fee) (ih_world s) = Some w1)"
    and dep: "\<exists>h. host_deploy (XS cx) h (plan_vault_salt i) w1 = Some (v, w2)"
    and ini: "vault_init_call (XS cx) v (current_contract_address cx) ?u i w2 = Some w3"
    and tr: "tok_transfer (XS cx) ?tk ?u v (int ?net) w3 = Some w4" and pr: "prng_reach (XS cx) w4 w5"
    and t: "ih_plan t = (ih_plan s)(i \<mapsto> \<lparr>pl_plan_name = cp_plan_name params, pl_description = cp_description params,
           pl_token = ?tk, pl_asset_type = ''USDC'', pl_total_amount = ?net,
           pl_distribution_method = cp_distribution_method params, pl_beneficiaries = bs,
           pl_total_allocation_bp = sum_list (map data_bp (cp_beneficiaries_data params)),
           pl_owner = ?u, pl_created_at = timestamp cx,
           pl_is_active = True, pl_is_lendable = cp_is_lendable params, pl_total_loaned = 0,
           pl_waterfall_enabled = False, pl_grace_period = 0, pl_earn_yield = False\<rparr>)"
      "ih_plan_vault t = (ih_plan_vault s)(i \<mapsto> v)" "ih_world t = w5"
  have s0: "sane (ih_world s)" using inv by (simp add: custody_inv_def)
  have uv: "?u \<notin> range va" using auth u by auto
  have "vaults_grow held va (ih_world s) w1" and s1: "sane w1"
    using pay s0 uv transfer_sane by (auto intro: transfer_vaults_grow)
  moreover have v: "v = va (plan_vault_salt i)" and "vaults_grow held va w1 w2" and s2: "sane w2"
    using dep s1 deploy by (auto simp: vaults_grow_def)
  moreover have "vaults_grow held va w2 w3" and s3: "sane w3"
    using initialized [OF ini] s2 by (auto simp: vaults_grow_def)
  moreover have "vaults_grow held va w3 w4" and s4: "sane w4"
    using tr uv transfer_sane [OF tr s3] by (auto intro: transfer_vaults_grow)
  moreover have "vaults_grow held va w4 w5" and s5: "sane w5"
    using random_reach [OF pr] s4 by (simp_all add: vaults_grow_def)
  ultimately have grow: "vaults_grow held va (ih_world s) w5" by (meson vaults_grow_trans)
  have "held ?tk v w4 = held ?tk v w3 + int ?net" using uv v by (intro transfer_credit [OF tr]) auto
  then have "int ?net \<le> held ?tk v w5" using sane_nonneg [OF s3] random_reach(1) [OF pr] by simp
  then have "backed held va t"
    by (intro backed_moved [of held va s, OF _ t(1)])
      (use inv grow i v t in \<open>simp_all add: custody_inv_def vaults_grow_def\<close>)
  then show ?thesis using s5 t by (simp add: custody_inv_def)
qed

lemma keeps_register:
  assumes inv: "custody_inv held va sane s" and re: "register_yield_position (XS cx) cx u i a s = Ok t"
  shows "custody_inv held va sane t"
proof -
  obtain c n where reg: "pool_register (XS cx) c (current_contract_address cx) i a n (ih_world s) = Some (ih_world t)"
    and t: "ih_plan t = ih_plan s" "ih_plan_vault t = ih_plan_vault s"
    using re by (auto simp: register_yield_position_def invoke_lending_contract_def set_yield_state_def
        ih_publish_def Let_def)
  show ?thesis using pool_registers [OF reg] inv t by (intro keeps_world [OF inv]) (auto simp: custody_inv_def)
qed

lemma keeps_unregister:
  assumes inv: "custody_inv held va sane s" and none: "get_pending_credit s i = 0"
    and un: "unregister_yield_position (XS cx) cx u i s = Ok t"
  shows "custody_inv held va sane t"
proof -
  obtain p st v c w where st: "ih_yield s i = Some st"
    and credit: "(if yst_pending_credit st > 0
        then and_then (safe_add (pl_total_amount p) (yst_pending_credit st)) (\<lambda>tot.
             Ok (store_plan i (p\<lparr>pl_total_amount := tot\<rparr>) s))
        else Ok s) = (Ok v :: 'w ih_state ih_result)"
    and reg: "pool_unregister (XS cx) c (current_contract_address cx) i (ih_world v) = Some w"
    and t: "v\<lparr>ih_world := w, ih_yield := (ih_yield (v\<lparr>ih_world := w\<rparr>))(i := None)\<rparr> = t"
    using un unfolding unregister_yield_position_def invoke_lending_contract_def require_yield_state_def
      get_yield_state_def Let_def and_then_eq_Ok ok_or_eq_Ok outcome.inject by blast
  have "yst_pending_credit st = 0" using none st by (simp add: get_pending_credit_def yield_read_def get_yield_state_def)
  then have "v = s" using credit by simp
  then have reg: "pool_unregister (XS cx) c (current_contract_address cx) i (ih_world s) = Some (ih_world t)"
    and t: "ih_plan t = ih_plan s" "ih_plan_vault t = ih_plan_vault s"
    using reg t by auto
  show ?thesis using pool_unregisters [OF reg] inv t by (intro keeps_world [OF inv]) (auto simp: custody_inv_def)
qed

lemma keeps_harvest:
  assumes inv: "custody_inv held va sane s" and plain: "adds_no_yield (IHarvest u i) s"
    and ha: "harvest_yield (XS cx) cx u i s = Ok (r, t)"
  shows "custody_inv held va sane t"
proof -
  let ?s = "s\<lparr>reentrancy_lock := Some True\<rparr>"
  obtain q v where inner: "harvest_yield_inner (XS cx) cx u i ?s = Ok (q, v)"
    and out: "(case q of Inl e \<Rightarrow> Err e | Inr g \<Rightarrow> Ok (g, exit_guard v)) = Ok (r, t)"
    using ha by (auto simp: harvest_yield_def)
  then obtain g where q: "q = Inr g" and t: "t = exit_guard v" by (cases q) auto
  from inner show ?thesis
  proof (cases rule: harvest_inner_OkD)
    case (harvested p st c gross net fee)
    have "ih_yield s i = Some st"
      using harvested(2) by (auto simp: harvest_checks_def require_yield_state_def get_yield_state_def)
    then have "\<not> yc_auto_compound (yst_config st)" using plain by (simp add: adds_no_yield_def)
    then have "ih_plan t = ih_plan s" "ih_plan_vault t = ih_plan_vault s"
      using harvested by (simp_all add: harvest_books_def t ih_access)
    then show ?thesis using pool_claims [OF harvested(5)] inv
      by (intro keeps_world [OF inv]) (auto simp: custody_inv_def t ih_access)
  qed (use q in simp_all)
qed

lemma keeps_yield:
  assumes inv: "custody_inv held va sane s" and ok: "adds_no_yield c s" and run: "run_yield (XS cx) cx c s = Ok t"
  shows "custody_inv held va sane t"
proof (cases c)
  case (IRegisterPosition u i a)
  then show ?thesis using keeps_register [OF inv] run by simp
next
  case (ISyncPrincipal u i)
  then show ?thesis using keeps_register [OF inv] run by (auto simp: sync_yield_principal_def)
next
  case (IUnregisterPosition u i)
  then show ?thesis using keeps_unregister [OF inv] run ok by (simp add: adds_no_yield_def)
next
  case (IHarvest u i)
  then show ?thesis using keeps_harvest [OF inv] run ok by auto
qed (use run ok in \<open>auto intro: keeps_quiet [OF inv] frame simp: adds_no_yield_def\<close>)

lemma keeps_plan:
  assumes inv: "custody_inv held va sane s" and auth: "\<forall>salt. \<not> authorized cx (va salt)"
    and run: "run_plan (XS cx) cx c s = Ok t"
  shows "custody_inv held va sane t"
proof (cases c)
  case (ICreatePlan params)
  then show ?thesis using keeps_create [OF inv auth] run by auto
next
  case (IDeposit u tk i n)
  then show ?thesis using keeps_deposit [OF inv auth] run by simp
next
  case (IWithdraw u tk i n)
  then show ?thesis using keeps_withdraw [OF inv auth] run by simp
qed (use run in \<open>auto intro: keeps_quiet [OF inv] keeps_reshares [OF inv] reshares_add_beneficiary
    reshares_remove_beneficiary reshares_update_plan reshares_batch_add reshares_batch_remove
    reshares_batch_allocations frame\<close>)

lemma keeps_run_claim:
  assumes inv: "custody_inv held va sane s" and auth: "\<forall>salt. \<not> authorized cx (va salt)"
    and run: "run_claim (XS cx) cx c s = Ok t"
  shows "custody_inv held va sane t"
proof (cases c)
  case (IClaim i u e k)
  then show ?thesis using keeps_claim [OF inv auth] run by simp
next
  case (IBatchClaim i cs)
  then obtain r where "batch_claim (XS cx) cx i cs s = Ok (r, t)" using run by auto
  then show ?thesis by (rule batch_claim_OkD) (rule keeps_lowered [OF inv])
qed (use run in \<open>auto intro: keeps_quiet [OF inv] frame\<close>)

lemma keeps_exec:
  assumes inv: "custody_inv held va sane s" and call: "custody_call va cx c s"
    and run: "ih_exec (XS cx) cx c s = Ok t"
  shows "custody_inv held va sane t"
proof -
  have auth: "\<forall>salt. \<not> authorized cx (va salt)" using call by (simp add: custody_call_def)
  show ?thesis
  proof (cases c)
    case (PlanCall a)
    then show ?thesis using keeps_plan [OF inv auth] run by simp
  next
    case (ClaimCall a)
    then show ?thesis using keeps_run_claim [OF inv auth] run by simp
  next
    case (YieldCall a)
    then show ?thesis using keeps_yield [OF inv, of a cx t] run call by (simp add: custody_call_def)
  qed (use run in \<open>auto intro: keeps_quiet [OF inv] keeps_holdings [OF inv] keeps_lowered [OF inv]
      quiet_run_admin quiet_run_message pays_down_run_trigger holdings_run_dispute holdings_run_will\<close>)
qed

text \<open>Over every run from an empty contract each vault covers its plan.\<close>

theorem custody_run:
  "ih_run XS (custody_call va) (custody_env held va sane) s t \<Longrightarrow> custody_inv held va sane s \<Longrightarrow>
   custody_inv held va sane t"
proof (induction rule: ih_run.induct)
  case (run_call s t cx c u)
  then show ?case by (blast intro: keeps_exec)
next
  case (run_world s t w)
  then show ?case by (intro keeps_world [of t "t\<lparr>ih_world := w\<rparr>"]) (simp_all add: custody_env_def)
qed

lemma custody_empty: "sane w \<Longrightarrow> custody_inv held va sane (ih_empty w)"
  by (simp add: custody_inv_def backed_def ih_empty_def)

end

end
