(* ===== verification/Custody_Chain.thy ===== *)
theory Custody_Chain
  imports Plan_Custody Plan_Vault
begin

text \<open>
  The inheritance contract on a world of the repository's contracts: every token address runs
  \<open>Mock_Token\<close>, every vault runs \<open>Plan_Vault\<close> at the address of its salt. The answers of the lending
  pool are a parameter, whose token transfers need the pool's own authorization. The locale
  \<open>plan_custody\<close> is interpreted here.
\<close>

section \<open>The world\<close>

record custody_world =
  cw_tokens :: "address \<Rightarrow> token_state"
  cw_vaults :: "address \<Rightarrow> unit vault_state option"
  cw_seed :: nat

definition custody_held :: "address \<Rightarrow> address \<Rightarrow> custody_world \<Rightarrow> int" where
  "custody_held tk a w = token_balance (cw_tokens w tk) a"

definition custody_sane :: "custody_world \<Rightarrow> bool" where
  "custody_sane w \<longleftrightarrow> (\<forall>tk a. 0 \<le> token_balance (cw_tokens w tk) a)"

text \<open>A contract deployed with a salt has the address of that salt; these are the odd addresses.\<close>

definition vault_address :: "bytes32 \<Rightarrow> address" where
  "vault_address salt = Addr (2 * of_be_bytes salt + 1)"

fun is_vault_address :: "address \<Rightarrow> bool" where
  "is_vault_address (Addr n) = odd n"

definition custody_transfer ::
  "ctx \<Rightarrow> address \<Rightarrow> address \<Rightarrow> address \<Rightarrow> int \<Rightarrow> custody_world \<Rightarrow> custody_world option" where
  "custody_transfer cx tk a b n w =
     map_option (\<lambda>ts. w\<lparr>cw_tokens := ts\<rparr>) (tok_transfer (mock_token_ops cx) tk a b n (cw_tokens w))"

definition new_vault :: "unit vault_state" where
  "new_vault = \<lparr>pv_init = None, pv_ctl = None, pv_owner = None, pv_pid = None, pv_world = ()\<rparr>"

definition custody_deploy :: "bytes32 \<Rightarrow> custody_world \<Rightarrow> (address \<times> custody_world) option" where
  "custody_deploy salt w =
     (let v = vault_address salt in
      if cw_vaults w v = None then Some (v, w\<lparr>cw_vaults := (cw_vaults w)(v \<mapsto> new_vault)\<rparr>) else None)"

definition custody_initialize :: "address \<Rightarrow> address \<Rightarrow> address \<Rightarrow> nat \<Rightarrow> custody_world \<Rightarrow> custody_world option" where
  "custody_initialize v controller own i w =
     Option.bind (cw_vaults w v) (\<lambda>c.
       case vault_initialize controller own i c of
         Ok d \<Rightarrow> Some (w\<lparr>cw_vaults := (cw_vaults w)(v \<mapsto> d)\<rparr>) | Err _ \<Rightarrow> None | Panic \<Rightarrow> None)"

text \<open>The vault runs in a frame of its own, called by the contract that runs in \<open>cx\<close>.\<close>

definition vault_ctx :: "ctx \<Rightarrow> address \<Rightarrow> ctx" where
  "vault_ctx cx v = (invoker_ctx cx)\<lparr>current_contract_address := v\<rparr>"

definition vault_at :: "unit vault_state \<Rightarrow> 't \<Rightarrow> 't vault_state" where
  "vault_at c ts = \<lparr>pv_init = pv_init c, pv_ctl = pv_ctl c, pv_owner = pv_owner c, pv_pid = pv_pid c, pv_world = ts\<rparr>"

definition custody_release ::
  "ctx \<Rightarrow> address \<Rightarrow> address \<Rightarrow> address \<Rightarrow> nat \<Rightarrow> custody_world \<Rightarrow> custody_world option" where
  "custody_release cx v tk u n w =
     Option.bind (cw_vaults w v) (\<lambda>c.
       case vault_release (mock_token_ops (vault_ctx cx v)) (vault_ctx cx v) tk u n (vault_at c (cw_tokens w)) of
         Ok t \<Rightarrow> Some (w\<lparr>cw_tokens := pv_world t\<rparr>) | Err _ \<Rightarrow> None | Panic \<Rightarrow> None)"

text \<open>The pool's transfers, under its own authorization; a vault is no pool.\<close>

fun pool_runs :: "ctx \<Rightarrow> address \<Rightarrow> (address \<times> address \<times> int) list \<Rightarrow> custody_world \<Rightarrow> custody_world option" where
  "pool_runs cx c [] w = Some w"
| "pool_runs cx c ((tk, b, n) # prog) w =
     (if is_vault_address c then None
      else Option.bind (custody_transfer (cx\<lparr>authorized := \<lambda>a. a = c, current_contract_address := c\<rparr>) tk c b n w)
        (pool_runs cx c prog))"

record pool_answers =
  pa_register :: "nat \<Rightarrow> custody_world \<Rightarrow> (address \<times> address \<times> int) list option"
  pa_unregister :: "nat \<Rightarrow> custody_world \<Rightarrow> (address \<times> address \<times> int) list option"
  pa_accrued :: "nat \<Rightarrow> custody_world \<Rightarrow> nat option"
  pa_claim :: "nat \<Rightarrow> custody_world \<Rightarrow> (nat \<times> (address \<times> address \<times> int) list) option"

definition custody_ops ::
  "pool_answers \<Rightarrow> (nat list \<Rightarrow> bytes32) \<Rightarrow> (nat \<Rightarrow> bytes32) \<Rightarrow> ctx \<Rightarrow> custody_world ih_externals" where
  "custody_ops PA sha gen cx = \<lparr>
     tok_transfer = custody_transfer cx,
     tok_balance = \<lambda>tk a w. Some (custody_held tk a w),
     host_sha256 = sha,
     host_prng = \<lambda>w. (gen (cw_seed w), w\<lparr>cw_seed := cw_seed w + 1\<rparr>),
     host_deploy = \<lambda>h salt w. custody_deploy salt w,
     vault_init_call = custody_initialize,
     vault_release_call = custody_release cx,
     pool_register = \<lambda>c u i a n w. Option.bind (pa_register PA i w) (\<lambda>prog. pool_runs cx c prog w),
     pool_unregister = \<lambda>c u i w. Option.bind (pa_unregister PA i w) (\<lambda>prog. pool_runs cx c prog w),
     pool_accrued = \<lambda>c i w. pa_accrued PA i w,
     pool_claim = \<lambda>c u i w. Option.bind (pa_claim PA i w) (\<lambda>(g, prog). map_option (Pair g) (pool_runs cx c prog w)),
     peer_version = \<lambda>a w. Some 1,
     address_bytes = \<lambda>a. (case a of Addr n \<Rightarrow> be_bytes n)\<rparr>"

section \<open>The interface holds\<close>

lemma custody_transfer_Some:
  "custody_transfer cx tk a b n w = Some w' \<longleftrightarrow>
     (\<exists>t. token_transfer (invoker_ctx cx) a b n (cw_tokens w tk) = Ok t \<and> w' = w\<lparr>cw_tokens := (cw_tokens w)(tk := t)\<rparr>)"
  by (auto simp: custody_transfer_def mock_transfer_Some)

lemma custody_transfer_sane: "custody_transfer cx tk a b n w = Some w' \<Longrightarrow> custody_sane w \<Longrightarrow> custody_sane w'"
  by (auto simp: custody_transfer_Some custody_sane_def token_transfer_Ok token_balance_def)

lemma custody_transfer_takes:
  "custody_transfer cx tk a b n w = Some w' \<Longrightarrow> c \<noteq> a \<Longrightarrow> custody_held tk' c w \<le> custody_held tk' c w'"
  by (auto simp: custody_transfer_Some custody_held_def token_transfer_Ok token_balance_def)

lemma custody_release_Some:
  "custody_release cx v tk u n w = Some w' \<Longrightarrow>
   \<exists>t. token_transfer (invoker_ctx (vault_ctx cx v)) v u (int n) (cw_tokens w tk) = Ok t \<and>
     w' = w\<lparr>cw_tokens := (cw_tokens w)(tk := t)\<rparr>"
proof -
  assume "custody_release cx v tk u n w = Some w'"
  then obtain c where "(case vault_release (mock_token_ops (vault_ctx cx v)) (vault_ctx cx v) tk u n
      (vault_at c (cw_tokens w)) of Ok t \<Rightarrow> Some (w\<lparr>cw_tokens := pv_world t\<rparr>) | Err _ \<Rightarrow> None | Panic \<Rightarrow> None) = Some w'"
    by (auto simp: custody_release_def bind_eq_Some_conv)
  then obtain t where "vault_release (mock_token_ops (vault_ctx cx v)) (vault_ctx cx v) tk u n
      (vault_at c (cw_tokens w)) = Ok t" and "w' = w\<lparr>cw_tokens := pv_world t\<rparr>"
    by (cases "vault_release (mock_token_ops (vault_ctx cx v)) (vault_ctx cx v) tk u n (vault_at c (cw_tokens w))") auto
  then show ?thesis by (auto simp: vault_release_Ok mock_transfer_Some vault_at_def vault_ctx_def)
qed

lemma custody_initialize_tokens: "custody_initialize v c own i w = Some w' \<Longrightarrow> cw_tokens w' = cw_tokens w"
proof -
  assume "custody_initialize v c own i w = Some w'"
  then obtain d where "(case vault_initialize c own i d of
      Ok e \<Rightarrow> Some (w\<lparr>cw_vaults := (cw_vaults w)(v \<mapsto> e)\<rparr>) | Err _ \<Rightarrow> None | Panic \<Rightarrow> None) = Some w'"
    by (auto simp: custody_initialize_def bind_eq_Some_conv)
  then show ?thesis by (cases "vault_initialize c own i d") auto
qed

lemma vault_address_inj:
  assumes "i \<le> u64_max" "j \<le> u64_max" "vault_address (plan_vault_salt i) = vault_address (plan_vault_salt j)"
  shows "i = j"
proof -
  have step: "of_be_bytes (xs @ ys) = of_be_bytes xs * 256 ^ length ys + of_be_bytes ys" for xs ys
    by (induction ys rule: rev_induct) (simp_all add: of_be_bytes_def algebra_simps)
  have "of_be_bytes (plan_vault_salt k) = of_be_bytes (bytes_of_string ''planvault:'' @ replicate 14 0) * 256 ^ 8 + k"
    if "k \<le> u64_max" for k
    unfolding plan_vault_salt_def append_assoc [symmetric] step
    using of_be_bytes_be_bytes [OF that] by (simp add: be_bytes_def)
  with assms show ?thesis by (simp add: vault_address_def)
qed

lemma vault_address_odd: "is_vault_address (vault_address salt)"
  by (simp add: vault_address_def)

lemma pool_runs_keep:
  "pool_runs cx c prog w = Some w' \<Longrightarrow>
   (custody_sane w \<longrightarrow> custody_sane w') \<and> vaults_grow custody_held vault_address w w'"
proof (induction cx c prog w rule: pool_runs.induct)
  case (2 cx c tk b n prog w)
  then obtain w1 where c: "\<not> is_vault_address c"
    and 1: "custody_transfer (cx\<lparr>authorized := \<lambda>a. a = c, current_contract_address := c\<rparr>) tk c b n w = Some w1"
    and rest: "pool_runs cx c prog w1 = Some w'" by (auto simp: bind_eq_Some_conv split: if_splits)
  have "vaults_grow custody_held vault_address w w1"
    using custody_transfer_takes [OF 1] c vault_address_odd unfolding vaults_grow_def by metis
  with 2 c 1 rest custody_transfer_sane [OF 1] show ?case by (auto intro: vaults_grow_trans)
qed simp

interpretation custody: plan_custody "custody_ops PA sha gen" custody_held vault_address custody_sane
proof (rule plan_custody.intro)
  show "token_ledger (custody_ops PA sha gen cx)" for cx
    by unfold_locales (auto simp: custody_ops_def token_held_def custody_transfer_Some custody_held_def
        token_transfer_Ok token_balance_def)
  show "token_held (custody_ops PA sha gen cx) tk a w = custody_held tk a w" for cx tk a w
    by (simp add: token_held_def custody_ops_def)
  show "custody_sane w'" if "tok_transfer (custody_ops PA sha gen cx) tk a b n w = Some w'" "custody_sane w"
    for cx tk a b n w w'
    using that custody_transfer_sane by (simp add: custody_ops_def)
  show "custody_sane w' \<and> custody_held tk v w' = custody_held tk v w - int n \<and>
      (\<forall>tk' a. a \<noteq> v \<longrightarrow> custody_held tk' a w \<le> custody_held tk' a w')"
    if "vault_release_call (custody_ops PA sha gen cx) v tk u n w = Some w'" "custody_sane w" "u \<noteq> v"
    for cx v tk u n w w'
  proof -
    have "custody_release cx v tk u n w = Some w'" using that by (simp add: custody_ops_def)
    from custody_release_Some [OF this] that show ?thesis
      by (auto simp: custody_sane_def custody_held_def token_transfer_Ok token_balance_def)
  qed
qed (auto simp: custody_sane_def custody_held_def vault_address_inj custody_ops_def custody_deploy_def
    bind_eq_Some_conv Let_def split: if_splits dest: pool_runs_keep custody_initialize_tokens)

end
