(* ===== verification/Inherit_Demo.thy ===== *)
theory Inherit_Demo
  imports Custody_Chain
begin

text \<open>
  A concrete estate on the world of \<open>Custody_Chain\<close>: the contract lives at \<open>Addr 100\<close>, its
  administrator is \<open>Addr 2\<close>; the owner \<open>Addr 4\<close> puts 10000 of the token \<open>Addr 10\<close> into a plan for two
  heirs, and the first heir, \<open>Addr 6\<close>, claims. The states are written out, so that the
  properties can be applied to them.
\<close>

section \<open>The deployment\<close>

definition estate_cx :: "nat \<Rightarrow> ctx" where
  "estate_cx n = \<lparr>timestamp = n, sequence = n, current_contract_address = Addr 100,
     authorized = \<lambda>a. a = Addr 2 \<or> a = Addr 4 \<or> a = Addr 6\<rparr>"

definition estate_sha :: "nat list \<Rightarrow> bytes32" where
  "estate_sha bs = take 32 (bs @ replicate 32 0)"

definition estate_pool :: pool_answers where
  "estate_pool = \<lparr>pa_register = \<lambda>_ _. Some [], pa_unregister = \<lambda>_ _. Some [], pa_accrued = \<lambda>_ _. Some 500,
     pa_claim = \<lambda>_ _. Some (500, [(Addr 10, Addr 100, 500)])\<rparr>"

definition estate_ops :: "ctx \<Rightarrow> custody_world ih_externals" where
  "estate_ops = custody_ops estate_pool estate_sha (\<lambda>n. [n])"

definition estate_token :: token_state where
  "estate_token = \<lparr>tk_balance = [Addr 4 \<mapsto> 100000, Addr 12 \<mapsto> 50000], tk_total_supply = Some 150000\<rparr>"

definition estate_world :: custody_world where
  "estate_world = \<lparr>cw_tokens = \<lambda>_. estate_token, cw_vaults = \<lambda>_. None, cw_seed = 0\<rparr>"

section \<open>The states\<close>

definition approved :: kyc_status where
  "approved = \<lparr>k_submitted = True, k_approved = True, k_rejected = False, k_submitted_at = 1,
     k_approved_at = 1, k_rejected_at = 0\<rparr>"

definition estate_init :: "custody_world ih_state" where
  "estate_init = (ih_empty estate_world)\<lparr>roles_key := [Addr 2 \<mapsto> [RoleAdmin]], contract_version := Some 1,
     ih_admin := Some (Addr 2), ih_vault_wasm := Some []\<rparr>"

definition estate_known :: "custody_world ih_state" where
  "estate_known = estate_init\<lparr>ih_kyc := [Addr 4 \<mapsto> approved, Addr 6 \<mapsto> approved],
     ih_events := [KycApprovedEvent (Addr 4) 1, KycApprovedEvent (Addr 6) 1]\<rparr>"

definition estate_params :: create_plan_params where
  "estate_params = \<lparr>cp_owner = Addr 4, cp_token = Addr 10, cp_plan_name = ''Estate'', cp_description = '''',
     cp_total_amount = 10000, cp_distribution_method = LumpSum,
     cp_beneficiaries_data = [(''Ann'', ''a@x'', 123456, [1], 6000, 1), (''Bob'', ''b@x'', 654321, [2], 4000, 2)],
     cp_is_lendable = False, cp_guardians = [], cp_guardian_threshold = 0\<rparr>"

definition estate_vault :: address where
  "estate_vault = vault_address (plan_vault_salt 1)"

text \<open>The vault after its initialization, and a transfer that leaves two accounts with given balances.\<close>

definition estate_vault_state :: "unit vault_state" where
  "estate_vault_state = \<lparr>pv_init = Some True, pv_ctl = Some (Addr 100), pv_owner = Some (Addr 4), pv_pid = Some 1,
     pv_world = ()\<rparr>"

definition moved :: "address \<Rightarrow> int \<Rightarrow> address \<Rightarrow> int \<Rightarrow> custody_world \<Rightarrow> custody_world" where
  "moved a x b y w = w\<lparr>cw_tokens := (cw_tokens w)(Addr 10 := (cw_tokens w (Addr 10))
     \<lparr>tk_balance := (tk_balance (cw_tokens w (Addr 10)))(a \<mapsto> x, b \<mapsto> y)\<rparr>)\<rparr>"

definition estate_paid_fee :: custody_world where
  "estate_paid_fee = moved (Addr 4) 99800 (Addr 2) 200 estate_world"

definition estate_funded :: custody_world where
  "estate_funded = (moved (Addr 4) 90000 estate_vault 9800
     (estate_paid_fee\<lparr>cw_vaults := (cw_vaults estate_paid_fee)(estate_vault \<mapsto> estate_vault_state)\<rparr>))\<lparr>cw_seed := 2\<rparr>"

definition estate_heir :: "string \<Rightarrow> string \<Rightarrow> nat \<Rightarrow> nat \<Rightarrow> nat \<Rightarrow> nat \<Rightarrow> nat \<Rightarrow> beneficiary" where
  "estate_heir name email k code bank bp prio = \<lparr>b_hashed_full_name = estate_sha (bytes_of_string name),
     b_hashed_email = estate_sha (bytes_of_string email),
     b_hashed_claim_code = estate_sha ([k] @ claim_digits code), b_bank_account = [bank],
     b_allocation_bp = bp, b_priority = prio, b_is_claimed = False\<rparr>"

definition estate_plan :: inheritance_plan where
  "estate_plan = \<lparr>pl_plan_name = ''Estate'', pl_description = '''', pl_token = Addr 10, pl_asset_type = ''USDC'',
     pl_total_amount = 9800, pl_distribution_method = LumpSum,
     pl_beneficiaries = [estate_heir ''Ann'' ''a@x'' 0 123456 1 6000 1, estate_heir ''Bob'' ''b@x'' 1 654321 2 4000 2],
     pl_total_allocation_bp = 10000, pl_owner = Addr 4, pl_created_at = 2, pl_is_active = True,
     pl_is_lendable = False, pl_total_loaned = 0, pl_waterfall_enabled = False, pl_grace_period = 0,
     pl_earn_yield = False\<rparr>"

definition estate_created :: "custody_world ih_state" where
  "estate_created = estate_known\<lparr>roles_key := [Addr 2 \<mapsto> [RoleAdmin], Addr 4 \<mapsto> [RoleOwner]],
     ih_next_plan_id := Some 2, ih_plan := [1 \<mapsto> estate_plan], ih_salt := [(1, 0) \<mapsto> [0], (1, 1) \<mapsto> [1]],
     ih_user_plans := [Addr 4 \<mapsto> [1]], ih_plan_vault := [1 \<mapsto> estate_vault], ih_world := estate_funded\<rparr>"

section \<open>The steps\<close>

lemmas estate_defs = estate_cx_def estate_ops_def estate_pool_def estate_token_def estate_world_def
  approved_def estate_init_def estate_known_def estate_params_def estate_paid_fee_def estate_funded_def
  estate_vault_state_def moved_def estate_plan_def estate_created_def ih_empty_def

lemmas estate_guards = require_auth_def ih_require_admin_def ih_require_not_blacklisted_def
  require_not_blacklisted_def is_blacklisted_def require_role_def has_role_def roles_of_def
  check_not_paused_def require_not_paused_or_panic_def is_contract_paused_def

text \<open>Evaluation runs one step of a call at a time.\<close>

lemma run_step: "m = m' \<Longrightarrow> and_then m f = and_then m' f"
  by simp

lemmas step_congs = run_step let_weak_cong

lemma estate_vault_even: "even n \<Longrightarrow> estate_vault \<noteq> Addr n \<and> Addr n \<noteq> estate_vault"
  using vault_address_odd [of "plan_vault_salt 1"] unfolding estate_vault_def [symmetric]
  by (metis is_vault_address.simps)

lemmas estate_vault_other [simp] = estate_vault_even [of 2, simplified] estate_vault_even [of 4, simplified]
  estate_vault_even [of 6, simplified] estate_vault_even [of 100, simplified]

text \<open>A transfer of the token between two accounts, as the balances it leaves.\<close>

lemma transfer_moved:
  assumes "a = current_contract_address cx \<or> authorized cx a" and "0 \<le> n" and "a \<noteq> b"
    and "custody_held (Addr 10) a w = x + n" and "custody_held (Addr 10) b w = y - n"
    and "0 \<le> x" and "x \<le> i128_max" and "0 \<le> y" and "y \<le> i128_max"
  shows "custody_transfer cx (Addr 10) a b n w = Some (moved a x b y w)"
  using assms unfolding custody_transfer_Some
  by (simp add: token_transfer_Ok invoker_ctx_def custody_held_def moved_def i128_min_def)

lemma held_moved [simp]:
  "a \<noteq> b \<Longrightarrow> custody_held (Addr 10) c (moved a x b y w) =
     (if c = b then y else if c = a then x else custody_held (Addr 10) c w)"
  by (simp add: custody_held_def moved_def token_balance_def)

lemma held_outside [simp]:
  "custody_held tk a (w\<lparr>cw_vaults := f\<rparr>) = custody_held tk a w"
  "custody_held tk a (w\<lparr>cw_seed := n\<rparr>) = custody_held tk a w"
  by (simp_all add: custody_held_def)

lemma held_start [simp]:
  "custody_held (Addr 10) a estate_world = (if a = Addr 4 then 100000 else if a = Addr 12 then 50000 else 0)"
  by (simp add: custody_held_def estate_world_def estate_token_def token_balance_def)

lemma estate_fee:
  "ih_world s = estate_world \<Longrightarrow>
   pay_creation_fee (estate_ops (estate_cx 2)) (Addr 10) (Addr 4) (Addr 2) 200 s = s\<lparr>ih_world := estate_paid_fee\<rparr>"
  using transfer_moved [of "Addr 4" "estate_cx 2" 200 "Addr 2" estate_world 99800 200]
  by (simp add: pay_creation_fee_def estate_ops_def custody_ops_def estate_cx_def estate_paid_fee_def i128_max_def)

lemma estate_deploy:
  "ih_vault_wasm s = Some h \<Longrightarrow> ih_world s = estate_paid_fee \<Longrightarrow>
   deploy_plan_vault (estate_ops (estate_cx 2)) (estate_cx 2) 1 (Addr 4) s =
   Ok (estate_vault, s\<lparr>ih_plan_vault := (ih_plan_vault s)(1 \<mapsto> estate_vault), ih_world :=
     estate_paid_fee\<lparr>cw_vaults := (cw_vaults estate_paid_fee)(estate_vault \<mapsto> estate_vault_state)\<rparr>\<rparr>)"
  by (simp add: deploy_plan_vault_def estate_ops_def custody_ops_def custody_deploy_def custody_initialize_def
      vault_initialize_def new_vault_def store_plan_vault_def estate_cx_def estate_vault_def estate_vault_state_def
      estate_paid_fee_def moved_def estate_world_def Let_def)

lemma estate_fund:
  "ih_world s = estate_paid_fee\<lparr>cw_vaults := (cw_vaults estate_paid_fee)(estate_vault \<mapsto> estate_vault_state)\<rparr> \<Longrightarrow>
   try_transfer (estate_ops (estate_cx 2)) (Addr 10) (Addr 4) estate_vault 9800 s =
     Ok (s\<lparr>ih_world := estate_funded\<lparr>cw_seed := 0\<rparr>\<rparr>)"
  using transfer_moved [of "Addr 4" "estate_cx 2" 9800 estate_vault "ih_world s" 90000 9800] estate_vault_even [of 12]
  by (simp add: try_transfer_def estate_ops_def custody_ops_def estate_cx_def estate_funded_def estate_paid_fee_def
      i128_max_def) (simp add: moved_def estate_world_def)

lemma estate_beneficiaries:
  "ih_world s = estate_funded\<lparr>cw_seed := 0\<rparr> \<Longrightarrow> ih_salt s = Map.empty \<Longrightarrow>
   create_beneficiaries (estate_ops (estate_cx 2)) 1 (cp_beneficiaries_data estate_params) s =
     Ok (pl_beneficiaries estate_plan, 10000,
       s\<lparr>ih_salt := [(1, 0) \<mapsto> [0], (1, 1) \<mapsto> [1]], ih_world := estate_funded\<rparr>)"
  by (simp add: create_beneficiaries_def create_beneficiary_or_fail_def create_beneficiary_def
      generate_claim_salt_def hash_claim_code_with_salt_def hash_string_def estate_params_def estate_ops_def
      custody_ops_def estate_plan_def estate_heir_def estate_funded_def u32_max_def)

lemma estate_valid: "validate_beneficiaries (cp_beneficiaries_data estate_params) = Ok ()"
  by (simp add: validate_beneficiaries_def estate_params_def checked_add_u32_def u32_max_def)

lemma estate_fee_amount: "creation_fee 10000 = 200"
  by (simp add: creation_fee_def checked_mul_u64_def checked_div_def CREATION_FEE_BP_def u64_max_def)

lemma estate_create:
  "create_inheritance_plan (estate_ops (estate_cx 2)) (estate_cx 2) estate_params estate_known = Ok (1, estate_created)"
proof -
  have fields: "cp_owner estate_params = Addr 4" "cp_token estate_params = Addr 10" "cp_total_amount estate_params = 10000"
    "cp_guardians estate_params = []" "cp_plan_name estate_params = ''Estate''" "cp_description estate_params = ''''"
    by (simp_all add: estate_params_def)
  have start: "require_auth (estate_cx 2) (Addr 4) = Ok ()" "check_not_paused estate_known = Ok ()"
    "enter_guard estate_known = Ok (estate_known\<lparr>reentrancy_lock := Some True\<rparr>)"
    "check_kyc_approved (estate_known\<lparr>reentrancy_lock := Some True\<rparr>) (Addr 4) = Ok ()"
    "ih_admin estate_known = Some (Addr 2)" "ih_world estate_known = estate_world"
    by (simp_all add: estate_defs estate_guards check_kyc_approved_def)
  have balance: "tok_balance (estate_ops (estate_cx 2)) (Addr 10) (Addr 4) estate_world = Some 100000"
    by (simp add: estate_ops_def custody_ops_def)
  have known: "ih_next_plan_id estate_known = None" "ih_vault_wasm estate_known = Some []" "ih_salt estate_known = Map.empty"
    by (simp_all add: estate_defs)
  show ?thesis
    unfolding create_inheritance_plan_def Let_def fields
    by (simp add: fields start balance known estate_fee_amount checked_sub_def
        validate_plan_inputs_def increment_plan_id_def get_next_plan_id_def u64_add_def u64_max_def estate_fee
        estate_deploy [unfolded One_nat_def] estate_fund estate_valid
        estate_beneficiaries [unfolded One_nat_def] register_guardians_def
        cong: run_step del: and_then_eq_Ok)
      (simp add: estate_defs add_plan_to_user_def assign_role_def roles_of_def store_plan_def exit_guard_def
        reentrancy_exit_def)
qed

lemma estate_initialize:
  "initialize_admin (estate_cx 0) (Addr 2) (ih_empty estate_world) = Ok (estate_init\<lparr>ih_vault_wasm := None\<rparr>)"
  by (simp add: initialize_admin_def estate_defs estate_guards assign_role_def set_contract_version_def)

lemma estate_wasm:
  "set_plan_vault_wasm_hash (estate_cx 0) (Addr 2) [] (estate_init\<lparr>ih_vault_wasm := None\<rparr>) = Ok estate_init"
  by (simp add: set_plan_vault_wasm_hash_def estate_defs estate_guards)

lemma estate_submit:
  "and_then (submit_kyc (estate_cx 1) (Addr 4) estate_init) (submit_kyc (estate_cx 1) (Addr 6)) =
     Ok (estate_init\<lparr>ih_kyc := [Addr 4 \<mapsto> approved\<lparr>k_approved := False, k_approved_at := 0\<rparr>,
       Addr 6 \<mapsto> approved\<lparr>k_approved := False, k_approved_at := 0\<rparr>]\<rparr>)"
  by (simp add: submit_kyc_def set_kyc_def empty_kyc_def estate_defs estate_guards)

lemma estate_approve:
  "and_then (approve_kyc (estate_cx 1) (Addr 2) (Addr 4) (estate_init\<lparr>ih_kyc := [Addr 4 \<mapsto> approved\<lparr>k_approved := False, k_approved_at := 0\<rparr>,
       Addr 6 \<mapsto> approved\<lparr>k_approved := False, k_approved_at := 0\<rparr>]\<rparr>)) (approve_kyc (estate_cx 1) (Addr 2) (Addr 6)) =
     Ok estate_known"
  by (simp add: approve_kyc_def set_kyc_def ih_publish_def estate_defs estate_guards fun_upd_twist)

section \<open>The run\<close>

definition estate_run :: "custody_world ih_state \<Rightarrow> custody_world ih_state \<Rightarrow> bool" where
  "estate_run = ih_run estate_ops (\<lambda>cx c s. custody_call vault_address cx c s \<and> typed_call c)
     (custody_env custody_held vault_address custody_sane)"

lemma estate_no_vault: "\<not> authorized (estate_cx n) (vault_address salt)"
proof
  assume "authorized (estate_cx n) (vault_address salt)"
  then have "\<not> is_vault_address (vault_address salt)" by (auto simp: estate_cx_def)
  then show False using vault_address_odd by blast
qed

lemma estate_call:
  assumes "estate_run s t" and "ih_exec (estate_ops (estate_cx n)) (estate_cx n) c t = Ok u"
    and "case c of YieldCall y \<Rightarrow> adds_no_yield y t | _ \<Rightarrow> True" and "typed_call c"
  shows "estate_run s u"
proof -
  have "custody_call vault_address (estate_cx n) c t \<and> typed_call c"
    using assms(3,4) estate_no_vault unfolding custody_call_def by blast
  from run_call [OF assms(1) [unfolded estate_run_def] this assms(2)] show ?thesis unfolding estate_run_def .
qed

lemma estate_runs: "estate_run (ih_empty estate_world) estate_created"
proof -
  have "estate_run (ih_empty estate_world) (ih_empty estate_world)" unfolding estate_run_def by (rule run_refl)
  from estate_call [OF this, of 0 "AdminCall (IInitialize (Addr 2))"] estate_initialize
  have "estate_run (ih_empty estate_world) (estate_init\<lparr>ih_vault_wasm := None\<rparr>)" by simp
  from estate_call [OF this, of 0 "AdminCall (ISetVaultWasm (Addr 2) [])"] estate_wasm
  have init: "estate_run (ih_empty estate_world) estate_init" by simp
  from estate_submit obtain s1 where 1: "submit_kyc (estate_cx 1) (Addr 4) estate_init = Ok s1"
    and 2: "submit_kyc (estate_cx 1) (Addr 6) s1 = Ok (estate_init\<lparr>ih_kyc :=
      [Addr 4 \<mapsto> approved\<lparr>k_approved := False, k_approved_at := 0\<rparr>,
       Addr 6 \<mapsto> approved\<lparr>k_approved := False, k_approved_at := 0\<rparr>]\<rparr>)" by auto
  from estate_approve obtain s2 where 3: "approve_kyc (estate_cx 1) (Addr 2) (Addr 4) (estate_init\<lparr>ih_kyc :=
      [Addr 4 \<mapsto> approved\<lparr>k_approved := False, k_approved_at := 0\<rparr>,
       Addr 6 \<mapsto> approved\<lparr>k_approved := False, k_approved_at := 0\<rparr>]\<rparr>) = Ok s2"
    and 4: "approve_kyc (estate_cx 1) (Addr 2) (Addr 6) s2 = Ok estate_known" by auto
  have "estate_run (ih_empty estate_world) s1"
    using estate_call [OF init, of 1 "ClaimCall (ISubmitKyc (Addr 4))"] 1 by simp
  from estate_call [OF this, of 1 "ClaimCall (ISubmitKyc (Addr 6))"] 2
  have "estate_run (ih_empty estate_world) (estate_init\<lparr>ih_kyc :=
      [Addr 4 \<mapsto> approved\<lparr>k_approved := False, k_approved_at := 0\<rparr>,
       Addr 6 \<mapsto> approved\<lparr>k_approved := False, k_approved_at := 0\<rparr>]\<rparr>)" by simp
  from estate_call [OF this, of 1 "ClaimCall (IApproveKyc (Addr 2) (Addr 4))"] 3
  have "estate_run (ih_empty estate_world) s2" by simp
  from estate_call [OF this, of 1 "ClaimCall (IApproveKyc (Addr 2) (Addr 6))"] 4
  have "estate_run (ih_empty estate_world) estate_known" by simp
  from estate_call [OF this, of 2 "PlanCall (ICreatePlan estate_params)"] estate_create
  show ?thesis by (simp add: estate_params_def u64_max_def)
qed

section \<open>The claim\<close>

definition estate_key :: bytes32 where
  "estate_key = claim_key (estate_ops (estate_cx 3)) 1 (estate_sha (bytes_of_string ''a@x''))"

definition estate_claimed :: "custody_world ih_state" where
  "estate_claimed = estate_created\<lparr>
     roles_key := [Addr 2 \<mapsto> [RoleAdmin], Addr 4 \<mapsto> [RoleOwner], Addr 6 \<mapsto> [RoleBeneficiary]],
     ih_attempts := [(1, Addr 6) \<mapsto> \<lparr>aw_window_start = 3, aw_attempts = 1\<rparr>],
     ih_plan := [1 \<mapsto> estate_plan\<lparr>pl_total_amount := 3920, pl_beneficiaries :=
       [(estate_heir ''Ann'' ''a@x'' 0 123456 1 6000 1)\<lparr>b_is_claimed := True\<rparr>,
        estate_heir ''Bob'' ''b@x'' 1 654321 2 4000 2]\<rparr>],
     ih_claim := [estate_key \<mapsto> \<lparr>cr_plan_id = 1, cr_beneficiary_index = 0, cr_claimed_at = 3\<rparr>],
     ih_user_claimed := [Addr 4 \<mapsto> [1]], ih_all_claimed := Some [1],
     ih_world := moved estate_vault 3920 (Addr 6) 5880 estate_funded,
     ih_events := [KycApprovedEvent (Addr 4) 1, KycApprovedEvent (Addr 6) 1,
       ClaimSuccess 1 (estate_sha (bytes_of_string ''a@x'')) 5880, FiatPayoutRequested 1 0 5880 ''BANK'']\<rparr>"

lemma release_transfer:
  assumes "cw_vaults w v = Some c" and "pv_ctl c = Some (current_contract_address cx)" and "0 < n"
  shows "custody_release cx v tk u n w = custody_transfer (vault_ctx cx v) tk v u (int n) w"
  using assms
  by (cases "tok_transfer (mock_token_ops (vault_ctx cx v)) tk v u (int n) (cw_tokens w)")
    (simp_all add: custody_release_def custody_transfer_def vault_release_def vault_at_def vault_ctx_def
      invoker_ctx_def require_auth_def)

lemma estate_release:
  assumes "ih_world s = estate_funded" and "ih_plan_vault s 1 = Some estate_vault"
  shows "release_from_plan_vault (estate_ops (estate_cx 3)) 1 (Addr 10) (Addr 6) 5880 s =
    Ok (s\<lparr>ih_world := moved estate_vault 3920 (Addr 6) 5880 estate_funded\<rparr>)"
proof -
  have vault: "cw_vaults estate_funded estate_vault = Some estate_vault_state"
    by (simp add: estate_funded_def moved_def)
  have "custody_release (estate_cx 3) estate_vault (Addr 10) (Addr 6) 5880 estate_funded =
      custody_transfer (vault_ctx (estate_cx 3) estate_vault) (Addr 10) estate_vault (Addr 6) 5880 estate_funded"
    using release_transfer [OF vault, of "estate_cx 3" 5880 "Addr 10" "Addr 6"]
    by (simp add: estate_vault_state_def estate_cx_def)
  also have "\<dots> = Some (moved estate_vault 3920 (Addr 6) 5880 estate_funded)"
    by (rule transfer_moved)
      (simp_all add: vault_ctx_def estate_funded_def estate_paid_fee_def i128_max_def)
  finally show ?thesis
    using assms by (simp add: release_from_plan_vault_def require_plan_vault_def estate_ops_def custody_ops_def)
qed

lemma estate_claim:
  "claim_inheritance_plan (estate_ops (estate_cx 3)) (estate_cx 3) 1 (Addr 6) ''a@x'' 123456 estate_created =
     Ok estate_claimed"
proof -
  let ?X = "estate_ops (estate_cx 3)" and ?cx = "estate_cx 3"
  let ?v = "estate_created\<lparr>reentrancy_lock := Some True\<rparr>"
  let ?s = "?v\<lparr>ih_attempts := [(1, Addr 6) \<mapsto> \<lparr>aw_window_start = 3, aw_attempts = 1\<rparr>]\<rparr>"
  have plan: "the_plan ?v 1 = Ok estate_plan"
    by (simp add: estate_created_def)
  have start: "require_auth ?cx (Addr 6) = Ok ()" "ih_require_not_blacklisted estate_created (Addr 6) = Ok ()"
    "check_not_paused estate_created = Ok ()" "guard_lock_or_panic estate_created = Ok ?v"
    "check_kyc_approved ?v (Addr 6) = Ok ()" "check_not_held 1 ?v = Ok ()"
    by (simp_all add: estate_defs estate_guards check_kyc_approved_def guard_lock_or_panic_def lock_defs)
  have attempt: "check_and_record_claim_attempt ?cx 1 (Addr 6) ?v = Ok ?s"
  proof -
    have "ih_attempts ?v = Map.empty" by (simp add: estate_defs)
    then show ?thesis
      by (simp add: check_and_record_claim_attempt_def estate_cx_def ih_const_defs saturating_add_u32_def u32_max_def
          Let_def)
  qed
  have none: "get_trigger_config ?s 1 = None" "get_trigger_info ?s 1 = None" "ih_emergency ?s 1 = None"
    "ih_claim ?s = Map.empty" "ih_salt ?s = [(1, 0) \<mapsto> [0], (1, 1) \<mapsto> [1]]" "ih_exit_settlement ?s = Map.empty"
    "ih_frozen_beneficiary ?s = Map.empty"
    by (simp_all add: estate_defs ih_access)
  have trigger: "try_auto_trigger ?cx 1 ?s = Ok ?s"
    using none by (simp add: try_auto_trigger_def auto_trigger_check_def check_trigger_conditions_def)
  have limit: "check_emergency_limit ?cx 1 estate_plan 5880 ?s = Ok ?s"
    using none by (simp add: check_emergency_limit_def is_emergency_active_def check_and_expire_emergency_access_def)
  have time: "check_claim_time ?cx estate_plan False = Ok ()"
    by (simp add: check_claim_time_def is_claim_time_valid_def estate_plan_def estate_cx_def u64_sub_def)
  have hash: "hash_string ?X ''a@x'' = Ok (estate_sha (bytes_of_string ''a@x''))"
    by (simp add: hash_string_def estate_ops_def custody_ops_def)
  have find: "find_beneficiary ?X ?s 1 (estate_sha (bytes_of_string ''a@x'')) 123456 0
      (take MAX_BENEFICIARIES (pl_beneficiaries estate_plan)) = Ok (Some 0)"
    using none by (simp add: estate_plan_def estate_heir_def hash_claim_code_with_salt_def estate_ops_def
        custody_ops_def MAX_BENEFICIARIES_def)
  have payout: "calculate_waterfall_payout estate_plan 0 = 5880" "get_vesting_exit_settlement ?s 1 0 = 0"
    using none by (simp_all add: calculate_waterfall_payout_def entitlement_def estate_plan_def estate_heir_def
        mul_then_div_def checked_mul_u128_def checked_div_def u128_max_def as_u64_def
        get_vesting_exit_settlement_def)
  have fields: "pl_is_active estate_plan" "pl_waterfall_enabled estate_plan = False" "pl_token estate_plan = Addr 10"
    "pl_total_amount estate_plan = 9800" "pl_total_loaned estate_plan = 0"
    by (simp_all add: estate_plan_def)
  have release: "release_from_plan_vault ?X 1 (Addr 10) (Addr 6) 5880 ?s =
      Ok (?s\<lparr>ih_world := moved estate_vault 3920 (Addr 6) 5880 estate_funded\<rparr>)"
    by (rule estate_release) (simp_all add: estate_created_def)
  show ?thesis
    unfolding claim_inheritance_plan_def Let_def
    by (simp add: start [unfolded One_nat_def] plan [unfolded One_nat_def] attempt [unfolded One_nat_def] trigger [unfolded One_nat_def]
        none(1-3) [unfolded One_nat_def] none(4-) [simplified] time hash find [unfolded One_nat_def] payout [unfolded One_nat_def]
        limit [unfolded One_nat_def] release [unfolded One_nat_def] fields has_active_vesting_schedule_def
        cong: run_step del: and_then_eq_Ok release_from_plan_vault_eq_Ok)
      (simp add: estate_claimed_def estate_key_def finish_claim_def claim_events_def add_plan_to_claimed_def
        assign_role_def roles_of_def exit_guard_def reentrancy_exit_def guard_drop_def store_plan_def ih_publish_def
        estate_created_def estate_known_def estate_init_def ih_empty_def estate_plan_def estate_heir_def
        estate_cx_def Let_def)
qed

end
