(* ===== verification/Inherit_Loans.thy ===== *)
theory Inherit_Loans
  imports Inherit_Settled
begin

text \<open>
  No call of the inheritance contract lends out of a plan: what a plan has on loan is zero when it is
  created and never rises, so nothing is ever outstanding for a recall or a liquidation.
\<close>

lemma unowed_holdings: "unowed s \<Longrightarrow> same_holdings s t \<Longrightarrow> unowed t"
  by (simp add: same_holdings_def)

lemma unowed_quiet: "unowed s \<Longrightarrow> quiet s t \<Longrightarrow> unowed t"
  unfolding quiet_def by (blast intro: unowed_holdings)

lemma unowed_pays_down: "unowed s \<Longrightarrow> pays_down s t \<Longrightarrow> unowed t"
  by (simp add: pays_down_def)

lemma unowed_same: "unowed s \<Longrightarrow> ih_plan t = ih_plan s \<Longrightarrow> unowed t"
  by (simp add: unowed_def)

lemma unowed_reshares: "unowed s \<Longrightarrow> reshares X s t \<Longrightarrow> unowed t"
  unfolding reshares_def by (elim exE conjE) (rule unowed_update, auto dest: unowed_plan)

text \<open>A plan written back with another total.\<close>

lemma unowed_stored:
  "unowed s \<Longrightarrow> ih_plan s i = Some p \<Longrightarrow> ih_plan t = (ih_plan s)(i \<mapsto> p\<lparr>pl_total_amount := n\<rparr>) \<Longrightarrow> unowed t"
  by (rule unowed_update) (auto dest: unowed_plan)

lemma unowed_unlocked [simp]:
  "unowed (s\<lparr>reentrancy_lock := x\<rparr>) = unowed s" "unowed (exit_guard s) = unowed s" "unowed (ih_publish ev s) = unowed s"
  by (simp_all add: unowed_def ih_access)

lemma unowed_run_plan:
  assumes inv: "unowed s" and run: "run_plan X cx c s = Ok t"
  shows "unowed t"
proof (cases c)
  case (ICreatePlan params)
  then obtain i where "create_inheritance_plan X cx params s = Ok (i, t)" using run by auto
  then show ?thesis
  proof (rule create_plan_OkD)
    fix fee bs
    assume t: "ih_plan t = (ih_plan s)(i \<mapsto> \<lparr>pl_plan_name = cp_plan_name params, pl_description = cp_description params,
           pl_token = cp_token params, pl_asset_type = ''USDC'', pl_total_amount = cp_total_amount params - fee,
           pl_distribution_method = cp_distribution_method params, pl_beneficiaries = bs,
           pl_total_allocation_bp = sum_list (map data_bp (cp_beneficiaries_data params)),
           pl_owner = cp_owner params, pl_created_at = timestamp cx,
           pl_is_active = True, pl_is_lendable = cp_is_lendable params, pl_total_loaned = 0,
           pl_waterfall_enabled = False, pl_grace_period = 0, pl_earn_yield = False\<rparr>)"
    show ?thesis by (rule unowed_update [OF inv t]) simp
  qed
next
  case (IDeposit u tk i n)
  then have "ih_deposit X cx u tk i n s = Ok t" using run by simp
  then show ?thesis by (rule ih_deposit_OkD) (rule unowed_stored [OF inv], simp_all add: ih_access)
next
  case (IWithdraw u tk i n)
  then have "ih_withdraw X cx u tk i n s = Ok t" using run by simp
  then show ?thesis by (rule ih_withdraw_OkD) (rule unowed_stored [OF inv], simp_all add: ih_access)
qed (use run in \<open>auto intro: unowed_quiet [OF inv] unowed_reshares [OF inv] reshares_add_beneficiary
    reshares_remove_beneficiary reshares_update_plan reshares_batch_add reshares_batch_remove
    reshares_batch_allocations frame\<close>)

lemma unowed_run_claim:
  assumes inv: "unowed s" and run: "run_claim X cx c s = Ok t"
  shows "unowed t"
proof (cases c)
  case (IClaim i u e k)
  then have "claim_inheritance_plan X cx i u e k s = Ok t" using run by simp
  then show ?thesis
    by (rule claim_OkD) (rule unowed_update [OF inv], auto simp: claimed_plan_def Let_def dest: unowed_plan [OF inv])
next
  case (IBatchClaim i cs)
  then obtain r where "batch_claim X cx i cs s = Ok (r, t)" using run by auto
  then show ?thesis by (rule batch_claim_OkD) (rule unowed_pays_down [OF inv])
qed (use run in \<open>auto intro: unowed_quiet [OF inv] frame\<close>)

lemma unowed_harvest_inner:
  assumes inv: "unowed s" and run: "harvest_yield_inner X cx u i s = Ok (r, t)"
  shows "unowed t"
  using run
proof (cases rule: harvest_inner_OkD)
  case (harvested p st c gross net fee)
  have p: "ih_plan s i = Some p" using harvested(2) by (auto simp: harvest_checks_def)
  show ?thesis
    using harvested(7) unowed_stored [OF inv p] unowed_same [OF inv]
    by (cases "yc_auto_compound (yst_config st)") (auto simp: harvest_books_def)
qed (use inv in \<open>auto intro: unowed_same\<close>)

lemma unowed_run_yield:
  assumes inv: "unowed s" and run: "run_yield X cx c s = Ok t"
  shows "unowed t"
proof (cases c)
  case (IRegisterPosition u i a)
  then show ?thesis using run inv
    by (auto simp: register_yield_position_def set_yield_state_def ih_publish_def Let_def intro: unowed_same)
next
  case (ISyncPrincipal u i)
  then show ?thesis using run inv
    by (auto simp: sync_yield_principal_def register_yield_position_def set_yield_state_def ih_publish_def Let_def
        intro: unowed_same)
next
  case (IUnregisterPosition u i)
  then show ?thesis using run inv
    by (auto simp: unregister_yield_position_def store_plan_def unowed_def split: if_splits)
next
  case (ICompound u i)
  then obtain r where "compound_pending_yield cx u i s = Ok (r, t)" using run by auto
  then obtain p n where "ih_plan s i = Some p" "ih_plan t = (ih_plan s)(i \<mapsto> p\<lparr>pl_total_amount := n\<rparr>)"
    by (auto split: if_splits simp: compound_pending_yield_def set_yield_state_def store_plan_def ih_publish_def Let_def)
  then show ?thesis by (rule unowed_stored [OF inv])
next
  case (IHarvest u i)
  then obtain r where ha: "harvest_yield X cx u i s = Ok (r, t)" using run by auto
  obtain q v where inner: "harvest_yield_inner X cx u i (s\<lparr>reentrancy_lock := Some True\<rparr>) = Ok (q, v)"
    and out: "(case q of Inl e \<Rightarrow> Err e | Inr g \<Rightarrow> Ok (g, exit_guard v)) = Ok (r, t)"
    using ha by (auto simp: harvest_yield_def)
  have "unowed v" by (rule unowed_harvest_inner [OF _ inner]) (use inv in simp)
  then show ?thesis using out by (cases q) auto
next
  case (IHarvestBatch u "is")
  let ?s = "s\<lparr>reentrancy_lock := Some True\<rparr>"
  obtain a b n v where loop: "fold_outcome (harvest_batch_one X cx u) is (0, 0, 0, ?s) = Ok (a, b, n, v)"
    and t: "t = ih_publish (YieldBatchHarvestEvent a b n) (exit_guard v)"
    using run IHarvestBatch by (auto simp: harvest_yield_batch_def Let_def)
  have "unowed (snd (snd (snd (a, b, n, v))))"
    by (rule fold_outcome_invariant [OF loop])
      (use inv in \<open>auto elim: harvest_batch_one_OkD dest: unowed_harvest_inner [rotated]\<close>)
  then show ?thesis by (simp add: t)
qed (use run in \<open>auto intro: unowed_quiet [OF inv] frame\<close>)

lemma unowed_exec:
  assumes inv: "unowed s" and run: "ih_exec X cx c s = Ok t"
  shows "unowed t"
proof (cases c)
  case (PlanCall a)
  then show ?thesis using unowed_run_plan [OF inv] run by simp
next
  case (ClaimCall a)
  then show ?thesis using unowed_run_claim [OF inv] run by simp
next
  case (YieldCall a)
  then show ?thesis using unowed_run_yield [OF inv] run by simp
qed (use run in \<open>auto intro: unowed_quiet [OF inv] unowed_holdings [OF inv] unowed_pays_down [OF inv]
    quiet_run_admin quiet_run_message pays_down_run_trigger holdings_run_dispute holdings_run_will\<close>)

lemma unowed_run: "ih_run XS allowed env s t \<Longrightarrow> unowed s \<Longrightarrow> unowed t"
proof (induction rule: ih_run.induct)
  case (run_call s t cx c u)
  then show ?case by (blast intro: unowed_exec)
next
  case (run_world s t w)
  then show ?case by (simp add: unowed_def)
qed

lemma unowed_empty: "unowed (ih_empty w)"
  by (simp add: unowed_def ih_empty_def)

section \<open>Nothing to recall or to liquidate\<close>

lemma recall_needs_loan: "recall_loan cx ad i n s = Ok t \<Longrightarrow> \<not> unowed s"
  by (auto simp: recall_loan_def unowed_def Let_def)

lemma liquidation_needs_loan: "liquidation_fallback cx ad i s = Ok t \<Longrightarrow> \<not> unowed s"
  by (auto simp: liquidation_fallback_def unowed_def Let_def)

end
