(* ===== verification/Inherit_Allocations.thy ===== *)
theory Inherit_Allocations
  imports Inherit_Settled
begin

text \<open>
  Every plan of a reachable contract is well formed: its total fits its type, it has at most ten
  beneficiaries, none with an empty share, and the shares add up to the recorded total, which is at
  most the whole.
\<close>

section \<open>Well-formed plans\<close>

definition plan_ok :: "inheritance_plan \<Rightarrow> bool" where
  "plan_ok p \<longleftrightarrow> shares_ok p \<and> pl_total_amount p \<le> u64_max"

definition all_plans_ok :: "'w ih_state \<Rightarrow> bool" where
  "all_plans_ok s \<longleftrightarrow> (\<forall>i p. ih_plan s i = Some p \<longrightarrow> plan_ok p)"

lemma shares_ok_same:
  assumes "pl_total_allocation_bp q = pl_total_allocation_bp p"
    and "map b_allocation_bp (pl_beneficiaries q) = map b_allocation_bp (pl_beneficiaries p)" and "shares_ok p"
  shows "shares_ok q"
proof -
  have "length (pl_beneficiaries q) = length (pl_beneficiaries p)" using assms(2) by (rule map_eq_imp_length_eq)
  moreover have "b_allocation_bp ` set (pl_beneficiaries q) = b_allocation_bp ` set (pl_beneficiaries p)"
    using assms(2) by (metis list.set_map)
  then have "\<forall>b \<in> set (pl_beneficiaries q). b_allocation_bp b \<noteq> 0"
    using assms(3) unfolding shares_ok_def by (metis imageE imageI)
  ultimately show ?thesis using assms by (simp add: shares_ok_def)
qed

lemma plan_ok_same:
  assumes "pl_total_allocation_bp q = pl_total_allocation_bp p"
    and "map b_allocation_bp (pl_beneficiaries q) = map b_allocation_bp (pl_beneficiaries p)"
    and "pl_total_amount q \<le> pl_total_amount p" and "plan_ok p"
  shows "plan_ok q"
  using shares_ok_same [OF assms(1,2)] assms(3,4) by (simp add: plan_ok_def)

section \<open>Plans under the calls\<close>

text \<open>A call that writes at most one plan, well formed.\<close>

lemma plans_ok_update:
  "all_plans_ok s \<Longrightarrow> ih_plan t = (ih_plan s)(i \<mapsto> q) \<Longrightarrow> plan_ok q \<Longrightarrow> all_plans_ok t"
  by (simp add: all_plans_ok_def)

lemma plans_ok_lowered:
  assumes "all_plans_ok s" and "pays_down s t"
  shows "all_plans_ok t"
proof -
  have "plan_ok q" if "ih_plan t i = Some q" for i q
  proof -
    have "rel_option lowered (ih_plan s i) (Some q)" using assms(2) that by (metis pays_down_def)
    then obtain p where "ih_plan s i = Some p" "lowered p q" by (auto simp: option_rel_Some2)
    then show ?thesis using assms(1) plan_ok_same [of q p] by (simp add: all_plans_ok_def lowered_def)
  qed
  then show ?thesis by (simp add: all_plans_ok_def)
qed

lemma plans_ok_holdings:
  assumes "all_plans_ok s" and "same_holdings s t"
  shows "all_plans_ok t"
proof -
  have "plan_ok q" if q: "ih_plan t i = Some q" for i q
  proof -
    have "plan_books s i = plan_books t i" using assms(2) by (simp add: same_holdings_def)
    then obtain p where "ih_plan s i = Some p" "holdings p = holdings q"
      using q by (cases "ih_plan s i") (auto simp: plan_books_def)
    then show ?thesis using assms(1) plan_ok_same [of q p] by (simp add: all_plans_ok_def holdings_def)
  qed
  then show ?thesis by (simp add: all_plans_ok_def)
qed

lemma plans_ok_quiet: "all_plans_ok s \<Longrightarrow> quiet s t \<Longrightarrow> all_plans_ok t"
  unfolding quiet_def by (blast intro: plans_ok_holdings)

lemma plans_ok_reshares: "all_plans_ok s \<Longrightarrow> reshares X s t \<Longrightarrow> all_plans_ok t"
  unfolding reshares_def by (elim exE conjE) (rule plans_ok_update, auto simp: all_plans_ok_def plan_ok_def)

lemma plan_ok_amount [simp]:
  "plan_ok (p\<lparr>pl_total_amount := n\<rparr>) \<longleftrightarrow> shares_ok p \<and> n \<le> u64_max"
  by (simp add: plan_ok_def shares_ok_def)

lemma shares_ok_amount [simp]: "shares_ok (p\<lparr>pl_total_amount := n\<rparr>) = shares_ok p"
  by (simp add: shares_ok_def)

lemma plan_ok_claimed: "plan_ok p \<Longrightarrow> k < length (pl_beneficiaries p) \<Longrightarrow> plan_ok (claimed_plan s i p k)"
proof (rule plan_ok_same)
  assume k: "k < length (pl_beneficiaries p)"
  let ?b = "pl_beneficiaries p ! k"
  have "map b_allocation_bp ((pl_beneficiaries p)[k := if claim_final s i p k then ?b\<lparr>b_is_claimed := True\<rparr> else ?b])
      = (map b_allocation_bp (pl_beneficiaries p))[k := b_allocation_bp ?b]" by (simp add: map_update)
  also have "\<dots> = map b_allocation_bp (pl_beneficiaries p)" using k by (metis list_update_id nth_map)
  finally show "map b_allocation_bp (pl_beneficiaries (claimed_plan s i p k)) = map b_allocation_bp (pl_beneficiaries p)"
    by (simp add: claimed_plan_def Let_def)
qed (simp_all add: claimed_plan_def Let_def)

lemma plans_ok_create:
  assumes inv: "all_plans_ok s" and cr: "create_inheritance_plan X cx params s = Ok (i, t)"
    and fits: "cp_total_amount params \<le> u64_max"
  shows "all_plans_ok t"
  using cr
proof (rule create_plan_OkD)
  fix fee w5 bs
  assume val: "validate_beneficiaries (cp_beneficiaries_data params) = Ok ()"
    and bs: "map b_allocation_bp bs = map data_bp (cp_beneficiaries_data params)"
      "\<forall>d \<in> set (cp_beneficiaries_data params). data_bp d \<noteq> 0"
    and t: "ih_plan t = (ih_plan s)(i \<mapsto> \<lparr>pl_plan_name = cp_plan_name params, pl_description = cp_description params,
           pl_token = cp_token params, pl_asset_type = ''USDC'', pl_total_amount = cp_total_amount params - fee,
           pl_distribution_method = cp_distribution_method params, pl_beneficiaries = bs,
           pl_total_allocation_bp = sum_list (map data_bp (cp_beneficiaries_data params)),
           pl_owner = cp_owner params, pl_created_at = timestamp cx,
           pl_is_active = True, pl_is_lendable = cp_is_lendable params, pl_total_loaned = 0,
           pl_waterfall_enabled = False, pl_grace_period = 0, pl_earn_yield = False\<rparr>)"
  show ?thesis
    unfolding plan_ok_def
    by (rule plans_ok_update [OF inv t, unfolded plan_ok_def], intro conjI,
        rule shares_ok_replace [of bs "cp_beneficiaries_data params"])
      (use validate_OkD [OF val] bs fits in simp_all)
qed

lemma plans_ok_claim:
  assumes inv: "all_plans_ok s" and cl: "claim_inheritance_plan X cx i c email code s = Ok t"
  shows "all_plans_ok t"
  using cl
proof (rule claim_OkD)
  fix p e k v n
  assume p: "ih_plan s i = Some p"
    and k: "find_beneficiary X s i e code 0 (take MAX_BENEFICIARIES (pl_beneficiaries p)) = Ok (Some k)"
    and t: "ih_plan t = (ih_plan s)(i \<mapsto> claimed_plan s i p k)"
  have "k < length (pl_beneficiaries p)" using find_beneficiary_index [OF k] by simp
  then show ?thesis using inv p
    by (intro plans_ok_update [OF inv t] plan_ok_claimed) (auto simp: all_plans_ok_def)
qed

lemma plans_ok_same: "all_plans_ok s \<Longrightarrow> ih_plan t = ih_plan s \<Longrightarrow> all_plans_ok t"
  by (simp add: all_plans_ok_def)

lemma plans_ok_stored:
  "all_plans_ok s \<Longrightarrow> ih_plan s i = Some p \<Longrightarrow> ih_plan t = (ih_plan s)(i \<mapsto> p\<lparr>pl_total_amount := n\<rparr>) \<Longrightarrow>
   n \<le> u64_max \<Longrightarrow> all_plans_ok t"
  by (rule plans_ok_update) (auto simp: all_plans_ok_def plan_ok_def)

lemma plans_ok_fit: "all_plans_ok s \<Longrightarrow> ih_plan s i = Some p \<Longrightarrow> pl_total_amount p \<le> u64_max"
  by (simp add: all_plans_ok_def plan_ok_def)


lemma plans_ok_plan:
  assumes inv: "all_plans_ok s" and run: "run_plan X cx c s = Ok t" and fits: "typed_call (PlanCall c)"
  shows "all_plans_ok t"
proof (cases c)
  case (ICreatePlan params)
  then obtain i where "create_inheritance_plan X cx params s = Ok (i, t)" using run by auto
  then show ?thesis by (rule plans_ok_create [OF inv]) (use fits ICreatePlan in simp)
next
  case (IDeposit u tk i n)
  then have "ih_deposit X cx u tk i n s = Ok t" using run by simp
  then show ?thesis by (rule ih_deposit_OkD) (rule plans_ok_stored [OF inv], simp_all add: ih_access)
next
  case (IWithdraw u tk i n)
  then have "ih_withdraw X cx u tk i n s = Ok t" using run by simp
  then show ?thesis
  proof (rule ih_withdraw_OkD)
    fix p v w e ev
    assume t: "t = exit_guard (ih_publish (VaultWithdrawEvent i n) (store_plan i (p\<lparr>pl_total_amount := pl_total_amount p - n\<rparr>)
        (s\<lparr>reentrancy_lock := Some True, ih_emergency := e, ih_events := ev, ih_world := w\<rparr>)))"
      and p: "ih_plan s i = Some p"
    show ?thesis
      by (rule plans_ok_stored [OF inv p, of _ "pl_total_amount p - n"])
        (use plans_ok_fit [OF inv p] in \<open>simp_all add: t ih_access\<close>)
  qed
qed (use run in \<open>auto intro: plans_ok_quiet [OF inv] plans_ok_reshares [OF inv] reshares_add_beneficiary
    reshares_remove_beneficiary reshares_update_plan reshares_batch_add reshares_batch_remove
    reshares_batch_allocations frame\<close>)

lemma plans_ok_run_claim:
  assumes inv: "all_plans_ok s" and run: "run_claim X cx c s = Ok t"
  shows "all_plans_ok t"
proof (cases c)
  case (IClaim i u e k)
  then show ?thesis using plans_ok_claim [OF inv] run by simp
next
  case (IBatchClaim i cs)
  then obtain r where "batch_claim X cx i cs s = Ok (r, t)" using run by auto
  then show ?thesis by (rule batch_claim_OkD) (rule plans_ok_lowered [OF inv])
qed (use run in \<open>auto intro: plans_ok_quiet [OF inv] frame\<close>)

lemma plans_ok_harvest_inner:
  assumes inv: "all_plans_ok s" and run: "harvest_yield_inner X cx u i s = Ok (r, t)"
  shows "all_plans_ok t"
  using run
proof (cases rule: harvest_inner_OkD)
  case (harvested p st c gross net fee)
  have p: "ih_plan s i = Some p" using harvested(2) by (auto simp: harvest_checks_def)
  have t: "ih_plan t = (if yc_auto_compound (yst_config st)
      then (ih_plan s)(i \<mapsto> p\<lparr>pl_total_amount := pl_total_amount p + net\<rparr>) else ih_plan s)"
    "yc_auto_compound (yst_config st) \<longrightarrow> pl_total_amount p + net \<le> u64_max"
    using harvested(7) by (simp_all add: harvest_books_def)
  show ?thesis
    using plans_ok_stored [OF inv p] plans_ok_same [OF inv] t by (cases "yc_auto_compound (yst_config st)") auto
qed (use inv in \<open>auto intro: plans_ok_same\<close>)

lemma plans_ok_unlocked: "all_plans_ok (s\<lparr>reentrancy_lock := x\<rparr>) = all_plans_ok s"
  "all_plans_ok (exit_guard s) = all_plans_ok s" "all_plans_ok (ih_publish ev s) = all_plans_ok s"
  by (simp_all add: all_plans_ok_def ih_access)

lemma plans_ok_yield:
  assumes inv: "all_plans_ok s" and run: "run_yield X cx c s = Ok t"
  shows "all_plans_ok t"
proof (cases c)
  case (IRegisterPosition u i a)
  then show ?thesis using run inv
    by (auto simp: register_yield_position_def set_yield_state_def ih_publish_def Let_def intro: plans_ok_same)
next
  case (ISyncPrincipal u i)
  then show ?thesis using run inv
    by (auto simp: sync_yield_principal_def register_yield_position_def set_yield_state_def ih_publish_def Let_def
        intro: plans_ok_same)
next
  case (IUnregisterPosition u i)
  then show ?thesis using run inv
    by (auto simp: unregister_yield_position_def store_plan_def all_plans_ok_def plan_ok_def shares_ok_def safe_add_def
        checked_add_u64_def split: if_splits)
next
  case (ICompound u i)
  then obtain r where "compound_pending_yield cx u i s = Ok (r, t)" using run by auto
  then obtain p n where "ih_plan s i = Some p" "ih_plan t = (ih_plan s)(i \<mapsto> p\<lparr>pl_total_amount := n\<rparr>)" "n \<le> u64_max"
    by (auto split: if_splits simp: safe_add_def checked_add_u64_def compound_pending_yield_def set_yield_state_def store_plan_def ih_publish_def Let_def)
  then show ?thesis by (rule plans_ok_stored [OF inv])
next
  case (IHarvest u i)
  then obtain r where ha: "harvest_yield X cx u i s = Ok (r, t)" using run by auto
  obtain q v where inner: "harvest_yield_inner X cx u i (s\<lparr>reentrancy_lock := Some True\<rparr>) = Ok (q, v)"
    and out: "(case q of Inl e \<Rightarrow> Err e | Inr g \<Rightarrow> Ok (g, exit_guard v)) = Ok (r, t)"
    using ha by (auto simp: harvest_yield_def)
  have "all_plans_ok v" by (rule plans_ok_harvest_inner [OF _ inner]) (use inv in \<open>simp add: plans_ok_unlocked\<close>)
  then show ?thesis using out by (cases q) (auto simp: plans_ok_unlocked)
next
  case (IHarvestBatch u "is")
  let ?s = "s\<lparr>reentrancy_lock := Some True\<rparr>"
  obtain a b n v where loop: "fold_outcome (harvest_batch_one X cx u) is (0, 0, 0, ?s) = Ok (a, b, n, v)"
    and t: "t = ih_publish (YieldBatchHarvestEvent a b n) (exit_guard v)"
    using run IHarvestBatch by (auto simp: harvest_yield_batch_def Let_def)
  have one: "all_plans_ok (snd (snd (snd y)))" if "harvest_batch_one X cx w i x = Ok y" "all_plans_ok (snd (snd (snd x)))"
    for w i x y
    using that(1) by (rule harvest_batch_one_OkD) (rule plans_ok_harvest_inner [OF that(2)])
  have "all_plans_ok (snd (snd (snd (a, b, n, v))))"
    by (rule fold_outcome_invariant [OF loop]) (use inv in \<open>auto simp: plans_ok_unlocked dest: one\<close>)
  then show ?thesis by (simp add: t plans_ok_unlocked)
qed (use run in \<open>auto intro: plans_ok_quiet [OF inv] frame\<close>)

lemma plans_ok_exec:
  assumes inv: "all_plans_ok s" and run: "ih_exec X cx c s = Ok t" and fits: "typed_call c"
  shows "all_plans_ok t"
proof (cases c)
  case (PlanCall a)
  then show ?thesis using plans_ok_plan [OF inv] run fits by simp
next
  case (ClaimCall a)
  then show ?thesis using plans_ok_run_claim [OF inv] run by simp
next
  case (YieldCall a)
  then show ?thesis using plans_ok_yield [OF inv] run by simp
qed (use run in \<open>auto intro: plans_ok_quiet [OF inv] plans_ok_holdings [OF inv] plans_ok_lowered [OF inv]
    quiet_run_admin quiet_run_message pays_down_run_trigger holdings_run_dispute holdings_run_will\<close>)

lemma plans_ok_run:
  "typed_run XS s t \<Longrightarrow> all_plans_ok s \<Longrightarrow> all_plans_ok t"
proof (induction rule: ih_run.induct)
  case (run_call s t cx c u)
  then show ?case by (blast intro: plans_ok_exec)
next
  case (run_world s t w)
  then show ?case by (simp add: all_plans_ok_def)
qed

lemma plans_ok_empty: "all_plans_ok (ih_empty w)"
  by (simp add: all_plans_ok_def ih_empty_def)

end
