(* ===== verification/Inherit_Properties.thy ===== *)
theory Inherit_Properties
  imports Inherit_Demo Inherit_Loans Inherit_Allocations
begin

text \<open>
  The properties of the inheritance contract: what is settled stays settled, a share is paid once,
  the shares of a plan add up, every vault covers its plan, what a claim and a harvest do, the quorum
  of the guardians and the stop of a held plan. Each is followed by its application to the estate of
  \<open>Inherit_Demo\<close>.
\<close>

section \<open>Settled facts\<close>

lemma any_estate_run: "any_run estate_ops (ih_empty estate_world) estate_created"
  using estate_runs unfolding estate_run_def by (rule any_run)

lemma typed_estate_run: "typed_run estate_ops (ih_empty estate_world) estate_created"
  by (rule run_mono [OF estate_runs [unfolded estate_run_def]]) simp_all

lemma custody_estate_run:
  "ih_run estate_ops (custody_call vault_address) (custody_env custody_held vault_address custody_sane)
     (ih_empty estate_world) estate_created"
  by (rule run_mono [OF estate_runs [unfolded estate_run_def]]) simp_all

lemma any_estate_claim: "any_run estate_ops estate_created estate_claimed"
proof -
  have "ih_exec (estate_ops (estate_cx 3)) (estate_cx 3) (ClaimCall (IClaim 1 (Addr 6) ''a@x'' 123456)) estate_created
      = Ok estate_claimed" using estate_claim by simp
  then show ?thesis by (rule run_call [OF run_refl, rotated]) simp
qed

lemma map_le_Some: "f k = Some v \<Longrightarrow> f \<subseteq>\<^sub>m g \<Longrightarrow> g k = Some v"
  by (metis domI map_le_def)

lemma settled_reachable:
  assumes "any_run XS (ih_empty w) s"
  shows "settled_inv s"
proof -
  have "settles (ih_empty w) s" using assms by (rule settles_run)
  then show ?thesis by (simp add: settles_def settled_inv_empty)
qed

text \<open>A share of a total that fits its type.\<close>

lemma share_of_total:
  assumes "pl_total_amount p \<le> u64_max" and "b_allocation_bp b \<le> 10000"
  shows "min (entitlement p b) (pl_total_amount p) = pl_total_amount p * b_allocation_bp b div 10000"
proof -
  let ?n = "pl_total_amount p * b_allocation_bp b"
  have le: "?n div 10000 \<le> pl_total_amount p" using assms(2) by (rule mult_div_le)
  have "?n \<le> u128_max" using assms u64_mult_bound [of "pl_total_amount p" "b_allocation_bp b"] by (simp add: u64_max_def)
  then have "entitlement p b = ?n div 10000"
    using le assms(1) by (simp add: entitlement_def mul_then_div_def checked_mul_u128_def checked_div_def as_u64_def u64_max_def)
  with le show ?thesis by simp
qed

text \<open>
  C5. Over every run of the contract, whatever the calls and the other contracts do, a recorded claim
  stays recorded, a closed dispute keeps its record, a finalized version of a will stays finalized at
  its time, once the active version of a plan's will is final the plan's will never changes, and an
  inheritance once triggered stays triggered.
\<close>

theorem settled_stays_settled:
  assumes "any_run XS (ih_empty w) s" and "any_run XS s t"
  shows "(\<forall>k c. ih_claim s k = Some c \<longrightarrow> ih_claim t k = Some c) \<and>
    (\<forall>d r. ih_dispute s d = Some r \<longrightarrow> ds_status r = Resolved \<or> ds_status r = Rejected \<longrightarrow> ih_dispute t d = Some r) \<and>
    (\<forall>i v. is_will_finalized s i v \<longrightarrow>
       is_will_finalized t i v \<and> get_will_finalized_at t i v = get_will_finalized_at s i v) \<and>
    (\<forall>i. active_is_final s i \<longrightarrow> get_active_will_version t i = get_active_will_version s i \<and>
       get_vault_will t i = get_vault_will s i) \<and>
    (\<forall>i. get_inheritance_trigger s i \<noteq> None \<longrightarrow> get_inheritance_trigger t i \<noteq> None)"
proof -
  have "settled_inv s" using assms(1) by (rule settled_reachable)
  then have "still_settled s t" using settles_run [OF assms(2)] by (simp add: settles_def)
  then show ?thesis
    unfolding still_settled_def is_will_finalized_def unwrap_or_False get_will_finalized_at_def
      get_active_will_version_def get_vault_will_def is_open_def get_inheritance_trigger_def get_trigger_info_def
    by (auto simp: active_is_final_iff dest: map_le_Some)
qed

theorem settled_stays_settled_witness:
  "ih_claim (estate_claimed\<lparr>ih_world := estate_world\<rparr>) estate_key =
     Some \<lparr>cr_plan_id = 1, cr_beneficiary_index = 0, cr_claimed_at = 3\<rparr>"
proof -
  have "any_run estate_ops estate_claimed (estate_claimed\<lparr>ih_world := estate_world\<rparr>)"
    by (rule run_world [OF run_refl]) simp
  from settled_stays_settled [OF run_trans [OF any_estate_claim any_estate_run] this]
  show ?thesis by (simp add: estate_claimed_def)
qed

text \<open>
  C3. A share is paid once: after a claim that was not limited by an exit settlement, no claim for the
  same plan and email address ever succeeds again, whoever makes it and with whatever code.
\<close>

theorem share_paid_once:
  assumes "any_run XS (ih_empty w) s" and "\<forall>cx. host_sha256 (XS cx) = sha"
    and "\<forall>k. get_vesting_exit_settlement s i k = 0"
    and "claim_inheritance_plan (XS cx) cx i c email code s = Ok t" and "any_run XS t u"
  shows "claim_inheritance_plan (XS cx') cx' i c' email code' u \<noteq> Ok v"
proof
  assume again: "claim_inheritance_plan (XS cx') cx' i c' email code' u = Ok v"
  obtain e where e: "hash_string (XS cx) email = Ok e" and paid: "ih_claim t (claim_key (XS cx) i e) \<noteq> None"
    using assms(4) by (rule claim_OkD) (use assms(3) in \<open>auto simp: claim_final_def\<close>)
  obtain e' where e': "hash_string (XS cx') email = Ok e'" and free: "ih_claim u (claim_key (XS cx') i e') = None"
    using again by (rule claim_OkD) blast
  have "e' = e" using e e' assms(2) by (auto simp: hash_string_def split: if_splits)
  then have "claim_key (XS cx') i e' = claim_key (XS cx) i e" using assms(2) by (simp add: claim_key_def)
  have "ih_exec (XS cx) cx (ClaimCall (IClaim i c email code)) s = Ok t" using assms(4) by simp
  then have "any_run XS (ih_empty w) t" by (rule run_call [OF assms(1), rotated]) simp
  then have "settled_inv t" by (rule settled_reachable)
  then have "ih_claim t \<subseteq>\<^sub>m ih_claim u"
    using settles_run [OF assms(5)] by (simp add: settles_def still_settled_def)
  with paid free \<open>claim_key (XS cx') i e' = _\<close> show False by (metis domIff map_le_def)
qed

theorem share_paid_once_witness:
  "claim_inheritance_plan (estate_ops (estate_cx 9)) (estate_cx 9) 1 (Addr 4) ''a@x'' 123456 estate_claimed \<noteq>
     Ok estate_claimed"
proof (rule share_paid_once [OF any_estate_run _ _ estate_claim run_refl])
  show "\<forall>cx. host_sha256 (estate_ops cx) = estate_sha" by (simp add: estate_ops_def custody_ops_def)
  show "\<forall>k. get_vesting_exit_settlement estate_created 1 k = 0"
    by (simp add: get_vesting_exit_settlement_def estate_created_def estate_known_def estate_init_def ih_empty_def)
qed

section \<open>Plans\<close>

text \<open>
  C4. Over every run whose calls are given amounts of their type, every plan is well formed: its total
  fits 64 bits, it has at most ten beneficiaries, none with an empty share, and the recorded total of
  the shares is their sum and at most the whole.
\<close>

theorem plans_well_formed:
  assumes "typed_run XS (ih_empty w) s" and "ih_plan s i = Some p"
  shows "length (pl_beneficiaries p) \<le> MAX_BENEFICIARIES \<and>
    pl_total_allocation_bp p = (\<Sum>b\<leftarrow>pl_beneficiaries p. b_allocation_bp b) \<and>
    pl_total_allocation_bp p \<le> 10000 \<and> (\<forall>b \<in> set (pl_beneficiaries p). b_allocation_bp b \<noteq> 0) \<and>
    pl_total_amount p \<le> u64_max"
proof -
  have "all_plans_ok s" by (rule plans_ok_run [OF assms(1) plans_ok_empty])
  with assms(2) show ?thesis by (simp add: all_plans_ok_def plan_ok_def shares_ok_def MAX_BENEFICIARIES_def)
qed

theorem plans_well_formed_witness:
  "(\<Sum>b\<leftarrow>pl_beneficiaries estate_plan. b_allocation_bp b) = 10000"
proof -
  have "ih_plan estate_created 1 = Some estate_plan" by (simp add: estate_created_def)
  from plans_well_formed [OF typed_estate_run this] show ?thesis by (simp add: estate_plan_def)
qed

text \<open>
  C2. Every vault covers its plan: on the chain of this repository's token and vault contracts, whatever
  the lending pool answers, in every state reached without adding yield to a total, the vault of a plan
  holds at least the plan's total of the plan's token.
\<close>

theorem plans_backed:
  assumes "ih_run (custody_ops PA sha gen) (custody_call vault_address)
      (custody_env custody_held vault_address custody_sane) (ih_empty w) s"
    and "custody_sane w" and "ih_plan s i = Some p"
  shows "\<exists>v. ih_plan_vault s i = Some v \<and>
    int (pl_total_amount p) \<le> token_balance (cw_tokens (ih_world s) (pl_token p)) v"
proof -
  have "custody_inv custody_held vault_address custody_sane s"
    using custody.custody_run [OF assms(1)] custody.custody_empty [OF assms(2)] by blast
  with assms(3) show ?thesis by (auto simp: custody_inv_def backed_def custody_held_def)
qed

theorem plans_backed_witness:
  "\<exists>v. ih_plan_vault estate_created 1 = Some v \<and> 9800 \<le> token_balance (cw_tokens estate_funded (Addr 10)) v"
proof -
  have "custody_sane estate_world"
    by (simp add: custody_sane_def estate_world_def estate_token_def token_balance_def)
  moreover have "ih_plan estate_created 1 = Some estate_plan" by (simp add: estate_created_def)
  ultimately show ?thesis
    using plans_backed [OF custody_estate_run [unfolded estate_ops_def], of 1 estate_plan]
    by (simp add: estate_plan_def estate_created_def)
qed

section \<open>What a claim and a harvest do\<close>

text \<open>
  C6. A claim pays a share: it succeeds only for an authorized caller on an active plan that is neither
  frozen nor held, with the code of a beneficiary whose email address it names and whose claim is not
  recorded. The plan's vault releases the payout to the caller, at most what the plan holds, and the
  plan's total falls by it. Where neither the waterfall order nor an exit settlement applies, the payout
  is the beneficiary's share of what the plan holds.
\<close>

theorem claim_effect:
  assumes "claim_inheritance_plan X cx i c email code s = Ok t"
  shows "\<exists>p e k v n b. ih_plan s i = Some p \<and> b = pl_beneficiaries p ! k \<and> k < length (pl_beneficiaries p) \<and>
    authorized cx c \<and> pl_is_active p \<and> ih_freeze s i = None \<and> ih_legal_hold s i = None \<and>
    hash_string X email = Ok e \<and> b_hashed_email b = e \<and> ih_claim s (claim_key X i e) = None \<and>
    hash_claim_code_with_salt X code (unwrap_or zero_salt (ih_salt s (i, k))) = Ok (b_hashed_claim_code b) \<and>
    ih_plan_vault s i = Some v \<and> vault_release_call X v (pl_token p) c n (ih_world s) = Some (ih_world t) \<and>
    0 < n \<and> n \<le> pl_total_amount p \<and> map_option pl_total_amount (ih_plan t i) = Some (pl_total_amount p - n) \<and>
    (\<forall>j. j \<noteq> i \<longrightarrow> ih_plan t j = ih_plan s j) \<and>
    (get_vesting_exit_settlement s i k = 0 \<and> \<not> pl_waterfall_enabled p \<and>
       pl_total_amount p \<le> u64_max \<and> b_allocation_bp b \<le> 10000 \<longrightarrow>
     n = pl_total_amount p * b_allocation_bp b div 10000)"
  using assms
proof (rule claim_OkD)
  fix p e k v n
  assume *: "authorized cx c" "ih_plan s i = Some p" "pl_is_active p" "ih_freeze s i = None" "ih_legal_hold s i = None"
    "hash_string X email = Ok e" "ih_claim s (claim_key X i e) = None" "ih_plan_vault s i = Some v"
    "vault_release_call X v (pl_token p) c n (ih_world s) = Some (ih_world t)"
    and find: "find_beneficiary X s i e code 0 (take MAX_BENEFICIARIES (pl_beneficiaries p)) = Ok (Some k)"
    and n: "n = claim_payout s i p k" "n \<noteq> 0" and t: "ih_plan t = (ih_plan s)(i \<mapsto> claimed_plan s i p k)"
  let ?b = "pl_beneficiaries p ! k"
  have k: "k < length (pl_beneficiaries p)" "b_hashed_email ?b = e"
    "hash_claim_code_with_salt X code (unwrap_or zero_salt (ih_salt s (i, k))) = Ok (b_hashed_claim_code ?b)"
    using find_beneficiary_index [OF find] by (auto simp: nth_take)
  have amount: "n = pl_total_amount p * b_allocation_bp ?b div 10000"
    if "get_vesting_exit_settlement s i k = 0" "\<not> pl_waterfall_enabled p" "pl_total_amount p \<le> u64_max"
      "b_allocation_bp ?b \<le> 10000"
    using n(1) that by (simp add: claim_payout_def calculate_waterfall_payout_def share_of_total)
  show ?thesis
    by (intro exI [of _ p] exI [of _ e] exI [of _ k] exI [of _ v] exI [of _ n] exI [of _ ?b])
      (use * k n t amount claim_payout_le [of s i p k] in \<open>simp add: claimed_plan_def Let_def\<close>)
qed

theorem claim_effect_witness:
  "\<exists>v. vault_release_call (estate_ops (estate_cx 3)) v (Addr 10) (Addr 6) 5880 estate_funded =
     Some (ih_world estate_claimed)"
proof -
  have "ih_plan estate_created 1 = Some estate_plan" "ih_world estate_created = estate_funded"
    by (simp_all add: estate_created_def)
  moreover have "map_option pl_total_amount (ih_plan estate_claimed 1) = Some 3920"
    "pl_total_amount estate_plan = 9800" "pl_token estate_plan = Addr 10"
    by (simp_all add: estate_claimed_def estate_plan_def)
  moreover have "n = 5880" if "n \<le> 9800" "9800 - n = (3920::nat)" for n using that by simp
  ultimately show ?thesis using claim_effect [OF estate_claim] by force
qed

text \<open>
  C27. A harvest credits what the pool paid: it succeeds only for an authorized caller who is the plan's
  owner, an administrator or a relayer, on an active plan that earns yield, when the harvest is not
  paused and is due. The net yield and the fee add up to the payment, the fee being the configured part
  of it; the net yield goes to the plan's total or to its pending credit, and the record of the position
  is brought up to date.
\<close>

theorem harvest_effect:
  assumes "harvest_yield X cx u i s = Ok (gross, t)" and "gross \<le> u64_max"
  shows "\<exists>p st c net fee. ih_plan s i = Some p \<and> ih_yield s i = Some st \<and> authorized cx u \<and>
    (u = pl_owner p \<or> has_role s u RoleAdmin \<or> u \<in> set (get_relayers s)) \<and>
    pl_is_active p \<and> pl_earn_yield p \<and> \<not> yst_paused st \<and>
    \<not> (0 < yc_harvest_interval (yst_config st) \<and> timestamp cx < state_next_harvest st) \<and>
    ih_lending s = Some c \<and> gross \<noteq> 0 \<and>
    pool_claim X c (current_contract_address cx) i (ih_world s) = Some (gross, ih_world t) \<and>
    net + fee = gross \<and> fee = gross * yc_performance_fee_bp (yst_config st) div 10000 \<and>
    ih_plan t = (if yc_auto_compound (yst_config st)
      then (ih_plan s)(i \<mapsto> p\<lparr>pl_total_amount := pl_total_amount p + net\<rparr>) else ih_plan s) \<and>
    ih_yield t = (ih_yield s)(i \<mapsto> harvested_state cx u gross net fee (st\<lparr>yst_pending_credit :=
      (if yc_auto_compound (yst_config st) then yst_pending_credit st else yst_pending_credit st + net)\<rparr>)) \<and>
    reentrancy_lock s = None \<and> reentrancy_lock t = None"
proof -
  let ?s = "s\<lparr>reentrancy_lock := Some True\<rparr>"
  obtain q v where start: "authorized cx u" "reentrancy_lock s = None"
    and inner: "harvest_yield_inner X cx u i ?s = Ok (q, v)"
    and out: "(case q of Inl e \<Rightarrow> Err e | Inr g \<Rightarrow> Ok (g, exit_guard v)) = (Ok (gross, t) :: (nat \<times> 'a ih_state) ih_result)"
    using assms(1) by (auto simp: harvest_yield_def)
  have q: "q = Inr gross" and t: "t = exit_guard v" using out by (cases q; simp)+
  show ?thesis
    using inner
  proof (cases rule: harvest_inner_OkD)
    case (harvested p st c g net fee)
    have g: "g = gross" using harvested(1) q by simp
    have fee: "fee = gross * yc_performance_fee_bp (yst_config st) div 10000" "net = gross - fee"
      "yc_performance_fee_bp (yst_config st) \<le> MAX_PERFORMANCE_FEE_BPS"
      using harvested(6) split_performance_fee_eq_Ok [OF assms(2)] by (simp_all add: g)
    have "fee \<le> gross" unfolding fee(1) by (rule mult_div_le) (use fee(3) in \<open>simp add: MAX_PERFORMANCE_FEE_BPS_def\<close>)
    then have "net + fee = gross" using fee(2) by simp
    then show ?thesis
      using harvested(2-5,7) start fee(1) g
      by (intro exI [of _ p] exI [of _ st] exI [of _ c] exI [of _ net] exI [of _ fee])
        (auto simp: harvest_checks_def check_harvest_authority_def require_yield_state_def get_yield_state_def
          harvest_books_def t exit_guard_def reentrancy_exit_def has_role_def roles_of_def get_relayers_def)
  qed (use q in auto)
qed

text \<open>The estate with a position in the pool, the lending contract being at \<open>Addr 12\<close>.\<close>

definition estate_position :: plan_yield_state where
  "estate_position = \<lparr>yst_asset = Addr 10, yst_last_harvest_at = 2, yst_total_harvested = 0, yst_total_fees_paid = 0,
     yst_harvest_count = 0, yst_last_harvest_amount = 0, yst_registered_principal = 9800, yst_pending_credit = 7,
     yst_paused = False, yst_config = default_config\<lparr>yc_auto_compound := False, yc_performance_fee_bp := 1000\<rparr>,
     yst_history = []\<rparr>"

definition estate_earning :: "custody_world ih_state" where
  "estate_earning = estate_created\<lparr>ih_lending := Some (Addr 12), ih_plan := [1 \<mapsto> estate_plan\<lparr>pl_earn_yield := True\<rparr>],
     ih_yield := [1 \<mapsto> estate_position]\<rparr>"

theorem harvest_effect_witness:
  "\<exists>t. harvest_yield (estate_ops (estate_cx 5)) (estate_cx 5) (Addr 4) 1 estate_earning = Ok (500, t) \<and>
     map_option yst_pending_credit (ih_yield t 1) = Some 457"
proof -
  have pays: "pool_claim (estate_ops (estate_cx 5)) (Addr 12) (Addr 100) 1 estate_funded =
      Some (500, moved (Addr 12) 49500 (Addr 100) 500 estate_funded)"
    using transfer_moved [of "Addr 12" "(estate_cx 5)\<lparr>authorized := \<lambda>a. a = Addr 12, current_contract_address := Addr 12\<rparr>"
        500 "Addr 100" estate_funded 49500 500] estate_vault_even [of 12]
    by (simp add: estate_ops_def custody_ops_def estate_pool_def estate_funded_def estate_paid_fee_def i128_max_def)
  let ?X = "estate_ops (estate_cx 5)" and ?s = "estate_earning\<lparr>reentrancy_lock := Some True\<rparr>"
  let ?p = "estate_plan\<lparr>pl_earn_yield := True\<rparr>"
  have known: "ih_plan ?s 1 = Some ?p" "ih_yield ?s 1 = Some estate_position" "ih_lending ?s = Some (Addr 12)"
    "ih_world ?s = estate_funded" by (simp_all add: estate_earning_def estate_created_def)
  have accrued: "pool_accrued ?X (Addr 12) 1 estate_funded = Some 500"
    by (simp add: estate_ops_def custody_ops_def estate_pool_def)
  have checks: "harvest_checks ?X (estate_cx 5) (Addr 4) 1 ?s = Ok (?p, estate_position)"
    using known accrued
    by (simp add: harvest_checks_def check_harvest_authority_def require_yield_state_def get_yield_state_def
        get_pending_yield_def invoke_lending_contract_def require_lending_contract_def get_lending_contract_def
        estate_plan_def estate_position_def default_config_def)
  have claim: "invoke_lending_contract (\<lambda>c. pool_claim ?X c (current_contract_address (estate_cx 5)) 1 (ih_world ?s)) ?s =
      Ok (500, moved (Addr 12) 49500 (Addr 100) 500 estate_funded)"
    using known pays
    by (simp add: invoke_lending_contract_def require_lending_contract_def get_lending_contract_def estate_cx_def)
  have split: "split_performance_fee 500 1000 = Ok (450, 50)"
    by (simp add: split_performance_fee_eq_Ok u64_max_def MAX_PERFORMANCE_FEE_BPS_def)
  have credit: "safe_add 7 450 = Ok 457" by (simp add: safe_add_def checked_add_u64_def u64_max_def)
  have config: "yc_auto_compound (yst_config estate_position) = False" "yst_pending_credit estate_position = 7"
    "yc_performance_fee_bp (yst_config estate_position) = 1000"
    by (simp_all add: estate_position_def default_config_def)
  obtain v where "harvest_yield_inner ?X (estate_cx 5) (Addr 4) 1 ?s = Ok (Inr 500, v)"
    unfolding harvest_yield_inner_def checks claim Let_def
    by (simp add: or_report_def config split credit)
  then obtain t where t: "harvest_yield ?X (estate_cx 5) (Addr 4) 1 estate_earning = Ok (500, t)"
    by (simp add: harvest_yield_def estate_guards) (simp add: estate_earning_def estate_defs)
  have st: "ih_yield estate_earning 1 = Some estate_position" by (simp add: estate_earning_def)
  have "ih_yield t = (ih_yield estate_earning)(1 \<mapsto> harvested_state (estate_cx 5) (Addr 4) 500 450 50
      (estate_position\<lparr>yst_pending_credit := 457\<rparr>))"
    using harvest_effect [OF t] st by (auto simp: u64_max_def estate_position_def default_config_def)
  with t show ?thesis by (simp add: harvested_state_def)
qed

section \<open>Guardians and holds\<close>

lemma get_emergency_OkD: "get_emergency_access cx i s = Ok (r, t) \<Longrightarrow> expiry_only s t"
  by (auto simp: get_emergency_access_def dest!: expire_OkD split: if_splits)

lemma authorize_OkD: "authorize_trigger cx u i s = Ok t \<Longrightarrow> expiry_only s t"
  by (auto simp: authorize_trigger_def dest: get_emergency_OkD split: if_splits option.splits)

lemma collect_guardian_keeps:
  assumes "fold_outcome (collect_guardian cx g) xs [] = Ok ys"
  shows "distinct ys \<and> set ys \<subseteq> set (g_guardians g) \<and> (\<forall>a \<in> set ys. authorized cx a)"
  by (rule fold_outcome_invariant [OF assms]) (auto simp: collect_guardian_def require_auth_def split: if_splits)

text \<open>
  C28. Only a quorum of guardians triggers a plan: a successful guardian trigger was authorized by at least
  the configured number of different guardians of the plan, which was active, neither frozen nor held and
  not yet triggered; it is triggered afterwards, and its loans are stopped.
\<close>

theorem guardian_trigger_needs_quorum:
  assumes "guardian_emergency_trigger cx i signers s = Ok t"
  shows "\<exists>g p. ih_guardians s i = Some g \<and> ih_plan s i = Some p \<and> pl_is_active p \<and>
    g_threshold g \<le> card {a \<in> set (g_guardians g). authorized cx a} \<and>
    ih_freeze s i = None \<and> ih_legal_hold s i = None \<and> ih_trigger s i = None \<and>
    ih_trigger t = (ih_trigger s)(i \<mapsto> fresh_trigger cx p) \<and>
    ih_plan t = (ih_plan s)(i \<mapsto> p\<lparr>pl_is_lendable := False\<rparr>)"
proof -
  obtain g p ys where g: "ih_guardians s i = Some g" and p: "ih_plan s i = Some p" "pl_is_active p"
    and ys: "fold_outcome (collect_guardian cx g) signers [] = Ok ys" "g_threshold g \<le> length ys"
    and free: "ih_freeze s i = None" "ih_legal_hold s i = None" "ih_trigger s i = None"
    and t: "t = exit_guard (publish_trigger cx i p (start_inheritance cx i p (s\<lparr>reentrancy_lock := Some True\<rparr>)))"
    using assms unfolding guardian_emergency_trigger_def Let_def and_then_eq_Ok
    by (elim exE conjE) (clarsimp simp: get_trigger_info_def)
  have "length ys = card (set ys)" using collect_guardian_keeps [OF ys(1)] by (simp add: distinct_card)
  also have "\<dots> \<le> card {a \<in> set (g_guardians g). authorized cx a}"
    using collect_guardian_keeps [OF ys(1)] by (intro card_mono) auto
  finally have "g_threshold g \<le> card {a \<in> set (g_guardians g). authorized cx a}" using ys(2) by simp
  with g p free show ?thesis
    by (simp add: t start_inheritance_def fresh_trigger_def set_trigger_info_def store_plan_def publish_trigger_def
        exit_guard_def reentrancy_exit_def ih_publish_def Let_def)
qed

definition estate_guarded :: "custody_world ih_state" where
  "estate_guarded = estate_created\<lparr>ih_guardians := [1 \<mapsto> \<lparr>g_guardians = [Addr 2, Addr 6, Addr 8], g_threshold = 2\<rparr>]\<rparr>"

theorem guardian_trigger_needs_quorum_witness:
  "\<exists>t. guardian_emergency_trigger (estate_cx 4) 1 [Addr 6, Addr 12, Addr 2] estate_guarded = Ok t \<and>
     ih_trigger t 1 \<noteq> None"
proof -
  obtain t where t: "guardian_emergency_trigger (estate_cx 4) 1 [Addr 6, Addr 12, Addr 2] estate_guarded = Ok t"
    by (simp add: guardian_emergency_trigger_def collect_guardian_def get_trigger_info_def estate_guarded_def
        estate_defs estate_guards Let_def)
  from guardian_trigger_needs_quorum [OF t] show ?thesis using t by auto
qed

text \<open>The automatic trigger goes through on a frozen or held plan all the same, and leaves it so.\<close>

lemma auto_trigger_ignores_holds:
  assumes "check_trigger_conditions cx i s = Ok True" and "ih_plan s i = Some p" "pl_is_active p" and "ih_trigger s i = None"
  shows "\<exists>t. ih_exec X cx (TriggerCall (IAutoTrigger i)) s = Ok t \<and> ih_trigger t i \<noteq> None \<and>
    ih_freeze t = ih_freeze s \<and> ih_legal_hold t = ih_legal_hold s"
  using assms
  by (simp add: auto_trigger_check_def get_trigger_info_def start_inheritance_def store_plan_def set_trigger_info_def
      ih_publish_def the_plan_def get_plan_def Let_def del: and_then_eq_Ok)

text \<open>
  The calls that the code stops on a plan that is frozen or on hold. The automatic trigger, which anyone may
  call once the plan's own conditions are met, is not one of them: it looks at neither flag.
\<close>

fun held_stops :: "nat \<Rightarrow> ih_call \<Rightarrow> bool" where
  "held_stops i (PlanCall (IDeposit u tk j n)) \<longleftrightarrow> j = i"
| "held_stops i (PlanCall (IWithdraw u tk j n)) \<longleftrightarrow> j = i"
| "held_stops i (PlanCall (ITransferOwnership u v j)) \<longleftrightarrow> j = i"
| "held_stops i (TriggerCall (ITrigger u j)) \<longleftrightarrow> j = i"
| "held_stops i (TriggerCall (IGuardianTrigger j signers)) \<longleftrightarrow> j = i"
| "held_stops i (ClaimCall (IClaim j u e k)) \<longleftrightarrow> j = i"
| "held_stops i (ClaimCall (IBatchClaim j cs)) \<longleftrightarrow> j = i"
| "held_stops i c \<longleftrightarrow> False"

text \<open>
  C29. A plan that a dispute froze or that is under legal hold is stopped: no deposit, no withdrawal, no
  transfer of ownership, no trigger by administrator, owner or trusted contact, no trigger by its guardians, no
  claim and no batch of claims on it succeeds. The automatic trigger is not stopped: where the plan is active, not
  yet triggered and its own conditions are met, anyone's call triggers it, and it stays frozen or held.
\<close>

theorem held_plan_is_stopped:
  assumes "ih_freeze s i \<noteq> None \<or> ih_legal_hold s i \<noteq> None"
  shows "(held_stops i c \<longrightarrow> ih_exec X cx c s \<noteq> Ok t) \<and>
    (check_trigger_conditions cx i s = Ok True \<and> ih_plan s i = Some p \<and> pl_is_active p \<and> ih_trigger s i = None \<longrightarrow>
      (\<exists>v. ih_exec X cx (TriggerCall (IAutoTrigger i)) s = Ok v \<and> ih_trigger v i \<noteq> None \<and>
         ih_freeze v = ih_freeze s \<and> ih_legal_hold v = ih_legal_hold s))"
proof (intro conjI impI notI)
  assume c: "held_stops i c" and run: "ih_exec X cx c s = Ok t"
  have "ih_freeze s i = None \<and> ih_legal_hold s i = None"
    using c run
  proof (induction i c rule: held_stops.induct)
    case (4 i u j)
    then have "trigger_inheritance cx u i s = Ok t" by simp
    then obtain v where "authorize_trigger cx u i (s\<lparr>reentrancy_lock := Some True\<rparr>) = Ok v" "ih_freeze v i = None"
      "ih_legal_hold v i = None" by (auto simp: trigger_inheritance_def)
    then show ?case by (auto simp: expiry_only_def dest!: authorize_OkD)
  next
    case (5 i j signers)
    then show ?case by (auto simp: guardian_emergency_trigger_def)
  next
    case (6 i j u e k)
    then show ?case by (auto elim!: claim_OkD)
  next
    case (7 i j cs)
    then show ?case by (auto elim!: batch_claim_OkD)
  qed (auto simp: ih_deposit_def ih_withdraw_def transfer_plan_ownership_def)
  with assms show False by simp
qed (use auto_trigger_ignores_holds in blast)

definition frozen_estate :: "custody_world ih_state" where
  "frozen_estate = estate_created\<lparr>ih_freeze :=
     [1 \<mapsto> \<lparr>fz_plan_id = 1, fz_frozen_at = 2, fz_reason = ''dispute'', fz_frozen_by = Addr 2\<rparr>], ih_trigger_config :=
     [1 \<mapsto> \<lparr>tc_conditions = [Time], tc_trigger_date = 2, tc_inactivity_period = 0, tc_last_activity = 0,
       tc_oracle_address = None, tc_oracle_triggered = False, tc_health_triggered = False\<rparr>]\<rparr>"

theorem held_plan_is_stopped_witness:
  "ih_exec (estate_ops (estate_cx 3)) (estate_cx 3) (ClaimCall (IClaim 1 (Addr 6) ''a@x'' 123456)) frozen_estate \<noteq>
     Ok estate_claimed \<and>
   (\<exists>v. ih_exec (estate_ops (estate_cx 3)) (estate_cx 3) (TriggerCall (IAutoTrigger 1)) frozen_estate = Ok v \<and>
     ih_trigger v 1 \<noteq> None \<and> ih_freeze v 1 \<noteq> None)"
proof -
  have "ih_freeze frozen_estate 1 \<noteq> None \<or> ih_legal_hold frozen_estate 1 \<noteq> None" "ih_freeze frozen_estate 1 \<noteq> None"
    by (simp_all add: frozen_estate_def)
  moreover have "check_trigger_conditions (estate_cx 3) 1 frozen_estate = Ok True" "ih_plan frozen_estate 1 = Some estate_plan"
    "pl_is_active estate_plan" "ih_trigger frozen_estate 1 = None" "held_stops 1 (ClaimCall (IClaim 1 (Addr 6) ''a@x'' 123456))"
    by (simp_all add: frozen_estate_def check_trigger_conditions_def get_trigger_config_def estate_defs)
  ultimately show ?thesis
    using held_plan_is_stopped [of frozen_estate 1 "ClaimCall (IClaim 1 (Addr 6) ''a@x'' 123456)"
        "estate_ops (estate_cx 3)" "estate_cx 3" estate_claimed estate_plan] by auto
qed

text \<open>
  C16. No plan ever has anything on loan: in every reachable state of the contract, whatever calls and
  other contracts led to it, what a plan has lent is zero, so that neither a recall nor a liquidation
  of the loans of a plan ever succeeds, for any caller and any amount.
\<close>

theorem nothing_on_loan:
  assumes "any_run XS (ih_empty w) s"
  shows "(\<forall>i p. get_plan s i = Some p \<longrightarrow> pl_total_loaned p = 0) \<and>
    (\<forall>cx ad i n t. recall_loan cx ad i n s \<noteq> Ok t) \<and> (\<forall>cx ad i t. liquidation_fallback cx ad i s \<noteq> Ok t)"
proof -
  have "unowed s" using unowed_run [OF assms unowed_empty] .
  then show ?thesis
    by (auto simp: get_plan_def dest: unowed_plan recall_needs_loan liquidation_needs_loan)
qed

theorem nothing_on_loan_witness: "recall_loan (estate_cx 9) (Addr 2) 1 100 estate_created \<noteq> Ok estate_created"
  using nothing_on_loan [OF any_estate_run] by simp

end
