(* ===== verification/Service_Monad.thy ===== *)
theory Service_Monad
  imports Prelude
begin

text \<open>
  The backend's code runs against services whose state survives an error: a request that fails may
  have sent or written something before. A step takes the state of the services and returns an outcome
  with the state it leaves. Also here: the parts of Rust's standard library for strings that the backend
  uses, on ASCII text.
\<close>

named_theorems service_defs

section \<open>Steps\<close>

type_synonym ('a, 'e, 's) step = "'s \<Rightarrow> ('a, 'e) outcome \<times> 's"

definition and_run ::
  "('a, 'e) outcome \<times> 's \<Rightarrow> ('a \<Rightarrow> ('b, 'e, 's) step) \<Rightarrow> ('b, 'e) outcome \<times> 's" where
  "and_run r f = (case r of (Ok x, s) \<Rightarrow> f x s | (Err e, s) \<Rightarrow> (Err e, s) | (Panic, s) \<Rightarrow> (Panic, s))"

lemma and_run_simps [simp]:
  "and_run (Ok x, s) f = f x s" "and_run (Err e, s) f = (Err e, s)" "and_run (Panic, s) f = (Panic, s)"
  by (simp_all add: and_run_def)

lemma and_run_Ok [simp]:
  "and_run r f = (Ok y, t) \<longleftrightarrow> (\<exists>x s. r = (Ok x, s) \<and> f x s = (Ok y, t))"
proof (cases r)
  case (Pair o1 s1)
  then show ?thesis by (cases o1) auto
qed

text \<open>The state after a step is reached through the state after its first part.\<close>

lemma and_run_state:
  assumes "\<And>o1 s1. r = (o1, s1) \<Longrightarrow> P s1"
    and "\<And>x s1. r = (Ok x, s1) \<Longrightarrow> P s1 \<Longrightarrow> P (snd (f x s1))"
  shows "P (snd (and_run r f))"
proof (cases r)
  case (Pair o1 s1)
  then show ?thesis using assms by (cases o1) auto
qed

lemma and_run_inv:
  assumes "P (snd r)" and "\<And>x t. P t \<Longrightarrow> P (snd (f x t))"
  shows "P (snd (and_run r f))"
  by (rule and_run_state) (use assms in auto)

text \<open>A check that leaves the state alone.\<close>

definition check :: "('a, 'e) outcome \<Rightarrow> ('a, 'e, 's) step" where
  "check r s = (r, s)"

lemma check_simps [simp]: "check r s = (r, s)"
  by (simp add: check_def)

text \<open>A \<open>for\<close> loop with an accumulator, left by the first error.\<close>

primrec fold_steps :: "('x \<Rightarrow> 'a \<Rightarrow> ('a, 'e, 's) step) \<Rightarrow> 'x list \<Rightarrow> 'a \<Rightarrow> ('a, 'e, 's) step" where
  "fold_steps f [] a s = (Ok a, s)"
| "fold_steps f (x # xs) a s = and_run (f x a s) (fold_steps f xs)"

lemma fold_steps_invariant:
  assumes "\<And>x a s. x \<in> set xs \<Longrightarrow> P s \<Longrightarrow> P (snd (f x a s))" and "P s"
  shows "P (snd (fold_steps f xs a s))"
  using assms
proof (induction xs arbitrary: a s)
  case (Cons x xs)
  show ?case
    unfolding fold_steps.simps
  proof (rule and_run_state)
    fix o1 s1 assume "f x a s = (o1, s1)"
    then show "P s1" using Cons.prems(1) [of x s a] Cons.prems(2) by simp
  next
    fix y s1 assume "P s1"
    then show "P (snd (fold_steps f xs y s1))" by (intro Cons.IH) (use Cons.prems(1) in auto)
  qed
qed simp

section \<open>Strings\<close>

definition is_space :: "char \<Rightarrow> bool" where
  "is_space c \<longleftrightarrow> of_char c = (32::nat) \<or> (9 \<le> (of_char c :: nat) \<and> (of_char c :: nat) \<le> 13)"

definition trim :: "string \<Rightarrow> string" where
  "trim s = rev (dropWhile is_space (rev (dropWhile is_space s)))"

definition is_digit :: "char \<Rightarrow> bool" where
  "is_digit c \<longleftrightarrow> 48 \<le> (of_char c :: nat) \<and> (of_char c :: nat) \<le> 57"

definition digits_value :: "string \<Rightarrow> nat" where
  "digits_value s = foldl (\<lambda>n c. n * 10 + (of_char c - 48)) 0 s"

text \<open>\<open>str::parse\<close> for unsigned and signed 64-bit numbers.\<close>

definition parse_digits :: "string \<Rightarrow> nat option" where
  "parse_digits s = (if s \<noteq> [] \<and> list_all is_digit s then Some (digits_value s) else None)"

definition parse_u64 :: "string \<Rightarrow> nat option" where
  "parse_u64 s =
     (case parse_digits (case s of [] \<Rightarrow> s | c # cs \<Rightarrow> if c = CHR ''+'' then cs else s) of
        Some n \<Rightarrow> if n \<le> u64_max then Some n else None
      | None \<Rightarrow> None)"

definition i64_max :: int where "i64_max = 2 ^ 63 - 1"
definition i64_min :: int where "i64_min = - (2 ^ 63)"

definition parse_i64 :: "string \<Rightarrow> int option" where
  "parse_i64 s =
     (case s of
        [] \<Rightarrow> None
      | c # cs \<Rightarrow>
          (case parse_digits (if c = CHR ''+'' \<or> c = CHR ''-'' then cs else s) of
             Some n \<Rightarrow>
               (let v = (if c = CHR ''-'' then - int n else int n)
                in if i64_min \<le> v \<and> v \<le> i64_max then Some v else None)
           | None \<Rightarrow> None))"

definition to_lower :: "char \<Rightarrow> char" where
  "to_lower c = (if 65 \<le> (of_char c :: nat) \<and> (of_char c :: nat) \<le> 90 then char_of ((of_char c :: nat) + 32) else c)"

definition to_ascii_lowercase :: "string \<Rightarrow> string" where
  "to_ascii_lowercase s = map to_lower s"

definition to_upper :: "char \<Rightarrow> char" where
  "to_upper c = (if 97 \<le> (of_char c :: nat) \<and> (of_char c :: nat) \<le> 122 then char_of ((of_char c :: nat) - 32) else c)"

definition to_ascii_uppercase :: "string \<Rightarrow> string" where
  "to_ascii_uppercase s = map to_upper s"

text \<open>\<open>str::contains\<close>, and \<open>as i64\<close> on a 64-bit number.\<close>

fun contains :: "string \<Rightarrow> string \<Rightarrow> bool" where
  "contains [] p \<longleftrightarrow> p = []"
| "contains (c # cs) p \<longleftrightarrow> take (length p) (c # cs) = p \<or> contains cs p"

definition as_i64 :: "nat \<Rightarrow> int" where
  "as_i64 n = (let m = int (n mod 2 ^ 64) in if m \<le> i64_max then m else m - 2 ^ 64)"

section \<open>The environment\<close>

type_synonym environment = "string \<Rightarrow> string option"

definition parse_env_u64 :: "environment \<Rightarrow> string \<Rightarrow> nat \<Rightarrow> nat" where
  "parse_env_u64 env key dflt = unwrap_or dflt (Option.bind (env key) parse_u64)"

definition parse_env_i64 :: "environment \<Rightarrow> string \<Rightarrow> int \<Rightarrow> int" where
  "parse_env_i64 env key dflt = unwrap_or dflt (Option.bind (env key) parse_i64)"

definition non_empty_env :: "environment \<Rightarrow> string \<Rightarrow> string option" where
  "non_empty_env env key =
     Option.bind (env key) (\<lambda>v. let v = trim v in if v = [] then None else Some v)"

end
