(* ===== verification/Soroban_Client.thy ===== *)
theory Soroban_Client
  imports Service_Monad
begin

text \<open>
  \<open>backend/src/stellar_submit.rs\<close>: the client that submits transactions to Horizon and invokes the
  inheritance contract through the Soroban RPC server. The XDR codec, the key formats, the signature
  scheme and the hash are other packages: they are the record \<open>stellar_lib\<close>. The servers and the clock
  are the record \<open>network\<close> over an abstract world. Texts of messages are the data they are made of.
\<close>

section \<open>Values and events\<close>

type_synonym bytes = "nat list"

text \<open>The values of the XDR package, with the constructors the client looks at and one for the others.\<close>

datatype sc_val =
    ScVoid
  | ScBool bool
  | ScU32 nat
  | ScU64 nat
  | ScSymbol string
  | ScVec "sc_val list option"
  | ScMap "(sc_val \<times> sc_val) list option"
  | ScAccount bytes
  | ScOther nat

record contract_event =
  ce_contract_id :: "bytes option"
  ce_topics :: "sc_val list"
  ce_data :: sc_val

text \<open>The metadata of a transaction, by version: events and return value.\<close>

datatype transaction_meta =
    MetaV3 "(contract_event list \<times> sc_val) option"
  | MetaV4 "contract_event list list" "contract_event list" "sc_val option option"
  | MetaOther

fun contract_events :: "transaction_meta \<Rightarrow> contract_event list" where
  "contract_events (MetaV3 soroban) = unwrap_or [] (map_option fst soroban)"
| "contract_events (MetaV4 operations events soroban) = concat operations @ events"
| "contract_events MetaOther = []"

fun meta_return_value :: "transaction_meta \<Rightarrow> sc_val option" where
  "meta_return_value (MetaV3 soroban) = map_option snd soroban"
| "meta_return_value (MetaV4 operations events soroban) = Option.bind soroban (\<lambda>v. v)"
| "meta_return_value MetaOther = None"

definition matches_symbol :: "sc_val \<Rightarrow> string \<Rightarrow> bool" where
  "matches_symbol v expected \<longleftrightarrow> v = ScSymbol expected"

definition event_matches :: "bytes \<Rightarrow> string list \<Rightarrow> contract_event \<Rightarrow> bool" where
  "event_matches contract topics ev \<longleftrightarrow> ce_contract_id ev = Some contract \<and>
     \<not> length (ce_topics ev) < length topics \<and>
     list_all (\<lambda>(t, e). matches_symbol t e) (zip (ce_topics ev) topics)"

definition find_event :: "contract_event list \<Rightarrow> bytes \<Rightarrow> string list \<Rightarrow> contract_event option" where
  "find_event events contract topics = find (event_matches contract topics) events"

text \<open>The first entry with the key that has a value of the wanted type.\<close>

fun find_field :: "(sc_val \<Rightarrow> 'a option) \<Rightarrow> string \<Rightarrow> (sc_val \<times> sc_val) list \<Rightarrow> 'a option" where
  "find_field get field [] = None"
| "find_field get field ((k, v) # entries) =
     (if \<not> matches_symbol k field then find_field get field entries
      else case get v of Some x \<Rightarrow> Some x | None \<Rightarrow> find_field get field entries)"

definition get_u64 :: "sc_val \<Rightarrow> nat option" where
  "get_u64 v = (case v of ScU64 n \<Rightarrow> Some n | ScU32 n \<Rightarrow> Some n | _ \<Rightarrow> None)"

definition get_bool :: "sc_val \<Rightarrow> bool option" where
  "get_bool v = (case v of ScBool b \<Rightarrow> Some b | _ \<Rightarrow> None)"

definition event_u64_field :: "contract_event \<Rightarrow> string \<Rightarrow> nat option" where
  "event_u64_field ev field =
     (case ce_data ev of ScMap (Some entries) \<Rightarrow> find_field get_u64 field entries | _ \<Rightarrow> None)"

definition scval_map :: "sc_val \<Rightarrow> (sc_val \<times> sc_val) list option" where
  "scval_map v = (case v of ScMap (Some entries) \<Rightarrow> Some entries | _ \<Rightarrow> None)"

definition scval_u64_field :: "sc_val \<Rightarrow> string \<Rightarrow> nat option" where
  "scval_u64_field v field = Option.bind (scval_map v) (find_field get_u64 field)"

definition scval_bool_field :: "sc_val \<Rightarrow> string \<Rightarrow> bool option" where
  "scval_bool_field v field = Option.bind (scval_map v) (find_field get_bool field)"

definition unwrap_option_scval :: "sc_val \<Rightarrow> sc_val option" where
  "unwrap_option_scval v =
     (case v of
        ScVoid \<Rightarrow> None
      | ScVec (Some items) \<Rightarrow>
          (case items of
             [] \<Rightarrow> None
           | i # rest \<Rightarrow>
               if matches_symbol i ''None'' then None
               else if matches_symbol i ''Some'' then (case rest of [] \<Rightarrow> None | x # _ \<Rightarrow> Some x)
               else Some v)
      | _ \<Rightarrow> Some v)"

definition parse_outstanding_loaned :: "sc_val \<Rightarrow> nat option" where
  "parse_outstanding_loaned v =
     Option.bind (unwrap_option_scval v) (\<lambda>inner.
     Option.bind (scval_u64_field inner ''original_loaned'') (\<lambda>original.
     let recalled = unwrap_or 0 (scval_u64_field inner ''recalled_amount'');
         settled = unwrap_or 0 (scval_u64_field inner ''settled_amount'');
         liquidation = unwrap_or False (scval_bool_field inner ''liquidation_triggered'')
     in if liquidation then Some 0
        else Some (saturating_sub (saturating_sub original recalled) settled)))"

section \<open>Errors and configuration\<close>

datatype submit_error =
    NetworkError
  | SubmitRejected string
  | NotConfigured
  | ConfigError string
  | XdrError string
  | RpcError string
  | SimulationError string
  | TransactionFailed string string
  | SubmitTimeout string

definition BASE_FEE_STROOPS :: int where "BASE_FEE_STROOPS = 100"
definition TX_VALID_FOR_SECS :: nat where "TX_VALID_FOR_SECS = 300"
definition DEFAULT_POLL_INTERVAL_MS :: nat where "DEFAULT_POLL_INTERVAL_MS = 1000"
definition DEFAULT_POLL_TIMEOUT_SECS :: nat where "DEFAULT_POLL_TIMEOUT_SECS = 60"
definition TESTNET_PASSPHRASE :: string where "TESTNET_PASSPHRASE = ''Test SDF Network ; September 2015''"

text \<open>Durations are in milliseconds.\<close>

record soroban_config =
  sb_rpc_url :: string
  sb_contract_id :: string
  sb_network_passphrase :: string
  sb_signer_secret :: string
  sb_poll_interval :: nat
  sb_poll_timeout :: nat

definition soroban_config_from_env :: "environment \<Rightarrow> soroban_config option" where
  "soroban_config_from_env env =
     Option.bind (non_empty_env env ''SOROBAN_RPC_URL'') (\<lambda>rpc_url.
     Option.bind (non_empty_env env ''INHERITANCE_CONTRACT_ID'') (\<lambda>contract_id.
     Option.bind (non_empty_env env ''STELLAR_SIGNER_SECRET'') (\<lambda>signer_secret.
     Some \<lparr>sb_rpc_url = rpc_url, sb_contract_id = contract_id,
       sb_network_passphrase = unwrap_or TESTNET_PASSPHRASE (non_empty_env env ''STELLAR_NETWORK_PASSPHRASE''),
       sb_signer_secret = signer_secret,
       sb_poll_interval = max (parse_env_u64 env ''SOROBAN_POLL_INTERVAL_MS'' DEFAULT_POLL_INTERVAL_MS) 50,
       sb_poll_timeout = max (parse_env_u64 env ''SOROBAN_POLL_TIMEOUT_SECS'' DEFAULT_POLL_TIMEOUT_SECS) 1 * 1000\<rparr>)))"

section \<open>Transactions\<close>

record invocation =
  iv_contract :: bytes
  iv_function :: string
  iv_args :: "sc_val list"

record transaction =
  tx_source :: bytes
  tx_fee :: nat
  tx_sequence :: int
  tx_max_time :: nat
  tx_invocation :: invocation
  tx_auth :: "bytes list"
  tx_resources :: "bytes option"

text \<open>The packages the client uses. Encoding and decoding may fail.\<close>

record stellar_lib =
  lib_secret :: "string \<Rightarrow> bytes option"
  lib_contract :: "string \<Rightarrow> bytes option"
  lib_public :: "bytes \<Rightarrow> bytes"
  lib_account :: "bytes \<Rightarrow> string"
  lib_sha256 :: "bytes \<Rightarrow> bytes"
  lib_sign :: "bytes \<Rightarrow> bytes \<Rightarrow> bytes"
  lib_hex :: "bytes \<Rightarrow> string"
  lib_payload :: "bytes \<Rightarrow> transaction \<Rightarrow> bytes option"
  lib_envelope :: "transaction \<Rightarrow> (bytes \<times> bytes) list \<Rightarrow> string option"
  lib_resources :: "string \<Rightarrow> bytes option"
  lib_scval :: "string \<Rightarrow> sc_val option"
  lib_auth :: "string \<Rightarrow> bytes option"
  lib_meta :: "string \<Rightarrow> transaction_meta option"
  lib_bytes :: "string \<Rightarrow> bytes"

record soroban_context =
  cx_config :: soroban_config
  cx_signing_key :: bytes
  cx_public_key :: bytes
  cx_source_account :: string
  cx_contract :: bytes
  cx_network_id :: bytes

record stellar_client =
  sl_horizon_url :: string
  sl_soroban :: "soroban_context option"

definition client_new :: "string \<Rightarrow> stellar_client" where
  "client_new horizon_url = \<lparr>sl_horizon_url = horizon_url, sl_soroban = None\<rparr>"

definition network_id :: "stellar_lib \<Rightarrow> string \<Rightarrow> bytes" where
  "network_id lb passphrase = lib_sha256 lb (lib_bytes lb passphrase)"

definition signature_hint :: "bytes \<Rightarrow> bytes" where
  "signature_hint public_key = take 4 (drop 28 public_key)"

definition with_soroban ::
  "stellar_lib \<Rightarrow> soroban_config \<Rightarrow> stellar_client \<Rightarrow> (stellar_client, submit_error) outcome" where
  "with_soroban lb config cl =
     and_then (ok_or (lib_secret lb (sb_signer_secret config)) (ConfigError ''STELLAR_SIGNER_SECRET'')) (\<lambda>secret.
     and_then (ok_or (lib_contract lb (sb_contract_id config)) (ConfigError ''INHERITANCE_CONTRACT_ID'')) (\<lambda>contract.
     let public_key = lib_public lb secret in
     Ok (cl\<lparr>sl_soroban := Some \<lparr>cx_config = config, cx_signing_key = secret, cx_public_key = public_key,
       cx_source_account = lib_account lb public_key, cx_contract = contract,
       cx_network_id = network_id lb (sb_network_passphrase config)\<rparr>\<rparr>)))"

definition soroban_enabled :: "stellar_client \<Rightarrow> bool" where
  "soroban_enabled cl \<longleftrightarrow> sl_soroban cl \<noteq> None"

definition client_contract :: "stellar_client \<Rightarrow> bytes option" where
  "client_contract cl = map_option cx_contract (sl_soroban cl)"

definition client_contract_id :: "stellar_client \<Rightarrow> string option" where
  "client_contract_id cl = map_option (\<lambda>c. sb_contract_id (cx_config c)) (sl_soroban cl)"

definition client_source_account :: "stellar_client \<Rightarrow> string option" where
  "client_source_account cl = map_option cx_source_account (sl_soroban cl)"

definition client_soroban :: "stellar_client \<Rightarrow> (soroban_context, submit_error) outcome" where
  "client_soroban cl = ok_or (sl_soroban cl) NotConfigured"

definition signer_account_scval :: "soroban_context \<Rightarrow> sc_val" where
  "signer_account_scval ctx = ScAccount (cx_public_key ctx)"

text \<open>The fee is a 32-bit number on the wire.\<close>

definition fee_u32 :: "int \<Rightarrow> (nat, submit_error) outcome" where
  "fee_u32 fee = (if 0 \<le> fee \<and> fee \<le> int u32_max then Ok (nat fee) else Err (SimulationError ''resource fee exceeds u32''))"

definition build_transaction ::
  "soroban_context \<Rightarrow> int \<Rightarrow> nat \<Rightarrow> int \<Rightarrow> invocation \<Rightarrow> bytes list \<Rightarrow> bytes option \<Rightarrow>
   (transaction, submit_error) outcome" where
  "build_transaction ctx seqn valid_until fee invoc auth ext =
     and_then (fee_u32 fee) (\<lambda>f.
     Ok \<lparr>tx_source = cx_public_key ctx, tx_fee = f, tx_sequence = seqn, tx_max_time = valid_until,
         tx_invocation = invoc, tx_auth = auth, tx_resources = ext\<rparr>)"

text \<open>The hash identifies the transaction on the chain.\<close>

definition sign_transaction ::
  "stellar_lib \<Rightarrow> soroban_context \<Rightarrow> transaction \<Rightarrow> ((bytes \<times> bytes) list \<times> string, submit_error) outcome" where
  "sign_transaction lb ctx tx =
     and_then (ok_or (lib_payload lb (cx_network_id ctx) tx) (XdrError ''payload'')) (\<lambda>encoded.
     let tx_hash = lib_sha256 lb encoded;
         signature = lib_sign lb (cx_signing_key ctx) tx_hash
     in Ok ([(signature_hint (cx_public_key ctx), signature)], lib_hex lb tx_hash))"

section \<open>The servers\<close>

text \<open>
  An RPC call is not answered, answered with something else than the protocol's JSON, or answered with
  an error message and a result, either of which may be missing.
\<close>

datatype 'a rpc_reply = Unreachable | BadReply | RpcReply "string option" "'a option"

record simulate_response =
  si_error :: "string option"
  si_transaction_data :: "string option"
  si_min_resource_fee :: "string option"
  si_results :: "(string list option \<times> string option) list option"

record send_response =
  sd_status :: string
  sd_hash :: "string option"
  sd_error_result_xdr :: "string option"

record get_response =
  gt_status :: string
  gt_result_meta_xdr :: "string option"
  gt_result_xdr :: "string option"

text \<open>
  \<open>net_account\<close> and \<open>net_submit\<close> are Horizon: no answer, or whether the status was a success and the
  sequence number (the body) where the answer parses. \<open>net_now\<close> is the monotonic clock in milliseconds.
\<close>

record 'w network =
  net_now :: "'w \<Rightarrow> nat"
  net_unix :: "'w \<Rightarrow> nat"
  net_sleep :: "nat \<Rightarrow> 'w \<Rightarrow> 'w"
  net_account :: "string \<Rightarrow> 'w \<Rightarrow> (bool \<times> string option) option \<times> 'w"
  net_submit :: "string \<Rightarrow> 'w \<Rightarrow> (bool \<times> string option) option \<times> 'w"
  net_simulate :: "string \<Rightarrow> 'w \<Rightarrow> simulate_response rpc_reply \<times> 'w"
  net_send :: "string \<Rightarrow> 'w \<Rightarrow> send_response rpc_reply \<times> 'w"
  net_get :: "string \<Rightarrow> 'w \<Rightarrow> get_response rpc_reply \<times> 'w"

fun rpc_outcome :: "string \<Rightarrow> 'a rpc_reply \<Rightarrow> ('a, submit_error) outcome" where
  "rpc_outcome method Unreachable = Err NetworkError"
| "rpc_outcome method BadReply = Err NetworkError"
| "rpc_outcome method (RpcReply (Some e) result) = Err (RpcError (method @ '': '' @ e))"
| "rpc_outcome method (RpcReply None result) = ok_or result (RpcError (method @ '': empty result''))"

definition rpc :: "string \<Rightarrow> 'a rpc_reply \<times> 'w \<Rightarrow> ('a, submit_error) outcome \<times> 'w" where
  "rpc method reply = (rpc_outcome method (fst reply), snd reply)"

definition submit :: "'w network \<Rightarrow> string \<Rightarrow> (string, submit_error, 'w) step" where
  "submit N xdr w =
     (let (reply, w) = net_submit N xdr w in
      case reply of
        None \<Rightarrow> (Err NetworkError, w)
      | Some (success, None) \<Rightarrow> (Err NetworkError, w)
      | Some (success, Some body) \<Rightarrow> (if success then Ok body else Err (SubmitRejected body), w))"

definition saturating_add_i64 :: "int \<Rightarrow> int \<Rightarrow> int" where
  "saturating_add_i64 a b = max i64_min (min i64_max (a + b))"

definition next_sequence :: "'w network \<Rightarrow> soroban_context \<Rightarrow> (int, submit_error, 'w) step" where
  "next_sequence N ctx w =
     (let (reply, w) = net_account N (cx_source_account ctx) w in
      case reply of
        None \<Rightarrow> (Err NetworkError, w)
      | Some (success, body) \<Rightarrow>
          if \<not> success then (Err NetworkError, w)
          else (case Option.bind body parse_i64 of
                  None \<Rightarrow> (Err NetworkError, w)
                | Some current \<Rightarrow> (Ok (saturating_add_i64 current 1), w)))"

record simulation =
  sm_transaction_data :: bytes
  sm_min_resource_fee :: int
  sm_auth :: "bytes list"
  sm_return_value :: "sc_val option"

primrec decode_all :: "(string \<Rightarrow> bytes option) \<Rightarrow> string list \<Rightarrow> (bytes list, submit_error) outcome" where
  "decode_all decode [] = Ok []"
| "decode_all decode (x # xs) =
     and_then (ok_or (decode (trim x)) (XdrError ''auth entry'')) (\<lambda>b.
     and_then (decode_all decode xs) (\<lambda>bs. Ok (b # bs)))"

definition read_simulation :: "stellar_lib \<Rightarrow> simulate_response \<Rightarrow> (simulation, submit_error) outcome" where
  "read_simulation lb response =
     (case si_error response of
        Some e \<Rightarrow> Err (SimulationError e)
      | None \<Rightarrow>
          and_then (ok_or (si_transaction_data response) (SimulationError ''no transactionData returned'')) (\<lambda>td.
          and_then (ok_or (lib_resources lb (trim td)) (XdrError ''transactionData'')) (\<lambda>td.
          and_then (ok_or (parse_i64 (unwrap_or ''0'' (si_min_resource_fee response)))
            (SimulationError ''malformed minResourceFee'')) (\<lambda>fee.
          let first = (case unwrap_or [] (si_results response) of [] \<Rightarrow> None | r # _ \<Rightarrow> Some r) in
          and_then (case Option.bind first snd of
                      None \<Rightarrow> Ok None
                    | Some xdr \<Rightarrow> and_then (ok_or (lib_scval lb (trim xdr)) (XdrError ''simulate return value''))
                        (\<lambda>v. Ok (Some v))) (\<lambda>return_value.
          and_then (decode_all (lib_auth lb) (unwrap_or [] (Option.bind first fst))) (\<lambda>auth.
          Ok \<lparr>sm_transaction_data = td, sm_min_resource_fee = fee, sm_auth = auth,
              sm_return_value = return_value\<rparr>))))))"

definition simulate ::
  "stellar_lib \<Rightarrow> 'w network \<Rightarrow> transaction \<Rightarrow> (simulation, submit_error, 'w) step" where
  "simulate lb N tx w =
     and_run (ok_or (lib_envelope lb tx []) (XdrError ''envelope''), w) (\<lambda>xdr w.
     and_run (rpc ''simulateTransaction'' (net_simulate N xdr w)) (\<lambda>response w.
     (read_simulation lb response, w)))"

definition send_transaction :: "'w network \<Rightarrow> string \<Rightarrow> string \<Rightarrow> (unit, submit_error, 'w) step" where
  "send_transaction N envelope_xdr expected_hash w =
     and_run (rpc ''sendTransaction'' (net_send N envelope_xdr w)) (\<lambda>response w.
     if sd_status response = ''PENDING'' \<or> sd_status response = ''DUPLICATE'' then (Ok (), w)
     else if sd_status response = ''TRY_AGAIN_LATER'' then (Err (RpcError ''sendTransaction: TRY_AGAIN_LATER''), w)
     else (Err (TransactionFailed expected_hash (''sendTransaction returned '' @ sd_status response @
       (case sd_error_result_xdr response of None \<Rightarrow> [] | Some x \<Rightarrow> '' ('' @ x @ '')''))), w))"

record invocation_outcome =
  io_tx_hash :: string
  io_events :: "contract_event list"
  io_return_value :: "sc_val option"

definition read_meta ::
  "stellar_lib \<Rightarrow> string option \<Rightarrow> (contract_event list \<times> sc_val option, submit_error) outcome" where
  "read_meta lb meta =
     (case meta of
        None \<Rightarrow> Ok ([], None)
      | Some m \<Rightarrow> and_then (ok_or (lib_meta lb (trim m)) (XdrError ''resultMetaXdr'')) (\<lambda>m.
          Ok (contract_events m, meta_return_value m)))"

text \<open>
  The poll repeats until the transaction is found or the deadline has passed. The first argument bounds
  the number of polls; a poll that runs out of it has no result, the value \<open>Panic\<close>.
\<close>

fun poll_transaction ::
  "nat \<Rightarrow> stellar_lib \<Rightarrow> 'w network \<Rightarrow> nat \<Rightarrow> nat \<Rightarrow> string \<Rightarrow> (invocation_outcome, submit_error, 'w) step" where
  "poll_transaction 0 lb N interval deadline tx_hash w = (Panic, w)"
| "poll_transaction (Suc n) lb N interval deadline tx_hash w =
     and_run (rpc ''getTransaction'' (net_get N tx_hash w)) (\<lambda>response w.
     if gt_status response = ''SUCCESS''
     then and_run (read_meta lb (gt_result_meta_xdr response), w) (\<lambda>(events, return_value) w.
          (Ok \<lparr>io_tx_hash = tx_hash, io_events = events, io_return_value = return_value\<rparr>, w))
     else if gt_status response = ''FAILED''
     then (Err (TransactionFailed tx_hash (unwrap_or ''unknown'' (gt_result_xdr response))), w)
     else if net_now N w \<ge> deadline then (Err (SubmitTimeout tx_hash), w)
     else poll_transaction n lb N interval deadline tx_hash (net_sleep N interval w))"

definition await_transaction ::
  "nat \<Rightarrow> stellar_lib \<Rightarrow> 'w network \<Rightarrow> soroban_context \<Rightarrow> string \<Rightarrow> (invocation_outcome, submit_error, 'w) step" where
  "await_transaction n lb N ctx tx_hash w =
     poll_transaction n lb N (sb_poll_interval (cx_config ctx)) (net_now N w + sb_poll_timeout (cx_config ctx))
       tx_hash w"

section \<open>Invocations\<close>

text \<open>A symbol has at most 32 characters, a vector at most 2^32 - 1 entries.\<close>

definition make_invocation ::
  "soroban_context \<Rightarrow> string \<Rightarrow> sc_val list \<Rightarrow> (invocation, submit_error) outcome" where
  "make_invocation ctx function_name args =
     and_then (ensure (length function_name \<le> 32) (ConfigError function_name)) (\<lambda>_.
     and_then (ensure (length args \<le> u32_max) (XdrError ''invocation arguments'')) (\<lambda>_.
     Ok \<lparr>iv_contract = cx_contract ctx, iv_function = function_name, iv_args = args\<rparr>))"

definition prepare_invocation ::
  "stellar_lib \<Rightarrow> 'w network \<Rightarrow> soroban_context \<Rightarrow> string \<Rightarrow> sc_val list \<Rightarrow>
   (invocation \<times> int \<times> nat \<times> simulation, submit_error, 'w) step" where
  "prepare_invocation lb N ctx function_name args w =
     and_run (make_invocation ctx function_name args, w) (\<lambda>invoc w.
     and_run (next_sequence N ctx w) (\<lambda>seqn w.
     let valid_until = net_unix N w + TX_VALID_FOR_SECS in
     and_run (build_transaction ctx seqn valid_until BASE_FEE_STROOPS invoc [] None, w) (\<lambda>unsigned w.
     and_run (simulate lb N unsigned w) (\<lambda>sim w.
     (Ok (invoc, seqn, valid_until, sim), w)))))"

text \<open>Sign the assembled transaction, submit it and wait for its result.\<close>

definition send_and_await ::
  "nat \<Rightarrow> stellar_lib \<Rightarrow> 'w network \<Rightarrow> soroban_context \<Rightarrow> transaction \<Rightarrow>
   (invocation_outcome, submit_error, 'w) step" where
  "send_and_await n lb N ctx assembled w =
     and_run (sign_transaction lb ctx assembled, w) (\<lambda>(signatures, tx_hash) w.
     and_run (ok_or (lib_envelope lb assembled signatures) (XdrError ''envelope''), w) (\<lambda>envelope_xdr w.
     and_run (send_transaction N envelope_xdr tx_hash w) (\<lambda>_ w.
     await_transaction n lb N ctx tx_hash w)))"

definition invoke_contract ::
  "nat \<Rightarrow> stellar_lib \<Rightarrow> 'w network \<Rightarrow> stellar_client \<Rightarrow> string \<Rightarrow> sc_val list \<Rightarrow>
   (invocation_outcome, submit_error, 'w) step" where
  "invoke_contract n lb N cl function_name args w =
     and_run (client_soroban cl, w) (\<lambda>ctx w.
     and_run (prepare_invocation lb N ctx function_name args w) (\<lambda>(invoc, seqn, valid_until, sim) w.
     and_run (build_transaction ctx seqn valid_until (saturating_add_i64 BASE_FEE_STROOPS (sm_min_resource_fee sim))
       invoc (sm_auth sim) (Some (sm_transaction_data sim)), w) (\<lambda>assembled w.
     send_and_await n lb N ctx assembled w)))"

definition simulate_contract ::
  "stellar_lib \<Rightarrow> 'w network \<Rightarrow> stellar_client \<Rightarrow> string \<Rightarrow> sc_val list \<Rightarrow> (sc_val, submit_error, 'w) step" where
  "simulate_contract lb N cl function_name args w =
     and_run (client_soroban cl, w) (\<lambda>ctx w.
     and_run (prepare_invocation lb N ctx function_name args w) (\<lambda>(invoc, seqn, valid_until, sim) w.
     (ok_or (sm_return_value sim) (SimulationError ''no return value''), w)))"

definition invoke_for_plan ::
  "nat \<Rightarrow> stellar_lib \<Rightarrow> 'w network \<Rightarrow> stellar_client \<Rightarrow> string \<Rightarrow> nat list \<Rightarrow>
   (invocation_outcome, submit_error, 'w) step" where
  "invoke_for_plan n lb N cl function_name numbers w =
     and_run (client_soroban cl, w) (\<lambda>ctx w.
     invoke_contract n lb N cl function_name (signer_account_scval ctx # map ScU64 numbers) w)"

definition cl_trigger_inheritance ::
  "nat \<Rightarrow> stellar_lib \<Rightarrow> 'w network \<Rightarrow> stellar_client \<Rightarrow> nat \<Rightarrow> (invocation_outcome, submit_error, 'w) step" where
  "cl_trigger_inheritance n lb N cl plan_id = invoke_for_plan n lb N cl ''trigger_inheritance'' [plan_id]"

definition cl_freeze_loans ::
  "nat \<Rightarrow> stellar_lib \<Rightarrow> 'w network \<Rightarrow> stellar_client \<Rightarrow> nat \<Rightarrow> (invocation_outcome, submit_error, 'w) step" where
  "cl_freeze_loans n lb N cl plan_id = invoke_for_plan n lb N cl ''freeze_loans'' [plan_id]"

definition cl_recall_loan ::
  "nat \<Rightarrow> stellar_lib \<Rightarrow> 'w network \<Rightarrow> stellar_client \<Rightarrow> nat \<Rightarrow> nat \<Rightarrow> (invocation_outcome, submit_error, 'w) step" where
  "cl_recall_loan n lb N cl plan_id recall_amount =
     invoke_for_plan n lb N cl ''recall_loan'' [plan_id, recall_amount]"

definition cl_liquidation_fallback ::
  "nat \<Rightarrow> stellar_lib \<Rightarrow> 'w network \<Rightarrow> stellar_client \<Rightarrow> nat \<Rightarrow> (invocation_outcome, submit_error, 'w) step" where
  "cl_liquidation_fallback n lb N cl plan_id = invoke_for_plan n lb N cl ''liquidation_fallback'' [plan_id]"

definition outstanding_loaned ::
  "stellar_lib \<Rightarrow> 'w network \<Rightarrow> stellar_client \<Rightarrow> nat \<Rightarrow> (nat option, submit_error, 'w) step" where
  "outstanding_loaned lb N cl plan_id w =
     and_run (simulate_contract lb N cl ''get_inheritance_trigger'' [ScU64 plan_id] w) (\<lambda>v w.
     (Ok (parse_outstanding_loaned v), w))"

section \<open>The poll ends\<close>

text \<open>
  The clock of a server-side wait: sleeping takes at least the time asked for, and a poll does not turn
  the clock back.
\<close>

locale running_clock =
  fixes N :: "'w network"
  assumes sleeps: "net_now N w + d \<le> net_now N (net_sleep N d w)"
    and polls: "net_get N h w = (r, w') \<Longrightarrow> net_now N w \<le> net_now N w'"

text \<open>No other step of the client is without a result.\<close>

lemma ok_or_returns [simp]: "ok_or x e \<noteq> Panic"
  by (simp add: ok_or_def split: option.split)

lemma rpc_returns [simp]: "rpc_outcome m r \<noteq> Panic"
  by (cases "(m, r)" rule: rpc_outcome.cases) simp_all

lemma and_then_Panic [simp]: "and_then m f = Panic \<longleftrightarrow> m = Panic \<or> (\<exists>x. m = Ok x \<and> f x = Panic)"
  by (cases m) auto

lemma and_run_Panic:
  "fst (and_run r f) = Panic \<longleftrightarrow> fst r = Panic \<or> (\<exists>x s. r = (Ok x, s) \<and> fst (f x s) = Panic)"
proof (cases r)
  case (Pair o1 s1)
  then show ?thesis by (cases o1) auto
qed

lemma and_run_returns:
  "fst r \<noteq> Panic \<Longrightarrow> (\<And>x s. r = (Ok x, s) \<Longrightarrow> fst (f x s) \<noteq> Panic) \<Longrightarrow> fst (and_run r f) \<noteq> Panic"
  by (auto simp: and_run_Panic)

lemma rpc_step_returns [simp]: "fst (rpc m r) \<noteq> Panic"
  by (simp add: rpc_def)

lemma decode_all_returns [simp]: "decode_all d xs \<noteq> Panic"
  by (induction xs) (auto)

lemma build_returns [simp]: "build_transaction ctx s v fee i a e \<noteq> Panic"
  by (auto simp: build_transaction_def fee_u32_def)

lemma sign_returns [simp]: "sign_transaction lb ctx tx \<noteq> Panic"
  by (auto simp: sign_transaction_def Let_def)

lemma read_simulation_returns [simp]: "read_simulation lb r \<noteq> Panic"
  by (auto simp: read_simulation_def Let_def split: option.split)

lemma simulate_returns [simp]: "fst (simulate lb N tx w) \<noteq> Panic"
  unfolding simulate_def by (auto simp: and_run_Panic)

lemma sequence_returns [simp]: "fst (next_sequence N ctx w) \<noteq> Panic"
  by (auto simp: next_sequence_def Let_def split: prod.split option.split)

lemma make_invocation_returns [simp]: "make_invocation ctx f args \<noteq> Panic"
  by (auto simp: make_invocation_def)

lemma prepare_returns [simp]: "fst (prepare_invocation lb N ctx f args w) \<noteq> Panic"
  unfolding prepare_invocation_def Let_def by (auto simp: and_run_Panic simp del: and_run_Ok)

lemma send_returns [simp]: "fst (send_transaction N x h w) \<noteq> Panic"
  unfolding send_transaction_def by (auto simp: and_run_Panic)

lemma read_meta_returns [simp]: "read_meta lb m \<noteq> Panic"
  by (auto simp: read_meta_def split: option.split)

context running_clock
begin

lemma poll_step:
  assumes "\<And>v. net_now N w \<le> net_now N v \<Longrightarrow> deadline \<le> net_now N v \<or>
    fst (poll_transaction n lb N interval deadline h (net_sleep N interval v)) \<noteq> Panic"
  shows "fst (poll_transaction (Suc n) lb N interval deadline h w) \<noteq> Panic"
proof -
  obtain r v where r: "net_get N h w = (r, v)" by (cases "net_get N h w")
  from assms [OF polls [OF r]] show ?thesis
    by (auto simp: r rpc_def and_run_Panic)
qed

lemma poll_ends:
  assumes "deadline < net_now N w + n * interval"
  shows "fst (poll_transaction (Suc n) lb N interval deadline h w) \<noteq> Panic"
  using assms
proof (induction n arbitrary: w)
  case 0
  then show ?case by (intro poll_step) simp
next
  case (Suc n)
  have "fst (poll_transaction (Suc n) lb N interval deadline h (net_sleep N interval v)) \<noteq> Panic"
    if "net_now N w \<le> net_now N v" for v
    using Suc.prems sleeps [of v interval] that by (intro Suc.IH) simp
  then show ?case by (intro poll_step) blast
qed

lemma invocation_returns:
  assumes "\<And>ctx. sl_soroban cl = Some ctx \<Longrightarrow>
    sb_poll_timeout (cx_config ctx) < n * sb_poll_interval (cx_config ctx)"
  shows "fst (invoke_contract (Suc n) lb N cl f args w) \<noteq> Panic"
  unfolding invoke_contract_def client_soroban_def
proof (rule and_run_returns)
  fix ctx v assume "(ok_or (sl_soroban cl) NotConfigured, w) = (Ok ctx, v)"
  then have "sb_poll_timeout (cx_config ctx) < n * sb_poll_interval (cx_config ctx)"
    by (intro assms) simp
  then have "fst (await_transaction (Suc n) lb N ctx h u) \<noteq> Panic" for h u
    unfolding await_transaction_def by (intro poll_ends) simp
  then have "fst (send_and_await (Suc n) lb N ctx tx u) \<noteq> Panic" for tx u
    unfolding send_and_await_def by (auto simp: and_run_Panic)
  then show "fst (and_run (prepare_invocation lb N ctx f args v) (\<lambda>(invoc, seqn, valid_until, sim) w.
      and_run (build_transaction ctx seqn valid_until (saturating_add_i64 BASE_FEE_STROOPS (sm_min_resource_fee sim))
        invoc (sm_auth sim) (Some (sm_transaction_data sim)), w) (\<lambda>assembled w.
      send_and_await (Suc n) lb N ctx assembled w))) \<noteq> Panic"
    by (auto simp: and_run_Panic)
qed simp

end

text \<open>The configuration read from the environment polls at a positive interval.\<close>

lemma configured_interval: "soroban_config_from_env env = Some c \<Longrightarrow> 50 \<le> sb_poll_interval c \<and> 1000 \<le> sb_poll_timeout c"
  by (auto simp: soroban_config_from_env_def bind_eq_Some_conv)

end
