(* ===== verification/Service_Db.thy ===== *)
theory Service_Db
  imports Soroban_Client Complex_Main
begin

text \<open>
  The database of the backend: the tables of \<open>backend/migrations\<close> with their constraints, as the rows the
  code reads and writes, and how a statement and a transaction run. Every statement may fail; the list
  \<open>sv_faults\<close> says which of the next ones do. Amounts are \<open>NUMERIC(78, 0)\<close>, accrued yield is
  \<open>NUMERIC(78, 4)\<close>; a value written is rounded half away from zero. Times are in seconds.
\<close>

section \<open>Rows\<close>

datatype trigger_reason =
    NoOnchainPlanId
  | InvalidOnchainPlanId int
  | ClientFailed submit_error
  | ContractNotConfigured
  | NoTriggerEvent string
  | WrongPlanTriggered string nat
  | EventWithoutPlanId string
  | NoAttempt

record plan_row =
  pr_id :: nat
  pr_owner_address :: string
  pr_token_address :: string
  pr_amount :: int
  pr_grace_period :: int
  pr_grace_period_seconds :: int
  pr_earn_yield :: bool
  pr_last_ping :: int
  pr_is_active :: bool
  pr_status :: string
  pr_yield_rate_bps :: int
  pr_accrued_yield :: rat
  pr_created_at :: int
  pr_onchain_plan_id :: "int option"
  pr_trigger_tx_hash :: "string option"
  pr_trigger_attempts :: int
  pr_trigger_started_at :: "int option"
  pr_last_trigger_error :: "trigger_reason option"

text \<open>The generated column.\<close>

definition pr_inactivity_deadline_at :: "plan_row \<Rightarrow> int" where
  "pr_inactivity_deadline_at p = pr_last_ping p + pr_grace_period_seconds p"

record beneficiary_row =
  bn_id :: nat
  bn_plan_id :: nat
  bn_wallet_address :: string
  bn_allocation_bps :: int
  bn_fiat_anchor_info :: string
  bn_fiat_daily_limit :: int

record payout_row =
  po_id :: nat
  po_plan_id :: nat
  po_beneficiary_address :: string
  po_amount :: int
  po_payout_type :: string
  po_status :: string
  po_created_at :: int

record ping_log_row =
  pg_plan_id :: nat
  pg_pinged_at :: int
  pg_accrued_yield_snapshot :: rat

record lifecycle_row =
  lc_freeze_status :: string
  lc_recall_progress :: int
  lc_settlement_status :: string
  lc_outstanding_loaned :: int
  lc_last_tx_hash :: "string option"
  lc_updated_at :: int

record kyc_record_row =
  kr_full_name :: string
  kr_date_of_birth :: string
  kr_street_address :: string
  kr_city :: string
  kr_country :: string
  kr_postal_code :: string
  kr_document_id :: "string option"
  kr_created_at :: int

record endpoint_row =
  ep_id :: nat
  ep_url :: string
  ep_secret :: string
  ep_is_active :: bool

text \<open>The payload of an event is the data it is made of.\<close>

datatype event_payload =
    PlanEvent nat string "int option" "string option"
  | TriggerFailedEvent nat string "int option" nat trigger_reason
  | LoanEvent nat string "int option" string "string option" "nat option"
  | PayoutEvent nat string rat nat
  | PlanCreatedEvent nat

record dispatch_row =
  dp_id :: nat
  dp_endpoint_id :: nat
  dp_event_type :: string
  dp_payload :: event_payload
  dp_attempts :: int
  dp_max_attempts :: int
  dp_status :: string
  dp_last_error :: "string option"
  dp_next_attempt_at :: "int option"
  dp_created_at :: int

record service_db =
  db_plans :: "plan_row list"
  db_beneficiaries :: "beneficiary_row list"
  db_payouts :: "payout_row list"
  db_ping_logs :: "ping_log_row list"
  db_fiat_usage :: "nat \<times> int \<Rightarrow> int option"
  db_lifecycle :: "nat \<Rightarrow> lifecycle_row option"
  db_users :: "string \<Rightarrow> string option"
  db_kyc_records :: "string \<Rightarrow> kyc_record_row option"
  db_kyc_logs :: "(string \<times> string option \<times> string \<times> string \<times> bool) list"
  db_endpoints :: "endpoint_row list"
  db_dispatches :: "dispatch_row list"
  db_next_id :: nat

definition db_empty :: service_db where
  "db_empty = \<lparr>db_plans = [], db_beneficiaries = [], db_payouts = [], db_ping_logs = [], db_fiat_usage = \<lambda>_. None,
     db_lifecycle = \<lambda>_. None, db_users = \<lambda>_. None, db_kyc_records = \<lambda>_. None, db_kyc_logs = [],
     db_endpoints = [], db_dispatches = [], db_next_id = 0\<rparr>"

section \<open>Numbers\<close>

definition round_half_away :: "rat \<Rightarrow> int" where
  "round_half_away r = (if 0 \<le> r then \<lfloor>r + 1 / 2\<rfloor> else - \<lfloor>- r + 1 / 2\<rfloor>)"

definition numeric4 :: "rat \<Rightarrow> rat" where
  "numeric4 r = of_int (round_half_away (r * 10000)) / 10000"

text \<open>Timestamps of the database reach from the year 4713 BC to 294276 AD.\<close>

definition MIN_TIMESTAMP :: int where "MIN_TIMESTAMP = - 210866803200"
definition MAX_TIMESTAMP :: int where "MAX_TIMESTAMP = 9224318015999"

section \<open>Constraints\<close>

definition plan_row_ok :: "plan_row \<Rightarrow> bool" where
  "plan_row_ok p \<longleftrightarrow> 0 \<le> pr_amount p \<and> pr_amount p < 10 ^ 78 \<and> 0 \<le> pr_grace_period_seconds p \<and>
     0 \<le> pr_yield_rate_bps p \<and> pr_yield_rate_bps p \<le> 10000 \<and>
     (case pr_onchain_plan_id p of None \<Rightarrow> True | Some n \<Rightarrow> 0 \<le> n) \<and>
     - (2 ^ 31) \<le> pr_trigger_attempts p \<and> pr_trigger_attempts p < 2 ^ 31 \<and>
     MIN_TIMESTAMP \<le> pr_inactivity_deadline_at p \<and> pr_inactivity_deadline_at p \<le> MAX_TIMESTAMP"

text \<open>The primary key, and one plan of the database per plan of the contract.\<close>

definition onchain_ids :: "plan_row list \<Rightarrow> int list" where
  "onchain_ids ps = concat (map (\<lambda>p. case pr_onchain_plan_id p of None \<Rightarrow> [] | Some n \<Rightarrow> [n]) ps)"

definition plans_table_ok :: "plan_row list \<Rightarrow> bool" where
  "plans_table_ok ps \<longleftrightarrow> list_all plan_row_ok ps \<and> distinct (map pr_id ps) \<and> distinct (onchain_ids ps)"

definition beneficiaries_of :: "nat \<Rightarrow> service_db \<Rightarrow> beneficiary_row list" where
  "beneficiaries_of i db = filter (\<lambda>b. bn_plan_id b = i) (db_beneficiaries db)"

definition allocation_total :: "beneficiary_row list \<Rightarrow> int" where
  "allocation_total bs = (\<Sum>b\<leftarrow>bs. bn_allocation_bps b)"

definition lifecycle_row_ok :: "lifecycle_row \<Rightarrow> bool" where
  "lifecycle_row_ok r \<longleftrightarrow> lc_freeze_status r \<in> {''PENDING'', ''PROCESSING'', ''FROZEN''} \<and>
     0 \<le> lc_recall_progress r \<and> lc_recall_progress r \<le> 100 \<and>
     lc_settlement_status r \<in> {''PENDING'', ''PROCESSING'', ''LIQUIDATED'', ''SETTLED''} \<and>
     0 \<le> lc_outstanding_loaned r"

section \<open>Statements\<close>

text \<open>A statement gives its rows and the new tables, or nothing where a constraint stops it.\<close>

definition plan_by_id :: "nat \<Rightarrow> service_db \<Rightarrow> plan_row option" where
  "plan_by_id i db = find (\<lambda>p. pr_id p = i) (db_plans db)"

definition active_plan_of :: "string \<Rightarrow> service_db \<Rightarrow> plan_row option" where
  "active_plan_of owner db = find (\<lambda>p. pr_owner_address p = owner \<and> pr_is_active p) (db_plans db)"

definition read_rows :: "(service_db \<Rightarrow> 'a) \<Rightarrow> service_db \<Rightarrow> ('a \<times> service_db) option" where
  "read_rows f db = Some (f db, db)"

definition update_plans :: "(plan_row \<Rightarrow> bool) \<Rightarrow> (plan_row \<Rightarrow> plan_row) \<Rightarrow> service_db \<Rightarrow> (plan_row list \<times> service_db) option" where
  "update_plans P f db =
     (let ps = map (\<lambda>p. if P p then f p else p) (db_plans db) in
      if plans_table_ok ps
      then Some (map f (filter P (db_plans db)), db\<lparr>db_plans := ps\<rparr>) else None)"

definition insert_plan :: "plan_row \<Rightarrow> service_db \<Rightarrow> (plan_row \<times> service_db) option" where
  "insert_plan p db =
     (let p = p\<lparr>pr_id := db_next_id db\<rparr>; ps = db_plans db @ [p] in
      if plans_table_ok ps then Some (p, db\<lparr>db_plans := ps, db_next_id := db_next_id db + 1\<rparr>) else None)"

definition insert_beneficiary :: "beneficiary_row \<Rightarrow> service_db \<Rightarrow> (beneficiary_row \<times> service_db) option" where
  "insert_beneficiary b db =
     (let b = b\<lparr>bn_id := db_next_id db\<rparr>; others = beneficiaries_of (bn_plan_id b) db in
      if 0 \<le> bn_allocation_bps b \<and> bn_allocation_bps b \<le> 10000 \<and> plan_by_id (bn_plan_id b) db \<noteq> None \<and>
         bn_wallet_address b \<notin> bn_wallet_address ` set others \<and> allocation_total (others @ [b]) \<le> 10000
      then Some (b, db\<lparr>db_beneficiaries := db_beneficiaries db @ [b], db_next_id := db_next_id db + 1\<rparr>) else None)"

definition delete_beneficiaries :: "nat \<Rightarrow> service_db \<Rightarrow> (unit \<times> service_db) option" where
  "delete_beneficiaries i db =
     Some ((), db\<lparr>db_beneficiaries := filter (\<lambda>b. bn_plan_id b \<noteq> i) (db_beneficiaries db),
       db_fiat_usage := (\<lambda>k. if fst k \<in> bn_id ` set (beneficiaries_of i db) then None else db_fiat_usage db k)\<rparr>)"

definition insert_payout ::
  "nat \<Rightarrow> string \<Rightarrow> rat \<Rightarrow> string \<Rightarrow> string \<Rightarrow> int \<Rightarrow> service_db \<Rightarrow> (payout_row \<times> service_db) option" where
  "insert_payout plan_id wallet amount payout_type status now db =
     (let r = \<lparr>po_id = db_next_id db, po_plan_id = plan_id, po_beneficiary_address = wallet,
            po_amount = round_half_away amount, po_payout_type = payout_type, po_status = status,
            po_created_at = now\<rparr> in
      if 0 < po_amount r \<and> po_amount r < 10 ^ 78 \<and> plan_by_id plan_id db \<noteq> None
      then Some (r, db\<lparr>db_payouts := db_payouts db @ [r], db_next_id := db_next_id db + 1\<rparr>) else None)"

definition insert_ping_log :: "nat \<Rightarrow> int \<Rightarrow> rat \<Rightarrow> service_db \<Rightarrow> (unit \<times> service_db) option" where
  "insert_ping_log i now r db =
     Some ((), db\<lparr>db_ping_logs := db_ping_logs db @
       [\<lparr>pg_plan_id = i, pg_pinged_at = now, pg_accrued_yield_snapshot = numeric4 r\<rparr>]\<rparr>)"

definition add_fiat_usage :: "nat \<Rightarrow> int \<Rightarrow> rat \<Rightarrow> service_db \<Rightarrow> (unit \<times> service_db) option" where
  "add_fiat_usage b day share db =
     (let old = unwrap_or 0 (db_fiat_usage db (b, day))
      in Some ((), db\<lparr>db_fiat_usage := (db_fiat_usage db)((b, day) \<mapsto> round_half_away (of_int old + share))\<rparr>))"

definition upsert_lifecycle_row ::
  "nat \<Rightarrow> string option \<Rightarrow> int option \<Rightarrow> string option \<Rightarrow> int \<Rightarrow> string option \<Rightarrow> int \<Rightarrow>
   service_db \<Rightarrow> (unit \<times> service_db) option" where
  "upsert_lifecycle_row i freeze progress settlement outstanding tx_hash now db =
     (let r = (case db_lifecycle db i of
          None \<Rightarrow> \<lparr>lc_freeze_status = unwrap_or ''PENDING'' freeze, lc_recall_progress = unwrap_or 0 progress,
            lc_settlement_status = unwrap_or ''PENDING'' settlement, lc_outstanding_loaned = outstanding,
            lc_last_tx_hash = tx_hash, lc_updated_at = now\<rparr>
        | Some r \<Rightarrow> r\<lparr>lc_freeze_status := unwrap_or (lc_freeze_status r) freeze,
            lc_recall_progress := unwrap_or (lc_recall_progress r) progress,
            lc_settlement_status := unwrap_or (lc_settlement_status r) settlement,
            lc_outstanding_loaned := outstanding,
            lc_last_tx_hash := (case tx_hash of None \<Rightarrow> lc_last_tx_hash r | Some h \<Rightarrow> Some h),
            lc_updated_at := now\<rparr>)
      in if lifecycle_row_ok r \<and> plan_by_id i db \<noteq> None
         then Some ((), db\<lparr>db_lifecycle := (db_lifecycle db)(i \<mapsto> r)\<rparr>) else None)"

definition upsert_user :: "string \<Rightarrow> string \<Rightarrow> service_db \<Rightarrow> (unit \<times> service_db) option" where
  "upsert_user wallet status db = Some ((), db\<lparr>db_users := (db_users db)(wallet \<mapsto> status)\<rparr>)"

definition insert_dispatch :: "nat \<Rightarrow> string \<Rightarrow> event_payload \<Rightarrow> int \<Rightarrow> service_db \<Rightarrow> (unit \<times> service_db) option" where
  "insert_dispatch endpoint event_type payload now db =
     Some ((), db\<lparr>db_dispatches := db_dispatches db @ [\<lparr>dp_id = db_next_id db, dp_endpoint_id = endpoint,
       dp_event_type = event_type, dp_payload = payload, dp_attempts = 0, dp_max_attempts = 5,
       dp_status = ''pending'', dp_last_error = None, dp_next_attempt_at = None, dp_created_at = now\<rparr>],
       db_next_id := db_next_id db + 1\<rparr>)"

end
