(* ===== verification/Plan_Cache.thy ===== *)
theory Plan_Cache
  imports Service_Db
begin

text \<open>
  \<open>backend/src/cache.rs\<close>: the cache of answers to plan queries, in its in-memory form. The Redis form
  makes the same reads and writes against a server, with an expiry; it is not modelled. A cached value
  is the response itself instead of its JSON text. Times of a statistics query are their RFC 3339 text.
\<close>

section \<open>Responses and queries\<close>

record beneficiary_response =
  br_id :: nat
  br_plan_id :: nat
  br_wallet_address :: string
  br_allocation_bps :: int
  br_fiat_anchor_info :: string
  br_fiat_daily_limit :: int

text \<open>A floating-point number is the rational number it stands for.\<close>

record plan_response =
  ps_id :: nat
  ps_owner_address :: string
  ps_token_address :: string
  ps_amount :: int
  ps_grace_period :: int
  ps_grace_period_seconds :: int
  ps_earn_yield :: bool
  ps_last_ping :: int
  ps_is_active :: bool
  ps_status :: string
  ps_yield_rate_bps :: int
  ps_accrued_yield :: rat
  ps_created_at :: int
  ps_onchain_plan_id :: "int option"
  ps_beneficiaries :: "beneficiary_response list"

record statistics_response =
  st_total_plans :: nat
  st_active_plans :: nat
  st_expired_plans :: nat
  st_triggered_plans :: nat
  st_claimed_plans :: nat
  st_by_status :: "(string \<times> nat) list"
  st_locked_value_by_asset :: "(string \<times> int \<times> nat) list"

datatype cached_value = CachedPlans "plan_response list" | CachedStatistics statistics_response

record plan_query =
  pq_owner :: "string option"
  pq_beneficiary :: "string option"

record statistics_query =
  sq_start_date :: "(int \<times> string) option"
  sq_end_date :: "(int \<times> string) option"
  sq_asset_type :: "string option"

section \<open>Keys\<close>

definition CACHE_NAMESPACE :: string where "CACHE_NAMESPACE = ''plans:v1''"
definition STATS_CACHE_NAMESPACE :: string where "STATS_CACHE_NAMESPACE = ''plan-statistics:v1''"

definition normalize_filter_value :: "string \<Rightarrow> string" where
  "normalize_filter_value v = to_ascii_lowercase (trim v)"

definition normalize_optional_filter :: "string option \<Rightarrow> string" where
  "normalize_optional_filter v = (case v of None \<Rightarrow> ''all'' | Some x \<Rightarrow> normalize_filter_value x)"

definition all_queries_index_key :: string where
  "all_queries_index_key = CACHE_NAMESPACE @ '':index:all''"

definition owner_index_key :: "string \<Rightarrow> string" where
  "owner_index_key owner = CACHE_NAMESPACE @ '':index:owner:'' @ owner"

definition beneficiary_index_key :: "string \<Rightarrow> string" where
  "beneficiary_index_key beneficiary = CACHE_NAMESPACE @ '':index:beneficiary:'' @ beneficiary"

definition owner_beneficiary_index_key :: "string \<Rightarrow> string \<Rightarrow> string" where
  "owner_beneficiary_index_key owner beneficiary =
     CACHE_NAMESPACE @ '':index:pair:'' @ owner @ '':'' @ beneficiary"

definition cache_key :: "plan_query \<Rightarrow> string" where
  "cache_key q = CACHE_NAMESPACE @ '':query:owner='' @ normalize_optional_filter (pq_owner q) @
     '':beneficiary='' @ normalize_optional_filter (pq_beneficiary q)"

definition plan_statistics_cache_key :: "statistics_query \<Rightarrow> string" where
  "plan_statistics_cache_key q = STATS_CACHE_NAMESPACE @ '':query:start='' @
     (case sq_start_date q of None \<Rightarrow> ''all'' | Some d \<Rightarrow> snd d) @ '':end='' @
     (case sq_end_date q of None \<Rightarrow> ''all'' | Some d \<Rightarrow> snd d) @ '':asset='' @
     normalize_optional_filter (sq_asset_type q)"

definition query_index_keys :: "plan_query \<Rightarrow> string set" where
  "query_index_keys q =
     (let owner = map_option normalize_filter_value (pq_owner q);
          beneficiary = map_option normalize_filter_value (pq_beneficiary q)
      in {all_queries_index_key} \<union>
         (case owner of None \<Rightarrow> {} | Some a \<Rightarrow> {owner_index_key a}) \<union>
         (case beneficiary of None \<Rightarrow> {} | Some b \<Rightarrow> {beneficiary_index_key b}) \<union>
         (case (owner, beneficiary) of (Some a, Some b) \<Rightarrow> {owner_beneficiary_index_key a b} | _ \<Rightarrow> {}))"

section \<open>The store\<close>

record memory_cache =
  mc_values :: "string \<Rightarrow> cached_value option"
  mc_sets :: "string \<Rightarrow> string set option"

datatype plan_cache = CacheDisabled | CacheMemory memory_cache

definition cache_memory :: plan_cache where
  "cache_memory = CacheMemory \<lparr>mc_values = \<lambda>_. None, mc_sets = \<lambda>_. None\<rparr>"

fun cache_is_enabled :: "plan_cache \<Rightarrow> bool" where
  "cache_is_enabled CacheDisabled \<longleftrightarrow> False"
| "cache_is_enabled (CacheMemory m) \<longleftrightarrow> True"

text \<open>A value of another type does not parse; that is an error of the lookup.\<close>

datatype 'a lookup = Found 'a | Missing | LookupFailed

fun cache_get_plans :: "plan_query \<Rightarrow> plan_cache \<Rightarrow> plan_response list lookup" where
  "cache_get_plans q CacheDisabled = Missing"
| "cache_get_plans q (CacheMemory m) =
     (case mc_values m (cache_key q) of
        Some (CachedPlans plans) \<Rightarrow> Found plans | Some (CachedStatistics x) \<Rightarrow> LookupFailed | None \<Rightarrow> Missing)"

definition add_to_index :: "string \<Rightarrow> string set \<Rightarrow> (string \<Rightarrow> string set option) \<Rightarrow> string \<Rightarrow> string set option" where
  "add_to_index key index_keys sets =
     (\<lambda>k. if k \<in> index_keys then Some (insert key (unwrap_or {} (sets k))) else sets k)"

fun cache_set_plans :: "plan_query \<Rightarrow> plan_response list \<Rightarrow> plan_cache \<Rightarrow> plan_cache" where
  "cache_set_plans q plans CacheDisabled = CacheDisabled"
| "cache_set_plans q plans (CacheMemory m) =
     CacheMemory \<lparr>mc_values = (mc_values m)(cache_key q \<mapsto> CachedPlans plans),
       mc_sets = add_to_index (cache_key q) (query_index_keys q) (mc_sets m)\<rparr>"

definition invalidated_index_keys :: "string \<Rightarrow> string list \<Rightarrow> string set" where
  "invalidated_index_keys owner_address beneficiary_addresses =
     (let owner = normalize_filter_value owner_address;
          beneficiaries = map normalize_filter_value beneficiary_addresses
      in {all_queries_index_key, owner_index_key owner} \<union>
         set (map beneficiary_index_key beneficiaries) \<union> set (map (owner_beneficiary_index_key owner) beneficiaries))"

fun cache_invalidate_queries :: "string \<Rightarrow> string list \<Rightarrow> plan_cache \<Rightarrow> plan_cache" where
  "cache_invalidate_queries owner beneficiaries CacheDisabled = CacheDisabled"
| "cache_invalidate_queries owner beneficiaries (CacheMemory m) =
     (let index_keys = invalidated_index_keys owner beneficiaries;
          keys_to_delete = (\<Union>k \<in> index_keys. unwrap_or {} (mc_sets m k))
      in CacheMemory \<lparr>mc_values = (\<lambda>k. if k \<in> keys_to_delete then None else mc_values m k),
           mc_sets = (\<lambda>k. if k \<in> index_keys then None else mc_sets m k)\<rparr>)"

fun cache_get_stats :: "string \<Rightarrow> plan_cache \<Rightarrow> statistics_response lookup" where
  "cache_get_stats key CacheDisabled = Missing"
| "cache_get_stats key (CacheMemory m) =
     (case mc_values m key of
        Some (CachedStatistics x) \<Rightarrow> Found x | Some (CachedPlans plans) \<Rightarrow> LookupFailed | None \<Rightarrow> Missing)"

fun cache_set_stats :: "string \<Rightarrow> statistics_response \<Rightarrow> plan_cache \<Rightarrow> plan_cache" where
  "cache_set_stats key x CacheDisabled = CacheDisabled"
| "cache_set_stats key x (CacheMemory m) = CacheMemory (m\<lparr>mc_values := (mc_values m)(key \<mapsto> CachedStatistics x)\<rparr>)"

section \<open>Nothing stale survives an invalidation\<close>

text \<open>Every cached answer to a plan query is in the index of all queries.\<close>

definition cache_indexed :: "plan_cache \<Rightarrow> bool" where
  "cache_indexed c \<longleftrightarrow>
     (case c of CacheDisabled \<Rightarrow> True
      | CacheMemory m \<Rightarrow> \<forall>k plans. mc_values m k = Some (CachedPlans plans) \<longrightarrow>
          k \<in> unwrap_or {} (mc_sets m all_queries_index_key))"

lemma indexed_memory [simp]: "cache_indexed cache_memory"
  by (simp add: cache_indexed_def cache_memory_def)

lemma all_queries_indexed [simp]: "all_queries_index_key \<in> query_index_keys q"
  by (simp add: query_index_keys_def Let_def)

lemma indexed_set_plans: "cache_indexed c \<Longrightarrow> cache_indexed (cache_set_plans q plans c)"
  by (cases c) (auto simp: cache_indexed_def add_to_index_def unwrap_or_def)

lemma indexed_set_stats: "cache_indexed c \<Longrightarrow> cache_indexed (cache_set_stats k x c)"
  by (cases c) (auto simp: cache_indexed_def)

lemma indexed_invalidate: "cache_indexed c \<Longrightarrow> cache_indexed (cache_invalidate_queries owner bs c)"
  by (cases c) (auto simp: cache_indexed_def invalidated_index_keys_def Let_def)

text \<open>The keys of the two kinds of answers are different.\<close>

lemma keys_differ: "cache_key q \<noteq> plan_statistics_cache_key sq"
  by (simp add: cache_key_def plan_statistics_cache_key_def CACHE_NAMESPACE_def STATS_CACHE_NAMESPACE_def)

lemma get_after_set: "cache_is_enabled c \<Longrightarrow> cache_get_plans q (cache_set_plans q plans c) = Found plans"
  by (cases c) simp_all

lemma invalidated_is_missing:
  assumes "cache_indexed c" and "cache_get_plans q (cache_invalidate_queries owner bs c) = Found plans"
  shows False
proof (cases c)
  case (CacheMemory m)
  have "all_queries_index_key \<in> invalidated_index_keys owner bs" by (simp add: invalidated_index_keys_def Let_def)
  with assms CacheMemory show False
    by (auto simp: cache_indexed_def Let_def split: option.splits cached_value.splits if_splits)
qed (use assms in simp)

section \<open>Histories of the cache\<close>

datatype cache_op =
    StorePlans plan_query "plan_response list"
  | StoreStatistics statistics_query statistics_response
  | Invalidate string "string list"

fun cache_step :: "plan_cache \<Rightarrow> cache_op \<Rightarrow> plan_cache" where
  "cache_step c (StorePlans q plans) = cache_set_plans q plans c"
| "cache_step c (StoreStatistics q x) = cache_set_stats (plan_statistics_cache_key q) x c"
| "cache_step c (Invalidate owner bs) = cache_invalidate_queries owner bs c"

definition cache_after :: "cache_op list \<Rightarrow> plan_cache" where
  "cache_after ops = foldl cache_step cache_memory ops"

text \<open>
  The answer to a query after a history, the latest operation first: what was stored last under its key,
  unless all answers were thrown away since.
\<close>

fun latest_answer :: "plan_query \<Rightarrow> cache_op list \<Rightarrow> plan_response list lookup" where
  "latest_answer q [] = Missing"
| "latest_answer q (StorePlans q' plans # earlier) =
     (if cache_key q' = cache_key q then Found plans else latest_answer q earlier)"
| "latest_answer q (StoreStatistics q' x # earlier) = latest_answer q earlier"
| "latest_answer q (Invalidate owner bs # earlier) = Missing"

lemma get_after_store:
  "cache_is_enabled c \<Longrightarrow> cache_get_plans q (cache_set_plans q' plans c) =
     (if cache_key q' = cache_key q then Found plans else cache_get_plans q c)"
  by (cases c) auto

lemma get_after_statistics:
  "cache_get_plans q (cache_set_stats (plan_statistics_cache_key sq) x c) = cache_get_plans q c"
  using keys_differ [of q sq] by (cases c) simp_all

lemma get_after_invalidation:
  assumes "cache_indexed c" and "cache_get_plans q c \<noteq> LookupFailed"
  shows "cache_get_plans q (cache_invalidate_queries owner bs c) = Missing"
proof (cases "cache_get_plans q (cache_invalidate_queries owner bs c)")
  case LookupFailed
  then show ?thesis using assms(2) by (cases c) (auto simp: Let_def split: option.splits cached_value.splits if_splits)
qed (use invalidated_is_missing [OF assms(1)] in auto)

lemma enabled_after [simp]:
  "cache_is_enabled (cache_set_plans q plans c) = cache_is_enabled c"
  "cache_is_enabled (cache_set_stats k x c) = cache_is_enabled c"
  "cache_is_enabled (cache_invalidate_queries owner bs c) = cache_is_enabled c" "cache_is_enabled cache_memory"
  by (cases c; simp add: cache_memory_def Let_def)+

lemma after_step: "cache_after (ops @ [x]) = cache_step (cache_after ops) x"
  by (simp add: cache_after_def)

lemma indexed_after: "cache_indexed (cache_after ops) \<and> cache_is_enabled (cache_after ops)"
proof (induction ops rule: rev_induct)
  case (snoc x xs)
  then show ?case by (cases x) (simp_all add: after_step indexed_set_plans indexed_set_stats indexed_invalidate)
qed (simp add: cache_after_def)

lemma latest_not_failed: "latest_answer q ops \<noteq> LookupFailed"
  by (induction q ops rule: latest_answer.induct) auto

lemma get_after_history: "cache_get_plans q (cache_after ops) = latest_answer q (rev ops)"
proof (induction ops rule: rev_induct)
  case (snoc x xs)
  then show ?case
    using indexed_after [of xs] latest_not_failed [of q "rev xs"]
    by (cases x) (simp_all add: after_step get_after_store get_after_statistics get_after_invalidation)
qed (simp add: cache_after_def cache_memory_def)

section \<open>Answers by filters\<close>

text \<open>
  The same, by the filters of the queries instead of their keys. Two queries ask for the same when their filters
  agree up to blanks around them and the case of letters, which is how the keys are made. A filter is plain when it
  is neither the text \<open>all\<close>, the key's word for a missing filter, nor contains a colon, the key's separator; an
  address of an account or a contract is plain.
\<close>

definition plain_filter :: "string option \<Rightarrow> bool" where
  "plain_filter v \<longleftrightarrow>
     (case v of None \<Rightarrow> True
      | Some x \<Rightarrow> normalize_filter_value x \<noteq> ''all'' \<and> CHR '':'' \<notin> set (normalize_filter_value x))"

definition plain_query :: "plan_query \<Rightarrow> bool" where
  "plain_query q \<longleftrightarrow> plain_filter (pq_owner q) \<and> plain_filter (pq_beneficiary q)"

definition same_filters :: "plan_query \<Rightarrow> plan_query \<Rightarrow> bool" where
  "same_filters q q' \<longleftrightarrow>
     map_option normalize_filter_value (pq_owner q) = map_option normalize_filter_value (pq_owner q') \<and>
     map_option normalize_filter_value (pq_beneficiary q) = map_option normalize_filter_value (pq_beneficiary q')"

fun fresh_answer :: "plan_query \<Rightarrow> cache_op list \<Rightarrow> plan_response list lookup" where
  "fresh_answer q [] = Missing"
| "fresh_answer q (StorePlans q' plans # earlier) =
     (if same_filters q' q then Found plans else fresh_answer q earlier)"
| "fresh_answer q (StoreStatistics q' x # earlier) = fresh_answer q earlier"
| "fresh_answer q (Invalidate owner bs # earlier) = Missing"

lemma split_at_colon:
  assumes "CHR '':'' \<notin> set a" and "CHR '':'' \<notin> set b"
  shows "a @ CHR '':'' # u = b @ CHR '':'' # v \<longleftrightarrow> a = b \<and> u = v"
  using assms
proof (induction a arbitrary: b)
  case Nil
  then show ?case by (cases b) auto
next
  case (Cons x a)
  then show ?case by (cases b) auto
qed

lemma plain_normalized: "plain_filter v \<Longrightarrow> CHR '':'' \<notin> set (normalize_optional_filter v)"
  by (auto simp: plain_filter_def normalize_optional_filter_def split: option.splits)

lemma normalized_same:
  assumes "plain_filter v" and "plain_filter w"
  shows "normalize_optional_filter v = normalize_optional_filter w \<longleftrightarrow>
    map_option normalize_filter_value v = map_option normalize_filter_value w"
  using assms by (auto simp: plain_filter_def normalize_optional_filter_def split: option.splits)

lemma key_eq_iff:
  assumes "plain_query q" and "plain_query q'"
  shows "cache_key q = cache_key q' \<longleftrightarrow> same_filters q q'"
proof -
  let ?a = "normalize_optional_filter (pq_owner q)" and ?b = "normalize_optional_filter (pq_owner q')"
  have plain: "CHR '':'' \<notin> set ?a" "CHR '':'' \<notin> set ?b" using assms plain_normalized by (simp_all add: plain_query_def)
  have key: "cache_key k = (CACHE_NAMESPACE @ '':query:owner='') @ normalize_optional_filter (pq_owner k) @
      CHR '':'' # ''beneficiary='' @ normalize_optional_filter (pq_beneficiary k)" for k
    by (simp add: cache_key_def)
  have "cache_key q = cache_key q' \<longleftrightarrow> ?a = ?b \<and>
      normalize_optional_filter (pq_beneficiary q) = normalize_optional_filter (pq_beneficiary q')"
    by (simp only: key same_append_eq split_at_colon [OF plain])
  then show ?thesis using assms normalized_same by (simp add: plain_query_def same_filters_def)
qed

lemma latest_is_fresh:
  assumes "plain_query q" and "\<And>q' plans. StorePlans q' plans \<in> set ops \<Longrightarrow> plain_query q'"
  shows "latest_answer q ops = fresh_answer q ops"
  using assms(2)
proof (induction ops)
  case (Cons x ops)
  have IH: "latest_answer q ops = fresh_answer q ops" by (rule Cons.IH) (use Cons.prems in auto)
  show ?case
  proof (cases x)
    case (StorePlans q' plans)
    then have "plain_query q'" using Cons.prems by auto
    then show ?thesis using IH StorePlans key_eq_iff [OF _ assms(1)] by simp
  qed (simp_all add: IH)
qed simp

end
