(* ===== verification/Service.thy ===== *)
theory Service
  imports Plan_Cache
begin

text \<open>
  The state of the running backend: database, cache, the messages sent to WebSocket subscribers, the
  clock, and the world of the remote servers; how statements, transactions and network calls run on it.
  The database's \<open>NOW()\<close> and the clock of the service are one clock that stands still during a request.
  Of other workers a request sees whether they hold the advisory lock, and the plans they have locked.
\<close>

record status_event =
  se_event_type :: string
  se_plan_id :: nat
  se_status :: string
  se_tx_hash :: "string option"
  se_freeze_status :: "string option"
  se_recall_progress :: "int option"
  se_settlement_status :: "string option"
  se_remaining_loaned :: "nat option"

record kyc_update_event =
  ku_wallet_address :: string
  ku_kyc_status :: string
  ku_event_type :: string

record 'w service =
  sv_db :: service_db
  sv_faults :: "bool list"
  sv_lock_held :: bool
  sv_locked_rows :: "nat set"
  sv_now :: int
  sv_cache :: plan_cache
  sv_status_events :: "status_event list"
  sv_kyc_events :: "kyc_update_event list"
  sv_net :: 'w

datatype sql_error = ConnectionFailed | ConstraintViolated

text \<open>An error response: its status and its message, with the data the text is made of.\<close>

datatype message = Text string | TextWith string string | ChainText string submit_error

type_synonym http_error = "nat \<times> message"
type_synonym ('a, 'e, 'w) request = "('a, 'e, 'w service) step"

section \<open>Statements and transactions\<close>

definition next_fault :: "'w service \<Rightarrow> bool \<times> 'w service" where
  "next_fault s = (case sv_faults s of [] \<Rightarrow> (False, s) | f # fs \<Rightarrow> (f, s\<lparr>sv_faults := fs\<rparr>))"

definition sql :: "(service_db \<Rightarrow> ('a \<times> service_db) option) \<Rightarrow> ('a, sql_error, 'w) request" where
  "sql stmt s =
     (case next_fault s of
        (True, s) \<Rightarrow> (Err ConnectionFailed, s)
      | (False, s) \<Rightarrow>
          (case stmt (sv_db s) of
             None \<Rightarrow> (Err ConstraintViolated, s)
           | Some (x, db) \<Rightarrow> (Ok x, s\<lparr>sv_db := db\<rparr>)))"

definition map_error :: "('e \<Rightarrow> 'f) \<Rightarrow> ('a, 'e) outcome \<Rightarrow> ('a, 'f) outcome" where
  "map_error f r = (case r of Ok x \<Rightarrow> Ok x | Err e \<Rightarrow> Err (f e) | Panic \<Rightarrow> Panic)"

text \<open>A statement whose failure is answered with a status and a message, a failure that is ignored.\<close>

definition or_respond :: "('a, 'e) outcome \<times> 's \<Rightarrow> 'f \<Rightarrow> ('a, 'f) outcome \<times> 's" where
  "or_respond r e = (map_error (\<lambda>_. e) (fst r), snd r)"

definition or_else :: "('a, 'e) outcome \<times> 's \<Rightarrow> 'a \<Rightarrow> ('a, 'f) outcome \<times> 's" where
  "or_else r x = (case r of (Ok y, s) \<Rightarrow> (Ok y, s) | (Err e, s) \<Rightarrow> (Ok x, s) | (Panic, s) \<Rightarrow> (Panic, s))"

text \<open>
  A transaction. The tables are those from before it where its body or its commit fails; what the body
  did outside the database stays.
\<close>

definition begin_transaction :: "(unit, sql_error, 'w) request" where
  "begin_transaction = sql (read_rows (\<lambda>_. ()))"

definition rolled_back :: "service_db \<Rightarrow> ('a, 'e) outcome \<times> 'w service \<Rightarrow> ('a, 'e) outcome \<times> 'w service" where
  "rolled_back db r = (case r of (Ok x, s) \<Rightarrow> (Ok x, s) | (x, s) \<Rightarrow> (x, s\<lparr>sv_db := db\<rparr>))"

definition in_transaction ::
  "'e \<Rightarrow> 'e \<Rightarrow> ('a, 'e, 'w) request \<Rightarrow> ('a, 'e, 'w) request" where
  "in_transaction begin_error commit_error body s =
     and_run (or_respond (begin_transaction s) begin_error) (\<lambda>_ s.
     rolled_back (sv_db s) (
       and_run (body s) (\<lambda>x s.
       and_run (or_respond (sql (read_rows (\<lambda>_. ())) s) commit_error) (\<lambda>_ s. (Ok x, s)))))"

section \<open>Network and cache\<close>

definition on_net :: "('a, 'e, 'w) step \<Rightarrow> ('a, 'e, 'w) request" where
  "on_net f s = (case f (sv_net s) of (r, w) \<Rightarrow> (r, s\<lparr>sv_net := w\<rparr>))"

definition invalidate_cache :: "string \<Rightarrow> string list \<Rightarrow> 'w service \<Rightarrow> 'w service" where
  "invalidate_cache owner beneficiaries s = s\<lparr>sv_cache := cache_invalidate_queries owner beneficiaries (sv_cache s)\<rparr>"

definition send_status :: "status_event \<Rightarrow> 'w service \<Rightarrow> 'w service" where
  "send_status ev s = s\<lparr>sv_status_events := sv_status_events s @ [ev]\<rparr>"

definition beneficiary_addresses :: "nat \<Rightarrow> service_db \<Rightarrow> string list" where
  "beneficiary_addresses i db = map bn_wallet_address (beneficiaries_of i db)"

section \<open>Webhooks\<close>

definition active_endpoints :: "service_db \<Rightarrow> nat list" where
  "active_endpoints db = map ep_id (filter ep_is_active (db_endpoints db))"

definition enqueue_event :: "string \<Rightarrow> event_payload \<Rightarrow> (unit, sql_error, 'w) request" where
  "enqueue_event event_type payload s =
     and_run (sql (read_rows active_endpoints) s) (\<lambda>endpoints s.
     fold_steps (\<lambda>ep _ s. sql (insert_dispatch ep event_type payload (sv_now s)) s) endpoints () s)"

section \<open>What the steps do\<close>

lemma next_fault_state:
  assumes "next_fault s = (f, t)"
  shows "\<exists>fs. t = s\<lparr>sv_faults := fs\<rparr>"
proof (cases "sv_faults s")
  case Nil
  then have "t = s\<lparr>sv_faults := []\<rparr>" using assms by (simp add: next_fault_def)
  then show ?thesis ..
next
  case (Cons g gs)
  then have "t = s\<lparr>sv_faults := gs\<rparr>" using assms by (auto simp: next_fault_def)
  then show ?thesis ..
qed

text \<open>A statement that succeeds ran; one that fails changes no table.\<close>

lemma sql_Ok: "sql stmt s = (Ok x, t) \<Longrightarrow> \<exists>fs db. stmt (sv_db s) = Some (x, db) \<and> t = s\<lparr>sv_faults := fs, sv_db := db\<rparr>"
  by (auto simp: sql_def split: prod.splits bool.splits option.splits dest!: next_fault_state)

lemma sql_Err: "sql stmt s = (Err e, t) \<Longrightarrow> \<exists>fs. t = s\<lparr>sv_faults := fs\<rparr>"
  by (auto simp: sql_def split: prod.splits bool.splits option.splits dest!: next_fault_state)

lemma sql_not_Panic [simp]: "sql stmt s \<noteq> (Panic, t)"
  by (auto simp: sql_def split: prod.splits bool.splits option.splits)

lemma or_respond_eq [simp]:
  "or_respond r e = (Ok x, s) \<longleftrightarrow> r = (Ok x, s)"
  "or_respond r e = (Err e', s) \<longleftrightarrow> e' = e \<and> (\<exists>d. r = (Err d, s))"
  by (cases r; auto simp: or_respond_def map_error_def split: outcome.splits)+

lemma sql_without_faults:
  "sv_faults s = [] \<Longrightarrow> sql stmt s = (case stmt (sv_db s) of None \<Rightarrow> (Err ConstraintViolated, s)
     | Some (x, db) \<Rightarrow> (Ok x, s\<lparr>sv_db := db\<rparr>))"
  by (simp add: sql_def next_fault_def)

end
