(* ===== verification/Watchdog.thy ===== *)
theory Watchdog
  imports Service
begin

text \<open>
  \<open>backend/src/inactivity_watchdog.rs\<close>: the sweep that claims the plans whose owner has been silent for
  too long, triggers each on the chain, and records how that went. The loop that starts a sweep at every
  tick is left to the runtime and not modelled; log messages and metrics are left out.
\<close>

section \<open>Configuration\<close>

definition DEFAULT_INTERVAL_SECS :: nat where "DEFAULT_INTERVAL_SECS = 60 * 60"
definition DEFAULT_BATCH_SIZE :: int where "DEFAULT_BATCH_SIZE = 500"
definition ACTIVE_STATUS :: string where "ACTIVE_STATUS = ''ACTIVE''"
definition TRIGGERING_STATUS :: string where "TRIGGERING_STATUS = ''TRIGGERING''"
definition TRIGGERED_STATUS :: string where "TRIGGERED_STATUS = ''TRIGGERED''"
definition TRIGGER_FAILED_STATUS :: string where "TRIGGER_FAILED_STATUS = ''TRIGGER_FAILED''"
definition TRIGGER_EVENT_TOPICS :: "string list" where "TRIGGER_EVENT_TOPICS = [''INHERIT'', ''TRIGGER'']"
definition DEFAULT_MAX_ATTEMPTS :: nat where "DEFAULT_MAX_ATTEMPTS = 3"
definition DEFAULT_BACKOFF_MS :: nat where "DEFAULT_BACKOFF_MS = 1000"
definition DEFAULT_MAX_BACKOFF_MS :: nat where "DEFAULT_MAX_BACKOFF_MS = 30000"
definition DEFAULT_STALE_AFTER_SECS :: nat where "DEFAULT_STALE_AFTER_SECS = 900"

text \<open>Backoffs are in milliseconds, the other durations in seconds.\<close>

record on_chain_trigger_config =
  oc_max_attempts :: nat
  oc_initial_backoff :: nat
  oc_max_backoff :: nat
  oc_stale_after :: nat

record watchdog_config =
  wc_interval :: nat
  wc_batch_size :: int
  wc_on_chain :: on_chain_trigger_config

definition on_chain_config_from_env :: "environment \<Rightarrow> on_chain_trigger_config" where
  "on_chain_config_from_env env =
     \<lparr>oc_max_attempts = min u32_max
        (max 1 (parse_env_u64 env ''INACTIVITY_WATCHDOG_ONCHAIN_MAX_ATTEMPTS'' DEFAULT_MAX_ATTEMPTS)),
      oc_initial_backoff = max 1 (parse_env_u64 env ''INACTIVITY_WATCHDOG_ONCHAIN_BACKOFF_MS'' DEFAULT_BACKOFF_MS),
      oc_max_backoff =
        max 1 (parse_env_u64 env ''INACTIVITY_WATCHDOG_ONCHAIN_MAX_BACKOFF_MS'' DEFAULT_MAX_BACKOFF_MS),
      oc_stale_after =
        max 1 (parse_env_u64 env ''INACTIVITY_WATCHDOG_TRIGGER_STALE_AFTER_SECS'' DEFAULT_STALE_AFTER_SECS)\<rparr>"

definition watchdog_config_from_env :: "environment \<Rightarrow> watchdog_config" where
  "watchdog_config_from_env env =
     \<lparr>wc_interval = max 1 (parse_env_u64 env ''INACTIVITY_WATCHDOG_INTERVAL_SECS'' DEFAULT_INTERVAL_SECS),
      wc_batch_size = max 1 (parse_env_i64 env ''INACTIVITY_WATCHDOG_BATCH_SIZE'' DEFAULT_BATCH_SIZE),
      wc_on_chain = on_chain_config_from_env env\<rparr>"

text \<open>The longest duration of the standard library, in milliseconds.\<close>

definition duration_max :: nat where "duration_max = u64_max * 1000 + 999"

definition backoff_for :: "on_chain_trigger_config \<Rightarrow> nat \<Rightarrow> nat" where
  "backoff_for c attempt =
     (let shift = attempt - 1;
          factor = (if shift < 32 then 2 ^ shift else u32_max)
      in min (min duration_max (oc_initial_backoff c * factor)) (oc_max_backoff c))"

record watchdog =
  wd_config :: watchdog_config
  wd_stellar :: "stellar_client option"

definition watchdog_new :: "watchdog_config \<Rightarrow> watchdog" where
  "watchdog_new config = \<lparr>wd_config = config, wd_stellar = None\<rparr>"

definition with_stellar :: "stellar_client \<Rightarrow> watchdog \<Rightarrow> watchdog" where
  "with_stellar cl wd = (if soroban_enabled cl then wd\<lparr>wd_stellar := Some cl\<rparr> else wd)"

section \<open>The claim\<close>

definition expired_plan :: "bool \<Rightarrow> nat \<Rightarrow> int \<Rightarrow> plan_row \<Rightarrow> bool" where
  "expired_plan on_chain stale_after now p \<longleftrightarrow>
     pr_is_active p \<and> pr_inactivity_deadline_at p \<le> now \<and>
     (pr_status p = ACTIVE_STATUS \<or>
      on_chain \<and> pr_status p = TRIGGERING_STATUS \<and>
      (case pr_trigger_started_at p of None \<Rightarrow> True | Some t \<Rightarrow> t \<le> now - int stale_after))"

text \<open>The oldest deadlines first; rows other workers have locked are skipped.\<close>

definition expired_batch :: "watchdog_config \<Rightarrow> bool \<Rightarrow> int \<Rightarrow> nat set \<Rightarrow> plan_row list \<Rightarrow> plan_row list" where
  "expired_batch c on_chain now locked ps =
     take (nat (wc_batch_size c)) (sort_key pr_inactivity_deadline_at
       (filter (\<lambda>p. expired_plan on_chain (oc_stale_after (wc_on_chain c)) now p \<and> pr_id p \<notin> locked) ps))"

definition claim_statement ::
  "watchdog_config \<Rightarrow> bool \<Rightarrow> int \<Rightarrow> nat set \<Rightarrow> service_db \<Rightarrow> (plan_row list \<times> service_db) option" where
  "claim_statement c on_chain now locked db =
     (let claim_status = (if on_chain then TRIGGERING_STATUS else TRIGGERED_STATUS);
          ids = pr_id ` set (expired_batch c on_chain now locked (db_plans db))
      in update_plans (\<lambda>p. pr_id p \<in> ids) (\<lambda>p. p\<lparr>pr_status := claim_status, pr_trigger_started_at := Some now\<rparr>) db)"

definition claim_expired_plans :: "watchdog \<Rightarrow> bool \<Rightarrow> (plan_row list, sql_error, 'w) request" where
  "claim_expired_plans wd on_chain =
     in_transaction ConnectionFailed ConnectionFailed (\<lambda>s.
       and_run (sql (read_rows (\<lambda>_. \<not> sv_lock_held s)) s) (\<lambda>lock_acquired s.
       if \<not> lock_acquired then (Ok [], s)
       else sql (claim_statement (wd_config wd) on_chain (sv_now s) (sv_locked_rows s)) s))"

section \<open>The trigger\<close>

record trigger_failure =
  tf_reason :: trigger_reason
  tf_attempts :: nat

definition verify_trigger_event :: "stellar_client \<Rightarrow> invocation_outcome \<Rightarrow> nat \<Rightarrow> (unit, trigger_reason) outcome" where
  "verify_trigger_event cl outc expected_plan_id =
     and_then (ok_or (client_contract cl) ContractNotConfigured) (\<lambda>contract.
     and_then (ok_or (find_event (io_events outc) contract TRIGGER_EVENT_TOPICS)
       (NoTriggerEvent (io_tx_hash outc))) (\<lambda>event.
     case event_u64_field event ''plan_id'' of
       Some plan_id \<Rightarrow> ensure (plan_id = expected_plan_id) (WrongPlanTriggered (io_tx_hash outc) plan_id)
     | None \<Rightarrow> Err (EventWithoutPlanId (io_tx_hash outc))))"

definition is_retryable :: "submit_error \<Rightarrow> bool" where
  "is_retryable e = (case e of NetworkError \<Rightarrow> True | RpcError _ \<Rightarrow> True | SubmitTimeout _ \<Rightarrow> True | _ \<Rightarrow> False)"

text \<open>
  The attempts that are left, after \<open>max_attempts\<close> less those were made. The bound on the polls of an
  attempt is the argument \<open>n\<close> of the client.
\<close>

primrec trigger_attempts ::
  "nat \<Rightarrow> nat \<Rightarrow> stellar_lib \<Rightarrow> 'w network \<Rightarrow> on_chain_trigger_config \<Rightarrow> stellar_client \<Rightarrow> nat \<Rightarrow>
   trigger_reason \<Rightarrow> (string \<times> nat, trigger_failure, 'w) step" where
  "trigger_attempts 0 n lb N retry cl plan_id last_error w =
     (Err \<lparr>tf_reason = last_error, tf_attempts = oc_max_attempts retry\<rparr>, w)"
| "trigger_attempts (Suc left) n lb N retry cl plan_id last_error w =
     (let attempt = oc_max_attempts retry - left in
      case cl_trigger_inheritance n lb N cl plan_id w of
        (Ok outc, w) \<Rightarrow>
          (case verify_trigger_event cl outc plan_id of
             Ok _ \<Rightarrow> (Ok (io_tx_hash outc, attempt), w)
           | Err reason \<Rightarrow> (Err \<lparr>tf_reason = reason, tf_attempts = attempt\<rparr>, w)
           | Panic \<Rightarrow> (Panic, w))
      | (Err e, w) \<Rightarrow>
          if \<not> is_retryable e then (Err \<lparr>tf_reason = ClientFailed e, tf_attempts = attempt\<rparr>, w)
          else trigger_attempts left n lb N retry cl plan_id (ClientFailed e)
            (if attempt < oc_max_attempts retry then net_sleep N (backoff_for retry attempt) w else w)
      | (Panic, w) \<Rightarrow> (Panic, w))"

definition trigger_on_chain ::
  "nat \<Rightarrow> stellar_lib \<Rightarrow> 'w network \<Rightarrow> watchdog \<Rightarrow> stellar_client \<Rightarrow> plan_row \<Rightarrow>
   (string \<times> nat, trigger_failure, 'w) step" where
  "trigger_on_chain n lb N wd cl plan w =
     (case pr_onchain_plan_id plan of
        None \<Rightarrow> (Err \<lparr>tf_reason = NoOnchainPlanId, tf_attempts = 0\<rparr>, w)
      | Some i \<Rightarrow>
          if i < 0 then (Err \<lparr>tf_reason = InvalidOnchainPlanId i, tf_attempts = 0\<rparr>, w)
          else let retry = wc_on_chain (wd_config wd)
               in trigger_attempts (oc_max_attempts retry) n lb N retry cl (nat i) NoAttempt w)"

section \<open>The record\<close>

definition as_i32 :: "nat \<Rightarrow> int" where
  "as_i32 n = (let m = int (n mod 2 ^ 32) in if m < 2 ^ 31 then m else m - 2 ^ 32)"

definition set_triggered :: "string \<Rightarrow> nat \<Rightarrow> plan_row \<Rightarrow> plan_row" where
  "set_triggered tx_hash attempts p =
     p\<lparr>pr_status := TRIGGERED_STATUS, pr_trigger_tx_hash := Some tx_hash,
       pr_trigger_attempts := pr_trigger_attempts p + as_i32 attempts, pr_last_trigger_error := None\<rparr>"

definition mark_triggered :: "plan_row \<Rightarrow> string \<Rightarrow> nat \<Rightarrow> (plan_row list, sql_error, 'w) request" where
  "mark_triggered plan tx_hash attempts =
     sql (update_plans (\<lambda>p. pr_id p = pr_id plan) (set_triggered tx_hash attempts))"

definition set_trigger_failed :: "trigger_failure \<Rightarrow> plan_row \<Rightarrow> plan_row" where
  "set_trigger_failed failure p =
     p\<lparr>pr_status := TRIGGER_FAILED_STATUS,
       pr_trigger_attempts := pr_trigger_attempts p + as_i32 (tf_attempts failure),
       pr_last_trigger_error := Some (tf_reason failure)\<rparr>"

definition mark_trigger_failed :: "plan_row \<Rightarrow> trigger_failure \<Rightarrow> (plan_row list, sql_error, 'w) request" where
  "mark_trigger_failed plan failure =
     sql (update_plans (\<lambda>p. pr_id p = pr_id plan) (set_trigger_failed failure))"

definition announce_triggered :: "plan_row \<Rightarrow> string option \<Rightarrow> (unit, sql_error, 'w) request" where
  "announce_triggered plan tx_hash s =
     and_run (or_else (sql (read_rows (beneficiary_addresses (pr_id plan))) s) []) (\<lambda>addresses s.
     let s = invalidate_cache (pr_owner_address plan) addresses s in
     or_else (enqueue_event ''plan.triggered''
       (PlanEvent (pr_id plan) (pr_owner_address plan) (pr_onchain_plan_id plan) tx_hash) s) ())"

definition announce_trigger_failure :: "plan_row \<Rightarrow> trigger_failure \<Rightarrow> (unit, sql_error, 'w) request" where
  "announce_trigger_failure plan failure s =
     or_else (enqueue_event ''plan.trigger_failed''
       (TriggerFailedEvent (pr_id plan) (pr_owner_address plan) (pr_onchain_plan_id plan)
         (tf_attempts failure) (tf_reason failure)) s) ()"

section \<open>The sweep\<close>

definition sweep_plan ::
  "nat \<Rightarrow> stellar_lib \<Rightarrow> 'w network \<Rightarrow> watchdog \<Rightarrow> stellar_client \<Rightarrow> plan_row \<Rightarrow> nat \<Rightarrow>
   (nat, sql_error, 'w) request" where
  "sweep_plan n lb N wd cl plan triggered s =
     (case on_net (trigger_on_chain n lb N wd cl plan) s of
        (Ok (tx_hash, attempts), s) \<Rightarrow>
          and_run (mark_triggered plan tx_hash attempts s) (\<lambda>_ s.
          and_run (announce_triggered plan (Some tx_hash) s) (\<lambda>_ s. (Ok (triggered + 1), s)))
      | (Err failure, s) \<Rightarrow>
          and_run (mark_trigger_failed plan failure s) (\<lambda>_ s.
          and_run (announce_trigger_failure plan failure s) (\<lambda>_ s. (Ok triggered, s)))
      | (Panic, s) \<Rightarrow> (Panic, s))"

definition run_once :: "nat \<Rightarrow> stellar_lib \<Rightarrow> 'w network \<Rightarrow> watchdog \<Rightarrow> (nat, sql_error, 'w) request" where
  "run_once n lb N wd s =
     (let on_chain = wd_stellar wd \<noteq> None in
      and_run (claim_expired_plans wd on_chain s) (\<lambda>claimed s.
      if claimed = [] then (Ok 0, s)
      else case wd_stellar wd of
             None \<Rightarrow>
               and_run (fold_steps (\<lambda>plan _. announce_triggered plan None) claimed () s) (\<lambda>_ s.
               (Ok (length claimed), s))
           | Some cl \<Rightarrow> fold_steps (sweep_plan n lb N wd cl) claimed 0 s))"

end
