(* ===== verification/Soroban_Facts.thy ===== *)
theory Soroban_Facts
  imports Soroban_Client
begin

text \<open>
  What an invocation that succeeds says about the chain, and how often the client submits.
\<close>

section \<open>The worlds of a client\<close>

text \<open>The worlds that requests to the servers and waiting lead to.\<close>

inductive net_reach :: "'w network \<Rightarrow> 'w \<Rightarrow> 'w \<Rightarrow> bool" for N w0 where
  net_start: "net_reach N w0 w0"
| reach_sleep: "net_reach N w0 w \<Longrightarrow> net_reach N w0 (net_sleep N d w)"
| reach_account: "net_reach N w0 w \<Longrightarrow> net_reach N w0 (snd (net_account N a w))"
| reach_simulate: "net_reach N w0 w \<Longrightarrow> net_reach N w0 (snd (net_simulate N x w))"
| reach_send: "net_reach N w0 w \<Longrightarrow> net_reach N w0 (snd (net_send N x w))"
| reach_get: "net_reach N w0 w \<Longrightarrow> net_reach N w0 (snd (net_get N h w))"

lemma reach_trans: "net_reach N v w \<Longrightarrow> net_reach N u v \<Longrightarrow> net_reach N u w"
  by (induction rule: net_reach.induct) (auto intro: net_reach.intros)

lemmas reach_inv = and_run_inv [where P = "net_reach N w0" for N w0]

lemma rpc_state [simp]: "snd (rpc m r) = snd r"
  by (simp add: rpc_def)

lemma reach_sequence: "net_reach N w0 w \<Longrightarrow> net_reach N w0 (snd (next_sequence N ctx w))"
  using reach_account [of N w0 w "cx_source_account ctx"]
  by (auto simp: next_sequence_def Let_def split: prod.splits option.splits)

lemma reach_prepare: "net_reach N w0 w \<Longrightarrow> net_reach N w0 (snd (prepare_invocation lb N ctx f args w))"
  unfolding prepare_invocation_def simulate_def Let_def
  by (auto intro!: reach_inv reach_sequence reach_simulate)

lemma reach_poll: "net_reach N w0 w \<Longrightarrow> net_reach N w0 (snd (poll_transaction n lb N interval deadline h w))"
proof (induction n arbitrary: w)
  case (Suc n)
  show ?case
    unfolding poll_transaction.simps
  proof (rule reach_inv)
    show "net_reach N w0 (snd (rpc ''getTransaction'' (net_get N h w)))"
      unfolding rpc_state using Suc.prems by (rule reach_get)
  next
    fix resp v assume v: "net_reach N w0 v"
    then have "net_reach N w0 (snd (poll_transaction n lb N interval deadline h (net_sleep N interval v)))"
      by (intro Suc.IH reach_sleep)
    then show "net_reach N w0 (snd (if gt_status resp = ''SUCCESS'' then and_run (read_meta lb (gt_result_meta_xdr resp), v)
        (\<lambda>(events, return_value) w. (Ok \<lparr>io_tx_hash = h, io_events = events, io_return_value = return_value\<rparr>, w))
      else if gt_status resp = ''FAILED'' then (Err (TransactionFailed h (unwrap_or ''unknown'' (gt_result_xdr resp))), v)
      else if deadline \<le> net_now N v then (Err (SubmitTimeout h), v)
      else poll_transaction n lb N interval deadline h (net_sleep N interval v)))"
      using v by (auto intro: reach_inv)
  qed
qed simp

lemma reach_invoke: "net_reach N w0 w \<Longrightarrow> net_reach N w0 (snd (invoke_contract n lb N cl f args w))"
  unfolding invoke_contract_def send_and_await_def send_transaction_def await_transaction_def
  by (auto intro!: reach_inv reach_prepare reach_poll reach_send split: prod.splits)

section \<open>A success is a report of the server\<close>

text \<open>
  On the way from the world \<open>w0\<close> to \<open>w1\<close> the RPC server reported the transaction with hash \<open>h\<close> as successful,
  with these events; and \<open>h\<close> is the hash of a transaction of the signer that makes exactly the invocation \<open>iv\<close>.
\<close>

definition reported :: "stellar_lib \<Rightarrow> 'w network \<Rightarrow> 'w \<Rightarrow> 'w \<Rightarrow> string \<Rightarrow> contract_event list \<Rightarrow> bool" where
  "reported lb N w0 w1 h events \<longleftrightarrow> (\<exists>w v resp r. net_reach N w0 w \<and> net_get N h w = (RpcReply None (Some resp), v) \<and>
     net_reach N v w1 \<and> gt_status resp = ''SUCCESS'' \<and> read_meta lb (gt_result_meta_xdr resp) = Ok (events, r))"

definition hash_of_invocation :: "stellar_lib \<Rightarrow> soroban_context \<Rightarrow> invocation \<Rightarrow> string \<Rightarrow> bool" where
  "hash_of_invocation lb ctx iv h \<longleftrightarrow> (\<exists>tx encoded. tx_invocation tx = iv \<and> tx_source tx = cx_public_key ctx \<and>
     lib_payload lb (cx_network_id ctx) tx = Some encoded \<and> h = lib_hex lb (lib_sha256 lb encoded))"

lemma rpc_Ok: "rpc m reply = (Ok x, v) \<Longrightarrow> reply = (RpcReply None (Some x), v)"
proof -
  assume "rpc m reply = (Ok x, v)"
  then show ?thesis
    by (cases reply; cases "(m, fst reply)" rule: rpc_outcome.cases)
      (auto simp: rpc_def ok_or_def split: option.splits)
qed

lemma reported_later: "reported lb N w0 w1 h events \<Longrightarrow> net_reach N w1 w2 \<Longrightarrow> reported lb N w0 w2 h events"
  unfolding reported_def by (blast intro: reach_trans)

lemma reported_earlier: "reported lb N w1 w2 h events \<Longrightarrow> net_reach N w0 w1 \<Longrightarrow> reported lb N w0 w2 h events"
  unfolding reported_def by (blast intro: reach_trans)

lemma poll_Ok:
  "poll_transaction n lb N interval deadline h w = (Ok outc, v) \<Longrightarrow>
    io_tx_hash outc = h \<and> reported lb N w v h (io_events outc)"
proof (induction n arbitrary: w)
  case (Suc n)
  from Suc.prems obtain resp u where u: "rpc ''getTransaction'' (net_get N h w) = (Ok resp, u)"
    by (auto simp del: rpc_outcome.simps)
  note get = rpc_Ok [OF u]
  consider "gt_status resp = ''SUCCESS''" | "gt_status resp = ''FAILED''"
    | "gt_status resp \<noteq> ''SUCCESS''" "gt_status resp \<noteq> ''FAILED''" by blast
  then show ?case
  proof cases
    case 1
    from Suc.prems 1 have "io_tx_hash outc = h" "v = u"
      "read_meta lb (gt_result_meta_xdr resp) = Ok (io_events outc, io_return_value outc)"
      by (auto simp: u)
    then show ?thesis using get 1 unfolding reported_def by (blast intro: net_start)
  next
    case 2
    with Suc.prems show ?thesis by (auto simp: u)
  next
    case 3
    with Suc.prems have "poll_transaction n lb N interval deadline h (net_sleep N interval u) = (Ok outc, v)"
      by (auto simp: u split: if_splits)
    moreover have "net_reach N w (net_sleep N interval u)"
      using reach_get [OF net_start, of N w h] get by (auto intro: reach_sleep)
    ultimately show ?thesis by (blast dest: Suc.IH intro: reported_earlier)
  qed
qed simp

lemma invocation_Ok:
  assumes "invoke_contract n lb N cl f args w = (Ok outc, v)"
  obtains ctx where "sl_soroban cl = Some ctx" and "reported lb N w v (io_tx_hash outc) (io_events outc)"
    and "hash_of_invocation lb ctx \<lparr>iv_contract = cx_contract ctx, iv_function = f, iv_args = args\<rparr> (io_tx_hash outc)"
proof -
  from assms obtain ctx invoc seqn valid sim tx u where
    ctx: "sl_soroban cl = Some ctx" and
    prep: "prepare_invocation lb N ctx f args w = (Ok (invoc, seqn, valid, sim), u)" and
    build: "build_transaction ctx seqn valid (saturating_add_i64 BASE_FEE_STROOPS (sm_min_resource_fee sim))
      invoc (sm_auth sim) (Some (sm_transaction_data sim)) = Ok tx" and
    send: "send_and_await n lb N ctx tx u = (Ok outc, v)"
    unfolding invoke_contract_def client_soroban_def by fastforce
  from send obtain sigs h envelope u' where
    sign: "sign_transaction lb ctx tx = Ok (sigs, h)" and sent: "send_transaction N envelope h u = (Ok (), u')" and
    await: "await_transaction n lb N ctx h u' = (Ok outc, v)"
    unfolding send_and_await_def by fastforce
  have "net_reach N w u" using reach_prepare [OF net_start, of N w lb ctx f args] prep by simp
  then have "net_reach N w (snd (send_transaction N envelope h u))"
    unfolding send_transaction_def by (auto intro!: reach_inv reach_send)
  then have "net_reach N w u'" using sent by simp
  then have h: "io_tx_hash outc = h" "reported lb N w v h (io_events outc)"
    using await by (auto simp: await_transaction_def dest: poll_Ok intro: reported_earlier)
  from prep have invoc: "invoc = \<lparr>iv_contract = cx_contract ctx, iv_function = f, iv_args = args\<rparr>"
    by (auto simp: prepare_invocation_def make_invocation_def Let_def)
  from build invoc have "tx_invocation tx = \<lparr>iv_contract = cx_contract ctx, iv_function = f, iv_args = args\<rparr>"
    "tx_source tx = cx_public_key ctx"
    by (auto simp: build_transaction_def)
  moreover from sign obtain encoded where "lib_payload lb (cx_network_id ctx) tx = Some encoded"
    "h = lib_hex lb (lib_sha256 lb encoded)"
    by (auto simp: sign_transaction_def Let_def)
  ultimately show thesis using that [OF ctx] h unfolding hash_of_invocation_def by metis
qed

section \<open>One submission per invocation\<close>

text \<open>A count of the transactions that were submitted: only \<open>sendTransaction\<close> raises it.\<close>

locale counted_sends =
  fixes N :: "'w network" and sent :: "'w \<Rightarrow> nat"
  assumes sent_sleep [simp]: "sent (net_sleep N d w) = sent w"
    and sent_account [simp]: "sent (snd (net_account N a w)) = sent w"
    and sent_simulate [simp]: "sent (snd (net_simulate N x w)) = sent w"
    and sent_get [simp]: "sent (snd (net_get N h w)) = sent w"
    and sent_send: "sent (snd (net_send N x w)) \<le> sent w + 1"
begin

lemma sent_and_run: "sent (snd r) \<le> k \<Longrightarrow> (\<And>x s. r = (Ok x, s) \<Longrightarrow> sent s \<le> k \<Longrightarrow> sent (snd (f x s)) \<le> m) \<Longrightarrow> k \<le> m \<Longrightarrow>
    sent (snd (and_run r f)) \<le> m"
proof -
  assume *: "sent (snd r) \<le> k" "\<And>x s. r = (Ok x, s) \<Longrightarrow> sent s \<le> k \<Longrightarrow> sent (snd (f x s)) \<le> m" "k \<le> m"
  obtain o1 s1 where r: "r = (o1, s1)" by (cases r)
  from * show ?thesis unfolding r by (cases o1) auto
qed

lemma sent_sequence [simp]: "sent (snd (next_sequence N ctx w)) = sent w"
proof -
  obtain r v where r: "net_account N (cx_source_account ctx) w = (r, v)" by (cases "net_account N (cx_source_account ctx) w")
  have "sent v = sent w" using sent_account [of "cx_source_account ctx" w] by (simp add: r)
  then show ?thesis by (auto simp: next_sequence_def r split: option.split)
qed

lemma sent_prepare: "sent (snd (prepare_invocation lb N ctx f args w)) \<le> sent w"
  unfolding prepare_invocation_def simulate_def Let_def
  by (rule sent_and_run [where k = "sent w"]; auto intro!: sent_and_run [where k = "sent w"] simp: sent_sequence)

lemma sent_poll: "sent (snd (poll_transaction n lb N interval deadline h w)) \<le> sent w"
proof (induction n arbitrary: w)
  case (Suc n)
  show ?case
    unfolding poll_transaction.simps
  proof (rule sent_and_run [where k = "sent w"])
    fix resp v assume v: "sent v \<le> sent w"
    have "sent (snd (poll_transaction n lb N interval deadline h (net_sleep N interval v))) \<le> sent w"
      using Suc.IH [of "net_sleep N interval v"] v by simp
    then show "sent (snd (if gt_status resp = ''SUCCESS'' then and_run (read_meta lb (gt_result_meta_xdr resp), v)
        (\<lambda>(events, return_value) w. (Ok \<lparr>io_tx_hash = h, io_events = events, io_return_value = return_value\<rparr>, w))
      else if gt_status resp = ''FAILED'' then (Err (TransactionFailed h (unwrap_or ''unknown'' (gt_result_xdr resp))), v)
      else if deadline \<le> net_now N v then (Err (SubmitTimeout h), v)
      else poll_transaction n lb N interval deadline h (net_sleep N interval v))) \<le> sent w"
      using v by (auto intro: sent_and_run [where k = "sent w"])
  qed simp_all
qed simp

lemma sent_send_and_await: "sent (snd (send_and_await n lb N ctx tx w)) \<le> sent w + 1"
proof -
  have send: "sent (snd (send_transaction N x h v)) \<le> sent v + 1" for x h v
    unfolding send_transaction_def
    by (rule sent_and_run [where k = "sent v + 1"]) (use sent_send [of x v] in auto)
  have await: "sent (snd (await_transaction n lb N ctx h v)) \<le> sent v" for h v
    unfolding await_transaction_def by (rule sent_poll)
  have both: "sent (snd (and_run (send_transaction N x h v) (\<lambda>_. await_transaction n lb N ctx h))) \<le> sent v + 1" for x h v
    by (rule sent_and_run [OF send]) (use await order_trans in blast)+
  show ?thesis
    unfolding send_and_await_def
    by (rule sent_and_run [where k = "sent w"]; clarsimp simp: ok_or_def both [simplified] split: option.split)
qed

lemma sent_invoke: "sent (snd (invoke_contract n lb N cl f args w)) \<le> sent w + 1"
  unfolding invoke_contract_def
proof (rule sent_and_run [where k = "sent w"])
  fix ctx v assume v: "sent v \<le> sent w"
  have one: "sent (snd (send_and_await n lb N ctx tx u)) \<le> sent w + 1" if "sent u \<le> sent w" for tx u
    using sent_send_and_await [of n lb ctx tx u] that by simp
  have "sent (snd (and_run (build_transaction ctx s val fee i a e, u) (send_and_await n lb N ctx))) \<le> sent w + 1"
    if "sent u \<le> sent w" for s val fee i a e u
    by (rule sent_and_run [where k = "sent w"]) (use that one in auto)
  then show "sent (snd (and_run (prepare_invocation lb N ctx f args v) (\<lambda>(invoc, seqn, valid_until, sim) w.
      and_run (build_transaction ctx seqn valid_until (saturating_add_i64 BASE_FEE_STROOPS (sm_min_resource_fee sim))
        invoc (sm_auth sim) (Some (sm_transaction_data sim)), w) (send_and_await n lb N ctx)))) \<le> sent w + 1"
    by (intro sent_and_run [where k = "sent w"] order_trans [OF sent_prepare v]) auto
qed simp_all

end

end
