(* ===== verification/Watchdog_Facts.thy ===== *)
theory Watchdog_Facts
  imports Watchdog Soroban_Facts
begin

text \<open>
  Facts on the sweep: what claiming a batch does to the table of plans, when a plan is marked, and how
  often the chain is asked.
\<close>

section \<open>Statements that only read, or write other tables\<close>

abbreviation plan_rows :: "'w service \<Rightarrow> plan_row list" where
  "plan_rows s \<equiv> db_plans (sv_db s)"

lemma sql_state:
  assumes "sql stmt s = (r, t)"
  shows "(\<exists>fs. t = s\<lparr>sv_faults := fs\<rparr>) \<or>
    (\<exists>x db fs. r = Ok x \<and> stmt (sv_db s) = Some (x, db) \<and> t = s\<lparr>sv_faults := fs, sv_db := db\<rparr>)"
proof (cases r)
  case (Ok x)
  then show ?thesis using sql_Ok [of stmt s x t] assms by auto
next
  case (Err e)
  then show ?thesis using sql_Err [of stmt s e t] assms by auto
next
  case Panic
  then show ?thesis using assms by simp
qed

lemma sql_plans:
  assumes "sql stmt s = (r, t)" and "\<And>x db. stmt (sv_db s) = Some (x, db) \<Longrightarrow> db_plans db = plan_rows s"
  shows "plan_rows t = plan_rows s"
  using sql_state [OF assms(1)] assms(2) by auto

lemma read_plans [simp]: "plan_rows (snd (sql (read_rows f) s)) = plan_rows s"
  by (rule sql_plans [OF prod.collapse [symmetric]]) (auto simp: read_rows_def)

lemma dispatch_plans [simp]: "plan_rows (snd (sql (insert_dispatch ep e p now) s)) = plan_rows s"
  by (rule sql_plans [OF prod.collapse [symmetric]]) (auto simp: insert_dispatch_def)

lemma or_else_state [simp]: "snd (or_else r x) = snd r"
  by (cases r; cases "fst r") (auto simp: or_else_def)

lemma enqueue_plans [simp]: "plan_rows (snd (enqueue_event e p s)) = plan_rows s"
  unfolding enqueue_event_def
proof (rule and_run_state [where P = "\<lambda>t. plan_rows t = plan_rows s"])
  fix eps t assume "plan_rows t = plan_rows s"
  then show "plan_rows (snd (fold_steps (\<lambda>ep _ s. sql (insert_dispatch ep e p (sv_now s)) s) eps () t)) = plan_rows s"
    by (rule fold_steps_invariant [rotated]) simp
next
  fix r t assume "sql (read_rows active_endpoints) s = (r, t)"
  then show "plan_rows t = plan_rows s" using read_plans [of active_endpoints s] by simp
qed

lemma announce_triggered_plans [simp]: "plan_rows (snd (announce_triggered p h s)) = plan_rows s"
  unfolding announce_triggered_def Let_def
proof (rule and_run_state [where P = "\<lambda>t. plan_rows t = plan_rows s"])
  fix r t assume "or_else (sql (read_rows (beneficiary_addresses (pr_id p))) s) [] = (r, t)"
  then have "t = snd (sql (read_rows (beneficiary_addresses (pr_id p))) s)"
    using or_else_state [of "sql (read_rows (beneficiary_addresses (pr_id p))) s" "[]"] by (metis snd_conv)
  then show "plan_rows t = plan_rows s" by simp
qed (simp add: invalidate_cache_def)

lemma announce_failure_plans [simp]: "plan_rows (snd (announce_trigger_failure p f s)) = plan_rows s"
  by (simp add: announce_trigger_failure_def)

lemma on_net_db [simp]: "on_net f s = (r, t) \<Longrightarrow> sv_db t = sv_db s"
  by (auto simp: on_net_def split: prod.splits)

section \<open>The claim\<close>

lemma update_plans_Some:
  "update_plans P f db = Some (rows, db') \<longleftrightarrow>
     rows = map f (filter P (db_plans db)) \<and> db' = db\<lparr>db_plans := map (\<lambda>p. if P p then f p else p) (db_plans db)\<rparr> \<and>
     plans_table_ok (map (\<lambda>p. if P p then f p else p) (db_plans db))"
  by (auto simp: update_plans_def Let_def)

lemma begin_state: "or_respond (begin_transaction s) e = (r, t) \<Longrightarrow> \<exists>fs. t = s\<lparr>sv_faults := fs\<rparr>"
proof -
  assume "or_respond (begin_transaction s) e = (r, t)"
  then have "begin_transaction s = (fst (begin_transaction s), t)" by (auto simp: or_respond_def)
  then have *: "sql (read_rows (\<lambda>_. ())) s = (fst (begin_transaction s), t)" by (simp add: begin_transaction_def)
  show ?thesis
  proof (rule disjE [OF sql_state [OF *]])
    assume "\<exists>x db fs. fst (begin_transaction s) = Ok x \<and> read_rows (\<lambda>_. ()) (sv_db s) = Some (x, db) \<and>
      t = s\<lparr>sv_faults := fs, sv_db := db\<rparr>"
    then obtain fs where "t = s\<lparr>sv_faults := fs, sv_db := sv_db s\<rparr>" by (auto simp: read_rows_def)
    then have "t = s\<lparr>sv_faults := fs\<rparr>" by simp
    then show ?thesis ..
  qed
qed

lemma commit_state: "or_respond (sql (read_rows (\<lambda>_. ())) s) e = (r, t) \<Longrightarrow> \<exists>fs. t = s\<lparr>sv_faults := fs\<rparr>"
  using begin_state [of s e r t] by (simp add: begin_transaction_def)

lemma rolled_back_simps [simp]:
  "rolled_back db (Ok x, s) = (Ok x, s)" "rolled_back db (Err e, s) = (Err e, s\<lparr>sv_db := db\<rparr>)"
  "rolled_back db (Panic, s) = (Panic, s\<lparr>sv_db := db\<rparr>)"
  by (simp_all add: rolled_back_def)

lemma rolled_back_cases:
  "rolled_back db q = (r, t) \<Longrightarrow> (\<exists>x. r = Ok x \<and> q = (Ok x, t)) \<or> (sv_db t = db \<and> (\<forall>x. r \<noteq> Ok x))"
  by (cases q; cases "fst q") auto

text \<open>A transaction either leaves the tables as they were, or its body succeeded and they are the body's.\<close>

lemma transaction_cases:
  assumes "in_transaction e1 e2 body s = (r, t)"
  obtains (undone) "sv_db t = sv_db s" "\<forall>x. r \<noteq> Ok x"
  | (finished) x fs fs' u where "body (s\<lparr>sv_faults := fs\<rparr>) = (Ok x, u)" "r = Ok x" "t = u\<lparr>sv_faults := fs'\<rparr>"
proof -
  obtain b s1 where b: "or_respond (begin_transaction s) e1 = (b, s1)" by fastforce
  obtain fs where s1: "s1 = s\<lparr>sv_faults := fs\<rparr>" using begin_state [OF b] by blast
  show thesis
  proof (cases b)
    case (Ok y)
    let ?q = "and_run (body s1) (\<lambda>x s. and_run (or_respond (sql (read_rows (\<lambda>_. ())) s) e2) (\<lambda>_ s. (Ok x, s)))"
    have "rolled_back (sv_db s1) ?q = (r, t)" using assms by (simp add: in_transaction_def b Ok)
    from rolled_back_cases [OF this] show thesis
    proof
      assume "\<exists>x. r = Ok x \<and> ?q = (Ok x, t)"
      then obtain x u z where r: "r = Ok x" and u: "body s1 = (Ok x, u)"
        and c: "or_respond (sql (read_rows (\<lambda>_. ())) u) e2 = (Ok z, t)"
        by (auto simp del: or_respond_eq)
      obtain fs' where "t = u\<lparr>sv_faults := fs'\<rparr>" using commit_state [OF c] by blast
      then show thesis using finished u r s1 by simp
    next
      assume "sv_db t = sv_db s1 \<and> (\<forall>x. r \<noteq> Ok x)"
      then show thesis using undone s1 by simp
    qed
  next
    case (Err e)
    then show thesis using assms undone by (auto simp: in_transaction_def b s1)
  next
    case Panic
    then show thesis using assms undone by (auto simp: in_transaction_def b s1)
  qed
qed

definition claimed_as :: "bool \<Rightarrow> int \<Rightarrow> plan_row \<Rightarrow> plan_row" where
  "claimed_as on_chain now p =
     p\<lparr>pr_status := if on_chain then TRIGGERING_STATUS else TRIGGERED_STATUS, pr_trigger_started_at := Some now\<rparr>"

definition batch_ids :: "watchdog \<Rightarrow> bool \<Rightarrow> 'w service \<Rightarrow> nat set" where
  "batch_ids wd on_chain s =
     pr_id ` set (expired_batch (wd_config wd) on_chain (sv_now s) (sv_locked_rows s) (plan_rows s))"

lemma claim_cases:
  assumes "claim_expired_plans wd on_chain s = (r, t)"
  obtains (idle) "plan_rows t = plan_rows s" "r = Ok [] \<and> sv_lock_held s \<or> (\<forall>x. r \<noteq> Ok x)"
  | (claimed) claimed where "r = Ok claimed" "\<not> sv_lock_held s"
      "claimed = map (claimed_as on_chain (sv_now s)) (filter (\<lambda>p. pr_id p \<in> batch_ids wd on_chain s) (plan_rows s))"
      "plan_rows t = map (\<lambda>p. if pr_id p \<in> batch_ids wd on_chain s then claimed_as on_chain (sv_now s) p else p) (plan_rows s)"
      "plans_table_ok (plan_rows t)"
proof (rule transaction_cases [OF assms [unfolded claim_expired_plans_def]])
  assume "sv_db t = sv_db s" "\<forall>x. r \<noteq> Ok x"
  then show thesis by (intro idle) simp_all
next
  fix x fs fs' u
  assume finished: "and_run (sql (read_rows (\<lambda>_. \<not> sv_lock_held (s\<lparr>sv_faults := fs\<rparr>))) (s\<lparr>sv_faults := fs\<rparr>)) (\<lambda>lock_acquired s.
      if \<not> lock_acquired then (Ok [], s)
      else sql (claim_statement (wd_config wd) on_chain (sv_now s) (sv_locked_rows s)) s) = (Ok x, u)"
    "r = Ok x" "t = u\<lparr>sv_faults := fs'\<rparr>"
  from finished(1) obtain lock s1 where
    lock: "sql (read_rows (\<lambda>_. \<not> sv_lock_held s)) (s\<lparr>sv_faults := fs\<rparr>) = (Ok lock, s1)" and
    rest: "(if \<not> lock then (Ok [], s1)
      else sql (claim_statement (wd_config wd) on_chain (sv_now s1) (sv_locked_rows s1)) s1) = (Ok x, u)"
    by auto
  from sql_Ok [OF lock] have lock': "lock = (\<not> sv_lock_held s)" and
    s1: "sv_db s1 = sv_db s" "sv_now s1 = sv_now s" "sv_locked_rows s1 = sv_locked_rows s"
    by (auto simp: read_rows_def)
  show thesis
  proof (cases lock)
    case False
    then have "x = []" "u = s1" using rest by simp_all
    then show thesis using idle finished(2,3) lock' False s1 by simp
  next
    case True
    from rest True obtain db where "claim_statement (wd_config wd) on_chain (sv_now s) (sv_locked_rows s) (sv_db s) = Some (x, db)"
      "sv_db u = db" using sql_Ok by (fastforce simp: s1)
    then show thesis
      using claimed [of x] finished(2,3) lock' True
      by (simp add: claim_statement_def update_plans_Some Let_def batch_ids_def claimed_as_def [abs_def])
  qed
qed

section \<open>The network of the steps\<close>

text \<open>Statements and announcements do not use the network.\<close>

lemma sql_net [simp]: "sv_net (snd (sql stmt s)) = sv_net s"
  using sql_state [of stmt s "fst (sql stmt s)" "snd (sql stmt s)"] by auto

lemma fold_net: "(\<And>x a s. sv_net (snd (f x a s)) = sv_net s) \<Longrightarrow> sv_net (snd (fold_steps f xs a s)) = sv_net s"
  by (rule fold_steps_invariant) simp_all

lemmas net_keeps = and_run_inv [where P = "\<lambda>t. sv_net t = w" for w]

lemma enqueue_net [simp]: "sv_net (snd (enqueue_event e p s)) = sv_net s"
  unfolding enqueue_event_def by (rule net_keeps) (simp_all add: fold_net)

lemma announce_net [simp]:
  "sv_net (snd (announce_triggered p h s)) = sv_net s" "sv_net (snd (announce_trigger_failure p f s)) = sv_net s"
  unfolding announce_triggered_def announce_trigger_failure_def Let_def
  by (rule net_keeps) (simp_all add: invalidate_cache_def)

lemma or_respond_state [simp]: "snd (or_respond r e) = snd r"
  by (simp add: or_respond_def)

lemma rolled_back_net [simp]: "sv_net (snd (rolled_back db r)) = sv_net (snd r)"
  by (cases r; cases "fst r") auto

lemma transaction_net:
  fixes body :: "('a, 'e, 'w) request"
  assumes "\<And>s. sv_net (snd (body s)) = sv_net s"
  shows "sv_net (snd (in_transaction e1 e2 body s)) = sv_net s"
  unfolding in_transaction_def begin_transaction_def
proof (rule net_keeps, simp)
  fix x and t :: "'w service" assume t: "sv_net t = sv_net s"
  have "sv_net (snd (and_run (body t) (\<lambda>x s. and_run (or_respond (sql (read_rows (\<lambda>_. ())) s) e2) (\<lambda>_ s. (Ok x, s))))) = sv_net s"
    by (rule net_keeps, simp add: assms t, rule net_keeps, simp_all)
  then show "sv_net (snd (rolled_back (sv_db t) (and_run (body t) (\<lambda>x s.
      and_run (or_respond (sql (read_rows (\<lambda>_. ())) s) e2) (\<lambda>_ s. (Ok x, s)))))) = sv_net s"
    by simp
qed

lemma claim_net: "sv_net (snd (claim_expired_plans wd b s)) = sv_net s"
  unfolding claim_expired_plans_def by (rule transaction_net, rule net_keeps) auto

lemma mark_and_announce_net:
  assumes "\<And>s. sv_net (snd (announce s)) = sv_net s"
  shows "sv_net (snd (and_run (sql stmt t) (\<lambda>_ s. and_run (announce s) (\<lambda>_ s. (Ok c, s))))) = sv_net t"
  by (rule net_keeps, simp, rule net_keeps) (simp_all add: assms)

end
