(* ===== verification/Watchdog_Sweep.thy ===== *)
theory Watchdog_Sweep
  imports Watchdog_Facts
begin

text \<open>
  The rows of the table of plans through a sweep: which are touched, what they become, and how many the
  sweep counts.
\<close>

section \<open>The evidence behind a trigger\<close>

text \<open>
  The signer's transaction that calls \<open>trigger_inheritance\<close> for plan \<open>i\<close> has hash \<open>h\<close>, and the server
  reported it, between the worlds \<open>w0\<close> and \<open>w1\<close>, as successful with the contract's event for that plan.
\<close>

definition chain_triggered :: "stellar_lib \<Rightarrow> 'w network \<Rightarrow> 'w \<Rightarrow> 'w \<Rightarrow> stellar_client \<Rightarrow> nat \<Rightarrow> string \<Rightarrow> bool" where
  "chain_triggered lb N w0 w1 cl i h \<longleftrightarrow> (\<exists>ctx events ev. sl_soroban cl = Some ctx \<and>
     hash_of_invocation lb ctx \<lparr>iv_contract = cx_contract ctx, iv_function = ''trigger_inheritance'',
       iv_args = [signer_account_scval ctx, ScU64 i]\<rparr> h \<and>
     reported lb N w0 w1 h events \<and> find_event events (cx_contract ctx) TRIGGER_EVENT_TOPICS = Some ev \<and>
     event_u64_field ev ''plan_id'' = Some i)"

lemma triggered_later:
  "chain_triggered lb N w0 w1 cl i h \<Longrightarrow> net_reach N w1 w2 \<Longrightarrow> chain_triggered lb N w0 w2 cl i h"
  unfolding chain_triggered_def by (blast intro: reported_later)

lemma triggered_earlier:
  "chain_triggered lb N w1 w2 cl i h \<Longrightarrow> net_reach N w0 w1 \<Longrightarrow> chain_triggered lb N w0 w2 cl i h"
  unfolding chain_triggered_def by (blast intro: reported_earlier)

lemma trigger_invocation_Ok:
  assumes "cl_trigger_inheritance n lb N cl i w = (Ok outc, v)" and "verify_trigger_event cl outc i = Ok ()"
  shows "chain_triggered lb N w v cl i (io_tx_hash outc)"
proof -
  from assms(1) obtain ctx where ctx: "sl_soroban cl = Some ctx" and
    invoke: "invoke_contract n lb N cl ''trigger_inheritance'' [signer_account_scval ctx, ScU64 i] w = (Ok outc, v)"
    by (auto simp: cl_trigger_inheritance_def invoke_for_plan_def client_soroban_def)
  from invocation_Ok [OF invoke] have "reported lb N w v (io_tx_hash outc) (io_events outc)"
    "hash_of_invocation lb ctx \<lparr>iv_contract = cx_contract ctx, iv_function = ''trigger_inheritance'',
       iv_args = [signer_account_scval ctx, ScU64 i]\<rparr> (io_tx_hash outc)"
    using ctx by auto
  moreover from assms(2) ctx obtain ev where
    "find_event (io_events outc) (cx_contract ctx) TRIGGER_EVENT_TOPICS = Some ev"
    "event_u64_field ev ''plan_id'' = Some i"
    by (auto simp: verify_trigger_event_def client_contract_def split: option.splits)
  ultimately show ?thesis using ctx unfolding chain_triggered_def by blast
qed

lemma reach_trigger: "net_reach N w1 w \<Longrightarrow> net_reach N w1 (snd (cl_trigger_inheritance n lb N cl i w))"
  unfolding cl_trigger_inheritance_def invoke_for_plan_def by (auto intro!: reach_inv reach_invoke)

lemma reach_attempts: "net_reach N w1 w \<Longrightarrow> net_reach N w1 (snd (trigger_attempts left n lb N retry cl i e w))"
proof (induction left arbitrary: w e)
  case (Suc left)
  obtain r u where r: "cl_trigger_inheritance n lb N cl i w = (r, u)" by fastforce
  then have "net_reach N w1 u" using reach_trigger [OF Suc.prems, of n lb cl i] by simp
  then show ?case by (auto simp: r Let_def intro: Suc.IH reach_sleep split: outcome.split)
qed simp

lemma trigger_attempts_Ok:
  "trigger_attempts left n lb N retry cl i e w = (Ok (h, k), v) \<Longrightarrow> chain_triggered lb N w v cl i h"
proof (induction left arbitrary: w e)
  case (Suc left)
  obtain r u where r: "cl_trigger_inheritance n lb N cl i w = (r, u)" by fastforce
  show ?case
  proof (cases r)
    case (Ok outc)
    with Suc.prems r have "verify_trigger_event cl outc i = Ok ()" "h = io_tx_hash outc" "v = u"
      by (auto simp: Let_def split: outcome.splits)
    then show ?thesis using trigger_invocation_Ok [of n lb N cl i w outc u] r Ok by simp
  next
    case (Err d)
    have u: "net_reach N w u" using reach_trigger [OF net_start, of N w n lb cl i] r by simp
    from Suc.prems r Err obtain w' where
      "trigger_attempts left n lb N retry cl i (ClientFailed d) w' = (Ok (h, k), v)" "w' = u \<or> (\<exists>d. w' = net_sleep N d u)"
      by (auto simp: Let_def split: if_splits)
    then show ?thesis using u by (blast dest: Suc.IH intro: triggered_earlier reach_sleep)
  next
    case Panic
    with Suc.prems r show ?thesis by (simp add: Let_def)
  qed
qed simp

lemma trigger_on_chain_Ok:
  assumes "trigger_on_chain n lb N wd cl plan w = (Ok (h, k), v)"
  obtains i where "pr_onchain_plan_id plan = Some (int i)" and "chain_triggered lb N w v cl i h"
proof -
  from assms obtain j where j: "pr_onchain_plan_id plan = Some j" "0 \<le> j"
    and t: "trigger_attempts (oc_max_attempts (wc_on_chain (wd_config wd))) n lb N (wc_on_chain (wd_config wd)) cl
      (nat j) NoAttempt w = (Ok (h, k), v)"
    by (auto simp: trigger_on_chain_def Let_def split: option.splits if_splits)
  show thesis
  proof (rule that)
    show "pr_onchain_plan_id plan = Some (int (nat j))" using j by simp
    show "chain_triggered lb N w v cl (nat j) h" using t by (rule trigger_attempts_Ok)
  qed
qed

lemma reach_on_chain: "net_reach N w1 w \<Longrightarrow> net_reach N w1 (snd (trigger_on_chain n lb N wd cl plan w))"
  by (auto simp: trigger_on_chain_def Let_def reach_attempts split: option.split)

section \<open>One row\<close>

definition trigger_recorded ::
  "stellar_lib \<Rightarrow> 'w network \<Rightarrow> 'w \<Rightarrow> 'w \<Rightarrow> stellar_client \<Rightarrow> plan_row \<Rightarrow> plan_row \<Rightarrow> bool" where
  "trigger_recorded lb N w0 w1 cl p q \<longleftrightarrow> (\<exists>h k i. q = set_triggered h k p \<and>
     pr_onchain_plan_id p = Some (int i) \<and> chain_triggered lb N w0 w1 cl i h)"

definition failure_recorded :: "plan_row \<Rightarrow> plan_row \<Rightarrow> bool" where
  "failure_recorded p q \<longleftrightarrow> (\<exists>f. q = set_trigger_failed f p)"

lemma recorded_id:
  "trigger_recorded lb N w0 w1 cl p q \<Longrightarrow> pr_id q = pr_id p \<and> pr_status q = TRIGGERED_STATUS"
  "failure_recorded p q \<Longrightarrow> pr_id q = pr_id p \<and> pr_status q = TRIGGER_FAILED_STATUS"
  by (auto simp: trigger_recorded_def failure_recorded_def set_triggered_def set_trigger_failed_def)

lemma claimed_id [simp]: "pr_id (claimed_as b now p) = pr_id p"
  by (simp add: claimed_as_def)

lemma set_ids [simp]: "pr_id (set_triggered h k p) = pr_id p" "pr_id (set_trigger_failed f p) = pr_id p"
  by (simp_all add: set_triggered_def set_trigger_failed_def)

text \<open>Row \<open>p\<close> became \<open>q\<close> in a sweep that claimed the plans of \<open>B\<close> and is done with those of \<open>D\<close>.\<close>

definition swept ::
  "stellar_lib \<Rightarrow> 'w network \<Rightarrow> 'w \<Rightarrow> 'w \<Rightarrow> stellar_client \<Rightarrow> int \<Rightarrow> nat set \<Rightarrow> nat set \<Rightarrow> plan_row \<Rightarrow> plan_row \<Rightarrow> bool" where
  "swept lb N w0 w1 cl now B D p q \<longleftrightarrow>
     (if pr_id p \<in> B then
        if pr_id p \<in> D
        then trigger_recorded lb N w0 w1 cl (claimed_as True now p) q \<or> failure_recorded (claimed_as True now p) q
        else q = claimed_as True now p
      else q = p)"

lemma swept_id: "swept lb N w0 w1 cl now B D p q \<Longrightarrow> pr_id q = pr_id p"
  by (auto simp: swept_def dest: recorded_id split: if_splits)

lemma swept_later:
  "list_all2 (swept lb N w0 w1 cl now B D) ps qs \<Longrightarrow> net_reach N w1 w2 \<Longrightarrow> list_all2 (swept lb N w0 w2 cl now B D) ps qs"
  by (erule list_all2_mono) (auto simp: swept_def trigger_recorded_def dest: triggered_later split: if_splits)

text \<open>How many of the plans of \<open>D\<close> are triggered.\<close>

definition triggered_in :: "nat set \<Rightarrow> plan_row list \<Rightarrow> nat" where
  "triggered_in D ps = length (filter (\<lambda>p. pr_id p \<in> D \<and> pr_status p = TRIGGERED_STATUS) ps)"

lemma triggered_in_other:
  assumes "i \<notin> pr_id ` set ps"
  shows "triggered_in (insert i D) (map (\<lambda>p. if pr_id p = i then f p else p) ps) = triggered_in D ps"
proof -
  have "map (\<lambda>p. if pr_id p = i then f p else p) ps = ps" using assms by (intro map_idI) auto
  moreover have "filter (\<lambda>p. pr_id p \<in> insert i D \<and> pr_status p = TRIGGERED_STATUS) ps
    = filter (\<lambda>p. pr_id p \<in> D \<and> pr_status p = TRIGGERED_STATUS) ps"
    using assms by (intro filter_cong) auto
  ultimately show ?thesis by (simp add: triggered_in_def)
qed

lemma triggered_in_update:
  assumes "distinct (map pr_id ps)" "i \<in> pr_id ` set ps" "i \<notin> D" "\<And>p. pr_id (f p) = pr_id p" "\<And>p. pr_status (f p) = st"
  shows "triggered_in (insert i D) (map (\<lambda>p. if pr_id p = i then f p else p) ps) =
    triggered_in D ps + (if st = TRIGGERED_STATUS then 1 else 0)"
  using assms
proof (induction ps)
  case (Cons p ps)
  show ?case
  proof (cases "pr_id p = i")
    case True
    then have "i \<notin> pr_id ` set ps" using Cons.prems(1) by auto
    from triggered_in_other [OF this, of D f] show ?thesis
      using True Cons.prems(3-) by (simp add: triggered_in_def)
  next
    case False
    then have "i \<in> pr_id ` set ps" using Cons.prems(2) by auto
    with Cons show ?thesis using False by (simp add: triggered_in_def)
  qed
qed simp

section \<open>One plan of the sweep\<close>

lemma swept_ids: "list_all2 (swept lb N w0 w1 cl now B D) ps qs \<Longrightarrow> map pr_id qs = map pr_id ps"
  by (induction rule: list_all2_induct) (auto dest: swept_id)

lemma swept_update:
  assumes rows: "list_all2 (swept lb N w0 w1 cl now B D) ps qs" and "distinct (map pr_id ps)" and "p \<in> set ps"
    and "pr_id p \<in> B" "pr_id p \<notin> D"
    and "trigger_recorded lb N w0 w1 cl (claimed_as True now p) (f (claimed_as True now p)) \<or>
      failure_recorded (claimed_as True now p) (f (claimed_as True now p))"
  shows "list_all2 (swept lb N w0 w1 cl now B (insert (pr_id p) D)) ps (map (\<lambda>q. if pr_id q = pr_id p then f q else q) qs)"
  unfolding list_all2_map2
  using rows
proof (rule list.rel_mono_strong)
  fix p' q assume "p' \<in> set ps" and q: "swept lb N w0 w1 cl now B D p' q"
  from swept_id [OF q] have id: "pr_id q = pr_id p'" .
  show "swept lb N w0 w1 cl now B (insert (pr_id p) D) p' (if pr_id q = pr_id p then f q else q)"
  proof (cases "pr_id p' = pr_id p")
    case True
    then have "p' = p" using assms(2,3) \<open>p' \<in> set ps\<close> by (auto simp: distinct_map dest: inj_onD)
    then show ?thesis using assms(4-) q by (simp add: swept_def)
  next
    case False
    then show ?thesis using q id by (simp add: swept_def)
  qed
qed

lemma mark_plans:
  assumes "sql (update_plans (\<lambda>q. pr_id q = i) f) s = (r, t)"
  shows "plan_rows t = plan_rows s \<and> (\<forall>x. r \<noteq> Ok x) \<or>
    plan_rows t = map (\<lambda>q. if pr_id q = i then f q else q) (plan_rows s) \<and> (\<exists>x. r = Ok x)"
proof (cases r)
  case (Ok x)
  then show ?thesis using sql_Ok [of "update_plans (\<lambda>q. pr_id q = i) f" s x t] assms
    by (auto simp: update_plans_Some)
next
  case (Err e)
  then show ?thesis using sql_Err [of "update_plans (\<lambda>q. pr_id q = i) f" s e t] assms by auto
qed (use assms in simp)

text \<open>What the two ways through a plan's turn have in common.\<close>

lemma turn_rows:
  assumes rows: "list_all2 (swept lb N w0 w1 cl now B D) ps (plan_rows s)" and ps: "distinct (map pr_id ps)"
    and p: "p \<in> set ps" "pr_id p \<in> B" "pr_id p \<notin> D" and "sv_db s1 = sv_db s"
    and f: "trigger_recorded lb N w0 w1 cl (claimed_as True now p) (f (claimed_as True now p)) \<or>
      failure_recorded (claimed_as True now p) (f (claimed_as True now p))"
    and st: "\<And>q. pr_id (f q) = pr_id q" "\<And>q. pr_status (f q) = st"
    and run: "and_run (sql (update_plans (\<lambda>q. pr_id q = pr_id p) f) s1) (\<lambda>_ s.
      and_run (announce s) (\<lambda>_ s. (Ok (k + c), s))) = (r, t)"
    and announce: "\<And>s. plan_rows (snd (announce s)) = plan_rows s" and c: "c = (if st = TRIGGERED_STATUS then 1 else 0)"
  shows "list_all2 (swept lb N w0 w1 cl now B D) ps (plan_rows t) \<and> (\<forall>x. r \<noteq> Ok x) \<or>
    list_all2 (swept lb N w0 w1 cl now B (insert (pr_id p) D)) ps (plan_rows t) \<and>
    (\<forall>x. r = Ok x \<longrightarrow> x + triggered_in D (plan_rows s) = k + triggered_in (insert (pr_id p) D) (plan_rows t))"
proof -
  obtain m s2 where m: "sql (update_plans (\<lambda>q. pr_id q = pr_id p) f) s1 = (m, s2)" by fastforce
  obtain a s3 where a: "announce s2 = (a, s3)" by fastforce
  have s3: "plan_rows s3 = plan_rows s2" using announce [of s2] a by simp
  from mark_plans [OF m] show ?thesis
  proof (elim disjE conjE exE)
    assume "plan_rows s2 = plan_rows s1" "\<forall>x. m \<noteq> Ok x"
    then have "plan_rows t = plan_rows s1" "\<forall>x. r \<noteq> Ok x" using run m by (cases m; auto)+
    then show ?thesis using rows assms(6) by simp
  next
    fix x assume s2: "plan_rows s2 = map (\<lambda>q. if pr_id q = pr_id p then f q else q) (plan_rows s1)" and "m = Ok x"
    then have t: "plan_rows t = plan_rows s2" "\<forall>x. r = Ok x \<longrightarrow> x = k + c" using run m a s3 by (cases a; auto)+
    have "map pr_id (plan_rows s) = map pr_id ps" using swept_ids [OF rows] .
    then have "distinct (map pr_id (plan_rows s))" "pr_id p \<in> pr_id ` set (plan_rows s)"
      using ps p(1) by (metis, metis image_eqI set_map)
    from triggered_in_update [OF this p(3) st] show ?thesis
      using swept_update [where f = f, OF rows ps p f] t s2 assms(6) c by simp
  qed
qed

lemma sweep_plan_net:
  assumes "trigger_on_chain n lb N wd cl plan (sv_net s) = (q, w)"
  shows "sv_net (snd (sweep_plan n lb N wd cl plan k s)) = w"
  by (cases q) (auto simp: sweep_plan_def on_net_def assms mark_triggered_def mark_trigger_failed_def
      mark_and_announce_net split: prod.split)

lemma sweep_plan_reach: "net_reach N (sv_net s) (sv_net (snd (sweep_plan n lb N wd cl plan k s)))"
proof -
  obtain q w where q: "trigger_on_chain n lb N wd cl plan (sv_net s) = (q, w)" by fastforce
  have "net_reach N (sv_net s) w" using reach_on_chain [OF net_start, of N "sv_net s" n lb wd cl plan] q by simp
  then show ?thesis unfolding sweep_plan_net [OF q] .
qed

lemma sweep_plan_rows:
  assumes old: "list_all2 (swept lb N w0 (sv_net s) cl now B D) ps (plan_rows s)" and ps: "distinct (map pr_id ps)"
    and p: "p \<in> set ps" "pr_id p \<in> B" "pr_id p \<notin> D"
    and start: "net_reach N w0 (sv_net s)"
    and run: "sweep_plan n lb N wd cl (claimed_as True now p) k s = (r, t)"
  shows "list_all2 (swept lb N w0 (sv_net t) cl now B D) ps (plan_rows t) \<and> (\<forall>x. r \<noteq> Ok x) \<or>
    list_all2 (swept lb N w0 (sv_net t) cl now B (insert (pr_id p) D)) ps (plan_rows t) \<and>
    (\<forall>x. r = Ok x \<longrightarrow> x + triggered_in D (plan_rows s) = k + triggered_in (insert (pr_id p) D) (plan_rows t))"
proof -
  obtain q w where q: "trigger_on_chain n lb N wd cl (claimed_as True now p) (sv_net s) = (q, w)" by fastforce
  obtain s1 where o1: "on_net (trigger_on_chain n lb N wd cl (claimed_as True now p)) s = (q, s1)"
    and s1: "sv_db s1 = sv_db s" by (simp add: on_net_def q)
  have w: "sv_net t = w" using sweep_plan_net [OF q, of k] run by simp
  have rows: "list_all2 (swept lb N w0 (sv_net t) cl now B D) ps (plan_rows s)"
    using swept_later [OF old] sweep_plan_reach [of N s n lb wd cl "claimed_as True now p" k] run by simp
  show ?thesis
  proof (cases q)
    case (Ok ha)
    then obtain h a where ha: "q = Ok (h, a)" by (cases ha) auto
    from q [unfolded ha] obtain i where
      i: "pr_onchain_plan_id (claimed_as True now p) = Some (int i)" "chain_triggered lb N (sv_net s) w cl i h"
      by (rule trigger_on_chain_Ok)
    from triggered_earlier [OF i(2) start] i(1)
    have "trigger_recorded lb N w0 (sv_net t) cl (claimed_as True now p) (set_triggered h a (claimed_as True now p))"
      unfolding trigger_recorded_def w by blast
    then show ?thesis
      using run o1 ha
      by (intro turn_rows [OF rows ps p s1, where f = "set_triggered h a" and st = TRIGGERED_STATUS and c = 1
            and announce = "announce_triggered (claimed_as True now p) (Some h)"])
        (simp_all add: sweep_plan_def mark_triggered_def set_triggered_def)
  next
    case (Err f)
    have "failure_recorded (claimed_as True now p) (set_trigger_failed f (claimed_as True now p))"
      unfolding failure_recorded_def by blast
    then show ?thesis
      using run o1 Err
      by (intro turn_rows [OF rows ps p s1, where f = "set_trigger_failed f" and st = TRIGGER_FAILED_STATUS and c = 0
            and announce = "announce_trigger_failure (claimed_as True now p) f"])
        (simp_all add: sweep_plan_def mark_trigger_failed_def set_trigger_failed_def TRIGGERED_STATUS_def
          TRIGGER_FAILED_STATUS_def)
  next
    case Panic
    then show ?thesis using run o1 rows s1 by (simp add: sweep_plan_def)
  qed
qed

end
