(* ===== verification/Watchdog_Run.thy ===== *)
theory Watchdog_Run
  imports Watchdog_Sweep
begin

text \<open>
  A whole sweep: the rows it leaves, that it returns, and how many transactions it submits.
\<close>

section \<open>All plans of the sweep\<close>

lemma sweep_fold:
  assumes "list_all2 (swept lb N w0 (sv_net s) cl now B D) ps (plan_rows s)" and "distinct (map pr_id ps)"
    and "set xs \<subseteq> set ps" "pr_id ` set xs \<subseteq> B" "pr_id ` set xs \<inter> D = {}" "distinct (map pr_id xs)" "D \<subseteq> B"
    and "net_reach N w0 (sv_net s)"
    and "fold_steps (sweep_plan n lb N wd cl) (map (claimed_as True now) xs) k s = (r, t)"
  shows "(\<exists>D' \<subseteq> B. list_all2 (swept lb N w0 (sv_net t) cl now B D') ps (plan_rows t)) \<and> net_reach N (sv_net s) (sv_net t) \<and>
    (\<forall>x. r = Ok x \<longrightarrow> list_all2 (swept lb N w0 (sv_net t) cl now B (D \<union> pr_id ` set xs)) ps (plan_rows t) \<and>
      x + triggered_in D (plan_rows s) = k + triggered_in (D \<union> pr_id ` set xs) (plan_rows t))"
  using assms
proof (induction xs arbitrary: s k D)
  case Nil
  then show ?case by (auto intro: net_start)
next
  case (Cons p xs)
  obtain o1 s1 where o1: "sweep_plan n lb N wd cl (claimed_as True now p) k s = (o1, s1)" by fastforce
  have p: "p \<in> set ps" "pr_id p \<in> B" "pr_id p \<notin> D" using Cons.prems by auto
  have reach: "net_reach N (sv_net s) (sv_net s1)"
    using sweep_plan_reach [of N s n lb wd cl "claimed_as True now p" k] o1 by simp
  note turn = sweep_plan_rows [OF Cons.prems(1,2) p Cons.prems(8) o1]
  have some: "\<exists>D' \<subseteq> B. list_all2 (swept lb N w0 (sv_net s1) cl now B D') ps (plan_rows s1)"
    using turn Cons.prems(7) p by (auto intro: exI [of _ D] exI [of _ "insert (pr_id p) D"])
  show ?case
  proof (cases o1)
    case (Ok x1)
    then have rows: "list_all2 (swept lb N w0 (sv_net s1) cl now B (insert (pr_id p) D)) ps (plan_rows s1)"
      and count: "x1 + triggered_in D (plan_rows s) = k + triggered_in (insert (pr_id p) D) (plan_rows s1)"
      using turn by auto
    have "fold_steps (sweep_plan n lb N wd cl) (map (claimed_as True now) xs) x1 s1 = (r, t)"
      using Cons.prems(9) o1 Ok by simp
    from Cons.IH [OF rows Cons.prems(2) _ _ _ _ _ _ this] Cons.prems count reach_trans [OF reach Cons.prems(8)]
    show ?thesis by (auto intro: reach_trans [OF _ reach])
  next
    case (Err e)
    then have "r = Err e" "t = s1" using Cons.prems(9) o1 by auto
    then show ?thesis using some reach by simp
  next
    case Panic
    then have "r = Panic" "t = s1" using Cons.prems(9) o1 by auto
    then show ?thesis using some reach by simp
  qed
qed

lemma swept_refl: "list_all2 (swept lb N w0 w1 cl now {} D) ps ps"
  by (auto simp: swept_def list.rel_refl)

lemma swept_claim:
  "list_all2 (swept lb N w0 w1 cl now B {}) ps (map (\<lambda>p. if pr_id p \<in> B then claimed_as True now p else p) ps)"
  by (simp add: list_all2_map2 swept_def list.rel_refl)

text \<open>
  The rows after a sweep: it is done with the plans of \<open>D\<close> among those it claimed. A sweep that returns
  is done with the whole batch, unless another worker held the lock.
\<close>

lemma sweep_rows:
  assumes run: "run_once n lb N wd s = (r, t)" and cl: "wd_stellar wd = Some cl" and ps: "distinct (map pr_id (plan_rows s))"
  obtains B D where "B \<subseteq> batch_ids wd True s" "D \<subseteq> B" "list_all2 (swept lb N (sv_net s) (sv_net t) cl (sv_now s) B D) (plan_rows s) (plan_rows t)"
    "net_reach N (sv_net s) (sv_net t)"
    "\<And>k. r = Ok k \<Longrightarrow> D = B \<and> k = triggered_in B (plan_rows t) \<and> (\<not> sv_lock_held s \<longrightarrow> B = batch_ids wd True s)"
proof -
  obtain o1 s1 where o1: "claim_expired_plans wd True s = (o1, s1)" by fastforce
  show thesis
    using o1
  proof (cases rule: claim_cases)
    case idle
    then have *: "plan_rows t = plan_rows s" "\<And>k. r = Ok k \<Longrightarrow> k = 0 \<and> sv_lock_held s" "sv_net t = sv_net s1"
      using run cl o1 by (cases o1; auto simp: run_once_def Let_def)+
    have "list_all2 (swept lb N (sv_net s) (sv_net t) cl (sv_now s) {} {}) (plan_rows s) (plan_rows t)"
      unfolding *(1) by (rule swept_refl)
    moreover have "net_reach N (sv_net s) (sv_net t)"
      using claim_net [of wd True s] o1 net_start [of N "sv_net s"] *(3) by simp
    ultimately show thesis using *(2) by (intro that [of "{}" "{}"]) (auto simp: triggered_in_def)
  next
    case (claimed claimed)
    let ?B = "batch_ids wd True s" and ?now = "sv_now s"
    let ?xs = "filter (\<lambda>p. pr_id p \<in> ?B) (plan_rows s)"
    have rows: "list_all2 (swept lb N (sv_net s) (sv_net s1) cl ?now ?B {}) (plan_rows s) (plan_rows s1)"
      using swept_claim claimed(4) by simp
    have xs: "set ?xs \<subseteq> set (plan_rows s)" "pr_id ` set ?xs \<subseteq> ?B" "distinct (map pr_id ?xs)"
      using ps by (auto simp: distinct_map_filter)
    have "?B \<subseteq> pr_id ` set (plan_rows s)"
      by (auto simp: batch_ids_def expired_batch_def dest!: in_set_takeD)
    then have B: "pr_id ` set ?xs = ?B" by auto
    have start: "net_reach N (sv_net s) (sv_net s1)"
      using claim_net [of wd True s] o1 net_start [of N "sv_net s"] by simp
    have steps: "fold_steps (sweep_plan n lb N wd cl) (map (claimed_as True ?now) ?xs) 0 s1 = (r, t)"
      using run cl o1 claimed(1,3) by (cases "?xs = []") (simp_all add: run_once_def)
    note fold = sweep_fold [OF rows ps xs(1,2) Int_empty_right xs(3) empty_subsetI start steps, unfolded B Un_empty_left]
    have reach: "net_reach N (sv_net s) (sv_net t)" using fold start by (blast intro: reach_trans)
    obtain D where D: "D \<subseteq> ?B" "list_all2 (swept lb N (sv_net s) (sv_net t) cl ?now ?B D) (plan_rows s) (plan_rows t)"
      using fold by blast
    have none: "triggered_in {} qs = 0" for qs by (simp add: triggered_in_def)
    have full: "list_all2 (swept lb N (sv_net s) (sv_net t) cl ?now ?B ?B) (plan_rows s) (plan_rows t)" "x = triggered_in ?B (plan_rows t)"
      if "r = Ok x" for x using fold that none by simp_all
    show thesis
    proof (cases r)
      case (Ok x)
      then show thesis using full [OF Ok] reach by (intro that [of ?B ?B]) simp_all
    qed (use D reach in \<open>intro that [of ?B D]; simp\<close>)+
  qed
qed

text \<open>The batch holds plans that are due.\<close>

lemma batch_expired:
  assumes "pr_id p \<in> batch_ids wd on_chain s" and "p \<in> set (plan_rows s)" and "distinct (map pr_id (plan_rows s))"
  shows "expired_plan on_chain (oc_stale_after (wc_on_chain (wd_config wd))) (sv_now s) p"
proof -
  from assms(1) obtain q where q: "q \<in> set (plan_rows s)" "pr_id p = pr_id q"
    "expired_plan on_chain (oc_stale_after (wc_on_chain (wd_config wd))) (sv_now s) q"
    by (auto simp: batch_ids_def expired_batch_def dest!: in_set_takeD)
  then have "p = q" using assms(2,3) by (auto simp: distinct_map dest: inj_onD)
  with q show ?thesis by simp
qed

section \<open>The sweep returns\<close>

lemma sql_returns [simp]: "fst (sql stmt s) \<noteq> Panic"
  using sql_not_Panic [of stmt s "snd (sql stmt s)"] by (metis prod.collapse)

lemma or_else_returns [simp]: "fst r \<noteq> Panic \<Longrightarrow> fst (or_else r x) \<noteq> Panic"
  by (cases r; cases "fst r") (auto simp: or_else_def)

lemma or_respond_returns [simp]: "fst r \<noteq> Panic \<Longrightarrow> fst (or_respond r x) \<noteq> Panic"
  by (cases "fst r") (auto simp: or_respond_def map_error_def)

lemma fold_returns: "(\<And>x a s. fst (f x a s) \<noteq> Panic) \<Longrightarrow> fst (fold_steps f xs a s) \<noteq> Panic"
  by (induction xs arbitrary: a s) (auto simp: and_run_Panic)

lemma rolled_back_returns [simp]: "fst (rolled_back db r) = fst r"
  by (cases r; cases "fst r") auto

lemma transaction_returns: "(\<And>s. fst (body s) \<noteq> Panic) \<Longrightarrow> fst (in_transaction e1 e2 body s) \<noteq> Panic"
  by (auto simp: in_transaction_def begin_transaction_def and_run_Panic)

lemma enqueue_returns [simp]: "fst (enqueue_event e p s) \<noteq> Panic"
  by (auto simp: enqueue_event_def and_run_Panic fold_returns)

lemma announce_returns [simp]:
  "fst (announce_triggered p h s) \<noteq> Panic" "fst (announce_trigger_failure p f s) \<noteq> Panic"
  by (auto simp: announce_triggered_def announce_trigger_failure_def Let_def and_run_Panic)

lemma claim_returns [simp]: "fst (claim_expired_plans wd b s) \<noteq> Panic"
  unfolding claim_expired_plans_def by (rule transaction_returns) (auto simp: and_run_Panic)

context running_clock
begin

lemma attempts_return:
  assumes "\<And>ctx. sl_soroban cl = Some ctx \<Longrightarrow>
    sb_poll_timeout (cx_config ctx) < n * sb_poll_interval (cx_config ctx)"
  shows "fst (trigger_attempts left (Suc n) lb N retry cl i e w) \<noteq> Panic"
proof (induction left arbitrary: w e)
  case (Suc left)
  have "fst (cl_trigger_inheritance (Suc n) lb N cl i w) \<noteq> Panic"
    using invocation_returns [OF assms]
    by (auto simp: cl_trigger_inheritance_def invoke_for_plan_def client_soroban_def and_run_Panic)
  moreover have "verify_trigger_event cl outc i \<noteq> Panic" for outc
    by (auto simp: verify_trigger_event_def ensure_def split: option.split)
  ultimately show ?case
    using Suc.IH by (auto simp: Let_def split: prod.split outcome.split)
qed simp

lemma sweep_plan_returns:
  assumes "\<And>ctx. sl_soroban cl = Some ctx \<Longrightarrow>
    sb_poll_timeout (cx_config ctx) < n * sb_poll_interval (cx_config ctx)"
  shows "fst (sweep_plan (Suc n) lb N wd cl plan k s) \<noteq> Panic"
proof -
  have "fst (trigger_on_chain (Suc n) lb N wd cl plan w) \<noteq> Panic" for w
    using attempts_return [OF assms] by (auto simp: trigger_on_chain_def Let_def split: option.split)
  then have "fst (on_net (trigger_on_chain (Suc n) lb N wd cl plan) s) \<noteq> Panic"
    by (simp add: on_net_def split: prod.split) (metis fst_conv)
  then show ?thesis
    by (auto simp: sweep_plan_def and_run_Panic mark_triggered_def mark_trigger_failed_def split: prod.split outcome.split)
qed

lemma run_returns:
  assumes "\<And>cl ctx. wd_stellar wd = Some cl \<Longrightarrow> sl_soroban cl = Some ctx \<Longrightarrow>
    sb_poll_timeout (cx_config ctx) < n * sb_poll_interval (cx_config ctx)"
  shows "fst (run_once (Suc n) lb N wd s) \<noteq> Panic"
proof (cases "wd_stellar wd")
  case None
  then show ?thesis by (auto simp: run_once_def and_run_Panic fold_returns)
next
  case (Some cl)
  have "fst (sweep_plan (Suc n) lb N wd cl plan k s) \<noteq> Panic" for plan k s
    using assms [OF Some] by (rule sweep_plan_returns)
  then show ?thesis using Some by (auto simp: run_once_def and_run_Panic fold_returns)
qed

end

section \<open>The submissions of a sweep\<close>

lemma claimed_length:
  assumes "distinct (map pr_id (plan_rows s))"
  shows "length (filter (\<lambda>p. pr_id p \<in> batch_ids wd on_chain s) (plan_rows s)) \<le> nat (wc_batch_size (wd_config wd))"
proof -
  let ?xs = "filter (\<lambda>p. pr_id p \<in> batch_ids wd on_chain s) (plan_rows s)"
  let ?b = "expired_batch (wd_config wd) on_chain (sv_now s) (sv_locked_rows s) (plan_rows s)"
  have "length ?xs = card (pr_id ` set ?xs)"
    using assms distinct_card [of "map pr_id ?xs"] by (simp add: distinct_map_filter)
  also have "\<dots> \<le> card (batch_ids wd on_chain s)"
    by (rule card_mono) (auto simp: batch_ids_def)
  also have "\<dots> \<le> length ?b"
    unfolding batch_ids_def by (metis card_image_le card_length finite_set order_trans)
  also have "\<dots> \<le> nat (wc_batch_size (wd_config wd))"
    by (simp add: expired_batch_def)
  finally show ?thesis .
qed

context counted_sends
begin

lemma sent_attempts: "sent (snd (trigger_attempts left n lb N retry cl i e w)) \<le> sent w + left"
proof (induction left arbitrary: w e)
  case (Suc left)
  obtain r v where r: "cl_trigger_inheritance n lb N cl i w = (r, v)" by fastforce
  have "sent (snd (cl_trigger_inheritance n lb N cl i w)) \<le> sent w + 1"
    unfolding cl_trigger_inheritance_def invoke_for_plan_def
    by (rule sent_and_run [where k = "sent w"]) (auto intro: order_trans [OF sent_invoke])
  then have v: "sent v \<le> sent w + 1" by (simp add: r)
  have "sent (snd (trigger_attempts left n lb N retry cl i e' v')) \<le> sent w + Suc left" if "sent v' = sent v" for e' v'
    using Suc.IH [where w = v' and e = e'] that v by linarith
  then show ?case using v by (auto simp: r Let_def split: outcome.split)
qed simp

lemma sent_sweep_plan:
  "sent (sv_net (snd (sweep_plan n lb N wd cl plan k s))) \<le> sent (sv_net s) + oc_max_attempts (wc_on_chain (wd_config wd))"
proof -
  obtain r w where r: "trigger_on_chain n lb N wd cl plan (sv_net s) = (r, w)" by fastforce
  have w: "sent w \<le> sent (sv_net s) + oc_max_attempts (wc_on_chain (wd_config wd))"
    using sent_attempts [of "oc_max_attempts (wc_on_chain (wd_config wd))" n lb "wc_on_chain (wd_config wd)" cl _ NoAttempt
        "sv_net s"] r
    by (auto simp: trigger_on_chain_def Let_def split: option.splits if_splits) (metis snd_conv)
  show ?thesis
    using w
    by (cases r) (auto simp: sweep_plan_def on_net_def r mark_triggered_def mark_trigger_failed_def mark_and_announce_net
        split: prod.split)
qed

lemma sent_fold:
  "sent (sv_net (snd (fold_steps (sweep_plan n lb N wd cl) xs k s))) \<le>
    sent (sv_net s) + length xs * oc_max_attempts (wc_on_chain (wd_config wd))"
proof (induction xs arbitrary: k s)
  case (Cons x xs)
  obtain o1 s1 where o1: "sweep_plan n lb N wd cl x k s = (o1, s1)" by fastforce
  have s1: "sent (sv_net s1) \<le> sent (sv_net s) + oc_max_attempts (wc_on_chain (wd_config wd))"
    using sent_sweep_plan [of n lb wd cl x k s] by (simp add: o1)
  show ?case
  proof (cases o1)
    case (Ok y)
    then show ?thesis using Cons.IH [of y s1] s1 by (simp add: o1)
  qed (use s1 in \<open>simp_all add: o1\<close>)
qed simp

lemma sent_run:
  assumes "distinct (map pr_id (plan_rows s))"
  shows "sent (sv_net (snd (run_once n lb N wd s))) \<le>
    sent (sv_net s) + nat (wc_batch_size (wd_config wd)) * oc_max_attempts (wc_on_chain (wd_config wd))"
proof -
  let ?m = "oc_max_attempts (wc_on_chain (wd_config wd))"
  obtain o1 s1 where o1: "claim_expired_plans wd (wd_stellar wd \<noteq> None) s = (o1, s1)" by fastforce
  have s1: "sv_net s1 = sv_net s" using claim_net [of wd "wd_stellar wd \<noteq> None" s] o1 by simp
  have len: "length claimed \<le> nat (wc_batch_size (wd_config wd))" if "o1 = Ok claimed" for claimed
    using o1
  proof (cases rule: claim_cases)
    case idle
    then show ?thesis using that by auto
  next
    case (claimed c)
    then show ?thesis using that claimed_length [OF assms, of wd "wd_stellar wd \<noteq> None"] by simp
  qed
  show ?thesis
  proof (cases "\<exists>claimed cl. o1 = Ok claimed \<and> claimed \<noteq> [] \<and> wd_stellar wd = Some cl")
    case True
    then obtain claimed cl where c: "o1 = Ok claimed" "claimed \<noteq> []" "wd_stellar wd = Some cl" by blast
    have "length claimed * ?m \<le> nat (wc_batch_size (wd_config wd)) * ?m" using len [OF c(1)] by simp
    moreover have "sent (sv_net (snd (run_once n lb N wd s))) \<le> sent (sv_net s1) + length claimed * ?m"
      using sent_fold [of n lb wd cl claimed 0 s1] o1 c by (simp add: run_once_def)
    ultimately show ?thesis unfolding s1 by (rule order_trans [rotated, OF add_left_mono])
  next
    case False
    have *: "sv_net (snd (and_run (fold_steps (\<lambda>plan _. announce_triggered plan None) xs () s1) (\<lambda>_ s. (Ok y, s)))) = sv_net s1"
      for xs and y :: nat
      by (rule net_keeps) (simp_all add: fold_net)
    from False show ?thesis using s1 o1 by (cases o1) (auto simp: run_once_def * split: option.split)
  qed
qed

end

end
