(* ===== verification/Loan_Lifecycle.thy ===== *)
theory Loan_Lifecycle
  imports Service
begin

text \<open>
  \<open>backend/src/loan_lifecycle.rs\<close>: the requests that freeze, recall and settle the loans of a triggered
  plan on the chain and record how far that is. A response is the data of its JSON.
\<close>

definition FREEZE_EVENT_TOPICS :: "string list" where "FREEZE_EVENT_TOPICS = [''LOAN'', ''FREEZE'']"
definition RECALL_EVENT_TOPICS :: "string list" where "RECALL_EVENT_TOPICS = [''LOAN'', ''RECALL'']"
definition LIQUIDATE_EVENT_TOPICS :: "string list" where "LIQUIDATE_EVENT_TOPICS = [''LOAN'', ''LIQUIDAT'']"
definition ALLOWED_STATUSES :: "string list" where "ALLOWED_STATUSES = [''TRIGGERED'', ''CLAIMABLE'']"

section \<open>Errors\<close>

definition stellar_error_response :: "string \<Rightarrow> submit_error \<Rightarrow> http_error" where
  "stellar_error_response action error =
     (case error of
        NotConfigured \<Rightarrow> (503, Text ''Soroban contract invocation is not configured'')
      | SimulationError detail \<Rightarrow>
          (let conflict = to_ascii_lowercase detail in
           if contains conflict ''nottriggered'' \<or> contains conflict ''not triggered'' \<or> contains conflict ''#43''
           then (409, TextWith ''Inheritance has not been triggered'' detail)
           else (400, ChainText action error))
      | ConfigError _ \<Rightarrow> (500, ChainText action error)
      | XdrError _ \<Rightarrow> (500, ChainText action error)
      | _ \<Rightarrow> (502, ChainText action error))"

definition or_stellar :: "('a, submit_error) outcome \<times> 's \<Rightarrow> string \<Rightarrow> ('a, http_error) outcome \<times> 's" where
  "or_stellar r action = (map_error (stellar_error_response action) (fst r), snd r)"

section \<open>Guards\<close>

definition load_plan :: "nat \<Rightarrow> (plan_row, http_error, 'w) request" where
  "load_plan plan_id s =
     and_run (or_respond (sql (read_rows (plan_by_id plan_id)) s) (500, Text ''Database query failed'')) (\<lambda>row s.
     (ok_or row (404, Text ''Plan not found''), s))"

definition require_triggered :: "plan_row \<Rightarrow> (unit, http_error) outcome" where
  "require_triggered plan =
     and_then (ensure (pr_is_active plan) (409, Text ''Plan is no longer active'')) (\<lambda>_.
     ensure (pr_status plan \<in> set ALLOWED_STATUSES)
       (409, TextWith ''Plan must be in the triggered state. Current status'' (pr_status plan)))"

definition require_onchain_id :: "plan_row \<Rightarrow> (nat, http_error) outcome" where
  "require_onchain_id plan =
     (case pr_onchain_plan_id plan of
        Some i \<Rightarrow> if 0 \<le> i then Ok (nat i)
          else Err (409, Text ''Plan has no on-chain identifier; it cannot invoke the lending vault'')
      | None \<Rightarrow> Err (409, Text ''Plan has no on-chain identifier; it cannot invoke the lending vault''))"

definition resolve_recall_amount ::
  "stellar_lib \<Rightarrow> 'w network \<Rightarrow> stellar_client \<Rightarrow> nat \<Rightarrow> nat option \<Rightarrow> (nat, http_error, 'w) request" where
  "resolve_recall_amount lb N cl onchain_id requested s =
     (case requested of
        Some amount \<Rightarrow>
          (if amount = 0 then Err (400, Text ''recall_amount must be greater than zero'') else Ok amount, s)
      | None \<Rightarrow>
          and_run (or_stellar (on_net (outstanding_loaned lb N cl onchain_id) s) ''read outstanding loans'')
            (\<lambda>value s. (ok_or value (409, Text ''Inheritance has not been triggered on-chain''), s)))"

definition outstanding_after ::
  "stellar_lib \<Rightarrow> 'w network \<Rightarrow> stellar_client \<Rightarrow> nat \<Rightarrow> (nat option, http_error, 'w) request" where
  "outstanding_after lb N cl onchain_id s = or_else (on_net (outstanding_loaned lb N cl onchain_id) s) None"

definition verify_loan_event ::
  "stellar_client \<Rightarrow> invocation_outcome \<Rightarrow> nat \<Rightarrow> string list \<Rightarrow> (unit, http_error) outcome" where
  "verify_loan_event cl outc expected_plan_id topics =
     (case client_contract cl of
        None \<Rightarrow> Ok ()
      | Some contract \<Rightarrow>
          and_then (ok_or (find_event (io_events outc) contract topics)
            (502, TextWith ''the transaction succeeded but emitted no event'' (io_tx_hash outc))) (\<lambda>event.
          case event_u64_field event ''plan_id'' of
            Some plan_id \<Rightarrow> ensure (plan_id = expected_plan_id)
              (502, TextWith ''the transaction targeted another plan'' (io_tx_hash outc))
          | None \<Rightarrow> Ok ()))"

section \<open>The record of the life cycle\<close>

definition upsert_lifecycle ::
  "nat \<Rightarrow> string option \<Rightarrow> int option \<Rightarrow> string option \<Rightarrow> nat \<Rightarrow> string option \<Rightarrow> (unit, http_error, 'w) request" where
  "upsert_lifecycle plan_id freeze_status recall_progress settlement_status outstanding tx_hash s =
     or_respond (sql (upsert_lifecycle_row plan_id freeze_status recall_progress settlement_status
       (as_i64 outstanding) tx_hash (sv_now s)) s) (500, Text ''Failed to persist loan status'')"

definition invalidate_plan_cache :: "plan_row \<Rightarrow> (unit, http_error, 'w) request" where
  "invalidate_plan_cache plan s =
     and_run (or_else (sql (read_rows (beneficiary_addresses (pr_id plan))) s) []) (\<lambda>addresses s.
     (Ok (), invalidate_cache (pr_owner_address plan) addresses s))"

definition emit_status :: "status_event \<Rightarrow> string \<Rightarrow> plan_row \<Rightarrow> string option \<Rightarrow> (unit, http_error, 'w) request" where
  "emit_status event webhook_type plan tx_hash s =
     or_else (enqueue_event webhook_type (LoanEvent (pr_id plan) (pr_owner_address plan) (pr_onchain_plan_id plan)
       (se_status event) tx_hash (se_remaining_loaned event)) (send_status event s)) ()"

text \<open>The end of every request: the record, the cache, the messages.\<close>

definition record_progress ::
  "plan_row \<Rightarrow> status_event \<Rightarrow> string \<Rightarrow> string option \<Rightarrow> 'a \<Rightarrow> ('a, http_error, 'w) request" where
  "record_progress plan event webhook_type tx_hash response s =
     and_run (invalidate_plan_cache plan s) (\<lambda>_ s.
     and_run (emit_status event webhook_type plan tx_hash s) (\<lambda>_ s. (Ok response, s)))"

section \<open>The requests\<close>

record loan_response =
  lo_plan_id :: nat
  lo_tx_hash :: "string option"
  lo_on_chain :: bool
  lo_amount :: nat
  lo_recall_progress :: int
  lo_remaining_loaned :: nat

definition freeze_on_chain ::
  "nat \<Rightarrow> stellar_lib \<Rightarrow> 'w network \<Rightarrow> stellar_client \<Rightarrow> plan_row \<Rightarrow>
   (string option \<times> nat option, http_error, 'w) request" where
  "freeze_on_chain n lb N cl plan s =
     (if \<not> soroban_enabled cl then (Ok (None, None), s)
      else
        and_run (require_onchain_id plan, s) (\<lambda>onchain_id s.
        and_run (or_stellar (on_net (cl_freeze_loans n lb N cl onchain_id) s) ''freeze loans'') (\<lambda>outc s.
        and_run (verify_loan_event cl outc onchain_id FREEZE_EVENT_TOPICS, s) (\<lambda>_ s.
        and_run (outstanding_after lb N cl onchain_id s) (\<lambda>remaining s.
        (Ok (Some (io_tx_hash outc), remaining), s))))))"

definition freeze_loans_handler ::
  "nat \<Rightarrow> stellar_lib \<Rightarrow> 'w network \<Rightarrow> stellar_client \<Rightarrow> nat \<Rightarrow> (loan_response, http_error, 'w) request" where
  "freeze_loans_handler n lb N cl plan_id s =
     and_run (load_plan plan_id s) (\<lambda>plan s.
     and_run (require_triggered plan, s) (\<lambda>_ s.
     and_run (freeze_on_chain n lb N cl plan s) (\<lambda>(tx_hash, remaining) s.
     let remaining_loaned = unwrap_or 0 remaining in
     and_run (upsert_lifecycle (pr_id plan) (Some ''FROZEN'') None None remaining_loaned tx_hash s) (\<lambda>_ s.
     record_progress plan
       \<lparr>se_event_type = ''plan.loans_frozen'', se_plan_id = pr_id plan, se_status = ''FROZEN'', se_tx_hash = tx_hash,
        se_freeze_status = Some ''FROZEN'', se_recall_progress = None, se_settlement_status = None,
        se_remaining_loaned = Some remaining_loaned\<rparr> ''plan.loans_frozen'' tx_hash
       \<lparr>lo_plan_id = pr_id plan, lo_tx_hash = tx_hash, lo_on_chain = soroban_enabled cl, lo_amount = 0,
        lo_recall_progress = 0, lo_remaining_loaned = remaining_loaned\<rparr> s))))"

text \<open>The amounts are read from the event where the client knows its contract.\<close>

definition event_amount :: "stellar_client \<Rightarrow> invocation_outcome \<Rightarrow> string list \<Rightarrow> string \<Rightarrow> nat \<Rightarrow> nat" where
  "event_amount cl outc topics field dflt =
     (case Option.bind (client_contract cl) (\<lambda>contract. find_event (io_events outc) contract topics) of
        None \<Rightarrow> 0
      | Some event \<Rightarrow> unwrap_or dflt (event_u64_field event field))"

definition recall_on_chain ::
  "nat \<Rightarrow> stellar_lib \<Rightarrow> 'w network \<Rightarrow> stellar_client \<Rightarrow> nat option \<Rightarrow> plan_row \<Rightarrow>
   (string option \<times> nat \<times> nat, http_error, 'w) request" where
  "recall_on_chain n lb N cl requested plan s =
     (if \<not> soroban_enabled cl then (Ok (None, 0, unwrap_or 0 requested), s)
      else
        and_run (require_onchain_id plan, s) (\<lambda>onchain_id s.
        and_run (resolve_recall_amount lb N cl onchain_id requested s) (\<lambda>outstanding s.
        if outstanding = 0 then (Ok (None, 0, 0), s)
        else
          and_run (or_stellar (on_net (cl_recall_loan n lb N cl onchain_id outstanding) s) ''recall loans'') (\<lambda>outc s.
          and_run (verify_loan_event cl outc onchain_id RECALL_EVENT_TOPICS, s) (\<lambda>_ s.
          (Ok (Some (io_tx_hash outc), event_amount cl outc RECALL_EVENT_TOPICS ''remaining_loaned'' 0,
             event_amount cl outc RECALL_EVENT_TOPICS ''recalled_amount'' outstanding), s))))))"

definition recall_loans ::
  "nat \<Rightarrow> stellar_lib \<Rightarrow> 'w network \<Rightarrow> stellar_client \<Rightarrow> nat option \<Rightarrow> nat \<Rightarrow>
   (loan_response, http_error, 'w) request" where
  "recall_loans n lb N cl requested plan_id s =
     and_run (load_plan plan_id s) (\<lambda>plan s.
     and_run (require_triggered plan, s) (\<lambda>_ s.
     and_run (recall_on_chain n lb N cl requested plan s) (\<lambda>(tx_hash, remaining_loaned, recalled_amount) s.
     let recall_progress = (if remaining_loaned = 0 then 100 else 50) in
     and_run (upsert_lifecycle (pr_id plan) None (Some recall_progress) None remaining_loaned tx_hash s) (\<lambda>_ s.
     record_progress plan
       \<lparr>se_event_type = ''plan.loans_recalled'', se_plan_id = pr_id plan,
        se_status = (if remaining_loaned = 0 then ''RECALLED'' else ''PARTIAL''), se_tx_hash = tx_hash,
        se_freeze_status = None, se_recall_progress = Some recall_progress, se_settlement_status = None,
        se_remaining_loaned = Some remaining_loaned\<rparr> ''plan.loans_recalled'' tx_hash
       \<lparr>lo_plan_id = pr_id plan, lo_tx_hash = tx_hash, lo_on_chain = soroban_enabled cl, lo_amount = recalled_amount,
        lo_recall_progress = recall_progress, lo_remaining_loaned = remaining_loaned\<rparr> s))))"

definition settle_on_chain ::
  "nat \<Rightarrow> stellar_lib \<Rightarrow> 'w network \<Rightarrow> stellar_client \<Rightarrow> plan_row \<Rightarrow> (string option \<times> nat, http_error, 'w) request" where
  "settle_on_chain n lb N cl plan s =
     (if \<not> soroban_enabled cl then (Ok (None, 0), s)
      else
        and_run (require_onchain_id plan, s) (\<lambda>onchain_id s.
        and_run (or_stellar (on_net (outstanding_loaned lb N cl onchain_id) s) ''read outstanding loans'') (\<lambda>value s.
        let outstanding = unwrap_or 0 value in
        if outstanding = 0 then (Ok (None, 0), s)
        else
          and_run (or_stellar (on_net (cl_liquidation_fallback n lb N cl onchain_id) s) ''liquidate and settle'') (\<lambda>outc s.
          and_run (verify_loan_event cl outc onchain_id LIQUIDATE_EVENT_TOPICS, s) (\<lambda>_ s.
          (Ok (Some (io_tx_hash outc), event_amount cl outc LIQUIDATE_EVENT_TOPICS ''settled_amount'' outstanding), s))))))"

definition mark_claimable :: "nat \<Rightarrow> service_db \<Rightarrow> (plan_row list \<times> service_db) option" where
  "mark_claimable plan_id =
     update_plans (\<lambda>p. pr_id p = plan_id \<and> pr_status p = ''TRIGGERED'') (\<lambda>p. p\<lparr>pr_status := ''CLAIMABLE''\<rparr>)"

definition liquidate_and_settle ::
  "nat \<Rightarrow> stellar_lib \<Rightarrow> 'w network \<Rightarrow> stellar_client \<Rightarrow> nat \<Rightarrow> (loan_response, http_error, 'w) request" where
  "liquidate_and_settle n lb N cl plan_id s =
     and_run (load_plan plan_id s) (\<lambda>plan s.
     and_run (require_triggered plan, s) (\<lambda>_ s.
     and_run (settle_on_chain n lb N cl plan s) (\<lambda>(tx_hash, settled_amount) s.
     and_run (upsert_lifecycle (pr_id plan) None (Some 100) (Some ''SETTLED'') 0 tx_hash s) (\<lambda>_ s.
     and_run (or_respond (sql (mark_claimable (pr_id plan)) s) (500, Text ''Failed to update plan status'')) (\<lambda>_ s.
     record_progress plan
       \<lparr>se_event_type = ''plan.liquidated'', se_plan_id = pr_id plan, se_status = ''SETTLED'', se_tx_hash = tx_hash,
        se_freeze_status = None, se_recall_progress = Some 100, se_settlement_status = Some ''SETTLED'',
        se_remaining_loaned = Some 0\<rparr> ''plan.settled'' tx_hash
       \<lparr>lo_plan_id = pr_id plan, lo_tx_hash = tx_hash, lo_on_chain = soroban_enabled cl, lo_amount = settled_amount,
        lo_recall_progress = 100, lo_remaining_loaned = 0\<rparr> s)))))"

record trigger_info_response =
  tr_timestamp :: "int option"
  tr_freeze_status :: string
  tr_recall_progress :: int
  tr_settlement_status :: string
  tr_outstanding_loans :: "(string \<times> int \<times> string) list"

definition loan_status :: "string \<Rightarrow> int \<Rightarrow> string" where
  "loan_status freeze_status recall_progress =
     (if freeze_status = ''FROZEN'' \<and> recall_progress \<ge> 100 then ''Recalled''
      else if freeze_status = ''FROZEN'' then ''Frozen'' else ''Active'')"

definition lifecycle_response :: "lifecycle_row option \<Rightarrow> trigger_info_response" where
  "lifecycle_response row =
     (let freeze = (case row of None \<Rightarrow> ''PENDING'' | Some r \<Rightarrow> lc_freeze_status r);
          progress = (case row of None \<Rightarrow> 0 | Some r \<Rightarrow> lc_recall_progress r);
          outstanding = (case row of None \<Rightarrow> 0 | Some r \<Rightarrow> lc_outstanding_loaned r)
      in \<lparr>tr_timestamp = map_option lc_updated_at row, tr_freeze_status = freeze, tr_recall_progress = progress,
          tr_settlement_status = (case row of None \<Rightarrow> ''PENDING'' | Some r \<Rightarrow> lc_settlement_status r),
          tr_outstanding_loans = (if outstanding > 0
            then [(''Soroban inheritance vault'', outstanding, loan_status freeze progress)] else [])\<rparr>)"

definition get_trigger_info_handler :: "nat \<Rightarrow> (trigger_info_response, http_error, 'w) request" where
  "get_trigger_info_handler plan_id s =
     and_run (load_plan plan_id s) (\<lambda>_ s.
     and_run (or_respond (sql (read_rows (\<lambda>db. db_lifecycle db plan_id)) s) (500, Text ''Database query failed'')) (\<lambda>row s.
     (Ok (lifecycle_response row), s)))"

end
