(* ===== verification/Contract_Ledger.thy ===== *)
theory Contract_Ledger
  imports Watchdog_Run Loan_Lifecycle Inherit_Loans
begin

text \<open>
  The inheritance contract behind the servers that the backend's client talks to. The servers are not code of the
  repository: what the backend relies on is the contract of the locale \<open>contract_ledger\<close>, the documented
  behaviour of the chain and its RPC server. Inside it: what the server reports of a trigger is on the contract, and
  a plan that has its trigger is never triggered again.
\<close>

section \<open>The contract's values on the wire\<close>

text \<open>A \<open>contracttype\<close> struct is a map with its fields in alphabetical order, an \<open>Option\<close> is void or the value.\<close>

definition encode_struct :: "(string \<times> sc_val) list \<Rightarrow> sc_val" where
  "encode_struct kvs = ScMap (Some (map (\<lambda>(k, v). (ScSymbol k, v)) kvs))"

definition encode_trigger_info :: "inheritance_trigger_info option \<Rightarrow> sc_val" where
  "encode_trigger_info info =
     (case info of
        None \<Rightarrow> ScVoid
      | Some ti \<Rightarrow> encode_struct
          [(''liquidation_triggered'', ScBool (ti_liquidation_triggered ti)),
           (''loan_freeze_active'', ScBool (ti_loan_freeze_active ti)),
           (''original_loaned'', ScU64 (ti_original_loaned ti)),
           (''recall_attempted'', ScBool (ti_recall_attempted ti)),
           (''recalled_amount'', ScU64 (ti_recalled_amount ti)),
           (''settled_amount'', ScU64 (ti_settled_amount ti)),
           (''triggered_at'', ScU64 (ti_triggered_at ti))])"

text \<open>The events the backend looks for; the topics of the others are left out.\<close>

definition encode_event :: "bytes \<Rightarrow> ih_event \<Rightarrow> contract_event" where
  "encode_event contract ev =
     (case ev of
        InheritanceTriggeredEvent i t n \<Rightarrow>
          \<lparr>ce_contract_id = Some contract, ce_topics = [ScSymbol ''INHERIT'', ScSymbol ''TRIGGER''],
           ce_data = encode_struct [(''outstanding_loans'', ScU64 n), (''plan_id'', ScU64 i), (''triggered_at'', ScU64 t)]\<rparr>
      | LoanFreezeEvent i t \<Rightarrow>
          \<lparr>ce_contract_id = Some contract, ce_topics = [ScSymbol ''LOAN'', ScSymbol ''FREEZE''],
           ce_data = encode_struct [(''frozen_at'', ScU64 t), (''plan_id'', ScU64 i)]\<rparr>
      | LoanRecallEvent i a r \<Rightarrow>
          \<lparr>ce_contract_id = Some contract, ce_topics = [ScSymbol ''LOAN'', ScSymbol ''RECALL''],
           ce_data = encode_struct [(''plan_id'', ScU64 i), (''recalled_amount'', ScU64 a), (''remaining_loaned'', ScU64 r)]\<rparr>
      | LiquidationFallbackEvent i x c \<Rightarrow>
          \<lparr>ce_contract_id = Some contract, ce_topics = [ScSymbol ''LOAN'', ScSymbol ''LIQUIDAT''],
           ce_data = encode_struct [(''claimable_amount'', ScU64 c), (''plan_id'', ScU64 i), (''settled_amount'', ScU64 x)]\<rparr>
      | _ \<Rightarrow> \<lparr>ce_contract_id = Some contract, ce_topics = [], ce_data = ScVoid\<rparr>)"

text \<open>What the client reads of a trigger is what the contract stored.\<close>

lemma parse_encoded_trigger:
  "parse_outstanding_loaned (encode_trigger_info info) =
     map_option (\<lambda>ti. if ti_liquidation_triggered ti then 0
       else ti_original_loaned ti - ti_recalled_amount ti - ti_settled_amount ti) info"
  by (cases info) (simp_all add: encode_trigger_info_def encode_struct_def parse_outstanding_loaned_def
      unwrap_option_scval_def scval_u64_field_def scval_bool_field_def scval_map_def matches_symbol_def
      get_u64_def get_bool_def saturating_sub_def)

lemma trigger_topics_iff:
  "event_matches c TRIGGER_EVENT_TOPICS (encode_event b ev) \<Longrightarrow>
    \<exists>i t n. ev = InheritanceTriggeredEvent i t n \<and> event_u64_field (encode_event b ev) ''plan_id'' = Some i"
  by (cases ev) (auto simp: event_matches_def TRIGGER_EVENT_TOPICS_def encode_event_def matches_symbol_def
      event_u64_field_def encode_struct_def get_u64_def)

section \<open>The calls of the client on the contract\<close>

definition no_value :: "'w ih_state \<Rightarrow> ('w ih_state \<times> sc_val) ih_result" where
  "no_value s = Ok (s, ScVoid)"

text \<open>The contract's calls that the client makes.\<close>

definition contract_call ::
  "ctx \<Rightarrow> (bytes \<Rightarrow> address) \<Rightarrow> string \<Rightarrow> sc_val list \<Rightarrow> 'w ih_state \<Rightarrow> ('w ih_state \<times> sc_val) ih_result" where
  "contract_call cx addr f args s =
     (case args of
        [ScU64 i] \<Rightarrow>
          if f = ''get_inheritance_trigger'' then Ok (s, encode_trigger_info (get_inheritance_trigger s i)) else Panic
      | [ScAccount a, ScU64 i] \<Rightarrow>
          if f = ''trigger_inheritance'' then and_then (trigger_inheritance cx (addr a) i s) no_value
          else if f = ''freeze_loans'' then and_then (freeze_loans cx (addr a) i s) no_value
          else if f = ''liquidation_fallback'' then and_then (liquidation_fallback cx (addr a) i s) no_value
          else Panic
      | [ScAccount a, ScU64 i, ScU64 n] \<Rightarrow>
          if f = ''recall_loan'' then and_then (recall_loan cx (addr a) i n s) no_value else Panic
      | _ \<Rightarrow> Panic)"

definition announces :: "'w ih_state \<Rightarrow> 'w ih_state \<Rightarrow> bool" where
  "announces s t \<longleftrightarrow> (\<exists>evs. ih_events t = ih_events s @ evs \<and>
     (\<forall>i n k. InheritanceTriggeredEvent i n k \<in> set evs \<longrightarrow> ih_trigger t i \<noteq> None))"

lemma guard_events: "enter_guard s = Ok t \<Longrightarrow> ih_events t = ih_events s"
  by (auto simp: enter_guard_def reentrancy_enter_or_panic_def split: if_splits)

text \<open>Steps that publish, but no trigger.\<close>

definition silent :: "'w ih_state \<Rightarrow> 'w ih_state \<Rightarrow> bool" where
  "silent s t \<longleftrightarrow> (\<exists>evs. ih_events t = ih_events s @ evs \<and> (\<forall>i n k. InheritanceTriggeredEvent i n k \<notin> set evs))"

lemma silent_refl [simp]: "silent s s"
  by (simp add: silent_def)

lemma silent_expire: "check_and_expire_emergency_access cx i s = Ok (b, t) \<Longrightarrow> silent s t"
  by (auto simp: check_and_expire_emergency_access_def silent_def ih_publish_def Let_def split: option.splits if_splits)

lemma silent_authorize: "authorize_trigger cx c i s = Ok t \<Longrightarrow> silent s t"
  by (auto simp: authorize_trigger_def get_emergency_access_def is_emergency_active_def dest!: silent_expire
      split: if_splits option.splits)

lemma announces_silent: "silent s t \<Longrightarrow> announces s t"
  unfolding silent_def announces_def by blast

lemma start_events [simp]:
  "ih_events (start_inheritance cx i p s) = ih_events s" "ih_trigger (start_inheritance cx i p s) i = Some (fresh_trigger cx p)"
  by (simp_all add: start_inheritance_def set_trigger_info_def fresh_trigger_def ih_access Let_def)

lemma publish_events [simp]:
  "ih_events (exit_guard (publish_trigger cx i p s)) = ih_events s @
     [InheritanceTriggeredEvent i (timestamp cx) (pl_total_loaned p), LoanFreezeEvent i (timestamp cx)]"
  "ih_trigger (exit_guard (publish_trigger cx i p s)) = ih_trigger s"
  by (simp_all add: publish_trigger_def ih_access)

lemma announces_trigger:
  assumes "trigger_inheritance cx c i s = Ok t"
  shows "announces s t"
proof -
  from assms obtain s1 s2 p where s1: "enter_guard s = Ok s1" and s2: "authorize_trigger cx c i s1 = Ok s2"
    and t: "t = exit_guard (publish_trigger cx i p (start_inheritance cx i p s2))"
    unfolding trigger_inheritance_def Let_def by auto
  from silent_authorize [OF s2] obtain evs where
    "ih_events s2 = ih_events s @ evs" "\<forall>j n k. InheritanceTriggeredEvent j n k \<notin> set evs"
    unfolding silent_def guard_events [OF s1] by blast
  then show ?thesis unfolding announces_def t by auto
qed

lemma silent_publish:
  "ih_events t = ih_events s \<Longrightarrow> (\<And>i n k. ev \<noteq> InheritanceTriggeredEvent i n k) \<Longrightarrow> silent s (ih_publish ev t)"
  by (auto simp: silent_def ih_publish_def)

lemma silent_loans:
  "freeze_loans cx c i s = Ok t \<Longrightarrow> silent s t"
  "recall_loan cx c i n s = Ok t \<Longrightarrow> silent s t"
  "liquidation_fallback cx c i s = Ok t \<Longrightarrow> silent s t"
  by (auto simp: freeze_loans_def recall_loan_def liquidation_fallback_def set_trigger_info_def store_plan_def Let_def
      intro!: silent_publish)

text \<open>Every call is one of the contract's, or reads it.\<close>

lemma contract_call_cases:
  assumes "contract_call cx addr f args s = Ok (t, v)"
  shows "t = s \<or> (\<exists>a i. trigger_inheritance cx a i s = Ok t) \<or> (\<exists>a i. freeze_loans cx a i s = Ok t) \<or>
    (\<exists>a i. liquidation_fallback cx a i s = Ok t) \<or> (\<exists>a i n. recall_loan cx a i n s = Ok t)"
  using assms by (auto simp: contract_call_def no_value_def split: list.splits sc_val.splits if_splits)

lemma contract_call_Ok:
  assumes "contract_call cx addr f args s = Ok (t, v)"
  shows "settles s t \<and> announces s t"
proof -
  have settled: "settles s t" if "run_trigger cx c s = Ok t" for c
    using settles_exec [of undefined cx "TriggerCall c"] that by simp
  have "announces s s" by (simp add: announces_def)
  then have same: "t = s \<Longrightarrow> settles s t \<and> announces s t" by (simp add: settles_same same_settled_def)
  then show ?thesis
    using contract_call_cases [OF assms] settled [of "ITrigger _ _"] settled [of "IFreezeLoans _ _"]
      settled [of "IRecallLoan _ _ _"] settled [of "ILiquidationFallback _ _"]
    by (auto intro: announces_trigger announces_silent silent_loans)
qed

lemma emergency_triggers: "get_emergency_access cx i s = Ok (r, t) \<Longrightarrow> dom (ih_trigger s) \<subseteq> dom (ih_trigger t)"
  by (drule quiet_emergency_reads) (simp add: quiet_def same_settled_def)

lemma authorize_triggers:
  assumes "authorize_trigger cx c i s = Ok t" and "ih_trigger s j \<noteq> None"
  shows "ih_trigger t j \<noteq> None"
proof -
  from assms(1) consider "t = s" | r where "get_emergency_access cx i s = Ok (r, t)"
    by (auto simp: authorize_trigger_def split: if_splits option.splits)
  then show ?thesis using assms(2) emergency_triggers by cases blast+
qed

lemma no_second_trigger:
  assumes "ih_trigger s i \<noteq> None"
  shows "trigger_inheritance cx c i s \<noteq> Ok t"
proof
  assume "trigger_inheritance cx c i s = Ok t"
  then obtain s1 s2 where s1: "enter_guard s = Ok s1" and s2: "authorize_trigger cx c i s1 = Ok s2"
    and none: "ih_trigger s2 i = None"
    unfolding trigger_inheritance_def Let_def by (auto simp: get_trigger_info_def)
  have "ih_trigger s1 i \<noteq> None" using s1 assms by auto
  then show False using authorize_triggers [OF s2] none by blast
qed

section \<open>The servers\<close>

text \<open>A call of the client that the contract accepted in the state \<open>s\<close>, with the events it published.\<close>

definition call_publishes ::
  "bytes \<Rightarrow> 'w ih_state \<Rightarrow> 'w ih_state \<Rightarrow> contract_event list \<Rightarrow> bool" where
  "call_publishes cid s t events \<longleftrightarrow> (\<exists>cx addr f args v. contract_call cx addr f args s = Ok (t, v) \<and>
     events = map (encode_event cid) (drop (length (ih_events s)) (ih_events t)))"

text \<open>
  What may happen to the ledger at a step: the contract goes through calls, of whoever makes them; a result on
  record stays; and a new result on record is that of a call of the client, made meanwhile.
\<close>

definition ledger_step ::
  "(ctx \<Rightarrow> 'w ih_externals) \<Rightarrow> bytes \<Rightarrow> ('v \<Rightarrow> 'w ih_state) \<Rightarrow> ('v \<Rightarrow> string \<Rightarrow> contract_event list option) \<Rightarrow>
   'v \<Rightarrow> 'v \<Rightarrow> bool" where
  "ledger_step XS cid contract recorded w w' \<longleftrightarrow> any_run XS (contract w) (contract w') \<and> recorded w \<subseteq>\<^sub>m recorded w' \<and>
     (\<forall>h events. recorded w' h = Some events \<longrightarrow> recorded w h = Some events \<or>
        (\<exists>s t. any_run XS (contract w) s \<and> call_publishes cid s t events \<and> any_run XS t (contract w')))"

text \<open>Every result on record with the event of a trigger left the contract with that trigger.\<close>

definition ledger_ok ::
  "bytes \<Rightarrow> ('v \<Rightarrow> 'w ih_state) \<Rightarrow> ('v \<Rightarrow> string \<Rightarrow> contract_event list option) \<Rightarrow> 'v \<Rightarrow> bool" where
  "ledger_ok cid contract recorded w \<longleftrightarrow> settled_inv (contract w) \<and>
     (\<forall>h events ev i. recorded w h = Some events \<longrightarrow> ev \<in> set events \<longrightarrow>
        event_matches cid TRIGGER_EVENT_TOPICS ev \<longrightarrow> event_u64_field ev ''plan_id'' = Some i \<longrightarrow> ih_trigger (contract w) i \<noteq> None)"

definition trigger_held :: "nat \<Rightarrow> 'w ih_state \<Rightarrow> bool" where
  "trigger_held i s \<longleftrightarrow> settled_inv s \<and> ih_trigger s i \<noteq> None"

lemma settles_triggers: "settles s t \<Longrightarrow> settled_inv s \<Longrightarrow> ih_trigger s i \<noteq> None \<Longrightarrow> ih_trigger t i \<noteq> None"
  by (auto simp: settles_def still_settled_def)

text \<open>
  The state of the contract and the results of the client's successful transactions are functions of the world of the
  network. A reply of success comes with the events on record, if its metadata can be read; and the
  simulation of a call that the contract refuses is answered with an error, if it is answered.
\<close>

locale contract_ledger =
  fixes lb :: stellar_lib and N :: "'v network" and XS :: "ctx \<Rightarrow> 'w ih_externals" and cid :: bytes
    and contract :: "'v \<Rightarrow> 'w ih_state" and recorded :: "'v \<Rightarrow> string \<Rightarrow> contract_event list option"
  assumes step_sleep: "ledger_step XS cid contract recorded w (net_sleep N d w)"
    and step_account: "ledger_step XS cid contract recorded w (snd (net_account N a w))"
    and step_simulate: "ledger_step XS cid contract recorded w (snd (net_simulate N x w))"
    and step_send: "ledger_step XS cid contract recorded w (snd (net_send N x w))"
    and step_get: "ledger_step XS cid contract recorded w (snd (net_get N h w))"
    and success: "net_get N h w = (RpcReply None (Some resp), w') \<Longrightarrow> gt_status resp = ''SUCCESS'' \<Longrightarrow>
      read_meta lb (gt_result_meta_xdr resp) = Ok (events, r) \<Longrightarrow> recorded w h = Some events"
    and refusal: "net_simulate N x w = (RpcReply None (Some reply), w') \<Longrightarrow> lib_envelope lb tx [] = Some x \<Longrightarrow>
      iv_contract (tx_invocation tx) = cid \<Longrightarrow>
      (\<And>cx addr r. contract_call cx addr (iv_function (tx_invocation tx)) (iv_args (tx_invocation tx)) (contract w) \<noteq> Ok r) \<Longrightarrow>
      si_error reply \<noteq> None"
begin

lemma published_triggers:
  assumes "call_publishes cid s t events" and "ev \<in> set events"
    and "event_matches cid TRIGGER_EVENT_TOPICS ev" "event_u64_field ev ''plan_id'' = Some i"
  shows "ih_trigger t i \<noteq> None"
proof -
  from assms(1) obtain evs where "ih_events t = ih_events s @ evs" "events = map (encode_event cid) evs"
    "\<forall>i n k. InheritanceTriggeredEvent i n k \<in> set evs \<longrightarrow> ih_trigger t i \<noteq> None"
    by (auto simp: call_publishes_def announces_def dest!: contract_call_Ok)
  then show ?thesis using assms(2-4) by (auto dest!: trigger_topics_iff) blast
qed

lemma ledger_step_ok:
  assumes step: "ledger_step XS cid contract recorded w w'" and ok: "ledger_ok cid contract recorded w"
  shows "ledger_ok cid contract recorded w'"
  unfolding ledger_ok_def
proof (intro conjI allI impI)
  have run: "settles (contract w) (contract w')"
    using step by (auto simp: ledger_step_def intro: settles_run)
  then show "settled_inv (contract w')" using ok by (simp add: settles_def ledger_ok_def)
  fix h events ev i
  assume h: "recorded w' h = Some events" and ev: "ev \<in> set events" "event_matches cid TRIGGER_EVENT_TOPICS ev"
    "event_u64_field ev ''plan_id'' = Some i"
  from step h consider "recorded w h = Some events" | s t where "any_run XS (contract w) s"
    "call_publishes cid s t events" "any_run XS t (contract w')" unfolding ledger_step_def by blast
  then show "ih_trigger (contract w') i \<noteq> None"
  proof cases
    case 1
    then have "ih_trigger (contract w) i \<noteq> None" using ok ev unfolding ledger_ok_def by blast
    then show ?thesis using settles_triggers [OF run] ok by (simp add: ledger_ok_def)
  next
    case (2 s t)
    have "settled_inv s" using settles_run [OF 2(1)] ok by (simp add: settles_def ledger_ok_def)
    moreover have "settles s t" using 2(2) by (auto simp: call_publishes_def dest: contract_call_Ok)
    ultimately have "settled_inv t" by (simp add: settles_def)
    then show ?thesis using settles_triggers [OF settles_run [OF 2(3)]] published_triggers [OF 2(2) ev] by blast
  qed
qed

lemmas steps = step_sleep step_account step_simulate step_send step_get

lemma ledger_reach: "net_reach N w w' \<Longrightarrow> ledger_ok cid contract recorded w \<Longrightarrow> ledger_ok cid contract recorded w'"
  by (induction rule: net_reach.induct) (blast intro: ledger_step_ok steps)+

lemma records_stay: "net_reach N w w' \<Longrightarrow> recorded w \<subseteq>\<^sub>m recorded w'"
proof (induction rule: net_reach.induct)
qed (auto intro: map_le_trans steps [unfolded ledger_step_def, THEN conjunct2, THEN conjunct1])

text \<open>A trigger that was reported is on the contract.\<close>

lemma reported_events:
  assumes "reported lb N w0 w h events"
  shows "recorded w h = Some events"
proof -
  from assms obtain u v resp r where get: "net_get N h u = (RpcReply None (Some resp), v)"
    and later: "net_reach N v w" and ok: "gt_status resp = ''SUCCESS''" "read_meta lb (gt_result_meta_xdr resp) = Ok (events, r)"
    unfolding reported_def by blast
  have "net_reach N u w" using reach_get [OF net_start, of N u h] get by (auto intro: reach_trans [OF later])
  then show ?thesis using records_stay success [OF get ok] unfolding map_le_def by (metis domI)
qed

lemma reported_trigger:
  assumes "chain_triggered lb N w0 w cl i h" and "client_contract cl = Some cid" and "ledger_ok cid contract recorded w"
  shows "ih_trigger (contract w) i \<noteq> None"
proof -
  from assms(1,2) obtain evs ev where "reported lb N w0 w h evs"
    and ev: "find_event evs cid TRIGGER_EVENT_TOPICS = Some ev" "event_u64_field ev ''plan_id'' = Some i"
    unfolding chain_triggered_def client_contract_def by auto
  from reported_events [OF this(1)] have "recorded w h = Some evs" .
  moreover have "ev \<in> set evs" "event_matches cid TRIGGER_EVENT_TOPICS ev"
    using ev(1) by (auto simp: find_event_def find_Some_iff)
  ultimately show ?thesis using assms(3) ev(2) unfolding ledger_ok_def by blast
qed

section \<open>A plan the contract has triggered already\<close>

lemma held_step: "ledger_step XS cid contract recorded w w' \<Longrightarrow> trigger_held i (contract w) \<Longrightarrow> trigger_held i (contract w')"
  using settles_run [of XS "\<lambda>_ _ _. True" "\<lambda>_ _. True" "contract w" "contract w'"]
    settles_triggers [of "contract w" "contract w'" i]
  by (auto simp: trigger_held_def ledger_step_def settles_def)

lemma held_reach: "net_reach N w w' \<Longrightarrow> trigger_held i (contract w) \<Longrightarrow> trigger_held i (contract w')"
  by (induction rule: net_reach.induct) (blast intro: held_step steps)+

lemma no_second_simulation:
  assumes held: "trigger_held i (contract w)" and "tx_invocation tx = \<lparr>iv_contract = cid, iv_function = ''trigger_inheritance'',
    iv_args = [ScAccount a, ScU64 i]\<rparr>"
  shows "simulate lb N tx w \<noteq> (Ok sim, w')"
proof
  assume "simulate lb N tx w = (Ok sim, w')"
  then obtain x resp u where x: "lib_envelope lb tx [] = Some x"
    and resp: "rpc ''simulateTransaction'' (net_simulate N x w) = (Ok resp, u)"
    and sim: "read_simulation lb resp = Ok sim"
    unfolding simulate_def by auto
  have "contract_call cx addr ''trigger_inheritance'' [ScAccount a, ScU64 i] (contract w) \<noteq> Ok r" for cx addr r
    using no_second_trigger [of "contract w" i] held
    by (cases r) (auto simp: trigger_held_def contract_call_def)
  then have "si_error resp \<noteq> None" by (intro refusal [OF rpc_Ok [OF resp] x]) (simp_all add: assms(2))
  then show False using sim by (auto simp: read_simulation_def)
qed

lemma no_second_submission:
  assumes "trigger_held i (contract w)" and "client_contract cl = Some cid"
  shows "cl_trigger_inheritance n lb N cl i w \<noteq> (Ok outc, w')"
proof
  assume "cl_trigger_inheritance n lb N cl i w = (Ok outc, w')"
  then obtain ctx r u where ctx: "sl_soroban cl = Some ctx" and
    prep: "prepare_invocation lb N ctx ''trigger_inheritance'' [signer_account_scval ctx, ScU64 i] w = (Ok r, u)"
    unfolding cl_trigger_inheritance_def invoke_for_plan_def invoke_contract_def client_soroban_def by auto
  let ?iv = "\<lparr>iv_contract = cx_contract ctx, iv_function = ''trigger_inheritance'',
    iv_args = [signer_account_scval ctx, ScU64 i]\<rparr>"
  from prep obtain seqn valid tx v sim where
    seqn: "next_sequence N ctx w = (Ok seqn, v)" and
    build: "build_transaction ctx seqn valid BASE_FEE_STROOPS ?iv [] None = Ok tx" and
    sim: "simulate lb N tx v = (Ok sim, u)"
    by (auto simp: prepare_invocation_def make_invocation_def Let_def)
  have "net_reach N w v" using reach_sequence [OF net_start, of N w ctx] seqn by simp
  then have "trigger_held i (contract v)" using assms(1) by (rule held_reach)
  moreover have "tx_invocation tx = \<lparr>iv_contract = cid, iv_function = ''trigger_inheritance'',
      iv_args = [ScAccount (cx_public_key ctx), ScU64 i]\<rparr>"
    using build assms(2) ctx by (auto simp: build_transaction_def client_contract_def signer_account_scval_def)
  ultimately show False using no_second_simulation sim by blast
qed

lemma no_second_attempt:
  assumes "trigger_held i (contract w)" and "client_contract cl = Some cid"
  shows "trigger_attempts left n lb N retry cl i e w \<noteq> (Ok x, w')"
  using assms(1)
proof (induction left arbitrary: e w)
  case (Suc left)
  obtain r u where r: "cl_trigger_inheritance n lb N cl i w = (r, u)" by fastforce
  have u: "net_reach N w u" using reach_trigger [OF net_start, of N w n lb cl i] r by simp
  have IH: "trigger_attempts left n lb N retry cl i e' v \<noteq> (Ok x, w')" if "v = u \<or> v = net_sleep N d u" for e' v d
  proof (rule Suc.IH)
    have "net_reach N w v" using that u by (auto intro: reach_sleep)
    then show "trigger_held i (contract v)" using Suc.prems by (rule held_reach)
  qed
  have "r \<noteq> Ok outc" for outc using no_second_submission [OF Suc.prems assms(2)] r by metis
  then show ?case using IH r by (cases r) (auto simp: Let_def)
qed simp

end

end
