(* ===== verification/Settlement_Chain.thy ===== *)
theory Settlement_Chain
  imports Contract_Ledger
begin

text \<open>
  An instance of the contracts the client relies on: a \<open>network\<close> whose world holds a state of the
  inheritance contract's model, and that runs on it the calls of the transactions it is sent. The
  texts the servers read and write, the mapping of keys to addresses, the delay until a result is
  known and what other parties do with the contract meanwhile are parameters.
\<close>

section \<open>The servers\<close>

text \<open>
  \<open>sr_read\<close> reads an envelope as its transaction and hash; a result is known \<open>sr_delay\<close> milliseconds after
  the transaction arrived; \<open>sr_others\<close> is what others do to the contract while the client sleeps.
\<close>

record 'w server =
  sr_read :: "string \<Rightarrow> (transaction \<times> string) option"
  sr_meta :: "contract_event list \<Rightarrow> string"
  sr_scval :: "sc_val \<Rightarrow> string"
  sr_error :: "inheritance_error \<Rightarrow> string"
  sr_address :: "bytes \<Rightarrow> address"
  sr_contract :: bytes
  sr_self :: address
  sr_delay :: nat
  sr_others :: "nat \<Rightarrow> 'w ih_state \<Rightarrow> 'w ih_state"

text \<open>A result is the time it became final, whether the call succeeded, and its events.\<close>

record 'w chain =
  cn_now :: nat
  cn_sent :: nat
  cn_results :: "string \<Rightarrow> (nat \<times> bool \<times> contract_event list) option"
  cn_contract :: "'w ih_state"

definition ledger_cx :: "'w server \<Rightarrow> 'w chain \<Rightarrow> address \<Rightarrow> ctx" where
  "ledger_cx sr ch signer = \<lparr>timestamp = cn_now ch div 1000, sequence = cn_now ch div 5000,
     current_contract_address = sr_self sr, authorized = \<lambda>a. a = signer\<rparr>"

definition chain_invoke :: "'w server \<Rightarrow> 'w chain \<Rightarrow> transaction \<Rightarrow> ('w ih_state \<times> sc_val) ih_result" where
  "chain_invoke sr ch tx =
     (if iv_contract (tx_invocation tx) \<noteq> sr_contract sr then Panic
      else contract_call (ledger_cx sr ch (sr_address sr (tx_source tx))) (sr_address sr)
        (iv_function (tx_invocation tx)) (iv_args (tx_invocation tx)) (cn_contract ch))"

definition new_events :: "'w server \<Rightarrow> 'w ih_state \<Rightarrow> 'w ih_state \<Rightarrow> contract_event list" where
  "new_events sr s t = map (encode_event (sr_contract sr)) (drop (length (ih_events s)) (ih_events t))"

text \<open>A transaction is applied once; what fails changes nothing but is on the ledger.\<close>

definition apply_transaction :: "'w server \<Rightarrow> transaction \<Rightarrow> string \<Rightarrow> 'w chain \<Rightarrow> 'w chain" where
  "apply_transaction sr tx h ch =
     (case chain_invoke sr ch tx of
        Ok (t, v) \<Rightarrow> ch\<lparr>cn_results := (cn_results ch)(h \<mapsto> (cn_now ch + sr_delay sr, True, new_events sr (cn_contract ch) t)),
          cn_contract := t\<rparr>
      | _ \<Rightarrow> ch\<lparr>cn_results := (cn_results ch)(h \<mapsto> (cn_now ch + sr_delay sr, False, []))\<rparr>)"

definition chain_send :: "'w server \<Rightarrow> string \<Rightarrow> 'w chain \<Rightarrow> send_response rpc_reply \<times> 'w chain" where
  "chain_send sr x ch =
     (let ch = ch\<lparr>cn_sent := cn_sent ch + 1\<rparr> in
      case sr_read sr x of
        None \<Rightarrow> (RpcReply (Some ''invalid transaction'') None, ch)
      | Some (tx, h) \<Rightarrow>
          if cn_results ch h \<noteq> None
          then (RpcReply None (Some \<lparr>sd_status = ''DUPLICATE'', sd_hash = Some h, sd_error_result_xdr = None\<rparr>), ch)
          else (RpcReply None (Some \<lparr>sd_status = ''PENDING'', sd_hash = Some h, sd_error_result_xdr = None\<rparr>),
                apply_transaction sr tx h ch))"

definition chain_get :: "'w server \<Rightarrow> string \<Rightarrow> 'w chain \<Rightarrow> get_response rpc_reply \<times> 'w chain" where
  "chain_get sr h ch =
     (RpcReply None (Some (case cn_results ch h of
        None \<Rightarrow> \<lparr>gt_status = ''NOT_FOUND'', gt_result_meta_xdr = None, gt_result_xdr = None\<rparr>
      | Some (t, success, events) \<Rightarrow>
          if cn_now ch < t then \<lparr>gt_status = ''NOT_FOUND'', gt_result_meta_xdr = None, gt_result_xdr = None\<rparr>
          else if success
          then \<lparr>gt_status = ''SUCCESS'', gt_result_meta_xdr = Some (sr_meta sr events), gt_result_xdr = None\<rparr>
          else \<lparr>gt_status = ''FAILED'', gt_result_meta_xdr = None, gt_result_xdr = None\<rparr>)), ch)"

definition simulated_error :: "string \<Rightarrow> simulate_response rpc_reply" where
  "simulated_error e = RpcReply None (Some \<lparr>si_error = Some e, si_transaction_data = None,
     si_min_resource_fee = None, si_results = None\<rparr>)"

definition chain_simulate :: "'w server \<Rightarrow> string \<Rightarrow> 'w chain \<Rightarrow> simulate_response rpc_reply \<times> 'w chain" where
  "chain_simulate sr x ch =
     (case sr_read sr x of
        None \<Rightarrow> simulated_error ''invalid transaction''
      | Some (tx, h) \<Rightarrow>
          (case chain_invoke sr ch tx of
             Ok (t, v) \<Rightarrow> RpcReply None (Some \<lparr>si_error = None, si_transaction_data = Some ''resources'',
               si_min_resource_fee = Some ''1000'', si_results = Some [(Some [], Some (sr_scval sr v))]\<rparr>)
           | Err e \<Rightarrow> simulated_error (sr_error sr e)
           | Panic \<Rightarrow> simulated_error ''trap''), ch)"

definition chain_network :: "'w server \<Rightarrow> 'w chain network" where
  "chain_network sr =
     \<lparr>net_now = cn_now, net_unix = \<lambda>ch. cn_now ch div 1000,
      net_sleep = \<lambda>d ch. ch\<lparr>cn_now := cn_now ch + d, cn_contract := sr_others sr (cn_now ch) (cn_contract ch)\<rparr>,
      net_account = \<lambda>a ch. (Some (True, Some ''1''), ch), net_submit = \<lambda>x ch. (Some (False, Some []), ch),
      net_simulate = chain_simulate sr, net_send = chain_send sr, net_get = chain_get sr\<rparr>"

lemma chain_network_simps [simp]:
  "net_now (chain_network sr) = cn_now" "net_unix (chain_network sr) ch = cn_now ch div 1000"
  "net_sleep (chain_network sr) d ch = ch\<lparr>cn_now := cn_now ch + d, cn_contract := sr_others sr (cn_now ch) (cn_contract ch)\<rparr>"
  "net_account (chain_network sr) a ch = (Some (True, Some ''1''), ch)"
  "net_simulate (chain_network sr) = chain_simulate sr" "net_send (chain_network sr) = chain_send sr"
  "net_get (chain_network sr) = chain_get sr"
  by (simp_all add: chain_network_def)

interpretation ledger_clock: running_clock "chain_network sr" for sr
  by unfold_locales (auto simp: chain_get_def)

lemma chain_send_sent: "cn_sent (snd (chain_send sr x ch)) \<le> cn_sent ch + 1"
  by (auto simp: chain_send_def apply_transaction_def Let_def split: option.split outcome.split)

interpretation ledger_sends: counted_sends "chain_network sr" cn_sent for sr
  by unfold_locales (simp_all add: chain_simulate_def chain_get_def chain_send_sent [simplified])

section \<open>The contract of the ledger\<close>

text \<open>The results of successful transactions.\<close>

definition recorded_in :: "(string \<Rightarrow> (nat \<times> bool \<times> contract_event list) option) \<Rightarrow> string \<Rightarrow> contract_event list option" where
  "recorded_in results h = (case results h of Some (n, True, events) \<Rightarrow> Some events | _ \<Rightarrow> None)"

definition chain_recorded :: "'w chain \<Rightarrow> string \<Rightarrow> contract_event list option" where
  "chain_recorded ch = recorded_in (cn_results ch)"

lemma recorded_in_update:
  "recorded_in (results(h \<mapsto> (n, True, events))) = (recorded_in results)(h \<mapsto> events)"
  "recorded_in (results(h \<mapsto> (n, False, events))) = (recorded_in results)(h := None)"
  by (auto simp: recorded_in_def fun_eq_iff)

lemma recorded_in_none: "results h = None \<Longrightarrow> recorded_in results h = None"
  by (simp add: recorded_in_def)

text \<open>
  What the parameters must be for that: metadata that can be read has the events it was written with,
  an unsigned envelope is read with its invocation, and others use the contract by its calls.
\<close>

locale chain_server =
  fixes lb :: stellar_lib and sr :: "'w server" and XS :: "ctx \<Rightarrow> 'w ih_externals"
  assumes meta: "lib_meta lb (trim (sr_meta sr events)) = Some m \<Longrightarrow> contract_events m = events"
    and reads: "lib_envelope lb tx [] = Some x \<Longrightarrow>
      \<exists>tx' h. sr_read sr x = Some (tx', h) \<and> tx_invocation tx' = tx_invocation tx"
    and others: "any_run XS s (sr_others sr n s)"
begin

abbreviation a_step :: "'w chain \<Rightarrow> 'w chain \<Rightarrow> bool" where
  "a_step \<equiv> ledger_step XS (sr_contract sr) cn_contract chain_recorded"

lemma step_same: "cn_contract ch' = cn_contract ch \<Longrightarrow> cn_results ch' = cn_results ch \<Longrightarrow> a_step ch ch'"
  by (auto simp: ledger_step_def chain_recorded_def run_refl)

lemma call_run:
  assumes "contract_call cx addr f args s = Ok (t, v)"
  shows "any_run XS s t"
proof -
  have *: "any_run XS s t" if "run_trigger cx c s = Ok t" for c
    by (rule run_call [OF run_refl, where c = "TriggerCall c" and cx = cx]) (use that in simp_all)
  have "t = s \<or> (\<exists>c. run_trigger cx c s = Ok t)"
    using assms contract_call_cases by (metis run_trigger.simps)
  then show ?thesis using * by (auto intro: run_refl)
qed

lemma step_apply:
  assumes "cn_results ch h = None"
  shows "a_step ch (apply_transaction sr tx h ch)"
proof (cases "\<exists>t v. chain_invoke sr ch tx = Ok (t, v)")
  case True
  then obtain t v where call: "chain_invoke sr ch tx = Ok (t, v)" by blast
  then obtain cx addr f args where c: "contract_call cx addr f args (cn_contract ch) = Ok (t, v)"
    by (auto simp: chain_invoke_def split: if_splits)
  then have "call_publishes (sr_contract sr) (cn_contract ch) t (new_events sr (cn_contract ch) t)"
    unfolding call_publishes_def new_events_def by blast
  then show ?thesis
    using call_run [OF c] assms
    by (auto simp: ledger_step_def apply_transaction_def call chain_recorded_def recorded_in_update recorded_in_none
        map_le_def intro: run_refl split: if_splits)
next
  case False
  then have "cn_contract (apply_transaction sr tx h ch) = cn_contract ch"
    "chain_recorded (apply_transaction sr tx h ch) = chain_recorded ch"
    using assms by (auto simp: apply_transaction_def chain_recorded_def recorded_in_update recorded_in_none fun_upd_idem
        split: outcome.split)
  then show ?thesis by (simp add: ledger_step_def run_refl)
qed

lemma not_Some_triple: "(\<forall>a b c. x \<noteq> Some (a, b, c)) \<longleftrightarrow> x = None"
  by (cases x) auto

lemma send_step: "a_step ch (snd (chain_send sr x ch))"
proof -
  have "a_step ch (apply_transaction sr tx h (ch\<lparr>cn_sent := n\<rparr>))" if "cn_results ch h = None" for tx h n
  proof -
    have "cn_contract (ch\<lparr>cn_sent := n\<rparr>) = cn_contract ch" "chain_recorded (ch\<lparr>cn_sent := n\<rparr>) = chain_recorded ch"
      by (simp_all add: chain_recorded_def)
    then show ?thesis using step_apply [of "ch\<lparr>cn_sent := n\<rparr>" h tx] that by (simp add: ledger_step_def)
  qed
  then show ?thesis by (auto simp: chain_send_def Let_def not_Some_triple intro: step_same split: option.split)
qed

lemma chain_get_success:
  assumes "chain_get sr h w = (RpcReply None (Some resp), v)" and "gt_status resp = ''SUCCESS''"
  shows "v = w \<and> (\<exists>n evs. cn_results w h = Some (n, True, evs) \<and> gt_result_meta_xdr resp = Some (sr_meta sr evs))"
proof (cases "cn_results w h")
  case None
  then show ?thesis using assms by (auto simp: chain_get_def)
next
  case (Some a)
  obtain n b evs where "a = (n, b, evs)" by (metis prod.collapse)
  then show ?thesis using assms Some by (cases b; cases "cn_now w < n") (auto simp: chain_get_def)
qed

lemma chain_refusal:
  assumes "chain_simulate sr x ch = (RpcReply None (Some reply), ch')" and x: "lib_envelope lb tx [] = Some x"
    and refused: "\<And>cx addr r. contract_call cx addr (iv_function (tx_invocation tx)) (iv_args (tx_invocation tx)) (cn_contract ch) \<noteq> Ok r"
  shows "si_error reply \<noteq> None"
proof -
  from reads [OF x] obtain tx' h where tx': "sr_read sr x = Some (tx', h)" "tx_invocation tx' = tx_invocation tx" by blast
  have "chain_invoke sr ch tx' \<noteq> Ok r" for r using refused by (simp add: chain_invoke_def tx'(2))
  then show ?thesis
    using assms(1) tx'(1) by (cases "chain_invoke sr ch tx'") (auto simp: chain_simulate_def simulated_error_def)
qed

end

sublocale chain_server \<subseteq> contract_ledger lb "chain_network sr" XS "sr_contract sr" cn_contract chain_recorded
proof
  fix h resp events r and w w' :: "'w chain"
  assume get: "net_get (chain_network sr) h w = (RpcReply None (Some resp), w')" and ok: "gt_status resp = ''SUCCESS''"
    and read: "read_meta lb (gt_result_meta_xdr resp) = Ok (events, r)"
  from chain_get_success [OF get [unfolded chain_network_simps] ok] obtain n evs where
    "cn_results w h = Some (n, True, evs)" "gt_result_meta_xdr resp = Some (sr_meta sr evs)" by blast
  then show "chain_recorded w h = Some events"
    using read meta by (auto simp: chain_recorded_def recorded_in_def read_meta_def)
next
  fix w :: "'w chain" and d
  have "any_run XS (cn_contract w) (sr_others sr (cn_now w) (cn_contract w))" by (rule others)
  then show "a_step w (net_sleep (chain_network sr) d w)"
    by (simp add: ledger_step_def chain_recorded_def)
qed (use send_step chain_refusal in \<open>auto simp: chain_simulate_def chain_get_def intro: step_same\<close>)

end
