(* ===== verification/Service_Demo.thy ===== *)
theory Service_Demo
  imports Settlement_Chain Inherit_Demo
begin

text \<open>
  A concrete backend in front of the estate of \<open>Inherit_Demo\<close>: one plan of the database, silent for longer
  than its grace period, is plan 1 of the contract; the backend signs for the owner of that plan. The
  states a sweep goes through are written out.
\<close>

section \<open>The contract\<close>

definition backend_cx :: "nat \<Rightarrow> ctx" where
  "backend_cx n = \<lparr>timestamp = n div 1000, sequence = n div 5000, current_contract_address = Addr 100,
     authorized = \<lambda>a. a = Addr 4\<rparr>"

definition estate_triggered :: "nat \<Rightarrow> custody_world ih_state" where
  "estate_triggered n = estate_created\<lparr>ih_plan := [1 \<mapsto> estate_plan],
     ih_trigger := [1 \<mapsto> \<lparr>ti_triggered_at = n div 1000, ti_loan_freeze_active = True, ti_recall_attempted = False,
       ti_liquidation_triggered = False, ti_original_loaned = 0, ti_recalled_amount = 0, ti_settled_amount = 0\<rparr>],
     ih_events := ih_events estate_created @ [InheritanceTriggeredEvent 1 (n div 1000) 0, LoanFreezeEvent 1 (n div 1000)]\<rparr>"

lemma estate_trigger: "trigger_inheritance (backend_cx n) (Addr 4) 1 estate_created = Ok (estate_triggered n)"
proof -
  let ?v = "estate_created\<lparr>reentrancy_lock := Some True\<rparr>"
  have start: "check_not_paused estate_created = Ok ()" "enter_guard estate_created = Ok ?v"
    by (simp_all add: estate_defs estate_guards)
  have plan: "the_plan ?v 1 = Ok estate_plan" "pl_is_active estate_plan" "pl_owner estate_plan = Addr 4"
    by (simp_all add: estate_defs)
  have admin: "ih_admin ?v = Some (Addr 2)" by (simp add: estate_defs)
  have auth: "authorize_trigger (backend_cx n) (Addr 4) 1 ?v = Ok ?v"
    using plan(3) admin by (simp add: authorize_trigger_def plan(1) [unfolded One_nat_def] backend_cx_def require_auth_def del: the_plan_eq_Ok and_then_eq_Ok cong: run_step)
  have none: "get_trigger_info ?v 1 = None" "check_not_held 1 ?v = Ok ()"
    by (simp_all add: estate_defs ih_access lock_defs)
  show ?thesis
    unfolding trigger_inheritance_def Let_def
    by (simp add: start plan [unfolded One_nat_def] auth [unfolded One_nat_def] none [unfolded One_nat_def]
        cong: run_step del: and_then_eq_Ok)
      (simp add: estate_triggered_def start_inheritance_def publish_trigger_def fresh_trigger_def set_trigger_info_def
        ih_access estate_defs backend_cx_def Let_def)
qed

lemma estate_trigger_again:
  "trigger_inheritance (backend_cx m) (Addr 4) 1 (estate_triggered n) = Err InheritanceAlreadyTriggered"
proof -
  let ?v = "estate_triggered n\<lparr>reentrancy_lock := Some True\<rparr>"
  have start: "check_not_paused (estate_triggered n) = Ok ()" "enter_guard (estate_triggered n) = Ok ?v"
    by (simp_all add: estate_triggered_def estate_defs estate_guards)
  have plan: "the_plan ?v 1 = Ok estate_plan" "pl_is_active estate_plan" "pl_owner estate_plan = Addr 4"
    by (simp_all add: estate_triggered_def estate_defs)
  have admin: "ih_admin ?v = Some (Addr 2)" by (simp add: estate_triggered_def estate_defs)
  have auth: "authorize_trigger (backend_cx m) (Addr 4) 1 ?v = Ok ?v"
    using plan(3) admin by (simp add: authorize_trigger_def plan(1) [unfolded One_nat_def] backend_cx_def require_auth_def del: the_plan_eq_Ok and_then_eq_Ok cong: run_step)
  have none: "get_trigger_info ?v 1 \<noteq> None" "check_not_held 1 ?v = Ok ()"
    by (simp_all add: estate_triggered_def estate_defs ih_access lock_defs)
  have held: "ensure (get_trigger_info ?v 1 = None) InheritanceAlreadyTriggered = Err InheritanceAlreadyTriggered"
    using none(1) by (simp add: ensure_def)
  show ?thesis
    unfolding trigger_inheritance_def Let_def
    by (simp add: start plan [unfolded One_nat_def] auth [unfolded One_nat_def] none(2) [unfolded One_nat_def] held [unfolded One_nat_def]
        cong: run_step del: and_then_eq_Ok)
qed

section \<open>The servers\<close>

definition demo_config :: soroban_config where
  "demo_config = \<lparr>sb_rpc_url = ''rpc'', sb_contract_id = ''C'', sb_network_passphrase = ''net'',
     sb_signer_secret = ''S'', sb_poll_interval = 1000, sb_poll_timeout = 3000\<rparr>"

definition demo_context :: soroban_context where
  "demo_context = \<lparr>cx_config = demo_config, cx_signing_key = [1], cx_public_key = [2], cx_source_account = ''G'',
     cx_contract = [7], cx_network_id = [3]\<rparr>"

definition demo_client :: stellar_client where
  "demo_client = \<lparr>sl_horizon_url = ''horizon'', sl_soroban = Some demo_context\<rparr>"

definition demo_invocation :: invocation where
  "demo_invocation = \<lparr>iv_contract = [7], iv_function = ''trigger_inheritance'', iv_args = [ScAccount [2], ScU64 1]\<rparr>"

definition demo_transaction :: transaction where
  "demo_transaction = \<lparr>tx_source = [2], tx_fee = 1100, tx_sequence = 2, tx_max_time = 390,
     tx_invocation = demo_invocation, tx_auth = [], tx_resources = Some []\<rparr>"

definition demo_events :: "nat \<Rightarrow> contract_event list" where
  "demo_events n = map (encode_event [7]) [InheritanceTriggeredEvent 1 (n div 1000) 0, LoanFreezeEvent 1 (n div 1000)]"

text \<open>The texts: the envelopes stand for the one call, the metadata for the one list of events.\<close>

definition demo_lib :: stellar_lib where
  "demo_lib = \<lparr>lib_secret = \<lambda>_. Some [1], lib_contract = \<lambda>_. Some [7], lib_public = \<lambda>_. [2], lib_account = \<lambda>_. ''G'',
     lib_sha256 = \<lambda>b. b, lib_sign = \<lambda>_ b. b, lib_hex = \<lambda>_. ''h'', lib_payload = \<lambda>_ _. Some [9],
     lib_envelope = (\<lambda>tx _. if tx_invocation tx = demo_invocation then Some ''tx'' else None), lib_resources = \<lambda>_. Some [], lib_scval = \<lambda>_. Some ScVoid, lib_auth = \<lambda>_. Some [],
     lib_meta = (\<lambda>x. if x = ''ok'' then Some (MetaV3 (Some (demo_events 90000, ScVoid))) else None), lib_bytes = \<lambda>_. []\<rparr>"

definition demo_server :: "nat \<Rightarrow> custody_world server" where
  "demo_server d = \<lparr>sr_read = \<lambda>_. Some (demo_transaction, ''h''),
     sr_meta = (\<lambda>evs. if evs = demo_events 90000 then ''ok'' else ''none''), sr_scval = \<lambda>_. ''void'',
     sr_error = (\<lambda>e. if e = InheritanceAlreadyTriggered then ''already triggered'' else ''error''),
     sr_address = \<lambda>_. Addr 4, sr_contract = [7], sr_self = Addr 100, sr_delay = d, sr_others = \<lambda>_ s. s\<rparr>"

interpretation demo_ledger: chain_server demo_lib "demo_server d" estate_ops for d
  by unfold_locales
    (auto simp: demo_lib_def demo_server_def demo_transaction_def trim_def is_space_def run_refl split: if_splits)

definition demo_chain :: "custody_world chain" where
  "demo_chain = \<lparr>cn_now = 90000, cn_sent = 0, cn_results = Map.empty, cn_contract = estate_created\<rparr>"

text \<open>After the submission, at a given time.\<close>

definition demo_sent :: "nat \<Rightarrow> nat \<Rightarrow> custody_world chain" where
  "demo_sent d n = \<lparr>cn_now = n, cn_sent = 1, cn_results = [''h'' \<mapsto> (90000 + d, True, demo_events 90000)],
     cn_contract = estate_triggered 90000\<rparr>"

lemma demo_invoke: "chain_invoke (demo_server d) demo_chain demo_transaction = Ok (estate_triggered 90000, ScVoid)"
  using estate_trigger [of 90000]
  by (simp add: chain_invoke_def contract_call_def demo_server_def demo_transaction_def demo_invocation_def demo_chain_def
      ledger_cx_def backend_cx_def no_value_def)

lemma demo_invoke_again: "chain_invoke (demo_server d) (demo_sent d n) demo_transaction = Err InheritanceAlreadyTriggered"
  using estate_trigger_again [of n 90000]
  by (simp add: chain_invoke_def contract_call_def demo_server_def demo_transaction_def demo_invocation_def demo_sent_def
      ledger_cx_def backend_cx_def no_value_def)

lemma demo_reads [simp]: "sr_read (demo_server d) x = Some (demo_transaction, ''h'')"
  by (simp add: demo_server_def)

lemma demo_simulate:
  "chain_simulate (demo_server d) x demo_chain = (RpcReply None (Some \<lparr>si_error = None, si_transaction_data = Some ''resources'',
     si_min_resource_fee = Some ''1000'', si_results = Some [(Some [], Some ''void'')]\<rparr>), demo_chain)"
  by (simp add: chain_simulate_def demo_invoke) (simp add: demo_server_def)

lemma demo_simulate_again:
  "chain_simulate (demo_server d) x (demo_sent d n) = (simulated_error ''already triggered'', demo_sent d n)"
  by (simp add: chain_simulate_def demo_invoke_again) (simp add: demo_server_def)

lemma demo_send:
  "chain_send (demo_server d) x demo_chain =
     (RpcReply None (Some \<lparr>sd_status = ''PENDING'', sd_hash = Some ''h'', sd_error_result_xdr = None\<rparr>), demo_sent d 90000)"
proof -
  have "chain_invoke (demo_server d) (demo_chain\<lparr>cn_sent := cn_sent demo_chain + 1\<rparr>) demo_transaction =
      chain_invoke (demo_server d) demo_chain demo_transaction"
    by (simp add: chain_invoke_def ledger_cx_def)
  then have "apply_transaction (demo_server d) demo_transaction ''h'' (demo_chain\<lparr>cn_sent := cn_sent demo_chain + 1\<rparr>) =
      demo_sent d 90000"
    by (simp add: apply_transaction_def demo_invoke)
      (simp add: demo_sent_def demo_chain_def demo_server_def new_events_def demo_events_def estate_triggered_def)
  then show ?thesis
    by (simp add: chain_send_def Let_def) (simp add: demo_chain_def)
qed

lemma demo_get:
  "chain_get (demo_server d) ''h'' (demo_sent d n) =
     (RpcReply None (Some (if n < 90000 + d then \<lparr>gt_status = ''NOT_FOUND'', gt_result_meta_xdr = None, gt_result_xdr = None\<rparr>
       else \<lparr>gt_status = ''SUCCESS'', gt_result_meta_xdr = Some ''ok'', gt_result_xdr = None\<rparr>)), demo_sent d n)"
  by (simp add: chain_get_def demo_sent_def demo_server_def)

section \<open>An invocation\<close>

lemma run_cong: "r = r' \<Longrightarrow> and_run r f = and_run r' f"
  by simp

abbreviation demo_network :: "nat \<Rightarrow> custody_world chain network" where
  "demo_network d \<equiv> chain_network (demo_server d)"

lemma demo_context_simps [simp]:
  "cx_config demo_context = demo_config" "cx_public_key demo_context = [2]" "cx_contract demo_context = [7]"
  "sb_poll_interval demo_config = 1000" "sb_poll_timeout demo_config = 3000" "sl_soroban demo_client = Some demo_context"
  by (simp_all add: demo_context_def demo_config_def demo_client_def)

lemma demo_lib_simps [simp]:
  "tx_invocation tx = demo_invocation \<Longrightarrow> lib_envelope demo_lib tx sigs = Some ''tx''" "lib_resources demo_lib x = Some []" "lib_scval demo_lib x = Some ScVoid"
  "lib_payload demo_lib i tx = Some [9]" "lib_hex demo_lib b = ''h''" "tx_invocation demo_transaction = demo_invocation"
  by (simp_all add: demo_lib_def demo_transaction_def)

lemma demo_sequence: "next_sequence (demo_network d) demo_context ch = (Ok 2, ch)"
proof -
  have "parse_i64 ''1'' = Some 1"
    by (simp add: parse_i64_def parse_digits_def is_digit_def digits_value_def i64_min_def i64_max_def)
  then show ?thesis by (simp add: next_sequence_def saturating_add_i64_def i64_min_def i64_max_def)
qed

lemma demo_make:
  "make_invocation demo_context ''trigger_inheritance'' [ScAccount [2], ScU64 1] = Ok demo_invocation"
  by (simp add: make_invocation_def demo_invocation_def u32_max_def)

lemma demo_read_simulation:
  "read_simulation demo_lib \<lparr>si_error = None, si_transaction_data = Some ''resources'',
     si_min_resource_fee = Some ''1000'', si_results = Some [(Some [], Some ''void'')]\<rparr> =
   Ok \<lparr>sm_transaction_data = [], sm_min_resource_fee = 1000, sm_auth = [], sm_return_value = Some ScVoid\<rparr>"
proof -
  have "parse_i64 ''1000'' = Some 1000"
    by (simp add: parse_i64_def parse_digits_def is_digit_def digits_value_def i64_min_def i64_max_def)
  then show ?thesis by (simp add: read_simulation_def)
qed

lemma demo_build: "build_transaction demo_context seqn v BASE_FEE_STROOPS invoc [] None =
    Ok \<lparr>tx_source = [2], tx_fee = 100, tx_sequence = seqn, tx_max_time = v, tx_invocation = invoc, tx_auth = [],
      tx_resources = None\<rparr>"
  by (simp add: build_transaction_def fee_u32_def BASE_FEE_STROOPS_def u32_max_def)

lemma demo_prepare:
  "prepare_invocation demo_lib (demo_network d) demo_context ''trigger_inheritance'' [ScAccount [2], ScU64 1] demo_chain =
    (Ok (demo_invocation, 2, 390, \<lparr>sm_transaction_data = [], sm_min_resource_fee = 1000, sm_auth = [],
       sm_return_value = Some ScVoid\<rparr>), demo_chain)"
proof -
  have "cn_now demo_chain = 90000" by (simp add: demo_chain_def)
  then show ?thesis
    by (simp add: prepare_invocation_def simulate_def rpc_def demo_make [unfolded One_nat_def] demo_sequence
        demo_build demo_simulate demo_read_simulation TX_VALID_FOR_SECS_def Let_def
        cong: run_cong del: and_run_Ok)
qed

lemma demo_prepare_again:
  "prepare_invocation demo_lib (demo_network d) demo_context ''trigger_inheritance'' [ScAccount [2], ScU64 1] (demo_sent d n) =
    (Err (SimulationError ''already triggered''), demo_sent d n)"
  by (simp add: prepare_invocation_def simulate_def rpc_def demo_make [unfolded One_nat_def] demo_sequence
      demo_build demo_simulate_again simulated_error_def read_simulation_def Let_def
      cong: run_cong del: and_run_Ok)

lemma demo_sleep: "net_sleep (demo_network d) k (demo_sent e n) = demo_sent e (n + k)"
  by (simp add: demo_sent_def demo_server_def add.commute)

lemma demo_poll:
  "poll_transaction (Suc m) demo_lib (demo_network d) 1000 deadline ''h'' (demo_sent d n) =
     (if 90000 + d \<le> n then (Ok \<lparr>io_tx_hash = ''h'', io_events = demo_events 90000, io_return_value = Some ScVoid\<rparr>, demo_sent d n)
      else if deadline \<le> n then (Err (SubmitTimeout ''h''), demo_sent d n)
      else poll_transaction m demo_lib (demo_network d) 1000 deadline ''h'' (demo_sent d (n + 1000)))"
proof -
  have "read_meta demo_lib (Some ''ok'') = Ok (demo_events 90000, Some ScVoid)"
    by (simp add: read_meta_def demo_lib_def trim_def is_space_def)
  moreover have "cn_now (demo_sent d n) = n" by (simp add: demo_sent_def)
  ultimately show ?thesis by (simp add: rpc_def demo_get demo_sleep del: and_run_Ok chain_network_simps(3))
qed

text \<open>The result is known after one poll, or after the client has given up.\<close>

lemma demo_await:
  assumes "d = 1000 \<or> d = 5000"
  shows "await_transaction 4 demo_lib (demo_network d) demo_context ''h'' (demo_sent d 90000) =
    (if d = 1000 then (Ok \<lparr>io_tx_hash = ''h'', io_events = demo_events 90000, io_return_value = Some ScVoid\<rparr>, demo_sent d 91000)
     else (Err (SubmitTimeout ''h''), demo_sent d 93000))"
proof -
  have now: "cn_now (demo_sent d 90000) = 90000" by (simp add: demo_sent_def)
  have four: "(4 :: nat) = Suc (Suc (Suc (Suc 0)))" by simp
  note polls = demo_poll [where n = 90000] demo_poll [where n = 91000] demo_poll [where n = 92000] demo_poll [where n = 93000]
  from assms show ?thesis
    unfolding await_transaction_def chain_network_simps demo_context_simps now four
    by (elim disjE) (simp_all add: polls del: poll_transaction.simps)
qed

lemma demo_submit:
  assumes "d = 1000 \<or> d = 5000"
  shows "cl_trigger_inheritance 4 demo_lib (demo_network d) demo_client 1 demo_chain =
    (if d = 1000 then (Ok \<lparr>io_tx_hash = ''h'', io_events = demo_events 90000, io_return_value = Some ScVoid\<rparr>, demo_sent d 91000)
     else (Err (SubmitTimeout ''h''), demo_sent d 93000))"
proof -
  have build: "build_transaction demo_context 2 390 (saturating_add_i64 BASE_FEE_STROOPS 1000) demo_invocation [] (Some []) =
      Ok demo_transaction"
    by (simp add: build_transaction_def saturating_add_i64_def fee_u32_def BASE_FEE_STROOPS_def u32_max_def
        i64_min_def i64_max_def demo_transaction_def)
  have send: "send_transaction (demo_network d) ''tx'' ''h'' demo_chain = (Ok (), demo_sent d 90000)"
    by (simp add: send_transaction_def rpc_def demo_send del: and_run_Ok)
  show ?thesis
    unfolding cl_trigger_inheritance_def invoke_for_plan_def invoke_contract_def client_soroban_def send_and_await_def
    by (simp add: signer_account_scval_def demo_prepare [unfolded One_nat_def] build sign_transaction_def send
        demo_await [OF assms] Let_def cong: run_cong del: and_run_Ok)
qed

lemma demo_submit_again:
  "cl_trigger_inheritance (Suc m) demo_lib (demo_network d) demo_client 1 (demo_sent d n) =
    (Err (SimulationError ''already triggered''), demo_sent d n)"
  unfolding cl_trigger_inheritance_def invoke_for_plan_def invoke_contract_def client_soroban_def
  by (simp add: signer_account_scval_def demo_prepare_again [unfolded One_nat_def] cong: run_cong del: and_run_Ok)

section \<open>A sweep\<close>

definition demo_row :: plan_row where
  "demo_row = \<lparr>pr_id = 1, pr_owner_address = ''O'', pr_token_address = ''T'', pr_amount = 9800, pr_grace_period = 0,
     pr_grace_period_seconds = 100, pr_earn_yield = False, pr_last_ping = 0, pr_is_active = True, pr_status = ''ACTIVE'',
     pr_yield_rate_bps = 0, pr_accrued_yield = 0, pr_created_at = 0, pr_onchain_plan_id = Some 1, pr_trigger_tx_hash = None,
     pr_trigger_attempts = 0, pr_trigger_started_at = None, pr_last_trigger_error = None\<rparr>"

definition demo_service :: "custody_world chain service" where
  "demo_service = \<lparr>sv_db = db_empty\<lparr>db_plans := [demo_row]\<rparr>, sv_faults = [], sv_lock_held = False, sv_locked_rows = {},
     sv_now = 1000, sv_cache = cache_memory, sv_status_events = [], sv_kyc_events = [], sv_net = demo_chain\<rparr>"

definition demo_watchdog :: watchdog where
  "demo_watchdog = \<lparr>wd_config = \<lparr>wc_interval = 3600, wc_batch_size = 10,
     wc_on_chain = \<lparr>oc_max_attempts = 2, oc_initial_backoff = 1000, oc_max_backoff = 30000, oc_stale_after = 900\<rparr>\<rparr>,
     wd_stellar = Some demo_client\<rparr>"

abbreviation demo_claimed :: plan_row where
  "demo_claimed \<equiv> claimed_as True 1000 demo_row"

text \<open>The service with another row and another world.\<close>

definition demo_db :: "plan_row \<Rightarrow> service_db" where
  "demo_db p = db_empty\<lparr>db_plans := [p]\<rparr>"

definition demo_at :: "plan_row \<Rightarrow> custody_world chain \<Rightarrow> custody_world chain service" where
  "demo_at p w = demo_service\<lparr>sv_db := demo_db p, sv_net := w\<rparr>"

lemma demo_at_simps [simp]:
  "sv_db (demo_at p w) = demo_db p" "sv_net (demo_at p w) = w" "sv_faults (demo_at p w) = []"
  "sv_now (demo_at p w) = 1000" "sv_lock_held (demo_at p w) = False" "sv_locked_rows (demo_at p w) = {}"
  "(demo_at p w)\<lparr>sv_db := demo_db q\<rparr> = demo_at q w" "(demo_at p w)\<lparr>sv_net := v\<rparr> = demo_at p v"
  "db_plans (demo_db p) = [p]" "(demo_db p)\<lparr>db_plans := [q]\<rparr> = demo_db q" "active_endpoints (demo_db p) = []"
  by (simp_all add: demo_at_def demo_service_def demo_db_def active_endpoints_def db_empty_def)

lemma demo_invalidate [simp]: "invalidate_cache owner bs (demo_at p w) = demo_at p w"
proof -
  have "cache_invalidate_queries owner bs cache_memory = cache_memory"
    by (simp add: cache_memory_def fun_eq_iff)
  then show ?thesis by (simp add: invalidate_cache_def demo_at_def demo_service_def)
qed

lemma demo_at_start: "demo_service = demo_at demo_row demo_chain"
  by (simp add: demo_at_def demo_service_def demo_db_def)

lemma demo_read [simp]: "sql (read_rows f) (demo_at p w) = (Ok (f (demo_db p)), demo_at p w)"
  by (simp add: sql_without_faults read_rows_def)

lemma as_i32_bounds: "- 2147483648 \<le> as_i32 n \<and> as_i32 n < 2147483648"
proof -
  have "n mod 4294967296 < 4294967296" by simp
  then show ?thesis by (auto simp: as_i32_def Let_def)
qed

lemma demo_ok: "plans_table_ok [demo_claimed]" "plans_table_ok [set_triggered h k demo_claimed]"
  "plans_table_ok [set_trigger_failed f demo_claimed]"
  by (simp_all add: plans_table_ok_def plan_row_ok_def claimed_as_def set_triggered_def set_trigger_failed_def as_i32_bounds
      demo_row_def pr_inactivity_deadline_at_def onchain_ids_def MIN_TIMESTAMP_def MAX_TIMESTAMP_def)

lemma demo_update:
  "P p \<Longrightarrow> plans_table_ok [f p] \<Longrightarrow> sql (update_plans P f) (demo_at p w) = (Ok [f p], demo_at (f p) w)"
  by (simp add: sql_without_faults update_plans_def)

lemma demo_claim: "claim_expired_plans demo_watchdog True (demo_at demo_row w) = (Ok [demo_claimed], demo_at demo_claimed w)"
proof -
  have "expired_batch (wd_config demo_watchdog) True 1000 {} [demo_row] = [demo_row]"
    by (simp add: expired_batch_def expired_plan_def demo_watchdog_def demo_row_def pr_inactivity_deadline_at_def
        ACTIVE_STATUS_def)
  then have "sql (claim_statement (wd_config demo_watchdog) True 1000 {}) (demo_at demo_row w) =
      (Ok [demo_claimed], demo_at demo_claimed w)"
    using demo_ok(1) by (simp add: sql_without_faults claim_statement_def update_plans_def claimed_as_def)
  then show ?thesis
    by (simp add: claim_expired_plans_def in_transaction_def begin_transaction_def or_respond_def map_error_def
        cong: run_cong del: and_run_Ok)
qed

lemma demo_announce:
  "announce_triggered p h (demo_at q w) = (Ok (), demo_at q w)" "announce_trigger_failure p f (demo_at q w) = (Ok (), demo_at q w)"
  by (simp_all add: announce_triggered_def announce_trigger_failure_def enqueue_event_def or_else_def
      cong: run_cong del: and_run_Ok)

text \<open>The trigger of the plan: triggered at once, or given up although the contract has the trigger.\<close>

lemma demo_trigger:
  "trigger_on_chain 4 demo_lib (demo_network 1000) demo_watchdog demo_client demo_claimed demo_chain =
     (Ok (''h'', 1), demo_sent 1000 91000)"
  "trigger_on_chain 4 demo_lib (demo_network 5000) demo_watchdog demo_client demo_claimed demo_chain =
     (Err \<lparr>tf_reason = ClientFailed (SimulationError ''already triggered''), tf_attempts = 2\<rparr>, demo_sent 5000 94000)"
proof -
  have plan: "pr_onchain_plan_id demo_claimed = Some 1"
    by (simp add: claimed_as_def demo_row_def)
  have config: "oc_max_attempts (wc_on_chain (wd_config demo_watchdog)) = Suc (Suc 0)"
    "backoff_for (wc_on_chain (wd_config demo_watchdog)) 1 = 1000"
    by (simp_all add: demo_watchdog_def backoff_for_def duration_max_def u64_max_def)
  have event: "verify_trigger_event demo_client \<lparr>io_tx_hash = ''h'', io_events = demo_events 90000,
      io_return_value = Some ScVoid\<rparr> 1 = Ok ()"
    by (simp add: verify_trigger_event_def client_contract_def demo_events_def encode_event_def encode_struct_def
        find_event_def event_matches_def TRIGGER_EVENT_TOPICS_def matches_symbol_def event_u64_field_def get_u64_def)
  have "cl_trigger_inheritance 4 demo_lib (demo_network d) demo_client 1 (demo_sent d n) =
      (Err (SimulationError ''already triggered''), demo_sent d n)" for d n
    using demo_submit_again [of 3 d n] by simp
  note calls = demo_submit [of 1000, simplified] demo_submit [of 5000, simplified] this [simplified]
  show "trigger_on_chain 4 demo_lib (demo_network 1000) demo_watchdog demo_client demo_claimed demo_chain =
     (Ok (''h'', 1), demo_sent 1000 91000)"
    by (simp add: trigger_on_chain_def plan config [simplified] calls event [simplified] Let_def)
  show "trigger_on_chain 4 demo_lib (demo_network 5000) demo_watchdog demo_client demo_claimed demo_chain =
     (Err \<lparr>tf_reason = ClientFailed (SimulationError ''already triggered''), tf_attempts = 2\<rparr>, demo_sent 5000 94000)"
    by (simp add: trigger_on_chain_def plan config [simplified] calls is_retryable_def demo_sleep Let_def
        del: chain_network_simps(3))
qed

lemma demo_sweep:
  "run_once 4 demo_lib (demo_network 1000) demo_watchdog demo_service =
     (Ok 1, demo_at (set_triggered ''h'' 1 demo_claimed) (demo_sent 1000 91000))"
  "run_once 4 demo_lib (demo_network 5000) demo_watchdog demo_service =
     (Ok 0, demo_at (set_trigger_failed \<lparr>tf_reason = ClientFailed (SimulationError ''already triggered''), tf_attempts = 2\<rparr>
       demo_claimed) (demo_sent 5000 94000))"
proof -
  have wd: "wd_stellar demo_watchdog = Some demo_client" by (simp add: demo_watchdog_def)
  note steps = run_once_def sweep_plan_def on_net_def mark_triggered_def mark_trigger_failed_def demo_at_start
  show "run_once 4 demo_lib (demo_network 1000) demo_watchdog demo_service =
     (Ok 1, demo_at (set_triggered ''h'' 1 demo_claimed) (demo_sent 1000 91000))"
    by (simp add: steps wd demo_claim demo_trigger demo_update demo_ok demo_announce Let_def cong: run_cong del: and_run_Ok)
  show "run_once 4 demo_lib (demo_network 5000) demo_watchdog demo_service =
     (Ok 0, demo_at (set_trigger_failed \<lparr>tf_reason = ClientFailed (SimulationError ''already triggered''), tf_attempts = 2\<rparr>
       demo_claimed) (demo_sent 5000 94000))"
    by (simp add: steps wd demo_claim demo_trigger demo_update demo_ok demo_announce Let_def cong: run_cong del: and_run_Ok)
qed

end
