(* ===== verification/Loan_Facts.thy ===== *)
theory Loan_Facts
  imports Loan_Lifecycle Watchdog_Run
begin

text \<open>
  The requests on the loans of a plan: what they refuse before anything is touched, and what a request
  that succeeds has recorded and on what evidence.
\<close>

section \<open>What a request may change before it is let in\<close>

lemma load_plan_cases:
  assumes "load_plan i s = (r, t)"
  shows "\<exists>fs. t = s\<lparr>sv_faults := fs\<rparr> \<and>
    (r = Err (500, Text ''Database query failed'') \<or> r = ok_or (plan_by_id i (sv_db s)) (404, Text ''Plan not found''))"
proof -
  obtain q u where q: "sql (read_rows (plan_by_id i)) s = (q, u)" by fastforce
  show ?thesis
  proof (cases q)
    case (Ok row)
    from sql_Ok [OF q [unfolded Ok]] obtain fs where "row = plan_by_id i (sv_db s)" "u = s\<lparr>sv_faults := fs\<rparr>"
      by (auto simp: read_rows_def)
    then show ?thesis using assms q Ok by (auto simp: load_plan_def or_respond_def map_error_def)
  next
    case (Err e)
    from sql_Err [OF q [unfolded Err]] show ?thesis
      using assms q Err by (auto simp: load_plan_def or_respond_def map_error_def)
  qed (use q in simp)
qed

lemma not_triggered:
  "\<not> pr_is_active p \<or> pr_status p \<notin> set ALLOWED_STATUSES \<Longrightarrow> \<exists>m. require_triggered p = Err (409, m)"
  by (auto simp: require_triggered_def ensure_def)

text \<open>A request that starts with the two guards.\<close>

lemma guarded_request:
  assumes "pre = (\<lambda>s. and_run (load_plan i s) (\<lambda>plan s. and_run (require_triggered plan, s) (\<lambda>_ s. body plan s)))"
    and "\<And>p. plan_by_id i (sv_db s) = Some p \<Longrightarrow> \<not> pr_is_active p \<or> pr_status p \<notin> set ALLOWED_STATUSES"
  shows "\<exists>code m fs. pre s = (Err (code, m), s\<lparr>sv_faults := fs\<rparr>) \<and> code \<in> {404, 409, 500}"
proof -
  obtain r t where r: "load_plan i s = (r, t)" by fastforce
  from load_plan_cases [OF r] obtain fs where t: "t = s\<lparr>sv_faults := fs\<rparr>" and
    "r = Err (500, Text ''Database query failed'') \<or> r = ok_or (plan_by_id i (sv_db s)) (404, Text ''Plan not found'')"
    by blast
  then consider "r = Err (500, Text ''Database query failed'')" | "r = Err (404, Text ''Plan not found'')"
    | p where "r = Ok p" "plan_by_id i (sv_db s) = Some p"
    by (cases "plan_by_id i (sv_db s)") (auto simp: ok_or_def)
  then show ?thesis
  proof cases
    case 3
    with assms(2) obtain m where "require_triggered p = Err (409, m)" using not_triggered by blast
    then show ?thesis using 3 by (auto simp: assms(1) r t)
  qed (auto simp: assms(1) r t)
qed

text \<open>A request that is let in has loaded its plan.\<close>

lemma guard_passed:
  assumes "load_plan i s = (Ok p, s1)" and "require_triggered p = Ok u"
  shows "plan_by_id i (sv_db s) = Some p \<and> pr_is_active p \<and> pr_status p \<in> set ALLOWED_STATUSES \<and> (\<exists>fs. s1 = s\<lparr>sv_faults := fs\<rparr>)"
proof -
  have "Ok p \<noteq> Err (500 :: nat, Text ''Database query failed'')" by simp
  then obtain fs where s1: "s1 = s\<lparr>sv_faults := fs\<rparr>" and
    "ok_or (plan_by_id i (sv_db s)) (404 :: nat, Text ''Plan not found'') = Ok p"
    using load_plan_cases [OF assms(1)] by metis
  then have "plan_by_id i (sv_db s) = Some p" by (cases "plan_by_id i (sv_db s)") (simp_all add: ok_or_def)
  moreover have "pr_is_active p \<and> pr_status p \<in> set ALLOWED_STATUSES"
    using not_triggered [of p] assms(2) by auto
  ultimately show ?thesis using s1 by blast
qed

section \<open>The network part\<close>

lemma on_net_Ok:
  assumes "on_net f s = (Ok x, t)"
  shows "\<exists>w. f (sv_net s) = (Ok x, w) \<and> t = s\<lparr>sv_net := w\<rparr>"
proof -
  obtain r w where f: "f (sv_net s) = (r, w)" by fastforce
  with assms have "r = Ok x" "t = s\<lparr>sv_net := w\<rparr>" unfolding on_net_def by (simp_all only: prod.case prod.inject)
  with f show ?thesis by blast
qed

lemma or_stellar_Ok [simp]: "or_stellar r a = (Ok x, t) \<longleftrightarrow> r = (Ok x, t)"
  by (auto simp: or_stellar_def map_error_def prod_eq_iff split: outcome.splits)

lemma reach_outstanding: "net_reach N w0 w \<Longrightarrow> net_reach N w0 (snd (outstanding_loaned lb N cl i w))"
  unfolding outstanding_loaned_def simulate_contract_def by (auto intro!: reach_inv reach_prepare split: prod.splits)

text \<open>
  The evidence of a request: the signer's call of \<open>f\<close> for plan \<open>i\<close> has hash \<open>h\<close>, and the server reported it as
  successful with the event of those topics, about that plan where the event says.
\<close>

definition call_reported ::
  "stellar_lib \<Rightarrow> 'w network \<Rightarrow> 'w \<Rightarrow> 'w \<Rightarrow> stellar_client \<Rightarrow> string \<Rightarrow> nat list \<Rightarrow> string list \<Rightarrow> string \<Rightarrow> bool" where
  "call_reported lb N w0 w1 cl f numbers topics h \<longleftrightarrow> (\<exists>ctx events ev. sl_soroban cl = Some ctx \<and>
     hash_of_invocation lb ctx \<lparr>iv_contract = cx_contract ctx, iv_function = f,
       iv_args = signer_account_scval ctx # map ScU64 numbers\<rparr> h \<and>
     reported lb N w0 w1 h events \<and> find_event events (cx_contract ctx) topics = Some ev \<and>
     (\<forall>j. event_u64_field ev ''plan_id'' = Some j \<longrightarrow> j = hd numbers))"

lemma plan_call_reported:
  assumes "invoke_for_plan n lb N cl f numbers w = (Ok outc, v)" and "verify_loan_event cl outc (hd numbers) topics = Ok u"
  shows "call_reported lb N w v cl f numbers topics (io_tx_hash outc)"
proof -
  from assms(1) obtain ctx where ctx: "sl_soroban cl = Some ctx" and
    invoke: "invoke_contract n lb N cl f (signer_account_scval ctx # map ScU64 numbers) w = (Ok outc, v)"
    by (auto simp: invoke_for_plan_def client_soroban_def)
  from invocation_Ok [OF invoke] have "reported lb N w v (io_tx_hash outc) (io_events outc)"
    "hash_of_invocation lb ctx \<lparr>iv_contract = cx_contract ctx, iv_function = f,
       iv_args = signer_account_scval ctx # map ScU64 numbers\<rparr> (io_tx_hash outc)"
    using ctx by auto
  moreover from assms(2) ctx obtain ev where "find_event (io_events outc) (cx_contract ctx) topics = Some ev"
    "\<forall>j. event_u64_field ev ''plan_id'' = Some j \<longrightarrow> j = hd numbers"
    by (auto simp: verify_loan_event_def client_contract_def split: option.splits)
  ultimately show ?thesis using ctx unfolding call_reported_def by blast
qed

lemma call_reported_earlier:
  "call_reported lb N w1 w2 cl f ns topics h \<Longrightarrow> net_reach N w0 w1 \<Longrightarrow> call_reported lb N w0 w2 cl f ns topics h"
  unfolding call_reported_def by (blast intro: reported_earlier)

lemma call_reported_later:
  "call_reported lb N w0 w1 cl f ns topics h \<Longrightarrow> net_reach N w1 w2 \<Longrightarrow> call_reported lb N w0 w2 cl f ns topics h"
  unfolding call_reported_def by (blast intro: reported_later)

lemma settle_on_chain_Ok:
  assumes "settle_on_chain n lb N cl p s = (Ok (tx, amount), t)"
  shows "(\<exists>w. t = s\<lparr>sv_net := w\<rparr>) \<and> (tx = None \<longrightarrow> amount = 0) \<and>
    (\<forall>h. tx = Some h \<longrightarrow> (\<exists>i. pr_onchain_plan_id p = Some (int i) \<and>
       call_reported lb N (sv_net s) (sv_net t) cl ''liquidation_fallback'' [i] LIQUIDATE_EVENT_TOPICS h))"
proof (cases "soroban_enabled cl")
  case True
  from assms True obtain i out0 s1 where i: "require_onchain_id p = Ok i"
    and read: "on_net (outstanding_loaned lb N cl i) s = (Ok out0, s1)"
    and rest: "(if unwrap_or 0 out0 = 0 then (Ok (None, 0), s1) else
      and_run (or_stellar (on_net (cl_liquidation_fallback n lb N cl i) s1) ''liquidate and settle'') (\<lambda>outc s.
      and_run (verify_loan_event cl outc i LIQUIDATE_EVENT_TOPICS, s) (\<lambda>_ s.
      (Ok (Some (io_tx_hash outc), event_amount cl outc LIQUIDATE_EVENT_TOPICS ''settled_amount'' (unwrap_or 0 out0)), s)))) =
      (Ok (tx, amount), t)"
    unfolding settle_on_chain_def Let_def by auto
  from on_net_Ok [OF read] obtain w1 where w1: "outstanding_loaned lb N cl i (sv_net s) = (Ok out0, w1)" "s1 = s\<lparr>sv_net := w1\<rparr>"
    by blast
  show ?thesis
  proof (cases "unwrap_or 0 out0 = 0")
    case False
    with rest obtain outc s2 u where call: "on_net (cl_liquidation_fallback n lb N cl i) s1 = (Ok outc, s2)"
      and ver: "verify_loan_event cl outc i LIQUIDATE_EVENT_TOPICS = Ok u" and out: "tx = Some (io_tx_hash outc)" "t = s2"
      by auto
    from on_net_Ok [OF call] obtain w2 where w2: "cl_liquidation_fallback n lb N cl i w1 = (Ok outc, w2)" "s2 = s\<lparr>sv_net := w2\<rparr>"
      using w1(2) by auto
    have "net_reach N (sv_net s) w1" using reach_outstanding [OF net_start, of N "sv_net s" lb cl i] w1(1) by simp
    then have "call_reported lb N (sv_net s) w2 cl ''liquidation_fallback'' [i] LIQUIDATE_EVENT_TOPICS (io_tx_hash outc)"
      using plan_call_reported [of n lb N cl "''liquidation_fallback''" "[i]" w1 outc w2 LIQUIDATE_EVENT_TOPICS u] w2(1) ver
      by (auto simp: cl_liquidation_fallback_def intro: call_reported_earlier)
    moreover have "pr_onchain_plan_id p = Some (int i)"
      using i by (auto simp: require_onchain_id_def split: option.splits if_splits)
    ultimately show ?thesis using out w2(2) by auto
  qed (use rest w1 in auto)
qed (use assms in \<open>auto simp: settle_on_chain_def intro: exI [of _ "sv_net s"]\<close>)

section \<open>The record of a request\<close>

text \<open>Steps that leave alone what the requests record.\<close>

definition unrecorded :: "'w service \<Rightarrow> 'w service \<Rightarrow> bool" where
  "unrecorded s t \<longleftrightarrow> plan_rows t = plan_rows s \<and> db_lifecycle (sv_db t) = db_lifecycle (sv_db s) \<and>
     sv_net t = sv_net s \<and> sv_cache t = sv_cache s \<and> sv_status_events t = sv_status_events s"

lemma unrecorded_refl [simp]: "unrecorded s s"
  by (simp add: unrecorded_def)

lemma unrecorded_trans: "unrecorded s t \<Longrightarrow> unrecorded t u \<Longrightarrow> unrecorded s u"
  by (simp add: unrecorded_def)

lemma unrecorded_sql:
  assumes "\<And>x db. stmt (sv_db s) = Some (x, db) \<Longrightarrow>
    db_plans db = plan_rows s \<and> db_lifecycle db = db_lifecycle (sv_db s)"
  shows "unrecorded s (snd (sql stmt s))"
  using sql_state [of stmt s "fst (sql stmt s)" "snd (sql stmt s)"] assms by (auto simp: unrecorded_def)

lemma unrecorded_read [simp]: "unrecorded s (snd (sql (read_rows f) s))"
  by (rule unrecorded_sql) (auto simp: read_rows_def)

lemma unrecorded_enqueue: "unrecorded s (snd (enqueue_event e p s))"
  unfolding enqueue_event_def
proof (rule and_run_inv [where P = "unrecorded s"])
  fix eps t assume t: "unrecorded s t"
  show "unrecorded s (snd (fold_steps (\<lambda>ep _ s. sql (insert_dispatch ep e p (sv_now s)) s) eps () t))"
  proof (rule fold_steps_invariant)
    fix x a u assume "unrecorded s u"
    moreover have "unrecorded u (snd (sql (insert_dispatch x e p (sv_now u)) u))"
      by (rule unrecorded_sql) (auto simp: insert_dispatch_def)
    ultimately show "unrecorded s (snd (sql (insert_dispatch x e p (sv_now u)) u))" by (rule unrecorded_trans)
  qed (rule t)
qed simp

lemma record_progress_Ok:
  assumes "record_progress p ev kind tx response s = (Ok r, t)"
  obtains bs u where "r = response" "unrecorded s u"
    "unrecorded (send_status ev (invalidate_cache (pr_owner_address p) bs u)) t"
proof -
  let ?read = "or_else (sql (read_rows (beneficiary_addresses (pr_id p))) s) [] :: (string list, http_error) outcome \<times> _"
  from assms obtain bs u where u: "?read = (Ok bs, u)" and r: "r = response"
    and e: "emit_status ev kind p tx (invalidate_cache (pr_owner_address p) bs u) = (Ok (), t)"
    unfolding record_progress_def invalidate_plan_cache_def by auto
  have "unrecorded s u" using unrecorded_read [of s "beneficiary_addresses (pr_id p)"] or_else_state u by (metis snd_conv)
  moreover have "t = snd (enqueue_event kind (LoanEvent (pr_id p) (pr_owner_address p) (pr_onchain_plan_id p)
      (se_status ev) tx (se_remaining_loaned ev)) (send_status ev (invalidate_cache (pr_owner_address p) bs u)))"
    using e or_else_state unfolding emit_status_def by (metis snd_conv)
  ultimately show thesis using that r unrecorded_enqueue by blast
qed

text \<open>The row of the life cycle after an update.\<close>

lemma upsert_lifecycle_Ok:
  assumes "upsert_lifecycle i freeze progress settlement n tx s = (Ok u, t)"
  obtains r where "db_lifecycle (sv_db t) i = Some r" "lifecycle_row_ok r" "lc_outstanding_loaned r = as_i64 n"
    "\<And>x. freeze = Some x \<Longrightarrow> lc_freeze_status r = x" "\<And>x. progress = Some x \<Longrightarrow> lc_recall_progress r = x"
    "\<And>x. settlement = Some x \<Longrightarrow> lc_settlement_status r = x" "\<And>h. tx = Some h \<Longrightarrow> lc_last_tx_hash r = Some h"
    "plan_rows t = plan_rows s" "sv_net t = sv_net s" "sv_cache t = sv_cache s" "sv_status_events t = sv_status_events s"
proof -
  from assms have "sql (upsert_lifecycle_row i freeze progress settlement (as_i64 n) tx (sv_now s)) s = (Ok u, t)"
    by (simp add: upsert_lifecycle_def)
  from sql_Ok [OF this] obtain fs db where
    row: "upsert_lifecycle_row i freeze progress settlement (as_i64 n) tx (sv_now s) (sv_db s) = Some (u, db)"
    and t: "t = s\<lparr>sv_faults := fs, sv_db := db\<rparr>" by blast
  then show thesis
    by (cases "db_lifecycle (sv_db s) i")
      (auto simp: upsert_lifecycle_row_def Let_def unwrap_or_def split: if_splits option.splits intro!: that)
qed

lemma mark_claimable_Ok:
  assumes "sql (mark_claimable i) s = (Ok x, t)"
  shows "plan_rows t = map (\<lambda>p. if pr_id p = i \<and> pr_status p = ''TRIGGERED'' then p\<lparr>pr_status := ''CLAIMABLE''\<rparr> else p) (plan_rows s) \<and>
    db_lifecycle (sv_db t) = db_lifecycle (sv_db s) \<and> sv_net t = sv_net s \<and> sv_cache t = sv_cache s \<and>
    sv_status_events t = sv_status_events s"
  using sql_Ok [OF assms] by (auto simp: mark_claimable_def update_plans_Some)

lemma settle_Ok:
  assumes "liquidate_and_settle n lb N cl i s = (Ok resp, t)"
  obtains p r bs where "plan_by_id i (sv_db s) = Some p" "pr_is_active p" "pr_status p \<in> set ALLOWED_STATUSES"
    "plan_rows t = map (\<lambda>q. if pr_id q = pr_id p \<and> pr_status q = ''TRIGGERED'' then q\<lparr>pr_status := ''CLAIMABLE''\<rparr> else q) (plan_rows s)"
    "db_lifecycle (sv_db t) (pr_id p) = Some r" "lc_settlement_status r = ''SETTLED''" "lc_recall_progress r = 100"
    "lc_outstanding_loaned r = 0" "\<And>h. lo_tx_hash resp = Some h \<Longrightarrow> lc_last_tx_hash r = Some h"
    "sv_cache t = cache_invalidate_queries (pr_owner_address p) bs (sv_cache s)"
    "\<And>h. lo_tx_hash resp = Some h \<Longrightarrow> (\<exists>j. pr_onchain_plan_id p = Some (int j) \<and>
       call_reported lb N (sv_net s) (sv_net t) cl ''liquidation_fallback'' [j] LIQUIDATE_EVENT_TOPICS h)"
proof -
  from assms obtain p s1 u1 tx amount s2 u2 s3 x s4 where load: "load_plan i s = (Ok p, s1)"
    and req: "require_triggered p = Ok u1" and net: "settle_on_chain n lb N cl p s1 = (Ok (tx, amount), s2)"
    and up: "upsert_lifecycle (pr_id p) None (Some 100) (Some ''SETTLED'') 0 tx s2 = (Ok u2, s3)"
    and mark: "sql (mark_claimable (pr_id p)) s3 = (Ok x, s4)"
    and rec: "record_progress p
       \<lparr>se_event_type = ''plan.liquidated'', se_plan_id = pr_id p, se_status = ''SETTLED'', se_tx_hash = tx,
        se_freeze_status = None, se_recall_progress = Some 100, se_settlement_status = Some ''SETTLED'',
        se_remaining_loaned = Some 0\<rparr> ''plan.settled'' tx
       \<lparr>lo_plan_id = pr_id p, lo_tx_hash = tx, lo_on_chain = soroban_enabled cl, lo_amount = amount,
        lo_recall_progress = 100, lo_remaining_loaned = 0\<rparr> s4 = (Ok resp, t)"
    unfolding liquidate_and_settle_def by auto
  from guard_passed [OF load req] obtain fs where p: "plan_by_id i (sv_db s) = Some p" "pr_is_active p"
    "pr_status p \<in> set ALLOWED_STATUSES" and s1: "s1 = s\<lparr>sv_faults := fs\<rparr>" by blast
  note chain = settle_on_chain_Ok [OF net]
  from chain obtain w where s2: "s2 = s1\<lparr>sv_net := w\<rparr>" by blast
  obtain r where r: "db_lifecycle (sv_db s3) (pr_id p) = Some r"
    "lc_outstanding_loaned r = as_i64 0" "lc_recall_progress r = 100" "lc_settlement_status r = ''SETTLED''"
    "\<And>h. tx = Some h \<Longrightarrow> lc_last_tx_hash r = Some h"
    and s3: "plan_rows s3 = plan_rows s2" "sv_net s3 = sv_net s2" "sv_cache s3 = sv_cache s2"
    by (rule upsert_lifecycle_Ok [OF up]) (rule that, simp_all)
  note s4 = mark_claimable_Ok [OF mark]
  obtain bs u where resp: "lo_tx_hash resp = tx" and u: "unrecorded s4 u"
    and t: "plan_rows t = plan_rows u" "db_lifecycle (sv_db t) = db_lifecycle (sv_db u)" "sv_net t = sv_net u"
      "sv_cache t = cache_invalidate_queries (pr_owner_address p) bs (sv_cache u)"
    by (rule record_progress_Ok [OF rec])
      (rule that, simp_all add: unrecorded_def send_status_def invalidate_cache_def)
  have zero: "as_i64 0 = 0" by (simp add: as_i64_def i64_max_def)
  show thesis
    by (rule that [OF p, of r bs])
      (use u t s4 s3 s2 s1 r zero resp chain in \<open>simp_all add: unrecorded_def\<close>)
qed

section \<open>Freezing and recalling\<close>

lemma on_net_world: "sv_net (snd (on_net f s)) = snd (f (sv_net s))"
  by (simp add: on_net_def split: prod.split)

lemma freeze_on_chain_Ok:
  assumes "freeze_on_chain n lb N cl p s = (Ok (tx, remaining), t)"
  shows "\<forall>h. tx = Some h \<longrightarrow> (\<exists>i. pr_onchain_plan_id p = Some (int i) \<and>
    call_reported lb N (sv_net s) (sv_net t) cl ''freeze_loans'' [i] FREEZE_EVENT_TOPICS h)"
proof (cases "soroban_enabled cl")
  case True
  from assms True obtain i outc s1 u r where i: "require_onchain_id p = Ok i"
    and call: "on_net (cl_freeze_loans n lb N cl i) s = (Ok outc, s1)"
    and ver: "verify_loan_event cl outc i FREEZE_EVENT_TOPICS = Ok u"
    and read: "outstanding_after lb N cl i s1 = (Ok r, t)" and out: "tx = Some (io_tx_hash outc)"
    unfolding freeze_on_chain_def by auto
  from on_net_Ok [OF call] obtain w where w: "cl_freeze_loans n lb N cl i (sv_net s) = (Ok outc, w)" "s1 = s\<lparr>sv_net := w\<rparr>"
    by blast
  have "sv_net t = snd (outstanding_loaned lb N cl i w)"
    using arg_cong [OF read, of "\<lambda>r. sv_net (snd r)"] by (simp add: outstanding_after_def on_net_world w(2))
  then have "net_reach N w (sv_net t)" using reach_outstanding [OF net_start] by simp
  then have "call_reported lb N (sv_net s) (sv_net t) cl ''freeze_loans'' [i] FREEZE_EVENT_TOPICS (io_tx_hash outc)"
    using plan_call_reported [of n lb N cl "''freeze_loans''" "[i]" "sv_net s" outc w FREEZE_EVENT_TOPICS u] w(1) ver
    by (auto simp: cl_freeze_loans_def intro: call_reported_later)
  moreover have "pr_onchain_plan_id p = Some (int i)"
    using i by (auto simp: require_onchain_id_def split: option.splits if_splits)
  ultimately show ?thesis using out by auto
qed (use assms in \<open>auto simp: freeze_on_chain_def\<close>)

lemma recall_on_chain_Ok:
  assumes "recall_on_chain n lb N cl requested p s = (Ok (tx, remaining, amount), t)"
  shows "\<forall>h. tx = Some h \<longrightarrow> (\<exists>i k. pr_onchain_plan_id p = Some (int i) \<and> (requested = None \<or> requested = Some k) \<and> 0 < k \<and>
    call_reported lb N (sv_net s) (sv_net t) cl ''recall_loan'' [i, k] RECALL_EVENT_TOPICS h)"
proof (cases "soroban_enabled cl")
  case True
  from assms True obtain i k s1 where i: "require_onchain_id p = Ok i"
    and res: "resolve_recall_amount lb N cl i requested s = (Ok k, s1)"
    and rest: "(if k = 0 then (Ok (None, 0, 0), s1) else
      and_run (or_stellar (on_net (cl_recall_loan n lb N cl i k) s1) ''recall loans'') (\<lambda>outc s.
      and_run (verify_loan_event cl outc i RECALL_EVENT_TOPICS, s) (\<lambda>_ s.
      (Ok (Some (io_tx_hash outc), event_amount cl outc RECALL_EVENT_TOPICS ''remaining_loaned'' 0,
        event_amount cl outc RECALL_EVENT_TOPICS ''recalled_amount'' k), s)))) = (Ok (tx, remaining, amount), t)"
    unfolding recall_on_chain_def by auto
  have s1: "net_reach N (sv_net s) (sv_net s1) \<and> (requested = None \<or> requested = Some k)"
  proof (cases requested)
    case None
    then obtain o1 where "on_net (outstanding_loaned lb N cl i) s = (Ok o1, s1)"
      using res by (auto simp: resolve_recall_amount_def)
    from on_net_Ok [OF this] obtain w where "outstanding_loaned lb N cl i (sv_net s) = (Ok o1, w)" "s1 = s\<lparr>sv_net := w\<rparr>"
      by blast
    then show ?thesis using None reach_outstanding [OF net_start, of N "sv_net s" lb cl i] by simp
  next
    case (Some a)
    then show ?thesis using res by (auto simp: resolve_recall_amount_def net_start split: if_splits)
  qed
  show ?thesis
  proof (cases "k = 0")
    case False
    with rest obtain outc s2 u where call: "on_net (cl_recall_loan n lb N cl i k) s1 = (Ok outc, s2)"
      and ver: "verify_loan_event cl outc i RECALL_EVENT_TOPICS = Ok u" and out: "tx = Some (io_tx_hash outc)" "t = s2"
      by auto
    from on_net_Ok [OF call] obtain w where w: "cl_recall_loan n lb N cl i k (sv_net s1) = (Ok outc, w)" "s2 = s1\<lparr>sv_net := w\<rparr>"
      by blast
    have "call_reported lb N (sv_net s) w cl ''recall_loan'' [i, k] RECALL_EVENT_TOPICS (io_tx_hash outc)"
      using plan_call_reported [of n lb N cl "''recall_loan''" "[i, k]" "sv_net s1" outc w RECALL_EVENT_TOPICS u] w(1) ver s1
      by (auto simp: cl_recall_loan_def intro: call_reported_earlier)
    moreover have "pr_onchain_plan_id p = Some (int i)"
      using i by (auto simp: require_onchain_id_def split: option.splits if_splits)
    ultimately show ?thesis using out w(2) s1 False by auto
  qed (use rest in auto)
qed (use assms in \<open>auto simp: recall_on_chain_def\<close>)

text \<open>The hash of a response.\<close>

lemma recorded_net:
  assumes "upsert_lifecycle i a b c d e s = (Ok u, s1)" and "record_progress p ev kind tx response s1 = (Ok r, t)"
  shows "sv_net t = sv_net s \<and> r = response"
proof -
  have "sv_net s1 = sv_net s" by (rule upsert_lifecycle_Ok [OF assms(1)])
  moreover have "sv_net t = sv_net s1 \<and> r = response"
    by (rule record_progress_Ok [OF assms(2)]) (simp add: unrecorded_def send_status_def invalidate_cache_def)
  ultimately show ?thesis by simp
qed

lemma freeze_response:
  assumes "freeze_loans_handler n lb N cl i s = (Ok resp, t)" and "lo_tx_hash resp = Some h"
  shows "\<exists>p j. plan_by_id i (sv_db s) = Some p \<and> pr_onchain_plan_id p = Some (int j) \<and>
    call_reported lb N (sv_net s) (sv_net t) cl ''freeze_loans'' [j] FREEZE_EVENT_TOPICS h"
proof -
  from assms(1) obtain p s1 u1 tx rem s2 u2 s3 ev x where load: "load_plan i s = (Ok p, s1)"
    and req: "require_triggered p = Ok u1" and net: "freeze_on_chain n lb N cl p s1 = (Ok (tx, rem), s2)"
    and up: "upsert_lifecycle (pr_id p) (Some ''FROZEN'') None None (unwrap_or 0 rem) tx s2 = (Ok u2, s3)"
    and rec: "record_progress p ev ''plan.loans_frozen'' tx x s3 = (Ok resp, t)" and x: "lo_tx_hash x = tx"
    unfolding freeze_loans_handler_def Let_def by fastforce
  from guard_passed [OF load req] have "plan_by_id i (sv_db s) = Some p" "sv_net s1 = sv_net s" by auto
  then show ?thesis using freeze_on_chain_Ok [OF net] recorded_net [OF up rec] x assms(2) by auto
qed

lemma recall_response:
  assumes "recall_loans n lb N cl requested i s = (Ok resp, t)" and "lo_tx_hash resp = Some h"
  shows "\<exists>p j k. plan_by_id i (sv_db s) = Some p \<and> pr_onchain_plan_id p = Some (int j) \<and>
    (requested = None \<or> requested = Some k) \<and>
    call_reported lb N (sv_net s) (sv_net t) cl ''recall_loan'' [j, k] RECALL_EVENT_TOPICS h"
proof -
  from assms(1) obtain p s1 u1 tx rem amount s2 u2 s3 ev x where load: "load_plan i s = (Ok p, s1)"
    and req: "require_triggered p = Ok u1" and net: "recall_on_chain n lb N cl requested p s1 = (Ok (tx, rem, amount), s2)"
    and up: "upsert_lifecycle (pr_id p) None (Some (if rem = 0 then 100 else 50)) None rem tx s2 = (Ok u2, s3)"
    and rec: "record_progress p ev ''plan.loans_recalled'' tx x s3 = (Ok resp, t)" and x: "lo_tx_hash x = tx"
    unfolding recall_loans_def Let_def by fastforce
  from guard_passed [OF load req] have "plan_by_id i (sv_db s) = Some p" "sv_net s1 = sv_net s" by auto
  then show ?thesis using recall_on_chain_Ok [OF net] recorded_net [OF up rec] x assms(2) by auto
qed

text \<open>The end of a request does not fail: what goes wrong there is ignored.\<close>

lemma or_else_Ok: "fst r \<noteq> Panic \<Longrightarrow> \<exists>y. or_else r x = (Ok y, snd r)"
  by (cases r; cases "fst r") (auto simp: or_else_def)

lemma record_progress_returns: "\<exists>t. record_progress p ev kind tx response s = (Ok response, t)"
proof -
  obtain bs u where "or_else (sql (read_rows (beneficiary_addresses (pr_id p))) s) [] =
      ((Ok bs, u) :: (string list, http_error) outcome \<times> _)"
    using or_else_Ok by (metis sql_returns)
  moreover obtain y v where "or_else (enqueue_event kind (LoanEvent (pr_id p) (pr_owner_address p) (pr_onchain_plan_id p)
      (se_status ev) tx (se_remaining_loaned ev)) (send_status ev (invalidate_cache (pr_owner_address p) bs u))) () =
      ((Ok y, v) :: (unit, http_error) outcome \<times> _)"
    using or_else_Ok by (metis enqueue_returns)
  ultimately show ?thesis
    by (simp add: record_progress_def invalidate_plan_cache_def emit_status_def del: and_run_Ok)
qed

end
