(* ===== verification/Loan_Messages.thy ===== *)
theory Loan_Messages
  imports Loan_Facts
begin

text \<open>
  The messages of a request on the loans: the status event it sends to the listeners, and the
  deliveries it queues for the webhook endpoints.
\<close>

section \<open>Queued deliveries\<close>

text \<open>New deliveries of an event, for the first \<open>k\<close> of the active endpoints.\<close>

definition queued :: "string \<Rightarrow> event_payload \<Rightarrow> nat \<Rightarrow> service_db \<Rightarrow> service_db \<Rightarrow> bool" where
  "queued event_type payload k d d' \<longleftrightarrow> (\<exists>new. db_dispatches d' = db_dispatches d @ new \<and>
     map dp_endpoint_id new = take k (active_endpoints d) \<and>
     (\<forall>x \<in> set new. dp_event_type x = event_type \<and> dp_payload x = payload \<and> dp_status x = ''pending'' \<and> dp_attempts x = 0))"

lemma sql_no_faults: "sv_faults s = [] \<Longrightarrow> sv_faults (snd (sql stmt s)) = []"
  by (simp add: sql_without_faults split: option.split)

lemma dispatch_Ok:
  assumes "sql (insert_dispatch ep kind payload now) s = (Ok x, t)"
  shows "\<exists>d. db_dispatches (sv_db t) = db_dispatches (sv_db s) @ [d] \<and> dp_endpoint_id d = ep \<and> dp_event_type d = kind \<and>
    dp_payload d = payload \<and> dp_status d = ''pending'' \<and> dp_attempts d = 0"
  using sql_Ok [OF assms] by (auto simp: insert_dispatch_def)

lemma dispatch_Err: "sql stmt s = (Err e, t) \<Longrightarrow> sv_db t = sv_db s"
  by (auto dest!: sql_Err)

lemma queue_loop:
  assumes "fold_steps (\<lambda>ep _ s. sql (insert_dispatch ep kind payload (sv_now s)) s) eps () s = (r, t)"
  shows "\<exists>k new. db_dispatches (sv_db t) = db_dispatches (sv_db s) @ new \<and> map dp_endpoint_id new = take k eps \<and>
    (\<forall>x \<in> set new. dp_event_type x = kind \<and> dp_payload x = payload \<and> dp_status x = ''pending'' \<and> dp_attempts x = 0) \<and>
    (sv_faults s = [] \<longrightarrow> k = length eps)"
  using assms
proof (induction eps arbitrary: s)
  case (Cons ep eps)
  obtain q u where q: "sql (insert_dispatch ep kind payload (sv_now s)) s = (q, u)" by fastforce
  show ?case
  proof (cases q)
    case (Ok x)
    then have "fold_steps (\<lambda>ep _ s. sql (insert_dispatch ep kind payload (sv_now s)) s) eps () u = (r, t)"
      using Cons.prems q by (cases x) simp
    from Cons.IH [OF this] obtain k new where new: "db_dispatches (sv_db t) = db_dispatches (sv_db u) @ new"
      "map dp_endpoint_id new = take k eps"
      "\<forall>x \<in> set new. dp_event_type x = kind \<and> dp_payload x = payload \<and> dp_status x = ''pending'' \<and> dp_attempts x = 0"
      "sv_faults u = [] \<longrightarrow> k = length eps" by blast
    from dispatch_Ok [OF q [unfolded Ok]] obtain d where d: "db_dispatches (sv_db u) = db_dispatches (sv_db s) @ [d]"
      "dp_endpoint_id d = ep" "dp_event_type d = kind" "dp_payload d = payload" "dp_status d = ''pending''" "dp_attempts d = 0"
      by blast
    have "sv_faults s = [] \<Longrightarrow> sv_faults u = []" using sql_no_faults q by (metis snd_conv)
    then show ?thesis using new d by (intro exI [of _ "Suc k"] exI [of _ "d # new"]) auto
  next
    case (Err e)
    then have "t = u" using Cons.prems q by simp
    then have "db_dispatches (sv_db t) = db_dispatches (sv_db s)" using dispatch_Err q Err by metis
    moreover have "sv_faults s \<noteq> []" using q Err by (auto simp: sql_without_faults insert_dispatch_def)
    ultimately show ?thesis by (intro exI [of _ 0] exI [of _ "[]"]) simp
  qed (use q in simp)
qed simp

lemma enqueue_queues:
  assumes "enqueue_event kind payload s = (r, t)"
  shows "\<exists>k. queued kind payload k (sv_db s) (sv_db t) \<and> (sv_faults s = [] \<longrightarrow> k = length (active_endpoints (sv_db s)))"
proof -
  obtain q u where q: "sql (read_rows active_endpoints) s = (q, u)" by fastforce
  show ?thesis
  proof (cases q)
    case (Ok eps)
    from sql_Ok [OF q [unfolded Ok]] have eps: "eps = active_endpoints (sv_db s)" "sv_db u = sv_db s"
      by (auto simp: read_rows_def)
    have "sv_faults s = [] \<Longrightarrow> sv_faults u = []" using sql_no_faults q by (metis snd_conv)
    then show ?thesis
      using queue_loop [of kind payload eps u r t] assms q Ok eps unfolding enqueue_event_def queued_def by auto
  next
    case (Err e)
    then have "t = u" using assms q by (simp add: enqueue_event_def)
    then have "sv_db t = sv_db s" using dispatch_Err q Err by metis
    moreover have "sv_faults s \<noteq> []" using q Err by (auto simp: sql_without_faults read_rows_def)
    ultimately show ?thesis by (intro exI [of _ 0]) (simp add: queued_def)
  qed (use q in simp)
qed

section \<open>Steps that send nothing\<close>

definition sends_nothing :: "'w service \<Rightarrow> 'w service \<Rightarrow> bool" where
  "sends_nothing s t \<longleftrightarrow> db_dispatches (sv_db t) = db_dispatches (sv_db s) \<and> db_endpoints (sv_db t) = db_endpoints (sv_db s) \<and>
     sv_status_events t = sv_status_events s \<and> (sv_faults s = [] \<longrightarrow> sv_faults t = [])"

lemma sends_nothing_trans [trans]: "sends_nothing s t \<Longrightarrow> sends_nothing t u \<Longrightarrow> sends_nothing s u"
  by (simp add: sends_nothing_def)

lemma sends_nothing_sql:
  assumes "sql stmt s = (r, t)"
    and "\<And>x d. stmt (sv_db s) = Some (x, d) \<Longrightarrow> db_dispatches d = db_dispatches (sv_db s) \<and> db_endpoints d = db_endpoints (sv_db s)"
  shows "sends_nothing s t"
  using sql_state [OF assms(1)] assms(2) sql_no_faults [of s stmt] assms(1) by (auto simp: sends_nothing_def)

lemma sends_nothing_load: "load_plan i s = (Ok p, t) \<Longrightarrow> sends_nothing s t"
  unfolding load_plan_def by (auto intro!: sends_nothing_sql simp: read_rows_def)

lemma sends_nothing_upsert: "upsert_lifecycle i a b c n h s = (Ok u, t) \<Longrightarrow> sends_nothing s t"
  unfolding upsert_lifecycle_def by (auto intro!: sends_nothing_sql simp: upsert_lifecycle_row_def Let_def split: if_splits)

lemma sends_nothing_mark: "sql (mark_claimable i) s = (r, t) \<Longrightarrow> sends_nothing s t"
  by (erule sends_nothing_sql) (auto simp: mark_claimable_def update_plans_Some)

lemma queued_endpoints: "db_endpoints d = db_endpoints d0 \<Longrightarrow> db_dispatches d = db_dispatches d0 \<Longrightarrow>
    queued kind payload k d d' = queued kind payload k d0 d'"
  by (simp add: queued_def active_endpoints_def)

section \<open>The end of a request\<close>

lemma record_progress_sends:
  assumes "record_progress p ev kind tx response s = (Ok r, t)"
  shows "sv_status_events t = sv_status_events s @ [ev] \<and>
    (\<exists>k. queued kind (LoanEvent (pr_id p) (pr_owner_address p) (pr_onchain_plan_id p) (se_status ev) tx (se_remaining_loaned ev)) k
      (sv_db s) (sv_db t) \<and> (sv_faults s = [] \<longrightarrow> k = length (active_endpoints (sv_db s))))"
proof -
  let ?payload = "LoanEvent (pr_id p) (pr_owner_address p) (pr_onchain_plan_id p) (se_status ev) tx (se_remaining_loaned ev)"
  let ?read = "or_else (sql (read_rows (beneficiary_addresses (pr_id p))) s) [] :: (string list, http_error) outcome \<times> _"
  from assms obtain bs u where u: "?read = (Ok bs, u)"
    and e: "emit_status ev kind p tx (invalidate_cache (pr_owner_address p) bs u) = (Ok (), t)"
    unfolding record_progress_def invalidate_plan_cache_def by auto
  let ?v = "send_status ev (invalidate_cache (pr_owner_address p) bs u)"
  have "u = snd (sql (read_rows (beneficiary_addresses (pr_id p))) s)" using u or_else_state by (metis snd_conv)
  moreover have "sends_nothing s (snd (sql (read_rows (beneficiary_addresses (pr_id p))) s))"
    by (rule sends_nothing_sql [OF prod.collapse [symmetric]]) (auto simp: read_rows_def)
  ultimately have "sends_nothing s u" by simp
  then have v: "db_dispatches (sv_db ?v) = db_dispatches (sv_db s)" "db_endpoints (sv_db ?v) = db_endpoints (sv_db s)"
    "sv_status_events ?v = sv_status_events s @ [ev]" "sv_faults s = [] \<longrightarrow> sv_faults ?v = []"
    by (simp_all add: sends_nothing_def send_status_def invalidate_cache_def)
  have t: "t = snd (enqueue_event kind ?payload ?v)"
    using e or_else_state unfolding emit_status_def by (metis snd_conv)
  from enqueue_queues [OF prod.collapse [symmetric], of kind ?payload ?v] obtain k where
    k: "queued kind ?payload k (sv_db ?v) (sv_db t)" "sv_faults ?v = [] \<longrightarrow> k = length (active_endpoints (sv_db ?v))"
    unfolding t by blast
  have "unrecorded ?v t" unfolding t by (rule unrecorded_enqueue)
  then have "sv_status_events t = sv_status_events s @ [ev]" using v(3) by (simp add: unrecorded_def)
  moreover have "queued kind ?payload k (sv_db s) (sv_db t)" using k(1) queued_endpoints v(1,2) by blast
  moreover have "sv_faults s = [] \<longrightarrow> k = length (active_endpoints (sv_db s))"
    using k(2) v(2,4) by (auto simp: active_endpoints_def)
  ultimately show ?thesis by blast
qed

text \<open>What a settlement announces.\<close>

definition settled_status :: "plan_row \<Rightarrow> string option \<Rightarrow> status_event" where
  "settled_status p tx = \<lparr>se_event_type = ''plan.liquidated'', se_plan_id = pr_id p, se_status = ''SETTLED'', se_tx_hash = tx,
     se_freeze_status = None, se_recall_progress = Some 100, se_settlement_status = Some ''SETTLED'',
     se_remaining_loaned = Some 0\<rparr>"

definition settled_payload :: "plan_row \<Rightarrow> string option \<Rightarrow> event_payload" where
  "settled_payload p tx = LoanEvent (pr_id p) (pr_owner_address p) (pr_onchain_plan_id p) ''SETTLED'' tx (Some 0)"

lemma settle_sends:
  assumes "liquidate_and_settle n lb N cl i s = (Ok resp, t)" and "plan_by_id i (sv_db s) = Some p"
  shows "sv_status_events t = sv_status_events s @ [settled_status p (lo_tx_hash resp)] \<and>
    (\<exists>k. queued ''plan.settled'' (settled_payload p (lo_tx_hash resp)) k (sv_db s) (sv_db t) \<and>
      (sv_faults s = [] \<longrightarrow> k = length (active_endpoints (sv_db s))))"
proof -
  from assms(1) obtain p' s1 u1 tx amount s2 u2 s3 x s4 where load: "load_plan i s = (Ok p', s1)"
    and req: "require_triggered p' = Ok u1" and net: "settle_on_chain n lb N cl p' s1 = (Ok (tx, amount), s2)"
    and up: "upsert_lifecycle (pr_id p') None (Some 100) (Some ''SETTLED'') 0 tx s2 = (Ok u2, s3)"
    and mark: "sql (mark_claimable (pr_id p')) s3 = (Ok x, s4)"
    and rec: "record_progress p' (settled_status p' tx) ''plan.settled'' tx
       \<lparr>lo_plan_id = pr_id p', lo_tx_hash = tx, lo_on_chain = soroban_enabled cl, lo_amount = amount,
        lo_recall_progress = 100, lo_remaining_loaned = 0\<rparr> s4 = (Ok resp, t)"
    unfolding liquidate_and_settle_def settled_status_def by auto
  have p: "p' = p" using guard_passed [OF load req] assms(2) by simp
  have tx: "lo_tx_hash resp = tx" by (rule record_progress_Ok [OF rec]) simp
  have "sends_nothing s s1" by (rule sends_nothing_load [OF load])
  also have "sends_nothing s1 s2" using settle_on_chain_Ok [OF net] by (auto simp: sends_nothing_def)
  also have "sends_nothing s2 s3" by (rule sends_nothing_upsert [OF up])
  also have "sends_nothing s3 s4" by (rule sends_nothing_mark [OF mark])
  finally have s4: "sends_nothing s s4" .
  then have same: "db_dispatches (sv_db s4) = db_dispatches (sv_db s)" "db_endpoints (sv_db s4) = db_endpoints (sv_db s)"
    by (simp_all add: sends_nothing_def)
  show ?thesis
    using record_progress_sends [OF rec] s4 queued_endpoints [OF same(2,1)]
    by (auto simp: p tx sends_nothing_def settled_status_def settled_payload_def active_endpoints_def)
qed

end
