(* ===== verification/Service_Properties.thy ===== *)
theory Service_Properties
  imports Service_Demo Loan_Messages Inherit_Properties
begin

text \<open>
  The properties of the backend's sweep and of its requests on loans, each followed by its application to
  the backend of \<open>Service_Demo\<close>.
\<close>

section \<open>The rows after a sweep\<close>

text \<open>
  C8. After a sweep of a backend that triggers on the chain, whether it returned or stopped at an error,
  every row of the table of plans is as it was, or was due when the sweep began and is now claimed,
  or recorded as failed, or recorded as triggered with the hash of a transaction of the signer that calls
  \<open>trigger_inheritance\<close> for that very plan, and that the server reported as successful with the contract's
  event for it while the sweep ran.
\<close>

theorem sweep_rows_are_explained:
  assumes "run_once n lb N wd s = (r, t)" and "wd_stellar wd = Some cl" and "plans_table_ok (plan_rows s)"
  shows "list_all2 (\<lambda>p q. q = p \<or>
      expired_plan True (oc_stale_after (wc_on_chain (wd_config wd))) (sv_now s) p \<and>
      (let c = claimed_as True (sv_now s) p in q = c \<or> (\<exists>f. q = set_trigger_failed f c) \<or>
        (\<exists>h k i. q = set_triggered h k c \<and> pr_onchain_plan_id p = Some (int i) \<and>
           chain_triggered lb N (sv_net s) (sv_net t) cl i h)))
    (plan_rows s) (plan_rows t)"
proof -
  have ps: "distinct (map pr_id (plan_rows s))" using assms(3) by (simp add: plans_table_ok_def)
  obtain B D where B: "B \<subseteq> batch_ids wd True s"
    and rows: "list_all2 (swept lb N (sv_net s) (sv_net t) cl (sv_now s) B D) (plan_rows s) (plan_rows t)"
    using sweep_rows [OF assms(1,2) ps] by metis
  have id: "pr_onchain_plan_id (claimed_as True now p) = pr_onchain_plan_id p" for now p
    by (simp add: claimed_as_def)
  show ?thesis
    using rows
  proof (rule list.rel_mono_strong)
    fix p q assume p: "p \<in> set (plan_rows s)" and q: "swept lb N (sv_net s) (sv_net t) cl (sv_now s) B D p q"
    show "q = p \<or> expired_plan True (oc_stale_after (wc_on_chain (wd_config wd))) (sv_now s) p \<and>
      (let c = claimed_as True (sv_now s) p in q = c \<or> (\<exists>f. q = set_trigger_failed f c) \<or>
        (\<exists>h k i. q = set_triggered h k c \<and> pr_onchain_plan_id p = Some (int i) \<and>
           chain_triggered lb N (sv_net s) (sv_net t) cl i h))"
    proof (cases "pr_id p \<in> B")
      case True
      then have "expired_plan True (oc_stale_after (wc_on_chain (wd_config wd))) (sv_now s) p"
        using batch_expired [OF _ p ps, of wd True] B by blast
      then show ?thesis
        using q True unfolding swept_def trigger_recorded_def failure_recorded_def id Let_def by (metis (full_types))
    next
      case False
      then show ?thesis using q by (simp add: swept_def)
    qed
  qed
qed

theorem sweep_rows_are_explained_witness:
  "\<exists>i. chain_triggered demo_lib (demo_network 1000) demo_chain (demo_sent 1000 91000) demo_client i ''h''"
proof -
  have "wd_stellar demo_watchdog = Some demo_client" "plans_table_ok (plan_rows demo_service)"
    using demo_ok(1) by (simp_all add: demo_watchdog_def demo_at_start plans_table_ok_def plan_row_ok_def claimed_as_def
        pr_inactivity_deadline_at_def onchain_ids_def)
  from sweep_rows_are_explained [OF demo_sweep(1) this] show ?thesis
    by (auto simp: demo_at_start Let_def set_triggered_def claimed_as_def set_trigger_failed_def demo_row_def
        TRIGGERED_STATUS_def TRIGGERING_STATUS_def TRIGGER_FAILED_STATUS_def)
qed

text \<open>
  C9. A sweep that returns while no other worker held the lock is done with its batch: the number it
  returns is that of the plans of the batch that are triggered, every other plan of the batch is recorded as
  failed, and no row outside the batch has changed.
\<close>

theorem finished_sweep_settles_batch:
  assumes "run_once n lb N wd s = (Ok k, t)" and "wd_stellar wd = Some cl" and "plans_table_ok (plan_rows s)"
    and "\<not> sv_lock_held s"
  shows "k = triggered_in (batch_ids wd True s) (plan_rows t) \<and>
    list_all2 (\<lambda>p q. pr_id q = pr_id p \<and> (if pr_id p \<in> batch_ids wd True s
      then pr_status q \<in> {TRIGGERED_STATUS, TRIGGER_FAILED_STATUS} else q = p)) (plan_rows s) (plan_rows t)"
proof -
  have ps: "distinct (map pr_id (plan_rows s))" using assms(3) by (simp add: plans_table_ok_def)
  obtain B D where rows: "list_all2 (swept lb N (sv_net s) (sv_net t) cl (sv_now s) B D) (plan_rows s) (plan_rows t)"
    and done_with: "D = B" "k = triggered_in B (plan_rows t)" "B = batch_ids wd True s"
    using sweep_rows [OF assms(1,2) ps] assms(4) by metis
  have "list_all2 (\<lambda>p q. pr_id q = pr_id p \<and> (if pr_id p \<in> B
      then pr_status q \<in> {TRIGGERED_STATUS, TRIGGER_FAILED_STATUS} else q = p)) (plan_rows s) (plan_rows t)"
    using rows [unfolded done_with(1)]
    by (rule list_all2_mono) (auto simp: swept_def dest: recorded_id split: if_splits)
  then show ?thesis using done_with by simp
qed

theorem finished_sweep_settles_batch_witness:
  "triggered_in (batch_ids demo_watchdog True demo_service) [set_triggered ''h'' 1 demo_claimed] = 1"
proof -
  have "wd_stellar demo_watchdog = Some demo_client" "plans_table_ok (plan_rows demo_service)" "\<not> sv_lock_held demo_service"
    using demo_ok(1) by (simp_all add: demo_watchdog_def demo_at_start plans_table_ok_def plan_row_ok_def claimed_as_def
        pr_inactivity_deadline_at_def onchain_ids_def)
  from finished_sweep_settles_batch [OF demo_sweep(1) this] show ?thesis by simp
qed

text \<open>
  C11. A sweep always returns: whatever the servers answer, where a pause of the client takes the time it
  asks for and a poll does not turn the clock back, no sweep runs out of polls once one more is granted than
  the poll interval fits into the timeout.
\<close>

theorem sweep_returns:
  assumes "\<forall>w d. net_now N w + d \<le> net_now N (net_sleep N d w)"
    and "\<forall>h w. net_now N w \<le> net_now N (snd (net_get N h w))"
    and "\<forall>cl ctx. wd_stellar wd = Some cl \<longrightarrow> sl_soroban cl = Some ctx \<longrightarrow>
      sb_poll_timeout (cx_config ctx) < n * sb_poll_interval (cx_config ctx)"
  shows "\<exists>r t. run_once (Suc n) lb N wd s = (r, t) \<and> r \<noteq> Panic"
proof -
  have "running_clock N"
  proof
    fix h w r w' assume "net_get N h w = (r, w')"
    then show "net_now N w \<le> net_now N w'" using assms(2) by (metis snd_conv)
  qed (use assms(1) in blast)
  then have "fst (run_once (Suc n) lb N wd s) \<noteq> Panic"
    using assms(3) by (intro running_clock.run_returns) blast+
  then show ?thesis by (metis prod.collapse)
qed

theorem sweep_returns_witness: "\<exists>r t. run_once (Suc 4) demo_lib (demo_network 7) demo_watchdog demo_service = (r, t) \<and> r \<noteq> Panic"
  by (rule sweep_returns) (auto simp: chain_get_def demo_watchdog_def)

text \<open>
  C12. A sweep submits a bounded number of transactions: at most the number of attempts per plan for each
  plan of a batch, whatever happens to them. They are counted by any measure that only a submission raises.
\<close>

theorem sweep_submissions_bounded:
  assumes "run_once n lb N wd s = (r, t)" and "plans_table_ok (plan_rows s)" and "counted_sends N sent"
  shows "sent (sv_net t) \<le> sent (sv_net s) + nat (wc_batch_size (wd_config wd)) * oc_max_attempts (wc_on_chain (wd_config wd))"
  using counted_sends.sent_run [OF assms(3), of s n lb wd] assms(1,2) by (simp add: plans_table_ok_def)

theorem sweep_submissions_bounded_witness: "cn_sent (demo_sent 5000 94000) \<le> cn_sent demo_chain + 10 * 2"
proof -
  have "plans_table_ok (plan_rows demo_service)"
    using demo_ok(1) by (simp add: demo_at_start plans_table_ok_def plan_row_ok_def claimed_as_def
        pr_inactivity_deadline_at_def onchain_ids_def)
  from sweep_submissions_bounded [OF demo_sweep(2) this ledger_sends.counted_sends_axioms] show ?thesis
    by (simp add: demo_at_start demo_watchdog_def)
qed

section \<open>The sweep and the contract\<close>

lemma list_all2_right: "list_all2 P xs ys \<Longrightarrow> y \<in> set ys \<Longrightarrow> \<exists>x \<in> set xs. P x y"
  by (induction rule: list_all2_induct) auto

text \<open>
  C7. What the table of plans says was triggered is triggered on the contract. The contract is that of the
  inheritance contract's model, behind servers of which only the laws of \<open>contract_ledger\<close> are known: from a world
  without results on record, in any reachable state of the contract, whatever the backend sent before and
  whatever calls others make meanwhile, after a sweep every row that is recorded as triggered either is a row from
  before the sweep, or carries the hash of a transaction that the server reported to this sweep as successful with the
  contract's event for the plan, and the plan has its trigger on the contract at the end of the sweep and in every world
  that the network goes through from then on.
\<close>

theorem recorded_triggers_are_on_chain:
  assumes "run_once n lb N wd s = (r, t)" and "wd_stellar wd = Some cl" and "client_contract cl = Some cid"
    and "plans_table_ok (plan_rows s)" and "contract_ledger lb N XS cid contract recorded"
    and "any_run XS (ih_empty v) (contract w0)" and "recorded w0 = Map.empty" and "net_reach N w0 (sv_net s)"
  shows "\<forall>q \<in> set (plan_rows t). pr_status q = TRIGGERED_STATUS \<longrightarrow> q \<in> set (plan_rows s) \<or>
    (\<exists>i h. pr_onchain_plan_id q = Some (int i) \<and> pr_trigger_tx_hash q = Some h \<and>
       chain_triggered lb N (sv_net s) (sv_net t) cl i h \<and>
       (\<forall>w. net_reach N (sv_net t) w \<longrightarrow> get_inheritance_trigger (contract w) i \<noteq> None))"
proof (intro ballI impI)
  fix q assume q: "q \<in> set (plan_rows t)" "pr_status q = TRIGGERED_STATUS"
  have ps: "distinct (map pr_id (plan_rows s))" using assms(4) by (simp add: plans_table_ok_def)
  obtain B D where rows: "list_all2 (swept lb N (sv_net s) (sv_net t) cl (sv_now s) B D) (plan_rows s) (plan_rows t)"
    and reach: "net_reach N (sv_net s) (sv_net t)"
    using sweep_rows [OF assms(1,2) ps] by metis
  have "ledger_ok cid contract recorded w0"
    using assms(6,7) by (simp add: ledger_ok_def settled_reachable)
  then have ok: "ledger_ok cid contract recorded (sv_net t)"
    by (rule contract_ledger.ledger_reach [OF assms(5) reach_trans [OF reach assms(8)]])
  from list_all2_right [OF rows q(1)] obtain p where p: "p \<in> set (plan_rows s)"
    and s: "swept lb N (sv_net s) (sv_net t) cl (sv_now s) B D p q" by blast
  have "pr_status (claimed_as True now p) \<noteq> TRIGGERED_STATUS" for now
    by (simp add: claimed_as_def TRIGGERED_STATUS_def TRIGGERING_STATUS_def)
  with s q(2) have "q = p \<or> trigger_recorded lb N (sv_net s) (sv_net t) cl (claimed_as True (sv_now s) p) q"
    by (auto simp: swept_def TRIGGERED_STATUS_def TRIGGER_FAILED_STATUS_def dest: recorded_id(2) split: if_splits)
  then show "q \<in> set (plan_rows s) \<or>
    (\<exists>i h. pr_onchain_plan_id q = Some (int i) \<and> pr_trigger_tx_hash q = Some h \<and>
       chain_triggered lb N (sv_net s) (sv_net t) cl i h \<and>
       (\<forall>w. net_reach N (sv_net t) w \<longrightarrow> get_inheritance_trigger (contract w) i \<noteq> None))"
  proof
    assume "trigger_recorded lb N (sv_net s) (sv_net t) cl (claimed_as True (sv_now s) p) q"
    then obtain h k i where "q = set_triggered h k (claimed_as True (sv_now s) p)"
      "pr_onchain_plan_id (claimed_as True (sv_now s) p) = Some (int i)"
      and tr: "chain_triggered lb N (sv_net s) (sv_net t) cl i h"
      unfolding trigger_recorded_def by blast
    then have q: "pr_onchain_plan_id q = Some (int i)" "pr_trigger_tx_hash q = Some h" by (simp_all add: set_triggered_def)
    have "trigger_held i (contract (sv_net t))"
      using contract_ledger.reported_trigger [OF assms(5) tr assms(3) ok] ok by (simp add: trigger_held_def ledger_ok_def)
    then have "get_inheritance_trigger (contract w) i \<noteq> None" if "net_reach N (sv_net t) w" for w
      using contract_ledger.held_reach [OF assms(5) that]
      by (simp add: trigger_held_def get_inheritance_trigger_def get_trigger_info_def)
    then show ?thesis using q tr by blast
  qed (use p in simp)
qed

lemma demo_facts:
  "wd_stellar demo_watchdog = Some demo_client" "client_contract demo_client = Some (sr_contract (demo_server d))"
  "plans_table_ok (plan_rows demo_service)"
  using demo_ok(1)
  by (simp_all add: demo_watchdog_def demo_at_start plans_table_ok_def plan_row_ok_def claimed_as_def client_contract_def
      pr_inactivity_deadline_at_def onchain_ids_def demo_server_def)

theorem recorded_triggers_are_on_chain_witness:
  "get_inheritance_trigger (cn_contract (demo_sent 1000 91000)) 1 \<noteq> None \<and>
   get_inheritance_trigger (cn_contract (net_sleep (demo_network 1000) 5000 (demo_sent 1000 91000))) 1 \<noteq> None"
proof -
  have "any_run estate_ops (ih_empty estate_world) (cn_contract demo_chain)" "chain_recorded demo_chain = Map.empty"
    "net_reach (demo_network 1000) demo_chain (sv_net demo_service)"
    using any_estate_run by (simp_all add: demo_chain_def demo_at_start net_start chain_recorded_def recorded_in_def fun_eq_iff)
  note sweep = recorded_triggers_are_on_chain [OF demo_sweep(1) demo_facts demo_ledger.contract_ledger_axioms this]
  let ?q = "set_triggered ''h'' 1 demo_claimed"
  have rows: "?q \<in> set (plan_rows (demo_at ?q (demo_sent 1000 91000)))" "?q \<notin> set (plan_rows demo_service)"
    by (simp_all add: demo_at_start) (simp add: set_triggered_def claimed_as_def demo_row_def)
  have q: "pr_status ?q = TRIGGERED_STATUS" "pr_onchain_plan_id ?q = Some 1" by (simp_all add: set_triggered_def claimed_as_def demo_row_def)
  from bspec [OF sweep rows(1)] rows(2) q(1) obtain i where "pr_onchain_plan_id ?q = Some (int i)"
    and held: "\<forall>w. net_reach (demo_network 1000) (sv_net (demo_at ?q (demo_sent 1000 91000))) w \<longrightarrow>
      get_inheritance_trigger (cn_contract w) i \<noteq> None" by blast
  with q(2) have "i = 1" by simp
  have later: "get_inheritance_trigger (cn_contract w) 1 \<noteq> None" if "net_reach (demo_network 1000) (demo_sent 1000 91000) w" for w
    using held [rule_format, of w, unfolded demo_at_simps(2), OF that] unfolding \<open>i = 1\<close> .
  show ?thesis by (intro conjI later net_start reach_sleep)
qed

text \<open>
  C10. A plan whose trigger the contract already has is never recorded as triggered by a later attempt: the
  contract refuses the simulation, the client gives up at once, and the row says that the trigger failed. So it is
  when an attempt's transaction goes through only after the client has stopped polling, or after a worker crashed.
\<close>

theorem earlier_trigger_is_recorded_as_failure:
  assumes "sweep_plan n lb N wd cl p k s = (Ok k', t)" and "pr_onchain_plan_id p = Some (int i)"
    and "client_contract cl = Some cid" and "contract_ledger lb N XS cid contract recorded"
    and "get_inheritance_trigger (contract (sv_net s)) i \<noteq> None" and "any_run XS (ih_empty v) (contract (sv_net s))"
  shows "k' = k \<and> (\<exists>f. plan_rows t = map (\<lambda>q. if pr_id q = pr_id p then set_trigger_failed f q else q) (plan_rows s))"
proof -
  obtain o1 w where o1: "trigger_on_chain n lb N wd cl p (sv_net s) = (o1, w)" by fastforce
  have "trigger_held i (contract (sv_net s))"
    using assms(5,6) by (simp add: trigger_held_def settled_reachable get_inheritance_trigger_def get_trigger_info_def)
  then have never: "trigger_attempts left n lb N retry cl i e (sv_net s) \<noteq> (Ok x, v)" for left retry e x v
    using assms(3) by (rule contract_ledger.no_second_attempt [OF assms(4)])
  have "o1 \<noteq> Ok x" for x
    using o1 never assms(2) by (cases x) (auto simp: trigger_on_chain_def Let_def)
  then obtain f where "o1 = Err f" using assms(1) o1 by (cases o1) (auto simp: sweep_plan_def on_net_def)
  then have on: "on_net (trigger_on_chain n lb N wd cl p) s = (Err f, s\<lparr>sv_net := w\<rparr>)"
    using o1 by (simp add: on_net_def)
  from assms(1) obtain x u where mark: "mark_trigger_failed p f (s\<lparr>sv_net := w\<rparr>) = (Ok x, u)"
    and ann: "announce_trigger_failure p f u = (Ok (), t)" and k: "k' = k"
    by (auto simp: sweep_plan_def on)
  have "plan_rows t = plan_rows u" using announce_failure_plans [of p f u] ann by simp
  then show ?thesis
    using k mark_plans [OF mark [unfolded mark_trigger_failed_def]] by auto
qed

lemma demo_turn_again:
  "sweep_plan 4 demo_lib (demo_network 1000) demo_watchdog demo_client demo_claimed 0 (demo_at demo_claimed (demo_sent 1000 95000)) =
     (Ok 0, demo_at (set_trigger_failed \<lparr>tf_reason = ClientFailed (SimulationError ''already triggered''), tf_attempts = 1\<rparr>
       demo_claimed) (demo_sent 1000 95000))"
proof -
  have plan: "pr_onchain_plan_id demo_claimed = Some 1" by (simp add: claimed_as_def demo_row_def)
  have again: "cl_trigger_inheritance 4 demo_lib (demo_network 1000) demo_client 1 (demo_sent 1000 95000) =
      (Err (SimulationError ''already triggered''), demo_sent 1000 95000)"
    using demo_submit_again [of 3 1000 95000] by simp
  have attempts: "oc_max_attempts (wc_on_chain (wd_config demo_watchdog)) = Suc (Suc 0)"
    by (simp add: demo_watchdog_def)
  have "trigger_on_chain 4 demo_lib (demo_network 1000) demo_watchdog demo_client demo_claimed (demo_sent 1000 95000) =
     (Err \<lparr>tf_reason = ClientFailed (SimulationError ''already triggered''), tf_attempts = 1\<rparr>, demo_sent 1000 95000)"
    by (simp add: trigger_on_chain_def plan attempts again [simplified] is_retryable_def Let_def)
  then show ?thesis
    by (simp add: sweep_plan_def on_net_def mark_trigger_failed_def demo_update demo_ok demo_announce
        cong: run_cong del: and_run_Ok)
qed

theorem earlier_trigger_is_recorded_as_failure_witness:
  "\<exists>f. plan_rows (snd (sweep_plan 4 demo_lib (demo_network 1000) demo_watchdog demo_client demo_claimed 0
      (demo_at demo_claimed (demo_sent 1000 95000)))) = [set_trigger_failed f demo_claimed]"
proof -
  let ?s = "demo_at demo_claimed (demo_sent 1000 95000)"
  have plan: "pr_onchain_plan_id demo_claimed = Some (int 1)" "pr_id demo_claimed = 1"
    by (simp_all add: claimed_as_def demo_row_def)
  have "ih_exec (estate_ops (backend_cx 90000)) (backend_cx 90000) (TriggerCall (ITrigger (Addr 4) 1)) estate_created =
      Ok (estate_triggered 90000)" using estate_trigger by simp
  then have run: "any_run estate_ops (ih_empty estate_world) (estate_triggered 90000)"
    by (intro run_call [OF any_estate_run, of "backend_cx 90000" "TriggerCall (ITrigger (Addr 4) 1)"]) simp_all
  have chain: "get_inheritance_trigger (cn_contract (sv_net ?s)) 1 \<noteq> None"
    "any_run estate_ops (ih_empty estate_world) (cn_contract (sv_net ?s))"
    using run by (simp_all add: demo_sent_def estate_triggered_def get_inheritance_trigger_def get_trigger_info_def)
  from earlier_trigger_is_recorded_as_failure [OF demo_turn_again plan(1) demo_facts(2) demo_ledger.contract_ledger_axioms chain]
    plan(2)
  show ?thesis by (simp add: demo_turn_again)
qed

section \<open>Loans\<close>

text \<open>
  C14. A request to freeze, recall or settle the loans of a plan that does not exist, is no longer active
  or is neither triggered nor claimable is refused with an error of the client or of the database before
  anything happened: no table, no cached answer and no message changed, and no server was asked.
\<close>

theorem untriggered_plans_are_refused:
  assumes "\<forall>p. plan_by_id i (sv_db s) = Some p \<longrightarrow> \<not> pr_is_active p \<or> pr_status p \<notin> set ALLOWED_STATUSES"
    and "request \<in> {freeze_loans_handler n lb N cl i, recall_loans n lb N cl amount i, liquidate_and_settle n lb N cl i}"
  shows "\<exists>code m fs. request s = (Err (code, m), s\<lparr>sv_faults := fs\<rparr>) \<and> code \<in> {404, 409, 500}"
  using assms(2)
  by (elim insertE emptyE; intro guarded_request)
    (use assms(1) in \<open>auto simp: fun_eq_iff freeze_loans_handler_def recall_loans_def liquidate_and_settle_def\<close>)

theorem untriggered_plans_are_refused_witness:
  "\<exists>code m fs. liquidate_and_settle 4 demo_lib (demo_network 1000) demo_client 1 (demo_at demo_row demo_chain) =
     (Err (code, m), (demo_at demo_row demo_chain)\<lparr>sv_faults := fs\<rparr>)"
  using untriggered_plans_are_refused [of 1 "demo_at demo_row demo_chain"
      "liquidate_and_settle 4 demo_lib (demo_network 1000) demo_client 1" 4 demo_lib "demo_network 1000" demo_client None]
  by (fastforce simp: plan_by_id_def demo_row_def ALLOWED_STATUSES_def)

text \<open>
  C13. What a settlement that succeeds leaves behind, where the cache is off or came from any history of its
  operations. The plan was active and triggered or claimable; a triggered plan is claimable now and no other row
  of the plans changed; its life cycle is recorded as settled with nothing outstanding; no cached answer to
  any plan query is left. The listeners were sent exactly one more event, that of this settlement, and deliveries of
  \<open>plan.settled\<close> with its data are queued for the active webhook endpoints in their order: for all of
  them where no statement of the database fails, else for those up to the failure, which the code ignores. A
  transaction hash in the answer is that of the signer's \<open>liquidation_fallback\<close> for this plan, recorded and
  reported by the server with the contract's event.
\<close>

theorem settlement_effect:
  assumes "liquidate_and_settle n lb N cl i s = (Ok resp, t)"
    and "sv_cache s = CacheDisabled \<or> (\<exists>ops. sv_cache s = cache_after ops)"
  shows "\<exists>p r. plan_by_id i (sv_db s) = Some p \<and> pr_is_active p \<and> pr_status p \<in> set ALLOWED_STATUSES \<and>
    plan_rows t = map (\<lambda>q. if pr_id q = i \<and> pr_status q = ''TRIGGERED'' then q\<lparr>pr_status := ''CLAIMABLE''\<rparr> else q)
      (plan_rows s) \<and>
    db_lifecycle (sv_db t) i = Some r \<and> lc_settlement_status r = ''SETTLED'' \<and> lc_recall_progress r = 100 \<and>
    lc_outstanding_loaned r = 0 \<and> (\<forall>q. cache_get_plans q (sv_cache t) = Missing) \<and>
    sv_status_events t = sv_status_events s @ [settled_status p (lo_tx_hash resp)] \<and>
    (\<exists>k. queued ''plan.settled'' (settled_payload p (lo_tx_hash resp)) k (sv_db s) (sv_db t) \<and>
       (sv_faults s = [] \<longrightarrow> k = length (active_endpoints (sv_db s)))) \<and>
    (\<forall>h. lo_tx_hash resp = Some h \<longrightarrow> lc_last_tx_hash r = Some h \<and> (\<exists>j. pr_onchain_plan_id p = Some (int j) \<and>
       call_reported lb N (sv_net s) (sv_net t) cl ''liquidation_fallback'' [j] LIQUIDATE_EVENT_TOPICS h))"
proof (rule settle_Ok [OF assms(1)])
  fix p r bs
  assume p: "plan_by_id i (sv_db s) = Some p"
  then have "pr_id p = i" by (auto simp: plan_by_id_def find_Some_iff)
  moreover assume "sv_cache t = cache_invalidate_queries (pr_owner_address p) bs (sv_cache s)"
  then have "\<forall>q. cache_get_plans q (sv_cache t) = Missing"
    using assms(2) get_after_invalidation indexed_after latest_not_failed by (auto simp: get_after_history)
  moreover assume "pr_is_active p" "pr_status p \<in> set ALLOWED_STATUSES"
    "plan_rows t = map (\<lambda>q. if pr_id q = pr_id p \<and> pr_status q = ''TRIGGERED'' then q\<lparr>pr_status := ''CLAIMABLE''\<rparr> else q)
       (plan_rows s)"
    "db_lifecycle (sv_db t) (pr_id p) = Some r" "lc_settlement_status r = ''SETTLED''" "lc_recall_progress r = 100"
    "lc_outstanding_loaned r = 0" "\<And>h. lo_tx_hash resp = Some h \<Longrightarrow> lc_last_tx_hash r = Some h"
    "\<And>h. lo_tx_hash resp = Some h \<Longrightarrow> (\<exists>j. pr_onchain_plan_id p = Some (int j) \<and>
       call_reported lb N (sv_net s) (sv_net t) cl ''liquidation_fallback'' [j] LIQUIDATE_EVENT_TOPICS h)"
  ultimately show ?thesis using p settle_sends [OF assms(1) p] by (intro exI [of _ p] exI [of _ r]) simp
qed

lemma demo_settle:
  "\<exists>resp t. liquidate_and_settle 4 demo_lib (demo_network 1000) (client_new ''horizon'') 1
     (demo_at (set_triggered ''h'' 1 demo_claimed) (demo_sent 1000 95000)) = (Ok resp, t)"
proof -
  define p where "p = set_triggered ''h'' 1 demo_claimed"
  let ?cl = "client_new ''horizon''" and ?s = "demo_at p (demo_sent 1000 95000)"
  have p: "pr_id p = 1" "pr_is_active p" "pr_status p = ''TRIGGERED''"
    by (simp_all add: p_def set_triggered_def claimed_as_def demo_row_def TRIGGERED_STATUS_def)
  have load: "load_plan 1 ?s = (Ok p, ?s)"
    using p by (simp add: load_plan_def plan_by_id_def ok_or_def)
  have req: "require_triggered p = Ok ()" using p by (simp add: require_triggered_def ALLOWED_STATUSES_def)
  have net: "settle_on_chain 4 demo_lib (demo_network 1000) ?cl p ?s = (Ok (None, 0), ?s)"
    by (simp add: settle_on_chain_def soroban_enabled_def client_new_def)
  obtain s1 where up: "upsert_lifecycle 1 None (Some 100) (Some ''SETTLED'') 0 None ?s = (Ok (), s1)"
    and s1: "sv_faults s1 = []" "plan_rows s1 = [p]"
    using p by (simp add: upsert_lifecycle_def sql_without_faults upsert_lifecycle_row_def Let_def lifecycle_row_ok_def
        plan_by_id_def demo_db_def db_empty_def as_i64_def i64_max_def)
  have "plans_table_ok [p\<lparr>pr_status := ''CLAIMABLE''\<rparr>]"
    using demo_ok(2) [of "''h''" 1] unfolding p_def [symmetric]
    by (simp add: plans_table_ok_def plan_row_ok_def onchain_ids_def pr_inactivity_deadline_at_def)
  then obtain x s2 where mark: "sql (mark_claimable 1) s1 = (Ok x, s2)"
    using s1 p by (simp add: sql_without_faults mark_claimable_def update_plans_def Let_def)
  show ?thesis
    unfolding p_def [symmetric]
    by (simp add: or_respond_def map_error_def liquidate_and_settle_def load [simplified] req net [simplified] p up [simplified]
        mark [simplified] Let_def cong: run_cong del: and_run_Ok) (metis record_progress_returns)
qed

theorem settlement_effect_witness:
  "plan_rows (snd (liquidate_and_settle 4 demo_lib (demo_network 1000) (client_new ''horizon'') 1
     (demo_at (set_triggered ''h'' 1 demo_claimed) (demo_sent 1000 95000)))) =
   [(set_triggered ''h'' 1 demo_claimed)\<lparr>pr_status := ''CLAIMABLE''\<rparr>] \<and>
   length (sv_status_events (snd (liquidate_and_settle 4 demo_lib (demo_network 1000) (client_new ''horizon'') 1
     (demo_at (set_triggered ''h'' 1 demo_claimed) (demo_sent 1000 95000))))) = 1"
proof -
  let ?s = "demo_at (set_triggered ''h'' 1 demo_claimed) (demo_sent 1000 95000)"
  obtain resp t where run: "liquidate_and_settle 4 demo_lib (demo_network 1000) (client_new ''horizon'') 1 ?s = (Ok resp, t)"
    using demo_settle by blast
  have s: "sv_cache ?s = cache_after []" "sv_status_events ?s = []"
    by (simp_all add: demo_at_def demo_service_def cache_after_def)
  then have "sv_cache ?s = CacheDisabled \<or> (\<exists>ops. sv_cache ?s = cache_after ops)" by blast
  from settlement_effect [OF run this]
  have "plan_rows t = [(set_triggered ''h'' 1 demo_claimed)\<lparr>pr_status := ''CLAIMABLE''\<rparr>] \<and> length (sv_status_events t) = 1"
    unfolding s by (auto simp: set_triggered_def claimed_as_def demo_row_def TRIGGERED_STATUS_def)
  then show ?thesis unfolding run by simp
qed

section \<open>The cache\<close>



end
