(* ===== verification/Spec2Isabelle.thy ===== *)
theory Spec2Isabelle
  imports Contract_Properties Lending_System_Properties Lending_Pool_Properties Lending_Guards
    Lending_Rate_Properties Lending_Plan_Properties
    Inherit_Properties Service_Properties
begin

text \<open>
  A verification library for XourceX, an inheritance and lending protocol: its Soroban contracts, and the
  part of its backend that acts on them.

  \<^bold>\<open>The program.\<close> \<open>src/contracts\<close> holds the contracts, \<open>src/backend\<close> an HTTP service and
  \<open>src/frontend\<close> a web client. The contracts carry the protocol's own logic: \<open>access-control\<close> is a
  library of roles, locks and the pause switch that the other contracts embed; \<open>mock-token\<close> is the
  issued asset; \<open>loan-nft\<close> registers a token per loan; \<open>plan-vault\<close> keeps the funds of one
  inheritance plan; \<open>lending-contract\<close> is a lending pool that calls the tokens, mints and burns the
  loan NFTs, lends without collateral inside a transaction, farms rewards, insures loans, keeps a
  reserve fund and accrues yield for inheritance plans; \<open>inheritance-contract\<close> keeps the plans: their
  beneficiaries and shares, the funds in a vault per plan, wills and messages, triggers, guardians and
  disputes, the claims, and the yield that the lending contract pays on a plan.

  \<^bold>\<open>How a contract is modelled.\<close> A contract function is a HOL function of the same name from the
  caller's context (time, ledger number, who has authorized the call, the contract's own address) and
  the contract's state to an outcome: a value, an error of the contract's error type, or a trap. The
  state is a record with one field per storage key. A call that fails leaves no state, as the host
  rolls it back. Integers of Rust are \<open>nat\<close> or \<open>int\<close> with their bounds written out at every checked,
  saturating, wrapping or trapping operation of the source (\<open>Prelude\<close>). Calls to other contracts go
  through a record of functions over an abstract world, \<open>Token_Interface.externals\<close>.

  \<^bold>\<open>Theories and the code they model.\<close>
  \<^item> \<open>Prelude\<close>: outcomes and their composition, Rust's integers, the context, shared lemmas.
  \<^item> \<open>Access_Control\<close>: \<open>access-control/src/lib.rs\<close>. The locale \<open>lock_guard\<close> states what a lock
    owes its callers; it is interpreted for the three locks of the library and again for the NFT
    registry and the lending contract, each in its own theory.
  \<^item> \<open>Mock_Token\<close>: \<open>mock-token/src/lib.rs\<close>. \<open>Token_Interface\<close> has the calls that the vault and the
    pool make and the locale \<open>token_ledger\<close> of what they rely on, interpreted on \<open>Mock_Token\<close>.
  \<^item> \<open>Loan_NFT\<close>: \<open>loan-nft/src/lib.rs\<close>, with its step relation and invariant. \<open>Plan_Vault\<close>:
    \<open>plan-vault/src/lib.rs\<close>. \<open>Contract_Properties\<close>: the properties of these four contracts.
  \<^item> \<open>Lending_Types\<close>, \<open>Lending_Math\<close>, \<open>Lending_Storage\<close>: data and errors, pure arithmetic, storage
    accessors with guards and administration of \<open>lending-contract/src/lib.rs\<close> and \<open>reserves.rs\<close>.
    The locale \<open>rate_curve\<close> has both interest rate curves as interpretations.
  \<^item> \<open>Lending_Pool\<close> (deposit, withdraw, borrow, repay, priority withdrawal, flash loans),
    \<open>Lending_Loans\<close> (liquidation, refinancing, consolidation, splitting), \<open>Lending_Farming\<close>,
    \<open>Lending_Reserves\<close>, \<open>Lending_Insurance\<close>, \<open>Lending_Plan_Yield\<close>, \<open>Lending_Governance\<close>: the entry
    points of the same file. \<open>Lending_Pool_Facts\<close> and \<open>Lending_Loans_Facts\<close> state once, as one
    equation each, what a successful call did; all later proofs start there.
  \<^item> \<open>Lending_Contract\<close>: the contract as one machine, a datatype of its 58 state-changing calls and
    \<open>exec\<close> that runs one.
  \<^item> \<open>Lending_Books\<close>, \<open>Lending_Solvency\<close>, \<open>Lending_Frame\<close>, \<open>Lending_Machine\<close>: what the contract
    owes, the invariant \<open>books_inv\<close>, its preservation by each call inside the locale \<open>lending_env\<close>,
    and runs of calls. \<open>Chain\<close> interprets the locales on a world in which every token runs
    \<open>Mock_Token\<close> and every NFT address runs \<open>Loan_NFT\<close>; a flash-loan receiver is an arbitrary program
    of transfers and the inheritance contract's answer is a parameter. \<open>Lending_Demo\<close> follows a
    deployment through the model; the witnesses use it.
  \<^item> \<open>Lending_Shares\<close>: the accounting of the depositors' shares. \<open>Lending_Later\<close>: what no later call of the
    contract undoes, the unsafe ones included: the index of the loans, the use of an id for one loan, the marks of
    deposits. \<open>Lending_System_Properties\<close>,
    \<open>Lending_Pool_Properties\<close>, \<open>Lending_Guards\<close>, \<open>Lending_Rate_Properties\<close> and
    \<open>Lending_Plan_Properties\<close>: the properties of the lending contract.
  \<^item> \<open>Yield_Math\<close>: \<open>inheritance-contract/src/yield_math.rs\<close>. \<open>Inherit_Types\<close>: data, errors and storage
    of \<open>lib.rs\<close> and \<open>disputes.rs\<close>, with the calls to tokens, vaults, the pool and the host as the
    record \<open>ih_externals\<close>. \<open>Inherit_Store\<close>: hashing, guards, the window of claim attempts, storage
    accessors and administration. \<open>Inherit_Plans\<close>, \<open>Inherit_Triggers\<close>, \<open>Inherit_Disputes\<close>,
    \<open>Inherit_Emergency\<close>, \<open>Inherit_Claims\<close>, \<open>Inherit_Wills\<close>, \<open>Inherit_Messages\<close>, \<open>Inherit_Yield\<close>: the
    entry points by subject.
  \<^item> \<open>Inherit_Contract\<close>: the inheritance contract as one machine, \<open>ih_exec\<close> over its state-changing
    calls. \<open>Inherit_Frame\<close>: what each call leaves alone. \<open>Inherit_Plans_Facts\<close>, \<open>Inherit_Shares\<close>,
    \<open>Inherit_Claims_Facts\<close>, \<open>Inherit_Yield_Facts\<close>: what a successful call did, once per call.
  \<^item> \<open>Inherit_Settled\<close>: runs as an inductive relation, and the facts that no run undoes.
    \<open>Inherit_Allocations\<close>: plans stay well formed. \<open>Plan_Custody\<close>: the locale \<open>plan_custody\<close> of what the
    contract relies on and, in it, that vaults cover their plans; \<open>Custody_Chain\<close> interprets it on a
    world whose tokens run \<open>Mock_Token\<close> and whose vaults run \<open>Plan_Vault\<close>, with the pool's answers as a
    parameter. \<open>Inherit_Demo\<close> deploys the contract, creates a plan and claims from it, for the
    witnesses. \<open>Inherit_Properties\<close>: the properties.

  \<^item> \<open>Inherit_Loans\<close>: what a plan has on loan.
  \<^item> \<open>Service_Monad\<close>: the steps of the backend, which may fail after they have changed something, and the
    parts of Rust's strings it uses. \<open>Soroban_Client\<close>: \<open>backend/src/stellar_submit.rs\<close>, over a record of the
    packages it calls and a record of servers and clock; the locale \<open>running_clock\<close> states what a
    wait relies on. \<open>Service_Db\<close>: rows, constraints and statements of \<open>backend/migrations\<close>. \<open>Plan_Cache\<close>:
    \<open>backend/src/cache.rs\<close>, and what its in-memory store answers, by keys and by the filters of the queries.
    \<open>Service\<close>: the state of the running backend, statements and transactions, and
    \<open>enqueue_event\<close> of \<open>webhooks.rs\<close>. \<open>Watchdog\<close>: \<open>inactivity_watchdog.rs\<close>. \<open>Loan_Lifecycle\<close>:
    \<open>loan_lifecycle.rs\<close>.
  \<^item> \<open>Soroban_Facts\<close>, \<open>Watchdog_Facts\<close>, \<open>Watchdog_Sweep\<close>, \<open>Watchdog_Run\<close>, \<open>Loan_Facts\<close>: what an invocation,
    a claim, a sweep and a request on loans did; \<open>Loan_Messages\<close>: what such a request sends and
    queues; the locale \<open>counted_sends\<close> counts submissions.
  \<^item> \<open>Contract_Ledger\<close>: the locale \<open>contract_ledger\<close> of what the servers owe the backend where the contract
    behind them is the inheritance contract's model. \<open>Settlement_Chain\<close> builds servers that run it and
    interprets the locale on them; \<open>Service_Demo\<close> runs a sweep there, for the witnesses.
    \<open>Service_Properties\<close>: the properties of the backend.

  \<^bold>\<open>What the properties show.\<close> Solvency over every run: of every token the contract holds at
  least the deposits not lent, retained yield, reserves, collateral and insurance funds. Runs begin
  after a successful \<open>initialize\<close> of an empty contract, mix all calls with steps of other contracts
  that take nothing from it, and exclude only what \<open>solvency_safe\<close> names: \<open>liquidate\<close> and
  \<open>accrue_interest_with_reserve\<close>, a consolidation naming a loan twice, writing off a loan with
  collateral in another token, allocating reserves to the contract itself and a premium refund beyond
  the insurance fund; each of them really can leave the contract short. The share accounting
  holds with these calls included. Further: the effect of each pool operation on state and tokens;
  a depositor cannot profit from a deposit and a withdrawal alone, nor withdraw or borrow against a
  deposit in its ledger, whatever is called in between; loan ids are never used again, and a depositor can leave
  while the pool has the cash, in states of safe runs; a flash loan never costs the pool;
  guards of all entry points; rate curves against a reference on the rationals; projection and payment
  of plan yield; round trips of the printer and the error codes; supply, ownership and pause invariants
  of the small contracts. For the inheritance contract: on every run the vaults hold what the plans'
  totals say, as long as no yield is added to a total (an automatic or later compounding of a harvest,
  a batch of harvests, and leaving the pool with pending credit credit a plan while the tokens stay with
  the contract); plans stay well formed; recorded claims, closed disputes and finalized wills are never
  undone; a share is paid once; what a claim and a harvest do; the quorum of a guardian trigger; the
  calls that are stopped on frozen and held plans, and the automatic trigger, which is not; nothing is ever on loan. For the backend: each row a sweep leaves is explained by what the server reported while it
  ran; what a sweep newly records as triggered carries the hash of a transaction reported to it and is
  triggered in the contract's state, then and ever after, in every run of the contract; a trigger the contract
  already has is recorded as a failure; a sweep returns and submits a bounded number of transactions; what a
  settlement leaves and sends, and that requests for untriggered plans change nothing; the cache in memory
  answers a query only with what was stored for the same filters since the last invalidation. That every
  change of a plan invalidates the cache is not shown, as the watchdog's changes do not.

  \<^bold>\<open>Bounds and fuel.\<close> Every loop of the contracts' code is over a list, or over a number that the
  loop divides by ten or by two (the exponent in \<open>pow_loop\<close>); none needs fuel. Lists are as long as the
  caller makes them. In the backend the wait for a transaction may go on as long as the clock lets it:
  \<open>poll_transaction\<close> takes a bound on its polls and is \<open>Panic\<close> where that runs out; \<open>sweep_returns\<close> shows that one
  more than the poll interval fits into the timeout is enough.

  \<^bold>\<open>Not modelled.\<close> Log output; the rent of storage entries (time to live), so no entry expires;
  the resource limits of the host; the deployment of a new code version inside
  \<open>upgrade\<close>, of which only the contract's own checks and writes are modelled; that the host refuses a
  second \<open>require_auth\<close> of one address in one frame. Of the inheritance contract also
  \<open>invoke_governance_contract\<close>, a generic call of the host, \<open>hello\<close>, and the branches for tests. The
  storage keys for legal holds and frozen beneficiaries are only read by the code, and an exit
  settlement is only lowered by claims; in the model they are fields that nothing else writes.
  \<open>lending-contract/src/reentrancy.rs\<close> and \<open>safe_math.rs\<close>, \<open>yield_math_mock.rs\<close>,
  \<open>gas_optimization.rs\<close> of the inheritance contract belong to no module tree and are never compiled.
  Of the backend: the timer that starts sweeps, log lines and metrics, the Redis form of the cache, the
  delivery of webhooks, the probe of Horizon's root, and all other files: the request handlers of
  \<open>api.rs\<close>, authentication, reports, start-up. The XDR codec, keys and signatures are functions of the record
  \<open>stellar_lib\<close>; the servers are the record \<open>network\<close>, of which a theorem assumes only the laws it names.
\<close>

end
